(* ===== verification/Prelude.thy ===== *)
theory Prelude
  imports Main "HOL-Library.Sublist"
begin

text \<open>
  Shared by every component: errors as values, sequencing of steps that may throw, machines
  that run a list of steps until the first error (as locales, so that each component gets its
  run lemmas by interpretation), the text patterns the source checks with regular expressions,
  and lists indexed by a key.

  A thrown \<^verbatim>\<open>Error\<close> is \<open>Inl (JsError message)\<close>, a thrown
  \<^verbatim>\<open>WorkerFault\<close> is its code; a returned value is \<open>Inr\<close>. Strings are
  lists of bytes (the UTF-8 form of the text the source hashes and stores); every pattern the
  source tests is over ASCII, where bytes and UTF-16 units agree.
\<close>

named_theorems res_simps \<open>equations that invert a successful step\<close>

subsection \<open>Errors as values\<close>

datatype js_error = JsError string | JsTypeError

type_synonym 'a res = "js_error + 'a"

definition bindE :: "'e + 'a \<Rightarrow> ('a \<Rightarrow> 'e + 'b) \<Rightarrow> 'e + 'b" where
  "bindE r f = (case r of Inl e \<Rightarrow> Inl e | Inr x \<Rightarrow> f x)"

lemma bindE_Inl [simp]: "bindE (Inl e) f = Inl e"
  by (simp add: bindE_def)

lemma bindE_Inr [simp]: "bindE (Inr x) f = f x"
  by (simp add: bindE_def)

lemma bindE_eq_Inr [res_simps]: "bindE r f = Inr y \<longleftrightarrow> (\<exists>x. r = Inr x \<and> f x = Inr y)"
  by (cases r) auto

lemma bindE_eq_Inl: "bindE r f = Inl e \<longleftrightarrow> r = Inl e \<or> (\<exists>x. r = Inr x \<and> f x = Inl e)"
  by (cases r) auto

lemma if_Inl_eq_Inr [res_simps]: "(if c then Inl e else r) = Inr y \<longleftrightarrow> \<not> c \<and> r = Inr y"
  by simp

lemma if_Inr_eq_Inl: "(if c then Inr x else r) = Inl e \<longleftrightarrow> \<not> c \<and> r = Inl e"
  by simp

lemma case_option_Inl_eq_Inr [res_simps]:
  "(case x of None \<Rightarrow> Inl e | Some y \<Rightarrow> f y) = Inr z \<longleftrightarrow> (\<exists>y. x = Some y \<and> f y = Inr z)"
  by (cases x) auto

subsection \<open>Machines that stop at the first error\<close>

fun runE :: "('s \<Rightarrow> 'e \<Rightarrow> 'r + 's) \<Rightarrow> 's \<Rightarrow> 'e list \<Rightarrow> 'r + 's" where
  "runE step s [] = Inr s"
| "runE step s (e # es) = bindE (step s e) (\<lambda>s'. runE step s' es)"

lemma runE_append: "runE step s (xs @ ys) = bindE (runE step s xs) (\<lambda>s'. runE step s' ys)"
proof (induction xs arbitrary: s)
  case Nil
  show ?case by simp
next
  case (Cons x xs)
  show ?case by (cases "step s x") (simp_all add: Cons.IH)
qed

lemma runE_snoc: "runE step s (xs @ [x]) = bindE (runE step s xs) (\<lambda>s'. step s' x)"
proof -
  have "bindE (step s' x) Inr = step s' x" for s'
    by (cases "step s' x") simp_all
  then show ?thesis by (simp add: runE_append)
qed

text \<open>
  A machine with an invariant. A client interprets it with its step and its well-formedness
  predicate and gets the fact for whole runs.
\<close>

locale inv_machine =
  fixes step :: "'s \<Rightarrow> 'e \<Rightarrow> 'r + 's"
    and inv :: "'s \<Rightarrow> bool"
  assumes step_inv: "step s e = Inr s' \<Longrightarrow> inv s \<Longrightarrow> inv s'"
begin

lemma run_inv: "runE step s es = Inr s' \<Longrightarrow> inv s \<Longrightarrow> inv s'"
proof (induction es arbitrary: s)
  case Nil
  then show ?case by simp
next
  case (Cons e es)
  then show ?case by (auto simp: bindE_eq_Inr intro: step_inv)
qed

lemma run_inv_prefix:
  assumes "runE step s (xs @ ys) = Inr s'" and "inv s"
  obtains t where "runE step s xs = Inr t" and "inv t" and "runE step t ys = Inr s'"
  using assms by (auto simp: runE_append bindE_eq_Inr intro: run_inv)

end

text \<open>
  A machine whose steps only move along a preorder (an append-only list, a rank, a state that
  is never left).
\<close>

locale mono_machine =
  fixes step :: "'s \<Rightarrow> 'e \<Rightarrow> 'r + 's"
    and le :: "'s \<Rightarrow> 's \<Rightarrow> bool"
  assumes le_refl: "le s s"
    and le_trans: "le s t \<Longrightarrow> le t u \<Longrightarrow> le s u"
    and step_le: "step s e = Inr s' \<Longrightarrow> le s s'"
begin

lemma run_le: "runE step s es = Inr s' \<Longrightarrow> le s s'"
proof (induction es arbitrary: s)
  case Nil
  then show ?case by (simp add: le_refl)
next
  case (Cons e es)
  then show ?case by (auto simp: bindE_eq_Inr dest: step_le intro: le_trans)
qed

end

subsection \<open>Text patterns\<close>

definition char_code :: "char \<Rightarrow> nat" where
  "char_code c = of_char c"

definition is_digit :: "char \<Rightarrow> bool" where
  "is_digit c \<longleftrightarrow> 48 \<le> char_code c \<and> char_code c \<le> 57"

definition is_lower_hex :: "char \<Rightarrow> bool" where
  "is_lower_hex c \<longleftrightarrow> is_digit c \<or> 97 \<le> char_code c \<and> char_code c \<le> 102"

definition is_ident_char :: "char \<Rightarrow> bool" where
  "is_ident_char c \<longleftrightarrow>
     is_digit c \<or> 65 \<le> char_code c \<and> char_code c \<le> 90 \<or> 97 \<le> char_code c \<and> char_code c \<le> 122 \<or>
     c = CHR ''_'' \<or> c = CHR ''.'' \<or> c = CHR ''-''"

text \<open>\<^verbatim>\<open>/^[a-f0-9]{n}$/\<close> and \<^verbatim>\<open>/^[A-Za-z0-9_.-]{1,128}$/\<close>.\<close>

definition is_hex :: "nat \<Rightarrow> string \<Rightarrow> bool" where
  "is_hex n s \<longleftrightarrow> length s = n \<and> list_all is_lower_hex s"

abbreviation is_digest :: "string \<Rightarrow> bool" where
  "is_digest \<equiv> is_hex 64"

definition is_identifier :: "string \<Rightarrow> bool" where
  "is_identifier s \<longleftrightarrow> 1 \<le> length s \<and> length s \<le> 128 \<and> list_all is_ident_char s"

text \<open>\<^verbatim>\<open>Number.isSafeInteger\<close> on the integers of the model.\<close>

definition max_safe_integer :: int where
  "max_safe_integer = 9007199254740991"

definition is_safe_integer :: "int \<Rightarrow> bool" where
  "is_safe_integer n \<longleftrightarrow> - max_safe_integer \<le> n \<and> n \<le> max_safe_integer"

definition starts_with :: "string \<Rightarrow> string \<Rightarrow> bool" where
  "starts_with s p \<longleftrightarrow> take (length p) s = p"

lemma starts_with_iff: "starts_with s p \<longleftrightarrow> (\<exists>rest. s = p @ rest)"
  unfolding starts_with_def by (metis append_eq_conv_conj append_take_drop_id)

lemmas pattern_defs = is_hex_def is_identifier_def is_ident_char_def is_lower_hex_def is_digit_def
  char_code_def is_safe_integer_def max_safe_integer_def

subsection \<open>Lists searched by a predicate\<close>

lemma find_Some_in: "List.find P xs = Some x \<Longrightarrow> x \<in> set xs \<and> P x"
  by (auto simp: find_Some_iff)

lemma find_append: "List.find P (xs @ ys) = (case List.find P xs of None \<Rightarrow> List.find P ys | Some x \<Rightarrow> Some x)"
  by (induction xs) auto

text \<open>\<^verbatim>\<open>matches.length === 1 ? matches[0] : null\<close>.\<close>

definition the_single :: "'a list \<Rightarrow> 'a option" where
  "the_single xs = (case xs of [x] \<Rightarrow> Some x | _ \<Rightarrow> None)"

lemma the_single_Some [simp]: "the_single xs = Some x \<longleftrightarrow> xs = [x]"
  by (auto simp: the_single_def split: list.splits)

end
