(* ===== verification/Js_Json.thy ===== *)
theory Js_Json
  imports Prelude
begin

text \<open>
  JSON values and the parts of the language runtime the source applies to them: property
  reads, strict equality, \<^verbatim>\<open>Number(x)\<close> and \<^verbatim>\<open>JSON.stringify\<close>.
  An event payload (\<^verbatim>\<open>Record<string, unknown>\<close>) is a \<open>JObj\<close>; a property
  that is absent reads as \<open>None\<close> (\<^verbatim>\<open>undefined\<close>). Numbers are the integers
  (every number the authority writes is one); \<^verbatim>\<open>NaN\<close> never occurs inside a JSON
  value and is \<open>None\<close> where \<^verbatim>\<open>Number\<close> makes it.

  The main fact is that \<^verbatim>\<open>JSON.stringify\<close> is injective, so a digest of canonical
  bytes binds every field up to a collision of the hash.
\<close>

datatype json =
    JNull
  | JBool bool
  | JNum int
  | JStr string
  | JArr "json list"
  | JObj "(string \<times> json) list"

subsection \<open>Reading properties\<close>

fun jfield :: "json \<Rightarrow> string \<Rightarrow> json option" where
  "jfield (JObj kvs) k = map_of kvs k"
| "jfield _ k = None"

text \<open>\<^verbatim>\<open>typeof x === "string" ? x : null\<close> and its kin.\<close>

fun str_or_null :: "json option \<Rightarrow> string option" where
  "str_or_null (Some (JStr s)) = Some s"
| "str_or_null _ = None"

fun num_or_null :: "json option \<Rightarrow> int option" where
  "num_or_null (Some (JNum n)) = Some n"
| "num_or_null _ = None"

fun is_object :: "json option \<Rightarrow> bool" where
  "is_object (Some (JObj _)) = True"
| "is_object (Some (JArr _)) = True"
| "is_object _ = False"

text \<open>\<^verbatim>\<open>Array.isArray(x) ? x.filter((v) => typeof v === "string") : []\<close>.\<close>

fun string_items :: "json option \<Rightarrow> string list" where
  "string_items (Some (JArr xs)) = List.map_filter (\<lambda>v. str_or_null (Some v)) xs"
| "string_items _ = []"

definition is_true :: "json option \<Rightarrow> bool" where
  "is_true v \<longleftrightarrow> v = Some (JBool True)"

text \<open>
  \<^verbatim>\<open>Number(x)\<close>. A string converts when, trimmed, it is empty or a decimal integer;
  every other literal form and every object is taken as \<^verbatim>\<open>NaN\<close>.
\<close>

definition is_js_space :: "char \<Rightarrow> bool" where
  "is_js_space c \<longleftrightarrow> char_code c = 32 \<or> 9 \<le> char_code c \<and> char_code c \<le> 13"

definition trim_js :: "string \<Rightarrow> string" where
  "trim_js s = rev (dropWhile is_js_space (rev (dropWhile is_js_space s)))"

definition digits_value :: "string \<Rightarrow> int" where
  "digits_value s = foldl (\<lambda>n c. 10 * n + (int (char_code c) - 48)) 0 s"

definition unsigned_number :: "string \<Rightarrow> int option" where
  "unsigned_number s = (if s \<noteq> [] \<and> list_all is_digit s then Some (digits_value s) else None)"

definition string_number :: "string \<Rightarrow> int option" where
  "string_number s =
     (case trim_js s of
        [] \<Rightarrow> Some 0
      | c # cs \<Rightarrow>
          if c = CHR ''-'' then map_option uminus (unsigned_number cs)
          else if c = CHR ''+'' then unsigned_number cs
          else unsigned_number (c # cs))"

fun js_number :: "json option \<Rightarrow> int option" where
  "js_number (Some JNull) = Some 0"
| "js_number (Some (JBool b)) = Some (if b then 1 else 0)"
| "js_number (Some (JNum n)) = Some n"
| "js_number (Some (JStr s)) = string_number s"
| "js_number _ = None"

subsection \<open>JSON.stringify\<close>

fun nat_digits :: "nat \<Rightarrow> string" where
  "nat_digits n =
     (if n < 10 then [char_of (48 + n)] else nat_digits (n div 10) @ [char_of (48 + n mod 10)])"

declare nat_digits.simps [simp del]

definition int_text :: "int \<Rightarrow> string" where
  "int_text i = (if i < 0 then CHR ''-'' # nat_digits (nat (- i)) else nat_digits (nat i))"

definition hex_digit :: "nat \<Rightarrow> char" where
  "hex_digit n = (if n < 10 then char_of (48 + n) else char_of (87 + n))"

text \<open>The escapes of a JSON string: \<open>\<^verbatim>\<open>\"\<close>\<close>, \<open>\<^verbatim>\<open>\\\<close>\<close>, the short control escapes and
  \<^verbatim>\<open>\u00xx\<close> for the other bytes below 32.\<close>

definition backslash :: char where
  "backslash = CHR 0x5C"

definition dquote :: char where
  "dquote = CHR 0x22"

definition escape_char :: "char \<Rightarrow> string" where
  "escape_char c =
     (if c = dquote then [backslash, dquote]
      else if c = backslash then [backslash, backslash]
      else if c = CHR 0x08 then [backslash, CHR ''b'']
      else if c = CHR 0x09 then [backslash, CHR ''t'']
      else if c = CHR 0x0A then [backslash, CHR ''n'']
      else if c = CHR 0x0C then [backslash, CHR ''f'']
      else if c = CHR 0x0D then [backslash, CHR ''r'']
      else if char_code c < 32 then
        [backslash, CHR ''u'', CHR ''0'', CHR ''0'',
         hex_digit (char_code c div 16), hex_digit (char_code c mod 16)]
      else [c])"

definition quoted :: "string \<Rightarrow> string" where
  "quoted s = dquote # concat (map escape_char s) @ [dquote]"

fun stringify :: "json \<Rightarrow> string"
  and stringify_items :: "json list \<Rightarrow> string"
  and stringify_members :: "(string \<times> json) list \<Rightarrow> string" where
  "stringify JNull = ''null''"
| "stringify (JBool b) = (if b then ''true'' else ''false'')"
| "stringify (JNum n) = int_text n"
| "stringify (JStr s) = quoted s"
| "stringify (JArr xs) = CHR ''['' # stringify_items xs"
| "stringify (JObj kvs) = CHR ''{'' # stringify_members kvs"
| "stringify_items [] = '']''"
| "stringify_items [x] = stringify x @ '']''"
| "stringify_items (x # y # xs) = stringify x @ CHR '','' # stringify_items (y # xs)"
| "stringify_members [] = ''}''"
| "stringify_members [(k, x)] = quoted k @ CHR '':'' # stringify x @ ''}''"
| "stringify_members ((k, x) # y # xs) =
     quoted k @ CHR '':'' # stringify x @ CHR '','' # stringify_members (y # xs)"


subsection \<open>Decimal text\<close>

lemma char_code_of [simp]: "n < 256 \<Longrightarrow> char_code (char_of n) = n"
  by (simp add: char_code_def take_bit_eq_mod)

lemma char_code_inj: "char_code c = char_code d \<longleftrightarrow> c = d"
  by (simp add: char_code_def)

lemma nat_digits_digits: "list_all is_digit (nat_digits n)"
proof (induction n rule: nat_digits.induct)
  case (1 n)
  then show ?case
    by (subst nat_digits.simps) (auto simp: is_digit_def [abs_def])
qed

lemma nat_digits_nonempty [simp]: "nat_digits n \<noteq> []"
  by (subst nat_digits.simps) simp

lemma digits_value_snoc: "digits_value (s @ [c]) = 10 * digits_value s + (int (char_code c) - 48)"
  by (simp add: digits_value_def)

lemma digits_value_nat_digits [simp]: "digits_value (nat_digits n) = int n"
proof (induction n rule: nat_digits.induct)
  case (1 n)
  show ?case
  proof (cases "n < 10")
    case True
    then show ?thesis
      by (subst nat_digits.simps) (simp add: digits_value_def)
  next
    case False
    have "10 * int (n div 10) + int (n mod 10) = int n"
      by (simp add: zdiv_int zmod_int)
    with False 1 show ?thesis
      by (subst nat_digits.simps) (simp add: digits_value_snoc)
  qed
qed

text \<open>A digit run ends where the next character is no digit.\<close>

definition stops :: "string \<Rightarrow> bool" where
  "stops r \<longleftrightarrow> (case r of [] \<Rightarrow> True | c # _ \<Rightarrow> \<not> is_digit c)"

lemma takeWhile_digits: "list_all is_digit ds \<Longrightarrow> stops r \<Longrightarrow> takeWhile is_digit (ds @ r) = ds"
  by (induction ds) (auto simp: stops_def split: list.splits)

lemma nat_digits_unique:
  assumes "nat_digits m @ r = nat_digits n @ r'" and "stops r" and "stops r'"
  shows "m = n \<and> r = r'"
proof -
  have "nat_digits m = nat_digits n"
    using assms by (metis nat_digits_digits takeWhile_digits)
  moreover from this have "m = n"
    by (metis digits_value_nat_digits of_nat_eq_iff)
  ultimately show ?thesis using assms(1) by simp
qed

lemma hd_nat_digits: "is_digit (hd (nat_digits n))"
  using nat_digits_digits [of n] nat_digits_nonempty [of n] by (cases "nat_digits n") auto

lemma minus_no_digit [simp]: "\<not> is_digit (CHR ''-'')"
  by (simp add: is_digit_def char_code_def)

lemma nat_digits_head: "nat_digits n = c # cs \<Longrightarrow> is_digit c"
  using hd_nat_digits [of n] by simp

lemma int_text_unique:
  assumes eq: "int_text i @ r = int_text j @ r'" and st: "stops r" "stops r'"
  shows "i = j \<and> r = r'"
proof -
  have digits_minus: "nat_digits m @ s \<noteq> CHR ''-'' # t" for m s t
    by (cases "nat_digits m") (auto dest: nat_digits_head)
  show ?thesis
  proof (cases "i < 0 \<longleftrightarrow> j < 0")
    case True
    with eq have d: "nat_digits (nat \<bar>i\<bar>) @ r = nat_digits (nat \<bar>j\<bar>) @ r'"
      by (auto simp: int_text_def split: if_splits)
    from nat_digits_unique [OF d st] have "nat \<bar>i\<bar> = nat \<bar>j\<bar>" and r: "r = r'"
      by simp_all
    then have "\<bar>i\<bar> = \<bar>j\<bar>" by simp
    with True r show ?thesis by auto
  next
    case False
    with eq digits_minus digits_minus [symmetric] show ?thesis
      by (auto simp: int_text_def split: if_splits)
  qed
qed

text \<open>Reading the decimal text of a number back gives the number.\<close>

lemma digit_no_space: "is_digit c \<Longrightarrow> \<not> is_js_space c"
  by (auto simp: is_digit_def is_js_space_def)

lemma trim_js_id:
  assumes "s \<noteq> []" and "\<not> is_js_space (hd s)" and "\<not> is_js_space (last s)"
  shows "trim_js s = s"
proof -
  have "dropWhile is_js_space s = s"
    using assms by (cases s) auto
  moreover have "dropWhile is_js_space (rev s) = rev s"
    using assms by (cases s rule: rev_cases) auto
  ultimately show ?thesis by (simp add: trim_js_def)
qed

lemma last_nat_digits: "is_digit (last (nat_digits n))"
  using nat_digits_digits [of n] nat_digits_nonempty [of n]
  by (metis last_in_set list.pred_set)

lemma string_number_int_text: "string_number (int_text i) = Some i"
proof (cases "i < 0")
  case True
  then have "trim_js (int_text i) = int_text i"
    by (intro trim_js_id)
      (auto simp: int_text_def is_js_space_def char_code_def last_nat_digits digit_no_space [unfolded is_js_space_def char_code_def])
  with True show ?thesis
    by (simp add: string_number_def int_text_def unsigned_number_def nat_digits_digits)
next
  case False
  then have "trim_js (int_text i) = int_text i"
    by (intro trim_js_id) (simp_all add: int_text_def hd_nat_digits last_nat_digits digit_no_space)
  moreover obtain c cs where d: "nat_digits (nat i) = c # cs"
    by (cases "nat_digits (nat i)") auto
  moreover have "is_digit c" using d by (rule nat_digits_head)
  ultimately show ?thesis
    using False nat_digits_digits [of "nat i"] digits_value_nat_digits [of "nat i"]
    by (auto simp: string_number_def int_text_def unsigned_number_def is_digit_def char_code_def)
qed

subsection \<open>JSON.stringify is uniquely readable\<close>

text \<open>Undoing one escape: the reader that makes \<open>escape_char\<close> injective with any continuation.\<close>

definition hex_value :: "char \<Rightarrow> nat" where
  "hex_value c = (if char_code c < 58 then char_code c - 48 else char_code c - 87)"

definition short_escape :: "char \<Rightarrow> char" where
  "short_escape c =
     (if c = CHR ''b'' then CHR 0x08 else if c = CHR ''t'' then CHR 0x09
      else if c = CHR ''n'' then CHR 0x0A else if c = CHR ''f'' then CHR 0x0C
      else if c = CHR ''r'' then CHR 0x0D else c)"

fun unescape_head :: "string \<Rightarrow> (char \<times> string) option" where
  "unescape_head (c # s) =
     (if c \<noteq> backslash then Some (c, s)
      else (case s of
          d # t \<Rightarrow>
            if d = CHR ''u''
            then (case t of _ # _ # h # l # u \<Rightarrow> Some (char_of (16 * hex_value h + hex_value l), u) | _ \<Rightarrow> None)
            else Some (short_escape d, t)
        | [] \<Rightarrow> None))"
| "unescape_head [] = None"

lemma hex_value_hex_digit [simp]: "n < 16 \<Longrightarrow> hex_value (hex_digit n) = n"
  by (simp add: hex_value_def hex_digit_def)

lemma char_of_char_code [simp]: "char_of (char_code c) = c"
  by (simp add: char_code_def)

lemma unescape_head_escape: "unescape_head (escape_char c @ r) = Some (c, r)"
proof (cases "c = dquote \<or> c = backslash \<or> c \<in> {CHR 0x08, CHR 0x09, CHR 0x0A, CHR 0x0C, CHR 0x0D}")
  case True
  then consider "c = dquote" | "c = backslash" | "c = CHR 0x08" | "c = CHR 0x09" | "c = CHR 0x0A"
    | "c = CHR 0x0C" | "c = CHR 0x0D"
    by blast
  then show ?thesis
    by cases (simp_all add: escape_char_def dquote_def backslash_def short_escape_def char_code_def)
next
  case False
  show ?thesis
  proof (cases "char_code c < 32")
    case True
    then have "char_code c div 16 < 16" by simp
    with True False show ?thesis by (simp add: escape_char_def)
  next
    case no_escape: False
    with False show ?thesis by (simp add: escape_char_def)
  qed
qed

lemma escape_char_inj:
  assumes "escape_char c @ r = escape_char d @ r'"
  shows "c = d \<and> r = r'"
proof -
  have "unescape_head (escape_char c @ r) = unescape_head (escape_char d @ r')"
    using assms by (rule arg_cong)
  then show ?thesis by (simp only: unescape_head_escape option.inject prod.inject)
qed

lemma escape_char_not_dquote: "escape_char c @ r \<noteq> dquote # t"
  by (auto simp: escape_char_def dquote_def backslash_def char_code_def split: if_splits)

lemma escaped_unique:
  "concat (map escape_char s) @ dquote # r = concat (map escape_char t) @ dquote # r' \<Longrightarrow>
     s = t \<and> r = r'"
proof (induction s arbitrary: t)
  case Nil
  then show ?case
    by (cases t) (auto dest: escape_char_not_dquote [THEN notE, OF sym])
next
  case (Cons c s)
  show ?case
  proof (cases t)
    case Nil
    with Cons.prems show ?thesis by (auto dest: escape_char_not_dquote [THEN notE])
  next
    case (Cons d ds)
    with Cons.prems have "c = d"
      and "concat (map escape_char s) @ dquote # r = concat (map escape_char ds) @ dquote # r'"
      by (auto dest: escape_char_inj)
    with Cons Cons.IH show ?thesis by auto
  qed
qed

lemma quoted_unique: "quoted s @ r = quoted t @ r' \<Longrightarrow> s = t \<and> r = r'"
  by (auto simp: quoted_def dest: escaped_unique)

lemma stops_Cons [simp]: "stops (c # r) \<longleftrightarrow> \<not> is_digit c"
  by (simp add: stops_def)

lemma stops_Nil [simp]: "stops []"
  by (simp add: stops_def)

lemma int_text_head: "int_text i = c # cs \<Longrightarrow> is_digit c \<or> c = CHR ''-''"
  by (auto simp: int_text_def dest: nat_digits_head split: if_splits)

lemma int_text_nonempty [simp]: "int_text i \<noteq> []"
  by (simp add: int_text_def)

lemma quoted_head [simp]: "quoted s = dquote # concat (map escape_char s) @ [dquote]"
  by (simp add: quoted_def)

text \<open>The first character of a JSON text names its kind.\<close>

datatype json_kind = KNull | KTrue | KFalse | KNum | KStr | KArr | KObj

fun kind_of :: "json \<Rightarrow> json_kind" where
  "kind_of JNull = KNull"
| "kind_of (JBool b) = (if b then KTrue else KFalse)"
| "kind_of (JNum _) = KNum"
| "kind_of (JStr _) = KStr"
| "kind_of (JArr _) = KArr"
| "kind_of (JObj _) = KObj"

definition kind_of_char :: "char \<Rightarrow> json_kind option" where
  "kind_of_char c =
     (if c = CHR ''n'' then Some KNull else if c = CHR ''t'' then Some KTrue
      else if c = CHR ''f'' then Some KFalse else if is_digit c \<or> c = CHR ''-'' then Some KNum
      else if c = dquote then Some KStr else if c = CHR ''['' then Some KArr
      else if c = CHR ''{'' then Some KObj else None)"

lemma stringify_nonempty [simp]: "stringify j \<noteq> []"
  by (cases j) auto

lemma kind_of_head: "kind_of_char (hd (stringify j)) = Some (kind_of j)"
proof (cases j)
  case (JNum n)
  then obtain c cs where c: "int_text n = c # cs" by (cases "int_text n") auto
  then have "is_digit c \<or> c = CHR ''-''" by (rule int_text_head)
  then show ?thesis
    using JNum c by (auto simp: kind_of_char_def is_digit_def char_code_def)
qed (auto simp: kind_of_char_def is_digit_def char_code_def dquote_def)

lemma stringify_same_kind: "stringify i @ r = stringify j @ r' \<Longrightarrow> kind_of i = kind_of j"
proof -
  assume "stringify i @ r = stringify j @ r'"
  then have "hd (stringify i) = hd (stringify j)" by (metis hd_append2 stringify_nonempty)
  then show ?thesis using kind_of_head by (metis option.inject)
qed

lemma hd_stringify_no_close: "stringify j @ r \<noteq> CHR '']'' # t"
proof
  assume "stringify j @ r = CHR '']'' # t"
  then have "hd (stringify j) = CHR '']''" by (metis hd_append2 list.sel(1) stringify_nonempty)
  then show False using kind_of_head [of j]
    by (auto simp: kind_of_char_def is_digit_def char_code_def dquote_def)
qed

definition items_tail :: "json list \<Rightarrow> string" where
  "items_tail xs = (if xs = [] then '']'' else CHR '','' # stringify_items xs)"

definition members_tail :: "(string \<times> json) list \<Rightarrow> string" where
  "members_tail xs = (if xs = [] then ''}'' else CHR '','' # stringify_members xs)"

lemma stringify_items_Cons: "stringify_items (x # xs) = stringify x @ items_tail xs"
  by (cases xs) (simp_all add: items_tail_def)

lemma stringify_members_Cons:
  "stringify_members ((k, x) # xs) = quoted k @ CHR '':'' # stringify x @ members_tail xs"
  by (cases xs) (simp_all add: members_tail_def)

lemma stops_tails [simp]: "stops (items_tail xs @ r)" "stops (members_tail kvs @ r)"
  by (simp_all add: items_tail_def members_tail_def is_digit_def char_code_def)

lemma items_tail_unique:
  assumes "items_tail xs @ r = items_tail ys @ r'"
    and "xs \<noteq> [] \<Longrightarrow> stringify_items xs @ r = stringify_items ys @ r' \<Longrightarrow> xs = ys \<and> r = r'"
  shows "xs = ys \<and> r = r'"
  using assms by (auto simp: items_tail_def split: if_splits)

lemma members_tail_unique:
  assumes "members_tail xs @ r = members_tail ys @ r'"
    and "xs \<noteq> [] \<Longrightarrow> stringify_members xs @ r = stringify_members ys @ r' \<Longrightarrow> xs = ys \<and> r = r'"
  shows "xs = ys \<and> r = r'"
  using assms by (auto simp: members_tail_def split: if_splits)

lemma stringify_items_Nil_unique: "'']'' @ r = stringify_items ys @ r' \<Longrightarrow> ys = [] \<and> r = r'"
  by (cases ys) (auto simp: stringify_items_Cons dest: hd_stringify_no_close [THEN notE, OF sym])

lemma stringify_members_Nil_unique: "''}'' @ r = stringify_members ys @ r' \<Longrightarrow> ys = [] \<and> r = r'"
  by (cases ys) (auto simp: stringify_members_Cons dquote_def)

lemma stringify_items_step:
  assumes IHx: "\<And>j' r r'. stringify x @ r = stringify j' @ r' \<Longrightarrow> stops r \<Longrightarrow> stops r' \<Longrightarrow> x = j' \<and> r = r'"
    and IHxs: "\<And>ys r r'. xs \<noteq> [] \<Longrightarrow> stringify_items xs @ r = stringify_items ys @ r' \<Longrightarrow> xs = ys \<and> r = r'"
    and eq: "stringify_items (x # xs) @ r = stringify_items ys @ r'"
  shows "x # xs = ys \<and> r = r'"
proof (cases ys)
  case Nil
  with eq show ?thesis by (auto simp: stringify_items_Cons dest: hd_stringify_no_close [THEN notE])
next
  case (Cons y ys')
  with eq have "stringify x @ items_tail xs @ r = stringify y @ items_tail ys' @ r'"
    by (simp add: stringify_items_Cons)
  from IHx [OF this] have "x = y" and tl: "items_tail xs @ r = items_tail ys' @ r'"
    by simp_all
  with items_tail_unique [OF tl] IHxs Cons show ?thesis by auto
qed

lemma stringify_members_step:
  assumes IHx: "\<And>j' r r'. stringify x @ r = stringify j' @ r' \<Longrightarrow> stops r \<Longrightarrow> stops r' \<Longrightarrow> x = j' \<and> r = r'"
    and IHxs: "\<And>ys r r'. xs \<noteq> [] \<Longrightarrow> stringify_members xs @ r = stringify_members ys @ r' \<Longrightarrow> xs = ys \<and> r = r'"
    and eq: "stringify_members ((k, x) # xs) @ r = stringify_members ys @ r'"
  shows "(k, x) # xs = ys \<and> r = r'"
proof (cases ys)
  case Nil
  with eq show ?thesis by (simp add: stringify_members_Cons dquote_def)
next
  case (Cons y ys')
  obtain l z where y: "y = (l, z)" by (cases y)
  from eq Cons y have
    "quoted k @ CHR '':'' # stringify x @ members_tail xs @ r =
     quoted l @ CHR '':'' # stringify z @ members_tail ys' @ r'"
    by (simp only: stringify_members_Cons append_assoc append_Cons)
  from quoted_unique [OF this] have "k = l"
    and "stringify x @ members_tail xs @ r = stringify z @ members_tail ys' @ r'"
    by simp_all
  from IHx [OF this(2)] have "x = z" and tl: "members_tail xs @ r = members_tail ys' @ r'"
    by simp_all
  with members_tail_unique [OF tl] IHxs Cons y \<open>k = l\<close> show ?thesis by auto
qed

lemma stringify_unique_aux:
  "stringify j @ r = stringify j' @ r' \<Longrightarrow> stops r \<Longrightarrow> stops r' \<Longrightarrow> j = j' \<and> r = r'"
  "stringify_items xs @ r = stringify_items ys @ r' \<Longrightarrow> xs = ys \<and> r = r'"
  "stringify_members kvs @ r = stringify_members kvs' @ r' \<Longrightarrow> kvs = kvs' \<and> r = r'"
proof (induction j and xs and kvs arbitrary: j' r r' and ys r r' and kvs' r r'
    rule: stringify_stringify_items_stringify_members.induct)
  case 1
  then have "kind_of JNull = kind_of j'" by (blast dest: stringify_same_kind)
  with 1 show ?case by (cases j') (auto split: if_splits)
next
  case (2 b)
  then have "kind_of (JBool b) = kind_of j'" by (blast dest: stringify_same_kind)
  with 2 show ?case by (cases j') (auto split: if_splits)
next
  case (3 n)
  then have "kind_of (JNum n) = kind_of j'" by (blast dest: stringify_same_kind)
  with 3 show ?case by (cases j') (auto dest: int_text_unique split: if_splits)
next
  case (4 s)
  then have "kind_of (JStr s) = kind_of j'" by (blast dest: stringify_same_kind)
  with 4 show ?case by (cases j') (auto simp del: quoted_head dest: quoted_unique split: if_splits)
next
  case (5 xs)
  from "5.prems"(1) have "kind_of (JArr xs) = kind_of j'" by (rule stringify_same_kind)
  then obtain z where z: "j' = JArr z" by (cases j') (auto split: if_splits)
  from "5.prems"(1) have "stringify_items xs @ r = stringify_items z @ r'"
    by (simp add: z)
  from "5.IH" [OF this] show ?case by (simp add: z)
next
  case (6 kvs)
  from "6.prems"(1) have "kind_of (JObj kvs) = kind_of j'" by (rule stringify_same_kind)
  then obtain z where z: "j' = JObj z" by (cases j') (auto split: if_splits)
  from "6.prems"(1) have "stringify_members kvs @ r = stringify_members z @ r'"
    by (simp add: z)
  from "6.IH" [OF this] show ?case by (simp add: z)
next
  case 7
  then show ?case using stringify_items_Nil_unique by fastforce
next
  case (8 x)
  from stringify_items_step [OF "8.IH" _ "8.prems"] show ?case by simp
next
  case (9 x y xs)
  from stringify_items_step [OF "9.IH"(1) _ "9.prems"] "9.IH"(2) show ?case by blast
next
  case 10
  then show ?case using stringify_members_Nil_unique by fastforce
next
  case (11 k x)
  from stringify_members_step [OF "11.IH" _ "11.prems"] show ?case by simp
next
  case (12 k x y xs)
  from stringify_members_step [OF "12.IH"(1) _ "12.prems"] "12.IH"(2) show ?case by blast
qed

theorem stringify_inj: "stringify i = stringify j \<Longrightarrow> i = j"
  using stringify_unique_aux(1) [of i "[]" j "[]"] by simp

lemma stringify_eq_iff [simp]: "stringify i = stringify j \<longleftrightarrow> i = j"
  by (auto dest: stringify_inj)

text \<open>
  A collision among named texts. Every hash of a fixed length has collisions somewhere, so the
  binding facts below name the texts: "the digests agree, so the values agree or these very
  texts collide". Nothing is assumed of the hash.
\<close>

definition collision_in :: "(string \<Rightarrow> string) \<Rightarrow> string set \<Rightarrow> bool" where
  "collision_in H T \<longleftrightarrow> (\<exists>x \<in> T. \<exists>y \<in> T. x \<noteq> y \<and> H x = H y)"

lemma hash_binds: "H (stringify i) = H (stringify j) \<Longrightarrow> i = j \<or> collision_in H {stringify i, stringify j}"
  using stringify_inj [of i j] unfolding collision_in_def by blast

lemma collision_in_mono: "collision_in H S \<Longrightarrow> S \<subseteq> T \<Longrightarrow> collision_in H T"
  unfolding collision_in_def by blast

lemma collision_in_UnI: "collision_in H S \<Longrightarrow> collision_in H (S \<union> T)" "collision_in H T \<Longrightarrow> collision_in H (S \<union> T)"
  by (erule collision_in_mono, simp)+

lemma inj_on_no_collision: "inj_on H T \<Longrightarrow> \<not> collision_in H T"
  by (auto simp: collision_in_def inj_on_def)

declare stringify.simps [simp del] stringify_items.simps [simp del] stringify_members.simps [simp del]

end
