(* ===== verification/State_View.thy ===== *)
theory State_View
  imports Js_Json
begin

text \<open>
  The StateView (\<^verbatim>\<open>state-view.ts\<close>, \<^verbatim>\<open>commitgate/protocol.ts\<close>): the complete
  reference to an authoritative state, whose \<open>viewId\<close> is the digest of all its other fields
  in a fixed order. SHA-256 of a text, in hex, is the parameter \<open>H\<close> of every definition that
  hashes. Facts: the two implementations of the id agree, the id binds every field up to a
  collision of \<open>H\<close> on the two texts (so a view at another generation has another id even over the same bytes),
  and a view survives the event log (\<open>as_view\<close> after \<open>view_json\<close>).
\<close>

record state_view_input =
  view_agentId :: string
  headVersionId :: string
  generation :: int
  versionedHash :: string
  platformManagedHash :: string
  liveStateHash :: string
  sessionEpoch :: int
  agentConfigVersion :: int
  policyVersion :: int

record state_view = state_view_input +
  view_schemaVersion :: int
  viewId :: string

definition EMPTY_STATE_HASH :: string where
  "EMPTY_STATE_HASH = replicate 64 (CHR ''0'')"

definition state_view_canonical :: "'a state_view_input_scheme \<Rightarrow> json" where
  "state_view_canonical v = JObj
     [(''schemaVersion'', JNum 1),
      (''agentId'', JStr (view_agentId v)),
      (''headVersionId'', JStr (headVersionId v)),
      (''generation'', JNum (generation v)),
      (''versionedHash'', JStr (versionedHash v)),
      (''platformManagedHash'', JStr (platformManagedHash v)),
      (''liveStateHash'', JStr (liveStateHash v)),
      (''sessionEpoch'', JNum (sessionEpoch v)),
      (''agentConfigVersion'', JNum (agentConfigVersion v)),
      (''policyVersion'', JNum (policyVersion v))]"

definition computeStateViewId :: "(string \<Rightarrow> string) \<Rightarrow> 'a state_view_input_scheme \<Rightarrow> string" where
  "computeStateViewId H v = H (stringify (state_view_canonical v))"

definition makeStateView :: "(string \<Rightarrow> string) \<Rightarrow> state_view_input \<Rightarrow> state_view" where
  "makeStateView H i =
     \<lparr>view_agentId = view_agentId i, headVersionId = headVersionId i, generation = generation i,
      versionedHash = versionedHash i, platformManagedHash = platformManagedHash i,
      liveStateHash = liveStateHash i, sessionEpoch = sessionEpoch i,
      agentConfigVersion = agentConfigVersion i, policyVersion = policyVersion i,
      view_schemaVersion = 1, viewId = computeStateViewId H i\<rparr>"

text \<open>The check of \<^verbatim>\<open>assertView\<close> (worker) and \<^verbatim>\<open>assertProjectedView\<close> (projection).\<close>

definition view_ok :: "(string \<Rightarrow> string) \<Rightarrow> state_view \<Rightarrow> bool" where
  "view_ok H v \<longleftrightarrow> view_schemaVersion v = 1 \<and> computeStateViewId H v = viewId v"

subsection \<open>Views inside event payloads\<close>

definition view_json :: "state_view \<Rightarrow> json" where
  "view_json v = JObj
     [(''schemaVersion'', JNum (view_schemaVersion v)),
      (''viewId'', JStr (viewId v)),
      (''agentId'', JStr (view_agentId v)),
      (''headVersionId'', JStr (headVersionId v)),
      (''generation'', JNum (generation v)),
      (''versionedHash'', JStr (versionedHash v)),
      (''platformManagedHash'', JStr (platformManagedHash v)),
      (''liveStateHash'', JStr (liveStateHash v)),
      (''sessionEpoch'', JNum (sessionEpoch v)),
      (''agentConfigVersion'', JNum (agentConfigVersion v)),
      (''policyVersion'', JNum (policyVersion v))]"

text \<open>
  \<^verbatim>\<open>payload.view as StateViewRef\<close>: the cast itself checks nothing. The model reads the
  declared fields at their declared types and takes any other value for the
  \<^verbatim>\<open>TypeError\<close> its first use raises.
\<close>

definition str_field :: "json \<Rightarrow> string \<Rightarrow> string res" where
  "str_field j k = (case jfield j k of Some (JStr s) \<Rightarrow> Inr s | _ \<Rightarrow> Inl JsTypeError)"

definition num_field :: "json \<Rightarrow> string \<Rightarrow> int res" where
  "num_field j k = (case jfield j k of Some (JNum n) \<Rightarrow> Inr n | _ \<Rightarrow> Inl JsTypeError)"

definition as_view :: "json option \<Rightarrow> state_view res" where
  "as_view v =
     (case v of None \<Rightarrow> Inl JsTypeError
      | Some j \<Rightarrow>
          bindE (num_field j ''schemaVersion'') (\<lambda>sv.
          bindE (str_field j ''viewId'') (\<lambda>vid.
          bindE (str_field j ''agentId'') (\<lambda>ag.
          bindE (str_field j ''headVersionId'') (\<lambda>hv.
          bindE (num_field j ''generation'') (\<lambda>g.
          bindE (str_field j ''versionedHash'') (\<lambda>vh.
          bindE (str_field j ''platformManagedHash'') (\<lambda>ph.
          bindE (str_field j ''liveStateHash'') (\<lambda>lh.
          bindE (num_field j ''sessionEpoch'') (\<lambda>se.
          bindE (num_field j ''agentConfigVersion'') (\<lambda>cv.
          bindE (num_field j ''policyVersion'') (\<lambda>pv.
            Inr \<lparr>view_agentId = ag, headVersionId = hv, generation = g, versionedHash = vh,
                 platformManagedHash = ph, liveStateHash = lh, sessionEpoch = se,
                 agentConfigVersion = cv, policyVersion = pv, view_schemaVersion = sv, viewId = vid\<rparr>))))))))))))"

lemma as_view_view_json [simp]: "as_view (Some (view_json v)) = Inr v"
  by (simp add: as_view_def view_json_def num_field_def str_field_def)

lemma view_json_inj [simp]: "view_json v = view_json w \<longleftrightarrow> v = w"
  by (metis as_view_view_json sum.inject(2))

subsection \<open>The id in the protocol module\<close>

definition assertDigest :: "string \<Rightarrow> string \<Rightarrow> unit res" where
  "assertDigest value field =
     (if is_digest value then Inr () else Inl (JsError (field @ '' must be a SHA-256 digest'')))"

definition protocol_computeStateViewId :: "(string \<Rightarrow> string) \<Rightarrow> state_view \<Rightarrow> string res" where
  "protocol_computeStateViewId H v =
     (if view_schemaVersion v \<noteq> 1 then Inl (JsError ''Unsupported StateView schema'')
      else if \<not> is_safe_integer (generation v) \<or> generation v < 0
      then Inl (JsError ''StateView generation must be a non-negative safe integer'')
      else
        bindE (assertDigest (versionedHash v) ''versionedHash'') (\<lambda>_.
        bindE (assertDigest (platformManagedHash v) ''platformManagedHash'') (\<lambda>_.
        bindE (assertDigest (liveStateHash v) ''liveStateHash'') (\<lambda>_.
          Inr (H (stringify (JObj
            [(''schemaVersion'', JNum (view_schemaVersion v)),
             (''agentId'', JStr (view_agentId v)),
             (''headVersionId'', JStr (headVersionId v)),
             (''generation'', JNum (generation v)),
             (''versionedHash'', JStr (versionedHash v)),
             (''platformManagedHash'', JStr (platformManagedHash v)),
             (''liveStateHash'', JStr (liveStateHash v)),
             (''sessionEpoch'', JNum (sessionEpoch v)),
             (''agentConfigVersion'', JNum (agentConfigVersion v)),
             (''policyVersion'', JNum (policyVersion v))])))))))"

definition assertStateViewRef :: "(string \<Rightarrow> string) \<Rightarrow> state_view \<Rightarrow> unit res" where
  "assertStateViewRef H v =
     bindE (protocol_computeStateViewId H v) (\<lambda>i.
       if i \<noteq> viewId v then Inl (JsError ''STATE_VIEW_DIGEST_MISMATCH'') else Inr ())"

definition hashes_ok :: "'a state_view_input_scheme \<Rightarrow> bool" where
  "hashes_ok v \<longleftrightarrow>
     is_safe_integer (generation v) \<and> 0 \<le> generation v \<and>
     is_digest (versionedHash v) \<and> is_digest (platformManagedHash v) \<and> is_digest (liveStateHash v)"

lemma assertDigest_Inr [simp]: "assertDigest d f = Inr u \<longleftrightarrow> is_digest d"
  by (simp add: assertDigest_def)

lemma protocol_id_eq:
  "protocol_computeStateViewId H v = Inr i \<longleftrightarrow>
     view_schemaVersion v = 1 \<and> hashes_ok v \<and> i = computeStateViewId H v"
  by (auto simp: protocol_computeStateViewId_def computeStateViewId_def state_view_canonical_def
      hashes_ok_def bindE_eq_Inr)

lemma assertStateViewRef_eq: "assertStateViewRef H v = Inr () \<longleftrightarrow> view_ok H v \<and> hashes_ok v"
  by (auto simp: assertStateViewRef_def bindE_eq_Inr protocol_id_eq view_ok_def)

subsection \<open>The view the product database names\<close>

record product_agent =
  agent_id :: string
  agent_headVersionId :: "string option"
  agent_stateGeneration :: int
  agent_currentVersionedHash :: string
  agent_currentPlatformManagedHash :: string
  agent_currentLiveStateHash :: string
  agent_sessionEpoch :: int
  agent_agentConfigVersion :: int
  agent_policyVersion :: int
  agent_currentViewId :: string

text \<open>\<^verbatim>\<open>a || b\<close> on strings: the empty string is falsy.\<close>

definition str_or :: "string \<Rightarrow> string \<Rightarrow> string" where
  "str_or a b = (if a = [] then b else a)"

definition stateViewForAgent :: "(string \<Rightarrow> string) \<Rightarrow> product_agent \<Rightarrow> state_view" where
  "stateViewForAgent H a = makeStateView H
     \<lparr>view_agentId = agent_id a,
      headVersionId = (case agent_headVersionId a of None \<Rightarrow> ''uninitialized'' | Some v \<Rightarrow> v),
      generation = agent_stateGeneration a,
      versionedHash = str_or (agent_currentVersionedHash a) EMPTY_STATE_HASH,
      platformManagedHash = str_or (agent_currentPlatformManagedHash a) EMPTY_STATE_HASH,
      liveStateHash = str_or (agent_currentLiveStateHash a) EMPTY_STATE_HASH,
      sessionEpoch = agent_sessionEpoch a,
      agentConfigVersion = agent_agentConfigVersion a,
      policyVersion = agent_policyVersion a\<rparr>"

definition refreshAgentViewId :: "(string \<Rightarrow> string) \<Rightarrow> product_agent \<Rightarrow> product_agent" where
  "refreshAgentViewId H a = a\<lparr>agent_currentViewId := viewId (stateViewForAgent H a)\<rparr>"

subsection \<open>What the id binds\<close>

lemma state_view_canonical_inj:
  fixes v :: "'a state_view_input_scheme" and w :: "'b state_view_input_scheme"
  shows "state_view_canonical v = state_view_canonical w \<longleftrightarrow>
     state_view_input.truncate v = state_view_input.truncate w"
  by (auto simp: state_view_canonical_def state_view_input.truncate_def)

text \<open>The text hashed into an id.\<close>

definition view_text :: "'a state_view_input_scheme \<Rightarrow> string" where
  "view_text v = stringify (state_view_canonical v)"

lemma computeStateViewId_binds:
  "computeStateViewId H v = computeStateViewId H w \<Longrightarrow>
     state_view_input.truncate v = state_view_input.truncate w \<or> collision_in H {view_text v, view_text w}"
  unfolding computeStateViewId_def view_text_def
  by (drule hash_binds) (simp add: state_view_canonical_inj)

lemma view_ok_makeStateView [simp]: "view_ok H (makeStateView H i)"
  by (simp add: view_ok_def makeStateView_def computeStateViewId_def state_view_canonical_def)

lemma makeStateView_simps [simp]:
  "view_agentId (makeStateView H i) = view_agentId i"
  "headVersionId (makeStateView H i) = headVersionId i"
  "generation (makeStateView H i) = generation i"
  "versionedHash (makeStateView H i) = versionedHash i"
  "platformManagedHash (makeStateView H i) = platformManagedHash i"
  "liveStateHash (makeStateView H i) = liveStateHash i"
  "sessionEpoch (makeStateView H i) = sessionEpoch i"
  "agentConfigVersion (makeStateView H i) = agentConfigVersion i"
  "policyVersion (makeStateView H i) = policyVersion i"
  "view_schemaVersion (makeStateView H i) = 1"
  "viewId (makeStateView H i) = computeStateViewId H i"
  by (simp_all add: makeStateView_def)

lemma view_ok_same_id:
  assumes "view_ok H v" and "view_ok H w" and "viewId v = viewId w"
  shows "v = w \<or> collision_in H {view_text v, view_text w}"
proof -
  have "computeStateViewId H v = computeStateViewId H w"
    using assms by (simp add: view_ok_def)
  then have "state_view_input.truncate v = state_view_input.truncate w \<or>
      collision_in H {view_text v, view_text w}"
    by (rule computeStateViewId_binds)
  with assms show ?thesis
    by (auto simp: view_ok_def state_view_input.truncate_def)
qed

end
