(* ===== verification/Hash_Chain.thy ===== *)
theory Hash_Chain
  imports Js_Json
begin

text \<open>
  The interface of a hash-chained, append-only record: what a reader checks of an element
  against its predecessor (\<open>link\<close>), and the laws every such check promises (the digest is the
  hash of the canonical body, the body holds the predecessor's digest, sequence numbers are
  consecutive). The event log and the offline receipt verifier both check such a chain, in code
  written twice; both interpret this locale.
\<close>

fun chain_from :: "('e option \<Rightarrow> 'e \<Rightarrow> bool) \<Rightarrow> 'e option \<Rightarrow> 'e list \<Rightarrow> bool" where
  "chain_from link p [] = True"
| "chain_from link p (e # es) = (link p e \<and> chain_from link (Some e) es)"

definition last_opt :: "'e option \<Rightarrow> 'e list \<Rightarrow> 'e option" where
  "last_opt p es = (if es = [] then p else Some (last es))"

lemma last_opt_simps [simp]:
  "last_opt p [] = p"
  "last_opt p (es @ [e]) = Some e"
  "last_opt p (e # es) = last_opt (Some e) es"
  by (simp_all add: last_opt_def)

lemma chain_from_append:
  "chain_from link p (xs @ ys) \<longleftrightarrow> chain_from link p xs \<and> chain_from link (last_opt p xs) ys"
  by (induction xs arbitrary: p) (simp_all add: last_opt_def)

lemma chain_from_snoc:
  "chain_from link p (xs @ [x]) \<longleftrightarrow> chain_from link p xs \<and> link (last_opt p xs) x"
  by (simp add: chain_from_append)

locale hash_chain =
  fixes H :: "string \<Rightarrow> string"
    and link :: "'e option \<Rightarrow> 'e \<Rightarrow> bool"
    and body :: "'e \<Rightarrow> json"
    and prev :: "'e \<Rightarrow> string option"
    and dig :: "'e \<Rightarrow> string"
    and seqno :: "'e \<Rightarrow> int"
  assumes link_digest: "link p e \<Longrightarrow> dig e = H (stringify (body e))"
    and link_prev: "link p e \<Longrightarrow> prev e = map_option dig p"
    and link_seq: "link p e \<Longrightarrow> seqno e = (case p of None \<Rightarrow> 0 | Some q \<Rightarrow> seqno q) + 1"
    and body_prev: "body e = body e' \<Longrightarrow> prev e = prev e'"
begin

lemma chain_digest: "chain_from link p es \<Longrightarrow> e \<in> set es \<Longrightarrow> dig e = H (stringify (body e))"
  by (induction es arbitrary: p) (auto dest: link_digest)

lemma chain_seq:
  "chain_from link p es \<Longrightarrow> i < length es \<Longrightarrow>
     seqno (es ! i) = (case p of None \<Rightarrow> 0 | Some q \<Rightarrow> seqno q) + int i + 1"
proof (induction es arbitrary: p i)
  case Nil
  then show ?case by simp
next
  case (Cons e es)
  from Cons.prems have l: "link p e" and c: "chain_from link (Some e) es" by simp_all
  show ?case
  proof (cases i)
    case 0
    with link_seq [OF l] show ?thesis by simp
  next
    case (Suc j)
    with Cons.prems(2) have "j < length es" by simp
    from Cons.IH [OF c this] link_seq [OF l] Suc show ?thesis by simp
  qed
qed

lemma chain_seq_distinct: "chain_from link p es \<Longrightarrow> distinct (map seqno es)"
proof -
  assume c: "chain_from link p es"
  show ?thesis
  proof (subst distinct_conv_nth, safe)
    fix i j
    assume "i < length (map seqno es)" "j < length (map seqno es)" "i \<noteq> j"
      and "map seqno es ! i = map seqno es ! j"
    with chain_seq [OF c, of i] chain_seq [OF c, of j] show False by simp
  qed
qed

text \<open>One digest pins the whole history behind it.\<close>

definition chain_texts :: "'e list \<Rightarrow> string set" where
  "chain_texts es = (\<lambda>e. stringify (body e)) ` set es"

lemma chain_unique:
  "chain_from link None xs \<Longrightarrow> chain_from link None ys \<Longrightarrow> xs \<noteq> [] \<Longrightarrow> ys \<noteq> [] \<Longrightarrow>
     dig (last xs) = dig (last ys) \<Longrightarrow>
     map body xs = map body ys \<or> collision_in H (chain_texts xs \<union> chain_texts ys)"
proof (induction xs arbitrary: ys rule: rev_induct)
  case Nil
  then show ?case by simp
next
  case (snoc x xs)
  from snoc.prems(4) obtain zs y where ys: "ys = zs @ [y]"
    by (cases ys rule: rev_cases) auto
  from snoc.prems ys have cx: "chain_from link None xs" and lx: "link (last_opt None xs) x"
    and cy: "chain_from link None zs" and ly: "link (last_opt None zs) y"
    and d: "dig x = dig y"
    by (simp_all add: chain_from_snoc)
  show ?case
  proof (cases "collision_in H (chain_texts (xs @ [x]) \<union> chain_texts ys)")
    case True
    then show ?thesis by simp
  next
    case False
    then have no: "\<not> collision_in H {stringify (body x), stringify (body y)}"
      "\<not> collision_in H (chain_texts xs \<union> chain_texts zs)"
      using ys by (auto simp: chain_texts_def elim!: notE [OF _ collision_in_mono])
    have same: "body x = body y"
      using d link_digest [OF lx] link_digest [OF ly] hash_binds [of H "body x" "body y"] no by simp
    from body_prev [OF this] have p: "map_option dig (last_opt None xs) = map_option dig (last_opt None zs)"
      using link_prev [OF lx] link_prev [OF ly] by simp
    show ?thesis
    proof (cases "xs = []")
      case True
      with p have "zs = []" by (auto simp: last_opt_def split: if_splits)
      with True ys same show ?thesis by simp
    next
      case nonempty: False
      with p have "zs \<noteq> []" and "dig (last xs) = dig (last zs)"
        by (auto simp: last_opt_def split: if_splits)
      from snoc.IH [OF cx cy nonempty this] no have "map body xs = map body zs" by simp
      with ys same show ?thesis by simp
    qed
  qed
qed

end

end
