(* ===== verification/Transition_Log.thy ===== *)
theory Transition_Log
  imports Hash_Chain
begin

text \<open>
  The event log (\<^verbatim>\<open>transition-log.ts\<close>): one directory of immutable files per agent,
  modelled as the list of events in file-name order. Reading checks each event against its
  predecessor and throws at the first mismatch; appending reads first, so it extends a verified
  chain only. A call of the source runs alone on its agent's queue; the event id and the time
  are inputs. A killed process leaves a file or no file, never part of one, so a crash is
  between two appends.
\<close>

datatype event_type =
    AGENT_INITIALIZATION_PREPARED | AGENT_INITIALIZED | LEGACY_ADOPTION_PREPARED
  | LEGACY_STATE_ADOPTED | TRANSITION_PREPARED | RUNTIME_TEARDOWN_RECORDED | RUN_CANCELLED
  | PROPOSAL_SEAL_PREPARED | PROPOSAL_SEALED | PROPOSAL_EXPORT_PREPARED | PROPOSAL_EXPORTED
  | RUN_ARTIFACTS_DESTROYED | EVIDENCE_RECORDED | PERMIT_ISSUED | PERMIT_CONSUMING
  | BACKUP_CREATED | WORKSPACE_APPLIED | ROLLBACK_APPLIED
  | PLATFORM_STATE_REGENERATION_PREPARED | PLATFORM_STATE_REGENERATED
  | NON_COMMIT_DISPOSITIONED | VIEW_DISPOSITIONED | TRANSITION_ACKNOWLEDGED
  | RECEIPT_PROOF_RECORDED | TRANSITION_ROLLED_BACK | AGENT_ARCHIVE_PREPARED | AGENT_ARCHIVED
  | REPAIR_APPLIED | STALE_CALLBACK_RECORDED
  | OtherType string \<comment> \<open>a type text outside the union, read from disk or from a bundle\<close>

fun event_type_text :: "event_type \<Rightarrow> string" where
  "event_type_text AGENT_INITIALIZATION_PREPARED = ''AGENT_INITIALIZATION_PREPARED''"
| "event_type_text AGENT_INITIALIZED = ''AGENT_INITIALIZED''"
| "event_type_text LEGACY_ADOPTION_PREPARED = ''LEGACY_ADOPTION_PREPARED''"
| "event_type_text LEGACY_STATE_ADOPTED = ''LEGACY_STATE_ADOPTED''"
| "event_type_text TRANSITION_PREPARED = ''TRANSITION_PREPARED''"
| "event_type_text RUNTIME_TEARDOWN_RECORDED = ''RUNTIME_TEARDOWN_RECORDED''"
| "event_type_text RUN_CANCELLED = ''RUN_CANCELLED''"
| "event_type_text PROPOSAL_SEAL_PREPARED = ''PROPOSAL_SEAL_PREPARED''"
| "event_type_text PROPOSAL_SEALED = ''PROPOSAL_SEALED''"
| "event_type_text PROPOSAL_EXPORT_PREPARED = ''PROPOSAL_EXPORT_PREPARED''"
| "event_type_text PROPOSAL_EXPORTED = ''PROPOSAL_EXPORTED''"
| "event_type_text RUN_ARTIFACTS_DESTROYED = ''RUN_ARTIFACTS_DESTROYED''"
| "event_type_text EVIDENCE_RECORDED = ''EVIDENCE_RECORDED''"
| "event_type_text PERMIT_ISSUED = ''PERMIT_ISSUED''"
| "event_type_text PERMIT_CONSUMING = ''PERMIT_CONSUMING''"
| "event_type_text BACKUP_CREATED = ''BACKUP_CREATED''"
| "event_type_text WORKSPACE_APPLIED = ''WORKSPACE_APPLIED''"
| "event_type_text ROLLBACK_APPLIED = ''ROLLBACK_APPLIED''"
| "event_type_text PLATFORM_STATE_REGENERATION_PREPARED = ''PLATFORM_STATE_REGENERATION_PREPARED''"
| "event_type_text PLATFORM_STATE_REGENERATED = ''PLATFORM_STATE_REGENERATED''"
| "event_type_text NON_COMMIT_DISPOSITIONED = ''NON_COMMIT_DISPOSITIONED''"
| "event_type_text VIEW_DISPOSITIONED = ''VIEW_DISPOSITIONED''"
| "event_type_text TRANSITION_ACKNOWLEDGED = ''TRANSITION_ACKNOWLEDGED''"
| "event_type_text RECEIPT_PROOF_RECORDED = ''RECEIPT_PROOF_RECORDED''"
| "event_type_text TRANSITION_ROLLED_BACK = ''TRANSITION_ROLLED_BACK''"
| "event_type_text AGENT_ARCHIVE_PREPARED = ''AGENT_ARCHIVE_PREPARED''"
| "event_type_text AGENT_ARCHIVED = ''AGENT_ARCHIVED''"
| "event_type_text REPAIR_APPLIED = ''REPAIR_APPLIED''"
| "event_type_text STALE_CALLBACK_RECORDED = ''STALE_CALLBACK_RECORDED''"
| "event_type_text (OtherType s) = s"

record event =
  ev_schemaVersion :: int
  eventId :: string
  ev_agentId :: string
  ev_transitionId :: string
  sequence :: int
  ev_type :: event_type
  previousDigest :: "string option"
  payload :: json
  createdAt :: string
  digest :: string

definition opt_json :: "string option \<Rightarrow> json" where
  "opt_json x = (case x of None \<Rightarrow> JNull | Some s \<Rightarrow> JStr s)"

lemma opt_json_inj [simp]: "opt_json x = opt_json y \<longleftrightarrow> x = y"
  by (auto simp: opt_json_def split: option.splits)

text \<open>The event without its digest, fields in the order they are written.\<close>

definition unsigned_event :: "event \<Rightarrow> json" where
  "unsigned_event e = JObj
     [(''schemaVersion'', JNum (ev_schemaVersion e)),
      (''eventId'', JStr (eventId e)),
      (''agentId'', JStr (ev_agentId e)),
      (''transitionId'', JStr (ev_transitionId e)),
      (''sequence'', JNum (sequence e)),
      (''type'', JStr (event_type_text (ev_type e))),
      (''previousDigest'', opt_json (previousDigest e)),
      (''payload'', payload e),
      (''createdAt'', JStr (createdAt e))]"

definition digestEvent :: "(string \<Rightarrow> string) \<Rightarrow> event \<Rightarrow> string" where
  "digestEvent H e = H (stringify (unsigned_event e))"

subsection \<open>Reading\<close>

definition assertEvent :: "(string \<Rightarrow> string) \<Rightarrow> event \<Rightarrow> event option \<Rightarrow> unit res" where
  "assertEvent H e previous =
     (if ev_schemaVersion e \<noteq> 1 \<or>
         sequence e \<noteq> (case previous of None \<Rightarrow> 0 | Some p \<Rightarrow> sequence p) + 1
      then Inl (JsError ''TRANSITION_LOG_SEQUENCE_INVALID'')
      else if previousDigest e \<noteq> map_option digest previous
      then Inl (JsError ''TRANSITION_LOG_CHAIN_INVALID'')
      else if digest e \<noteq> digestEvent H e
      then Inl (JsError ''TRANSITION_LOG_DIGEST_INVALID'')
      else Inr ())"

fun read_files :: "(string \<Rightarrow> string) \<Rightarrow> event option \<Rightarrow> event list \<Rightarrow> event list res" where
  "read_files H previous [] = Inr []"
| "read_files H previous (e # es) =
     bindE (assertEvent H e previous) (\<lambda>_.
     bindE (read_files H (Some e) es) (\<lambda>rest. Inr (e # rest)))"

type_synonym log_store = "string \<Rightarrow> event list"

definition agentDirectory :: "string \<Rightarrow> string res" where
  "agentDirectory agentId =
     (if is_identifier agentId then Inr agentId else Inl (JsError ''Invalid agentId''))"

definition log_read :: "(string \<Rightarrow> string) \<Rightarrow> log_store \<Rightarrow> string \<Rightarrow> event list res" where
  "log_read H s agentId = bindE (agentDirectory agentId) (\<lambda>d. read_files H None (s d))"

definition log_transition :: "(string \<Rightarrow> string) \<Rightarrow> log_store \<Rightarrow> string \<Rightarrow> string \<Rightarrow> event list res" where
  "log_transition H s agentId transitionId =
     bindE (log_read H s agentId) (\<lambda>es. Inr (filter (\<lambda>e. ev_transitionId e = transitionId) es))"

subsection \<open>Appending\<close>

definition next_event ::
  "(string \<Rightarrow> string) \<Rightarrow> event option \<Rightarrow> string \<Rightarrow> string \<Rightarrow> event_type \<Rightarrow> json \<Rightarrow> string \<Rightarrow> string \<Rightarrow> event" where
  "next_event H previous agentId transitionId ty pl uuid now =
     (let unsigned = \<lparr>ev_schemaVersion = 1, eventId = uuid, ev_agentId = agentId,
            ev_transitionId = transitionId,
            sequence = (case previous of None \<Rightarrow> 0 | Some p \<Rightarrow> sequence p) + 1,
            ev_type = ty, previousDigest = map_option digest previous, payload = pl,
            createdAt = now, digest = []\<rparr>
      in unsigned\<lparr>digest := digestEvent H unsigned\<rparr>)"

definition log_append ::
  "(string \<Rightarrow> string) \<Rightarrow> log_store \<Rightarrow> string \<Rightarrow> string \<Rightarrow> event_type \<Rightarrow> json \<Rightarrow> string \<Rightarrow> string \<Rightarrow>
     (log_store \<times> event) res" where
  "log_append H s agentId transitionId ty pl uuid now =
     bindE (log_read H s agentId) (\<lambda>existing.
       let e = next_event H (last_opt None existing) agentId transitionId ty pl uuid now
       in Inr (s(agentId := s agentId @ [e]), e))"

record repair_input =
  rp_agentId :: string
  rp_transitionId :: string
  rp_action :: string
  rp_expectedViewId :: string
  rp_expectedWorkspaceHash :: string
  rp_actualViewId :: string
  rp_actualWorkspaceHash :: string

definition log_appendRepair ::
  "(string \<Rightarrow> string) \<Rightarrow> log_store \<Rightarrow> repair_input \<Rightarrow> string \<Rightarrow> string \<Rightarrow> (log_store \<times> event) res" where
  "log_appendRepair H s i uuid now =
     (if rp_expectedViewId i \<noteq> rp_actualViewId i \<or>
         rp_expectedWorkspaceHash i \<noteq> rp_actualWorkspaceHash i
      then Inl (JsError ''REPAIR_CAS_MISMATCH'')
      else log_append H s (rp_agentId i) (rp_transitionId i) REPAIR_APPLIED
        (JObj [(''action'', JStr (rp_action i)),
               (''expectedViewId'', JStr (rp_expectedViewId i)),
               (''expectedWorkspaceHash'', JStr (rp_expectedWorkspaceHash i))]) uuid now)"

subsection \<open>The log is a hash chain\<close>

definition log_link :: "(string \<Rightarrow> string) \<Rightarrow> event option \<Rightarrow> event \<Rightarrow> bool" where
  "log_link H p e \<longleftrightarrow> assertEvent H e p = Inr ()"

lemma log_link_iff:
  "log_link H p e \<longleftrightarrow> ev_schemaVersion e = 1 \<and>
     sequence e = (case p of None \<Rightarrow> 0 | Some q \<Rightarrow> sequence q) + 1 \<and>
     previousDigest e = map_option digest p \<and> digest e = digestEvent H e"
  by (auto simp: log_link_def assertEvent_def)

interpretation log_chain: hash_chain H "log_link H" unsigned_event previousDigest digest sequence
  for H
  by unfold_locales (auto simp: log_link_iff digestEvent_def unsigned_event_def)

lemma read_files_eq: "read_files H p es = Inr r \<longleftrightarrow> chain_from (log_link H) p es \<and> r = es"
  by (induction es arbitrary: p r) (auto simp: bindE_eq_Inr log_link_def)

lemma log_read_eq:
  "log_read H s a = Inr es \<longleftrightarrow> is_identifier a \<and> chain_from (log_link H) None (s a) \<and> es = s a"
  by (auto simp: log_read_def agentDirectory_def read_files_eq bindE_eq_Inr)

lemma digestEvent_next [simp]: "digestEvent H (e\<lparr>digest := d\<rparr>) = digestEvent H e"
  by (simp add: digestEvent_def unsigned_event_def)

lemma log_link_next: "log_link H p (next_event H p a t ty pl u n)"
  by (simp add: log_link_iff next_event_def Let_def digestEvent_def unsigned_event_def)

lemma next_event_simps [simp]:
  "ev_agentId (next_event H p a t ty pl u n) = a"
  "ev_transitionId (next_event H p a t ty pl u n) = t"
  "ev_type (next_event H p a t ty pl u n) = ty"
  "payload (next_event H p a t ty pl u n) = pl"
  "eventId (next_event H p a t ty pl u n) = u"
  "ev_schemaVersion (next_event H p a t ty pl u n) = 1"
  "sequence (next_event H p a t ty pl u n) = (case p of None \<Rightarrow> 0 | Some q \<Rightarrow> sequence q) + 1"
  "previousDigest (next_event H p a t ty pl u n) = map_option digest p"
  by (simp_all add: next_event_def Let_def)

lemma log_append_eq:
  "log_append H s a t ty pl u n = Inr (s', e) \<longleftrightarrow>
     is_identifier a \<and> chain_from (log_link H) None (s a) \<and>
     e = next_event H (last_opt None (s a)) a t ty pl u n \<and> s' = s(a := s a @ [e])"
  by (auto simp: log_append_def log_read_eq bindE_eq_Inr Let_def)

lemma log_append_readable:
  assumes "log_append H s a t ty pl u n = Inr (s', e)"
  shows "log_read H s' a = Inr (s a @ [e])"
  using assms log_link_next by (auto simp: log_append_eq log_read_eq chain_from_snoc)

lemma log_last_sequence:
  "chain_from (log_link H) None es \<Longrightarrow> es \<noteq> [] \<Longrightarrow> sequence (last es) = int (length es)"
  using log_chain.chain_seq [of H None es "length es - 1"] by (simp add: last_conv_nth of_nat_diff Suc_leI)

text \<open>C22: Appending only ever extends a verified history: after a successful append the agent's log
  reads back, check by check, as the old events followed by the new one, whose sequence number is
  the new length and whose previous digest is the old head; every other agent's log is untouched.\<close>

theorem log_append_extends:
  assumes "log_append H s a t ty pl u n = Inr (s', e)"
  shows "log_read H s a = Inr (s a) \<and> log_read H s' a = Inr (s a @ [e]) \<and>
    sequence e = int (length (s a)) + 1 \<and>
    previousDigest e = (if s a = [] then None else Some (digest (last (s a)))) \<and>
    (\<forall>b. b \<noteq> a \<longrightarrow> s' b = s b)"
proof -
  from assms have w: "is_identifier a" "chain_from (log_link H) None (s a)"
    "e = next_event H (last_opt None (s a)) a t ty pl u n" "s' = s(a := s a @ [e])"
    by (auto simp: log_append_eq)
  then show ?thesis
    using log_append_readable [OF assms] log_last_sequence [OF w(2)]
    by (cases "s a = []") (simp_all add: log_read_eq last_opt_def)
qed

theorem log_append_extends_witness:
  "\<exists>s' e. log_append (\<lambda>x. x) (\<lambda>_. []) ''agent'' ''t1'' RUN_CANCELLED JNull ''u'' ''n'' = Inr (s', e) \<and>
     log_read (\<lambda>x. x) s' ''agent'' = Inr [e] \<and> sequence e = 1"
proof -
  have "is_identifier ''agent''"
    by (simp add: is_identifier_def is_ident_char_def is_digit_def char_code_def)
  then obtain s' e where r: "log_append (\<lambda>x. x) (\<lambda>_. []) ''agent'' ''t1'' RUN_CANCELLED JNull ''u'' ''n'' = Inr (s', e)"
    by (auto simp: log_append_eq)
  with log_append_extends [OF r] show ?thesis by auto
qed

text \<open>C23: The head digest pins the whole history: two logs that both read back and end in the same
  digest hold the same events, field by field, unless the hash collides on two of the very event
  texts they contain; and sequence numbers never repeat.\<close>

theorem log_head_pins_history:
  assumes "log_read H s a = Inr xs" and "log_read H s' a = Inr ys" and "xs \<noteq> []" and "ys \<noteq> []"
    and "digest (last xs) = digest (last ys)"
  shows "distinct (map sequence xs) \<and>
    (map unsigned_event xs = map unsigned_event ys \<or>
     collision_in H ((\<lambda>e. stringify (unsigned_event e)) ` (set xs \<union> set ys)))"
  using assms log_chain.chain_unique [of H xs ys] log_chain.chain_seq_distinct [of H None xs]
  by (auto simp: log_read_eq log_chain.chain_texts_def image_Un)

text \<open>
  Under a hash that tells nothing apart, two logs that differ in their first event may end in the
  very same event.
\<close>

definition ex_first :: "event_type \<Rightarrow> event" where
  "ex_first ty = next_event (\<lambda>_. ''d'') None ''agent'' ''t1'' ty JNull ''e1'' ''n1''"

definition ex_two_events :: "event_type \<Rightarrow> event list" where
  "ex_two_events ty = [ex_first ty, next_event (\<lambda>_. ''d'') (Some (ex_first ty)) ''agent'' ''t2'' RUN_CANCELLED JNull ''e2'' ''n2'']"

lemma ex_two_read: "log_read (\<lambda>_. ''d'') (\<lambda>_. ex_two_events ty) ''agent'' = Inr (ex_two_events ty)"
proof -
  have "is_identifier ''agent''"
    by (simp add: is_identifier_def is_ident_char_def is_digit_def char_code_def)
  then show ?thesis by (simp add: log_read_eq ex_two_events_def ex_first_def log_link_next)
qed

theorem log_head_pins_history_witness:
  "last (ex_two_events BACKUP_CREATED) = last (ex_two_events PERMIT_ISSUED) \<and>
   hd (ex_two_events BACKUP_CREATED) \<noteq> hd (ex_two_events PERMIT_ISSUED) \<and>
   collision_in (\<lambda>_. ''d'') ((\<lambda>e. stringify (unsigned_event e)) `
     (set (ex_two_events BACKUP_CREATED) \<union> set (ex_two_events PERMIT_ISSUED)))"
proof -
  have same: "last (ex_two_events BACKUP_CREATED) = last (ex_two_events PERMIT_ISSUED)"
    by (simp add: ex_two_events_def ex_first_def next_event_def digestEvent_def)
  have differ: "map unsigned_event (ex_two_events BACKUP_CREATED) \<noteq> map unsigned_event (ex_two_events PERMIT_ISSUED)"
    by (simp add: ex_two_events_def ex_first_def unsigned_event_def)
  have "hd (ex_two_events BACKUP_CREATED) \<noteq> hd (ex_two_events PERMIT_ISSUED)"
    by (simp add: ex_two_events_def ex_first_def next_event_def)
  with log_head_pins_history [OF ex_two_read [of BACKUP_CREATED] ex_two_read [of PERMIT_ISSUED]] same differ
  show ?thesis by (simp add: ex_two_events_def)
qed

end
