(* ===== verification/Receipt_Proof.thy ===== *)
theory Receipt_Proof
  imports Transition_Log
begin

text \<open>
  Offline receipt proofs (\<^verbatim>\<open>research/receipt-proof.ts\<close>): the terminal receipt of a
  transition, its canonical bytes, the signed proof that binds it to a terminal event, and the
  verifier, which recomputes the receipt hash, the event chain from genesis, the unique facts of
  the transition and the semantic rules of the decision.

  Ed25519 and the key encoding are not in the repository: they are the fields of \<open>crypto\<close>
  (\<open>None\<close> where the runtime throws; a signature is its base64url text). Receipts, proofs and
  events have the fields of their TypeScript types; a field that only later schemas have is
  \<open>None\<close> when it is absent, and \<^verbatim>\<open>JSON.stringify\<close> leaves it out.
  \<^verbatim>\<open>sourceRevision.length\<close> counts bytes here.
\<close>

record crypto =
  sha256 :: "string \<Rightarrow> string"
  spki_der :: "string \<Rightarrow> string option"
  ed25519_sign :: "string \<Rightarrow> string \<Rightarrow> string"
  ed25519_verify :: "string \<Rightarrow> string \<Rightarrow> string \<Rightarrow> bool option"

type_synonym verdict = "bool \<times> string option"

definition invalid :: "string \<Rightarrow> verdict" where
  "invalid reason = (False, Some reason)"

definition receiptSigningKeyId :: "crypto \<Rightarrow> string \<Rightarrow> string option" where
  "receiptSigningKeyId cr pem = map_option (\<lambda>der. take 24 (sha256 cr der)) (spki_der cr pem)"

subsection \<open>The experimental receipt proof\<close>

record receipt_proof_body =
  rb_schemaVersion :: int
  rb_runId :: string
  rb_proposalId :: string
  rb_logSequence :: int
  rb_previousDigest :: "string option"
  rb_eventDigest :: string
  rb_evaluationContextHash :: string
  rb_evidenceDigest :: string
  rb_permitId :: string
  rb_decision :: string

record signed_receipt_proof = receipt_proof_body +
  rb_signingKeyId :: string
  rb_signatureAlgorithm :: string
  rb_signature :: string

definition canonicalBytes :: "'a receipt_proof_body_scheme \<Rightarrow> string" where
  "canonicalBytes b = stringify (JObj
     [(''schemaVersion'', JNum (rb_schemaVersion b)),
      (''runId'', JStr (rb_runId b)),
      (''proposalId'', JStr (rb_proposalId b)),
      (''logSequence'', JNum (rb_logSequence b)),
      (''previousDigest'', opt_json (rb_previousDigest b)),
      (''eventDigest'', JStr (rb_eventDigest b)),
      (''evaluationContextHash'', JStr (rb_evaluationContextHash b)),
      (''evidenceDigest'', JStr (rb_evidenceDigest b)),
      (''permitId'', JStr (rb_permitId b)),
      (''decision'', JStr (rb_decision b))])"

definition signReceiptProof ::
  "crypto \<Rightarrow> receipt_proof_body \<Rightarrow> string \<Rightarrow> string \<Rightarrow> signed_receipt_proof option" where
  "signReceiptProof cr b privateKeyPem publicKeyPem =
     map_option (\<lambda>kid. receipt_proof_body.extend b
       \<lparr>rb_signingKeyId = kid, rb_signatureAlgorithm = ''Ed25519'',
        rb_signature = ed25519_sign cr privateKeyPem (canonicalBytes b)\<rparr>)
     (receiptSigningKeyId cr publicKeyPem)"

definition verifyReceiptProof :: "crypto \<Rightarrow> signed_receipt_proof \<Rightarrow> string \<Rightarrow> verdict" where
  "verifyReceiptProof cr p publicKeyPem =
     (if rb_schemaVersion p \<noteq> 1 \<or> rb_signatureAlgorithm p \<noteq> ''Ed25519''
      then invalid ''unsupported proof schema or algorithm''
      else (case receiptSigningKeyId cr publicKeyPem of
        None \<Rightarrow> invalid ''malformed signature''
      | Some kid \<Rightarrow>
          if rb_signingKeyId p \<noteq> kid then invalid ''signing key id mismatch''
          else (case ed25519_verify cr (canonicalBytes p) publicKeyPem (rb_signature p) of
            None \<Rightarrow> invalid ''malformed signature''
          | Some ok \<Rightarrow> (ok, if ok then None else Some ''signature mismatch''))))"

subsection \<open>The authority receipt\<close>

record receipt =
  r_schemaVersion :: int
  r_receiptId :: string
  r_runId :: string
  r_agentId :: string
  r_transitionId :: string
  r_decision :: string
  r_baseViewId :: string
  r_finalViewId :: string
  r_baseGeneration :: int
  r_nextGeneration :: int
  r_baseWorkspaceHash :: string
  r_finalWorkspaceHash :: string
  r_proposalId :: "string option"
  r_proposalArtifactHash :: "string option"
  r_verifierInputHash :: "string option"
  r_promotionSourceHash :: "string option"
  r_evaluationContextHash :: "string option"
  r_evidenceDigest :: "string option"
  r_permitId :: "string option"
  r_permitState :: "string option"
  r_sourceRevision :: string
  r_dispositionBaseViewId :: "string option" \<comment> \<open>v2, v3\<close>
  r_dispositionBaseGeneration :: "int option"
  r_dispositionBaseWorkspaceHash :: "string option"
  r_policyProfile :: "string option" \<comment> \<open>v3\<close>
  r_policyVersion :: "int option"
  r_policyHash :: "string option"
  r_checkSpecHash :: "string option"

record disposition_base =
  db_viewId :: string
  db_generation :: int
  db_workspaceHash :: string

definition opt_test :: "('a \<Rightarrow> bool) \<Rightarrow> 'a option \<Rightarrow> bool" where
  "opt_test P x = (case x of None \<Rightarrow> False | Some y \<Rightarrow> P y)"

lemma opt_test_iff [simp]: "opt_test P x \<longleftrightarrow> (\<exists>y. x = Some y \<and> P y)"
  by (simp add: opt_test_def split: option.splits)

definition dispositionBase :: "receipt \<Rightarrow> disposition_base option" where
  "dispositionBase r =
     (if r_schemaVersion r = 1
      then Some \<lparr>db_viewId = r_baseViewId r, db_generation = r_baseGeneration r,
                 db_workspaceHash = r_baseWorkspaceHash r\<rparr>
      else (case (r_dispositionBaseViewId r, r_dispositionBaseGeneration r, r_dispositionBaseWorkspaceHash r) of
        (Some v, Some g, Some w) \<Rightarrow>
          if \<not> is_digest v \<or> \<not> is_safe_integer g \<or> g < 0 \<or> \<not> is_digest w then None
          else Some \<lparr>db_viewId = v, db_generation = g, db_workspaceHash = w\<rparr>
      | _ \<Rightarrow> None))"

definition null_or :: "('a \<Rightarrow> bool) \<Rightarrow> 'a option \<Rightarrow> bool" where
  "null_or P x = (case x of None \<Rightarrow> True | Some y \<Rightarrow> P y)"

definition decisions :: "string list" where
  "decisions = [''COMMITTED'', ''QUARANTINED'', ''CONFLICTED'', ''ABORTED'']"

definition receipt_fields_ok :: "receipt \<Rightarrow> bool" where
  "receipt_fields_ok r \<longleftrightarrow>
     list_all is_identifier [r_receiptId r, r_runId r, r_agentId r, r_transitionId r] \<and>
     list_all (null_or is_identifier) [r_proposalId r, r_permitId r] \<and>
     list_all is_digest [r_baseViewId r, r_finalViewId r, r_baseWorkspaceHash r, r_finalWorkspaceHash r] \<and>
     list_all (null_or is_digest) [r_proposalArtifactHash r, r_verifierInputHash r,
       r_promotionSourceHash r, r_evaluationContextHash r, r_evidenceDigest r] \<and>
     is_safe_integer (r_baseGeneration r) \<and> 0 \<le> r_baseGeneration r \<and>
     is_safe_integer (r_nextGeneration r) \<and> 0 \<le> r_nextGeneration r \<and>
     1 \<le> length (r_sourceRevision r) \<and> length (r_sourceRevision r) \<le> 256 \<and>
     r_decision r \<in> set decisions \<and>
     r_permitState r \<in> {None, Some ''CONSUMED'', Some ''REVOKED''}"

definition receipt_policy_ok :: "receipt \<Rightarrow> bool" where
  "receipt_policy_ok r \<longleftrightarrow>
     (r_policyProfile r = Some ''workspace-default'' \<or> r_policyProfile r = Some ''deployment-protected'') \<and>
     opt_test (\<lambda>v. is_safe_integer v \<and> 1 \<le> v) (r_policyVersion r) \<and>
     opt_test is_digest (r_policyHash r) \<and> opt_test is_digest (r_checkSpecHash r)"

definition base_matches :: "receipt \<Rightarrow> disposition_base \<Rightarrow> bool" where
  "base_matches r b \<longleftrightarrow> r_baseViewId r = db_viewId b \<and> r_baseGeneration r = db_generation b \<and>
     r_baseWorkspaceHash r = db_workspaceHash b"

definition committed_receipt_ok :: "receipt \<Rightarrow> disposition_base \<Rightarrow> bool" where
  "committed_receipt_ok r b \<longleftrightarrow>
     base_matches r b \<and> r_nextGeneration r = db_generation b + 1 \<and>
     r_permitState r = Some ''CONSUMED'' \<and> r_proposalId r \<noteq> None \<and> r_permitId r \<noteq> None \<and>
     r_evaluationContextHash r \<noteq> None \<and> r_evidenceDigest r \<noteq> None \<and>
     r_proposalArtifactHash r \<noteq> None \<and> r_verifierInputHash r \<noteq> None \<and> r_promotionSourceHash r \<noteq> None \<and>
     r_proposalArtifactHash r = r_verifierInputHash r \<and>
     r_proposalArtifactHash r = r_promotionSourceHash r \<and>
     r_proposalArtifactHash r = Some (r_finalWorkspaceHash r)"

definition authorityReceiptSemanticError :: "receipt \<Rightarrow> string option" where
  "authorityReceiptSemanticError r =
     (if r_schemaVersion r \<notin> {1, 2, 3} then Some ''authority receipt schema invalid''
      else if r_schemaVersion r = 1 \<and> r_decision r = ''CONFLICTED''
      then Some ''legacy receipt cannot prove conflict disposition base''
      else (case dispositionBase r of
        None \<Rightarrow> Some ''authority receipt disposition base invalid''
      | Some b \<Rightarrow>
          if \<not> receipt_fields_ok r then Some ''authority receipt field format invalid''
          else if r_schemaVersion r = 3 \<and> \<not> receipt_policy_ok r
          then Some ''authority receipt policy binding invalid''
          else if (r_permitId r = None) \<noteq> (r_permitState r = None)
          then Some ''authority receipt permit binding invalid''
          else if r_decision r = ''COMMITTED''
          then (if committed_receipt_ok r b then None
                else Some ''committed receipt semantic invariant mismatch'')
          else if r_nextGeneration r \<noteq> db_generation b \<or> r_finalWorkspaceHash r \<noteq> db_workspaceHash b \<or>
                  r_permitState r = Some ''CONSUMED''
          then Some ''non-commit receipt semantic invariant mismatch''
          else if 2 \<le> r_schemaVersion r \<and> r_decision r = ''CONFLICTED'' \<and> base_matches r b
          then Some ''conflicted receipt has no base drift''
          else if 2 \<le> r_schemaVersion r \<and> r_decision r \<noteq> ''CONFLICTED'' \<and> \<not> base_matches r b
          then Some ''non-conflict receipt disposition base mismatch''
          else None))"

subsection \<open>Canonical bytes\<close>

definition opt_member :: "string \<Rightarrow> ('a \<Rightarrow> json) \<Rightarrow> 'a option \<Rightarrow> (string \<times> json) list" where
  "opt_member k f x = (case x of None \<Rightarrow> [] | Some y \<Rightarrow> [(k, f y)])"

definition canonicalAuthorityReceipt :: "receipt \<Rightarrow> json" where
  "canonicalAuthorityReceipt r = JObj (
     [(''schemaVersion'', JNum (r_schemaVersion r)),
      (''receiptId'', JStr (r_receiptId r)),
      (''runId'', JStr (r_runId r)),
      (''agentId'', JStr (r_agentId r)),
      (''transitionId'', JStr (r_transitionId r)),
      (''decision'', JStr (r_decision r)),
      (''baseViewId'', JStr (r_baseViewId r)),
      (''finalViewId'', JStr (r_finalViewId r)),
      (''baseGeneration'', JNum (r_baseGeneration r)),
      (''nextGeneration'', JNum (r_nextGeneration r)),
      (''baseWorkspaceHash'', JStr (r_baseWorkspaceHash r))] @
     (if r_schemaVersion r \<noteq> 1
      then opt_member ''dispositionBaseViewId'' JStr (r_dispositionBaseViewId r) @
           opt_member ''dispositionBaseGeneration'' JNum (r_dispositionBaseGeneration r) @
           opt_member ''dispositionBaseWorkspaceHash'' JStr (r_dispositionBaseWorkspaceHash r)
      else []) @
     (if r_schemaVersion r = 3
      then opt_member ''policyProfile'' JStr (r_policyProfile r) @
           opt_member ''policyVersion'' JNum (r_policyVersion r) @
           opt_member ''policyHash'' JStr (r_policyHash r) @
           opt_member ''checkSpecHash'' JStr (r_checkSpecHash r)
      else []) @
     [(''finalWorkspaceHash'', JStr (r_finalWorkspaceHash r)),
      (''proposalId'', opt_json (r_proposalId r)),
      (''proposalArtifactHash'', opt_json (r_proposalArtifactHash r)),
      (''verifierInputHash'', opt_json (r_verifierInputHash r)),
      (''promotionSourceHash'', opt_json (r_promotionSourceHash r)),
      (''evaluationContextHash'', opt_json (r_evaluationContextHash r)),
      (''evidenceDigest'', opt_json (r_evidenceDigest r)),
      (''permitId'', opt_json (r_permitId r)),
      (''permitState'', opt_json (r_permitState r)),
      (''sourceRevision'', JStr (r_sourceRevision r))])"

definition authorityReceiptHash :: "(string \<Rightarrow> string) \<Rightarrow> receipt \<Rightarrow> string" where
  "authorityReceiptHash H r = H (stringify (canonicalAuthorityReceipt r))"

subsection \<open>The signed proof and its bundle\<close>

record authority_proof_body =
  pb_schemaVersion :: int
  pb_receiptHash :: string
  pb_runId :: string
  pb_agentId :: string
  pb_decision :: string
  pb_logSequence :: int
  pb_previousDigest :: "string option"
  pb_eventDigest :: string
  pb_sourceRevision :: string

record signed_authority_proof = authority_proof_body +
  pb_signingKeyId :: string
  pb_signatureAlgorithm :: string
  pb_signature :: string

record proof_bundle =
  bundle_schemaVersion :: int
  bundle_receipt :: receipt
  bundle_proof :: signed_authority_proof
  terminalEvent :: event
  predecessorEvent :: "event option"
  eventChain :: "event list option"
  publicKeyPem :: string

definition canonicalAuthorityProofBody :: "'a authority_proof_body_scheme \<Rightarrow> string" where
  "canonicalAuthorityProofBody b = stringify (JObj
     [(''schemaVersion'', JNum (pb_schemaVersion b)),
      (''receiptHash'', JStr (pb_receiptHash b)),
      (''runId'', JStr (pb_runId b)),
      (''agentId'', JStr (pb_agentId b)),
      (''decision'', JStr (pb_decision b)),
      (''logSequence'', JNum (pb_logSequence b)),
      (''previousDigest'', opt_json (pb_previousDigest b)),
      (''eventDigest'', JStr (pb_eventDigest b)),
      (''sourceRevision'', JStr (pb_sourceRevision b))])"

definition authority_body :: "(string \<Rightarrow> string) \<Rightarrow> receipt \<Rightarrow> event \<Rightarrow> authority_proof_body" where
  "authority_body H r e =
     \<lparr>pb_schemaVersion = 2, pb_receiptHash = authorityReceiptHash H r, pb_runId = r_runId r,
      pb_agentId = r_agentId r, pb_decision = r_decision r, pb_logSequence = sequence e,
      pb_previousDigest = previousDigest e, pb_eventDigest = digest e,
      pb_sourceRevision = r_sourceRevision r\<rparr>"

text \<open>The event before the last one of a chain: \<^verbatim>\<open>chain.length > 1 ? chain[chain.length - 2] : null\<close>.\<close>

definition chain_predecessor :: "'a list \<Rightarrow> 'a option" where
  "chain_predecessor c = (if 1 < length c then Some (c ! (length c - 2)) else None)"

text \<open>The third argument is a whole chain (a v3 bundle) or one predecessor or null (v2).\<close>

fun bundle_predecessor :: "event list + event option \<Rightarrow> event option" where
  "bundle_predecessor (Inl chain) = chain_predecessor chain"
| "bundle_predecessor (Inr predecessor) = predecessor"

fun bundle_chain :: "event list + event option \<Rightarrow> event list option" where
  "bundle_chain (Inl chain) = Some chain"
| "bundle_chain (Inr _) = None"

definition signAuthorityReceiptProof ::
  "crypto \<Rightarrow> receipt \<Rightarrow> event \<Rightarrow> event list + event option \<Rightarrow> string \<Rightarrow> string \<Rightarrow> proof_bundle option" where
  "signAuthorityReceiptProof cr r e ctx privateKeyPem pem =
     (let body = authority_body (sha256 cr) r e
      in map_option (\<lambda>kid.
        \<lparr>bundle_schemaVersion = (case bundle_chain ctx of Some _ \<Rightarrow> 3 | None \<Rightarrow> 2),
         bundle_receipt = r,
         bundle_proof = authority_proof_body.extend body
           \<lparr>pb_signingKeyId = kid, pb_signatureAlgorithm = ''Ed25519'',
            pb_signature = ed25519_sign cr privateKeyPem (canonicalAuthorityProofBody body)\<rparr>,
         terminalEvent = e,
         predecessorEvent = bundle_predecessor ctx,
         eventChain = bundle_chain ctx,
         publicKeyPem = pem\<rparr>)
      (receiptSigningKeyId cr pem))"

subsection \<open>The terminal event\<close>

text \<open>Event types are compared by their text; a payload member against a nullable receipt field.\<close>

definition is_type :: "event_type \<Rightarrow> event \<Rightarrow> bool" where
  "is_type t e \<longleftrightarrow> event_type_text (ev_type e) = event_type_text t"

definition pl_is :: "event \<Rightarrow> string \<Rightarrow> string option \<Rightarrow> bool" where
  "pl_is e k v \<longleftrightarrow> jfield (payload e) k = Some (opt_json v)"

definition terminalReceiptBindingError :: "receipt \<Rightarrow> event \<Rightarrow> string option" where
  "terminalReceiptBindingError r t =
     (if \<not> pl_is t ''receiptId'' (Some (r_receiptId r)) then Some ''terminal event receipt id mismatch''
      else if r_decision r = ''COMMITTED''
      then (if is_type TRANSITION_ACKNOWLEDGED t then None
            else Some ''committed receipt terminal event type mismatch'')
      else if \<not> (is_type NON_COMMIT_DISPOSITIONED t \<or> is_type VIEW_DISPOSITIONED t)
      then Some ''non-commit receipt terminal event type mismatch''
      else if \<not> pl_is t ''decision'' (Some (r_decision r)) \<or>
              \<not> pl_is t ''workspaceHash'' (Some (r_finalWorkspaceHash r)) \<or>
              \<not> pl_is t ''viewId'' (Some (r_finalViewId r))
      then Some ''non-commit terminal event payload mismatch''
      else if 2 \<le> r_schemaVersion r \<and>
              (case dispositionBase r of None \<Rightarrow> True
               | Some b \<Rightarrow> \<not> pl_is t ''previousViewId'' (Some (db_viewId b)))
      then Some ''non-commit disposition base event mismatch''
      else None)"

subsection \<open>The event chain\<close>

definition envelope_link :: "(string \<Rightarrow> string) \<Rightarrow> string \<Rightarrow> event option \<Rightarrow> event \<Rightarrow> bool" where
  "envelope_link H agentId previous e \<longleftrightarrow>
     ev_schemaVersion e = 1 \<and> ev_agentId e = agentId \<and>
     sequence e = (case previous of None \<Rightarrow> 0 | Some p \<Rightarrow> sequence p) + 1 \<and>
     previousDigest e = map_option digest previous \<and>
     digestEvent H e = digest e"

definition authorityEventChainError ::
  "(string \<Rightarrow> string) \<Rightarrow> event list \<Rightarrow> event \<Rightarrow> string \<Rightarrow> string option" where
  "authorityEventChainError H chain t agentId =
     (if chain = [] then Some ''authority event chain is empty''
      else if \<not> chain_from (envelope_link H agentId) None chain
      then Some ''authority event chain binding mismatch''
      else if eventId (last chain) \<noteq> eventId t \<or> sequence (last chain) \<noteq> sequence t \<or>
              digest (last chain) \<noteq> digest t
      then Some ''authority event chain terminal mismatch''
      else None)"

subsection \<open>The facts of the transition\<close>

definition transition_events :: "receipt \<Rightarrow> event list \<Rightarrow> event list" where
  "transition_events r chain = filter (\<lambda>e. ev_transitionId e = r_transitionId r) chain"

definition eventsOfType :: "receipt \<Rightarrow> event list \<Rightarrow> event_type \<Rightarrow> event list" where
  "eventsOfType r chain t = filter (is_type t) (transition_events r chain)"

definition unique_fact :: "receipt \<Rightarrow> event list \<Rightarrow> event \<Rightarrow> event_type \<Rightarrow> (event \<Rightarrow> bool) \<Rightarrow> bool" where
  "unique_fact r chain t ty P =
     (case the_single (eventsOfType r chain ty) of
        None \<Rightarrow> False
      | Some e \<Rightarrow> sequence e < sequence t \<and> P e)"

definition proposal_binding :: "receipt \<Rightarrow> event \<Rightarrow> bool" where
  "proposal_binding r e \<longleftrightarrow>
     pl_is e ''proposalId'' (r_proposalId r) \<and> pl_is e ''baseViewId'' (Some (r_baseViewId r)) \<and>
     pl_is e ''artifactHash'' (r_proposalArtifactHash r)"

definition evidence_binding :: "receipt \<Rightarrow> event \<Rightarrow> bool" where
  "evidence_binding r e \<longleftrightarrow>
     pl_is e ''proposalId'' (r_proposalId r) \<and> pl_is e ''verifierInputHash'' (r_verifierInputHash r) \<and>
     pl_is e ''evaluationContextHash'' (r_evaluationContextHash r) \<and>
     pl_is e ''evidenceDigest'' (r_evidenceDigest r)"

definition issued_binding :: "receipt \<Rightarrow> event \<Rightarrow> bool" where
  "issued_binding r e \<longleftrightarrow>
     pl_is e ''permitId'' (r_permitId r) \<and> pl_is e ''proposalId'' (r_proposalId r) \<and>
     pl_is e ''baseViewId'' (Some (r_baseViewId r)) \<and>
     pl_is e ''targetArtifactHash'' (r_promotionSourceHash r) \<and>
     pl_is e ''evaluationContextHash'' (r_evaluationContextHash r) \<and>
     pl_is e ''evidenceDigest'' (r_evidenceDigest r)"

definition consuming_binding :: "receipt \<Rightarrow> event \<Rightarrow> bool" where
  "consuming_binding r e \<longleftrightarrow>
     pl_is e ''permitId'' (r_permitId r) \<and> pl_is e ''proposalId'' (r_proposalId r) \<and>
     pl_is e ''targetArtifactHash'' (r_promotionSourceHash r)"

definition applied_binding :: "receipt \<Rightarrow> event \<Rightarrow> bool" where
  "applied_binding r e \<longleftrightarrow>
     pl_is e ''workspaceHash'' (Some (r_finalWorkspaceHash r)) \<and>
     (case jfield (payload e) ''view'' of
        Some (JObj kvs) \<Rightarrow> map_of kvs ''viewId'' = Some (JStr (r_finalViewId r))
      | _ \<Rightarrow> False)"

definition proposal_facts_error :: "receipt \<Rightarrow> event list \<Rightarrow> event \<Rightarrow> string option" where
  "proposal_facts_error r chain t =
     (if r_proposalId r = None
      then (if eventsOfType r chain PROPOSAL_SEALED \<noteq> []
            then Some ''receipt omits proposal recorded by authority chain'' else None)
      else if unique_fact r chain t PROPOSAL_SEALED (proposal_binding r) then None
      else Some ''proposal event receipt binding mismatch'')"

definition evidence_facts_error :: "receipt \<Rightarrow> event list \<Rightarrow> event \<Rightarrow> string option" where
  "evidence_facts_error r chain t =
     (let fields = [r_verifierInputHash r, r_evaluationContextHash r, r_evidenceDigest r];
          present = list_ex (\<lambda>v. v \<noteq> None) fields
      in if present \<and> \<not> list_all (\<lambda>v. v \<noteq> None) fields
         then Some ''receipt evidence fields are incomplete''
         else if \<not> present
         then (if eventsOfType r chain EVIDENCE_RECORDED \<noteq> []
               then Some ''receipt omits evidence recorded by authority chain'' else None)
         else if unique_fact r chain t EVIDENCE_RECORDED (evidence_binding r) then None
         else Some ''evidence event receipt binding mismatch'')"

definition permit_facts_error :: "receipt \<Rightarrow> event list \<Rightarrow> event \<Rightarrow> string option" where
  "permit_facts_error r chain t =
     (let issuedEvents = eventsOfType r chain PERMIT_ISSUED;
          consumingEvents = eventsOfType r chain PERMIT_CONSUMING
      in if r_permitId r = None
         then (if issuedEvents \<noteq> [] \<or> consumingEvents \<noteq> []
               then Some ''receipt omits permit recorded by authority chain'' else None)
         else if \<not> unique_fact r chain t PERMIT_ISSUED (issued_binding r)
         then Some ''permit issue event receipt binding mismatch''
         else if r_permitState r = Some ''CONSUMED'' \<and> length consumingEvents \<noteq> 1
         then Some ''consumed permit event is missing or duplicated''
         else if 1 < length consumingEvents then Some ''permit consuming event is duplicated''
         else if list_ex (\<lambda>e. \<not> sequence e < sequence t \<or> \<not> consuming_binding r e) consumingEvents
         then Some ''permit consuming event receipt binding mismatch''
         else None)"

definition applied_facts_error :: "receipt \<Rightarrow> event list \<Rightarrow> event \<Rightarrow> string option" where
  "applied_facts_error r chain t =
     (if r_decision r = ''COMMITTED''
      then (if unique_fact r chain t WORKSPACE_APPLIED (applied_binding r) then None
            else Some ''workspace-applied event receipt binding mismatch'')
      else if eventsOfType r chain WORKSPACE_APPLIED \<noteq> []
      then Some ''non-commit receipt contains workspace-applied event''
      else None)"

fun first_error :: "string option list \<Rightarrow> string option" where
  "first_error [] = None"
| "first_error (None # es) = first_error es"
| "first_error (Some e # es) = Some e"

definition authorityTransitionFactsError :: "receipt \<Rightarrow> event list \<Rightarrow> event \<Rightarrow> string option" where
  "authorityTransitionFactsError r chain t = first_error
     [proposal_facts_error r chain t, evidence_facts_error r chain t,
      permit_facts_error r chain t, applied_facts_error r chain t]"

subsection \<open>The verifier\<close>

definition proof_matches_receipt :: "signed_authority_proof \<Rightarrow> receipt \<Rightarrow> bool" where
  "proof_matches_receipt p r \<longleftrightarrow>
     pb_runId p = r_runId r \<and> pb_agentId p = r_agentId r \<and> pb_decision p = r_decision r \<and>
     pb_sourceRevision p = r_sourceRevision r"

definition terminal_matches :: "(string \<Rightarrow> string) \<Rightarrow> receipt \<Rightarrow> signed_authority_proof \<Rightarrow> event \<Rightarrow> bool" where
  "terminal_matches H r p t \<longleftrightarrow>
     ev_schemaVersion t = 1 \<and> ev_agentId t = r_agentId r \<and> ev_transitionId t = r_transitionId r \<and>
     sequence t = pb_logSequence p \<and> previousDigest t = pb_previousDigest p \<and>
     digest t = pb_eventDigest p \<and> digestEvent H t = digest t"

text \<open>The version 3 branch: complete chain, predecessor, facts. The version 2 branch: one checkpoint.\<close>

definition chain_history_error ::
  "(string \<Rightarrow> string) \<Rightarrow> receipt \<Rightarrow> event \<Rightarrow> event option \<Rightarrow> event list option \<Rightarrow> string option" where
  "chain_history_error H r t predecessor chain =
     (case chain of
        None \<Rightarrow> Some ''authority event chain is missing''
      | Some es \<Rightarrow>
          (case authorityEventChainError H es t (r_agentId r) of
             Some e \<Rightarrow> Some e
           | None \<Rightarrow>
               if map_option (\<lambda>e. (eventId e, digest e)) (chain_predecessor es) \<noteq>
                  map_option (\<lambda>e. (eventId e, digest e)) predecessor
               then Some ''terminal event predecessor binding mismatch''
               else authorityTransitionFactsError r es t))"

definition checkpoint_error :: "(string \<Rightarrow> string) \<Rightarrow> event \<Rightarrow> event option \<Rightarrow> string option" where
  "checkpoint_error H t predecessor =
     (if sequence t = 1
      then (if previousDigest t \<noteq> None \<or> predecessor \<noteq> None
            then Some ''terminal event predecessor binding mismatch'' else None)
      else (case predecessor of
          None \<Rightarrow> Some ''terminal event predecessor binding mismatch''
        | Some p \<Rightarrow>
            if ev_schemaVersion p \<noteq> 1 \<or> ev_agentId p \<noteq> ev_agentId t \<or>
               sequence p \<noteq> sequence t - 1 \<or> digestEvent H p \<noteq> digest p \<or>
               previousDigest t \<noteq> Some (digest p)
            then Some ''terminal event predecessor binding mismatch'' else None))"

definition signature_verdict :: "crypto \<Rightarrow> proof_bundle \<Rightarrow> verdict" where
  "signature_verdict cr b =
     (case ed25519_verify cr (canonicalAuthorityProofBody (bundle_proof b)) (publicKeyPem b)
             (pb_signature (bundle_proof b)) of
        None \<Rightarrow> invalid ''malformed signature''
      | Some False \<Rightarrow> invalid ''signature mismatch''
      | Some True \<Rightarrow>
          (case authorityReceiptSemanticError (bundle_receipt b) of
             Some e \<Rightarrow> invalid e
           | None \<Rightarrow> (True, None)))"

definition verifyAuthorityReceiptProof :: "crypto \<Rightarrow> proof_bundle \<Rightarrow> verdict" where
  "verifyAuthorityReceiptProof cr b =
     (let H = sha256 cr; r = bundle_receipt b; p = bundle_proof b; t = terminalEvent b
      in if bundle_schemaVersion b \<notin> {2, 3} \<or> r_schemaVersion r \<notin> {1, 2, 3} \<or>
            pb_schemaVersion p \<noteq> 2 \<or> pb_signatureAlgorithm p \<noteq> ''Ed25519''
         then invalid ''unsupported proof schema or algorithm''
         else (case receiptSigningKeyId cr (publicKeyPem b) of
           None \<Rightarrow> invalid ''malformed public key or receipt''
         | Some kid \<Rightarrow>
             if pb_signingKeyId p \<noteq> kid then invalid ''signing key id mismatch''
             else if pb_receiptHash p \<noteq> authorityReceiptHash H r then invalid ''receipt hash mismatch''
             else if \<not> proof_matches_receipt p r then invalid ''receipt proof binding mismatch''
             else if \<not> terminal_matches H r p t then invalid ''terminal event digest binding mismatch''
             else (case terminalReceiptBindingError r t of
                 Some e \<Rightarrow> invalid e
               | None \<Rightarrow>
                   (case (if bundle_schemaVersion b = 3
                          then chain_history_error H r t (predecessorEvent b) (eventChain b)
                          else checkpoint_error H t (predecessorEvent b)) of
                      Some e \<Rightarrow> invalid e
                    | None \<Rightarrow> signature_verdict cr b))))"

end
