(* ===== verification/Receipt_Facts.thy ===== *)
theory Receipt_Facts
  imports Receipt_Proof
begin

text \<open>
  What a receipt proof that verifies establishes: its semantic rules, the unique facts of its
  transition in the chain, and that its digests pin receipt and history up to a collision on the
  texts hashed. The chain check interprets \<open>hash_chain\<close>.
\<close>

interpretation receipt_chain:
  hash_chain H "envelope_link H agentId" unsigned_event previousDigest digest sequence
  for H agentId
  by unfold_locales (auto simp: envelope_link_def digestEvent_def unsigned_event_def)

subsection \<open>Inverting the verifier\<close>

lemma not_invalid [simp]: "invalid e = (True, r) \<longleftrightarrow> False" "(True, r) = invalid e \<longleftrightarrow> False"
  by (auto simp: invalid_def)

definition bundle_history_error :: "(string \<Rightarrow> string) \<Rightarrow> proof_bundle \<Rightarrow> string option" where
  "bundle_history_error H b =
     (if bundle_schemaVersion b = 3
      then chain_history_error H (bundle_receipt b) (terminalEvent b) (predecessorEvent b) (eventChain b)
      else checkpoint_error H (terminalEvent b) (predecessorEvent b))"

lemma signature_verdict_iff:
  "signature_verdict cr b = (True, rs) \<longleftrightarrow>
     ed25519_verify cr (canonicalAuthorityProofBody (bundle_proof b)) (publicKeyPem b)
       (pb_signature (bundle_proof b)) = Some True \<and>
     authorityReceiptSemanticError (bundle_receipt b) = None \<and> rs = None"
  by (auto simp: signature_verdict_def split: option.splits bool.splits)

lemma verify_iff:
  "verifyAuthorityReceiptProof cr b = (True, rs) \<longleftrightarrow>
     bundle_schemaVersion b \<in> {2, 3} \<and> r_schemaVersion (bundle_receipt b) \<in> {1, 2, 3} \<and>
     pb_schemaVersion (bundle_proof b) = 2 \<and> pb_signatureAlgorithm (bundle_proof b) = ''Ed25519'' \<and>
     receiptSigningKeyId cr (publicKeyPem b) = Some (pb_signingKeyId (bundle_proof b)) \<and>
     pb_receiptHash (bundle_proof b) = authorityReceiptHash (sha256 cr) (bundle_receipt b) \<and>
     proof_matches_receipt (bundle_proof b) (bundle_receipt b) \<and>
     terminal_matches (sha256 cr) (bundle_receipt b) (bundle_proof b) (terminalEvent b) \<and>
     terminalReceiptBindingError (bundle_receipt b) (terminalEvent b) = None \<and>
     bundle_history_error (sha256 cr) b = None \<and>
     signature_verdict cr b = (True, rs)"
  unfolding verifyAuthorityReceiptProof_def bundle_history_error_def
  by (auto simp: Let_def split: option.splits if_splits)

lemma verify_valid:
  "fst (verifyAuthorityReceiptProof cr b) \<longleftrightarrow> verifyAuthorityReceiptProof cr b = (True, None)"
proof
  assume "fst (verifyAuthorityReceiptProof cr b)"
  then obtain rs where "verifyAuthorityReceiptProof cr b = (True, rs)"
    by (cases "verifyAuthorityReceiptProof cr b") auto
  then show "verifyAuthorityReceiptProof cr b = (True, None)"
    by (simp add: verify_iff signature_verdict_iff)
qed simp

lemma first_error_None: "first_error es = None \<longleftrightarrow> list_all (\<lambda>e. e = None) es"
  by (induction es rule: first_error.induct) auto

lemma facts_error_None:
  "authorityTransitionFactsError r chain t = None \<longleftrightarrow>
     proposal_facts_error r chain t = None \<and> evidence_facts_error r chain t = None \<and>
     permit_facts_error r chain t = None \<and> applied_facts_error r chain t = None"
  by (simp add: authorityTransitionFactsError_def first_error_None)

lemma chain_error_None:
  "authorityEventChainError H chain t a = None \<longleftrightarrow>
     chain \<noteq> [] \<and> chain_from (envelope_link H a) None chain \<and> eventId (last chain) = eventId t \<and>
     sequence (last chain) = sequence t \<and> digest (last chain) = digest t"
  by (auto simp: authorityEventChainError_def)

lemma chain_history_None:
  "chain_history_error H r t p chain = None \<longleftrightarrow>
     (\<exists>es. chain = Some es \<and> authorityEventChainError H es t (r_agentId r) = None \<and>
        map_option (\<lambda>e. (eventId e, digest e)) (chain_predecessor es) =
          map_option (\<lambda>e. (eventId e, digest e)) p \<and>
        authorityTransitionFactsError r es t = None)"
  by (auto simp: chain_history_error_def split: option.splits)

lemma unique_fact_iff:
  "unique_fact r chain t ty P \<longleftrightarrow>
     (\<exists>e. eventsOfType r chain ty = [e] \<and> sequence e < sequence t \<and> P e)"
  by (cases "the_single (eventsOfType r chain ty)") (auto simp: unique_fact_def the_single_def split: list.splits option.splits)

lemma semantic_None_committed:
  assumes "authorityReceiptSemanticError r = None" and "r_decision r = ''COMMITTED''"
  obtains b where "dispositionBase r = Some b" and "committed_receipt_ok r b"
  using assms by (auto simp: authorityReceiptSemanticError_def split: if_splits option.splits)

lemma semantic_None_non_commit:
  assumes "authorityReceiptSemanticError r = None" and "r_decision r \<noteq> ''COMMITTED''"
  obtains b where "dispositionBase r = Some b" and "r_nextGeneration r = db_generation b"
    and "r_finalWorkspaceHash r = db_workspaceHash b" and "r_permitState r \<noteq> Some ''CONSUMED''"
    and "2 \<le> r_schemaVersion r \<Longrightarrow> (r_decision r = ''CONFLICTED'') = (\<not> base_matches r b)"
  using assms by (auto simp: authorityReceiptSemanticError_def split: if_splits option.splits)

lemmas committed_facts_defs = proposal_facts_error_def evidence_facts_error_def permit_facts_error_def
  applied_facts_error_def

subsection \<open>What the receipt hash covers\<close>

text \<open>A receipt with the members its schema does not have blanked out.\<close>

definition receipt_core :: "receipt \<Rightarrow> receipt" where
  "receipt_core r =
     (let q = (if r_schemaVersion r = 1
               then r\<lparr>r_dispositionBaseViewId := None, r_dispositionBaseGeneration := None,
                      r_dispositionBaseWorkspaceHash := None\<rparr> else r)
      in if r_schemaVersion r = 3 then q
         else q\<lparr>r_policyProfile := None, r_policyVersion := None, r_policyHash := None,
                r_checkSpecHash := None\<rparr>)"

lemma opt_member_None [simp]: "opt_member k f None = []"
  by (simp add: opt_member_def)

lemma map_of_opt_member_end [simp]:
  "map_of (opt_member k f x) k' = (if k' = k then map_option f x else None)"
  by (cases x) (simp_all add: opt_member_def)

text \<open>The members read back from the canonical object, one per field.\<close>

lemma canonical_fields:
  "jfield (canonicalAuthorityReceipt r) ''schemaVersion'' = Some (JNum (r_schemaVersion r))"
  "jfield (canonicalAuthorityReceipt r) ''receiptId'' = Some (JStr (r_receiptId r))"
  "jfield (canonicalAuthorityReceipt r) ''runId'' = Some (JStr (r_runId r))"
  "jfield (canonicalAuthorityReceipt r) ''agentId'' = Some (JStr (r_agentId r))"
  "jfield (canonicalAuthorityReceipt r) ''transitionId'' = Some (JStr (r_transitionId r))"
  "jfield (canonicalAuthorityReceipt r) ''decision'' = Some (JStr (r_decision r))"
  "jfield (canonicalAuthorityReceipt r) ''baseViewId'' = Some (JStr (r_baseViewId r))"
  "jfield (canonicalAuthorityReceipt r) ''finalViewId'' = Some (JStr (r_finalViewId r))"
  "jfield (canonicalAuthorityReceipt r) ''baseGeneration'' = Some (JNum (r_baseGeneration r))"
  "jfield (canonicalAuthorityReceipt r) ''nextGeneration'' = Some (JNum (r_nextGeneration r))"
  "jfield (canonicalAuthorityReceipt r) ''baseWorkspaceHash'' = Some (JStr (r_baseWorkspaceHash r))"
  by (simp_all add: canonicalAuthorityReceipt_def)

lemma canonical_tail_fields:
  "jfield (canonicalAuthorityReceipt r) ''finalWorkspaceHash'' = Some (JStr (r_finalWorkspaceHash r))"
  "jfield (canonicalAuthorityReceipt r) ''proposalId'' = Some (opt_json (r_proposalId r))"
  "jfield (canonicalAuthorityReceipt r) ''proposalArtifactHash'' = Some (opt_json (r_proposalArtifactHash r))"
  "jfield (canonicalAuthorityReceipt r) ''verifierInputHash'' = Some (opt_json (r_verifierInputHash r))"
  "jfield (canonicalAuthorityReceipt r) ''promotionSourceHash'' = Some (opt_json (r_promotionSourceHash r))"
  "jfield (canonicalAuthorityReceipt r) ''evaluationContextHash'' = Some (opt_json (r_evaluationContextHash r))"
  "jfield (canonicalAuthorityReceipt r) ''evidenceDigest'' = Some (opt_json (r_evidenceDigest r))"
  "jfield (canonicalAuthorityReceipt r) ''permitId'' = Some (opt_json (r_permitId r))"
  "jfield (canonicalAuthorityReceipt r) ''permitState'' = Some (opt_json (r_permitState r))"
  "jfield (canonicalAuthorityReceipt r) ''sourceRevision'' = Some (JStr (r_sourceRevision r))"
  by (simp_all add: canonicalAuthorityReceipt_def map_add_def)

lemma canonical_versioned_fields:
  "jfield (canonicalAuthorityReceipt r) ''dispositionBaseViewId'' =
     map_option JStr (r_dispositionBaseViewId (receipt_core r))"
  "jfield (canonicalAuthorityReceipt r) ''dispositionBaseGeneration'' =
     map_option JNum (r_dispositionBaseGeneration (receipt_core r))"
  "jfield (canonicalAuthorityReceipt r) ''dispositionBaseWorkspaceHash'' =
     map_option JStr (r_dispositionBaseWorkspaceHash (receipt_core r))"
  "jfield (canonicalAuthorityReceipt r) ''policyProfile'' = map_option JStr (r_policyProfile (receipt_core r))"
  "jfield (canonicalAuthorityReceipt r) ''policyVersion'' = map_option JNum (r_policyVersion (receipt_core r))"
  "jfield (canonicalAuthorityReceipt r) ''policyHash'' = map_option JStr (r_policyHash (receipt_core r))"
  "jfield (canonicalAuthorityReceipt r) ''checkSpecHash'' = map_option JStr (r_checkSpecHash (receipt_core r))"
  by (simp_all add: canonicalAuthorityReceipt_def receipt_core_def Let_def map_add_def split: option.split)

lemma map_option_ctor [simp]:
  "map_option JStr x = map_option JStr y \<longleftrightarrow> x = y" "map_option JNum m = map_option JNum n \<longleftrightarrow> m = n"
  by (cases x; cases y; simp) (cases m; cases n; simp)

lemma receipt_core_simps [simp]:
  "r_schemaVersion (receipt_core r) = r_schemaVersion r" "r_receiptId (receipt_core r) = r_receiptId r"
  "r_runId (receipt_core r) = r_runId r" "r_agentId (receipt_core r) = r_agentId r"
  "r_transitionId (receipt_core r) = r_transitionId r" "r_decision (receipt_core r) = r_decision r"
  "r_baseViewId (receipt_core r) = r_baseViewId r" "r_finalViewId (receipt_core r) = r_finalViewId r"
  "r_baseGeneration (receipt_core r) = r_baseGeneration r"
  "r_nextGeneration (receipt_core r) = r_nextGeneration r"
  "r_baseWorkspaceHash (receipt_core r) = r_baseWorkspaceHash r"
  "r_finalWorkspaceHash (receipt_core r) = r_finalWorkspaceHash r"
  "r_proposalId (receipt_core r) = r_proposalId r"
  "r_proposalArtifactHash (receipt_core r) = r_proposalArtifactHash r"
  "r_verifierInputHash (receipt_core r) = r_verifierInputHash r"
  "r_promotionSourceHash (receipt_core r) = r_promotionSourceHash r"
  "r_evaluationContextHash (receipt_core r) = r_evaluationContextHash r"
  "r_evidenceDigest (receipt_core r) = r_evidenceDigest r"
  "r_permitId (receipt_core r) = r_permitId r" "r_permitState (receipt_core r) = r_permitState r"
  "r_sourceRevision (receipt_core r) = r_sourceRevision r"
  by (simp_all add: receipt_core_def Let_def)

lemma canonical_receipt_inj:
  assumes "canonicalAuthorityReceipt r = canonicalAuthorityReceipt s"
  shows "receipt_core r = receipt_core s"
proof -
  have same: "jfield (canonicalAuthorityReceipt r) k = jfield (canonicalAuthorityReceipt s) k" for k
    by (simp add: assms)
  note head = same [of "''schemaVersion''"] same [of "''receiptId''"] same [of "''runId''"]
    same [of "''agentId''"] same [of "''transitionId''"] same [of "''decision''"] same [of "''baseViewId''"]
    same [of "''finalViewId''"] same [of "''baseGeneration''"] same [of "''nextGeneration''"]
    same [of "''baseWorkspaceHash''"]
  note tail = same [of "''finalWorkspaceHash''"] same [of "''proposalId''"]
    same [of "''proposalArtifactHash''"] same [of "''verifierInputHash''"] same [of "''promotionSourceHash''"]
    same [of "''evaluationContextHash''"] same [of "''evidenceDigest''"] same [of "''permitId''"]
    same [of "''permitState''"] same [of "''sourceRevision''"]
  note versioned = same [of "''dispositionBaseViewId''"] same [of "''dispositionBaseGeneration''"]
    same [of "''dispositionBaseWorkspaceHash''"] same [of "''policyProfile''"]
    same [of "''policyVersion''"] same [of "''policyHash''"] same [of "''checkSpecHash''"]
  note eqs = head [unfolded canonical_fields option.inject json.inject]
    tail [unfolded canonical_tail_fields option.inject json.inject opt_json_inj]
    versioned [unfolded canonical_versioned_fields map_option_ctor]
  show ?thesis
    by (rule receipt.equality) ((simp only: receipt_core_simps eqs; fail) | simp)+
qed

definition receipt_text :: "receipt \<Rightarrow> string" where
  "receipt_text r = stringify (canonicalAuthorityReceipt r)"

lemma receipt_hash_binds:
  "authorityReceiptHash H r = authorityReceiptHash H s \<Longrightarrow>
     receipt_core r = receipt_core s \<or> collision_in H {receipt_text r, receipt_text s}"
  unfolding authorityReceiptHash_def receipt_text_def
  by (drule hash_binds) (auto intro: canonical_receipt_inj)

lemma proof_body_text_inj:
  "canonicalAuthorityProofBody b = canonicalAuthorityProofBody c \<longleftrightarrow>
     authority_proof_body.truncate b = authority_proof_body.truncate c"
  unfolding canonicalAuthorityProofBody_def authority_proof_body.truncate_def stringify_eq_iff by auto

lemma proof_body_determined:
  assumes "verifyAuthorityReceiptProof cr b = (True, rs)"
  shows "authority_proof_body.truncate (bundle_proof b) =
    authority_body (sha256 cr) (bundle_receipt b) (terminalEvent b)"
  using assms
  by (auto simp: verify_iff proof_matches_receipt_def terminal_matches_def authority_body_def
      authority_proof_body.truncate_def)

text \<open>The bytes the signature covers depend on the receipt and the terminal event alone.\<close>

lemma signed_bytes:
  assumes "verifyAuthorityReceiptProof cr b = (True, rs)"
  shows "ed25519_verify cr
    (canonicalAuthorityProofBody (authority_body (sha256 cr) (bundle_receipt b) (terminalEvent b)))
    (publicKeyPem b) (pb_signature (bundle_proof b)) = Some True"
proof -
  have "canonicalAuthorityProofBody (bundle_proof b) =
    canonicalAuthorityProofBody (authority_body (sha256 cr) (bundle_receipt b) (terminalEvent b))"
    using proof_body_determined [OF assms]
    by (simp add: proof_body_text_inj authority_proof_body.truncate_def authority_body_def)
  with assms show ?thesis by (simp add: verify_iff signature_verdict_iff)
qed

lemma valid_semantics:
  "verifyAuthorityReceiptProof cr b = (True, rs) \<Longrightarrow> authorityReceiptSemanticError (bundle_receipt b) = None"
  by (simp add: verify_iff signature_verdict_iff)

lemma valid_terminal:
  "verifyAuthorityReceiptProof cr b = (True, rs) \<Longrightarrow>
     terminalReceiptBindingError (bundle_receipt b) (terminalEvent b) = None"
  by (simp add: verify_iff)

lemma valid_chain:
  assumes "verifyAuthorityReceiptProof cr b = (True, rs)" and "bundle_schemaVersion b = 3"
  obtains es where "eventChain b = Some es"
    and "authorityEventChainError (sha256 cr) es (terminalEvent b) (r_agentId (bundle_receipt b)) = None"
    and "authorityTransitionFactsError (bundle_receipt b) es (terminalEvent b) = None"
  using assms by (auto simp: verify_iff bundle_history_error_def chain_history_None)

text \<open>The facts of a committed transition, and the chain behind a terminal digest.\<close>

lemma committed_facts:
  assumes "authorityTransitionFactsError r es t = None" and "committed_receipt_ok r d"
    and "r_decision r = ''COMMITTED''"
  shows "\<exists>ps ev pi pc wa.
    eventsOfType r es PROPOSAL_SEALED = [ps] \<and> eventsOfType r es EVIDENCE_RECORDED = [ev] \<and>
    eventsOfType r es PERMIT_ISSUED = [pi] \<and> eventsOfType r es PERMIT_CONSUMING = [pc] \<and>
    eventsOfType r es WORKSPACE_APPLIED = [wa] \<and>
    (\<forall>e \<in> {ps, ev, pi, pc, wa}. sequence e < sequence t) \<and>
    (\<forall>e \<in> {ps, ev, pi, pc}. pl_is e ''proposalId'' (r_proposalId r)) \<and>
    (\<forall>e \<in> {pi, pc}. pl_is e ''permitId'' (r_permitId r) \<and>
       pl_is e ''targetArtifactHash'' (Some (r_finalWorkspaceHash r))) \<and>
    pl_is ps ''artifactHash'' (Some (r_finalWorkspaceHash r)) \<and>
    pl_is ev ''verifierInputHash'' (Some (r_finalWorkspaceHash r)) \<and>
    pl_is wa ''workspaceHash'' (Some (r_finalWorkspaceHash r))"
proof -
  from assms(2) have c: "r_proposalId r \<noteq> None" "r_permitId r \<noteq> None" "r_permitState r = Some ''CONSUMED''"
    "r_verifierInputHash r = Some (r_finalWorkspaceHash r)"
    "r_proposalArtifactHash r = Some (r_finalWorkspaceHash r)"
    "r_promotionSourceHash r = Some (r_finalWorkspaceHash r)"
    by (auto simp: committed_receipt_ok_def)
  from assms(1) have none: "proposal_facts_error r es t = None" "evidence_facts_error r es t = None"
    "permit_facts_error r es t = None" "applied_facts_error r es t = None"
    by (simp_all add: facts_error_None)
  from none(1) c obtain ps where "eventsOfType r es PROPOSAL_SEALED = [ps]" "sequence ps < sequence t"
    "proposal_binding r ps"
    by (auto simp: proposal_facts_error_def unique_fact_iff split: if_splits)
  moreover from none(2) c obtain ev where "eventsOfType r es EVIDENCE_RECORDED = [ev]"
    "sequence ev < sequence t" "evidence_binding r ev"
    by (auto simp: evidence_facts_error_def unique_fact_iff Let_def split: if_splits)
  moreover from none(3) c obtain pi where "eventsOfType r es PERMIT_ISSUED = [pi]"
    "sequence pi < sequence t" "issued_binding r pi"
    by (auto simp: permit_facts_error_def unique_fact_iff Let_def split: if_splits)
  moreover from none(3) c obtain pc where "eventsOfType r es PERMIT_CONSUMING = [pc]"
    "sequence pc < sequence t" "consuming_binding r pc"
    by (auto simp: permit_facts_error_def Let_def length_Suc_conv list_ex_iff split: if_splits)
  moreover from none(4) assms(3) obtain wa where "eventsOfType r es WORKSPACE_APPLIED = [wa]"
    "sequence wa < sequence t" "applied_binding r wa"
    by (auto simp: applied_facts_error_def unique_fact_iff split: if_splits)
  ultimately show ?thesis
    using c by (auto simp: proposal_binding_def evidence_binding_def issued_binding_def
        consuming_binding_def applied_binding_def)
qed

lemma chains_bind:
  assumes "authorityEventChainError H xs t a = None" and "authorityEventChainError H ys u b = None"
    and "digest t = digest u" and "a = b"
  shows "map unsigned_event xs = map unsigned_event ys \<or>
    collision_in H ((\<lambda>e. stringify (unsigned_event e)) ` (set xs \<union> set ys))"
  using assms receipt_chain.chain_unique [of H a xs ys]
  by (auto simp: chain_error_None receipt_chain.chain_texts_def image_Un)

subsection \<open>A concrete authority history\<close>

text \<open>A log built by appending; the hash is a parameter, so its digests stay symbolic.\<close>

fun build_log ::
  "(string \<Rightarrow> string) \<Rightarrow> string \<Rightarrow> string \<Rightarrow> event list \<Rightarrow> (event_type \<times> json) list \<Rightarrow> event list" where
  "build_log H agent tid es [] = es"
| "build_log H agent tid es ((ty, pl) # rest) =
     build_log H agent tid (es @ [next_event H (last_opt None es) agent tid ty pl (event_type_text ty) ''t0'']) rest"

lemma envelope_link_iff: "envelope_link H a p e \<longleftrightarrow> log_link H p e \<and> ev_agentId e = a"
  by (auto simp: envelope_link_def log_link_iff)

lemma chain_build_log:
  "chain_from (envelope_link H a) None es \<Longrightarrow> chain_from (envelope_link H a) None (build_log H a tid es specs)"
proof (induction specs arbitrary: es)
  case Nil
  then show ?case by simp
next
  case (Cons s specs)
  then show ?case
    by (cases s) (simp add: chain_from_snoc envelope_link_iff log_link_next)
qed

subsection \<open>A signed bundle verifies\<close>

definition key_pair :: "crypto \<Rightarrow> string \<Rightarrow> string \<Rightarrow> bool" where
  "key_pair cr privateKeyPem pem \<longleftrightarrow>
     spki_der cr pem \<noteq> None \<and> (\<forall>m. ed25519_verify cr m pem (ed25519_sign cr privateKeyPem m) = Some True)"

text \<open>The conditions under which the authority may sign: history, receipt and terminal event fit.\<close>

definition signable :: "(string \<Rightarrow> string) \<Rightarrow> receipt \<Rightarrow> event list \<Rightarrow> bool" where
  "signable H r chain \<longleftrightarrow>
     chain \<noteq> [] \<and> chain_from (envelope_link H (r_agentId r)) None chain \<and>
     ev_transitionId (last chain) = r_transitionId r \<and>
     terminalReceiptBindingError r (last chain) = None \<and>
     authorityTransitionFactsError r chain (last chain) = None \<and>
     authorityReceiptSemanticError r = None"

lemma envelope_last:
  "chain_from (envelope_link H a) None chain \<Longrightarrow> chain \<noteq> [] \<Longrightarrow>
     ev_schemaVersion (last chain) = 1 \<and> ev_agentId (last chain) = a \<and>
     digestEvent H (last chain) = digest (last chain)"
  by (cases chain rule: rev_cases) (auto simp: chain_from_snoc envelope_link_def)

lemma proof_body_signed_text [simp]:
  "canonicalAuthorityProofBody
     \<lparr>pb_schemaVersion = v, pb_receiptHash = h, pb_runId = run, pb_agentId = a, pb_decision = d,
      pb_logSequence = n, pb_previousDigest = q, pb_eventDigest = e, pb_sourceRevision = srev,
      pb_signingKeyId = kid, pb_signatureAlgorithm = alg, pb_signature = sig\<rparr> =
   canonicalAuthorityProofBody
     \<lparr>pb_schemaVersion = v, pb_receiptHash = h, pb_runId = run, pb_agentId = a, pb_decision = d,
      pb_logSequence = n, pb_previousDigest = q, pb_eventDigest = e, pb_sourceRevision = srev\<rparr>"
  by (simp add: canonicalAuthorityProofBody_def)

lemma signed_bundle_valid:
  assumes "key_pair cr privateKeyPem pem" and "signable (sha256 cr) r chain"
  shows "\<exists>b. signAuthorityReceiptProof cr r (last chain) (Inl chain) privateKeyPem pem = Some b \<and>
     verifyAuthorityReceiptProof cr b = (True, None) \<and> bundle_receipt b = r \<and>
     eventChain b = Some chain \<and> terminalEvent b = last chain \<and> bundle_schemaVersion b = 3"
proof -
  from assms(1) obtain der where der: "spki_der cr pem = Some der" by (auto simp: key_pair_def)
  from assms have sem: "authorityReceiptSemanticError r = None" by (simp add: signable_def)
  then have sv: "r_schemaVersion r \<in> {1, 2, 3}"
    by (auto simp: authorityReceiptSemanticError_def split: if_splits)
  from assms envelope_last [of "sha256 cr" "r_agentId r" chain] der sem sv show ?thesis
    unfolding verify_iff signature_verdict_iff
    by (simp add: signAuthorityReceiptProof_def receiptSigningKeyId_def Let_def bundle_history_error_def
        chain_history_None chain_error_None signable_def proof_matches_receipt_def terminal_matches_def
        authority_body_def key_pair_def authority_proof_body.defs)
qed

end
