(* ===== verification/Receipt_Props.thy ===== *)
theory Receipt_Props
  imports Receipt_Facts
begin

text \<open>
  The properties of receipt proofs, each with a concrete bundle (made by the signer from a
  history made by appending) that satisfies its hypotheses.
\<close>

subsection \<open>Concrete bundles\<close>

definition hA :: string where "hA = replicate 64 (CHR ''a'')"
definition hB :: string where "hB = replicate 64 (CHR ''b'')"
definition hC :: string where "hC = replicate 64 (CHR ''c'')"
definition hE :: string where "hE = replicate 64 (CHR ''e'')"

lemma digest_examples [simp]: "is_digest hA" "is_digest hB" "is_digest hC" "is_digest hE"
  by (simp_all add: hA_def hB_def hC_def hE_def is_hex_def list_all_iff is_lower_hex_def is_digit_def char_code_def)

text \<open>A key pair whose signature of a text is the text itself; the hash is the identity.\<close>

definition ex_crypto :: crypto where
  "ex_crypto = \<lparr>sha256 = (\<lambda>s. s), spki_der = Some, ed25519_sign = (\<lambda>_ m. m),
     ed25519_verify = (\<lambda>m _ sig. Some (sig = m))\<rparr>"

definition ex_permit_payload :: json where
  "ex_permit_payload = JObj [(''permitId'', JStr ''permit-1''), (''proposalId'', JStr ''proposal-1''),
     (''baseViewId'', JStr hA), (''targetArtifactHash'', JStr hB),
     (''evaluationContextHash'', JStr hC), (''evidenceDigest'', JStr hE)]"

definition ex_commit_specs :: "(event_type \<times> json) list" where
  "ex_commit_specs =
     [(PROPOSAL_SEALED, JObj [(''proposalId'', JStr ''proposal-1''), (''baseViewId'', JStr hA),
        (''artifactHash'', JStr hB)]),
      (EVIDENCE_RECORDED, JObj [(''proposalId'', JStr ''proposal-1''), (''verifierInputHash'', JStr hB),
        (''evaluationContextHash'', JStr hC), (''evidenceDigest'', JStr hE)]),
      (PERMIT_ISSUED, ex_permit_payload),
      (PERMIT_CONSUMING, ex_permit_payload),
      (WORKSPACE_APPLIED, JObj [(''workspaceHash'', JStr hB), (''view'', JObj [(''viewId'', JStr hC)])]),
      (TRANSITION_ACKNOWLEDGED, JObj [(''receiptId'', JStr ''receipt-1'')])]"

definition ex_commit_chain :: "event list" where
  "ex_commit_chain = build_log (\<lambda>s. s) ''agent'' ''t1'' [] ex_commit_specs"

definition ex_commit_receipt :: receipt where
  "ex_commit_receipt =
     \<lparr>r_schemaVersion = 3, r_receiptId = ''receipt-1'', r_runId = ''run-1'', r_agentId = ''agent'',
      r_transitionId = ''t1'', r_decision = ''COMMITTED'', r_baseViewId = hA, r_finalViewId = hC,
      r_baseGeneration = 4, r_nextGeneration = 5, r_baseWorkspaceHash = hE, r_finalWorkspaceHash = hB,
      r_proposalId = Some ''proposal-1'', r_proposalArtifactHash = Some hB, r_verifierInputHash = Some hB,
      r_promotionSourceHash = Some hB, r_evaluationContextHash = Some hC, r_evidenceDigest = Some hE,
      r_permitId = Some ''permit-1'', r_permitState = Some ''CONSUMED'', r_sourceRevision = ''rev'',
      r_dispositionBaseViewId = Some hA, r_dispositionBaseGeneration = Some 4,
      r_dispositionBaseWorkspaceHash = Some hE, r_policyProfile = Some ''workspace-default'',
      r_policyVersion = Some 1, r_policyHash = Some hC, r_checkSpecHash = Some hE\<rparr>"

definition ex_reject_chain :: "event list" where
  "ex_reject_chain = build_log (\<lambda>s. s) ''agent'' ''t1'' []
     [(PROPOSAL_SEALED, JObj [(''proposalId'', JStr ''proposal-1''), (''baseViewId'', JStr hA),
        (''artifactHash'', JStr hB)]),
      (NON_COMMIT_DISPOSITIONED, JObj [(''receiptId'', JStr ''receipt-1''), (''decision'', JStr ''QUARANTINED''),
        (''workspaceHash'', JStr hE), (''viewId'', JStr hC), (''previousViewId'', JStr hA)])]"

definition ex_reject_receipt :: receipt where
  "ex_reject_receipt = ex_commit_receipt\<lparr>r_decision := ''QUARANTINED'', r_nextGeneration := 4,
     r_finalWorkspaceHash := hE, r_verifierInputHash := None, r_promotionSourceHash := None,
     r_evaluationContextHash := None, r_evidenceDigest := None, r_permitId := None,
     r_permitState := None\<rparr>"

definition ex_bundle :: "receipt \<Rightarrow> event list \<Rightarrow> proof_bundle" where
  "ex_bundle r chain = the (signAuthorityReceiptProof ex_crypto r (last chain) (Inl chain) [] ''key'')"

lemmas example_defs = ex_commit_specs_def ex_permit_payload_def ex_commit_receipt_def
  ex_reject_receipt_def

lemma ex_chains [simp]:
  "chain_from (envelope_link (\<lambda>s. s) ''agent'') None ex_commit_chain"
  "chain_from (envelope_link (\<lambda>s. s) ''agent'') None ex_reject_chain"
  unfolding ex_commit_chain_def ex_reject_chain_def by (rule chain_build_log, simp)+

lemma example_idents [simp]:
  "is_identifier ''receipt-1''" "is_identifier ''run-1''" "is_identifier ''agent''" "is_identifier ''t1''"
  "is_identifier ''proposal-1''" "is_identifier ''permit-1''"
  by (simp_all add: is_identifier_def is_ident_char_def is_digit_def char_code_def)

lemma example_distinct [simp]: "hA \<noteq> hB" "hA \<noteq> hC" "hA \<noteq> hE" "hB \<noteq> hC" "hB \<noteq> hE" "hC \<noteq> hE"
  by (simp_all add: hA_def hB_def hC_def hE_def)

lemma ex_commit_semantics: "authorityReceiptSemanticError ex_commit_receipt = None"
  by (simp add: ex_commit_receipt_def authorityReceiptSemanticError_def dispositionBase_def
      receipt_fields_ok_def receipt_policy_ok_def committed_receipt_ok_def base_matches_def null_or_def
      decisions_def is_safe_integer_def max_safe_integer_def)

lemma ex_reject_semantics: "authorityReceiptSemanticError ex_reject_receipt = None"
  by (simp add: example_defs authorityReceiptSemanticError_def dispositionBase_def
      receipt_fields_ok_def receipt_policy_ok_def base_matches_def null_or_def
      decisions_def is_safe_integer_def max_safe_integer_def)

lemma ex_commit_facts: "authorityTransitionFactsError ex_commit_receipt ex_commit_chain (last ex_commit_chain) = None"
  by (simp add: facts_error_None committed_facts_defs unique_fact_iff eventsOfType_def
      transition_events_def ex_commit_chain_def example_defs is_type_def proposal_binding_def
      evidence_binding_def issued_binding_def consuming_binding_def applied_binding_def pl_is_def
      opt_json_def Let_def)

lemma ex_reject_facts: "authorityTransitionFactsError ex_reject_receipt ex_reject_chain (last ex_reject_chain) = None"
  by (simp add: facts_error_None committed_facts_defs unique_fact_iff eventsOfType_def
      transition_events_def ex_reject_chain_def example_defs is_type_def proposal_binding_def
      pl_is_def opt_json_def Let_def)

lemma ex_signable:
  "signable (\<lambda>s. s) ex_commit_receipt ex_commit_chain"
  "signable (\<lambda>s. s) ex_reject_receipt ex_reject_chain"
proof -
  have "terminalReceiptBindingError ex_commit_receipt (last ex_commit_chain) = None"
    "ex_commit_chain \<noteq> []" "ev_transitionId (last ex_commit_chain) = ''t1''"
    "r_agentId ex_commit_receipt = ''agent''" "r_transitionId ex_commit_receipt = ''t1''"
    by (simp_all add: terminalReceiptBindingError_def ex_commit_chain_def example_defs pl_is_def
        opt_json_def is_type_def)
  then show "signable (\<lambda>s. s) ex_commit_receipt ex_commit_chain"
    using ex_chains ex_commit_facts ex_commit_semantics by (simp add: signable_def)
  have "terminalReceiptBindingError ex_reject_receipt (last ex_reject_chain) = None"
    "ex_reject_chain \<noteq> []" "ev_transitionId (last ex_reject_chain) = ''t1''"
    "r_agentId ex_reject_receipt = ''agent''" "r_transitionId ex_reject_receipt = ''t1''"
    by (simp_all add: terminalReceiptBindingError_def ex_reject_chain_def example_defs pl_is_def
        opt_json_def is_type_def dispositionBase_def is_safe_integer_def max_safe_integer_def)
  then show "signable (\<lambda>s. s) ex_reject_receipt ex_reject_chain"
    using ex_chains ex_reject_facts ex_reject_semantics by (simp add: signable_def)
qed

lemma ex_key_pair: "key_pair ex_crypto [] ''key''"
  by (simp add: key_pair_def ex_crypto_def)

lemma ex_bundle_facts:
  assumes "signable (\<lambda>s. s) r chain"
  shows "verifyAuthorityReceiptProof ex_crypto (ex_bundle r chain) = (True, None) \<and>
    bundle_receipt (ex_bundle r chain) = r \<and> eventChain (ex_bundle r chain) = Some chain \<and>
    terminalEvent (ex_bundle r chain) = last chain \<and> bundle_schemaVersion (ex_bundle r chain) = 3"
  using signed_bundle_valid [OF ex_key_pair, of r chain] assms
  by (auto simp: ex_bundle_def ex_crypto_def)

lemmas ex_commit_bundle = ex_bundle_facts [OF ex_signable(1)]
lemmas ex_reject_bundle = ex_bundle_facts [OF ex_signable(2)]

subsection \<open>What a valid proof establishes\<close>

text \<open>C2: A proof that verifies for a COMMITTED receipt has one artifact hash: what was sealed, what
  was verified, what was promoted and what the workspace finally holds are the same bytes; the
  generation moved by exactly one from the admitted base; a permit was consumed; the terminal
  event is the acknowledgement that names this receipt; and the signature was checked over bytes
  made from this receipt and this terminal event alone.\<close>

theorem valid_commit_receipt:
  assumes "verifyAuthorityReceiptProof cr b = (True, rs)" and "r_decision (bundle_receipt b) = ''COMMITTED''"
  shows "(\<exists>h. r_proposalArtifactHash (bundle_receipt b) = Some h \<and>
      r_verifierInputHash (bundle_receipt b) = Some h \<and> r_promotionSourceHash (bundle_receipt b) = Some h \<and>
      r_finalWorkspaceHash (bundle_receipt b) = h) \<and>
    r_nextGeneration (bundle_receipt b) = r_baseGeneration (bundle_receipt b) + 1 \<and>
    r_permitState (bundle_receipt b) = Some ''CONSUMED'' \<and> r_permitId (bundle_receipt b) \<noteq> None \<and>
    is_type TRANSITION_ACKNOWLEDGED (terminalEvent b) \<and>
    pl_is (terminalEvent b) ''receiptId'' (Some (r_receiptId (bundle_receipt b))) \<and>
    ed25519_verify cr
      (canonicalAuthorityProofBody (authority_body (sha256 cr) (bundle_receipt b) (terminalEvent b)))
      (publicKeyPem b) (pb_signature (bundle_proof b)) = Some True"
proof -
  obtain d where d: "committed_receipt_ok (bundle_receipt b) d"
    by (rule semantic_None_committed [OF valid_semantics [OF assms(1)] assms(2)])
  have "is_type TRANSITION_ACKNOWLEDGED (terminalEvent b) \<and>
      pl_is (terminalEvent b) ''receiptId'' (Some (r_receiptId (bundle_receipt b)))"
    using valid_terminal [OF assms(1)] assms(2)
    by (auto simp: terminalReceiptBindingError_def split: if_splits)
  with d signed_bytes [OF assms(1)] show ?thesis
    by (auto simp: committed_receipt_ok_def base_matches_def)
qed

theorem valid_commit_receipt_witness:
  "r_nextGeneration (bundle_receipt (ex_bundle ex_commit_receipt ex_commit_chain)) =
     r_baseGeneration (bundle_receipt (ex_bundle ex_commit_receipt ex_commit_chain)) + 1"
  using valid_commit_receipt [of ex_crypto "ex_bundle ex_commit_receipt ex_commit_chain" None]
    ex_commit_bundle by (simp add: ex_commit_receipt_def)

text \<open>C16: A proof that verifies for a decision other than COMMITTED shows no effect: generation and
  workspace are those of the authority's HEAD at the disposition, no permit was consumed, the
  terminal event carries the same decision, view and workspace, and, with the complete chain, the
  transition never applied a workspace. From schema 2 on CONFLICTED means exactly that the
  admitted base had drifted.\<close>

theorem valid_non_commit_receipt:
  assumes "verifyAuthorityReceiptProof cr b = (True, rs)" and "r_decision (bundle_receipt b) \<noteq> ''COMMITTED''"
  shows "(\<exists>d. dispositionBase (bundle_receipt b) = Some d \<and>
      r_nextGeneration (bundle_receipt b) = db_generation d \<and>
      r_finalWorkspaceHash (bundle_receipt b) = db_workspaceHash d \<and>
      (2 \<le> r_schemaVersion (bundle_receipt b) \<longrightarrow>
        (r_decision (bundle_receipt b) = ''CONFLICTED'') = (\<not> base_matches (bundle_receipt b) d))) \<and>
    r_permitState (bundle_receipt b) \<noteq> Some ''CONSUMED'' \<and>
    pl_is (terminalEvent b) ''decision'' (Some (r_decision (bundle_receipt b))) \<and>
    pl_is (terminalEvent b) ''workspaceHash'' (Some (r_finalWorkspaceHash (bundle_receipt b))) \<and>
    pl_is (terminalEvent b) ''viewId'' (Some (r_finalViewId (bundle_receipt b))) \<and>
    (bundle_schemaVersion b = 3 \<longrightarrow>
      (\<exists>es. eventChain b = Some es \<and> eventsOfType (bundle_receipt b) es WORKSPACE_APPLIED = []))"
proof -
  have "\<exists>d. dispositionBase (bundle_receipt b) = Some d \<and>
      r_nextGeneration (bundle_receipt b) = db_generation d \<and>
      r_finalWorkspaceHash (bundle_receipt b) = db_workspaceHash d \<and>
      r_permitState (bundle_receipt b) \<noteq> Some ''CONSUMED'' \<and>
      (2 \<le> r_schemaVersion (bundle_receipt b) \<longrightarrow>
        (r_decision (bundle_receipt b) = ''CONFLICTED'') = (\<not> base_matches (bundle_receipt b) d))"
    by (rule semantic_None_non_commit [OF valid_semantics [OF assms(1)] assms(2)]) auto
  moreover have "pl_is (terminalEvent b) ''decision'' (Some (r_decision (bundle_receipt b))) \<and>
      pl_is (terminalEvent b) ''workspaceHash'' (Some (r_finalWorkspaceHash (bundle_receipt b))) \<and>
      pl_is (terminalEvent b) ''viewId'' (Some (r_finalViewId (bundle_receipt b)))"
    using valid_terminal [OF assms(1)] assms(2)
    by (auto simp: terminalReceiptBindingError_def split: if_splits)
  moreover have "\<exists>es. eventChain b = Some es \<and> eventsOfType (bundle_receipt b) es WORKSPACE_APPLIED = []"
    if "bundle_schemaVersion b = 3"
    by (rule valid_chain [OF assms(1) that])
      (use assms(2) in \<open>auto simp: facts_error_None applied_facts_error_def split: if_splits\<close>)
  ultimately show ?thesis by blast
qed

theorem valid_non_commit_receipt_witness:
  "r_permitState (bundle_receipt (ex_bundle ex_reject_receipt ex_reject_chain)) \<noteq> Some ''CONSUMED''"
  using valid_non_commit_receipt [of ex_crypto "ex_bundle ex_reject_receipt ex_reject_chain" None]
    ex_reject_bundle by (simp add: ex_reject_receipt_def)

text \<open>C15: A version 3 proof for a COMMITTED receipt shows the complete path of evidence: in the chain
  from genesis, the receipt's transition has exactly one sealed proposal, one evidence record, one
  permit issue, one permit consumption and one workspace application, all before the terminal
  event, all naming the proposal and permit of the receipt, and the consumed permit targets the
  very artifact that was sealed and applied.\<close>

theorem valid_commit_chain_facts:
  assumes "verifyAuthorityReceiptProof cr b = (True, rs)" and "r_decision (bundle_receipt b) = ''COMMITTED''"
    and "bundle_schemaVersion b = 3"
  shows "\<exists>es ps ev pi pc wa. eventChain b = Some es \<and>
    eventsOfType (bundle_receipt b) es PROPOSAL_SEALED = [ps] \<and>
    eventsOfType (bundle_receipt b) es EVIDENCE_RECORDED = [ev] \<and>
    eventsOfType (bundle_receipt b) es PERMIT_ISSUED = [pi] \<and>
    eventsOfType (bundle_receipt b) es PERMIT_CONSUMING = [pc] \<and>
    eventsOfType (bundle_receipt b) es WORKSPACE_APPLIED = [wa] \<and>
    (\<forall>e \<in> {ps, ev, pi, pc, wa}. sequence e < sequence (terminalEvent b)) \<and>
    (\<forall>e \<in> {ps, ev, pi, pc}. pl_is e ''proposalId'' (r_proposalId (bundle_receipt b))) \<and>
    (\<forall>e \<in> {pi, pc}. pl_is e ''permitId'' (r_permitId (bundle_receipt b)) \<and>
       pl_is e ''targetArtifactHash'' (Some (r_finalWorkspaceHash (bundle_receipt b)))) \<and>
    pl_is ps ''artifactHash'' (Some (r_finalWorkspaceHash (bundle_receipt b))) \<and>
    pl_is ev ''verifierInputHash'' (Some (r_finalWorkspaceHash (bundle_receipt b))) \<and>
    pl_is wa ''workspaceHash'' (Some (r_finalWorkspaceHash (bundle_receipt b)))"
proof -
  obtain d where d: "committed_receipt_ok (bundle_receipt b) d"
    by (rule semantic_None_committed [OF valid_semantics [OF assms(1)] assms(2)])
  obtain es where es: "eventChain b = Some es"
    "authorityTransitionFactsError (bundle_receipt b) es (terminalEvent b) = None"
    by (rule valid_chain [OF assms(1,3)])
  from committed_facts [OF es(2) d assms(2)] es(1) show ?thesis by blast
qed

theorem valid_commit_chain_facts_witness:
  "\<exists>es pc. eventChain (ex_bundle ex_commit_receipt ex_commit_chain) = Some es \<and>
     eventsOfType ex_commit_receipt es PERMIT_CONSUMING = [pc] \<and>
     pl_is pc ''targetArtifactHash'' (Some hB)"
  using valid_commit_chain_facts [of ex_crypto "ex_bundle ex_commit_receipt ex_commit_chain" None]
    ex_commit_bundle by (auto simp: ex_commit_receipt_def)

text \<open>C21: What the authority signs, the offline verifier accepts: for every key pair and every
  receipt whose chain, terminal event, transition facts and semantics fit, the bundle the signer
  makes verifies, so the verifier's rules are never stricter than the signer's preconditions.\<close>

theorem sign_then_verify:
  assumes "key_pair cr privateKeyPem pem" and "signable (sha256 cr) r chain"
  shows "\<exists>b. signAuthorityReceiptProof cr r (last chain) (Inl chain) privateKeyPem pem = Some b \<and>
    verifyAuthorityReceiptProof cr b = (True, None) \<and> bundle_receipt b = r \<and> eventChain b = Some chain"
  using signed_bundle_valid [OF assms] by blast

theorem sign_then_verify_witness:
  "\<exists>b. signAuthorityReceiptProof ex_crypto ex_reject_receipt (last ex_reject_chain) (Inl ex_reject_chain)
        [] ''key'' = Some b \<and> verifyAuthorityReceiptProof ex_crypto b = (True, None)"
  using sign_then_verify [OF ex_key_pair, of ex_reject_receipt ex_reject_chain] ex_signable(2)
  by (auto simp: ex_crypto_def)








end
