(* ===== verification/Projection.thy ===== *)
theory Projection
  imports State_View Receipt_Facts "HOL-Library.List_Lexorder" "HOL-Library.Char_ord"
begin

text \<open>
  The worker projection (\<^verbatim>\<open>transition-worker/projection.ts\<close>): the authority's state
  rebuilt from the event log by one reducer, and never stored as a fact of its own. Each event
  type has its handler; a handler throws where the source throws. The tables keyed by id are maps
  (the source's objects; keys of the object prototype are set aside), the mutated entries are
  written back at once. The digest of the projection, which no step reads, is left out.

  Payload members are read as the source reads them. Where it only casts
  (\<^verbatim>\<open>payload.view as StateViewRef\<close>, a receipt, a bundle), the model reads the declared
  shape and takes any other value for a \<^verbatim>\<open>TypeError\<close>.
\<close>

subsection \<open>The projected state\<close>

datatype permit_state = PM_ISSUED | PM_CONSUMING | PM_CONSUMED | PM_REVOKED

datatype proposal_state = PS_SEALED | PS_DESTROYED

datatype transition_kind = AGENT_COMMIT | ROLLBACK

datatype transition_state =
  TS_PREPARED | TS_SEALED | TS_EVIDENCED | TS_PERMITTED | TS_CONSUMING | TS_APPLIED
| TS_ACKNOWLEDGED | TS_CANCELLED | TS_ROLLED_BACK | TS_REPAIRED

datatype version_kind = INITIAL_VERSION | AGENT_COMMIT_VERSION | ROLLBACK_VERSION

record proposal =
  pp_proposalId :: string
  pp_transitionId :: string
  pp_baseViewId :: string
  pp_artifactHash :: string
  pp_manifestHash :: string
  pp_changedPathsDigest :: string
  pp_runtimeTeardownDigest :: "string option"
  pp_verifierInputHash :: "string option"
  pp_changedPaths :: "string list"
  pp_staticFailures :: "string list"
  pp_state :: proposal_state
  pp_exportVolumeIds :: "string list"

record blob_ref =
  blobId :: string
  sizeBytes :: "int option"

record evidence =
  pe_proposalId :: string
  pe_transitionId :: string
  pe_evaluationContextHash :: string
  pe_evidenceDigest :: string
  pe_verifierInputHash :: "string option"
  pe_checkResultsHash :: "string option"
  pe_coverage :: string
  pe_requiredChecksPassed :: bool
  pe_evidenceBlob :: "blob_ref option"
  pe_checkCount :: "int option"
  pe_checks :: "json list"
  pe_sourceRevision :: "string option"
  pe_policyHash :: "string option"

record permit =
  pm_permitId :: string
  pm_transitionId :: string
  pm_proposalId :: string
  pm_baseViewId :: string
  pm_targetArtifactHash :: string
  pm_evaluationContextHash :: string
  pm_evidenceDigest :: string
  pm_expiresAt :: string
  pm_state :: permit_state

record version =
  vr_versionId :: string
  vr_transitionId :: string
  vr_kind :: version_kind
  vr_viewId :: string
  vr_generation :: int
  vr_workspaceHash :: string
  vr_snapshotId :: string
  vr_receiptId :: "string option"
  vr_rollbackTargetVersionId :: "string option"

record terminal_receipt =
  tr_receiptId :: string
  tr_transitionId :: string
  tr_decision :: string
  tr_viewId :: "string option"
  tr_eventId :: string
  tr_sequence :: int
  tr_view :: state_view
  tr_workspaceHash :: string
  tr_dispositionBaseViewId :: "string option"
  tr_dispositionBaseGeneration :: "int option"
  tr_dispositionBaseWorkspaceHash :: string
  tr_reasonCodes :: "string list"

record projected_proof =
  px_receiptId :: string
  px_transitionId :: string
  px_terminalEventId :: string
  px_proofEventId :: string
  px_sequence :: int
  px_bundle :: proof_bundle

record runtime_teardown =
  td_runId :: string
  td_agentId :: string
  td_runLeaseId :: string
  td_sessionEpoch :: int
  td_scope :: string
  td_source :: string
  td_digest :: string
  td_eventId :: string
  td_sequence :: int

record transition =
  tn_transitionId :: string
  tn_kind :: transition_kind
  tn_state :: transition_state
  tn_runId :: "string option"
  tn_runLeaseId :: "string option"
  tn_runtimeSessionEpoch :: "int option"
  tn_candidateVolumeId :: "string option"
  tn_baseViewId :: "string option"
  tn_baseWorkspaceHash :: string
  tn_baseGeneration :: "int option"
  tn_appliedView :: "state_view option"
  tn_appliedWorkspaceHash :: "string option"
  tn_proposalId :: "string option"
  tn_permitId :: "string option"
  tn_artifactsDestroyed :: bool
  tn_runtimeTeardownAgent :: "runtime_teardown option"
  tn_runtimeTeardownAll :: "runtime_teardown option"

record head =
  hd_view :: state_view
  hd_workspaceHash :: string
  hd_lastAppliedEventId :: string
  hd_lastAppliedSequence :: int

record projection =
  pj_agentId :: string
  pj_head :: "head option"
  pj_proposals :: "string \<rightharpoonup> proposal"
  pj_evidence :: "string \<rightharpoonup> evidence"
  pj_permits :: "string \<rightharpoonup> permit"
  pj_transitions :: "string \<rightharpoonup> transition"
  pj_versions :: "version list"
  pj_terminalReceipts :: "terminal_receipt list"
  pj_receiptProofs :: "string \<rightharpoonup> projected_proof"
  pj_archived :: bool
  pj_lastEventId :: "string option"
  pj_lastSequence :: int

definition empty_projection :: "string \<Rightarrow> projection" where
  "empty_projection agentId =
     \<lparr>pj_agentId = agentId, pj_head = None, pj_proposals = Map.empty, pj_evidence = Map.empty,
      pj_permits = Map.empty, pj_transitions = Map.empty, pj_versions = [], pj_terminalReceipts = [],
      pj_receiptProofs = Map.empty, pj_archived = False, pj_lastEventId = None, pj_lastSequence = 0\<rparr>"

subsection \<open>Reading payloads\<close>

abbreviation err :: "string \<Rightarrow> 'a res" where
  "err s \<equiv> Inl (JsError s)"

definition requiredString :: "json \<Rightarrow> string \<Rightarrow> string res" where
  "requiredString p k =
     (case str_or_null (jfield p k) of
        Some (c # cs) \<Rightarrow> Inr (c # cs)
      | _ \<Rightarrow> err (''TRANSITION_EVENT_PAYLOAD_INVALID:'' @ k))"

definition assertProjectedView :: "(string \<Rightarrow> string) \<Rightarrow> json option \<Rightarrow> state_view res" where
  "assertProjectedView H v =
     (if \<not> is_object v then err ''TRANSITION_EVENT_VIEW_INVALID''
      else bindE (as_view v) (\<lambda>view.
        if \<not> view_ok H view then err ''TRANSITION_EVENT_VIEW_INVALID'' else Inr view))"

definition transitionFor :: "projection \<Rightarrow> string \<Rightarrow> transition res" where
  "transitionFor p tid =
     (case pj_transitions p tid of
        None \<Rightarrow> err (''TRANSITION_EVENT_ORDER_INVALID:'' @ tid)
      | Some t \<Rightarrow> Inr t)"

text \<open>A nullable string used as a condition: null and the empty string are false.\<close>

definition truthy :: "string option \<Rightarrow> bool" where
  "truthy x \<longleftrightarrow> (case x of None \<Rightarrow> False | Some s \<Rightarrow> s \<noteq> [])"

fun json_items :: "json option \<Rightarrow> json list" where
  "json_items (Some (JArr xs)) = xs"
| "json_items _ = []"

definition sub_string :: "json \<Rightarrow> string \<Rightarrow> string \<Rightarrow> string option" where
  "sub_string p k l =
     (case jfield p k of None \<Rightarrow> None | Some j \<Rightarrow> str_or_null (jfield j l))"

definition put_transition :: "projection \<Rightarrow> string \<Rightarrow> transition \<Rightarrow> projection" where
  "put_transition p tid t = p\<lparr>pj_transitions := (pj_transitions p)(tid \<mapsto> t)\<rparr>"

definition set_state :: "projection \<Rightarrow> string \<Rightarrow> transition \<Rightarrow> transition_state \<Rightarrow> projection" where
  "set_state p tid t s = put_transition p tid (t\<lparr>tn_state := s\<rparr>)"

text \<open>\<^verbatim>\<open>transition.permitId ? projection.permits[transition.permitId] : undefined\<close>.\<close>

definition permit_of :: "projection \<Rightarrow> transition \<Rightarrow> permit option" where
  "permit_of p t =
     (case tn_permitId t of Some i \<Rightarrow> if i = [] then None else pj_permits p i | None \<Rightarrow> None)"

text \<open>Moves the transition's permit, if it has one and its state satisfies the guard.\<close>

definition move_permit :: "projection \<Rightarrow> transition \<Rightarrow> (permit_state \<Rightarrow> bool) \<Rightarrow> permit_state \<Rightarrow> projection" where
  "move_permit p t g s =
     (case (tn_permitId t, permit_of p t) of
        (Some i, Some m) \<Rightarrow>
          if g (pm_state m) then p\<lparr>pj_permits := (pj_permits p)(i \<mapsto> m\<lparr>pm_state := s\<rparr>)\<rparr> else p
      | _ \<Rightarrow> p)"

definition put_head :: "projection \<Rightarrow> state_view \<Rightarrow> string \<Rightarrow> event \<Rightarrow> projection" where
  "put_head p v w e = p\<lparr>pj_head := Some
     \<lparr>hd_view = v, hd_workspaceHash = w, hd_lastAppliedEventId = eventId e,
      hd_lastAppliedSequence = sequence e\<rparr>\<rparr>"

subsection \<open>Initialisation and preparation\<close>

definition on_agent_initialized :: "projection \<Rightarrow> event \<Rightarrow> projection res" where
  "on_agent_initialized p e =
     (if pj_head p \<noteq> None \<or> pj_versions p \<noteq> [] then err ''AGENT_ALREADY_INITIALIZED''
      else
        bindE (requiredString (payload e) ''workspaceHash'') (\<lambda>w.
        bindE (requiredString (payload e) ''versionId'') (\<lambda>vid.
        bindE (as_view (jfield (payload e) ''view'')) (\<lambda>v.
        bindE (requiredString (payload e) ''snapshotId'') (\<lambda>sid.
          Inr ((put_head p v w e)\<lparr>pj_versions := pj_versions p @
            [\<lparr>vr_versionId = vid, vr_transitionId = ev_transitionId e, vr_kind = INITIAL_VERSION,
              vr_viewId = viewId v, vr_generation = generation v, vr_workspaceHash = w,
              vr_snapshotId = sid, vr_receiptId = None, vr_rollbackTargetVersionId = None\<rparr>]\<rparr>))))))"

definition parse_kind :: "string \<Rightarrow> transition_kind option" where
  "parse_kind s =
     (if s = ''AGENT_COMMIT'' then Some AGENT_COMMIT else if s = ''ROLLBACK'' then Some ROLLBACK else None)"

definition on_transition_prepared :: "projection \<Rightarrow> event \<Rightarrow> projection res" where
  "on_transition_prepared p e =
     (let tid = ev_transitionId e; pl = payload e
      in if pj_transitions p tid \<noteq> None then err (''TRANSITION_ALREADY_PREPARED:'' @ tid)
      else
        bindE (requiredString pl ''kind'') (\<lambda>k.
        case parse_kind k of
          None \<Rightarrow> err ''TRANSITION_KIND_INVALID''
        | Some kind \<Rightarrow>
            bindE (requiredString pl ''baseWorkspaceHash'') (\<lambda>w.
            Inr (put_transition p tid
              \<lparr>tn_transitionId = tid, tn_kind = kind, tn_state = TS_PREPARED,
               tn_runId = str_or_null (jfield pl ''runId''),
               tn_runLeaseId = str_or_null (jfield pl ''runLeaseId''),
               tn_runtimeSessionEpoch =
                 (case num_or_null (jfield pl ''sessionEpoch'') of
                    Some n \<Rightarrow> if is_safe_integer n \<and> 0 \<le> n then Some n else None
                  | None \<Rightarrow> None),
               tn_candidateVolumeId = str_or_null (jfield pl ''candidateVolumeId''),
               tn_baseViewId = str_or_null (jfield pl ''baseViewId''),
               tn_baseWorkspaceHash = w,
               tn_baseGeneration = js_number (jfield pl ''baseGeneration''),
               tn_appliedView = None, tn_appliedWorkspaceHash = None, tn_proposalId = None,
               tn_permitId = None, tn_artifactsDestroyed = False,
               tn_runtimeTeardownAgent = None, tn_runtimeTeardownAll = None\<rparr>))))"

definition on_runtime_teardown :: "projection \<Rightarrow> event \<Rightarrow> projection res" where
  "on_runtime_teardown p e =
     (let pl = payload e; invalid_binding = err ''RUNTIME_TEARDOWN_BINDING_INVALID''
      in bindE (transitionFor p (ev_transitionId e)) (\<lambda>t.
        case (tn_runId t, tn_runLeaseId t) of
          (Some (c # run), Some (d # lease)) \<Rightarrow>
            bindE (requiredString pl ''scope'') (\<lambda>scope.
            if scope \<noteq> ''AGENT'' \<and> scope \<noteq> ''ALL'' then err ''RUNTIME_TEARDOWN_SCOPE_INVALID''
            else bindE (requiredString pl ''runId'') (\<lambda>r.
            if r \<noteq> c # run then invalid_binding
            else bindE (requiredString pl ''agentId'') (\<lambda>a.
            if a \<noteq> pj_agentId p then invalid_binding
            else bindE (requiredString pl ''runLeaseId'') (\<lambda>l.
            if l \<noteq> d # lease then invalid_binding
            else (case js_number (jfield pl ''sessionEpoch'') of
              None \<Rightarrow> invalid_binding
            | Some n \<Rightarrow>
                if \<not> is_safe_integer n \<or> n < 0 \<or>
                   (tn_runtimeSessionEpoch t \<noteq> None \<and> tn_runtimeSessionEpoch t \<noteq> Some n) \<or>
                   \<not> is_true (jfield pl ''containerExited'') \<or>
                   \<not> is_true (jfield pl ''containerRemoved'') \<or>
                   \<not> is_true (jfield pl ''mountsReleased'')
                then invalid_binding
                else bindE (requiredString pl ''source'') (\<lambda>source.
                if source \<noteq> ''runtime-attestation'' \<and> source \<noteq> ''broker-reconciliation''
                then err ''RUNTIME_TEARDOWN_SOURCE_INVALID''
                else bindE (requiredString pl ''digest'') (\<lambda>dg.
                  let rec = \<lparr>td_runId = c # run, td_agentId = pj_agentId p, td_runLeaseId = d # lease,
                    td_sessionEpoch = n, td_scope = scope, td_source = source, td_digest = dg,
                    td_eventId = eventId e, td_sequence = sequence e\<rparr>
                  in Inr (put_transition p (ev_transitionId e)
                    (if scope = ''AGENT'' then t\<lparr>tn_runtimeTeardownAgent := Some rec\<rparr>
                     else t\<lparr>tn_runtimeTeardownAll := Some rec\<rparr>)))))))))
        | _ \<Rightarrow> err ''RUNTIME_TEARDOWN_NON_PRODUCT_TRANSITION''))"

text \<open>\<^verbatim>\<open>if (bound && requiredString(payload, key) !== bound) throw\<close>.\<close>

definition check_bound :: "string option \<Rightarrow> json \<Rightarrow> string \<Rightarrow> string \<Rightarrow> unit res" where
  "check_bound bound pl k message =
     (if truthy bound
      then bindE (requiredString pl k) (\<lambda>s. if Some s \<noteq> bound then err message else Inr ())
      else Inr ())"

definition on_run_cancelled :: "projection \<Rightarrow> event \<Rightarrow> projection res" where
  "on_run_cancelled p e =
     bindE (transitionFor p (ev_transitionId e)) (\<lambda>t.
     if tn_state t \<notin> {TS_PREPARED, TS_SEALED, TS_EVIDENCED, TS_PERMITTED, TS_CANCELLED}
     then err ''RUN_CANCELLATION_ORDER_INVALID''
     else
       bindE (check_bound (tn_runId t) (payload e) ''runId'' ''RUN_CANCELLATION_BINDING_MISMATCH'') (\<lambda>_.
       bindE (check_bound (tn_runLeaseId t) (payload e) ''runLeaseId'' ''RUN_CANCELLATION_BINDING_MISMATCH'') (\<lambda>_.
         Inr (set_state (move_permit p t (\<lambda>s. s = PM_ISSUED) PM_REVOKED) (ev_transitionId e) t TS_CANCELLED))))"

subsection \<open>Proposals and evidence\<close>

definition string_or :: "json option \<Rightarrow> string res \<Rightarrow> string res" where
  "string_or v d = (case str_or_null v of Some s \<Rightarrow> Inr s | None \<Rightarrow> d)"

definition on_proposal_sealed :: "(string \<Rightarrow> string) \<Rightarrow> projection \<Rightarrow> event \<Rightarrow> projection res" where
  "on_proposal_sealed H p e =
     (let pl = payload e in
      bindE (transitionFor p (ev_transitionId e)) (\<lambda>t.
      if tn_state t \<noteq> TS_PREPARED then err ''PROPOSAL_SEAL_ORDER_INVALID''
      else
        bindE (requiredString pl ''proposalId'') (\<lambda>i.
        bindE (requiredString pl ''baseViewId'') (\<lambda>bv.
        bindE (requiredString pl ''artifactHash'') (\<lambda>ah.
        bindE (string_or (jfield pl ''manifestHash'') (requiredString pl ''artifactHash'')) (\<lambda>mh.
        bindE (string_or (jfield pl ''changedPathsDigest'')
          (Inr (H (stringify (JArr (json_items (jfield pl ''changedPaths'')))))))  (\<lambda>cd.
          Inr (put_transition
            (p\<lparr>pj_proposals := (pj_proposals p)(i \<mapsto>
              \<lparr>pp_proposalId = i, pp_transitionId = ev_transitionId e, pp_baseViewId = bv,
               pp_artifactHash = ah, pp_manifestHash = mh, pp_changedPathsDigest = cd,
               pp_runtimeTeardownDigest = str_or_null (jfield pl ''runtimeTeardownDigest''),
               pp_verifierInputHash = None,
               pp_changedPaths = string_items (jfield pl ''changedPaths''),
               pp_staticFailures = string_items (jfield pl ''staticFailures''),
               pp_state = PS_SEALED, pp_exportVolumeIds = []\<rparr>)\<rparr>)
            (ev_transitionId e) (t\<lparr>tn_proposalId := Some i, tn_state := TS_SEALED\<rparr>)))))))))"

definition on_proposal_exported :: "projection \<Rightarrow> event \<Rightarrow> projection res" where
  "on_proposal_exported p e =
     bindE (transitionFor p (ev_transitionId e)) (\<lambda>t.
     bindE (requiredString (payload e) ''proposalId'') (\<lambda>i.
     case pj_proposals p i of
       None \<Rightarrow> err ''PROPOSAL_EXPORT_ORDER_INVALID''
     | Some q \<Rightarrow>
         if tn_proposalId t \<noteq> Some i \<or> pp_state q \<noteq> PS_SEALED then err ''PROPOSAL_EXPORT_ORDER_INVALID''
         else bindE (requiredString (payload e) ''exportVolumeId'') (\<lambda>v.
           Inr (if v \<in> set (pp_exportVolumeIds q) then p
                else p\<lparr>pj_proposals := (pj_proposals p)(i \<mapsto>
                  q\<lparr>pp_exportVolumeIds := sort (pp_exportVolumeIds q @ [v])\<rparr>)\<rparr>))))"

definition on_artifacts_destroyed :: "projection \<Rightarrow> event \<Rightarrow> projection res" where
  "on_artifacts_destroyed p e =
     bindE (transitionFor p (ev_transitionId e)) (\<lambda>t.
     let i = str_or_null (jfield (payload e) ''proposalId'');
         t' = t\<lparr>tn_artifactsDestroyed := True\<rparr>
     in if truthy i
        then (case pj_proposals p (the i) of
            None \<Rightarrow> err ''PROPOSAL_DESTROY_ORDER_INVALID''
          | Some q \<Rightarrow>
              if tn_proposalId t \<noteq> i then err ''PROPOSAL_DESTROY_ORDER_INVALID''
              else Inr (put_transition
                (p\<lparr>pj_proposals := (pj_proposals p)(the i \<mapsto> q\<lparr>pp_state := PS_DESTROYED\<rparr>)\<rparr>)
                (ev_transitionId e) t'))
        else Inr (put_transition p (ev_transitionId e) t'))"

definition is_check_entry :: "json \<Rightarrow> bool" where
  "is_check_entry j \<longleftrightarrow> is_object (Some j) \<and> str_or_null (jfield j ''id'') \<noteq> None"

definition coverage_of :: "json option \<Rightarrow> string" where
  "coverage_of v =
     (case str_or_null v of
        Some s \<Rightarrow> if s \<in> {''complete'', ''partial'', ''unavailable''} then s else ''unavailable''
      | None \<Rightarrow> ''unavailable'')"

definition or_else :: "'a option \<Rightarrow> 'a option \<Rightarrow> 'a option" where
  "or_else x y = (case x of Some _ \<Rightarrow> x | None \<Rightarrow> y)"

text \<open>\<^verbatim>\<open>isSafeInteger(n) && n > 0\<close> on a number that may be \<^verbatim>\<open>NaN\<close>.\<close>

definition safe_at_least :: "int \<Rightarrow> int option \<Rightarrow> bool" where
  "safe_at_least m x \<longleftrightarrow> (case x of None \<Rightarrow> False | Some n \<Rightarrow> is_safe_integer n \<and> m \<le> n)"

definition blob_ref_ok :: "evidence \<Rightarrow> bool" where
  "blob_ref_ok ev \<longleftrightarrow>
     (case pe_evidenceBlob ev of
        None \<Rightarrow> True
      | Some b \<Rightarrow> is_digest (blobId b) \<and> safe_at_least 1 (sizeBytes b) \<and> safe_at_least 0 (pe_checkCount ev))"

definition projected_evidence :: "json \<Rightarrow> string \<Rightarrow> string \<Rightarrow> evidence res" where
  "projected_evidence pl tid i =
     (let v2 = (jfield pl ''schemaVersion'' = Some (JNum 2));
          checks = (if v2 then [] else filter is_check_entry (json_items (jfield pl ''checks'')))
      in bindE (requiredString pl ''evaluationContextHash'') (\<lambda>ch.
         bindE (requiredString pl ''evidenceDigest'') (\<lambda>ed.
         bindE (if v2 then bindE (requiredString pl ''evidenceBlobHash'') (\<lambda>bh.
             Inr (Some \<lparr>blobId = bh, sizeBytes = js_number (jfield pl ''evidenceBlobSize'')\<rparr>)) else Inr None)
           (\<lambda>blob.
           Inr \<lparr>pe_proposalId = i, pe_transitionId = tid, pe_evaluationContextHash = ch,
             pe_evidenceDigest = ed,
             pe_verifierInputHash = str_or_null (jfield pl ''verifierInputHash''),
             pe_checkResultsHash = str_or_null (jfield pl ''checkResultsHash''),
             pe_coverage = coverage_of (jfield pl ''coverage''),
             pe_requiredChecksPassed = is_true (jfield pl ''requiredChecksPassed''),
             pe_evidenceBlob = blob,
             pe_checkCount = (if v2 then js_number (jfield pl ''checkCount'') else Some (int (length checks))),
             pe_checks = checks,
             pe_sourceRevision = or_else (str_or_null (jfield pl ''sourceRevision''))
               (sub_string pl ''evaluationContext'' ''sourceRevision''),
             pe_policyHash = or_else (str_or_null (jfield pl ''policyHash''))
               (sub_string pl ''evaluationContext'' ''policyHash'')\<rparr>))))"

definition on_evidence_recorded :: "projection \<Rightarrow> event \<Rightarrow> projection res" where
  "on_evidence_recorded p e =
     bindE (transitionFor p (ev_transitionId e)) (\<lambda>t.
     if tn_state t \<noteq> TS_SEALED then err ''EVIDENCE_ORDER_INVALID''
     else
       bindE (requiredString (payload e) ''proposalId'') (\<lambda>i.
       if tn_proposalId t \<noteq> Some i then err ''EVIDENCE_PROPOSAL_MISMATCH''
       else
         bindE (projected_evidence (payload e) (ev_transitionId e) i) (\<lambda>ev.
         if \<not> blob_ref_ok ev then err ''EVIDENCE_BLOB_REF_INVALID''
         else
           Inr (set_state
             (p\<lparr>pj_evidence := (pj_evidence p)(i \<mapsto> ev),
                pj_proposals := (case pj_proposals p i of
                  None \<Rightarrow> pj_proposals p
                | Some q \<Rightarrow> (pj_proposals p)(i \<mapsto> q\<lparr>pp_verifierInputHash := pe_verifierInputHash ev\<rparr>))\<rparr>)
             (ev_transitionId e) t TS_EVIDENCED))))"

subsection \<open>Permits and application\<close>

definition on_permit_issued :: "projection \<Rightarrow> event \<Rightarrow> projection res" where
  "on_permit_issued p e =
     (let pl = payload e in
      bindE (transitionFor p (ev_transitionId e)) (\<lambda>t.
      if tn_state t \<noteq> TS_EVIDENCED then err ''PERMIT_ISSUE_ORDER_INVALID''
      else
        bindE (requiredString pl ''permitId'') (\<lambda>i.
        if pj_permits p i \<noteq> None then err ''PERMIT_REPLAY''
        else
          bindE (requiredString pl ''proposalId'') (\<lambda>pr.
          bindE (requiredString pl ''baseViewId'') (\<lambda>bv.
          bindE (requiredString pl ''targetArtifactHash'') (\<lambda>ta.
          bindE (requiredString pl ''evaluationContextHash'') (\<lambda>ch.
          bindE (requiredString pl ''evidenceDigest'') (\<lambda>ed.
          bindE (requiredString pl ''expiresAt'') (\<lambda>ex.
            Inr (put_transition
              (p\<lparr>pj_permits := (pj_permits p)(i \<mapsto>
                \<lparr>pm_permitId = i, pm_transitionId = ev_transitionId e, pm_proposalId = pr,
                 pm_baseViewId = bv, pm_targetArtifactHash = ta, pm_evaluationContextHash = ch,
                 pm_evidenceDigest = ed, pm_expiresAt = ex, pm_state = PM_ISSUED\<rparr>)\<rparr>)
              (ev_transitionId e) (t\<lparr>tn_permitId := Some i, tn_state := TS_PERMITTED\<rparr>)))))))))))"

definition on_permit_consuming :: "projection \<Rightarrow> event \<Rightarrow> projection res" where
  "on_permit_consuming p e =
     bindE (transitionFor p (ev_transitionId e)) (\<lambda>t.
     bindE (requiredString (payload e) ''permitId'') (\<lambda>i.
     case pj_permits p i of
       None \<Rightarrow> err ''PERMIT_REPLAY''
     | Some m \<Rightarrow>
         if pm_state m \<noteq> PM_ISSUED \<or> tn_permitId t \<noteq> Some i then err ''PERMIT_REPLAY''
         else Inr (set_state (p\<lparr>pj_permits := (pj_permits p)(i \<mapsto> m\<lparr>pm_state := PM_CONSUMING\<rparr>)\<rparr>)
           (ev_transitionId e) t TS_CONSUMING)))"

definition on_backup_created :: "projection \<Rightarrow> event \<Rightarrow> projection res" where
  "on_backup_created p e =
     bindE (transitionFor p (ev_transitionId e)) (\<lambda>t.
     if tn_state t \<noteq> TS_CONSUMING then err ''BACKUP_CREATE_ORDER_INVALID''
     else bindE (requiredString (payload e) ''baseWorkspaceHash'') (\<lambda>w.
       if w \<noteq> tn_baseWorkspaceHash t then err ''BACKUP_CREATE_BINDING_MISMATCH'' else Inr p))"

definition on_workspace_applied :: "projection \<Rightarrow> event \<Rightarrow> projection res" where
  "on_workspace_applied p e =
     bindE (transitionFor p (ev_transitionId e)) (\<lambda>t.
     if tn_state t \<notin> {TS_CONSUMING, TS_REPAIRED} then err ''WORKSPACE_APPLY_ORDER_INVALID''
     else
       bindE (requiredString (payload e) ''workspaceHash'') (\<lambda>w.
       bindE (as_view (jfield (payload e) ''view'')) (\<lambda>v.
         Inr (put_head
           (put_transition p (ev_transitionId e)
             (t\<lparr>tn_appliedView := Some v, tn_appliedWorkspaceHash := Some w, tn_state := TS_APPLIED\<rparr>))
           v w e))))"

definition on_rollback_applied :: "projection \<Rightarrow> event \<Rightarrow> projection res" where
  "on_rollback_applied p e =
     bindE (transitionFor p (ev_transitionId e)) (\<lambda>t.
     if tn_kind t \<noteq> ROLLBACK \<or> tn_state t \<noteq> TS_APPLIED then err ''ROLLBACK_APPLY_ORDER_INVALID''
     else bindE (requiredString (payload e) ''workspaceHash'') (\<lambda>w.
       if Some w \<noteq> tn_appliedWorkspaceHash t then err ''ROLLBACK_APPLY_BINDING_MISMATCH'' else Inr p))"

definition on_platform_regenerated :: "projection \<Rightarrow> event \<Rightarrow> projection res" where
  "on_platform_regenerated p e =
     bindE (requiredString (payload e) ''workspaceHash'') (\<lambda>w.
     bindE (as_view (jfield (payload e) ''view'')) (\<lambda>v. Inr (put_head p v w e)))"

subsection \<open>Terminal dispositions\<close>

text \<open>The restored branch: the base of the transition is put back.\<close>

definition restored_base_matches :: "transition \<Rightarrow> state_view \<Rightarrow> string \<Rightarrow> bool" where
  "restored_base_matches t v w \<longleftrightarrow>
     w = tn_baseWorkspaceHash t \<and> tn_baseGeneration t = Some (generation v)"

text \<open>The ordinary branch: nothing of the head changes but the session epoch.\<close>

definition head_unchanged :: "head \<Rightarrow> state_view \<Rightarrow> string \<Rightarrow> string \<Rightarrow> bool" where
  "head_unchanged h v w previousViewId \<longleftrightarrow>
     previousViewId = viewId (hd_view h) \<and> w = hd_workspaceHash h \<and>
     generation v = generation (hd_view h) \<and> headVersionId v = headVersionId (hd_view h) \<and>
     versionedHash v = versionedHash (hd_view h) \<and>
     platformManagedHash v = platformManagedHash (hd_view h) \<and>
     agentConfigVersion v = agentConfigVersion (hd_view h) \<and>
     policyVersion v = policyVersion (hd_view h) \<and> sessionEpoch v = sessionEpoch (hd_view h) + 1"

definition non_commit_base_check ::
  "projection \<Rightarrow> transition \<Rightarrow> json \<Rightarrow> state_view \<Rightarrow> string \<Rightarrow> unit res" where
  "non_commit_base_check p t pl v w =
     (if is_true (jfield pl ''restoredWorkspace'')
      then (if restored_base_matches t v w then Inr () else err ''NON_COMMIT_RESTORED_BASE_MISMATCH'')
      else (case pj_head p of
        None \<Rightarrow> err ''NON_COMMIT_HEAD_BINDING_MISMATCH''
      | Some h \<Rightarrow>
          bindE (requiredString pl ''previousViewId'') (\<lambda>pv.
          if head_unchanged h v w pv then Inr () else err ''NON_COMMIT_HEAD_BINDING_MISMATCH'')))"

definition disposition_receipt ::
  "event \<Rightarrow> string \<Rightarrow> string \<Rightarrow> string option \<Rightarrow> state_view \<Rightarrow> string \<Rightarrow> terminal_receipt" where
  "disposition_receipt e d i vid v w =
     \<lparr>tr_receiptId = i, tr_transitionId = ev_transitionId e, tr_decision = d, tr_viewId = vid,
      tr_eventId = eventId e, tr_sequence = sequence e, tr_view = v, tr_workspaceHash = w,
      tr_dispositionBaseViewId = str_or_null (jfield (payload e) ''previousViewId''),
      tr_dispositionBaseGeneration = Some (generation v), tr_dispositionBaseWorkspaceHash = w,
      tr_reasonCodes = string_items (jfield (payload e) ''reasonCodes'')\<rparr>"

definition on_non_commit :: "(string \<Rightarrow> string) \<Rightarrow> projection \<Rightarrow> event \<Rightarrow> projection res" where
  "on_non_commit H p e =
     (let pl = payload e; restored = is_true (jfield pl ''restoredWorkspace'') in
      bindE (transitionFor p (ev_transitionId e)) (\<lambda>t.
      bindE (requiredString pl ''decision'') (\<lambda>d.
      if d \<notin> {''QUARANTINED'', ''CONFLICTED'', ''ABORTED''} then err ''NON_COMMIT_DECISION_INVALID''
      else if tn_state t = TS_ACKNOWLEDGED \<or> tn_state t = TS_REPAIRED \<and> \<not> restored
      then err ''NON_COMMIT_DISPOSITION_ORDER_INVALID''
      else
        bindE (requiredString pl ''receiptId'') (\<lambda>i.
        if list_ex (\<lambda>r. tr_receiptId r = i) (pj_terminalReceipts p) then err ''TERMINAL_RECEIPT_DUPLICATE''
        else
          bindE (assertProjectedView H (jfield pl ''view'')) (\<lambda>v.
          bindE (requiredString pl ''workspaceHash'') (\<lambda>w.
          if liveStateHash v \<noteq> w then err ''NON_COMMIT_VIEW_WORKSPACE_MISMATCH''
          else
            bindE (non_commit_base_check p t pl v w) (\<lambda>_.
            if map_option pm_state (permit_of p t) = Some PM_CONSUMED
            then err ''NON_COMMIT_PERMIT_ALREADY_CONSUMED''
            else
              (let p' = move_permit p t (\<lambda>_. True) PM_REVOKED
               in Inr (put_head (set_state
                 (p'\<lparr>pj_terminalReceipts := pj_terminalReceipts p @
                   [disposition_receipt e d i (Some (viewId v)) v w]\<rparr>)
                 (ev_transitionId e) t TS_ROLLED_BACK) v w e)))))))))"

definition on_view_dispositioned :: "projection \<Rightarrow> event \<Rightarrow> projection res" where
  "on_view_dispositioned p e =
     (let pl = payload e in
      bindE (requiredString pl ''decision'') (\<lambda>d.
      if d \<notin> set decisions then err ''TERMINAL_DECISION_INVALID''
      else
        bindE (requiredString pl ''workspaceHash'') (\<lambda>w.
        bindE (requiredString pl ''receiptId'') (\<lambda>i.
        bindE (as_view (jfield pl ''view'')) (\<lambda>v.
          Inr (put_head
            (p\<lparr>pj_terminalReceipts := pj_terminalReceipts p @
              [disposition_receipt e d i (str_or_null (jfield pl ''viewId'')) v w]\<rparr>) v w e))))))"

fun version_kind_of :: "transition_kind \<Rightarrow> version_kind" where
  "version_kind_of AGENT_COMMIT = AGENT_COMMIT_VERSION"
| "version_kind_of ROLLBACK = ROLLBACK_VERSION"

definition commit_version ::
  "event \<Rightarrow> transition \<Rightarrow> string \<Rightarrow> string \<Rightarrow> string \<Rightarrow> string option \<Rightarrow> state_view \<Rightarrow> string \<Rightarrow> version" where
  "commit_version e t vid sid i rb v w =
     \<lparr>vr_versionId = vid, vr_transitionId = ev_transitionId e, vr_kind = version_kind_of (tn_kind t),
      vr_viewId = viewId v, vr_generation = generation v, vr_workspaceHash = w, vr_snapshotId = sid,
      vr_receiptId = Some i, vr_rollbackTargetVersionId = rb\<rparr>"

definition commit_receipt :: "event \<Rightarrow> transition \<Rightarrow> string \<Rightarrow> state_view \<Rightarrow> string \<Rightarrow> terminal_receipt" where
  "commit_receipt e t i v w =
     \<lparr>tr_receiptId = i, tr_transitionId = ev_transitionId e, tr_decision = ''COMMITTED'',
      tr_viewId = Some (viewId v), tr_eventId = eventId e, tr_sequence = sequence e, tr_view = v,
      tr_workspaceHash = w, tr_dispositionBaseViewId = tn_baseViewId t,
      tr_dispositionBaseGeneration = tn_baseGeneration t,
      tr_dispositionBaseWorkspaceHash = tn_baseWorkspaceHash t, tr_reasonCodes = []\<rparr>"

definition on_acknowledged :: "projection \<Rightarrow> event \<Rightarrow> projection res" where
  "on_acknowledged p e =
     (let pl = payload e in
      bindE (transitionFor p (ev_transitionId e)) (\<lambda>t.
      if tn_state t \<noteq> TS_APPLIED then err ''TRANSITION_ACK_ORDER_INVALID''
      else
        bindE (requiredString pl ''receiptId'') (\<lambda>i.
        case (tn_appliedView t, tn_appliedWorkspaceHash t) of
          (Some v, Some w) \<Rightarrow>
            bindE (requiredString pl ''versionId'') (\<lambda>vid.
            bindE (requiredString pl ''snapshotId'') (\<lambda>sid.
            bindE (if tn_kind t = ROLLBACK
                   then bindE (requiredString pl ''rollbackTargetVersionId'') (\<lambda>s. Inr (Some s))
                   else Inr None) (\<lambda>rb.
              let p' = move_permit p t (\<lambda>_. True) PM_CONSUMED
              in Inr (set_state
                (p'\<lparr>pj_versions := pj_versions p @ [commit_version e t vid sid i rb v w],
                   pj_terminalReceipts := pj_terminalReceipts p @ [commit_receipt e t i v w]\<rparr>)
                (ev_transitionId e) t TS_ACKNOWLEDGED))))
        | _ \<Rightarrow> Inl JsTypeError)))"

definition on_rolled_back :: "(string \<Rightarrow> string) \<Rightarrow> projection \<Rightarrow> event \<Rightarrow> projection res" where
  "on_rolled_back H p e =
     (let pl = payload e in
      bindE (transitionFor p (ev_transitionId e)) (\<lambda>t.
      let p' = set_state (move_permit p t (\<lambda>s. s \<noteq> PM_CONSUMED) PM_REVOKED) (ev_transitionId e) t TS_ROLLED_BACK
      in if is_object (jfield pl ''restoredView'')
         then
           bindE (assertProjectedView H (jfield pl ''restoredView'')) (\<lambda>v.
           bindE (requiredString pl ''workspaceHash'') (\<lambda>w.
           if liveStateHash v \<noteq> w \<or> \<not> restored_base_matches t v w
           then err ''TRANSITION_ROLLBACK_VIEW_INVALID''
           else Inr (put_head p' v w e)))
         else Inr p'))"

definition on_repair_applied :: "projection \<Rightarrow> event \<Rightarrow> projection res" where
  "on_repair_applied p e =
     bindE (transitionFor p (ev_transitionId e)) (\<lambda>t. Inr (set_state p (ev_transitionId e) t TS_REPAIRED))"

subsection \<open>Receipt proofs in payloads\<close>

text \<open>Typed reading of the receipt, the signed proof, an event envelope and a bundle.\<close>

definition null_str_field :: "json \<Rightarrow> string \<Rightarrow> string option res" where
  "null_str_field j k =
     (case jfield j k of Some JNull \<Rightarrow> Inr None | Some (JStr s) \<Rightarrow> Inr (Some s) | _ \<Rightarrow> Inl JsTypeError)"

definition opt_str_field :: "json \<Rightarrow> string \<Rightarrow> string option res" where
  "opt_str_field j k =
     (case jfield j k of None \<Rightarrow> Inr None | Some (JStr s) \<Rightarrow> Inr (Some s) | _ \<Rightarrow> Inl JsTypeError)"

definition opt_num_field :: "json \<Rightarrow> string \<Rightarrow> int option res" where
  "opt_num_field j k =
     (case jfield j k of None \<Rightarrow> Inr None | Some (JNum n) \<Rightarrow> Inr (Some n) | _ \<Rightarrow> Inl JsTypeError)"

definition as_receipt :: "json \<Rightarrow> receipt res" where
  "as_receipt j =
     bindE (num_field j ''schemaVersion'') (\<lambda>sv.
     bindE (str_field j ''receiptId'') (\<lambda>i.
     bindE (str_field j ''runId'') (\<lambda>run.
     bindE (str_field j ''agentId'') (\<lambda>ag.
     bindE (str_field j ''transitionId'') (\<lambda>tid.
     bindE (str_field j ''decision'') (\<lambda>d.
     bindE (str_field j ''baseViewId'') (\<lambda>bv.
     bindE (str_field j ''finalViewId'') (\<lambda>fv.
     bindE (num_field j ''baseGeneration'') (\<lambda>bg.
     bindE (num_field j ''nextGeneration'') (\<lambda>ng.
     bindE (str_field j ''baseWorkspaceHash'') (\<lambda>bw.
     bindE (str_field j ''finalWorkspaceHash'') (\<lambda>fw.
     bindE (null_str_field j ''proposalId'') (\<lambda>pr.
     bindE (null_str_field j ''proposalArtifactHash'') (\<lambda>pa.
     bindE (null_str_field j ''verifierInputHash'') (\<lambda>vi.
     bindE (null_str_field j ''promotionSourceHash'') (\<lambda>ps.
     bindE (null_str_field j ''evaluationContextHash'') (\<lambda>ch.
     bindE (null_str_field j ''evidenceDigest'') (\<lambda>ed.
     bindE (null_str_field j ''permitId'') (\<lambda>pm.
     bindE (null_str_field j ''permitState'') (\<lambda>pst.
     bindE (str_field j ''sourceRevision'') (\<lambda>srev.
     bindE (opt_str_field j ''dispositionBaseViewId'') (\<lambda>dv.
     bindE (opt_num_field j ''dispositionBaseGeneration'') (\<lambda>dg.
     bindE (opt_str_field j ''dispositionBaseWorkspaceHash'') (\<lambda>dw.
     bindE (opt_str_field j ''policyProfile'') (\<lambda>pp.
     bindE (opt_num_field j ''policyVersion'') (\<lambda>pv.
     bindE (opt_str_field j ''policyHash'') (\<lambda>ph.
     bindE (opt_str_field j ''checkSpecHash'') (\<lambda>cs.
       Inr \<lparr>r_schemaVersion = sv, r_receiptId = i, r_runId = run, r_agentId = ag, r_transitionId = tid,
         r_decision = d, r_baseViewId = bv, r_finalViewId = fv, r_baseGeneration = bg,
         r_nextGeneration = ng, r_baseWorkspaceHash = bw, r_finalWorkspaceHash = fw, r_proposalId = pr,
         r_proposalArtifactHash = pa, r_verifierInputHash = vi, r_promotionSourceHash = ps,
         r_evaluationContextHash = ch, r_evidenceDigest = ed, r_permitId = pm, r_permitState = pst,
         r_sourceRevision = srev, r_dispositionBaseViewId = dv, r_dispositionBaseGeneration = dg,
         r_dispositionBaseWorkspaceHash = dw, r_policyProfile = pp, r_policyVersion = pv,
         r_policyHash = ph, r_checkSpecHash = cs\<rparr>))))))))))))))))))))))))))))"

definition as_proof :: "json \<Rightarrow> signed_authority_proof res" where
  "as_proof j =
     bindE (num_field j ''schemaVersion'') (\<lambda>sv.
     bindE (str_field j ''receiptHash'') (\<lambda>rh.
     bindE (str_field j ''runId'') (\<lambda>run.
     bindE (str_field j ''agentId'') (\<lambda>ag.
     bindE (str_field j ''decision'') (\<lambda>d.
     bindE (num_field j ''logSequence'') (\<lambda>ls.
     bindE (null_str_field j ''previousDigest'') (\<lambda>pd.
     bindE (str_field j ''eventDigest'') (\<lambda>ed.
     bindE (str_field j ''sourceRevision'') (\<lambda>srev.
     bindE (str_field j ''signingKeyId'') (\<lambda>kid.
     bindE (str_field j ''signatureAlgorithm'') (\<lambda>alg.
     bindE (str_field j ''signature'') (\<lambda>sig.
       Inr \<lparr>pb_schemaVersion = sv, pb_receiptHash = rh, pb_runId = run, pb_agentId = ag, pb_decision = d,
         pb_logSequence = ls, pb_previousDigest = pd, pb_eventDigest = ed, pb_sourceRevision = srev,
         pb_signingKeyId = kid, pb_signatureAlgorithm = alg, pb_signature = sig\<rparr>))))))))))))"

definition known_types :: "event_type list" where
  "known_types =
     [AGENT_INITIALIZATION_PREPARED, AGENT_INITIALIZED, LEGACY_ADOPTION_PREPARED,
      LEGACY_STATE_ADOPTED, TRANSITION_PREPARED, RUNTIME_TEARDOWN_RECORDED, RUN_CANCELLED,
      PROPOSAL_SEAL_PREPARED, PROPOSAL_SEALED, PROPOSAL_EXPORT_PREPARED, PROPOSAL_EXPORTED,
      RUN_ARTIFACTS_DESTROYED, EVIDENCE_RECORDED, PERMIT_ISSUED, PERMIT_CONSUMING, BACKUP_CREATED,
      WORKSPACE_APPLIED, ROLLBACK_APPLIED, PLATFORM_STATE_REGENERATION_PREPARED,
      PLATFORM_STATE_REGENERATED, NON_COMMIT_DISPOSITIONED, VIEW_DISPOSITIONED,
      TRANSITION_ACKNOWLEDGED, RECEIPT_PROOF_RECORDED, TRANSITION_ROLLED_BACK,
      AGENT_ARCHIVE_PREPARED, AGENT_ARCHIVED, REPAIR_APPLIED, STALE_CALLBACK_RECORDED]"

definition event_type_of_text :: "string \<Rightarrow> event_type" where
  "event_type_of_text s =
     (case List.find (\<lambda>t. event_type_text t = s) known_types of Some t \<Rightarrow> t | None \<Rightarrow> OtherType s)"

definition event_json :: "event \<Rightarrow> json" where
  "event_json e =
     (case unsigned_event e of JObj kvs \<Rightarrow> JObj (kvs @ [(''digest'', JStr (digest e))]) | j \<Rightarrow> j)"

text \<open>An envelope is hashed as it was read, so it is taken only in the written field order.\<close>

definition as_event :: "json \<Rightarrow> event res" where
  "as_event j =
     bindE (num_field j ''schemaVersion'') (\<lambda>sv.
     bindE (str_field j ''eventId'') (\<lambda>i.
     bindE (str_field j ''agentId'') (\<lambda>ag.
     bindE (str_field j ''transitionId'') (\<lambda>tid.
     bindE (num_field j ''sequence'') (\<lambda>n.
     bindE (str_field j ''type'') (\<lambda>ty.
     bindE (null_str_field j ''previousDigest'') (\<lambda>pd.
     bindE (str_field j ''createdAt'') (\<lambda>at.
     bindE (str_field j ''digest'') (\<lambda>dg.
     case jfield j ''payload'' of
       None \<Rightarrow> Inl JsTypeError
     | Some pl \<Rightarrow>
         let e = \<lparr>ev_schemaVersion = sv, eventId = i, ev_agentId = ag, ev_transitionId = tid, sequence = n,
           ev_type = event_type_of_text ty, previousDigest = pd, payload = pl, createdAt = at, digest = dg\<rparr>
         in if event_json e = j then Inr e else Inl JsTypeError)))))))))"

fun as_events :: "json list \<Rightarrow> event list res" where
  "as_events [] = Inr []"
| "as_events (j # js) = bindE (as_event j) (\<lambda>e. bindE (as_events js) (\<lambda>es. Inr (e # es)))"

definition as_bundle :: "json \<Rightarrow> proof_bundle res" where
  "as_bundle j =
     bindE (num_field j ''schemaVersion'') (\<lambda>sv.
     bindE (str_field j ''publicKeyPem'') (\<lambda>pem.
     case (jfield j ''receipt'', jfield j ''proof'', jfield j ''terminalEvent'') of
       (Some rj, Some pj, Some tj) \<Rightarrow>
         bindE (as_receipt rj) (\<lambda>r.
         bindE (as_proof pj) (\<lambda>p.
         bindE (as_event tj) (\<lambda>t.
         bindE (case jfield j ''predecessorEvent'' of
             Some JNull \<Rightarrow> Inr None
           | Some x \<Rightarrow> bindE (as_event x) (\<lambda>e. Inr (Some e))
           | None \<Rightarrow> Inl JsTypeError) (\<lambda>pre.
         bindE (case jfield j ''eventChain'' of
             None \<Rightarrow> Inr None
           | Some (JArr xs) \<Rightarrow> bindE (as_events xs) (\<lambda>es. Inr (Some es))
           | Some _ \<Rightarrow> Inl JsTypeError) (\<lambda>chain.
           Inr \<lparr>bundle_schemaVersion = sv, bundle_receipt = r, bundle_proof = p, terminalEvent = t,
             predecessorEvent = pre, eventChain = chain, publicKeyPem = pem\<rparr>)))))
     | _ \<Rightarrow> Inl JsTypeError))"

text \<open>\<^verbatim>\<open>events.findIndex\<close> and the neighbours it gives.\<close>

fun find_index :: "('a \<Rightarrow> bool) \<Rightarrow> 'a list \<Rightarrow> nat option" where
  "find_index P [] = None"
| "find_index P (x # xs) = (if P x then Some 0 else map_option Suc (find_index P xs))"

definition predecessor_at :: "event list \<Rightarrow> nat \<Rightarrow> event option" where
  "predecessor_at es i = (if 0 < i then Some (es ! (i - 1)) else None)"

text \<open>The bundle a proof event stands for: an embedded one, or one rebuilt from the log itself.\<close>

definition log_bundle :: "event list \<Rightarrow> json \<Rightarrow> event option \<Rightarrow> nat option \<Rightarrow> proof_bundle option res" where
  "log_bundle es pl terminal idx =
     (case (terminal, idx, jfield pl ''receipt'', jfield pl ''proof'', str_or_null (jfield pl ''publicKeyPem'')) of
        (Some t, Some i, Some rj, Some pj, Some pem) \<Rightarrow>
          if \<not> is_object (Some rj) \<or> \<not> is_object (Some pj) then Inr None
          else
            bindE (as_receipt rj) (\<lambda>r.
            bindE (as_proof pj) (\<lambda>p.
              Inr (Some \<lparr>bundle_schemaVersion = 3, bundle_receipt = r, bundle_proof = p,
                terminalEvent = t, predecessorEvent = predecessor_at es i,
                eventChain = Some (take (i + 1) es), publicKeyPem = pem\<rparr>)))
      | _ \<Rightarrow> Inr None)"

definition proof_event_bundle :: "event list \<Rightarrow> json \<Rightarrow> event option \<Rightarrow> nat option \<Rightarrow> proof_bundle option res" where
  "proof_event_bundle es pl terminal idx =
     (case jfield pl ''bundle'' of
        None \<Rightarrow> log_bundle es pl terminal idx
      | Some b \<Rightarrow>
          if b = JNull then log_bundle es pl terminal idx
          else bindE (as_bundle b) (\<lambda>x. Inr (Some x)))"

definition permit_final_state :: "permit option \<Rightarrow> string option" where
  "permit_final_state m =
     (case map_option pm_state m of
        Some PM_CONSUMED \<Rightarrow> Some ''CONSUMED'' | Some PM_REVOKED \<Rightarrow> Some ''REVOKED'' | _ \<Rightarrow> None)"

text \<open>Every projected fact the receipt has to repeat.\<close>

definition receipt_matches_projection ::
  "projection \<Rightarrow> transition \<Rightarrow> terminal_receipt \<Rightarrow> proposal option \<Rightarrow> evidence option \<Rightarrow> permit option \<Rightarrow>
     receipt \<Rightarrow> bool" where
  "receipt_matches_projection p t tr q ev m r \<longleftrightarrow>
     r_receiptId r = tr_receiptId tr \<and>
     r_runId r = (case tn_runId t of Some run \<Rightarrow> run | None \<Rightarrow> tr_receiptId tr) \<and>
     r_agentId r = pj_agentId p \<and>
     r_transitionId r = tr_transitionId tr \<and>
     r_decision r = tr_decision tr \<and>
     Some (r_baseViewId r) = tn_baseViewId t \<and>
     Some (r_finalViewId r) = tr_viewId tr \<and>
     Some (r_baseGeneration r) = tn_baseGeneration t \<and>
     r_nextGeneration r = generation (tr_view tr) \<and>
     r_baseWorkspaceHash r = tn_baseWorkspaceHash t \<and>
     r_finalWorkspaceHash r = tr_workspaceHash tr \<and>
     (r_schemaVersion r = 2 \<longrightarrow>
        r_dispositionBaseViewId r = tr_dispositionBaseViewId tr \<and>
        r_dispositionBaseGeneration r = tr_dispositionBaseGeneration tr \<and>
        r_dispositionBaseWorkspaceHash r = Some (tr_dispositionBaseWorkspaceHash tr)) \<and>
     r_proposalId r = map_option pp_proposalId q \<and>
     r_proposalArtifactHash r = map_option pp_artifactHash q \<and>
     r_verifierInputHash r = Option.bind ev pe_verifierInputHash \<and>
     r_promotionSourceHash r = map_option pm_targetArtifactHash m \<and>
     r_evaluationContextHash r = map_option pe_evaluationContextHash ev \<and>
     r_evidenceDigest r = map_option pe_evidenceDigest ev \<and>
     r_permitId r = map_option pm_permitId m \<and>
     r_permitState r = permit_final_state m \<and>
     (case Option.bind ev pe_sourceRevision of None \<Rightarrow> True | Some s \<Rightarrow> r_sourceRevision r = s)"

definition proof_matches_terminal :: "signed_authority_proof \<Rightarrow> event \<Rightarrow> bool" where
  "proof_matches_terminal p t \<longleftrightarrow>
     pb_logSequence p = sequence t \<and> pb_previousDigest p = previousDigest t \<and> pb_eventDigest p = digest t"

definition compact_bundle :: "event list \<Rightarrow> proof_bundle \<Rightarrow> event \<Rightarrow> nat \<Rightarrow> proof_bundle" where
  "compact_bundle es b t i =
     \<lparr>bundle_schemaVersion = 2, bundle_receipt = bundle_receipt b, bundle_proof = bundle_proof b,
      terminalEvent = t, predecessorEvent = predecessor_at es i, eventChain = None,
      publicKeyPem = publicKeyPem b\<rparr>"

definition check_verdict :: "verdict \<Rightarrow> unit res" where
  "check_verdict v =
     (if fst v then Inr ()
      else err (''RECEIPT_PROOF_INVALID:'' @ (case snd v of None \<Rightarrow> ''unknown'' | Some s \<Rightarrow> s)))"

definition proposal_of :: "projection \<Rightarrow> transition \<Rightarrow> proposal option" where
  "proposal_of p t = (if truthy (tn_proposalId t) then pj_proposals p (the (tn_proposalId t)) else None)"

definition evidence_of :: "projection \<Rightarrow> transition \<Rightarrow> evidence option" where
  "evidence_of p t = (if truthy (tn_proposalId t) then pj_evidence p (the (tn_proposalId t)) else None)"

definition record_proof ::
  "crypto \<Rightarrow> event list \<Rightarrow> projection \<Rightarrow> event \<Rightarrow> transition \<Rightarrow> terminal_receipt \<Rightarrow> event \<Rightarrow> nat \<Rightarrow>
     proof_bundle \<Rightarrow> projection res" where
  "record_proof cr es p e t tr te ix b =
     (let i = tr_receiptId tr; c = compact_bundle es b te ix in
      bindE (check_verdict (verifyAuthorityReceiptProof cr b)) (\<lambda>_.
      if \<not> receipt_matches_projection p t tr (proposal_of p t) (evidence_of p t) (permit_of p t) (bundle_receipt b) \<or>
         \<not> proof_matches_terminal (bundle_proof b) te
      then err ''RECEIPT_PROOF_TERMINAL_BINDING_INVALID''
      else if pj_receiptProofs p i \<noteq> None then err ''RECEIPT_PROOF_DUPLICATE''
      else
        bindE (check_verdict (verifyAuthorityReceiptProof cr c)) (\<lambda>_.
          Inr (p\<lparr>pj_receiptProofs := (pj_receiptProofs p)(i \<mapsto>
            \<lparr>px_receiptId = i, px_transitionId = ev_transitionId e, px_terminalEventId = eventId te,
             px_proofEventId = eventId e, px_sequence = sequence e, px_bundle = c\<rparr>)\<rparr>))))"

definition find_receipt :: "projection \<Rightarrow> string \<Rightarrow> string \<Rightarrow> terminal_receipt option" where
  "find_receipt p i tid =
     List.find (\<lambda>r. tr_receiptId r = i \<and> tr_transitionId r = tid) (pj_terminalReceipts p)"

definition find_terminal :: "event list \<Rightarrow> string \<Rightarrow> event \<Rightarrow> event option" where
  "find_terminal es teid e = List.find (\<lambda>c. eventId c = teid \<and> sequence c < sequence e) es"

definition terminal_index :: "event list \<Rightarrow> event option \<Rightarrow> nat option" where
  "terminal_index es terminal =
     (case terminal of None \<Rightarrow> None | Some t \<Rightarrow> find_index (\<lambda>c. eventId c = eventId t) es)"

definition on_receipt_proof :: "crypto \<Rightarrow> event list \<Rightarrow> projection \<Rightarrow> event \<Rightarrow> projection res" where
  "on_receipt_proof cr es p e =
     bindE (requiredString (payload e) ''receiptId'') (\<lambda>i.
     bindE (requiredString (payload e) ''terminalEventId'') (\<lambda>teid.
     bindE (proof_event_bundle es (payload e) (find_terminal es teid e)
         (terminal_index es (find_terminal es teid e))) (\<lambda>bundle.
     bindE (transitionFor p (ev_transitionId e)) (\<lambda>t.
       case (find_receipt p i (ev_transitionId e), find_terminal es teid e,
             terminal_index es (find_terminal es teid e), bundle) of
         (Some tr, Some te, Some ix, Some b) \<Rightarrow>
           if tr_eventId tr \<noteq> teid then err ''RECEIPT_PROOF_TERMINAL_BINDING_INVALID''
           else record_proof cr es p e t tr te ix b
       | _ \<Rightarrow> err ''RECEIPT_PROOF_TERMINAL_BINDING_INVALID''))))"

subsection \<open>The reducer\<close>

definition is_intent :: "event_type \<Rightarrow> bool" where
  "is_intent ty \<longleftrightarrow> ty \<in> {AGENT_INITIALIZATION_PREPARED, LEGACY_ADOPTION_PREPARED, PROPOSAL_SEAL_PREPARED,
     PROPOSAL_EXPORT_PREPARED, PLATFORM_STATE_REGENERATION_PREPARED, AGENT_ARCHIVE_PREPARED}"

definition dispatch :: "crypto \<Rightarrow> event list \<Rightarrow> projection \<Rightarrow> event \<Rightarrow> projection res" where
  "dispatch cr es p e =
     (case ev_type e of
        AGENT_INITIALIZATION_PREPARED \<Rightarrow> Inr p
      | LEGACY_ADOPTION_PREPARED \<Rightarrow> Inr p
      | PROPOSAL_SEAL_PREPARED \<Rightarrow> Inr p
      | PROPOSAL_EXPORT_PREPARED \<Rightarrow> Inr p
      | PLATFORM_STATE_REGENERATION_PREPARED \<Rightarrow> Inr p
      | AGENT_ARCHIVE_PREPARED \<Rightarrow> Inr p
      | AGENT_INITIALIZED \<Rightarrow> on_agent_initialized p e
      | LEGACY_STATE_ADOPTED \<Rightarrow> on_agent_initialized p e
      | TRANSITION_PREPARED \<Rightarrow> on_transition_prepared p e
      | RUNTIME_TEARDOWN_RECORDED \<Rightarrow> on_runtime_teardown p e
      | RUN_CANCELLED \<Rightarrow> on_run_cancelled p e
      | PROPOSAL_SEALED \<Rightarrow> on_proposal_sealed (sha256 cr) p e
      | PROPOSAL_EXPORTED \<Rightarrow> on_proposal_exported p e
      | RUN_ARTIFACTS_DESTROYED \<Rightarrow> on_artifacts_destroyed p e
      | EVIDENCE_RECORDED \<Rightarrow> on_evidence_recorded p e
      | PERMIT_ISSUED \<Rightarrow> on_permit_issued p e
      | PERMIT_CONSUMING \<Rightarrow> on_permit_consuming p e
      | BACKUP_CREATED \<Rightarrow> on_backup_created p e
      | WORKSPACE_APPLIED \<Rightarrow> on_workspace_applied p e
      | ROLLBACK_APPLIED \<Rightarrow> on_rollback_applied p e
      | PLATFORM_STATE_REGENERATED \<Rightarrow> on_platform_regenerated p e
      | NON_COMMIT_DISPOSITIONED \<Rightarrow> on_non_commit (sha256 cr) p e
      | VIEW_DISPOSITIONED \<Rightarrow> on_view_dispositioned p e
      | TRANSITION_ACKNOWLEDGED \<Rightarrow> on_acknowledged p e
      | RECEIPT_PROOF_RECORDED \<Rightarrow> on_receipt_proof cr es p e
      | TRANSITION_ROLLED_BACK \<Rightarrow> on_rolled_back (sha256 cr) p e
      | REPAIR_APPLIED \<Rightarrow> on_repair_applied p e
      | AGENT_ARCHIVED \<Rightarrow> Inr (p\<lparr>pj_archived := True\<rparr>)
      | STALE_CALLBACK_RECORDED \<Rightarrow> Inr p
      | OtherType s \<Rightarrow> Inr p)"

definition apply_event :: "crypto \<Rightarrow> event list \<Rightarrow> projection \<Rightarrow> event \<Rightarrow> projection res" where
  "apply_event cr es p e =
     (if ev_agentId e \<noteq> pj_agentId p then err ''TRANSITION_EVENT_AGENT_MISMATCH''
      else bindE (dispatch cr es p e) (\<lambda>q.
        Inr (q\<lparr>pj_lastEventId := Some (eventId e), pj_lastSequence := sequence e\<rparr>)))"

definition rebuildWorkerProjection :: "crypto \<Rightarrow> string \<Rightarrow> event list \<Rightarrow> projection res" where
  "rebuildWorkerProjection cr agentId es = runE (apply_event cr es) (empty_projection agentId) es"

subsection \<open>The head marker\<close>

record head_marker =
  hm_agentId :: string
  hm_lastAppliedEventId :: "string option"
  hm_lastAppliedSequence :: int
  hm_viewId :: "string option"
  hm_workspaceHash :: "string option"
  hm_generation :: "int option"
  hm_projectionDigest :: string

definition head_marker_of :: "string \<Rightarrow> projection \<Rightarrow> head_marker" where
  "head_marker_of dg p =
     \<lparr>hm_agentId = pj_agentId p,
      hm_lastAppliedEventId = map_option hd_lastAppliedEventId (pj_head p),
      hm_lastAppliedSequence = (case pj_head p of None \<Rightarrow> 0 | Some h \<Rightarrow> hd_lastAppliedSequence h),
      hm_viewId = map_option (\<lambda>h. viewId (hd_view h)) (pj_head p),
      hm_workspaceHash = map_option hd_workspaceHash (pj_head p),
      hm_generation = map_option (\<lambda>h. generation (hd_view h)) (pj_head p),
      hm_projectionDigest = dg\<rparr>"

definition writeHead ::
  "(string \<rightharpoonup> head_marker) \<Rightarrow> string \<Rightarrow> projection \<Rightarrow> ((string \<rightharpoonup> head_marker) \<times> head_marker) res" where
  "writeHead heads dg p =
     (if \<not> is_identifier (pj_agentId p) then err ''Invalid agentId''
      else Inr (heads(pj_agentId p \<mapsto> head_marker_of dg p), head_marker_of dg p))"

definition readHead :: "(string \<rightharpoonup> head_marker) \<Rightarrow> string \<Rightarrow> head_marker option res" where
  "readHead heads agentId =
     (if \<not> is_identifier agentId then err ''Invalid agentId'' else Inr (heads agentId))"

end
