(* ===== verification/Projection_Facts.thy ===== *)
theory Projection_Facts
  imports Projection
begin

text \<open>
  Each handler inverted once: what a successful step read and what it wrote. The facts below
  \<open>dispatch\<close> (what a step leaves alone, how permits move) follow by cases on the event type.
\<close>

subsection \<open>Successful handlers\<close>

lemma transitionFor_Inr [res_simps]: "transitionFor p i = Inr t \<longleftrightarrow> pj_transitions p i = Some t"
  by (auto simp: transitionFor_def split: option.splits)

lemma requiredString_Inr: "requiredString pl k = Inr s \<Longrightarrow> jfield pl k = Some (JStr s) \<and> s \<noteq> []"
  by (cases "jfield pl k" rule: str_or_null.cases)
    (auto simp: requiredString_def split: list.splits option.splits)

lemmas handler_simps = res_simps put_transition_def set_state_def put_head_def Let_def

lemma initialized_Inr:
  assumes "on_agent_initialized p e = Inr q"
  shows "\<exists>v w vr. q = (put_head p v w e)\<lparr>pj_versions := [vr]\<rparr> \<and> pj_head p = None \<and>
    pj_versions p = [] \<and> vr_receiptId vr = None"
proof -
  from assms have new: "pj_head p = None" "pj_versions p = []"
    by (auto simp: on_agent_initialized_def res_simps)
  with assms obtain w vid v sid where q: "q = (put_head p v w e)\<lparr>pj_versions :=
      [\<lparr>vr_versionId = vid, vr_transitionId = ev_transitionId e, vr_kind = INITIAL_VERSION,
        vr_viewId = viewId v, vr_generation = generation v, vr_workspaceHash = w,
        vr_snapshotId = sid, vr_receiptId = None, vr_rollbackTargetVersionId = None\<rparr>]\<rparr>"
    by (simp add: on_agent_initialized_def res_simps) blast
  show ?thesis
    by (rule exI [of _ v], rule exI [of _ w], rule exI, rule conjI, rule q) (simp add: new)
qed

lemma prepared_Inr:
  assumes "on_transition_prepared p e = Inr q"
  shows "pj_transitions p (ev_transitionId e) = None \<and> (\<exists>t.
    q = put_transition p (ev_transitionId e) t \<and> tn_transitionId t = ev_transitionId e \<and>
    tn_state t = TS_PREPARED \<and> tn_permitId t = None \<and> tn_proposalId t = None \<and> tn_appliedView t = None)"
  using assms by (auto simp: on_transition_prepared_def res_simps Let_def)

text \<open>Entries of a transition that teardown records and artifact cleanup leave alone.\<close>

definition core_eq :: "transition \<Rightarrow> transition \<Rightarrow> bool" where
  "core_eq t u \<longleftrightarrow> tn_transitionId u = tn_transitionId t \<and> tn_kind u = tn_kind t \<and>
     tn_state u = tn_state t \<and> tn_runId u = tn_runId t \<and> tn_baseViewId u = tn_baseViewId t \<and>
     tn_baseWorkspaceHash u = tn_baseWorkspaceHash t \<and> tn_baseGeneration u = tn_baseGeneration t \<and>
     tn_appliedView u = tn_appliedView t \<and> tn_appliedWorkspaceHash u = tn_appliedWorkspaceHash t \<and>
     tn_proposalId u = tn_proposalId t \<and> tn_permitId u = tn_permitId t"

lemma core_eq_updates [simp]:
  "core_eq t (t\<lparr>tn_runtimeTeardownAgent := x\<rparr>)" "core_eq t (t\<lparr>tn_runtimeTeardownAll := x\<rparr>)"
  "core_eq t (t\<lparr>tn_artifactsDestroyed := b\<rparr>)"
  by (simp_all add: core_eq_def)

lemma teardown_Inr:
  assumes "on_runtime_teardown p e = Inr q"
  shows "\<exists>t u. pj_transitions p (ev_transitionId e) = Some t \<and> core_eq t u \<and>
    q = put_transition p (ev_transitionId e) u"
proof -
  from assms obtain t where t: "pj_transitions p (ev_transitionId e) = Some t"
    by (auto simp: on_runtime_teardown_def res_simps Let_def)
  have "\<exists>u. core_eq t u \<and> q = put_transition p (ev_transitionId e) u"
    using assms t unfolding on_runtime_teardown_def
    by (simp add: transitionFor_def Let_def bindE_eq_Inr if_Inl_eq_Inr
        split: option.splits list.splits if_split_asm) (elim exE conjE; force)+
  with t show ?thesis by blast
qed

lemma check_bound_Inr [res_simps]: "check_bound b pl k m = Inr u \<longleftrightarrow> \<not> truthy b \<or> (\<exists>s. requiredString pl k = Inr s \<and> Some s = b)"
  by (auto simp: check_bound_def res_simps)

lemma cancelled_Inr:
  assumes "on_run_cancelled p e = Inr q"
  shows "\<exists>t. pj_transitions p (ev_transitionId e) = Some t \<and>
    tn_state t \<in> {TS_PREPARED, TS_SEALED, TS_EVIDENCED, TS_PERMITTED, TS_CANCELLED} \<and>
    q = set_state (move_permit p t (\<lambda>s. s = PM_ISSUED) PM_REVOKED) (ev_transitionId e) t TS_CANCELLED"
  using assms by (auto simp: on_run_cancelled_def res_simps)

lemma sealed_Inr:
  assumes "on_proposal_sealed H p e = Inr q"
  shows "\<exists>t i pr. q = put_transition (p\<lparr>pj_proposals := (pj_proposals p)(i \<mapsto> pr)\<rparr>) (ev_transitionId e)
      (t\<lparr>tn_proposalId := Some i, tn_state := TS_SEALED\<rparr>) \<and>
    pj_transitions p (ev_transitionId e) = Some t \<and> tn_state t = TS_PREPARED \<and>
    requiredString (payload e) ''proposalId'' = Inr i \<and> pp_proposalId pr = i \<and>
    pp_transitionId pr = ev_transitionId e"
proof -
  from assms obtain t where t: "pj_transitions p (ev_transitionId e) = Some t" "tn_state t = TS_PREPARED"
    by (auto simp: on_proposal_sealed_def res_simps Let_def)
  with assms obtain i bv ah mh cd where i: "requiredString (payload e) ''proposalId'' = Inr i"
    and q: "q = put_transition
        (p\<lparr>pj_proposals := (pj_proposals p)(i \<mapsto>
          \<lparr>pp_proposalId = i, pp_transitionId = ev_transitionId e, pp_baseViewId = bv,
           pp_artifactHash = ah, pp_manifestHash = mh, pp_changedPathsDigest = cd,
           pp_runtimeTeardownDigest = str_or_null (jfield (payload e) ''runtimeTeardownDigest''),
           pp_verifierInputHash = None,
           pp_changedPaths = string_items (jfield (payload e) ''changedPaths''),
           pp_staticFailures = string_items (jfield (payload e) ''staticFailures''),
           pp_state = PS_SEALED, pp_exportVolumeIds = []\<rparr>)\<rparr>)
        (ev_transitionId e) (t\<lparr>tn_proposalId := Some i, tn_state := TS_SEALED\<rparr>)"
    by (simp add: on_proposal_sealed_def transitionFor_def res_simps Let_def) blast
  show ?thesis
    by (rule exI [of _ t], rule exI [of _ i], rule exI, rule conjI, rule q) (simp add: t i)
qed

lemma exported_Inr: "on_proposal_exported p e = Inr q \<Longrightarrow> q = p\<lparr>pj_proposals := pj_proposals q\<rparr>"
  by (auto simp: on_proposal_exported_def res_simps split: if_splits)

lemma destroyed_Inr:
  assumes "on_artifacts_destroyed p e = Inr q"
  shows "\<exists>t u. pj_transitions p (ev_transitionId e) = Some t \<and> core_eq t u \<and>
    q = put_transition (p\<lparr>pj_proposals := pj_proposals q\<rparr>) (ev_transitionId e) u"
proof -
  from assms obtain t where t: "pj_transitions p (ev_transitionId e) = Some t"
    by (auto simp: on_artifacts_destroyed_def res_simps)
  with assms have "q = put_transition (p\<lparr>pj_proposals := pj_proposals q\<rparr>) (ev_transitionId e)
      (t\<lparr>tn_artifactsDestroyed := True\<rparr>)"
    by (auto simp: on_artifacts_destroyed_def transitionFor_def res_simps Let_def put_transition_def split: if_splits)
  with t show ?thesis by (intro exI [of _ t] exI [of _ "t\<lparr>tn_artifactsDestroyed := True\<rparr>"]) simp
qed

lemma projected_evidence_id: "projected_evidence pl tid i = Inr ev \<Longrightarrow> pe_proposalId ev = i"
  by (auto simp: projected_evidence_def res_simps Let_def)

lemma evidence_Inr:
  assumes "on_evidence_recorded p e = Inr q"
  shows "\<exists>t i ev. pj_transitions p (ev_transitionId e) = Some t \<and> tn_state t = TS_SEALED \<and>
    tn_proposalId t = Some i \<and> blob_ref_ok ev \<and> pe_proposalId ev = i \<and>
    q = set_state (p\<lparr>pj_evidence := (pj_evidence p)(i \<mapsto> ev), pj_proposals := pj_proposals q\<rparr>)
      (ev_transitionId e) t TS_EVIDENCED"
proof -
  from assms obtain t i ev x where w: "pj_transitions p (ev_transitionId e) = Some t" "tn_state t = TS_SEALED"
    "tn_proposalId t = Some i" "projected_evidence (payload e) (ev_transitionId e) i = Inr ev" "blob_ref_ok ev"
    "q = set_state (p\<lparr>pj_evidence := (pj_evidence p)(i \<mapsto> ev), pj_proposals := x\<rparr>) (ev_transitionId e) t TS_EVIDENCED"
    unfolding on_evidence_recorded_def by (simp add: res_simps) blast
  then have "x = pj_proposals q" by (simp add: set_state_def put_transition_def)
  with w projected_evidence_id [OF w(4)] show ?thesis
    by (intro exI [of _ t] exI [of _ i] exI [of _ ev] conjI) simp_all
qed

lemma issued_Inr:
  assumes "on_permit_issued p e = Inr q"
  shows "\<exists>t i m. q = put_transition (p\<lparr>pj_permits := (pj_permits p)(i \<mapsto> m)\<rparr>) (ev_transitionId e)
      (t\<lparr>tn_permitId := Some i, tn_state := TS_PERMITTED\<rparr>) \<and>
    pj_transitions p (ev_transitionId e) = Some t \<and> tn_state t = TS_EVIDENCED \<and>
    requiredString (payload e) ''permitId'' = Inr i \<and> pj_permits p i = None \<and>
    pm_permitId m = i \<and> pm_transitionId m = ev_transitionId e \<and> pm_state m = PM_ISSUED"
proof -
  from assms obtain t where t: "pj_transitions p (ev_transitionId e) = Some t" "tn_state t = TS_EVIDENCED"
    by (auto simp: on_permit_issued_def res_simps Let_def)
  with assms obtain i pr bv ta ch ed ex where i: "requiredString (payload e) ''permitId'' = Inr i"
    and new: "pj_permits p i = None"
    and q: "q = put_transition (p\<lparr>pj_permits := (pj_permits p)(i \<mapsto>
        \<lparr>pm_permitId = i, pm_transitionId = ev_transitionId e, pm_proposalId = pr, pm_baseViewId = bv,
         pm_targetArtifactHash = ta, pm_evaluationContextHash = ch, pm_evidenceDigest = ed,
         pm_expiresAt = ex, pm_state = PM_ISSUED\<rparr>)\<rparr>) (ev_transitionId e)
        (t\<lparr>tn_permitId := Some i, tn_state := TS_PERMITTED\<rparr>)"
    by (simp add: on_permit_issued_def transitionFor_def res_simps Let_def) blast
  show ?thesis
    by (rule exI [of _ t], rule exI [of _ i], rule exI, rule conjI, rule q) (simp add: t i new)
qed

lemma consuming_Inr:
  assumes "on_permit_consuming p e = Inr q"
  shows "\<exists>t i m. pj_transitions p (ev_transitionId e) = Some t \<and> requiredString (payload e) ''permitId'' = Inr i \<and>
    pj_permits p i = Some m \<and> pm_state m = PM_ISSUED \<and> tn_permitId t = Some i \<and>
    q = set_state (p\<lparr>pj_permits := (pj_permits p)(i \<mapsto> m\<lparr>pm_state := PM_CONSUMING\<rparr>)\<rparr>)
      (ev_transitionId e) t TS_CONSUMING"
  using assms by (auto simp: on_permit_consuming_def res_simps)

lemma backup_Inr: "on_backup_created p e = Inr q \<Longrightarrow> q = p"
  by (auto simp: on_backup_created_def res_simps)

lemma applied_Inr:
  assumes "on_workspace_applied p e = Inr q"
  shows "\<exists>t v w. pj_transitions p (ev_transitionId e) = Some t \<and> tn_state t \<in> {TS_CONSUMING, TS_REPAIRED} \<and>
    requiredString (payload e) ''workspaceHash'' = Inr w \<and> as_view (jfield (payload e) ''view'') = Inr v \<and>
    q = put_head (put_transition p (ev_transitionId e)
      (t\<lparr>tn_appliedView := Some v, tn_appliedWorkspaceHash := Some w, tn_state := TS_APPLIED\<rparr>)) v w e"
  using assms by (auto simp: on_workspace_applied_def res_simps)

lemma rollback_applied_Inr: "on_rollback_applied p e = Inr q \<Longrightarrow> q = p"
  by (auto simp: on_rollback_applied_def res_simps)

lemma regenerated_Inr: "on_platform_regenerated p e = Inr q \<Longrightarrow> \<exists>v w. q = put_head p v w e"
  by (auto simp: on_platform_regenerated_def res_simps)

lemma base_check_Inr [res_simps]:
  "non_commit_base_check p t pl v w = Inr u \<longleftrightarrow>
     (if is_true (jfield pl ''restoredWorkspace'') then restored_base_matches t v w
      else (\<exists>h pv. pj_head p = Some h \<and> requiredString pl ''previousViewId'' = Inr pv \<and> head_unchanged h v w pv))"
  by (auto simp: non_commit_base_check_def res_simps split: option.splits)

lemma assertProjectedView_Inr: "assertProjectedView H x = Inr v \<Longrightarrow> as_view x = Inr v \<and> view_ok H v"
  by (auto simp: assertProjectedView_def res_simps)

lemma non_commit_Inr:
  assumes "on_non_commit H p e = Inr q"
  shows "\<exists>t d i v w. pj_transitions p (ev_transitionId e) = Some t \<and>
    d \<in> {''QUARANTINED'', ''CONFLICTED'', ''ABORTED''} \<and> tn_state t \<noteq> TS_ACKNOWLEDGED \<and>
    requiredString (payload e) ''decision'' = Inr d \<and> requiredString (payload e) ''receiptId'' = Inr i \<and>
    requiredString (payload e) ''workspaceHash'' = Inr w \<and> as_view (jfield (payload e) ''view'') = Inr v \<and>
    view_ok H v \<and> liveStateHash v = w \<and> non_commit_base_check p t (payload e) v w = Inr () \<and>
    (\<forall>r \<in> set (pj_terminalReceipts p). tr_receiptId r \<noteq> i) \<and>
    map_option pm_state (permit_of p t) \<noteq> Some PM_CONSUMED \<and>
    q = put_head (set_state ((move_permit p t (\<lambda>_. True) PM_REVOKED)
      \<lparr>pj_terminalReceipts := pj_terminalReceipts p @ [disposition_receipt e d i (Some (viewId v)) v w]\<rparr>)
      (ev_transitionId e) t TS_ROLLED_BACK) v w e"
  using assms
  by (auto simp: on_non_commit_def bindE_eq_Inr if_Inl_eq_Inr transitionFor_Inr Let_def list_ex_iff
      dest!: assertProjectedView_Inr)

lemma view_dispositioned_Inr:
  assumes "on_view_dispositioned p e = Inr q"
  shows "\<exists>d i v w. d \<in> set decisions \<and> requiredString (payload e) ''decision'' = Inr d \<and>
    requiredString (payload e) ''receiptId'' = Inr i \<and>
    q = put_head (p\<lparr>pj_terminalReceipts := pj_terminalReceipts p @
      [disposition_receipt e d i (str_or_null (jfield (payload e) ''viewId'')) v w]\<rparr>) v w e"
  using assms by (auto simp: on_view_dispositioned_def res_simps Let_def)

lemma acknowledged_Inr:
  assumes "on_acknowledged p e = Inr q"
  shows "\<exists>t i v w vid sid rb. pj_transitions p (ev_transitionId e) = Some t \<and> tn_state t = TS_APPLIED \<and>
    tn_appliedView t = Some v \<and> tn_appliedWorkspaceHash t = Some w \<and>
    requiredString (payload e) ''receiptId'' = Inr i \<and>
    q = set_state ((move_permit p t (\<lambda>_. True) PM_CONSUMED)
      \<lparr>pj_versions := pj_versions p @ [commit_version e t vid sid i rb v w],
       pj_terminalReceipts := pj_terminalReceipts p @ [commit_receipt e t i v w]\<rparr>)
      (ev_transitionId e) t TS_ACKNOWLEDGED"
proof -
  from assms obtain t i where t: "pj_transitions p (ev_transitionId e) = Some t" "tn_state t = TS_APPLIED"
    and i: "requiredString (payload e) ''receiptId'' = Inr i"
    by (auto simp: on_acknowledged_def bindE_eq_Inr if_Inl_eq_Inr transitionFor_Inr Let_def)
  obtain v w where vw: "tn_appliedView t = Some v" "tn_appliedWorkspaceHash t = Some w"
    using assms t i
    by (cases "tn_appliedView t"; cases "tn_appliedWorkspaceHash t")
      (auto simp: on_acknowledged_def transitionFor_def Let_def)
  with assms t i show ?thesis
    by (auto simp: on_acknowledged_def transitionFor_def bindE_eq_Inr Let_def)
qed

lemma rolled_back_Inr:
  assumes "on_rolled_back H p e = Inr q"
  shows "\<exists>t p'. pj_transitions p (ev_transitionId e) = Some t \<and>
    p' = set_state (move_permit p t (\<lambda>s. s \<noteq> PM_CONSUMED) PM_REVOKED) (ev_transitionId e) t TS_ROLLED_BACK \<and>
    (q = p' \<or> (\<exists>v w. q = put_head p' v w e \<and> restored_base_matches t v w \<and> view_ok H v \<and> liveStateHash v = w))"
  using assms
  by (auto simp: on_rolled_back_def bindE_eq_Inr if_Inl_eq_Inr transitionFor_Inr Let_def
      split: if_splits dest!: assertProjectedView_Inr)

lemma repaired_Inr:
  assumes "on_repair_applied p e = Inr q"
  shows "\<exists>t. pj_transitions p (ev_transitionId e) = Some t \<and> q = set_state p (ev_transitionId e) t TS_REPAIRED"
  using assms by (auto simp: on_repair_applied_def res_simps)

lemma check_verdict_Inr [res_simps]: "check_verdict v = Inr u \<longleftrightarrow> fst v"
  by (simp add: check_verdict_def)

lemma record_proof_Inr:
  "record_proof cr es p e t tr te ix b = Inr q \<longleftrightarrow>
     fst (verifyAuthorityReceiptProof cr b) \<and>
     receipt_matches_projection p t tr (proposal_of p t) (evidence_of p t) (permit_of p t) (bundle_receipt b) \<and>
     proof_matches_terminal (bundle_proof b) te \<and> pj_receiptProofs p (tr_receiptId tr) = None \<and>
     fst (verifyAuthorityReceiptProof cr (compact_bundle es b te ix)) \<and>
     q = p\<lparr>pj_receiptProofs := (pj_receiptProofs p)(tr_receiptId tr \<mapsto>
       \<lparr>px_receiptId = tr_receiptId tr, px_transitionId = ev_transitionId e,
        px_terminalEventId = eventId te, px_proofEventId = eventId e, px_sequence = sequence e,
        px_bundle = compact_bundle es b te ix\<rparr>)\<rparr>"
  unfolding record_proof_def by (auto simp: Let_def bindE_eq_Inr if_Inl_eq_Inr check_verdict_Inr)

lemma receipt_proof_Inr:
  assumes "on_receipt_proof cr es p e = Inr q"
  shows "\<exists>i teid tr te ix b t. requiredString (payload e) ''receiptId'' = Inr i \<and>
    requiredString (payload e) ''terminalEventId'' = Inr teid \<and>
    find_receipt p i (ev_transitionId e) = Some tr \<and> find_terminal es teid e = Some te \<and>
    terminal_index es (Some te) = Some ix \<and>
    proof_event_bundle es (payload e) (Some te) (Some ix) = Inr (Some b) \<and>
    pj_transitions p (ev_transitionId e) = Some t \<and> tr_eventId tr = teid \<and>
    record_proof cr es p e t tr te ix b = Inr q"
proof -
  from assms obtain i teid bu t where w: "requiredString (payload e) ''receiptId'' = Inr i"
    "requiredString (payload e) ''terminalEventId'' = Inr teid"
    "pj_transitions p (ev_transitionId e) = Some t"
    "proof_event_bundle es (payload e) (find_terminal es teid e)
       (terminal_index es (find_terminal es teid e)) = Inr bu"
    unfolding on_receipt_proof_def bindE_eq_Inr transitionFor_Inr by blast
  with assms show ?thesis
    unfolding on_receipt_proof_def
    by (auto simp: transitionFor_def if_Inl_eq_Inr split: option.splits)
qed

subsection \<open>All steps at once\<close>

text \<open>A successful step is one of these; the other proofs are by cases on this rule.\<close>

lemma dispatch_cases [consumes 1]:
  assumes "dispatch cr es p e = Inr q"
  obtains
    (Neutral) "q = p" "ev_type e \<notin> {PERMIT_CONSUMING, WORKSPACE_APPLIED, TRANSITION_ACKNOWLEDGED, NON_COMMIT_DISPOSITIONED}"
  | (Archived) "ev_type e = AGENT_ARCHIVED" "q = p\<lparr>pj_archived := True\<rparr>"
  | (Initialized) v w vr where "ev_type e \<in> {AGENT_INITIALIZED, LEGACY_STATE_ADOPTED}"
      "q = (put_head p v w e)\<lparr>pj_versions := [vr]\<rparr>" "pj_head p = None" "pj_versions p = []"
      "vr_receiptId vr = None"
  | (Prepared) t where "ev_type e = TRANSITION_PREPARED" "pj_transitions p (ev_transitionId e) = None"
      "q = put_transition p (ev_transitionId e) t" "tn_transitionId t = ev_transitionId e"
      "tn_state t = TS_PREPARED" "tn_permitId t = None" "tn_proposalId t = None" "tn_appliedView t = None"
  | (Recorded) t u x where "ev_type e \<in> {RUNTIME_TEARDOWN_RECORDED, RUN_ARTIFACTS_DESTROYED}"
      "pj_transitions p (ev_transitionId e) = Some t" "core_eq t u"
      "q = put_transition (p\<lparr>pj_proposals := x\<rparr>) (ev_transitionId e) u"
  | (Cancelled) t where "ev_type e = RUN_CANCELLED" "pj_transitions p (ev_transitionId e) = Some t"
      "tn_state t \<in> {TS_PREPARED, TS_SEALED, TS_EVIDENCED, TS_PERMITTED, TS_CANCELLED}"
      "q = set_state (move_permit p t (\<lambda>s. s = PM_ISSUED) PM_REVOKED) (ev_transitionId e) t TS_CANCELLED"
  | (Sealed) t i pr where "ev_type e = PROPOSAL_SEALED" "pj_transitions p (ev_transitionId e) = Some t"
      "tn_state t = TS_PREPARED" "requiredString (payload e) ''proposalId'' = Inr i" "pp_proposalId pr = i"
      "pp_transitionId pr = ev_transitionId e"
      "q = put_transition (p\<lparr>pj_proposals := (pj_proposals p)(i \<mapsto> pr)\<rparr>) (ev_transitionId e)
         (t\<lparr>tn_proposalId := Some i, tn_state := TS_SEALED\<rparr>)"
  | (Exported) x where "ev_type e = PROPOSAL_EXPORTED" "q = p\<lparr>pj_proposals := x\<rparr>"
  | (Evidenced) t i ev x where "ev_type e = EVIDENCE_RECORDED" "pj_transitions p (ev_transitionId e) = Some t"
      "tn_state t = TS_SEALED" "tn_proposalId t = Some i" "blob_ref_ok ev" "pe_proposalId ev = i"
      "q = set_state (p\<lparr>pj_evidence := (pj_evidence p)(i \<mapsto> ev), pj_proposals := x\<rparr>)
         (ev_transitionId e) t TS_EVIDENCED"
  | (Issued) t i m where "ev_type e = PERMIT_ISSUED" "pj_transitions p (ev_transitionId e) = Some t"
      "tn_state t = TS_EVIDENCED" "requiredString (payload e) ''permitId'' = Inr i" "pj_permits p i = None"
      "pm_permitId m = i" "pm_transitionId m = ev_transitionId e" "pm_state m = PM_ISSUED"
      "q = put_transition (p\<lparr>pj_permits := (pj_permits p)(i \<mapsto> m)\<rparr>) (ev_transitionId e)
         (t\<lparr>tn_permitId := Some i, tn_state := TS_PERMITTED\<rparr>)"
  | (Consuming) t i m where "ev_type e = PERMIT_CONSUMING" "pj_transitions p (ev_transitionId e) = Some t"
      "requiredString (payload e) ''permitId'' = Inr i" "pj_permits p i = Some m" "pm_state m = PM_ISSUED"
      "tn_permitId t = Some i"
      "q = set_state (p\<lparr>pj_permits := (pj_permits p)(i \<mapsto> m\<lparr>pm_state := PM_CONSUMING\<rparr>)\<rparr>)
         (ev_transitionId e) t TS_CONSUMING"
  | (Applied) t v w where "ev_type e = WORKSPACE_APPLIED" "pj_transitions p (ev_transitionId e) = Some t"
      "tn_state t \<in> {TS_CONSUMING, TS_REPAIRED}" "requiredString (payload e) ''workspaceHash'' = Inr w"
      "as_view (jfield (payload e) ''view'') = Inr v"
      "q = put_head (put_transition p (ev_transitionId e)
         (t\<lparr>tn_appliedView := Some v, tn_appliedWorkspaceHash := Some w, tn_state := TS_APPLIED\<rparr>)) v w e"
  | (Regenerated) v w where "ev_type e = PLATFORM_STATE_REGENERATED" "q = put_head p v w e"
  | (NonCommit) t d i v w where "ev_type e = NON_COMMIT_DISPOSITIONED"
      "pj_transitions p (ev_transitionId e) = Some t" "d \<in> {''QUARANTINED'', ''CONFLICTED'', ''ABORTED''}"
      "tn_state t \<noteq> TS_ACKNOWLEDGED" "requiredString (payload e) ''decision'' = Inr d"
      "requiredString (payload e) ''receiptId'' = Inr i" "requiredString (payload e) ''workspaceHash'' = Inr w"
      "as_view (jfield (payload e) ''view'') = Inr v" "view_ok (sha256 cr) v" "liveStateHash v = w"
      "non_commit_base_check p t (payload e) v w = Inr ()"
      "\<forall>r \<in> set (pj_terminalReceipts p). tr_receiptId r \<noteq> i"
      "map_option pm_state (permit_of p t) \<noteq> Some PM_CONSUMED"
      "q = put_head (set_state ((move_permit p t (\<lambda>_. True) PM_REVOKED)
         \<lparr>pj_terminalReceipts := pj_terminalReceipts p @ [disposition_receipt e d i (Some (viewId v)) v w]\<rparr>)
         (ev_transitionId e) t TS_ROLLED_BACK) v w e"
  | (ViewDispositioned) d i v w where "ev_type e = VIEW_DISPOSITIONED"
      "q = put_head (p\<lparr>pj_terminalReceipts := pj_terminalReceipts p @
         [disposition_receipt e d i (str_or_null (jfield (payload e) ''viewId'')) v w]\<rparr>) v w e"
  | (Acknowledged) t i v w vid sid rb where "ev_type e = TRANSITION_ACKNOWLEDGED"
      "pj_transitions p (ev_transitionId e) = Some t" "tn_state t = TS_APPLIED" "tn_appliedView t = Some v"
      "tn_appliedWorkspaceHash t = Some w" "requiredString (payload e) ''receiptId'' = Inr i"
      "q = set_state ((move_permit p t (\<lambda>_. True) PM_CONSUMED)
         \<lparr>pj_versions := pj_versions p @ [commit_version e t vid sid i rb v w],
          pj_terminalReceipts := pj_terminalReceipts p @ [commit_receipt e t i v w]\<rparr>)
         (ev_transitionId e) t TS_ACKNOWLEDGED"
  | (Proof) tr te ix b t where "ev_type e = RECEIPT_PROOF_RECORDED"
      "find_receipt p (tr_receiptId tr) (ev_transitionId e) = Some tr" "find_terminal es (tr_eventId tr) e = Some te"
      "terminal_index es (Some te) = Some ix" "pj_transitions p (ev_transitionId e) = Some t"
      "record_proof cr es p e t tr te ix b = Inr q"
  | (RolledBack) t p' where "ev_type e = TRANSITION_ROLLED_BACK" "pj_transitions p (ev_transitionId e) = Some t"
      "p' = set_state (move_permit p t (\<lambda>s. s \<noteq> PM_CONSUMED) PM_REVOKED) (ev_transitionId e) t TS_ROLLED_BACK"
      "q = p' \<or> (\<exists>v w. q = put_head p' v w e \<and> restored_base_matches t v w \<and> view_ok (sha256 cr) v \<and> liveStateHash v = w)"
  | (Repaired) t where "ev_type e = REPAIR_APPLIED" "pj_transitions p (ev_transitionId e) = Some t"
      "q = set_state p (ev_transitionId e) t TS_REPAIRED"
proof (cases "ev_type e")
  case AGENT_INITIALIZED
  with assms have "on_agent_initialized p e = Inr q" by (simp add: dispatch_def)
  from initialized_Inr [OF this] AGENT_INITIALIZED Initialized show thesis by blast
next
  case LEGACY_STATE_ADOPTED
  with assms have "on_agent_initialized p e = Inr q" by (simp add: dispatch_def)
  from initialized_Inr [OF this] LEGACY_STATE_ADOPTED Initialized show thesis by blast
next
  case TRANSITION_PREPARED
  with assms have "on_transition_prepared p e = Inr q" by (simp add: dispatch_def)
  from prepared_Inr [OF this] TRANSITION_PREPARED Prepared show thesis by blast
next
  case RUNTIME_TEARDOWN_RECORDED
  with assms have "on_runtime_teardown p e = Inr q" by (simp add: dispatch_def)
  from teardown_Inr [OF this] obtain t u where w: "pj_transitions p (ev_transitionId e) = Some t" "core_eq t u"
    "q = put_transition p (ev_transitionId e) u" by blast
  then have q: "q = put_transition (p\<lparr>pj_proposals := pj_proposals q\<rparr>) (ev_transitionId e) u"
    by (simp add: put_transition_def)
  show thesis by (rule Recorded [OF _ w(1,2) q]) (simp add: RUNTIME_TEARDOWN_RECORDED)
next
  case RUN_CANCELLED
  with assms have "on_run_cancelled p e = Inr q" by (simp add: dispatch_def)
  from cancelled_Inr [OF this] RUN_CANCELLED Cancelled show thesis by blast
next
  case PROPOSAL_SEALED
  with assms have "on_proposal_sealed (sha256 cr) p e = Inr q" by (simp add: dispatch_def)
  from sealed_Inr [OF this] PROPOSAL_SEALED Sealed show thesis by blast
next
  case PROPOSAL_EXPORTED
  with assms have "on_proposal_exported p e = Inr q" by (simp add: dispatch_def)
  from exported_Inr [OF this] PROPOSAL_EXPORTED show thesis by (rule Exported [rotated])
next
  case RUN_ARTIFACTS_DESTROYED
  with assms have "on_artifacts_destroyed p e = Inr q" by (simp add: dispatch_def)
  from destroyed_Inr [OF this] obtain t u where w: "pj_transitions p (ev_transitionId e) = Some t" "core_eq t u"
    "q = put_transition (p\<lparr>pj_proposals := pj_proposals q\<rparr>) (ev_transitionId e) u" by metis
  show thesis by (rule Recorded [OF _ w]) (simp add: RUN_ARTIFACTS_DESTROYED)
next
  case EVIDENCE_RECORDED
  with assms have "on_evidence_recorded p e = Inr q" by (simp add: dispatch_def)
  from evidence_Inr [OF this] obtain t i ev where w: "pj_transitions p (ev_transitionId e) = Some t"
    "tn_state t = TS_SEALED" "tn_proposalId t = Some i" "blob_ref_ok ev" "pe_proposalId ev = i"
    "q = set_state (p\<lparr>pj_evidence := (pj_evidence p)(i \<mapsto> ev), pj_proposals := pj_proposals q\<rparr>)
         (ev_transitionId e) t TS_EVIDENCED" by metis
  show thesis by (rule Evidenced [OF EVIDENCE_RECORDED w])
next
  case PERMIT_ISSUED
  with assms have "on_permit_issued p e = Inr q" by (simp add: dispatch_def)
  from issued_Inr [OF this] PERMIT_ISSUED Issued show thesis by blast
next
  case PERMIT_CONSUMING
  with assms have "on_permit_consuming p e = Inr q" by (simp add: dispatch_def)
  from consuming_Inr [OF this] PERMIT_CONSUMING Consuming show thesis by blast
next
  case WORKSPACE_APPLIED
  with assms have "on_workspace_applied p e = Inr q" by (simp add: dispatch_def)
  from applied_Inr [OF this] WORKSPACE_APPLIED Applied show thesis by blast
next
  case PLATFORM_STATE_REGENERATED
  with assms have "on_platform_regenerated p e = Inr q" by (simp add: dispatch_def)
  from regenerated_Inr [OF this] PLATFORM_STATE_REGENERATED Regenerated show thesis by blast
next
  case NON_COMMIT_DISPOSITIONED
  with assms have "on_non_commit (sha256 cr) p e = Inr q" by (simp add: dispatch_def)
  from non_commit_Inr [OF this] NON_COMMIT_DISPOSITIONED NonCommit show thesis by blast
next
  case VIEW_DISPOSITIONED
  with assms have "on_view_dispositioned p e = Inr q" by (simp add: dispatch_def)
  from view_dispositioned_Inr [OF this] VIEW_DISPOSITIONED ViewDispositioned show thesis by blast
next
  case TRANSITION_ACKNOWLEDGED
  with assms have "on_acknowledged p e = Inr q" by (simp add: dispatch_def)
  from acknowledged_Inr [OF this] TRANSITION_ACKNOWLEDGED Acknowledged show thesis by blast
next
  case RECEIPT_PROOF_RECORDED
  with assms have "on_receipt_proof cr es p e = Inr q" by (simp add: dispatch_def)
  from receipt_proof_Inr [OF this] obtain i teid tr te ix b t where
    w: "find_receipt p i (ev_transitionId e) = Some tr" "find_terminal es teid e = Some te"
    "terminal_index es (Some te) = Some ix" "pj_transitions p (ev_transitionId e) = Some t"
    "tr_eventId tr = teid" "record_proof cr es p e t tr te ix b = Inr q" by blast
  from w(1) have "i = tr_receiptId tr" by (auto simp: find_receipt_def dest: find_Some_in)
  with w RECEIPT_PROOF_RECORDED Proof show thesis by blast
next
  case TRANSITION_ROLLED_BACK
  with assms have "on_rolled_back (sha256 cr) p e = Inr q" by (simp add: dispatch_def)
  from rolled_back_Inr [OF this] TRANSITION_ROLLED_BACK RolledBack show thesis by blast
next
  case REPAIR_APPLIED
  with assms have "on_repair_applied p e = Inr q" by (simp add: dispatch_def)
  from repaired_Inr [OF this] REPAIR_APPLIED Repaired show thesis by blast
next
  case BACKUP_CREATED
  with assms have "on_backup_created p e = Inr q" by (simp add: dispatch_def)
  from backup_Inr [OF this] BACKUP_CREATED Neutral show thesis by simp
next
  case ROLLBACK_APPLIED
  with assms have "on_rollback_applied p e = Inr q" by (simp add: dispatch_def)
  from rollback_applied_Inr [OF this] ROLLBACK_APPLIED Neutral show thesis by simp
next
  case AGENT_ARCHIVED
  with assms Archived show thesis by (simp add: dispatch_def)
qed (use assms Neutral in \<open>simp_all add: dispatch_def\<close>)

end
