(* ===== verification/Projection_Machine.thy ===== *)
theory Projection_Machine
  imports Projection_Facts "HOL-Library.Sublist"
begin

text \<open>
  The reducer as a machine: three interpretations give run lemmas for permits (bindings fixed,
  states forward), for the append-only records, and for the well-formedness of the tables; the
  invariant on the trace of one transition ties each state to the events behind it.
\<close>

subsection \<open>What the writers leave alone\<close>

lemma writer_frames [simp]:
  "pj_permits (put_head p v w e) = pj_permits p" "pj_permits (put_transition p i t) = pj_permits p"
  "pj_permits (set_state p i t s) = pj_permits p"
  "pj_versions (put_head p v w e) = pj_versions p" "pj_versions (put_transition p i t) = pj_versions p"
  "pj_versions (set_state p i t s) = pj_versions p" "pj_versions (move_permit p u g s') = pj_versions p"
  "pj_terminalReceipts (put_head p v w e) = pj_terminalReceipts p"
  "pj_terminalReceipts (put_transition p i t) = pj_terminalReceipts p"
  "pj_terminalReceipts (set_state p i t s) = pj_terminalReceipts p"
  "pj_terminalReceipts (move_permit p u g s') = pj_terminalReceipts p"
  "pj_receiptProofs (put_head p v w e) = pj_receiptProofs p"
  "pj_receiptProofs (put_transition p i t) = pj_receiptProofs p"
  "pj_receiptProofs (set_state p i t s) = pj_receiptProofs p"
  "pj_receiptProofs (move_permit p u g s') = pj_receiptProofs p"
  by (simp_all add: put_head_def put_transition_def set_state_def move_permit_def split: option.split)

lemma writer_frames2 [simp]:
  "pj_transitions (put_head p v w e) = pj_transitions p"
  "pj_transitions (put_transition p i t) = (pj_transitions p)(i \<mapsto> t)"
  "pj_transitions (set_state p i t s) = (pj_transitions p)(i \<mapsto> t\<lparr>tn_state := s\<rparr>)"
  "pj_transitions (move_permit p u g s') = pj_transitions p"
  "pj_proposals (put_head p v w e) = pj_proposals p" "pj_proposals (put_transition p i t) = pj_proposals p"
  "pj_proposals (set_state p i t s) = pj_proposals p" "pj_proposals (move_permit p u g s') = pj_proposals p"
  "pj_evidence (put_head p v w e) = pj_evidence p" "pj_evidence (put_transition p i t) = pj_evidence p"
  "pj_evidence (set_state p i t s) = pj_evidence p" "pj_evidence (move_permit p u g s') = pj_evidence p"
  "pj_head (put_transition p i t) = pj_head p" "pj_head (set_state p i t s) = pj_head p"
  "pj_head (move_permit p u g s') = pj_head p"
  "pj_agentId (put_head p v w e) = pj_agentId p" "pj_agentId (put_transition p i t) = pj_agentId p"
  "pj_agentId (set_state p i t s) = pj_agentId p" "pj_agentId (move_permit p u g s') = pj_agentId p"
  "pj_archived (put_head p v w e) = pj_archived p" "pj_archived (put_transition p i t) = pj_archived p"
  "pj_archived (set_state p i t s) = pj_archived p" "pj_archived (move_permit p u g s') = pj_archived p"
  by (simp_all add: put_head_def put_transition_def set_state_def move_permit_def split: option.split)

lemma put_head_head [simp]: "pj_head (put_head p v w e) = Some
  \<lparr>hd_view = v, hd_workspaceHash = w, hd_lastAppliedEventId = eventId e, hd_lastAppliedSequence = sequence e\<rparr>"
  by (simp add: put_head_def)

lemma apply_event_Inr:
  "apply_event cr es p e = Inr q \<longleftrightarrow>
     ev_agentId e = pj_agentId p \<and>
     (\<exists>r. dispatch cr es p e = Inr r \<and> q = r\<lparr>pj_lastEventId := Some (eventId e), pj_lastSequence := sequence e\<rparr>)"
  by (auto simp: apply_event_def bindE_eq_Inr)

subsection \<open>Permits\<close>

definition permit_le :: "permit \<Rightarrow> permit \<Rightarrow> bool" where
  "permit_le m n \<longleftrightarrow> n = m\<lparr>pm_state := pm_state n\<rparr> \<and>
     (pm_state m = PM_CONSUMED \<longrightarrow> pm_state n = PM_CONSUMED) \<and>
     (pm_state m \<noteq> PM_ISSUED \<longrightarrow> pm_state n \<noteq> PM_ISSUED)"

definition permits_le :: "projection \<Rightarrow> projection \<Rightarrow> bool" where
  "permits_le p q \<longleftrightarrow> (\<forall>i m. pj_permits p i = Some m \<longrightarrow> (\<exists>n. pj_permits q i = Some n \<and> permit_le m n))"

lemma permit_le_refl [simp]: "permit_le m m"
  by (simp add: permit_le_def)

lemma permit_le_trans: "permit_le m n \<Longrightarrow> permit_le n k \<Longrightarrow> permit_le m k"
  unfolding permit_le_def by (cases m; cases n; cases k; auto)

lemma permit_le_fields:
  "permit_le m n \<Longrightarrow> pm_permitId n = pm_permitId m \<and> pm_transitionId n = pm_transitionId m \<and>
     pm_proposalId n = pm_proposalId m \<and> pm_baseViewId n = pm_baseViewId m \<and>
     pm_targetArtifactHash n = pm_targetArtifactHash m \<and>
     pm_evaluationContextHash n = pm_evaluationContextHash m \<and>
     pm_evidenceDigest n = pm_evidenceDigest m \<and> pm_expiresAt n = pm_expiresAt m"
  unfolding permit_le_def by (cases m; cases n; simp)

lemma permits_le_refl: "permits_le p p"
  by (auto simp: permits_le_def)

lemma permits_le_trans: "permits_le p q \<Longrightarrow> permits_le q r \<Longrightarrow> permits_le p r"
  unfolding permits_le_def by (blast intro: permit_le_trans)

lemma permits_le_cong: "pj_permits p = pj_permits p' \<Longrightarrow> pj_permits q = pj_permits q' \<Longrightarrow> permits_le p q = permits_le p' q'"
  by (simp add: permits_le_def)

lemma permits_le_same: "pj_permits q = pj_permits p \<Longrightarrow> permits_le p q"
  by (auto simp: permits_le_def)

lemma move_permit_permits:
  "pj_permits (move_permit p t g s) =
     (case permit_of p t of
        Some m \<Rightarrow> if g (pm_state m) then (pj_permits p)(the (tn_permitId t) \<mapsto> m\<lparr>pm_state := s\<rparr>) else pj_permits p
      | None \<Rightarrow> pj_permits p)"
  by (auto simp: move_permit_def permit_of_def split: option.split)

lemma permit_of_Some: "permit_of p t = Some m \<Longrightarrow> \<exists>i. tn_permitId t = Some i \<and> i \<noteq> [] \<and> pj_permits p i = Some m"
  by (auto simp: permit_of_def split: option.splits if_splits)

lemma permits_le_move:
  assumes "\<And>m. permit_of p t = Some m \<Longrightarrow> g (pm_state m) \<Longrightarrow>
      s \<noteq> PM_ISSUED \<and> (pm_state m = PM_CONSUMED \<longrightarrow> s = PM_CONSUMED)"
    and "pj_permits q = pj_permits (move_permit p t g s)"
  shows "permits_le p q"
  using assms permit_of_Some [of p t]
  by (auto simp: permits_le_def permit_le_def move_permit_permits split: option.splits if_splits)

lemma dispatch_permits:
  assumes "dispatch cr es p e = Inr q"
  shows "permits_le p q"
  using assms
proof (cases rule: dispatch_cases)
  case (Issued t i m)
  then show ?thesis by (auto simp: permits_le_def)
next
  case (Consuming t i m)
  then show ?thesis by (auto simp: permits_le_def permit_le_def)
next
  case (Cancelled t)
  show ?thesis by (rule permits_le_move [of p t "\<lambda>s. s = PM_ISSUED" PM_REVOKED]) (simp_all add: Cancelled(4))
next
  case (NonCommit t d i v w)
  then show ?thesis by (intro permits_le_move [of p t "\<lambda>_. True" PM_REVOKED]) auto
next
  case (Acknowledged t i v w vid sid rb)
  then show ?thesis by (intro permits_le_move [of p t "\<lambda>_. True" PM_CONSUMED]) auto
next
  case (RolledBack t p')
  then show ?thesis by (intro permits_le_move [of p t "\<lambda>s. s \<noteq> PM_CONSUMED" PM_REVOKED]) auto
qed (auto simp: permits_le_same record_proof_Inr)

interpretation permits: mono_machine "apply_event cr es" permits_le for cr es
proof
  show "permits_le s s'" if "apply_event cr es s e = Inr s'" for s e s'
    using that dispatch_permits by (auto simp: apply_event_Inr permits_le_def)
qed (auto intro: permits_le_refl permits_le_trans)

text \<open>A permit that has left ISSUED cannot be consumed again.\<close>

definition consumes :: "string \<Rightarrow> event \<Rightarrow> bool" where
  "consumes i e \<longleftrightarrow> ev_type e = PERMIT_CONSUMING \<and> requiredString (payload e) ''permitId'' = Inr i"

definition spent :: "projection \<Rightarrow> string \<Rightarrow> bool" where
  "spent p i \<longleftrightarrow> (\<exists>m. pj_permits p i = Some m \<and> pm_state m \<noteq> PM_ISSUED)"

lemma consuming_step:
  assumes "apply_event cr es p e = Inr q" and "consumes i e"
  shows "\<not> spent p i \<and> spent q i"
proof -
  from assms obtain r where r: "dispatch cr es p e = Inr r" and "pj_permits q = pj_permits r"
    by (auto simp: apply_event_Inr)
  moreover from r assms(2) have "\<not> spent p i \<and> spent r i"
    by (cases rule: dispatch_cases) (auto simp: consumes_def spent_def)
  ultimately show ?thesis by (simp add: spent_def)
qed

lemma spent_mono: "permits_le p q \<Longrightarrow> spent p i \<Longrightarrow> spent q i"
  unfolding permits_le_def permit_le_def spent_def by blast

lemma spent_no_consume:
  "runE (apply_event cr es) p xs = Inr q \<Longrightarrow> spent p i \<Longrightarrow> filter (consumes i) xs = []"
proof (induction xs arbitrary: p)
  case Nil
  then show ?case by simp
next
  case (Cons x xs)
  from Cons.prems obtain r where r: "apply_event cr es p x = Inr r" "runE (apply_event cr es) r xs = Inr q"
    by (auto simp: bindE_eq_Inr)
  with Cons.prems have "\<not> consumes i x" by (blast dest: consuming_step)
  moreover have "spent r i" using r(1) Cons.prems(2) permits.step_le spent_mono by blast
  ultimately show ?case using Cons.IH [OF r(2)] by simp
qed

lemma consume_once:
  "runE (apply_event cr es) p xs = Inr q \<Longrightarrow> length (filter (consumes i) xs) \<le> 1"
proof (induction xs arbitrary: p)
  case Nil
  then show ?case by simp
next
  case (Cons x xs)
  from Cons.prems obtain r where r: "apply_event cr es p x = Inr r" "runE (apply_event cr es) r xs = Inr q"
    by (auto simp: bindE_eq_Inr)
  show ?case
  proof (cases "consumes i x")
    case True
    with r have "spent r i" by (blast dest: consuming_step)
    with True spent_no_consume [OF r(2)] show ?thesis by simp
  next
    case False
    with Cons.IH [OF r(2)] show ?thesis by simp
  qed
qed

subsection \<open>Records that only grow\<close>

definition history_le :: "projection \<Rightarrow> projection \<Rightarrow> bool" where
  "history_le p q \<longleftrightarrow> prefix (pj_versions p) (pj_versions q) \<and>
     prefix (pj_terminalReceipts p) (pj_terminalReceipts q) \<and> pj_receiptProofs p \<subseteq>\<^sub>m pj_receiptProofs q \<and>
     (\<forall>tid. pj_transitions p tid \<noteq> None \<longrightarrow> pj_transitions q tid \<noteq> None) \<and> (pj_archived p \<longrightarrow> pj_archived q)"

lemma history_le_refl: "history_le p p"
  by (simp add: history_le_def)

lemma history_le_trans: "history_le p q \<Longrightarrow> history_le q r \<Longrightarrow> history_le p r"
  by (auto simp: history_le_def intro: map_le_trans prefix_order.order_trans)

lemma map_le_new: "m k = None \<Longrightarrow> m \<subseteq>\<^sub>m m(k \<mapsto> v)"
  by (auto simp: map_le_def)

lemma dispatch_history:
  assumes "dispatch cr es p e = Inr q"
  shows "history_le p q"
  using assms
proof (cases rule: dispatch_cases)
  case (RolledBack t p')
  then show ?thesis by (auto simp: history_le_def)
qed (auto simp: history_le_def record_proof_Inr map_le_new)

interpretation history: mono_machine "apply_event cr es" history_le for cr es
proof
  show "history_le s s'" if "apply_event cr es s e = Inr s'" for s e s'
    using that dispatch_history [of cr es s e] unfolding apply_event_Inr history_le_def by auto
qed (auto intro: history_le_refl history_le_trans)

subsection \<open>Well-formed tables\<close>

definition transition_ok :: "projection \<Rightarrow> string \<Rightarrow> transition \<Rightarrow> bool" where
  "transition_ok p tid t \<longleftrightarrow> tn_transitionId t = tid \<and>
     (tn_state t \<in> {TS_PREPARED, TS_SEALED, TS_EVIDENCED} \<longrightarrow> tn_permitId t = None) \<and>
     (tn_state t \<in> {TS_PERMITTED, TS_CONSUMING} \<longrightarrow> tn_permitId t \<noteq> None) \<and>
     (tn_state t = TS_APPLIED \<longrightarrow> tn_appliedView t \<noteq> None \<and> tn_appliedWorkspaceHash t \<noteq> None) \<and>
     (\<forall>i. tn_permitId t = Some i \<longrightarrow> (\<exists>m. pj_permits p i = Some m \<and> pm_transitionId m = tid))"

definition tables_ok :: "projection \<Rightarrow> bool" where
  "tables_ok p \<longleftrightarrow>
     (\<forall>tid t. pj_transitions p tid = Some t \<longrightarrow> transition_ok p tid t) \<and>
     (\<forall>i m. pj_permits p i = Some m \<longrightarrow> pm_permitId m = i \<and> i \<noteq> [])"

lemma permits_le_transition: "permits_le p q \<Longrightarrow> pj_permits p i = Some m \<Longrightarrow> \<exists>n. pj_permits q i = Some n \<and> pm_transitionId n = pm_transitionId m"
  unfolding permits_le_def using permit_le_fields by blast

lemma transition_ok_mono: "permits_le p q \<Longrightarrow> transition_ok p tid t \<Longrightarrow> transition_ok q tid t"
  unfolding transition_ok_def using permits_le_transition by fastforce

lemma permits_le_keys:
  assumes "permits_le p q" and "tables_ok p" and "pj_permits q i = Some n"
    and "\<And>i n. pj_permits q i = Some n \<Longrightarrow> pj_permits p i = None \<Longrightarrow> pm_permitId n = i \<and> i \<noteq> []"
  shows "pm_permitId n = i \<and> i \<noteq> []"
proof (cases "pj_permits p i")
  case None
  with assms show ?thesis by blast
next
  case (Some m)
  with assms(1,3) have "permit_le m n" unfolding permits_le_def by fastforce
  then have "pm_permitId n = pm_permitId m" by (simp add: permit_le_fields)
  with assms(2) Some show ?thesis by (auto simp: tables_ok_def)
qed

text \<open>A step that writes one transition keeps the tables in order if it keeps that entry in order.\<close>

lemma tables_ok_write:
  assumes "tables_ok p" and "permits_le p q" and "pj_transitions q = (pj_transitions p)(tid \<mapsto> u)"
    and "transition_ok q tid u"
    and "\<And>i n. pj_permits q i = Some n \<Longrightarrow> pj_permits p i = None \<Longrightarrow> pm_permitId n = i \<and> i \<noteq> []"
  shows "tables_ok q"
proof -
  have "transition_ok q tid' t" if "pj_transitions q tid' = Some t" for tid' t
    using that assms by (auto simp: tables_ok_def intro: transition_ok_mono split: if_splits)
  moreover have "pm_permitId n = i \<and> i \<noteq> []" if "pj_permits q i = Some n" for i n
    by (rule permits_le_keys [OF assms(2,1) that]) (rule assms(5))
  ultimately show ?thesis by (simp add: tables_ok_def)
qed

lemma tables_ok_same:
  "tables_ok p \<Longrightarrow> pj_transitions q = pj_transitions p \<Longrightarrow> pj_permits q = pj_permits p \<Longrightarrow> tables_ok q"
  by (simp add: tables_ok_def transition_ok_def)

lemma transition_ok_of: "tables_ok p \<Longrightarrow> pj_transitions p tid = Some t \<Longrightarrow> transition_ok p tid t"
  by (simp add: tables_ok_def)

lemma move_permit_dom: "pj_permits (move_permit p t g s) i = Some n \<Longrightarrow> pj_permits p i \<noteq> None"
  using permit_of_Some [of p t]
  by (auto simp: move_permit_permits split: option.splits if_splits)

text \<open>Closing a transition: its permit moves, its state becomes one without obligations.\<close>

lemma tables_ok_close:
  assumes "tables_ok p" and "permits_le p q" and "pj_transitions p tid = Some t"
    and "pj_transitions q = (pj_transitions p)(tid \<mapsto> t\<lparr>tn_state := s\<rparr>)"
    and "pj_permits q = pj_permits (move_permit p t g s')"
    and "s \<in> {TS_CANCELLED, TS_ROLLED_BACK, TS_ACKNOWLEDGED, TS_REPAIRED}"
  shows "tables_ok q"
proof (rule tables_ok_write [OF assms(1,2,4)])
  show "transition_ok q tid (t\<lparr>tn_state := s\<rparr>)"
    using transition_ok_mono [OF assms(2) transition_ok_of [OF assms(1,3)]] assms(6)
    by (auto simp: transition_ok_def)
  show "pm_permitId n = i \<and> i \<noteq> []" if "pj_permits q i = Some n" "pj_permits p i = None" for i n
    using that assms(5) by (auto dest: move_permit_dom)
qed

lemma dispatch_tables:
  assumes "dispatch cr es p e = Inr q" and "tables_ok p"
  shows "tables_ok q"
proof -
  have le: "permits_le p q" using assms(1) by (rule dispatch_permits)
  note old = transition_ok_mono [OF le transition_ok_of [OF assms(2)]]
  note upd = tables_ok_write [OF assms(2) le]
  note fin = tables_ok_close [OF assms(2) le]
  from assms(1) show ?thesis
  proof (cases rule: dispatch_cases)
    case (Issued t i m)
    show ?thesis
      by (rule upd [of "ev_transitionId e" "t\<lparr>tn_permitId := Some i, tn_state := TS_PERMITTED\<rparr>"])
        (use Issued in \<open>auto simp: transition_ok_def split: if_splits dest!: requiredString_Inr
           dest: transition_ok_of [OF assms(2)]\<close>)
  next
    case (Consuming t i m)
    show ?thesis
      by (rule upd [of "ev_transitionId e" "t\<lparr>tn_state := TS_CONSUMING\<rparr>"])
        (use Consuming old [OF Consuming(2)] in \<open>auto simp: transition_ok_def split: if_splits\<close>)
  next
    case (Cancelled t)
    show ?thesis by (rule fin [OF Cancelled(2), where s = TS_CANCELLED and s' = PM_REVOKED and g = "\<lambda>s. s = PM_ISSUED"]) (simp_all add: Cancelled(4))
  next
    case (NonCommit t d i v w)
    show ?thesis by (rule fin [OF NonCommit(2), where s = TS_ROLLED_BACK and s' = PM_REVOKED and g = "\<lambda>_. True"]) (simp_all add: NonCommit(14))
  next
    case (Acknowledged t i v w vid sid rb)
    show ?thesis by (rule fin [OF Acknowledged(2), where s = TS_ACKNOWLEDGED and s' = PM_CONSUMED and g = "\<lambda>_. True"]) (simp_all add: Acknowledged(7))
  next
    case (RolledBack t p')
    have "pj_transitions q = (pj_transitions p)(ev_transitionId e \<mapsto> t\<lparr>tn_state := TS_ROLLED_BACK\<rparr>)"
      and "pj_permits q = pj_permits (move_permit p t (\<lambda>s. s \<noteq> PM_CONSUMED) PM_REVOKED)"
      using RolledBack(3,4) by auto
    then show ?thesis by (rule fin [OF RolledBack(2)]) simp
  next
    case (Repaired t)
    show ?thesis
      by (rule upd [of "ev_transitionId e" "t\<lparr>tn_state := TS_REPAIRED\<rparr>"])
        (use Repaired(3) old [OF Repaired(2)] in \<open>auto simp: transition_ok_def\<close>)
  next
    case (Prepared t)
    show ?thesis
      by (rule upd [of "ev_transitionId e" t]) (use Prepared in \<open>auto simp: transition_ok_def\<close>)
  next
    case (Recorded t u x)
    show ?thesis
      by (rule upd [of "ev_transitionId e" u])
        (use Recorded(2,3,4) old [OF Recorded(2)] in \<open>auto simp: transition_ok_def core_eq_def\<close>)
  next
    case (Sealed t i pr)
    show ?thesis
      by (rule upd [of "ev_transitionId e" "t\<lparr>tn_proposalId := Some i, tn_state := TS_SEALED\<rparr>"])
        (use Sealed(3,7) old [OF Sealed(2)] in \<open>auto simp: transition_ok_def\<close>)
  next
    case (Evidenced t i ev x)
    show ?thesis
      by (rule upd [of "ev_transitionId e" "t\<lparr>tn_state := TS_EVIDENCED\<rparr>"])
        (use Evidenced(3,7) old [OF Evidenced(2)] in \<open>auto simp: transition_ok_def\<close>)
  next
    case (Applied t v w)
    show ?thesis
      by (rule upd [of "ev_transitionId e"
          "t\<lparr>tn_appliedView := Some v, tn_appliedWorkspaceHash := Some w, tn_state := TS_APPLIED\<rparr>"])
        (use Applied(6) old [OF Applied(2)] in \<open>auto simp: transition_ok_def\<close>)
  qed (rule tables_ok_same [OF assms(2)]; simp add: record_proof_Inr)+
qed

interpretation tables: inv_machine "apply_event cr es" tables_ok for cr es
proof
  show "tables_ok s'" if "apply_event cr es s e = Inr s'" and "tables_ok s" for s e s'
    using that dispatch_tables [of cr es s e] unfolding apply_event_Inr by (auto intro: tables_ok_same)
qed

lemma tables_ok_empty [simp]: "tables_ok (empty_projection a)"
  by (simp add: tables_ok_def empty_projection_def)

end
