(* ===== verification/Projection_Trace.thy ===== *)
theory Projection_Trace
  imports Projection_Machine
begin

text \<open>
  The events behind a state. \<open>path_to\<close> lists the event types a transition must have seen, in
  order, to be in a state; without a repair event the trace of the transition contains that path.
  The receipts, versions and proofs of a rebuilt projection are tied to one another the same way.
\<close>

subsection \<open>The path of evidence\<close>

fun path_to :: "transition_state \<Rightarrow> event_type list" where
  "path_to TS_SEALED = [TRANSITION_PREPARED, PROPOSAL_SEALED]"
| "path_to TS_EVIDENCED = [TRANSITION_PREPARED, PROPOSAL_SEALED, EVIDENCE_RECORDED]"
| "path_to TS_PERMITTED = [TRANSITION_PREPARED, PROPOSAL_SEALED, EVIDENCE_RECORDED, PERMIT_ISSUED]"
| "path_to TS_CONSUMING =
     [TRANSITION_PREPARED, PROPOSAL_SEALED, EVIDENCE_RECORDED, PERMIT_ISSUED, PERMIT_CONSUMING]"
| "path_to TS_APPLIED =
     [TRANSITION_PREPARED, PROPOSAL_SEALED, EVIDENCE_RECORDED, PERMIT_ISSUED, PERMIT_CONSUMING,
      WORKSPACE_APPLIED]"
| "path_to TS_ACKNOWLEDGED =
     [TRANSITION_PREPARED, PROPOSAL_SEALED, EVIDENCE_RECORDED, PERMIT_ISSUED, PERMIT_CONSUMING,
      WORKSPACE_APPLIED, TRANSITION_ACKNOWLEDGED]"
| "path_to _ = [TRANSITION_PREPARED]"

definition trace :: "string \<Rightarrow> event list \<Rightarrow> event_type list" where
  "trace tid es = map ev_type (filter (\<lambda>e. ev_transitionId e = tid) es)"

lemma trace_snoc [simp]:
  "trace tid [] = []"
  "trace tid (es @ [e]) = trace tid es @ (if ev_transitionId e = tid then [ev_type e] else [])"
  by (simp_all add: trace_def)

definition unrepaired :: "string \<Rightarrow> event list \<Rightarrow> bool" where
  "unrepaired tid es \<longleftrightarrow> REPAIR_APPLIED \<notin> set (trace tid es)"

text \<open>The state of one transition that has seen no repair.\<close>

definition on_path :: "projection \<Rightarrow> string \<Rightarrow> event_type list \<Rightarrow> bool" where
  "on_path p tid tys \<longleftrightarrow> (\<forall>t. pj_transitions p tid = Some t \<longrightarrow>
     tn_state t \<noteq> TS_REPAIRED \<and> subseq (path_to (tn_state t)) tys \<and>
     (\<forall>i m. tn_permitId t = Some i \<longrightarrow> pj_permits p i = Some m \<longrightarrow> pm_state m = PM_ISSUED \<longrightarrow>
        tn_state t = TS_PERMITTED))"

lemma subseq_snoc: "subseq xs ys \<Longrightarrow> subseq (xs @ [x]) (ys @ [x])"
  by (rule list_emb_append_mono) auto

lemma subseq_weaken: "subseq xs ys \<Longrightarrow> subseq xs (ys @ zs)"
  by (rule subseq_order.order_trans) auto

lemma prepared_prefix: "subseq [TRANSITION_PREPARED] (path_to s)"
  by (cases s) auto

lemma subseq_path_step:
  assumes "subseq (path_to s) tys" and "subseq (path_to s') (path_to s @ [ty])"
  shows "subseq (path_to s') (tys @ [ty])"
  by (rule subseq_order.order_trans [OF assms(2) subseq_snoc [OF assms(1)]])

lemma subseq_path_prepared: "subseq (path_to s) tys \<Longrightarrow> subseq [TRANSITION_PREPARED] (tys @ zs)"
  by (rule subseq_weaken [OF subseq_order.order_trans [OF prepared_prefix]])

text \<open>Permits that another transition's step touches never come back to ISSUED.\<close>

lemma on_path_other:
  assumes "on_path p tid tys" and "pj_transitions q tid = pj_transitions p tid" and "permits_le p q"
    and "tables_ok p"
  shows "on_path q tid (tys @ zs)"
  unfolding on_path_def
proof (intro allI impI conjI)
  fix t assume t: "pj_transitions q tid = Some t"
  with assms(1,2) have old: "tn_state t \<noteq> TS_REPAIRED" "subseq (path_to (tn_state t)) tys"
    and iss: "\<forall>i m. tn_permitId t = Some i \<longrightarrow> pj_permits p i = Some m \<longrightarrow> pm_state m = PM_ISSUED \<longrightarrow>
        tn_state t = TS_PERMITTED"
    by (simp_all add: on_path_def)
  then show "tn_state t \<noteq> TS_REPAIRED" "subseq (path_to (tn_state t)) (tys @ zs)"
    by (simp_all add: subseq_weaken)
  fix i n assume n: "tn_permitId t = Some i" "pj_permits q i = Some n" "pm_state n = PM_ISSUED"
  from t assms(2,4) n(1) obtain m where m: "pj_permits p i = Some m"
    using transition_ok_of [OF assms(4), of tid t] by (auto simp: transition_ok_def)
  with assms(3) n(2,3) have "pm_state m = PM_ISSUED"
    unfolding permits_le_def permit_le_def by force
  with iss n(1) m show "tn_state t = TS_PERMITTED" by blast
qed

lemma dispatch_other_transition:
  assumes "dispatch cr es p e = Inr q" and "ev_transitionId e \<noteq> tid"
  shows "pj_transitions q tid = pj_transitions p tid"
  using assms
  by (cases rule: dispatch_cases) (auto simp: record_proof_Inr)

lemma on_pathI:
  assumes "pj_transitions q tid = Some u" and "tn_state u \<noteq> TS_REPAIRED"
    and "subseq (path_to (tn_state u)) tys"
    and "\<And>i m. tn_permitId u = Some i \<Longrightarrow> pj_permits q i = Some m \<Longrightarrow> pm_state m = PM_ISSUED \<Longrightarrow>
      tn_state u = TS_PERMITTED"
  shows "on_path q tid tys"
  using assms by (auto simp: on_path_def)

lemma move_permit_leaves_ISSUED:
  assumes "\<And>m. permit_of p t = Some m \<Longrightarrow> pm_state m = PM_ISSUED \<Longrightarrow> g PM_ISSUED" and "s \<noteq> PM_ISSUED"
    and "tn_permitId t = Some i" and "i \<noteq> []" and "pj_permits (move_permit p t g s) i = Some m"
  shows "pm_state m \<noteq> PM_ISSUED"
  using assms by (auto simp: move_permit_permits permit_of_def split: option.splits if_splits)

lemma permit_id_nonempty:
  assumes "tables_ok p" and "pj_transitions p tid = Some t" and "tn_permitId t = Some i"
  shows "i \<noteq> []"
proof -
  obtain m where "pj_permits p i = Some m"
    using transition_ok_of [OF assms(1,2)] assms(3) unfolding transition_ok_def by blast
  with assms(1) show ?thesis unfolding tables_ok_def by blast
qed

lemma dispatch_on_path:
  assumes "dispatch cr es p e = Inr q" and ok: "tables_ok p" and path: "on_path p (ev_transitionId e) tys"
    and "ev_type e \<noteq> REPAIR_APPLIED"
  shows "on_path q (ev_transitionId e) (tys @ [ev_type e])"
proof -
  have le: "permits_le p q" using assms(1) by (rule dispatch_permits)
  note same = on_path_other [OF path _ le ok]
  note ids = permit_id_nonempty [OF ok]
  note leaves = move_permit_leaves_ISSUED
  have old: "tn_state t \<noteq> TS_REPAIRED" "subseq (path_to (tn_state t)) tys"
    "tn_permitId t = Some i \<Longrightarrow> pj_permits p i = Some m \<Longrightarrow> pm_state m = PM_ISSUED \<Longrightarrow> tn_state t = TS_PERMITTED"
    if "pj_transitions p (ev_transitionId e) = Some t" for t i m
    using path that by (auto simp: on_path_def)
  from assms(1) show ?thesis
  proof (cases rule: dispatch_cases)
    case (Prepared t)
    show ?thesis
      by (rule on_pathI [of q "ev_transitionId e" t]) (use Prepared in auto)
  next
    case (Cancelled t)
    show ?thesis
      by (rule on_pathI [of q "ev_transitionId e" "t\<lparr>tn_state := TS_CANCELLED\<rparr>"])
        (use Cancelled old [OF Cancelled(2)] ids [OF Cancelled(2)] leaves [of p t "\<lambda>s. s = PM_ISSUED" PM_REVOKED] in
          \<open>auto intro: subseq_path_prepared\<close>)
  next
    case (Sealed t i pr)
    show ?thesis
      by (rule on_pathI [of q "ev_transitionId e" "t\<lparr>tn_proposalId := Some i, tn_state := TS_SEALED\<rparr>"])
        (use Sealed old [OF Sealed(2)] in
          \<open>auto intro: subseq_path_step [of TS_PREPARED tys TS_SEALED, simplified]\<close>)
  next
    case (Evidenced t i ev x)
    show ?thesis
      by (rule on_pathI [of q "ev_transitionId e" "t\<lparr>tn_state := TS_EVIDENCED\<rparr>"])
        (use Evidenced old [OF Evidenced(2)] in
          \<open>auto intro: subseq_path_step [of TS_SEALED tys TS_EVIDENCED, simplified]\<close>)
  next
    case (Issued t i m)
    show ?thesis
      by (rule on_pathI [of q "ev_transitionId e" "t\<lparr>tn_permitId := Some i, tn_state := TS_PERMITTED\<rparr>"])
        (use Issued old [OF Issued(2)] in
          \<open>auto intro: subseq_path_step [of TS_EVIDENCED tys TS_PERMITTED, simplified]\<close>)
  next
    case (Consuming t i m)
    then have "tn_state t = TS_PERMITTED" using old(3) [OF Consuming(2)] by blast
    then show ?thesis
      by (intro on_pathI [of q "ev_transitionId e" "t\<lparr>tn_state := TS_CONSUMING\<rparr>"])
        (use Consuming old [OF Consuming(2)] in
          \<open>auto intro: subseq_path_step [of TS_PERMITTED tys TS_CONSUMING, simplified]\<close>)
  next
    case (Applied t v w)
    then have "tn_state t = TS_CONSUMING" using old(1) [OF Applied(2)] by blast
    then show ?thesis
      by (intro on_pathI [of q "ev_transitionId e"
          "t\<lparr>tn_appliedView := Some v, tn_appliedWorkspaceHash := Some w, tn_state := TS_APPLIED\<rparr>"])
        (use Applied old [OF Applied(2)] in
          \<open>auto intro: subseq_path_step [of TS_CONSUMING tys TS_APPLIED, simplified]\<close>)
  next
    case (Acknowledged t i v w vid sid rb)
    show ?thesis
      by (rule on_pathI [of q "ev_transitionId e" "t\<lparr>tn_state := TS_ACKNOWLEDGED\<rparr>"])
        (use Acknowledged old [OF Acknowledged(2)] ids [OF Acknowledged(2)] leaves [of p t "\<lambda>_. True" PM_CONSUMED] in
          \<open>auto intro: subseq_path_step [of TS_APPLIED tys TS_ACKNOWLEDGED, simplified]\<close>)
  next
    case (NonCommit t d i v w)
    show ?thesis
      by (rule on_pathI [of q "ev_transitionId e" "t\<lparr>tn_state := TS_ROLLED_BACK\<rparr>"])
        (use NonCommit(14) old [OF NonCommit(2)] ids [OF NonCommit(2)] leaves [of p t "\<lambda>_. True" PM_REVOKED] in
          \<open>auto intro: subseq_path_prepared\<close>)
  next
    case (RolledBack t p')
    have w: "pj_transitions q (ev_transitionId e) = Some (t\<lparr>tn_state := TS_ROLLED_BACK\<rparr>)"
      "pj_permits q = pj_permits (move_permit p t (\<lambda>s. s \<noteq> PM_CONSUMED) PM_REVOKED)"
      using RolledBack(3,4) by auto
    show ?thesis
      by (rule on_pathI [OF w(1)])
        (use w(2) old [OF RolledBack(2)] ids [OF RolledBack(2)] leaves [of p t "\<lambda>s. s \<noteq> PM_CONSUMED" PM_REVOKED] in
          \<open>auto intro: subseq_path_prepared\<close>)
  next
    case (Recorded t u x)
    from Recorded(3) have u: "tn_state u = tn_state t" "tn_permitId u = tn_permitId t"
      by (simp_all add: core_eq_def)
    show ?thesis
      by (rule on_pathI [of q "ev_transitionId e" u])
        (use Recorded(4) u old [OF Recorded(2)] in \<open>auto intro: subseq_weaken\<close>)
  next
    case (Repaired t)
    with assms(4) show ?thesis by simp
  qed (rule same; simp add: record_proof_Inr)+
qed

lemma run_on_path:
  assumes "runE (apply_event cr es) (empty_projection a) xs = Inr p" and "unrepaired tid xs"
  shows "on_path p tid (trace tid xs)"
  using assms
proof (induction xs arbitrary: p rule: rev_induct)
  case Nil
  then have "p = empty_projection a" by simp
  then show ?case by (simp add: on_path_def empty_projection_def)
next
  case (snoc x xs)
  from snoc.prems(1) obtain s where s: "runE (apply_event cr es) (empty_projection a) xs = Inr s"
    and x: "apply_event cr es s x = Inr p"
    by (auto simp: runE_snoc bindE_eq_Inr)
  from x obtain r where r: "dispatch cr es s x = Inr r" and p: "p = r\<lparr>pj_lastEventId := Some (eventId x), pj_lastSequence := sequence x\<rparr>"
    by (auto simp: apply_event_Inr)
  have ok: "tables_ok s" using tables.run_inv [OF s] by simp
  have path: "on_path s tid (trace tid xs)"
    using snoc.IH [OF s] snoc.prems(2) by (simp add: unrepaired_def)
  have "on_path r tid (trace tid (xs @ [x]))"
  proof (cases "ev_transitionId x = tid")
    case True
    with snoc.prems(2) have "ev_type x \<noteq> REPAIR_APPLIED" by (auto simp: unrepaired_def)
    with dispatch_on_path [OF r ok] path True show ?thesis by auto
  next
    case False
    with on_path_other [OF path dispatch_other_transition [OF r False] dispatch_permits [OF r] ok, of "[]"]
    show ?thesis by simp
  qed
  then show ?case by (simp add: p on_path_def)
qed

subsection \<open>Receipts, versions and proofs agree\<close>

text \<open>Every committed version has its COMMITTED receipt with the same state.\<close>

definition version_receipted :: "projection \<Rightarrow> version \<Rightarrow> bool" where
  "version_receipted p vr \<longleftrightarrow> (\<forall>i. vr_receiptId vr = Some i \<longrightarrow>
     (\<exists>tr \<in> set (pj_terminalReceipts p). tr_receiptId tr = i \<and> tr_decision tr = ''COMMITTED'' \<and>
        tr_transitionId tr = vr_transitionId vr \<and> tr_workspaceHash tr = vr_workspaceHash vr \<and>
        tr_viewId tr = Some (vr_viewId vr) \<and> generation (tr_view tr) = vr_generation vr))"

text \<open>Every projected proof verifies and repeats its terminal receipt.\<close>

definition proof_backed :: "crypto \<Rightarrow> projection \<Rightarrow> string \<Rightarrow> projected_proof \<Rightarrow> bool" where
  "proof_backed cr p i px \<longleftrightarrow>
     fst (verifyAuthorityReceiptProof cr (px_bundle px)) \<and> px_receiptId px = i \<and>
     (\<exists>tr \<in> set (pj_terminalReceipts p). tr_receiptId tr = i \<and> tr_eventId tr = px_terminalEventId px \<and>
        tr_transitionId tr = px_transitionId px \<and>
        r_decision (bundle_receipt (px_bundle px)) = tr_decision tr \<and>
        r_finalWorkspaceHash (bundle_receipt (px_bundle px)) = tr_workspaceHash tr \<and>
        r_nextGeneration (bundle_receipt (px_bundle px)) = generation (tr_view tr) \<and>
        Some (r_finalViewId (bundle_receipt (px_bundle px))) = tr_viewId tr)"

definition records_ok :: "crypto \<Rightarrow> projection \<Rightarrow> bool" where
  "records_ok cr p \<longleftrightarrow> list_all (version_receipted p) (pj_versions p) \<and>
     (\<forall>i px. pj_receiptProofs p i = Some px \<longrightarrow> proof_backed cr p i px)"

lemma version_receipted_grow:
  "version_receipted p vr \<Longrightarrow> pj_terminalReceipts q = pj_terminalReceipts p @ xs \<Longrightarrow> version_receipted q vr"
  unfolding version_receipted_def by fastforce

lemma proof_backed_grow:
  "proof_backed cr p i px \<Longrightarrow> pj_terminalReceipts q = pj_terminalReceipts p @ xs \<Longrightarrow> proof_backed cr q i px"
  unfolding proof_backed_def by fastforce

lemma records_ok_grow:
  assumes "records_ok cr p" and "pj_versions q = pj_versions p @ vs"
    and "pj_terminalReceipts q = pj_terminalReceipts p @ rs"
    and "list_all (version_receipted q) vs"
    and "\<And>i px. pj_receiptProofs q i = Some px \<Longrightarrow> pj_receiptProofs p i = None \<Longrightarrow> proof_backed cr q i px"
    and "pj_receiptProofs p \<subseteq>\<^sub>m pj_receiptProofs q"
  shows "records_ok cr q"
proof -
  have "list_all (version_receipted q) (pj_versions p)"
    using assms(1) version_receipted_grow [OF _ assms(3)] by (auto simp: records_ok_def list_all_iff)
  moreover have "proof_backed cr q i px" if "pj_receiptProofs q i = Some px" for i px
  proof (cases "pj_receiptProofs p i")
    case None
    with that assms(5) show ?thesis by blast
  next
    case (Some py)
    with that assms(6) have "py = px" by (auto simp: map_le_def dom_def)
    with Some assms(1) proof_backed_grow [OF _ assms(3)] show ?thesis by (auto simp: records_ok_def)
  qed
  ultimately show ?thesis using assms(2,4) by (simp add: records_ok_def)
qed

lemma find_receipt_in: "find_receipt p i tid = Some tr \<Longrightarrow>
    tr \<in> set (pj_terminalReceipts p) \<and> tr_receiptId tr = i \<and> tr_transitionId tr = tid"
  by (auto simp: find_receipt_def dest: find_Some_in)

lemma find_terminal_in: "find_terminal es teid e = Some te \<Longrightarrow>
    te \<in> set es \<and> eventId te = teid \<and> sequence te < sequence e"
  by (auto simp: find_terminal_def dest: find_Some_in)

lemma record_proof_backed:
  assumes "record_proof cr es p e t tr te ix b = Inr q"
    and "find_receipt p (tr_receiptId tr) (ev_transitionId e) = Some tr"
    and "find_terminal es (tr_eventId tr) e = Some te"
    and "pj_receiptProofs q i = Some px" and "pj_receiptProofs p i = None"
  shows "proof_backed cr q i px"
  using assms find_receipt_in [OF assms(2)] find_terminal_in [OF assms(3)]
  by (auto simp: record_proof_Inr proof_backed_def receipt_matches_projection_def compact_bundle_def
      split: if_splits)

lemma dispatch_records:
  assumes "dispatch cr es p e = Inr q" and "records_ok cr p"
  shows "records_ok cr q"
  using assms(1)
proof (cases rule: dispatch_cases)
  case (Proof tr te ix b t)
  have "pj_receiptProofs p \<subseteq>\<^sub>m pj_receiptProofs q" "pj_versions q = pj_versions p"
    "pj_terminalReceipts q = pj_terminalReceipts p"
    using Proof(6) by (auto simp: record_proof_Inr map_le_new)
  with record_proof_backed [OF Proof(6,2,3)] show ?thesis
    by (intro records_ok_grow [OF assms(2), of q "[]" "[]"]) auto
next
  case (Acknowledged t i v w vid sid rb)
  then show ?thesis
    by (intro records_ok_grow [OF assms(2), of q "[commit_version e t vid sid i rb v w]" "[commit_receipt e t i v w]"])
      (auto simp: version_receipted_def commit_version_def commit_receipt_def)
next
  case (NonCommit t d i v w)
  then show ?thesis
    by (intro records_ok_grow [OF assms(2), of q "[]" "[disposition_receipt e d i (Some (viewId v)) v w]"]) auto
next
  case (ViewDispositioned d i v w)
  then show ?thesis
    by (intro records_ok_grow [OF assms(2), of q "[]"
        "[disposition_receipt e d i (str_or_null (jfield (payload e) ''viewId'')) v w]"]) auto
next
  case (Initialized v w vr)
  then show ?thesis
    by (intro records_ok_grow [OF assms(2), of q "[vr]" "[]"]) (auto simp: version_receipted_def)
next
  case (RolledBack t p')
  then show ?thesis by (intro records_ok_grow [OF assms(2), of q "[]" "[]"]) auto
qed (rule records_ok_grow [OF assms(2), of q "[]" "[]"]; simp)+

interpretation records: inv_machine "apply_event cr es" "records_ok cr" for cr es
proof
  fix s e s'
  assume "apply_event cr es s e = Inr s'" and ok: "records_ok cr s"
  then obtain r where r: "dispatch cr es s e = Inr r"
    "s' = r\<lparr>pj_lastEventId := Some (eventId e), pj_lastSequence := sequence e\<rparr>"
    by (auto simp: apply_event_Inr)
  with dispatch_records [OF r(1) ok] show "records_ok cr s'"
    by (intro records_ok_grow [of cr r s' "[]" "[]"]) simp_all
qed

lemma records_ok_empty [simp]: "records_ok cr (empty_projection a)"
  by (simp add: records_ok_def empty_projection_def)

subsection \<open>Splitting an accepted run at one event\<close>

lemma rebuild_split:
  assumes "rebuildWorkerProjection cr a es = Inr p" and "k < length es"
  obtains s s' where "runE (apply_event cr es) (empty_projection a) (take k es) = Inr s"
    and "apply_event cr es s (es ! k) = Inr s'"
    and "runE (apply_event cr es) s' (drop (Suc k) es) = Inr p"
proof -
  have "runE (apply_event cr es) (empty_projection a) (take k es @ es ! k # drop (Suc k) es) = Inr p"
    using assms by (simp add: rebuildWorkerProjection_def id_take_nth_drop [symmetric])
  then show thesis using that by (auto simp: runE_append bindE_eq_Inr)
qed

lemma applied_state:
  assumes "apply_event cr es s e = Inr s'" and "ev_type e = WORKSPACE_APPLIED"
  shows "\<exists>t. pj_transitions s (ev_transitionId e) = Some t \<and> tn_state t \<in> {TS_CONSUMING, TS_REPAIRED}"
  using assms unfolding apply_event_Inr by (auto elim: dispatch_cases)

lemma acknowledged_state:
  assumes "apply_event cr es s e = Inr s'" and "ev_type e = TRANSITION_ACKNOWLEDGED"
  shows "\<exists>t. pj_transitions s (ev_transitionId e) = Some t \<and> tn_state t = TS_APPLIED"
  using assms unfolding apply_event_Inr by (auto elim: dispatch_cases)

end
