(* ===== verification/Projection_Props.thy ===== *)
theory Projection_Props
  imports Projection_Trace Receipt_Props
begin

text \<open>
  The properties of the reducer, with an accepted history (a committed run with its receipt proof,
  and a quarantined one) that satisfies their hypotheses.
\<close>

subsection \<open>Concrete histories\<close>

text \<open>A constant hash and a signature scheme that accepts everything: the reducer runs on them.\<close>

definition weak_crypto :: crypto where
  "weak_crypto = \<lparr>sha256 = (\<lambda>_. hA), spki_der = Some, ed25519_sign = (\<lambda>_ _. []),
     ed25519_verify = (\<lambda>_ _ _. Some True)\<rparr>"

definition ex_view :: "int \<Rightarrow> int \<Rightarrow> string \<Rightarrow> state_view" where
  "ex_view g epoch live = makeStateView (\<lambda>_. hA)
     \<lparr>view_agentId = ''agent'', headVersionId = ''v0'', generation = g, versionedHash = hB,
      platformManagedHash = hC, liveStateHash = live, sessionEpoch = epoch, agentConfigVersion = 1,
      policyVersion = 1\<rparr>"

definition ex_event :: "int \<Rightarrow> string \<Rightarrow> event_type \<Rightarrow> (string \<times> json) list \<Rightarrow> event" where
  "ex_event n tid ty kvs =
     \<lparr>ev_schemaVersion = 1, eventId = int_text n, ev_agentId = ''agent'', ev_transitionId = tid,
      sequence = n, ev_type = ty, previousDigest = (if n = 1 then None else Some hA), payload = JObj kvs,
      createdAt = [], digest = hA\<rparr>"

definition ex_permit_kvs :: "(string \<times> json) list" where
  "ex_permit_kvs = [(''permitId'', JStr ''permit-1''), (''proposalId'', JStr ''proposal-1''),
     (''baseViewId'', JStr hA), (''targetArtifactHash'', JStr hB),
     (''evaluationContextHash'', JStr hC), (''evidenceDigest'', JStr hE), (''expiresAt'', JStr ''soon'')]"

definition ex_prepared_log :: "event list" where
  "ex_prepared_log =
     [ex_event 1 ''t0'' AGENT_INITIALIZED [(''view'', view_json (ex_view 4 1 hE)),
        (''workspaceHash'', JStr hE), (''versionId'', JStr ''v0''), (''snapshotId'', JStr ''s0'')],
      ex_event 2 ''t1'' TRANSITION_PREPARED [(''kind'', JStr ''AGENT_COMMIT''), (''runId'', JStr ''run-1''),
        (''baseViewId'', JStr hA), (''baseWorkspaceHash'', JStr hE), (''baseGeneration'', JNum 4)],
      ex_event 3 ''t1'' PROPOSAL_SEALED [(''proposalId'', JStr ''proposal-1''), (''baseViewId'', JStr hA),
        (''artifactHash'', JStr hB)]]"

definition ex_commit_log :: "event list" where
  "ex_commit_log = ex_prepared_log @
     [ex_event 4 ''t1'' EVIDENCE_RECORDED [(''proposalId'', JStr ''proposal-1''),
        (''verifierInputHash'', JStr hB), (''evaluationContextHash'', JStr hC), (''evidenceDigest'', JStr hE)],
      ex_event 5 ''t1'' PERMIT_ISSUED ex_permit_kvs,
      ex_event 6 ''t1'' PERMIT_CONSUMING ex_permit_kvs,
      ex_event 7 ''t1'' WORKSPACE_APPLIED [(''workspaceHash'', JStr hB), (''view'', view_json (ex_view 5 1 hB))],
      ex_event 8 ''t1'' TRANSITION_ACKNOWLEDGED [(''receiptId'', JStr ''receipt-1''),
        (''versionId'', JStr ''v1''), (''snapshotId'', JStr ''s1'')]]"

definition ex_log_receipt :: receipt where
  "ex_log_receipt = ex_commit_receipt\<lparr>r_finalViewId := hA\<rparr>"

definition ex_signed_proof :: json where
  "ex_signed_proof = JObj
     [(''schemaVersion'', JNum 2), (''receiptHash'', JStr hA), (''runId'', JStr ''run-1''),
      (''agentId'', JStr ''agent''), (''decision'', JStr ''COMMITTED''), (''logSequence'', JNum 8),
      (''previousDigest'', JStr hA), (''eventDigest'', JStr hA), (''sourceRevision'', JStr ''rev''),
      (''signingKeyId'', JStr (take 24 hA)), (''signatureAlgorithm'', JStr ''Ed25519''), (''signature'', JStr [])]"

definition ex_proof_event :: event where
  "ex_proof_event = ex_event 9 ''t1'' RECEIPT_PROOF_RECORDED [(''receiptId'', JStr ''receipt-1''),
     (''terminalEventId'', JStr ''8''), (''receipt'', canonicalAuthorityReceipt ex_log_receipt),
     (''proof'', ex_signed_proof), (''publicKeyPem'', JStr ''key'')]"

definition ex_full_log :: "event list" where
  "ex_full_log = ex_commit_log @ [ex_proof_event]"

definition ex_quarantine_event :: event where
  "ex_quarantine_event = ex_event 4 ''t1'' NON_COMMIT_DISPOSITIONED [(''decision'', JStr ''QUARANTINED''),
     (''receiptId'', JStr ''receipt-1''), (''view'', view_json (ex_view 4 2 hE)),
     (''workspaceHash'', JStr hE), (''previousViewId'', JStr hA), (''viewId'', JStr hA)]"

definition ex_reject_log :: "event list" where
  "ex_reject_log = ex_prepared_log @ [ex_quarantine_event]"

subsection \<open>Running them\<close>

text \<open>The hash is constant, so the texts it hashes are never computed.\<close>

lemma weak_hash [simp]:
  "sha256 weak_crypto x = hA" "digestEvent (sha256 weak_crypto) e = hA"
  "authorityReceiptHash (sha256 weak_crypto) r = hA"
  "receiptSigningKeyId weak_crypto pem = Some (take 24 hA)"
  "ed25519_verify weak_crypto m pem sig = Some True"
  by (simp_all add: weak_crypto_def digestEvent_def authorityReceiptHash_def receiptSigningKeyId_def)

lemma requiredString_JStr [simp]: "jfield p k = Some (JStr s) \<Longrightarrow> s \<noteq> [] \<Longrightarrow> requiredString p k = Inr s"
  by (cases s) (simp_all add: requiredString_def)

lemma ex_hash_nonempty [simp]: "hA \<noteq> []" "hB \<noteq> []" "hC \<noteq> []" "hE \<noteq> []"
  by (simp_all add: hA_def hB_def hC_def hE_def)

lemma ex_ids [simp]:
  "int_text 1 = ''1''" "int_text 2 = ''2''" "int_text 3 = ''3''" "int_text 4 = ''4''" "int_text 5 = ''5''"
  "int_text 6 = ''6''" "int_text 7 = ''7''" "int_text 8 = ''8''" "int_text 9 = ''9''"
  by code_simp+

lemma ex_view_simps [simp]:
  "viewId (ex_view g n w) = hA" "generation (ex_view g n w) = g" "liveStateHash (ex_view g n w) = w"
  "sessionEpoch (ex_view g n w) = n" "headVersionId (ex_view g n w) = ''v0''"
  "versionedHash (ex_view g n w) = hB" "platformManagedHash (ex_view g n w) = hC"
  "agentConfigVersion (ex_view g n w) = 1" "policyVersion (ex_view g n w) = 1"
  "view_ok (sha256 weak_crypto) (ex_view g n w)" "is_object (Some (view_json v))"
  by (simp_all add: ex_view_def computeStateViewId_def view_json_def view_ok_def)

lemmas ex_log_defs = ex_full_log_def ex_proof_event_def ex_commit_log_def ex_reject_log_def
  ex_quarantine_event_def ex_prepared_log_def ex_permit_kvs_def

lemmas writer_defs = put_head_def put_transition_def set_state_def move_permit_def permit_of_def
  commit_receipt_def commit_version_def disposition_receipt_def transitionFor_def

lemmas handler_defs = on_agent_initialized_def on_transition_prepared_def on_proposal_sealed_def
  on_evidence_recorded_def projected_evidence_def on_permit_issued_def on_permit_consuming_def
  on_workspace_applied_def on_acknowledged_def on_non_commit_def non_commit_base_check_def
  head_unchanged_def assertProjectedView_def restored_base_matches_def on_repair_applied_def
  parse_kind_def string_or_def or_else_def sub_string_def coverage_of_def blob_ref_ok_def is_true_def
  truthy_def dispatch_def apply_event_def Let_def

lemmas reader_defs = as_receipt_def as_proof_def num_field_def str_field_def null_str_field_def
  opt_str_field_def opt_num_field_def

lemmas run_defs = rebuildWorkerProjection_def empty_projection_def ex_event_def ex_log_defs
  writer_defs handler_defs

lemma ex_commit_run:
  "\<exists>p. rebuildWorkerProjection weak_crypto ''agent'' ex_commit_log = Inr p \<and>
     map tr_decision (pj_terminalReceipts p) = [''COMMITTED'']"
  by (simp add: run_defs)

lemma ex_reject_run:
  "\<exists>p. rebuildWorkerProjection weak_crypto ''agent'' ex_reject_log = Inr p \<and>
     map tr_decision (pj_terminalReceipts p) = [''QUARANTINED'']"
  by (simp add: run_defs)

definition ex_log_bundle :: proof_bundle where
  "ex_log_bundle = \<lparr>bundle_schemaVersion = 3, bundle_receipt = ex_log_receipt,
     bundle_proof = \<lparr>pb_schemaVersion = 2, pb_receiptHash = hA, pb_runId = ''run-1'', pb_agentId = ''agent'',
       pb_decision = ''COMMITTED'', pb_logSequence = 8, pb_previousDigest = Some hA, pb_eventDigest = hA,
       pb_sourceRevision = ''rev'', pb_signingKeyId = take 24 hA, pb_signatureAlgorithm = ''Ed25519'',
       pb_signature = []\<rparr>,
     terminalEvent = ex_commit_log ! 7, predecessorEvent = Some (ex_commit_log ! 6),
     eventChain = Some ex_commit_log, publicKeyPem = ''key''\<rparr>"

lemma ex_receipt_decodes:
  "as_receipt (canonicalAuthorityReceipt ex_log_receipt) = Inr ex_log_receipt"
  "as_proof ex_signed_proof = Inr (bundle_proof ex_log_bundle)"
  by (simp_all add: reader_defs ex_log_receipt_def ex_commit_receipt_def canonicalAuthorityReceipt_def
      opt_member_def opt_json_def ex_signed_proof_def ex_log_bundle_def)

lemma ex_bundle_verifies: "verifyAuthorityReceiptProof weak_crypto ex_log_bundle = (True, None)"
proof -
  have chain: "chain_from (envelope_link (sha256 weak_crypto) ''agent'') None ex_commit_log"
    by (simp add: ex_commit_log_def ex_prepared_log_def ex_event_def envelope_link_def)
  have facts: "authorityTransitionFactsError ex_log_receipt ex_commit_log (ex_commit_log ! 7) = None"
    by (simp add: facts_error_None committed_facts_defs unique_fact_iff eventsOfType_def
        transition_events_def ex_commit_log_def ex_prepared_log_def ex_event_def ex_permit_kvs_def
        ex_log_receipt_def ex_commit_receipt_def is_type_def proposal_binding_def evidence_binding_def
        issued_binding_def consuming_binding_def applied_binding_def pl_is_def opt_json_def Let_def
        view_json_def)
  have sem: "authorityReceiptSemanticError ex_log_receipt = None"
    by (simp add: ex_log_receipt_def ex_commit_receipt_def authorityReceiptSemanticError_def
        dispositionBase_def receipt_fields_ok_def receipt_policy_ok_def committed_receipt_ok_def
        base_matches_def null_or_def decisions_def is_safe_integer_def max_safe_integer_def)
  have tb: "terminalReceiptBindingError ex_log_receipt (ex_commit_log ! 7) = None"
    by (simp add: terminalReceiptBindingError_def ex_commit_log_def ex_prepared_log_def ex_event_def
        ex_log_receipt_def ex_commit_receipt_def pl_is_def opt_json_def is_type_def)
  have last: "last ex_commit_log = ex_commit_log ! 7" "ex_commit_log \<noteq> []"
    "chain_predecessor ex_commit_log = Some (ex_commit_log ! 6)"
    by (simp_all add: ex_commit_log_def ex_prepared_log_def chain_predecessor_def)
  show ?thesis
    using chain facts sem tb last
    by (simp add: verify_iff signature_verdict_iff bundle_history_error_def chain_history_None
        chain_error_None ex_log_bundle_def proof_matches_receipt_def terminal_matches_def)
      (simp add: ex_log_receipt_def ex_commit_receipt_def ex_commit_log_def ex_prepared_log_def ex_event_def)
qed

definition ex_compact_bundle :: proof_bundle where
  "ex_compact_bundle = compact_bundle ex_full_log ex_log_bundle (ex_commit_log ! 7) 7"

lemma ex_compact_verifies: "verifyAuthorityReceiptProof weak_crypto ex_compact_bundle = (True, None)"
  using ex_bundle_verifies
  by (simp add: verify_iff signature_verdict_iff bundle_history_error_def ex_compact_bundle_def
      compact_bundle_def ex_log_bundle_def checkpoint_error_def predecessor_at_def)
    (simp add: ex_full_log_def ex_commit_log_def ex_prepared_log_def ex_event_def weak_crypto_def digestEvent_def)

text \<open>The state before the proof event, with what the recording step reads of it.\<close>

lemma ex_before_proof:
  "\<exists>p t tr. runE (apply_event weak_crypto ex_full_log) (empty_projection ''agent'') ex_commit_log = Inr p \<and>
     pj_agentId p = ''agent'' \<and> pj_transitions p ''t1'' = Some t \<and> pj_receiptProofs p = Map.empty \<and>
     find_receipt p ''receipt-1'' ''t1'' = Some tr \<and> tr_receiptId tr = ''receipt-1'' \<and> tr_eventId tr = ''8'' \<and>
     receipt_matches_projection p t tr (proposal_of p t) (evidence_of p t) (permit_of p t) ex_log_receipt"
  by (simp add: run_defs ex_log_receipt_def ex_commit_receipt_def find_receipt_def proposal_of_def
      evidence_of_def receipt_matches_projection_def permit_final_state_def)

lemma ex_terminal_found:
  "find_terminal ex_full_log ''8'' ex_proof_event = Some (ex_commit_log ! 7)"
  "terminal_index ex_full_log (Some (ex_commit_log ! 7)) = Some 7"
  "proof_matches_terminal (bundle_proof ex_log_bundle) (ex_commit_log ! 7)"
  "eventId (ex_commit_log ! 7) = ''8''" "ev_transitionId ex_proof_event = ''t1''"
  "ev_type ex_proof_event = RECEIPT_PROOF_RECORDED" "ev_agentId ex_proof_event = ''agent''"
  "proof_event_bundle ex_full_log (payload ex_proof_event) (Some (ex_commit_log ! 7)) (Some 7) = Inr (Some ex_log_bundle)"
proof -
  have pl: "jfield (payload ex_proof_event) ''bundle'' = None"
    "jfield (payload ex_proof_event) ''receipt'' = Some (canonicalAuthorityReceipt ex_log_receipt)"
    "jfield (payload ex_proof_event) ''proof'' = Some ex_signed_proof"
    "jfield (payload ex_proof_event) ''publicKeyPem'' = Some (JStr ''key'')"
    by (simp_all add: ex_proof_event_def ex_event_def)
  have obj: "is_object (Some (canonicalAuthorityReceipt r))" "is_object (Some ex_signed_proof)" for r
    by (simp_all add: canonicalAuthorityReceipt_def ex_signed_proof_def)
  have len: "length ex_commit_log = 8" by (simp add: ex_commit_log_def ex_prepared_log_def)
  have log: "take (7 + 1) ex_full_log = ex_commit_log" "predecessor_at ex_full_log 7 = Some (ex_commit_log ! 6)"
    using len by (simp_all add: ex_full_log_def predecessor_at_def nth_append)
  show "proof_event_bundle ex_full_log (payload ex_proof_event) (Some (ex_commit_log ! 7)) (Some 7) = Inr (Some ex_log_bundle)"
    unfolding proof_event_bundle_def log_bundle_def pl
    by (simp only: option.case prod.case str_or_null.simps obj ex_receipt_decodes bindE_Inr log if_False
        not_True_eq_False disj_not1 simp_thms) (simp add: ex_log_bundle_def)
qed (simp_all add: find_terminal_def terminal_index_def ex_full_log_def ex_commit_log_def ex_prepared_log_def
    ex_proof_event_def ex_event_def proof_matches_terminal_def ex_log_bundle_def)

lemma ex_full_run:
  "\<exists>p px. rebuildWorkerProjection weak_crypto ''agent'' ex_full_log = Inr p \<and>
     pj_receiptProofs p ''receipt-1'' = Some px \<and> px_bundle px = ex_compact_bundle"
proof -
  obtain p t tr where w: "runE (apply_event weak_crypto ex_full_log) (empty_projection ''agent'') ex_commit_log = Inr p"
    "pj_agentId p = ''agent''" "pj_transitions p ''t1'' = Some t" "pj_receiptProofs p = Map.empty"
    "find_receipt p ''receipt-1'' ''t1'' = Some tr" "tr_receiptId tr = ''receipt-1''" "tr_eventId tr = ''8''"
    "receipt_matches_projection p t tr (proposal_of p t) (evidence_of p t) (permit_of p t) ex_log_receipt"
    using ex_before_proof by blast
  have rb: "bundle_receipt ex_log_bundle = ex_log_receipt" by (simp add: ex_log_bundle_def)
  have ids: "requiredString (payload ex_proof_event) ''receiptId'' = Inr ''receipt-1''"
    "requiredString (payload ex_proof_event) ''terminalEventId'' = Inr ''8''"
    by (simp_all add: ex_proof_event_def ex_event_def)
  have "\<exists>q px. apply_event weak_crypto ex_full_log p ex_proof_event = Inr q \<and>
     pj_receiptProofs q ''receipt-1'' = Some px \<and> px_bundle px = ex_compact_bundle"
    using w ids ex_terminal_found ex_bundle_verifies ex_compact_verifies rb
    by (simp add: apply_event_def dispatch_def on_receipt_proof_def transitionFor_def record_proof_def
        check_verdict_def ex_compact_bundle_def Let_def)
  then show ?thesis
    using w(1) by (auto simp: rebuildWorkerProjection_def ex_full_log_def runE_snoc)
qed

lemma ex_commit_trace:
  "ev_type (ex_commit_log ! 7) = TRANSITION_ACKNOWLEDGED" "ev_transitionId (ex_commit_log ! 7) = ''t1''"
  "length ex_commit_log = 8" "unrepaired ''t1'' (take 7 ex_commit_log)"
  by (simp_all add: ex_commit_log_def ex_prepared_log_def ex_event_def unrepaired_def trace_def)

subsection \<open>Properties of every accepted history\<close>

text \<open>C1: No evidence, no effect. In every history the reducer accepts, a workspace application is
  preceded, for its own transition and in this order, by the preparation, a sealed proposal,
  recorded evidence, an issued permit and the permit's consumption, and an acknowledgement is
  preceded by all of these and the application; the one exception is a transition that an
  administrator repaired before.\<close>

theorem no_evidence_no_effect:
  assumes "rebuildWorkerProjection cr a es = Inr p" and "k < length es"
    and "ev_transitionId (es ! k) = tid" and "unrepaired tid (take k es)"
  shows "(ev_type (es ! k) = WORKSPACE_APPLIED \<longrightarrow>
      subseq [TRANSITION_PREPARED, PROPOSAL_SEALED, EVIDENCE_RECORDED, PERMIT_ISSUED, PERMIT_CONSUMING]
        (trace tid (take k es))) \<and>
    (ev_type (es ! k) = TRANSITION_ACKNOWLEDGED \<longrightarrow>
      subseq [TRANSITION_PREPARED, PROPOSAL_SEALED, EVIDENCE_RECORDED, PERMIT_ISSUED, PERMIT_CONSUMING,
        WORKSPACE_APPLIED] (trace tid (take k es)))"
proof -
  obtain s s' where s: "runE (apply_event cr es) (empty_projection a) (take k es) = Inr s"
    and e: "apply_event cr es s (es ! k) = Inr s'"
    using rebuild_split [OF assms(1,2)] by blast
  have path: "on_path s tid (trace tid (take k es))" by (rule run_on_path [OF s assms(4)])
  show ?thesis
    using path applied_state [OF e] acknowledged_state [OF e] assms(3)
    by (auto simp: on_path_def)
qed

theorem no_evidence_no_effect_witness:
  "subseq [TRANSITION_PREPARED, PROPOSAL_SEALED, EVIDENCE_RECORDED, PERMIT_ISSUED, PERMIT_CONSUMING,
     WORKSPACE_APPLIED] (trace ''t1'' (take 7 ex_commit_log))"
proof -
  obtain p where "rebuildWorkerProjection weak_crypto ''agent'' ex_commit_log = Inr p"
    using ex_commit_run by blast
  from no_evidence_no_effect [OF this, of 7 "''t1''"] ex_commit_trace show ?thesis by simp
qed

text \<open>C3: A permit is single use: an accepted history consumes a permit id at most once, and if it does,
  the permit of the rebuilt state is no longer ISSUED.\<close>

theorem permit_single_use:
  assumes "rebuildWorkerProjection cr a es = Inr p"
  shows "length (filter (consumes i) es) \<le> 1 \<and>
    (\<forall>e \<in> set es. consumes i e \<longrightarrow> (\<exists>m. pj_permits p i = Some m \<and> pm_state m \<noteq> PM_ISSUED))"
proof -
  have run: "runE (apply_event cr es) (empty_projection a) es = Inr p"
    using assms by (simp add: rebuildWorkerProjection_def)
  have "spent p i" if e: "e \<in> set es" "consumes i e" for e
  proof -
    from e(1) obtain k where k: "k < length es" "es ! k = e" by (auto simp: in_set_conv_nth)
    obtain s s' where "apply_event cr es s e = Inr s'" "runE (apply_event cr es) s' (drop (Suc k) es) = Inr p"
      using rebuild_split [OF assms k(1)] k(2) by metis
    then show ?thesis
      using e(2) consuming_step permits.run_le spent_mono by blast
  qed
  then show ?thesis using consume_once [OF run] by (auto simp: spent_def)
qed

theorem permit_single_use_witness:
  "length (filter (consumes ''permit-1'') ex_commit_log) \<le> 1"
proof -
  obtain p where "rebuildWorkerProjection weak_crypto ''agent'' ex_commit_log = Inr p"
    using ex_commit_run by blast
  from permit_single_use [OF this] show ?thesis by blast
qed



text \<open>C19: History is append-only. Whatever suffix of events a projection accepts, its versions and its
  terminal receipts are extended at the end only, no recorded receipt proof changes, no transition
  disappears and an archived agent stays archived.\<close>

theorem history_append_only:
  assumes "runE (apply_event cr es) p xs = Inr q"
  shows "prefix (pj_versions p) (pj_versions q) \<and> prefix (pj_terminalReceipts p) (pj_terminalReceipts q) \<and>
    pj_receiptProofs p \<subseteq>\<^sub>m pj_receiptProofs q \<and>
    (\<forall>tid. pj_transitions p tid \<noteq> None \<longrightarrow> pj_transitions q tid \<noteq> None) \<and>
    (pj_archived p \<longrightarrow> pj_archived q)"
  using history.run_le [OF assms] by (simp add: history_le_def)

theorem history_append_only_witness:
  "\<exists>p. rebuildWorkerProjection weak_crypto ''agent'' ex_commit_log = Inr p \<and>
     prefix (pj_versions (empty_projection ''agent'')) (pj_versions p)"
proof -
  obtain p where p: "rebuildWorkerProjection weak_crypto ''agent'' ex_commit_log = Inr p"
    using ex_commit_run by blast
  from history_append_only [OF p [unfolded rebuildWorkerProjection_def]] p show ?thesis by blast
qed

end
