(* ===== verification/Projection_Effects.thy ===== *)
theory Projection_Effects
  imports Projection_Props
begin

text \<open>
  What single steps do to the authoritative head, what recorded proofs say about the recorded
  receipts, and how far the reducer's answer depends on events that come later.
\<close>

subsection \<open>The head\<close>

definition moves_head :: "event_type \<Rightarrow> bool" where
  "moves_head ty \<longleftrightarrow> ty \<in> {AGENT_INITIALIZED, LEGACY_STATE_ADOPTED, WORKSPACE_APPLIED,
     PLATFORM_STATE_REGENERATED, NON_COMMIT_DISPOSITIONED, VIEW_DISPOSITIONED, TRANSITION_ROLLED_BACK}"

lemma dispatch_head:
  assumes "dispatch cr es p e = Inr q" and "\<not> moves_head (ev_type e)"
  shows "pj_head q = pj_head p"
  using assms by (cases rule: dispatch_cases) (auto simp: moves_head_def record_proof_Inr)

lemma dispatch_versions:
  assumes "dispatch cr es p e = Inr q"
    and "ev_type e \<notin> {AGENT_INITIALIZED, LEGACY_STATE_ADOPTED, TRANSITION_ACKNOWLEDGED}"
  shows "pj_versions q = pj_versions p"
  using assms by (cases rule: dispatch_cases) (auto simp: record_proof_Inr)

lemma dispatch_receipts:
  assumes "dispatch cr es p e = Inr q"
    and "ev_type e \<notin> {NON_COMMIT_DISPOSITIONED, VIEW_DISPOSITIONED, TRANSITION_ACKNOWLEDGED}"
  shows "pj_terminalReceipts q = pj_terminalReceipts p"
  using assms by (cases rule: dispatch_cases) (auto simp: record_proof_Inr)

text \<open>Only seven event types can move the authoritative head and only three can add a version; in
  particular sealing, exporting, evidence, permits, intents, repairs and receipt proofs leave the
  agent's state exactly as it was.\<close>

theorem head_moved_only_by:
  assumes "apply_event cr es p e = Inr q"
  shows "(pj_head q \<noteq> pj_head p \<longrightarrow> moves_head (ev_type e)) \<and>
    (pj_versions q \<noteq> pj_versions p \<longrightarrow>
       ev_type e \<in> {AGENT_INITIALIZED, LEGACY_STATE_ADOPTED, TRANSITION_ACKNOWLEDGED}) \<and>
    (pj_terminalReceipts q \<noteq> pj_terminalReceipts p \<longrightarrow>
       ev_type e \<in> {NON_COMMIT_DISPOSITIONED, VIEW_DISPOSITIONED, TRANSITION_ACKNOWLEDGED})"
  using assms dispatch_head dispatch_versions dispatch_receipts unfolding apply_event_Inr by fastforce

theorem head_moved_only_by_witness:
  "\<exists>q. apply_event weak_crypto [] (empty_projection ''agent'') (ex_event 1 ''t1'' STALE_CALLBACK_RECORDED []) = Inr q \<and>
     pj_head q = None"
proof -
  let ?e = "ex_event 1 ''t1'' STALE_CALLBACK_RECORDED []"
  have "\<exists>q. apply_event weak_crypto [] (empty_projection ''agent'') ?e = Inr q"
    by (simp add: apply_event_def dispatch_def ex_event_def empty_projection_def)
  then obtain q where q: "apply_event weak_crypto [] (empty_projection ''agent'') ?e = Inr q" ..
  have "\<not> moves_head (ev_type ?e)" by (simp add: moves_head_def ex_event_def)
  with head_moved_only_by [OF q] q show ?thesis by (auto simp: empty_projection_def)
qed

text \<open>C14: A rejected run commits nothing. When a non-commit disposition is accepted, no version is added,
  one receipt with its decision and the new head's workspace is, and the transition's permit, if any,
  was not consumed and ends REVOKED. Without restoration the new head has the workspace, generation,
  version, hashes, policy and configuration of the old one and an epoch one higher. With restoration
  the new head has the workspace and the generation the transition was prepared on; the other
  members of its view are those of the event.\<close>

theorem non_commit_keeps_state:
  assumes "apply_event cr es p e = Inr q" and "ev_type e = NON_COMMIT_DISPOSITIONED"
  shows "\<exists>h' tr t. pj_head q = Some h' \<and> pj_transitions p (ev_transitionId e) = Some t \<and>
    view_ok (sha256 cr) (hd_view h') \<and> liveStateHash (hd_view h') = hd_workspaceHash h' \<and>
    pj_versions q = pj_versions p \<and> pj_terminalReceipts q = pj_terminalReceipts p @ [tr] \<and>
    tr_decision tr \<in> {''QUARANTINED'', ''CONFLICTED'', ''ABORTED''} \<and>
    tr_workspaceHash tr = hd_workspaceHash h' \<and> tr_view tr = hd_view h' \<and>
    (\<forall>m. permit_of p t = Some m \<longrightarrow> pm_state m \<noteq> PM_CONSUMED \<and>
       pj_permits q (the (tn_permitId t)) = Some (m\<lparr>pm_state := PM_REVOKED\<rparr>)) \<and>
    (if is_true (jfield (payload e) ''restoredWorkspace'')
     then hd_workspaceHash h' = tn_baseWorkspaceHash t \<and> tn_baseGeneration t = Some (generation (hd_view h'))
     else \<exists>h. pj_head p = Some h \<and> hd_workspaceHash h' = hd_workspaceHash h \<and>
       generation (hd_view h') = generation (hd_view h) \<and>
       headVersionId (hd_view h') = headVersionId (hd_view h) \<and>
       versionedHash (hd_view h') = versionedHash (hd_view h) \<and>
       platformManagedHash (hd_view h') = platformManagedHash (hd_view h) \<and>
       policyVersion (hd_view h') = policyVersion (hd_view h) \<and>
       agentConfigVersion (hd_view h') = agentConfigVersion (hd_view h) \<and>
       sessionEpoch (hd_view h') = sessionEpoch (hd_view h) + 1)"
proof -
  from assms(1) obtain r where r: "dispatch cr es p e = Inr r"
    and q: "q = r\<lparr>pj_lastEventId := Some (eventId e), pj_lastSequence := sequence e\<rparr>"
    by (auto simp: apply_event_Inr)
  from r assms(2) show ?thesis
  proof (cases rule: dispatch_cases)
    case (NonCommit t d i v w)
    have permit: "pm_state m \<noteq> PM_CONSUMED \<and> pj_permits r (the (tn_permitId t)) = Some (m\<lparr>pm_state := PM_REVOKED\<rparr>)"
      if "permit_of p t = Some m" for m
      using that NonCommit(13,14) by (simp add: move_permit_permits)
    let ?h = "\<lparr>hd_view = v, hd_workspaceHash = w, hd_lastAppliedEventId = eventId e,
        hd_lastAppliedSequence = sequence e\<rparr>"
    have q_eq: "pj_head q = Some ?h" "pj_versions q = pj_versions p" "pj_permits q = pj_permits r"
      "pj_terminalReceipts q = pj_terminalReceipts p @ [disposition_receipt e d i (Some (viewId v)) v w]"
      by (simp_all add: q NonCommit(14))
    have base: "if is_true (jfield (payload e) ''restoredWorkspace'') then restored_base_matches t v w
        else \<exists>h pv. pj_head p = Some h \<and> head_unchanged h v w pv"
      using NonCommit(11) by (auto simp: base_check_Inr split: if_splits)
    show ?thesis
      by (rule exI [of _ ?h], rule exI [of _ "disposition_receipt e d i (Some (viewId v)) v w"], rule exI [of _ t])
        (use NonCommit(2,3,9,10) permit base in
          \<open>auto simp: q_eq head_unchanged_def restored_base_matches_def disposition_receipt_def split: if_splits\<close>)
  qed simp_all
qed

theorem non_commit_keeps_state_witness:
  "\<exists>p q h h'. apply_event weak_crypto ex_reject_log p ex_quarantine_event = Inr q \<and> pj_head p = Some h \<and>
     pj_head q = Some h' \<and> sessionEpoch (hd_view h') = sessionEpoch (hd_view h) + 1"
proof -
  obtain p where p: "rebuildWorkerProjection weak_crypto ''agent'' ex_reject_log = Inr p"
    using ex_reject_run by blast
  obtain s s' where s: "apply_event weak_crypto ex_reject_log s (ex_reject_log ! 3) = Inr s'"
  proof (rule rebuild_split [OF p, of 3])
    show "3 < length ex_reject_log" by (simp add: ex_reject_log_def ex_prepared_log_def)
  qed
  have e: "ex_reject_log ! 3 = ex_quarantine_event" by (simp add: ex_reject_log_def ex_prepared_log_def)
  have "ev_type ex_quarantine_event = NON_COMMIT_DISPOSITIONED"
    "\<not> is_true (jfield (payload ex_quarantine_event) ''restoredWorkspace'')"
    by (simp_all add: ex_quarantine_event_def ex_event_def is_true_def)
  from non_commit_keeps_state [OF s [unfolded e] this(1)] this(2) s e show ?thesis by auto
qed

subsection \<open>Receipts, versions and proofs\<close>

lemma rebuild_records: "rebuildWorkerProjection cr a es = Inr p \<Longrightarrow> records_ok cr p"
  unfolding rebuildWorkerProjection_def by (erule records.run_inv) (rule records_ok_empty)

text \<open>Every version after the initial one is accounted for: a rebuilt projection holds, for each
  version with a receipt id, a COMMITTED terminal receipt of that id for the same transition, with
  the same view, generation and workspace.\<close>

theorem versions_have_receipts:
  assumes "rebuildWorkerProjection cr a es = Inr p" and "vr \<in> set (pj_versions p)" and "vr_receiptId vr = Some i"
  shows "\<exists>tr \<in> set (pj_terminalReceipts p). tr_receiptId tr = i \<and> tr_decision tr = ''COMMITTED'' \<and>
    tr_transitionId tr = vr_transitionId vr \<and> tr_workspaceHash tr = vr_workspaceHash vr \<and>
    tr_viewId tr = Some (vr_viewId vr) \<and> generation (tr_view tr) = vr_generation vr"
  using rebuild_records [OF assms(1)] assms(2,3)
  by (auto simp: records_ok_def list_all_iff version_receipted_def)

lemma ex_commit_version:
  "\<exists>p. rebuildWorkerProjection weak_crypto ''agent'' ex_commit_log = Inr p \<and>
     list_ex (\<lambda>vr. vr_receiptId vr = Some ''receipt-1'') (pj_versions p)"
  by (simp add: run_defs)

theorem versions_have_receipts_witness:
  "\<exists>p tr. rebuildWorkerProjection weak_crypto ''agent'' ex_commit_log = Inr p \<and>
     tr \<in> set (pj_terminalReceipts p) \<and> tr_decision tr = ''COMMITTED''"
proof -
  obtain p vr where "rebuildWorkerProjection weak_crypto ''agent'' ex_commit_log = Inr p"
    "vr \<in> set (pj_versions p)" "vr_receiptId vr = Some ''receipt-1''"
    using ex_commit_version by (auto simp: list_ex_iff)
  from versions_have_receipts [OF this] this(1) show ?thesis by blast
qed

text \<open>C17: A recorded receipt proof is a real one: in every rebuilt projection each stored bundle
  verifies offline, names a terminal receipt of the projection with the same decision, workspace
  and generation, and if that decision is COMMITTED then the workspace of the receipt is the
  artifact that was sealed, verified and promoted under a consumed permit.\<close>

theorem projected_proofs_verify:
  assumes "rebuildWorkerProjection cr a es = Inr p" and "pj_receiptProofs p i = Some px"
  shows "verifyAuthorityReceiptProof cr (px_bundle px) = (True, None) \<and>
    (\<exists>tr \<in> set (pj_terminalReceipts p). tr_receiptId tr = i \<and>
       r_decision (bundle_receipt (px_bundle px)) = tr_decision tr \<and>
       r_finalWorkspaceHash (bundle_receipt (px_bundle px)) = tr_workspaceHash tr \<and>
       r_nextGeneration (bundle_receipt (px_bundle px)) = generation (tr_view tr) \<and>
       (tr_decision tr = ''COMMITTED'' \<longrightarrow>
          r_proposalArtifactHash (bundle_receipt (px_bundle px)) = Some (tr_workspaceHash tr) \<and>
          r_verifierInputHash (bundle_receipt (px_bundle px)) = Some (tr_workspaceHash tr) \<and>
          r_promotionSourceHash (bundle_receipt (px_bundle px)) = Some (tr_workspaceHash tr) \<and>
          r_permitState (bundle_receipt (px_bundle px)) = Some ''CONSUMED''))"
proof -
  from rebuild_records [OF assms(1)] assms(2) have b: "proof_backed cr p i px" by (auto simp: records_ok_def)
  then have v: "verifyAuthorityReceiptProof cr (px_bundle px) = (True, None)"
    by (simp add: proof_backed_def verify_valid)
  from valid_semantics [OF v] have "r_decision (bundle_receipt (px_bundle px)) = ''COMMITTED'' \<Longrightarrow>
      \<exists>d. committed_receipt_ok (bundle_receipt (px_bundle px)) d"
    by (metis semantic_None_committed)
  then have c: "r_decision (bundle_receipt (px_bundle px)) = ''COMMITTED'' \<Longrightarrow>
      \<exists>d. committed_receipt_ok (bundle_receipt (px_bundle px)) d" .
  from b obtain tr where tr: "tr \<in> set (pj_terminalReceipts p)" "tr_receiptId tr = i"
    "r_decision (bundle_receipt (px_bundle px)) = tr_decision tr"
    "r_finalWorkspaceHash (bundle_receipt (px_bundle px)) = tr_workspaceHash tr"
    "r_nextGeneration (bundle_receipt (px_bundle px)) = generation (tr_view tr)"
    by (auto simp: proof_backed_def)
  with c v show ?thesis by (intro conjI bexI [of _ tr]) (auto simp: committed_receipt_ok_def)
qed

theorem projected_proofs_verify_witness:
  "\<exists>p px. rebuildWorkerProjection weak_crypto ''agent'' ex_full_log = Inr p \<and>
     pj_receiptProofs p ''receipt-1'' = Some px \<and> verifyAuthorityReceiptProof weak_crypto (px_bundle px) = (True, None)"
proof -
  obtain p px where "rebuildWorkerProjection weak_crypto ''agent'' ex_full_log = Inr p"
    "pj_receiptProofs p ''receipt-1'' = Some px"
    using ex_full_run by blast
  from projected_proofs_verify [OF this] this show ?thesis by blast
qed

subsection \<open>Repairs\<close>

text \<open>A history in which a repair event takes the place of proposal, evidence and permit.\<close>

definition ex_repair_log :: "event list" where
  "ex_repair_log = take 2 ex_prepared_log @
     [ex_event 3 ''t1'' REPAIR_APPLIED [(''action'', JStr ''forward'')],
      ex_event 4 ''t1'' WORKSPACE_APPLIED [(''workspaceHash'', JStr hB), (''view'', view_json (ex_view 5 1 hB))],
      ex_event 5 ''t1'' TRANSITION_ACKNOWLEDGED [(''receiptId'', JStr ''receipt-1''),
        (''versionId'', JStr ''v1''), (''snapshotId'', JStr ''s1'')]]"

text \<open>The exception is real: the reducer itself puts no guard on a repair event, so it accepts a
  history in which a transition goes from prepared through a repair to a committed version without
  any proposal, evidence or permit; only the worker's repair operation stands in the way.\<close>

theorem repair_bypasses_evidence:
  "\<exists>p. rebuildWorkerProjection weak_crypto ''agent'' ex_repair_log = Inr p \<and> length (pj_versions p) = 2 \<and>
     pj_permits p = Map.empty \<and> pj_evidence p = Map.empty \<and>
     EVIDENCE_RECORDED \<notin> set (trace ''t1'' ex_repair_log)"
  by (simp add: run_defs ex_repair_log_def trace_def)

end
