(* ===== verification/Lifecycle_Ledger.thy ===== *)
theory Lifecycle_Ledger
  imports State_View
begin

text \<open>
  The broker's durable launch and closure memory (\<^verbatim>\<open>runtime-broker/lifecycle-ledger.ts\<close>):
  one JSON file per run, named by the digest of the run id, replaced by rename. A file holds the
  parsed JSON or text that does not parse; every read validates it. The calls of one run are
  serialised by the source, so a history is a list of operations; an operation that throws has
  written nothing. Keys of the object prototype are set aside in \<^verbatim>\<open>stage in stageRank\<close>.
\<close>

datatype run_stage = AGENT_STARTED | AGENT_CLOSED | VERIFIER_STARTED | ALL_CLOSED

fun stageRank :: "run_stage \<Rightarrow> nat" where
  "stageRank AGENT_STARTED = 0"
| "stageRank AGENT_CLOSED = 1"
| "stageRank VERIFIER_STARTED = 2"
| "stageRank ALL_CLOSED = 3"

lemma stageRank_inj: "stageRank s = stageRank t \<Longrightarrow> s = t"
  by (cases s; cases t) simp_all

instantiation run_stage :: linorder
begin

definition less_eq_run_stage :: "run_stage \<Rightarrow> run_stage \<Rightarrow> bool" where
  "less_eq_run_stage s t \<longleftrightarrow> stageRank s \<le> stageRank t"

definition less_run_stage :: "run_stage \<Rightarrow> run_stage \<Rightarrow> bool" where
  "less_run_stage s t \<longleftrightarrow> stageRank s < stageRank t"

instance
  by standard (auto simp: less_eq_run_stage_def less_run_stage_def dest: stageRank_inj)

end

lemmas stage_order = less_eq_run_stage_def less_run_stage_def

fun stage_text :: "run_stage \<Rightarrow> string" where
  "stage_text AGENT_STARTED = ''AGENT_STARTED''"
| "stage_text AGENT_CLOSED = ''AGENT_CLOSED''"
| "stage_text VERIFIER_STARTED = ''VERIFIER_STARTED''"
| "stage_text ALL_CLOSED = ''ALL_CLOSED''"

definition parse_stage :: "string \<Rightarrow> run_stage option" where
  "parse_stage s = List.find (\<lambda>t. stage_text t = s) [AGENT_STARTED, AGENT_CLOSED, VERIFIER_STARTED, ALL_CLOSED]"

lemma parse_stage_text [simp]: "parse_stage (stage_text s) = Some s"
  by (cases s) (simp_all add: parse_stage_def)

record run_binding =
  bind_runId :: string
  bind_agentId :: string
  bind_runLeaseId :: string
  bind_sessionEpoch :: int

record lifecycle_record = run_binding +
  lc_stage :: run_stage
  lc_updatedAt :: string

subsection \<open>Files\<close>

datatype ledger_file = Unparsable | Parsed json

definition corrupt :: "'a res" where
  "corrupt = Inl (JsError ''BROKER_LIFECYCLE_LEDGER_CORRUPT'')"

definition record_json :: "lifecycle_record \<Rightarrow> json" where
  "record_json r = JObj
     [(''schemaVersion'', JNum 1), (''runId'', JStr (bind_runId r)), (''agentId'', JStr (bind_agentId r)),
      (''runLeaseId'', JStr (bind_runLeaseId r)), (''sessionEpoch'', JNum (bind_sessionEpoch r)),
      (''stage'', JStr (stage_text (lc_stage r))), (''updatedAt'', JStr (lc_updatedAt r))]"

fun validateRecord :: "json \<Rightarrow> lifecycle_record res" where
  "validateRecord (JObj kvs) =
     (case (jfield (JObj kvs) ''schemaVersion'', str_or_null (jfield (JObj kvs) ''runId''),
            str_or_null (jfield (JObj kvs) ''agentId''), str_or_null (jfield (JObj kvs) ''runLeaseId''),
            num_or_null (jfield (JObj kvs) ''sessionEpoch''),
            Option.bind (str_or_null (jfield (JObj kvs) ''stage'')) parse_stage,
            str_or_null (jfield (JObj kvs) ''updatedAt'')) of
        (Some (JNum v), Some run, Some agent, Some lease, Some epoch, Some stage, Some at) \<Rightarrow>
          if v \<noteq> 1 \<or> run = [] \<or> agent = [] \<or> lease = [] \<or> epoch < 0 then corrupt
          else Inr \<lparr>bind_runId = run, bind_agentId = agent, bind_runLeaseId = lease,
                    bind_sessionEpoch = epoch, lc_stage = stage, lc_updatedAt = at\<rparr>
      | _ \<Rightarrow> corrupt)"
| "validateRecord _ = corrupt"

type_synonym ledger = "string \<rightharpoonup> ledger_file"

definition recordPath :: "(string \<Rightarrow> string) \<Rightarrow> string \<Rightarrow> string" where
  "recordPath H runId = H runId"

definition readByRunId :: "(string \<Rightarrow> string) \<Rightarrow> ledger \<Rightarrow> string \<Rightarrow> lifecycle_record option res" where
  "readByRunId H l runId =
     (case l (recordPath H runId) of
        None \<Rightarrow> Inr None
      | Some Unparsable \<Rightarrow> corrupt
      | Some (Parsed j) \<Rightarrow> bindE (validateRecord j) (\<lambda>r. Inr (Some r)))"

definition write_record :: "(string \<Rightarrow> string) \<Rightarrow> ledger \<Rightarrow> lifecycle_record \<Rightarrow> ledger" where
  "write_record H l r = l(recordPath H (bind_runId r) \<mapsto> Parsed (record_json r))"

subsection \<open>Operations\<close>

definition sameBinding :: "'a run_binding_scheme \<Rightarrow> 'b run_binding_scheme \<Rightarrow> bool" where
  "sameBinding r b \<longleftrightarrow> bind_runId r = bind_runId b \<and> bind_agentId r = bind_agentId b \<and>
     bind_runLeaseId r = bind_runLeaseId b \<and> bind_sessionEpoch r = bind_sessionEpoch b"

definition assertBinding :: "lifecycle_record \<Rightarrow> run_binding \<Rightarrow> unit res" where
  "assertBinding r b =
     (if sameBinding r b then Inr () else Inl (JsError ''BROKER_RUNTIME_BINDING_MISMATCH''))"

definition requireKnown :: "(string \<Rightarrow> string) \<Rightarrow> ledger \<Rightarrow> run_binding \<Rightarrow> lifecycle_record res" where
  "requireKnown H l b =
     bindE (readByRunId H l (bind_runId b)) (\<lambda>c.
       case c of
         None \<Rightarrow> Inl (JsError ''BROKER_RUNTIME_BINDING_UNKNOWN'')
       | Some r \<Rightarrow> bindE (assertBinding r b) (\<lambda>_. Inr r))"

definition advance ::
  "(string \<Rightarrow> string) \<Rightarrow> ledger \<Rightarrow> lifecycle_record \<Rightarrow> run_stage \<Rightarrow> string \<Rightarrow> (ledger \<times> lifecycle_record) res" where
  "advance H l current next now =
     (if stageRank next < stageRank (lc_stage current)
      then Inl (JsError ''BROKER_LIFECYCLE_STAGE_REGRESSION'')
      else if next = lc_stage current then Inr (l, current)
      else (let r = current\<lparr>lc_stage := next, lc_updatedAt := now\<rparr> in Inr (write_record H l r, r)))"

definition beginAgent ::
  "(string \<Rightarrow> string) \<Rightarrow> ledger \<Rightarrow> run_binding \<Rightarrow> string \<Rightarrow> (ledger \<times> lifecycle_record) res" where
  "beginAgent H l b now =
     bindE (readByRunId H l (bind_runId b)) (\<lambda>c.
       case c of
         Some r \<Rightarrow>
           bindE (assertBinding r b) (\<lambda>_.
             if lc_stage r = ALL_CLOSED then Inl (JsError ''BROKER_RUNTIME_ALL_CLOSED'')
             else if lc_stage r \<noteq> AGENT_STARTED then Inl (JsError ''BROKER_AGENT_LIFECYCLE_CLOSED'')
             else Inl (JsError ''BROKER_AGENT_LAUNCH_REPLAY''))
       | None \<Rightarrow>
           let r = run_binding.extend b \<lparr>lc_stage = AGENT_STARTED, lc_updatedAt = now\<rparr>
           in Inr (write_record H l r, r))"

definition beginVerifier ::
  "(string \<Rightarrow> string) \<Rightarrow> ledger \<Rightarrow> run_binding \<Rightarrow> string \<Rightarrow> (ledger \<times> lifecycle_record) res" where
  "beginVerifier H l b now =
     bindE (requireKnown H l b) (\<lambda>r.
       if lc_stage r = ALL_CLOSED then Inl (JsError ''BROKER_RUNTIME_ALL_CLOSED'')
       else if lc_stage r \<noteq> AGENT_CLOSED then Inl (JsError ''BROKER_VERIFIER_LAUNCH_NOT_ALLOWED'')
       else advance H l r VERIFIER_STARTED now)"

definition markAgentClosed ::
  "(string \<Rightarrow> string) \<Rightarrow> ledger \<Rightarrow> run_binding \<Rightarrow> string \<Rightarrow> (ledger \<times> lifecycle_record) res" where
  "markAgentClosed H l b now =
     bindE (requireKnown H l b) (\<lambda>r.
       if lc_stage r = AGENT_STARTED then advance H l r AGENT_CLOSED now else Inr (l, r))"

definition markAllClosed ::
  "(string \<Rightarrow> string) \<Rightarrow> ledger \<Rightarrow> run_binding \<Rightarrow> string \<Rightarrow> (ledger \<times> lifecycle_record) res" where
  "markAllClosed H l b now =
     bindE (requireKnown H l b) (\<lambda>r.
       if lc_stage r = ALL_CLOSED then Inr (l, r) else advance H l r ALL_CLOSED now)"

definition ledger_get :: "(string \<Rightarrow> string) \<Rightarrow> ledger \<Rightarrow> run_binding \<Rightarrow> lifecycle_record option res" where
  "ledger_get H l b =
     bindE (readByRunId H l (bind_runId b)) (\<lambda>c.
       case c of None \<Rightarrow> Inr None | Some r \<Rightarrow> bindE (assertBinding r b) (\<lambda>_. Inr (Some r)))"

subsection \<open>Histories\<close>

datatype ledger_op =
    BeginAgent run_binding string | BeginVerifier run_binding string
  | MarkAgentClosed run_binding string | MarkAllClosed run_binding string

fun ledger_step :: "(string \<Rightarrow> string) \<Rightarrow> ledger \<Rightarrow> ledger_op \<Rightarrow> (ledger \<times> lifecycle_record) res" where
  "ledger_step H l (BeginAgent b now) = beginAgent H l b now"
| "ledger_step H l (BeginVerifier b now) = beginVerifier H l b now"
| "ledger_step H l (MarkAgentClosed b now) = markAgentClosed H l b now"
| "ledger_step H l (MarkAllClosed b now) = markAllClosed H l b now"

text \<open>A caller survives a thrown error and goes on; the ledger is then unchanged.\<close>

definition ledger_exec :: "(string \<Rightarrow> string) \<Rightarrow> ledger \<Rightarrow> ledger_op \<Rightarrow> unit + ledger" where
  "ledger_exec H l op = Inr (case ledger_step H l op of Inl _ \<Rightarrow> l | Inr (l', _) \<Rightarrow> l')"

definition ledger_at :: "ledger \<Rightarrow> string \<Rightarrow> lifecycle_record option" where
  "ledger_at l k =
     (case l k of Some (Parsed j) \<Rightarrow> (case validateRecord j of Inr r \<Rightarrow> Some r | Inl _ \<Rightarrow> None) | _ \<Rightarrow> None)"

definition record_le :: "lifecycle_record \<Rightarrow> lifecycle_record \<Rightarrow> bool" where
  "record_le r r' \<longleftrightarrow> sameBinding r r' \<and> lc_stage r \<le> lc_stage r'"

definition ledger_le :: "ledger \<Rightarrow> ledger \<Rightarrow> bool" where
  "ledger_le l l' \<longleftrightarrow> (\<forall>k. l k \<noteq> None \<longrightarrow> l' k \<noteq> None) \<and>
     (\<forall>k r. ledger_at l k = Some r \<longrightarrow> (\<exists>r'. ledger_at l' k = Some r' \<and> record_le r r'))"

definition valid_binding :: "'a run_binding_scheme \<Rightarrow> bool" where
  "valid_binding b \<longleftrightarrow> bind_runId b \<noteq> [] \<and> bind_agentId b \<noteq> [] \<and> bind_runLeaseId b \<noteq> [] \<and> 0 \<le> bind_sessionEpoch b"

text \<open>What is written reads back.\<close>

lemma validate_record_json [simp]: "valid_binding r \<Longrightarrow> validateRecord (record_json r) = Inr r"
  by (simp add: record_json_def valid_binding_def)

lemma validateRecord_valid: "validateRecord j = Inr r \<Longrightarrow> valid_binding r"
  by (induction j rule: validateRecord.induct)
    (auto simp: valid_binding_def corrupt_def split: option.splits json.splits if_splits)

lemma ledger_at_valid: "ledger_at l k = Some r \<Longrightarrow> valid_binding r"
  by (auto simp: ledger_at_def split: option.splits ledger_file.splits sum.splits dest: validateRecord_valid)

lemma readByRunId_Some: "readByRunId H l i = Inr (Some r) \<longleftrightarrow> ledger_at l (H i) = Some r"
  by (auto simp: readByRunId_def ledger_at_def recordPath_def corrupt_def bindE_eq_Inr
      split: option.splits ledger_file.splits sum.splits)

lemma readByRunId_None: "readByRunId H l i = Inr None \<longleftrightarrow> l (H i) = None"
  by (auto simp: readByRunId_def recordPath_def corrupt_def bindE_eq_Inr
      split: option.splits ledger_file.splits)

lemma assertBinding_Inr [res_simps]: "assertBinding r b = Inr u \<longleftrightarrow> sameBinding r b"
  by (simp add: assertBinding_def)

lemma requireKnown_Inr [res_simps]:
  "requireKnown H l b = Inr r \<longleftrightarrow> ledger_at l (H (bind_runId b)) = Some r \<and> sameBinding r b"
  by (auto simp: requireKnown_def res_simps readByRunId_Some split: option.splits)

lemma sameBinding_valid: "sameBinding r b \<Longrightarrow> valid_binding r \<longleftrightarrow> valid_binding b"
  by (simp add: sameBinding_def valid_binding_def)

lemma ledger_at_write:
  "valid_binding r \<Longrightarrow> ledger_at (write_record H l r) k = (if k = H (bind_runId r) then Some r else ledger_at l k)"
  by (simp add: ledger_at_def write_record_def recordPath_def)

lemma advance_Inr [res_simps]:
  "advance H l c s now = Inr (l', r) \<longleftrightarrow>
     stageRank (lc_stage c) \<le> stageRank s \<and>
     (if s = lc_stage c then l' = l \<and> r = c
      else r = c\<lparr>lc_stage := s, lc_updatedAt := now\<rparr> \<and> l' = write_record H l r)"
  by (auto simp: advance_def Let_def)

lemma write_record_keeps: "l k \<noteq> None \<Longrightarrow> write_record H l r k \<noteq> None"
  by (simp add: write_record_def)

lemma all_closed_greatest: "ALL_CLOSED \<le> s \<Longrightarrow> s = ALL_CLOSED"
  by (cases s) (simp_all add: less_eq_run_stage_def)

text \<open>A successful operation leaves the run's record at the path of its run, never earlier in stage.\<close>

lemma advance_le:
  assumes "advance H l c s now = Inr (l', r)" and "ledger_at l (H (bind_runId c)) = Some c"
  shows "ledger_le l l' \<and> ledger_at l' (H (bind_runId c)) = Some r \<and> sameBinding r c \<and> lc_stage r = s"
proof -
  have v: "valid_binding c" by (rule ledger_at_valid [OF assms(2)])
  then have "valid_binding (c\<lparr>lc_stage := s, lc_updatedAt := now\<rparr>)" by (simp add: valid_binding_def)
  with assms v write_record_keeps [of l _ H] show ?thesis
    by (auto simp: advance_Inr ledger_le_def record_le_def sameBinding_def stage_order ledger_at_write
        simp del: not_None_eq split: if_splits)
qed

lemma ledger_leD: "ledger_le l l' \<Longrightarrow> ledger_at l k = Some r \<Longrightarrow> \<exists>r'. ledger_at l' k = Some r' \<and> record_le r r'"
  by (simp add: ledger_le_def)

lemma ledger_le_refl: "ledger_le l l"
  by (simp add: ledger_le_def record_le_def sameBinding_def)

lemma record_le_trans: "record_le a b \<Longrightarrow> record_le b c \<Longrightarrow> record_le a c"
  by (auto simp: record_le_def sameBinding_def)

lemma ledger_le_trans: "ledger_le l m \<Longrightarrow> ledger_le m n \<Longrightarrow> ledger_le l n"
  unfolding ledger_le_def by (blast intro: record_le_trans)

lemma begin_new_le: "l (H (bind_runId b)) = None \<Longrightarrow> bind_runId r = bind_runId b \<Longrightarrow> ledger_le l (write_record H l r)"
  by (auto simp: ledger_le_def ledger_at_def write_record_def recordPath_def record_le_def sameBinding_def)

lemma beginAgent_Inr:
  "beginAgent H l b now = Inr (l', r) \<longleftrightarrow> l (H (bind_runId b)) = None \<and>
     r = run_binding.extend b \<lparr>lc_stage = AGENT_STARTED, lc_updatedAt = now\<rparr> \<and> l' = write_record H l r"
proof (cases "readByRunId H l (bind_runId b)")
  case (Inl e)
  then have "l (H (bind_runId b)) \<noteq> None" using readByRunId_None [of H l "bind_runId b"] by auto
  with Inl show ?thesis by (simp add: beginAgent_def)
next
  case (Inr c)
  show ?thesis
  proof (cases c)
    case None
    with Inr readByRunId_None [of H l "bind_runId b"] show ?thesis by (auto simp: beginAgent_def Let_def)
  next
    case (Some x)
    with Inr have "l (H (bind_runId b)) \<noteq> None" using readByRunId_None [of H l "bind_runId b"] by auto
    with Inr Some show ?thesis by (auto simp: beginAgent_def bindE_eq_Inr)
  qed
qed

lemma beginVerifier_Inr:
  assumes "beginVerifier H l b now = Inr (l', r)"
  shows "\<exists>c. ledger_at l (H (bind_runId b)) = Some c \<and> sameBinding c b \<and> lc_stage c = AGENT_CLOSED \<and>
     advance H l c VERIFIER_STARTED now = Inr (l', r)"
  using assms by (auto simp: beginVerifier_def bindE_eq_Inr if_Inl_eq_Inr requireKnown_Inr)

lemma markAllClosed_Inr:
  assumes "markAllClosed H l b now = Inr (l', r)"
  shows "ledger_at l' (H (bind_runId b)) = Some r \<and> sameBinding r b \<and> lc_stage r = ALL_CLOSED"
proof -
  from assms obtain c where c: "ledger_at l (H (bind_runId b)) = Some c" "sameBinding c b"
    and a: "(if lc_stage c = ALL_CLOSED then Inr (l, c) else advance H l c ALL_CLOSED now) = Inr (l', r)"
    by (auto simp: markAllClosed_def bindE_eq_Inr requireKnown_Inr)
  show ?thesis
  proof (cases "lc_stage c = ALL_CLOSED")
    case True
    with a c show ?thesis by simp
  next
    case False
    with a have "advance H l c ALL_CLOSED now = Inr (l', r)" by simp
    from advance_le [OF this] c show ?thesis by (simp add: sameBinding_def)
  qed
qed

lemma ledger_step_le:
  assumes "ledger_step H l op = Inr (l', r)"
  shows "ledger_le l l'"
proof (cases op)
  case (BeginAgent b now)
  with assms show ?thesis
    by (auto simp: beginAgent_Inr run_binding.defs intro: begin_new_le)
next
  case (BeginVerifier b now)
  with assms obtain c where "ledger_at l (H (bind_runId b)) = Some c" "sameBinding c b"
    "advance H l c VERIFIER_STARTED now = Inr (l', r)"
    by (auto simp: beginVerifier_def bindE_eq_Inr if_Inl_eq_Inr requireKnown_Inr)
  with advance_le show ?thesis by (fastforce simp: sameBinding_def)
next
  case (MarkAgentClosed b now)
  with assms obtain c where "ledger_at l (H (bind_runId b)) = Some c" "sameBinding c b"
    "advance H l c AGENT_CLOSED now = Inr (l', r) \<or> l' = l"
    by (auto simp: markAgentClosed_def bindE_eq_Inr requireKnown_Inr split: if_splits)
  with advance_le ledger_le_refl show ?thesis by (fastforce simp: sameBinding_def)
next
  case (MarkAllClosed b now)
  with assms obtain c where "ledger_at l (H (bind_runId b)) = Some c" "sameBinding c b"
    "advance H l c ALL_CLOSED now = Inr (l', r) \<or> l' = l"
    by (auto simp: markAllClosed_def bindE_eq_Inr requireKnown_Inr split: if_splits)
  with advance_le ledger_le_refl show ?thesis by (fastforce simp: sameBinding_def)
qed

interpretation ledger: mono_machine "ledger_exec H" ledger_le for H
proof
  show "ledger_le s s'" if "ledger_exec H s e = Inr s'" for s e s'
    using that ledger_step_le [of H s e] ledger_le_refl [of s]
    by (auto simp: ledger_exec_def split: sum.splits prod.splits)
qed (auto intro: ledger_le_refl ledger_le_trans)

subsection \<open>Properties\<close>

definition ex_binding :: run_binding where
  "ex_binding = \<lparr>bind_runId = ''run'', bind_agentId = ''agent'', bind_runLeaseId = ''lease'', bind_sessionEpoch = 1\<rparr>"

definition ex_ledger :: ledger where
  "ex_ledger = write_record (\<lambda>s. s) Map.empty
     (run_binding.extend ex_binding \<lparr>lc_stage = AGENT_STARTED, lc_updatedAt = ''t''\<rparr>)"

lemma ex_ledger_at: "ledger_at ex_ledger ''run'' =
    Some (run_binding.extend ex_binding \<lparr>lc_stage = AGENT_STARTED, lc_updatedAt = ''t''\<rparr>)"
  unfolding ex_ledger_def
  by (subst ledger_at_write) (simp_all add: valid_binding_def ex_binding_def run_binding.defs)

text \<open>C27: Launch and closure memory never moves backwards: over any sequence of operations, failed
  ones included, a run's record keeps its run, agent, lease and session epoch and its stage only
  advances along started, closed, verifying, all closed.\<close>

theorem ledger_monotone:
  assumes "runE (ledger_exec H) l ops = Inr l'" and "ledger_at l k = Some r"
  shows "\<exists>r'. ledger_at l' k = Some r' \<and> sameBinding r r' \<and> lc_stage r \<le> lc_stage r'"
  using ledger.run_le [OF assms(1)] assms(2) by (auto simp: ledger_le_def record_le_def)

theorem ledger_monotone_witness:
  "\<exists>l' r'. runE (ledger_exec (\<lambda>s. s)) ex_ledger [BeginVerifier ex_binding ''u'', MarkAllClosed ex_binding ''v''] = Inr l' \<and>
     ledger_at l' ''run'' = Some r' \<and> AGENT_STARTED \<le> lc_stage r'"
proof -
  let ?ops = "[BeginVerifier ex_binding ''u'', MarkAllClosed ex_binding ''v'']"
  obtain l' where l': "runE (ledger_exec (\<lambda>s. s)) ex_ledger ?ops = Inr l'"
    by (auto simp: ledger_exec_def)
  from ledger_monotone [OF l' ex_ledger_at] l' show ?thesis by (auto simp: run_binding.defs)
qed

text \<open>C26: Closing is final: once everything of a run is closed, no later sequence of operations lets an
  agent or a verifier start for that run id, whatever binding it presents, and the original binding
  is told so.\<close>

theorem no_launch_after_all_closed:
  assumes "markAllClosed H l b now = Inr (l1, r)" and "runE (ledger_exec H) l1 ops = Inr l2"
    and "bind_runId b' = bind_runId b"
  shows "isl (beginAgent H l2 b' n) \<and> isl (beginVerifier H l2 b' n) \<and>
    beginAgent H l2 b n = Inl (JsError ''BROKER_RUNTIME_ALL_CLOSED'') \<and>
    beginVerifier H l2 b n = Inl (JsError ''BROKER_RUNTIME_ALL_CLOSED'')"
proof -
  from markAllClosed_Inr [OF assms(1)] have r: "ledger_at l1 (H (bind_runId b)) = Some r" "sameBinding r b"
    "lc_stage r = ALL_CLOSED" by auto
  from ledger_leD [OF ledger.run_le [OF assms(2)] r(1)] obtain c where
    "ledger_at l2 (H (bind_runId b)) = Some c" "record_le r c" by blast
  then have c: "ledger_at l2 (H (bind_runId b)) = Some c" "sameBinding c b" "lc_stage c = ALL_CLOSED"
    using r(2,3) all_closed_greatest by (auto simp: record_le_def sameBinding_def)
  then have rd: "readByRunId H l2 (bind_runId b) = Inr (Some c)" by (simp add: readByRunId_Some)
  then have "isl (beginAgent H l2 b' n)"
    using assms(3) by (simp add: beginAgent_def assertBinding_def)
  moreover have "isl (beginVerifier H l2 b' n)"
    using rd assms(3) c by (simp add: beginVerifier_def requireKnown_def assertBinding_def)
  ultimately show ?thesis
    using rd c by (simp add: beginAgent_def beginVerifier_def requireKnown_def assertBinding_def)
qed

theorem no_launch_after_all_closed_witness:
  "\<exists>l1 r. markAllClosed (\<lambda>s. s) ex_ledger ex_binding ''v'' = Inr (l1, r) \<and>
     beginVerifier (\<lambda>s. s) l1 ex_binding ''w'' = Inl (JsError ''BROKER_RUNTIME_ALL_CLOSED'')"
proof -
  have "\<exists>l1 r. markAllClosed (\<lambda>s. s) ex_ledger ex_binding ''v'' = Inr (l1, r)"
    using ex_ledger_at
    by (simp add: markAllClosed_def requireKnown_def readByRunId_Some [THEN iffD2] assertBinding_def
        sameBinding_def ex_binding_def run_binding.defs advance_def Let_def)
  then obtain l1 r where m: "markAllClosed (\<lambda>s. s) ex_ledger ex_binding ''v'' = Inr (l1, r)" by blast
  have "runE (ledger_exec (\<lambda>s. s)) l1 [] = Inr l1" by simp
  from no_launch_after_all_closed [OF m this refl] m show ?thesis by blast
qed

text \<open>C25: A launch happens once: after an agent start was recorded for a run id, no later history lets
  another agent start under that run id, and after a verifier start no later history lets another
  verifier start; a verifier starts only when the agent has been closed.\<close>

theorem launches_once:
  assumes "runE (ledger_exec H) l1 ops = Inr l2" and "bind_runId b' = bind_runId b"
  shows "(beginAgent H l b now = Inr (l1, r) \<longrightarrow> isl (beginAgent H l2 b' n)) \<and>
    (beginVerifier H l b now = Inr (l1, r) \<longrightarrow> isl (beginVerifier H l2 b' n) \<and>
       (\<exists>c. ledger_at l (H (bind_runId b)) = Some c \<and> lc_stage c = AGENT_CLOSED))"
proof (intro conjI impI)
  assume "beginAgent H l b now = Inr (l1, r)"
  then have "l1 (H (bind_runId b')) \<noteq> None"
    using assms(2) by (auto simp: beginAgent_Inr write_record_def recordPath_def run_binding.defs)
  then have "l2 (H (bind_runId b')) \<noteq> None"
    using ledger.run_le [OF assms(1)] by (auto simp: ledger_le_def)
  then show "isl (beginAgent H l2 b' n)"
    using beginAgent_Inr [of H l2 b' n] by (cases "beginAgent H l2 b' n") (auto simp del: not_None_eq)
next
  assume "beginVerifier H l b now = Inr (l1, r)"
  from beginVerifier_Inr [OF this] obtain c where c: "ledger_at l (H (bind_runId b)) = Some c" "sameBinding c b"
    "lc_stage c = AGENT_CLOSED" "advance H l c VERIFIER_STARTED now = Inr (l1, r)" by blast
  then show "\<exists>c. ledger_at l (H (bind_runId b)) = Some c \<and> lc_stage c = AGENT_CLOSED" by blast
  from advance_le [OF c(4)] c(1,2) have "ledger_at l1 (H (bind_runId b')) = Some r" "lc_stage r = VERIFIER_STARTED"
    using assms(2) by (simp_all add: sameBinding_def)
  with ledger_leD [OF ledger.run_le [OF assms(1)]] obtain d where
    d: "ledger_at l2 (H (bind_runId b')) = Some d" "VERIFIER_STARTED \<le> lc_stage d"
    unfolding record_le_def by metis
  then have "lc_stage d \<noteq> AGENT_CLOSED" by (auto simp: stage_order)
  with d(1) show "isl (beginVerifier H l2 b' n)"
    using beginVerifier_Inr [of H l2 b' n] by (cases "beginVerifier H l2 b' n") auto
qed

theorem launches_once_witness:
  "isl (beginAgent (\<lambda>s. s) ex_ledger ex_binding ''u'')"
proof -
  have "beginAgent (\<lambda>s. s) Map.empty ex_binding ''t'' =
      Inr (ex_ledger, run_binding.extend ex_binding \<lparr>lc_stage = AGENT_STARTED, lc_updatedAt = ''t''\<rparr>)"
    by (simp add: beginAgent_Inr ex_ledger_def)
  moreover have "runE (ledger_exec (\<lambda>s. s)) ex_ledger [] = Inr ex_ledger" by simp
  ultimately show ?thesis using launches_once by blast
qed

end
