(* ===== verification/Policy.thy ===== *)
theory Policy
  imports Js_Json "HOL-Library.Char_ord" "HOL-Library.List_Lexorder"
begin

text \<open>
  The gate's policy (\<^verbatim>\<open>commitgate/policy.ts\<close>): normal forms of paths, validation of a policy
  document, the class of a path and the glob patterns of protected paths.

  A path is read one character at a time; the model is exact for ASCII paths, where a byte is a
  UTF-16 unit. \<^verbatim>\<open>globToRegExp\<close> builds a regular expression; the model keeps its parts
  (\<open>glob_token\<close>) and gives their matching as a backtracking function, which \<open>glob_matches_iff\<close>
  proves equal to the declarative reading (a split of the path, one piece for each part).
  In a regular expression without the \<^verbatim>\<open>s\<close> flag, the dot leaves out line ends.
\<close>

subsection \<open>Paths\<close>

fun split_on :: "char \<Rightarrow> string \<Rightarrow> string list" where
  "split_on d [] = [[]]"
| "split_on d (c # cs) =
     (if c = d then [] # split_on d cs
      else (case split_on d cs of [] \<Rightarrow> [[c]] | s # ss \<Rightarrow> (c # s) # ss))"

fun join_with :: "char \<Rightarrow> string list \<Rightarrow> string" where
  "join_with d [] = []"
| "join_with d [s] = s"
| "join_with d (s # t # ss) = s @ d # join_with d (t # ss)"

abbreviation slash :: char where
  "slash \<equiv> CHR 0x2F"

definition ends_with_slash :: "string \<Rightarrow> bool" where
  "ends_with_slash s \<longleftrightarrow> s \<noteq> [] \<and> last s = slash"

text \<open>
  \<^verbatim>\<open>path.posix.normalize\<close> on a relative path: empty and \<^verbatim>\<open>.\<close> segments go,
  \<^verbatim>\<open>..\<close> removes the segment before it if there is one, a trailing slash stays. The stack
  holds the segments kept, the last one first.
\<close>

fun push_segment :: "string list \<Rightarrow> string \<Rightarrow> string list" where
  "push_segment stack seg =
     (if seg = [] \<or> seg = ''.'' then stack
      else if seg = ''..'' then
        (case stack of [] \<Rightarrow> [''..''] | prior # rest \<Rightarrow> if prior = ''..'' then ''..'' # stack else rest)
      else seg # stack)"

definition normal_segments :: "string \<Rightarrow> string list" where
  "normal_segments s = rev (foldl push_segment [] (split_on slash s))"

definition posix_normalize :: "string \<Rightarrow> string" where
  "posix_normalize s =
     (let body = join_with slash (normal_segments s)
      in if body = [] then (if ends_with_slash s then ''./'' else ''.'')
         else if ends_with_slash s then body @ [slash] else body)"

definition replace_char :: "char \<Rightarrow> char \<Rightarrow> string \<Rightarrow> string" where
  "replace_char a b = map (\<lambda>c. if c = a then b else c)"

definition is_letter :: "char \<Rightarrow> bool" where
  "is_letter c \<longleftrightarrow> 65 \<le> char_code c \<and> char_code c \<le> 90 \<or> 97 \<le> char_code c \<and> char_code c \<le> 122"

text \<open>\<^verbatim>\<open>/^[A-Za-z]:\//\<close>.\<close>

fun has_drive :: "string \<Rightarrow> bool" where
  "has_drive (a # b # c # _) \<longleftrightarrow> is_letter a \<and> b = CHR '':'' \<and> c = slash"
| "has_drive _ \<longleftrightarrow> False"

definition drop_dot_slash :: "string \<Rightarrow> string" where
  "drop_dot_slash s = (if starts_with s ''./'' then drop 2 s else s)"

definition drop_last_slash :: "string \<Rightarrow> string" where
  "drop_last_slash s = (if ends_with_slash s then butlast s else s)"

definition normalizePolicyPath :: "string \<Rightarrow> string \<Rightarrow> string res" where
  "normalizePolicyPath value field =
     (if value = [] \<or> CHR 0x00 \<in> set value then Inl (JsError (field @ '' must be a non-empty path''))
      else
        let forward = replace_char backslash slash value
        in if starts_with forward ''/'' \<or> has_drive forward
           then Inl (JsError (field @ '' must be relative''))
           else
             let normalized = drop_dot_slash (posix_normalize forward)
             in if normalized = ''..'' \<or> starts_with normalized ''../'' \<or> normalized = ''.''
                then Inl (JsError (field @ '' escapes the workspace''))
                else Inr (drop_last_slash normalized))"

subsection \<open>The policy document\<close>

text \<open>The id of a check stays as it was written: the pattern test accepts any value whose text fits.\<close>

record required_check =
  rc_id :: json
  rc_runner :: string
  rc_entrypoint :: string
  rc_args :: "string list"
  rc_timeoutMs :: int
  rc_scratchBytes :: int

record policy =
  protectedPaths :: "string list"
  platformManagedPaths :: "string list"
  ignoredEphemeralNames :: "string list"
  maxChangedFiles :: int
  maxChangedBytes :: int
  maxSingleFileBytes :: int
  verifierTimeoutMs :: int
  verifierMaxOutputBytes :: int
  canaryPatterns :: "string list"
  requiredChecks :: "required_check list"

definition DEFAULT_IGNORED_EPHEMERAL_NAMES :: "string list" where
  "DEFAULT_IGNORED_EPHEMERAL_NAMES = [''.git'', ''.codex'', ''node_modules'', ''dist'', ''coverage'']"

definition defaultCommitGatePolicy :: policy where
  "defaultCommitGatePolicy =
     \<lparr>protectedPaths = [''protected.txt''], platformManagedPaths = [''AGENTS.md''],
      ignoredEphemeralNames = DEFAULT_IGNORED_EPHEMERAL_NAMES, maxChangedFiles = 100,
      maxChangedBytes = 1048576, maxSingleFileBytes = 262144, verifierTimeoutMs = 30000,
      verifierMaxOutputBytes = 65536, canaryPatterns = [], requiredChecks = []\<rparr>"

text \<open>\<^verbatim>\<open>String(x)\<close> and truthiness.\<close>

fun js_string :: "json \<Rightarrow> string" where
  "js_string JNull = ''null''"
| "js_string (JBool b) = (if b then ''true'' else ''false'')"
| "js_string (JNum n) = int_text n"
| "js_string (JStr s) = s"
| "js_string (JArr xs) = join_with (CHR '','') (map (\<lambda>x. if x = JNull then [] else js_string x) xs)"
| "js_string (JObj kvs) = ''[object Object]''"

fun js_truthy :: "json option \<Rightarrow> bool" where
  "js_truthy (Some (JBool b)) = b"
| "js_truthy (Some (JNum n)) = (n \<noteq> 0)"
| "js_truthy (Some (JStr s)) = (s \<noteq> [])"
| "js_truthy (Some JNull) = False"
| "js_truthy None = False"
| "js_truthy _ = True"

definition assertPositiveInteger :: "json option \<Rightarrow> string \<Rightarrow> int res" where
  "assertPositiveInteger v field =
     (case num_or_null v of
        Some n \<Rightarrow> if 0 < n then Inr n else Inl (JsError (field @ '' must be a positive integer''))
      | None \<Rightarrow> Inl (JsError (field @ '' must be a positive integer'')))"

definition is_check_id :: "string \<Rightarrow> bool" where
  "is_check_id s \<longleftrightarrow> 1 \<le> length s \<and> length s \<le> 64 \<and> list_all is_ident_char s"

fun mapE :: "('a \<Rightarrow> 'e + 'b) \<Rightarrow> 'a list \<Rightarrow> 'e + 'b list" where
  "mapE f [] = Inr []"
| "mapE f (x # xs) = bindE (f x) (\<lambda>y. bindE (mapE f xs) (\<lambda>ys. Inr (y # ys)))"

definition indexed :: "'a list \<Rightarrow> (nat \<times> 'a) list" where
  "indexed xs = zip [0..<length xs] xs"

definition at_index :: "string \<Rightarrow> nat \<Rightarrow> string" where
  "at_index field i = field @ ''['' @ nat_digits i @ '']''"

text \<open>An array of strings that each pass a test.\<close>

definition strings_of :: "(string \<Rightarrow> bool) \<Rightarrow> json option \<Rightarrow> string list option" where
  "strings_of ok v =
     (case v of
        Some (JArr xs) \<Rightarrow>
          if list_all (\<lambda>x. case x of JStr s \<Rightarrow> ok s | _ \<Rightarrow> False) xs then Some (string_items (Some (JArr xs)))
          else None
      | _ \<Rightarrow> None)"

definition validateCheck :: "json \<Rightarrow> nat \<Rightarrow> required_check res" where
  "validateCheck value index =
     (let at = at_index ''requiredChecks'' index; bad = (\<lambda>f. Inl (JsError (at @ f @ '' is invalid'')))
      in if \<not> is_object (Some value) then bad ''''
         else case jfield value ''id'' of
           None \<Rightarrow> bad ''.id''
         | Some i \<Rightarrow>
             if \<not> js_truthy (Some i) \<or> \<not> is_check_id (js_string i) then bad ''.id''
             else case str_or_null (jfield value ''runner'') of
               None \<Rightarrow> bad ''.runner''
             | Some runner \<Rightarrow>
                 if runner \<notin> set [''node'', ''python'', ''binary''] then bad ''.runner''
                 else case str_or_null (jfield value ''entrypoint'') of
                   None \<Rightarrow> bad ''.entrypoint''
                 | Some e \<Rightarrow>
                     if e = [] then bad ''.entrypoint''
                     else bindE (normalizePolicyPath e (at @ ''.entrypoint'')) (\<lambda>n.
                       if e \<noteq> n \<or> starts_with e ''../'' then bad ''.entrypoint''
                       else case strings_of (\<lambda>s. CHR 0x00 \<notin> set s) (jfield value ''args'') of
                         None \<Rightarrow> bad ''.args''
                       | Some args \<Rightarrow>
                           bindE (assertPositiveInteger (jfield value ''timeoutMs'') (at @ ''.timeoutMs'')) (\<lambda>t.
                           bindE (assertPositiveInteger (jfield value ''scratchBytes'') (at @ ''.scratchBytes'')) (\<lambda>b.
                             Inr \<lparr>rc_id = i, rc_runner = runner, rc_entrypoint = e, rc_args = args,
                                  rc_timeoutMs = t, rc_scratchBytes = b\<rparr>))))"

definition pathArray :: "json option \<Rightarrow> string \<Rightarrow> string list res" where
  "pathArray items field =
     (case items of
        Some (JArr xs) \<Rightarrow>
          bindE (mapE (\<lambda>(i, x). normalizePolicyPath (js_string x) (at_index field i)) (indexed xs))
            (\<lambda>ps. Inr (sort (remdups ps)))
      | _ \<Rightarrow> Inl (JsError (field @ '' must be an array'')))"

definition canary_patterns :: "json option \<Rightarrow> string list res" where
  "canary_patterns v =
     (case strings_of (\<lambda>s. s \<noteq> []) v of
        None \<Rightarrow> Inl (JsError ''canaryPatterns must contain non-empty strings'')
      | Some canaries \<Rightarrow> Inr canaries)"

definition required_checks :: "json option \<Rightarrow> required_check list res" where
  "required_checks v =
     (case v of
        Some (JArr cs) \<Rightarrow>
          bindE (mapE (\<lambda>(i, c). validateCheck c i) (indexed cs)) (\<lambda>checks.
            if \<not> distinct (map rc_id checks) then Inl (JsError ''requiredChecks ids must be unique'')
            else Inr checks)
      | _ \<Rightarrow> Inl (JsError ''requiredChecks must be an array''))"

definition validatePolicy :: "json \<Rightarrow> policy res" where
  "validatePolicy value =
     (if \<not> is_object (Some value) then Inl (JsError ''CommitGate policy must be an object'')
      else if jfield value ''schemaVersion'' \<noteq> Some (JNum 1)
      then Inl (JsError ''Unsupported CommitGate policy schema'')
      else
        bindE (pathArray (jfield value ''protectedPaths'') ''protectedPaths'') (\<lambda>prot.
        bindE (pathArray (jfield value ''platformManagedPaths'') ''platformManagedPaths'') (\<lambda>plat.
        bindE (pathArray (jfield value ''ignoredEphemeralNames'') ''ignoredEphemeralNames'') (\<lambda>ign.
        if list_ex (\<lambda>n. slash \<in> set n) ign
        then Inl (JsError ''ignoredEphemeralNames entries must be path-segment names'')
        else
        bindE (assertPositiveInteger (jfield value ''maxChangedFiles'') ''maxChangedFiles'') (\<lambda>mf.
        bindE (assertPositiveInteger (jfield value ''maxChangedBytes'') ''maxChangedBytes'') (\<lambda>mb.
        bindE (assertPositiveInteger (jfield value ''maxSingleFileBytes'') ''maxSingleFileBytes'') (\<lambda>ms.
        bindE (assertPositiveInteger (jfield value ''verifierTimeoutMs'') ''verifierTimeoutMs'') (\<lambda>vt.
        bindE (assertPositiveInteger (jfield value ''verifierMaxOutputBytes'') ''verifierMaxOutputBytes'') (\<lambda>vo.
        bindE (canary_patterns (jfield value ''canaryPatterns'')) (\<lambda>canaries.
        bindE (required_checks (jfield value ''requiredChecks'')) (\<lambda>checks.
          Inr \<lparr>protectedPaths = prot, platformManagedPaths = plat, ignoredEphemeralNames = ign,
               maxChangedFiles = mf, maxChangedBytes = mb, maxSingleFileBytes = ms,
               verifierTimeoutMs = vt, verifierMaxOutputBytes = vo, canaryPatterns = canaries,
               requiredChecks = checks\<rparr>)))))))))))"

definition check_json :: "required_check \<Rightarrow> json" where
  "check_json c = JObj
     [(''id'', rc_id c), (''runner'', JStr (rc_runner c)), (''entrypoint'', JStr (rc_entrypoint c)),
      (''args'', JArr (map JStr (rc_args c))), (''timeoutMs'', JNum (rc_timeoutMs c)),
      (''scratchBytes'', JNum (rc_scratchBytes c))]"

definition policy_json :: "policy \<Rightarrow> json" where
  "policy_json p = JObj
     [(''schemaVersion'', JNum 1), (''protectedPaths'', JArr (map JStr (protectedPaths p))),
      (''platformManagedPaths'', JArr (map JStr (platformManagedPaths p))),
      (''ignoredEphemeralNames'', JArr (map JStr (ignoredEphemeralNames p))),
      (''maxChangedFiles'', JNum (maxChangedFiles p)), (''maxChangedBytes'', JNum (maxChangedBytes p)),
      (''maxSingleFileBytes'', JNum (maxSingleFileBytes p)),
      (''verifierTimeoutMs'', JNum (verifierTimeoutMs p)),
      (''verifierMaxOutputBytes'', JNum (verifierMaxOutputBytes p)),
      (''canaryPatterns'', JArr (map JStr (canaryPatterns p))),
      (''requiredChecks'', JArr (map check_json (requiredChecks p)))]"

text \<open>The file named by the caller, if any: missing, not JSON, or a document.\<close>

datatype policy_file = NoFile | MissingFile | UnparsableFile | PolicyDocument json

fun loadPolicy :: "policy_file \<Rightarrow> policy res" where
  "loadPolicy NoFile = Inr defaultCommitGatePolicy"
| "loadPolicy MissingFile = Inr defaultCommitGatePolicy"
| "loadPolicy UnparsableFile = Inl (JsError ''SyntaxError'')"
| "loadPolicy (PolicyDocument j) = validatePolicy j"

definition policyHash :: "(string \<Rightarrow> string) \<Rightarrow> policy \<Rightarrow> string res" where
  "policyHash H p = bindE (validatePolicy (policy_json p)) (\<lambda>v. Inr (H (stringify (policy_json v))))"

subsection \<open>Path classes and patterns\<close>

datatype path_class = Versioned | PlatformManaged | IgnoredEphemeral

definition under :: "string \<Rightarrow> string \<Rightarrow> bool" where
  "under p managed \<longleftrightarrow> p = managed \<or> starts_with p (managed @ ''/'')"

definition classifyPath :: "string \<Rightarrow> policy \<Rightarrow> path_class res" where
  "classifyPath relativePath p =
     bindE (normalizePolicyPath relativePath ''workspace path'') (\<lambda>normalized.
       Inr (if list_ex (\<lambda>s. s \<in> set (ignoredEphemeralNames p)) (split_on slash normalized) then IgnoredEphemeral
            else if list_ex (under normalized) (platformManagedPaths p) then PlatformManaged
            else Versioned))"

datatype glob_token = AnyDeep | AnyInSegment | OneInSegment | Exactly char

fun globToRegExp :: "string \<Rightarrow> glob_token list" where
  "globToRegExp [] = []"
| "globToRegExp (c # cs) =
     (if c = CHR ''*'' then
        (case cs of
           d # ds \<Rightarrow> if d = CHR ''*'' then AnyDeep # globToRegExp ds else AnyInSegment # globToRegExp cs
         | [] \<Rightarrow> [AnyInSegment])
      else if c = CHR ''?'' then OneInSegment # globToRegExp cs
      else Exactly c # globToRegExp cs)"

definition line_end :: "char \<Rightarrow> bool" where
  "line_end c \<longleftrightarrow> c = CHR 0x0A \<or> c = CHR 0x0D"

fun glob_test :: "glob_token list \<Rightarrow> string \<Rightarrow> bool" where
  "glob_test [] s = (s = [])"
| "glob_test (AnyDeep # ts) [] = glob_test ts []"
| "glob_test (AnyDeep # ts) (c # cs) = (glob_test ts (c # cs) \<or> \<not> line_end c \<and> glob_test (AnyDeep # ts) cs)"
| "glob_test (AnyInSegment # ts) [] = glob_test ts []"
| "glob_test (AnyInSegment # ts) (c # cs) =
     (glob_test ts (c # cs) \<or> c \<noteq> slash \<and> glob_test (AnyInSegment # ts) cs)"
| "glob_test (OneInSegment # ts) [] = False"
| "glob_test (OneInSegment # ts) (c # cs) = (c \<noteq> slash \<and> glob_test ts cs)"
| "glob_test (Exactly d # ts) [] = False"
| "glob_test (Exactly d # ts) (c # cs) = (c = d \<and> glob_test ts cs)"

definition is_glob :: "string \<Rightarrow> bool" where
  "is_glob pattern \<longleftrightarrow> CHR ''*'' \<in> set pattern \<or> CHR ''?'' \<in> set pattern"

fun someE :: "('a \<Rightarrow> 'e + bool) \<Rightarrow> 'a list \<Rightarrow> 'e + bool" where
  "someE f [] = Inr False"
| "someE f (x # xs) = bindE (f x) (\<lambda>b. if b then Inr True else someE f xs)"

definition pathMatches :: "string \<Rightarrow> string list \<Rightarrow> bool res" where
  "pathMatches relativePath patterns =
     bindE (normalizePolicyPath relativePath ''workspace path'') (\<lambda>normalized.
       someE (\<lambda>raw.
         bindE (normalizePolicyPath raw ''policy pattern'') (\<lambda>pattern.
           Inr (if is_glob pattern then glob_test (globToRegExp pattern) normalized
                else under normalized pattern))) patterns)"

end
