(* ===== verification/Policy_Facts.thy ===== *)
theory Policy_Facts
  imports Policy
begin

text \<open>
  Facts of the policy: splitting and joining paths are inverse, a normalised path is a list of
  proper segments and is its own normal form, a validated policy is its own validated form and
  its hash binds it, and a glob pattern matches exactly the declarative reading of its parts.
\<close>

subsection \<open>Segments\<close>

lemma split_on_not_Nil [simp]: "split_on d s \<noteq> []"
  by (induction s) (auto split: list.splits)

lemma join_split [simp]: "join_with d (split_on d s) = s"
proof (induction s)
  case (Cons c cs)
  then show ?case by (cases "(d, split_on d cs)" rule: join_with.cases) auto
qed simp

lemma split_on_segment: "d \<notin> set s \<Longrightarrow> split_on d s = [s]"
  by (induction s) auto

lemma split_on_append: "d \<notin> set s \<Longrightarrow> split_on d (s @ d # t) = s # split_on d t"
  by (induction s) auto

lemma split_join: "ss \<noteq> [] \<Longrightarrow> \<forall>s\<in>set ss. d \<notin> set s \<Longrightarrow> split_on d (join_with d ss) = ss"
  by (induction ss rule: join_with.induct) (auto simp: split_on_segment split_on_append)

lemma split_on_no_sep: "s \<in> set (split_on d t) \<Longrightarrow> d \<notin> set s"
proof (induction t arbitrary: s)
  case (Cons c cs)
  then show ?case by (cases "split_on d cs") (auto split: if_splits)
qed simp

lemma split_on_chars: "s \<in> set (split_on d t) \<Longrightarrow> set s \<subseteq> set t"
proof (induction t arbitrary: s)
  case (Cons c cs)
  then show ?case by (cases "split_on d cs") (fastforce split: if_splits)+
qed simp

lemma join_with_chars: "set (join_with d ss) \<subseteq> insert d (\<Union>s\<in>set ss. set s)"
  by (induction ss rule: join_with.induct) auto

lemma join_with_Nil_iff: "list_all (\<lambda>s. s \<noteq> []) ss \<Longrightarrow> join_with d ss = [] \<longleftrightarrow> ss = []"
  by (cases "(d, ss)" rule: join_with.cases) auto

definition proper :: "string \<Rightarrow> bool" where
  "proper s \<longleftrightarrow> s \<noteq> [] \<and> s \<noteq> ''.'' \<and> s \<noteq> ''..''"

definition segment :: "string \<Rightarrow> bool" where
  "segment s \<longleftrightarrow> s \<noteq> [] \<and> s \<noteq> ''.'' \<and> slash \<notin> set s"

text \<open>The stack of kept segments: proper ones above a run of parent steps.\<close>

definition stack_ok :: "string list \<Rightarrow> bool" where
  "stack_ok st \<longleftrightarrow> (\<exists>xs n. st = xs @ replicate n ''..'' \<and> list_all proper xs)"

lemma push_segment_ok:
  assumes "stack_ok st"
  shows "stack_ok (push_segment st seg)"
proof -
  from assms obtain xs n where st: "st = xs @ replicate n ''..''" "list_all proper xs"
    by (auto simp: stack_ok_def)
  consider "seg = [] \<or> seg = ''.''" | "seg = ''..''" | "proper seg" by (auto simp: proper_def)
  then show ?thesis
  proof cases
    case 1
    then show ?thesis using assms by simp
  next
    case 2
    show ?thesis
    proof (cases xs)
      case Nil
      then have "push_segment st seg = [] @ replicate (Suc n) ''..''"
        using 2 st by (cases n) auto
      then show ?thesis unfolding stack_ok_def by (metis list.pred_inject(1))
    next
      case (Cons x xs')
      then have "push_segment st seg = xs' @ replicate n ''..''"
        using 2 st by (auto simp: proper_def)
      then show ?thesis using Cons st(2) unfolding stack_ok_def by auto
    qed
  next
    case 3
    then have "push_segment st seg = (seg # xs) @ replicate n ''..''"
      using st by (auto simp: proper_def)
    then show ?thesis using 3 st(2) unfolding stack_ok_def by (metis list.pred_inject(2))
  qed
qed

lemma push_segments_ok: "stack_ok st \<Longrightarrow> stack_ok (foldl push_segment st segs)"
  by (induction segs arbitrary: st) (simp_all add: push_segment_ok del: push_segment.simps)

lemma push_segment_set: "set (push_segment st seg) \<subseteq> insert seg (set st)"
  by (auto split: list.splits if_splits)

lemma push_segments_set: "set (foldl push_segment st segs) \<subseteq> set segs \<union> set st"
proof (induction segs arbitrary: st)
  case (Cons seg segs)
  then show ?case using push_segment_set [of st seg] by (fastforce simp del: push_segment.simps)
qed simp

lemma normal_segments_form:
  "\<exists>n xs. normal_segments s = replicate n ''..'' @ xs \<and> list_all proper xs"
proof -
  have "stack_ok []" by (simp add: stack_ok_def)
  from push_segments_ok [OF this, of "split_on slash s"] obtain xs n where
    "foldl push_segment [] (split_on slash s) = xs @ replicate n ''..''" "list_all proper xs"
    by (auto simp: stack_ok_def)
  then have "normal_segments s = replicate n ''..'' @ rev xs" "list_all proper (rev xs)"
    by (simp_all add: normal_segments_def)
  then show ?thesis by blast
qed

lemma normal_segments_no_slash: "seg \<in> set (normal_segments s) \<Longrightarrow> slash \<notin> set seg"
  using push_segments_set [of "[]" "split_on slash s"] split_on_no_sep
  by (fastforce simp: normal_segments_def)

lemma normal_segments_chars: "seg \<in> set (normal_segments s) \<Longrightarrow> set seg \<subseteq> set s"
  using push_segments_set [of "[]" "split_on slash s"] split_on_chars
  by (fastforce simp: normal_segments_def)

lemma foldl_push_proper: "list_all proper segs \<Longrightarrow> foldl push_segment st segs = rev segs @ st"
  by (induction segs arbitrary: st) (auto simp: proper_def)

subsection \<open>The normal form of a path\<close>

lemma join_head_segment:
  assumes "\<forall>s\<in>set segs. slash \<notin> set s" and "starts_with (join_with slash segs) (a @ ''/'')" and "slash \<notin> set a"
  shows "\<exists>rest. segs = a # rest"
proof (cases segs)
  case Nil
  with assms(2) show ?thesis by (simp add: starts_with_iff)
next
  case (Cons x xs)
  from assms(2) obtain rest where "join_with slash segs = a @ slash # rest" by (auto simp: starts_with_iff)
  then have "split_on slash (join_with slash segs) = a # split_on slash rest"
    using assms(3) by (simp add: split_on_append)
  moreover have "split_on slash (join_with slash segs) = segs"
    using assms(1) Cons by (intro split_join) auto
  ultimately show ?thesis by simp
qed

lemma last_join_with:
  "segs \<noteq> [] \<Longrightarrow> list_all (\<lambda>s. s \<noteq> []) segs \<Longrightarrow> last (join_with d segs) = last (last segs)"
proof (induction d segs rule: join_with.induct)
  case (3 d s t ss)
  then show ?case by (auto simp: join_with_Nil_iff)
qed auto

lemma join_not_slash_ended:
  assumes "list_all proper segs" and "\<forall>s\<in>set segs. slash \<notin> set s"
  shows "\<not> ends_with_slash (join_with slash segs)"
proof (cases "segs = []")
  case False
  then have "last segs \<in> set segs" by simp
  then have "last segs \<noteq> []" "slash \<notin> set (last segs)"
    using assms by (auto simp: proper_def list_all_iff)
  then have "last (last segs) \<noteq> slash" by (metis last_in_set)
  moreover have "list_all (\<lambda>s. s \<noteq> []) segs" using assms(1) by (auto simp: proper_def list_all_iff)
  ultimately show ?thesis using False by (simp add: ends_with_slash_def last_join_with)
qed (simp add: ends_with_slash_def)

definition forward :: "string \<Rightarrow> string" where
  "forward v = replace_char backslash slash v"

lemma normalize_proper:
  assumes "list_all proper segs" and "segs \<noteq> []" and "\<forall>s\<in>set segs. slash \<notin> set s"
    and b: "b = join_with slash segs" and n: "n = b \<or> n = b @ [slash]"
  shows "drop_dot_slash n = n" and "n \<noteq> ''..''" and "\<not> starts_with n ''../''" and "n \<noteq> ''.''"
    and "drop_last_slash n = b"
proof -
  obtain x xs where segs: "segs = x # xs" "proper x" using assms(1,2) by (cases segs) auto
  have b0: "b \<noteq> []" using assms(1,2) unfolding b by (subst join_with_Nil_iff) (auto simp: proper_def list_all_iff)
  have nb: "\<not> ends_with_slash b" unfolding b by (rule join_not_slash_ended [OF assms(1,3)])
  have "n = join_with slash segs \<or> n = join_with slash (segs @ [[]])"
  proof -
    have "join_with slash (segs @ [[]]) = join_with slash segs @ [slash]"
      using assms(2) by (induction segs rule: join_with.induct) auto
    with n b show ?thesis by simp
  qed
  then obtain segs' where n': "n = join_with slash segs'" "segs' = segs \<or> segs' = segs @ [[]]" by blast
  then have sl: "\<forall>s\<in>set segs'. slash \<notin> set s" using assms(3) by auto
  have hd': "\<exists>r. segs' = x # r" using n'(2) segs(1) by auto
  have ns: "\<not> starts_with n (a @ ''/'')" if "slash \<notin> set a" "a = ''.'' \<or> a = ''..''" for a
    using join_head_segment [OF sl, of a] that hd' segs(2) n'(1) by (auto simp: proper_def)
  from ns [of "''.''"] show "drop_dot_slash n = n" by (simp add: drop_dot_slash_def)
  from ns [of "''..''"] show "\<not> starts_with n ''../''" by simp
  have "split_on slash n = segs'" using n' sl assms(2) by (auto intro: split_join)
  then show "n \<noteq> ''..''" and "n \<noteq> ''.''" using hd' segs(2) by (auto simp: proper_def)
  show "drop_last_slash n = b"
    using n nb by (auto simp: drop_last_slash_def ends_with_slash_def)
qed

lemma normalize_parent:
  assumes "normal_segments s = ''..'' # rest"
  shows "\<exists>n. drop_dot_slash (posix_normalize s) = n \<and> (n = ''..'' \<or> starts_with n ''../'')"
proof -
  have "posix_normalize s = ''..'' \<or> starts_with (posix_normalize s) ''../''"
    using assms by (cases rest) (auto simp: posix_normalize_def starts_with_iff Let_def)
  moreover from this have "drop_dot_slash (posix_normalize s) = posix_normalize s"
    by (auto simp: drop_dot_slash_def starts_with_iff)
  ultimately show ?thesis by simp
qed

text \<open>What \<open>normalizePolicyPath\<close> accepts and returns.\<close>

lemma normalize_iff [res_simps]:
  "normalizePolicyPath v f = Inr p \<longleftrightarrow>
     v \<noteq> [] \<and> CHR 0x00 \<notin> set v \<and> \<not> starts_with (forward v) ''/'' \<and> \<not> has_drive (forward v) \<and>
     list_all proper (normal_segments (forward v)) \<and>
     (normal_segments (forward v) = [] \<longrightarrow> ends_with_slash (forward v)) \<and>
     p = join_with slash (normal_segments (forward v))"
proof -
  let ?s = "forward v"
  let ?segs = "normal_segments ?s"
  let ?n = "drop_dot_slash (posix_normalize ?s)"
  have sl: "\<forall>s\<in>set ?segs. slash \<notin> set s" using normal_segments_no_slash by blast
  have core: "(if ?n = ''..'' \<or> starts_with ?n ''../'' \<or> ?n = ''.'' then Inl e else Inr (drop_last_slash ?n)) = Inr p \<longleftrightarrow>
      list_all proper ?segs \<and> (?segs = [] \<longrightarrow> ends_with_slash ?s) \<and> p = join_with slash ?segs" for e :: js_error
  proof (cases "?segs = []")
    case True
    then have "?n = (if ends_with_slash ?s then [] else ''.'')"
      by (auto simp: posix_normalize_def drop_dot_slash_def starts_with_def)
    with True show ?thesis by (auto simp: starts_with_def drop_last_slash_def ends_with_slash_def)
  next
    case False
    obtain k xs where form: "?segs = replicate k ''..'' @ xs" "list_all proper xs"
      using normal_segments_form by blast
    show ?thesis
    proof (cases k)
      case 0
      let ?b = "join_with slash ?segs"
      have "?b \<noteq> []" using form 0 False by (subst join_with_Nil_iff) (auto simp: proper_def list_all_iff)
      then have pn: "posix_normalize ?s = ?b \<or> posix_normalize ?s = ?b @ [slash]"
        by (simp add: posix_normalize_def Let_def)
      from form 0 have ok: "list_all proper ?segs" by simp
      note np = normalize_proper [OF ok False sl refl pn]
      from np(1-4) have "?n = posix_normalize ?s" "\<not> (?n = ''..'' \<or> starts_with ?n ''../'' \<or> ?n = ''.'')"
        by auto
      with np(5) ok False show ?thesis by auto
    next
      case (Suc m)
      then have "?segs = ''..'' # (replicate m ''..'' @ xs)" using form by simp
      with normalize_parent [OF this] show ?thesis by (auto simp: proper_def)
    qed
  qed
  show ?thesis
    using core [of undefined] unfolding normalizePolicyPath_def Let_def forward_def [symmetric]
    by (simp only: if_Inl_eq_Inr de_Morgan_disj conj_assoc)
qed

lemma normalize_field: "normalizePolicyPath v f = Inr p \<Longrightarrow> normalizePolicyPath v g = Inr p"
  by (simp add: normalize_iff)

lemma normal_segments_proper: "list_all proper (split_on slash p) \<Longrightarrow> normal_segments p = split_on slash p"
  by (simp add: normal_segments_def foldl_push_proper)

lemma normalized_segments:
  assumes "normalizePolicyPath v f = Inr p"
  shows "p = [] \<or> list_all proper (split_on slash p)"
proof -
  let ?segs = "normal_segments (forward v)"
  from assms have p: "list_all proper ?segs" "p = join_with slash ?segs" by (simp_all add: normalize_iff)
  show ?thesis
  proof (cases "?segs = []")
    case False
    then have "split_on slash p = ?segs"
      using p(2) normal_segments_no_slash by (metis split_join)
    with p(1) show ?thesis by simp
  qed (use p(2) in simp)
qed

lemma forward_chars: "set (forward v) \<subseteq> insert slash (set v - {backslash})"
  by (auto simp: forward_def replace_char_def)

lemma normalized_chars:
  assumes "normalizePolicyPath v f = Inr p"
  shows "backslash \<notin> set p" and "CHR 0x00 \<notin> set p"
proof -
  from assms have p: "p = join_with slash (normal_segments (forward v))" "CHR 0x00 \<notin> set v"
    by (simp_all add: normalize_iff)
  have "set p \<subseteq> insert slash (set (forward v))"
    using join_with_chars normal_segments_chars unfolding p(1) by fastforce
  also have "\<dots> \<subseteq> insert slash (set v - {backslash})" using forward_chars [of v] by blast
  finally have sub: "set p \<subseteq> insert slash (set v - {backslash})" .
  then show "backslash \<notin> set p" by (auto simp: backslash_def)
  from sub p(2) show "CHR 0x00 \<notin> set p" by auto
qed

lemma forward_id: "backslash \<notin> set p \<Longrightarrow> forward p = p"
  by (induction p) (auto simp: forward_def replace_char_def)

lemma starts_with_slash: "starts_with p ''/'' \<longleftrightarrow> (\<exists>cs. p = slash # cs)"
  by (simp add: starts_with_iff)

text \<open>A normalised path is its own normal form, with two exceptions the function lets through: the
  empty text (made of \<^verbatim>\<open>./\<close>) and a text that reads as a drive (\<^verbatim>\<open>a/../C:/x\<close>).\<close>

definition stable_path :: "string \<Rightarrow> bool" where
  "stable_path p \<longleftrightarrow> p \<noteq> [] \<and> \<not> has_drive p"

lemma normalize_again:
  assumes "normalizePolicyPath v f = Inr p"
  shows "normalizePolicyPath p g = Inr p \<longleftrightarrow> stable_path p"
proof (cases "p = []")
  case True
  then show ?thesis by (simp add: normalize_iff stable_path_def)
next
  case False
  with normalized_segments [OF assms] have segs: "list_all proper (split_on slash p)" by simp
  have "\<not> starts_with p ''/''"
  proof
    assume "starts_with p ''/''"
    then obtain cs where "split_on slash p = [] # split_on slash cs" by (auto simp: starts_with_slash)
    with segs show False by (simp add: proper_def)
  qed
  with False normalized_chars [OF assms] segs show ?thesis
    by (simp add: normalize_iff forward_id stable_path_def normal_segments_proper)
qed

subsection \<open>Glob patterns\<close>

text \<open>The texts one part of a pattern stands for.\<close>

fun token_text :: "glob_token \<Rightarrow> string \<Rightarrow> bool" where
  "token_text AnyDeep s = list_all (\<lambda>c. \<not> line_end c) s"
| "token_text AnyInSegment s = list_all (\<lambda>c. c \<noteq> slash) s"
| "token_text OneInSegment s = (length s = 1 \<and> list_all (\<lambda>c. c \<noteq> slash) s)"
| "token_text (Exactly d) s = (s = [d])"

definition glob_reads :: "glob_token list \<Rightarrow> string \<Rightarrow> bool" where
  "glob_reads ts s \<longleftrightarrow> (\<exists>pieces. concat pieces = s \<and> list_all2 token_text ts pieces)"

lemma glob_reads_Nil [simp]: "glob_reads [] s \<longleftrightarrow> s = []"
  by (auto simp: glob_reads_def)

lemma glob_reads_Cons: "glob_reads (t # ts) s \<longleftrightarrow> (\<exists>a b. s = a @ b \<and> token_text t a \<and> glob_reads ts b)"
proof
  assume "glob_reads (t # ts) s"
  then obtain a ps where "s = a @ concat ps" "token_text t a" "list_all2 token_text ts ps"
    by (auto simp: glob_reads_def list_all2_Cons1)
  then show "\<exists>a b. s = a @ b \<and> token_text t a \<and> glob_reads ts b"
    unfolding glob_reads_def by blast
next
  assume "\<exists>a b. s = a @ b \<and> token_text t a \<and> glob_reads ts b"
  then obtain a ps where "s = a @ concat ps" "token_text t a" "list_all2 token_text ts ps"
    by (auto simp: glob_reads_def)
  then show "glob_reads (t # ts) s"
    unfolding glob_reads_def by (intro exI [of _ "a # ps"]) simp
qed

lemma run_Cons:
  "(\<exists>a b. c # cs = a @ b \<and> list_all P a \<and> Q b) \<longleftrightarrow>
     Q (c # cs) \<or> P c \<and> (\<exists>a b. cs = a @ b \<and> list_all P a \<and> Q b)" (is "?l \<longleftrightarrow> ?r")
proof
  assume ?l
  then obtain a b where ab: "c # cs = a @ b" "list_all P a" "Q b" by blast
  then show ?r by (cases a) auto
next
  assume ?r
  then consider "Q (c # cs)" | a b where "P c" "cs = a @ b" "list_all P a" "Q b" by blast
  then show ?l
  proof cases
    case 1
    then show ?thesis by (intro exI [of _ "[]"] exI [of _ "c # cs"]) simp
  next
    case (2 a b)
    then show ?thesis by (intro exI [of _ "c # a"] exI [of _ b]) simp
  qed
qed

lemma glob_test_reads: "glob_test ts s \<longleftrightarrow> glob_reads ts s"
proof (induction ts s rule: glob_test.induct)
  case (3 ts c cs)
  then show ?case by (simp only: glob_test.simps glob_reads_Cons token_text.simps run_Cons)
next
  case (5 ts c cs)
  then show ?case by (simp only: glob_test.simps glob_reads_Cons token_text.simps run_Cons)
next
  case (7 ts c cs)
  have one: "token_text OneInSegment a \<longleftrightarrow> (\<exists>x. a = [x] \<and> x \<noteq> slash)" for a
    by (cases a) auto
  show ?case by (simp only: glob_test.simps 7 glob_reads_Cons one) (auto intro: exI [of _ "[c]"])
qed (auto simp: glob_reads_Cons Cons_eq_append_conv)

text \<open>
  What a pattern means, said of its text and without the translation: two stars stand for any text
  without line ends, one star for any text without slashes, a question mark for one character
  that is no slash, and every other character for itself.
\<close>

inductive matches_glob :: "string \<Rightarrow> string \<Rightarrow> bool" where
  finished: "matches_glob [] []"
| two_stars: "list_all (\<lambda>c. c \<notin> {CHR 0x0A, CHR 0x0D}) t \<Longrightarrow> matches_glob g p \<Longrightarrow>
     matches_glob (CHR ''*'' # CHR ''*'' # g) (t @ p)"
| one_star: "slash \<notin> set t \<Longrightarrow> g = [] \<or> hd g \<noteq> CHR ''*'' \<Longrightarrow> matches_glob g p \<Longrightarrow>
     matches_glob (CHR ''*'' # g) (t @ p)"
| question: "c \<noteq> slash \<Longrightarrow> matches_glob g p \<Longrightarrow> matches_glob (CHR ''?'' # g) (c # p)"
| itself: "c \<noteq> CHR ''*'' \<Longrightarrow> c \<noteq> CHR ''?'' \<Longrightarrow> matches_glob g p \<Longrightarrow> matches_glob (c # g) (c # p)"

inductive_simps matches_glob_simps:
  "matches_glob [] p" "matches_glob (CHR ''*'' # g) p" "matches_glob (CHR ''?'' # g) p" "matches_glob (c # g) p"

lemma glob_reads_pattern: "glob_reads (globToRegExp g) p \<longleftrightarrow> matches_glob g p"
proof (induction g arbitrary: p rule: globToRegExp.induct)
  case 1
  then show ?case by (simp add: matches_glob_simps(1))
next
  case (2 c cs)
  have slashes: "list_all (\<lambda>c. c \<noteq> slash) t \<longleftrightarrow> slash \<notin> set t" for t :: string
    by (induction t) auto
  consider (star) "c = CHR ''*''" "cs = [] \<or> hd cs \<noteq> CHR ''*''" | (stars) ds where "c = CHR ''*''" "cs = CHR ''*'' # ds"
    | (question) "c = CHR ''?''" | (other) "c \<noteq> CHR ''*''" "c \<noteq> CHR ''?''"
    by (cases cs) auto
  then show ?case
  proof cases
    case star
    then have "globToRegExp (c # cs) = AnyInSegment # globToRegExp cs" by (cases cs) auto
    moreover have "glob_reads (globToRegExp cs) b \<longleftrightarrow> matches_glob cs b" for b
      using star 2(2) by (cases cs) (auto simp: matches_glob_simps(1))
    ultimately show ?thesis using star
      by (auto simp: glob_reads_Cons matches_glob_simps(2) slashes)
  next
    case (stars ds)
    with 2(1) have "glob_reads (globToRegExp ds) b \<longleftrightarrow> matches_glob ds b" for b by simp
    with stars show ?thesis by (auto simp: glob_reads_Cons matches_glob_simps(2) line_end_def)
  next
    case question
    have one: "token_text OneInSegment a \<longleftrightarrow> (\<exists>x. a = [x] \<and> x \<noteq> slash)" for a
      by (cases a) auto
    have pick: "(\<exists>a b. p = a @ b \<and> (\<exists>x. a = [x] \<and> x \<noteq> slash) \<and> Q b) \<longleftrightarrow> (\<exists>x b. p = x # b \<and> x \<noteq> slash \<and> Q b)" for Q
      by (metis append.simps)
    from question 2(3) show ?thesis
      by (simp add: glob_reads_Cons one pick matches_glob_simps(3) del: token_text.simps)
  next
    case other
    with 2(4) show ?thesis by (auto simp: glob_reads_Cons matches_glob_simps(4))
  qed
qed

lemma under_iff: "under p g \<longleftrightarrow> p = g \<or> (\<exists>rest. p = g @ slash # rest)"
  by (auto simp: under_def starts_with_iff)

subsection \<open>Validated policies\<close>

lemma mapE_Inr_iff: "mapE f xs = Inr ys \<longleftrightarrow> list_all2 (\<lambda>x y. f x = Inr y) xs ys"
  by (induction xs arbitrary: ys) (auto simp: bindE_eq_Inr list_all2_Cons1)

lemma set_indexed: "(i, x) \<in> set (indexed xs) \<Longrightarrow> x \<in> set xs"
  by (auto simp: indexed_def dest: set_zip_rightD)

lemma list_all2_indexed:
  "list_all2 (\<lambda>(i, x). P i x) (indexed xs) ys \<longleftrightarrow>
     length xs = length ys \<and> (\<forall>i<length xs. P i (xs ! i) (ys ! i))"
  by (auto simp: list_all2_conv_all_nth indexed_def split: prod.splits)

lemma mapE_indexed:
  "mapE (\<lambda>(i, x). f i x) (indexed xs) = Inr ys \<longleftrightarrow>
     length xs = length ys \<and> (\<forall>i<length xs. f i (xs ! i) = Inr (ys ! i))"
proof -
  have "(\<lambda>x y. (case x of (i, x) \<Rightarrow> f i x) = Inr y) = (\<lambda>(i, x). (\<lambda>y. f i x = Inr y))"
    by (auto simp: fun_eq_iff)
  then show ?thesis
    using list_all2_indexed [of "\<lambda>i x y. f i x = Inr y" xs ys] by (simp add: mapE_Inr_iff)
qed

lemma pathArray_paths:
  assumes "pathArray items field = Inr ps"
  shows "sorted ps" and "distinct ps" and "\<forall>p\<in>set ps. \<exists>v f. normalizePolicyPath v f = Inr p"
proof -
  from assms obtain xs qs where
    "mapE (\<lambda>(i, x). normalizePolicyPath (js_string x) (at_index field i)) (indexed xs) = Inr qs"
    "ps = sort (remdups qs)"
    by (auto simp: pathArray_def bindE_eq_Inr split: option.splits json.splits)
  then show "sorted ps" and "distinct ps" and "\<forall>p\<in>set ps. \<exists>v f. normalizePolicyPath v f = Inr p"
    by (auto simp: mapE_indexed in_set_conv_nth) blast
qed

lemma pathArray_again:
  assumes "pathArray items field = Inr ps" and "\<forall>p\<in>set ps. stable_path p"
  shows "pathArray (Some (JArr (map JStr ps))) field = Inr ps"
proof -
  note ps = pathArray_paths [OF assms(1)]
  have "normalizePolicyPath p g = Inr p" if "p \<in> set ps" for p g
    using that ps(3) assms(2) normalize_again by blast
  then have "mapE (\<lambda>(i, x). normalizePolicyPath (js_string x) (at_index field i)) (indexed (map JStr ps)) = Inr ps"
    by (simp add: mapE_indexed)
  with ps(1,2) show ?thesis by (simp add: pathArray_def distinct_remdups_id sorted_sort_id)
qed

lemma string_items_JStr [simp]: "string_items (Some (JArr (map JStr ss))) = ss"
  by (induction ss) (simp_all add: List.map_filter_simps)

lemma strings_of_again: "list_all ok ss \<Longrightarrow> strings_of ok (Some (JArr (map JStr ss))) = Some ss"
  by (simp add: strings_of_def list_all_iff del: string_items.simps)

lemma strings_of_ok:
  assumes "strings_of ok v = Some ss"
  shows "list_all ok ss"
proof -
  from assms obtain xs where xs: "list_all (\<lambda>x. case x of JStr s \<Rightarrow> ok s | _ \<Rightarrow> False) xs"
    "ss = string_items (Some (JArr xs))"
    by (auto simp: strings_of_def split: option.splits json.splits if_splits)
  from xs(1) have "list_all ok (string_items (Some (JArr xs)))"
    by (induction xs) (auto simp: List.map_filter_simps split: json.splits)
  with xs(2) show ?thesis by simp
qed

lemma assertPositiveInteger_Inr [res_simps]:
  "assertPositiveInteger v f = Inr n \<longleftrightarrow> num_or_null v = Some n \<and> 0 < n"
  by (auto simp: assertPositiveInteger_def split: option.splits)

lemma validateCheck_Inr:
  "validateCheck v i = Inr c \<Longrightarrow>
     js_truthy (Some (rc_id c)) \<and> is_check_id (js_string (rc_id c)) \<and>
     rc_runner c \<in> {''node'', ''python'', ''binary''} \<and> rc_entrypoint c \<noteq> [] \<and>
     (\<forall>f. normalizePolicyPath (rc_entrypoint c) f = Inr (rc_entrypoint c)) \<and>
     \<not> starts_with (rc_entrypoint c) ''../'' \<and>
     list_all (\<lambda>s. CHR 0x00 \<notin> set s) (rc_args c) \<and> 0 < rc_timeoutMs c \<and> 0 < rc_scratchBytes c"
  unfolding validateCheck_def Let_def
  by (auto simp: res_simps bindE_eq_Inr dest: strings_of_ok split: if_splits option.splits intro: normalize_field
      simp del: normalize_iff)

lemma validateCheck_again:
  assumes "validateCheck v i = Inr c"
  shows "validateCheck (check_json c) k = Inr c"
proof -
  note c = validateCheck_Inr [OF assms]
  then have args: "strings_of (\<lambda>s. CHR 0x00 \<notin> set s) (Some (JArr (map JStr (rc_args c)))) = Some (rc_args c)"
    by (simp add: strings_of_again)
  have num: "0 < n \<Longrightarrow> assertPositiveInteger (Some (JNum n)) f = Inr n" for n f
    by (simp add: assertPositiveInteger_def)
  have f: "jfield (check_json c) ''id'' = Some (rc_id c)"
    "jfield (check_json c) ''runner'' = Some (JStr (rc_runner c))"
    "jfield (check_json c) ''entrypoint'' = Some (JStr (rc_entrypoint c))"
    "jfield (check_json c) ''args'' = Some (JArr (map JStr (rc_args c)))"
    "jfield (check_json c) ''timeoutMs'' = Some (JNum (rc_timeoutMs c))"
    "jfield (check_json c) ''scratchBytes'' = Some (JNum (rc_scratchBytes c))"
    "is_object (Some (check_json c))"
    by (simp_all add: check_json_def)
  have r: "rc_runner c \<in> set [''node'', ''python'', ''binary'']" using c by simp
  show ?thesis
    unfolding validateCheck_def Let_def f str_or_null.simps option.case args
    using c r f(7) by (simp add: num)
qed

definition policy_paths :: "policy \<Rightarrow> string list" where
  "policy_paths p = protectedPaths p @ platformManagedPaths p @ ignoredEphemeralNames p"

lemma policy_fields:
  "jfield (policy_json p) ''schemaVersion'' = Some (JNum 1)"
  "jfield (policy_json p) ''protectedPaths'' = Some (JArr (map JStr (protectedPaths p)))"
  "jfield (policy_json p) ''platformManagedPaths'' = Some (JArr (map JStr (platformManagedPaths p)))"
  "jfield (policy_json p) ''ignoredEphemeralNames'' = Some (JArr (map JStr (ignoredEphemeralNames p)))"
  "jfield (policy_json p) ''maxChangedFiles'' = Some (JNum (maxChangedFiles p))"
  "jfield (policy_json p) ''maxChangedBytes'' = Some (JNum (maxChangedBytes p))"
  "jfield (policy_json p) ''maxSingleFileBytes'' = Some (JNum (maxSingleFileBytes p))"
  "jfield (policy_json p) ''verifierTimeoutMs'' = Some (JNum (verifierTimeoutMs p))"
  "jfield (policy_json p) ''verifierMaxOutputBytes'' = Some (JNum (verifierMaxOutputBytes p))"
  "jfield (policy_json p) ''canaryPatterns'' = Some (JArr (map JStr (canaryPatterns p)))"
  "jfield (policy_json p) ''requiredChecks'' = Some (JArr (map check_json (requiredChecks p)))"
  "is_object (Some (policy_json p))"
  by (simp_all add: policy_json_def)

text \<open>What validation establishes of the policy it returns.\<close>

definition policy_ok :: "policy \<Rightarrow> bool" where
  "policy_ok p \<longleftrightarrow>
     (\<exists>a. pathArray a ''protectedPaths'' = Inr (protectedPaths p)) \<and>
     (\<exists>a. pathArray a ''platformManagedPaths'' = Inr (platformManagedPaths p)) \<and>
     (\<exists>a. pathArray a ''ignoredEphemeralNames'' = Inr (ignoredEphemeralNames p)) \<and>
     list_all (\<lambda>n. slash \<notin> set n) (ignoredEphemeralNames p) \<and>
     0 < maxChangedFiles p \<and> 0 < maxChangedBytes p \<and> 0 < maxSingleFileBytes p \<and>
     0 < verifierTimeoutMs p \<and> 0 < verifierMaxOutputBytes p \<and>
     list_all (\<lambda>c. c \<noteq> []) (canaryPatterns p) \<and>
     (\<forall>c\<in>set (requiredChecks p). \<exists>v i. validateCheck v i = Inr c) \<and>
     distinct (map rc_id (requiredChecks p))"

lemma mapE_checks:
  assumes "mapE (\<lambda>(i, c). validateCheck c i) (indexed cs) = Inr checks"
  shows "\<forall>c\<in>set checks. \<exists>v i. validateCheck v i = Inr c"
  using assms by (auto simp: mapE_indexed in_set_conv_nth) blast

lemma required_checks_ok:
  "required_checks v = Inr cs \<Longrightarrow> (\<forall>c\<in>set cs. \<exists>v i. validateCheck v i = Inr c) \<and> distinct (map rc_id cs)"
  by (auto simp: required_checks_def bindE_eq_Inr if_Inl_eq_Inr dest: mapE_checks split: option.splits json.splits)

lemma canary_patterns_ok: "canary_patterns v = Inr cs \<Longrightarrow> list_all (\<lambda>c. c \<noteq> []) cs"
  by (auto simp: canary_patterns_def dest!: strings_of_ok split: option.splits)

lemma validatePolicy_ok: "validatePolicy j = Inr p \<Longrightarrow> policy_ok p"
  unfolding validatePolicy_def if_Inl_eq_Inr bindE_eq_Inr assertPositiveInteger_Inr policy_ok_def
  by (elim exE conjE, drule canary_patterns_ok, drule required_checks_ok)
    (auto simp: list_ex_iff list_all_iff)

lemma policy_ok_validates:
  assumes "policy_ok p" and "list_all stable_path (policy_paths p)"
  shows "validatePolicy (policy_json p) = Inr p"
proof -
  have st: "\<forall>q\<in>set (protectedPaths p). stable_path q" "\<forall>q\<in>set (platformManagedPaths p). stable_path q"
    "\<forall>q\<in>set (ignoredEphemeralNames p). stable_path q"
    using assms(2) by (auto simp: policy_paths_def list_all_iff)
  from assms(1) have arr:
    "pathArray (Some (JArr (map JStr (protectedPaths p)))) ''protectedPaths'' = Inr (protectedPaths p)"
    "pathArray (Some (JArr (map JStr (platformManagedPaths p)))) ''platformManagedPaths'' = Inr (platformManagedPaths p)"
    "pathArray (Some (JArr (map JStr (ignoredEphemeralNames p)))) ''ignoredEphemeralNames'' = Inr (ignoredEphemeralNames p)"
    using st pathArray_again unfolding policy_ok_def by blast+
  have checks: "mapE (\<lambda>(i, c). validateCheck c i) (indexed (map check_json (requiredChecks p))) = Inr (requiredChecks p)"
    using assms(1) validateCheck_again unfolding policy_ok_def mapE_indexed by (metis length_map nth_map nth_mem)
  have ints: "0 < n \<Longrightarrow> assertPositiveInteger (Some (JNum n)) f = Inr n" for n f
    by (simp add: assertPositiveInteger_def)
  have can: "strings_of (\<lambda>s. s \<noteq> []) (Some (JArr (map JStr (canaryPatterns p)))) = Some (canaryPatterns p)"
    using assms(1) by (intro strings_of_again) (simp add: policy_ok_def)
  have ign: "\<not> list_ex (\<lambda>n. slash \<in> set n) (ignoredEphemeralNames p)"
    using assms(1) by (auto simp: policy_ok_def list_ex_iff list_all_iff)
  show ?thesis
    unfolding validatePolicy_def policy_fields arr bindE_Inr canary_patterns_def can option.case
      required_checks_def json.case checks
    using assms(1) ign policy_fields(12) by (simp add: ints policy_ok_def)
qed

lemma check_json_inj [simp]: "check_json c = check_json d \<longleftrightarrow> c = d"
proof
  assume "check_json c = check_json d"
  then show "c = d" by (auto simp: check_json_def dest: map_injective [OF _ injI [of JStr]])
qed simp

lemma policy_json_inj: "policy_json p = policy_json q \<Longrightarrow> p = q"
proof -
  assume e: "policy_json p = policy_json q"
  have inj: "inj JStr" "inj check_json" by (auto intro: injI)
  from e show "p = q"
    by (auto simp: policy_json_def inj_map_eq_map [OF inj(1)] inj_map_eq_map [OF inj(2)])
qed

subsection \<open>Properties\<close>

text \<open>A policy or workspace path that is accepted stays inside the workspace: its normal form is a list
  of proper segments (none empty, \<^verbatim>\<open>.\<close> or \<^verbatim>\<open>..\<close>), without backslashes
  or NUL and not absolute, and normalising it again changes nothing; the two exceptions, the empty text
  and a text that reads as a drive, are exactly the results that a second normalisation rejects.\<close>

theorem policy_path_contained:
  assumes "normalizePolicyPath v f = Inr p"
  shows "(p = [] \<or> list_all proper (split_on slash p)) \<and> \<not> starts_with p ''/'' \<and>
    backslash \<notin> set p \<and> CHR 0x00 \<notin> set p \<and>
    (normalizePolicyPath p g = Inr p \<longleftrightarrow> stable_path p)"
proof -
  have "\<not> starts_with p ''/''"
  proof
    assume "starts_with p ''/''"
    then obtain cs where "p = slash # cs" by (auto simp: starts_with_slash)
    then show False using normalized_segments [OF assms] by (simp add: proper_def)
  qed
  then show ?thesis
    using normalized_segments [OF assms] normalized_chars [OF assms] normalize_again [OF assms] by blast
qed

theorem policy_path_contained_witness:
  "normalizePolicyPath (''src/'' @ ''../lib//a.ts'') ''path'' = Inr ''lib/a.ts'' \<and>
   list_all proper (split_on slash ''lib/a.ts'') \<and> normalizePolicyPath ''../x'' ''path'' = Inl (JsError ''path escapes the workspace'')"
proof -
  have n: "normalizePolicyPath (''src/'' @ ''../lib//a.ts'') ''path'' = Inr ''lib/a.ts''" by code_simp
  have "normalizePolicyPath ''../x'' ''path'' = Inl (JsError ''path escapes the workspace'')" by code_simp
  with n policy_path_contained [OF n] show ?thesis by blast
qed

text \<open>C33: A protected path pattern matches what it says. Without wildcards it matches the named path and
  everything below it; with wildcards it matches exactly the paths its text stands for, where
  \<^verbatim>\<open>**\<close> is any text without line ends, \<^verbatim>\<open>*\<close> any text without slashes,
  \<^verbatim>\<open>?\<close> one character that is no slash, and every other character itself.\<close>

theorem pattern_meaning:
  assumes "normalizePolicyPath path ''workspace path'' = Inr p"
    and "normalizePolicyPath raw ''policy pattern'' = Inr g"
  shows "pathMatches path [raw] =
    Inr (if CHR ''*'' \<in> set g \<or> CHR ''?'' \<in> set g then matches_glob g p
         else p = g \<or> (\<exists>rest. p = g @ slash # rest))"
  using assms by (simp add: pathMatches_def glob_test_reads glob_reads_pattern under_iff is_glob_def del: normalize_iff)

theorem pattern_meaning_witness:
  "matches_glob ''infra/**/?.yaml'' ''infra/eu/west/a.yaml'' \<and> \<not> matches_glob ''infra/*/?.yaml'' ''infra/eu/west/a.yaml''"
proof -
  have n: "normalizePolicyPath ''infra/eu/west/a.yaml'' ''workspace path'' = Inr ''infra/eu/west/a.yaml''"
    "normalizePolicyPath ''infra/**/?.yaml'' ''policy pattern'' = Inr ''infra/**/?.yaml''"
    "normalizePolicyPath ''infra/*/?.yaml'' ''policy pattern'' = Inr ''infra/*/?.yaml''" by code_simp+
  have "pathMatches ''infra/eu/west/a.yaml'' [''infra/**/?.yaml''] = Inr True"
    "pathMatches ''infra/eu/west/a.yaml'' [''infra/*/?.yaml''] = Inr False" by code_simp+
  with pattern_meaning [OF n(1,2)] pattern_meaning [OF n(1,3)] show ?thesis by simp
qed

text \<open>A validated policy is its own validated form whenever its paths survive a second normalisation,
  and two policies with the same hash validate to the same policy unless the hashed texts collide:
  the hash stands for the whole normal policy, not for its spelling.\<close>

theorem policy_hash_binds:
  assumes "validatePolicy j = Inr p" and "list_all stable_path (policy_paths p)"
    and "policyHash H q = Inr (H (stringify (policy_json p)))"
  shows "policyHash H p = Inr (H (stringify (policy_json p))) \<and>
    (validatePolicy (policy_json q) = Inr p \<or>
     (\<exists>v. validatePolicy (policy_json q) = Inr v \<and>
          collision_in H {stringify (policy_json v), stringify (policy_json p)}))"
proof -
  have "validatePolicy (policy_json p) = Inr p"
    using assms(1,2) by (intro policy_ok_validates validatePolicy_ok)
  then have hp: "policyHash H p = Inr (H (stringify (policy_json p)))" by (simp add: policyHash_def)
  from assms(3) obtain v where v: "validatePolicy (policy_json q) = Inr v"
    "H (stringify (policy_json v)) = H (stringify (policy_json p))"
    by (auto simp: policyHash_def bindE_eq_Inr)
  from hash_binds [OF v(2)] v(1) hp show ?thesis by (auto dest: policy_json_inj)
qed

definition ex_policy :: policy where
  "ex_policy = defaultCommitGatePolicy\<lparr>ignoredEphemeralNames := [''.codex'', ''.git'', ''coverage'', ''dist'', ''node_modules'']\<rparr>"

lemma ex_policy_validates: "validatePolicy (policy_json defaultCommitGatePolicy) = Inr ex_policy"
  by code_simp

theorem policy_hash_binds_witness:
  "policyHash id defaultCommitGatePolicy = policyHash id ex_policy"
proof -
  have h: "policyHash id defaultCommitGatePolicy = Inr (id (stringify (policy_json ex_policy)))"
    by (simp add: policyHash_def ex_policy_validates)
  have "list_all stable_path (policy_paths ex_policy)" by code_simp
  with policy_hash_binds [OF ex_policy_validates this h] h show ?thesis by simp
qed

text \<open>A wildcard pattern does not protect a path with a line end in it: below a protected
  \<^verbatim>\<open>infra/**\<close> a file whose name holds a newline is not matched, while the plain
  directory pattern matches it.\<close>

theorem glob_misses_line_end:
  "pathMatches (''infra/x'' @ [CHR 0x0A] @ ''y'') [''infra/**''] = Inr False \<and>
   pathMatches (''infra/x'' @ [CHR 0x0A] @ ''y'') [''infra''] = Inr True \<and>
   pathMatches ''infra/xy'' [''infra/**''] = Inr True"
  by code_simp

text \<open>A policy document may load and yet have no hash: a protected path written \<^verbatim>\<open>./\<close>
  is validated to the empty text (while \<^verbatim>\<open>.\<close> is refused), which the validation inside
  the hash then rejects.\<close>

theorem loaded_policy_without_hash:
  "loadPolicy (PolicyDocument (policy_json (ex_policy\<lparr>protectedPaths := [''./'']\<rparr>))) =
     Inr (ex_policy\<lparr>protectedPaths := [[]]\<rparr>) \<and>
   policyHash H (ex_policy\<lparr>protectedPaths := [[]]\<rparr>) =
     Inl (JsError ''protectedPaths[0] must be a non-empty path'') \<and>
   loadPolicy (PolicyDocument (policy_json (ex_policy\<lparr>protectedPaths := [''.'']\<rparr>))) =
     Inl (JsError ''protectedPaths[0] escapes the workspace'')"
proof (intro conjI)
  have "validatePolicy (policy_json (ex_policy\<lparr>protectedPaths := [[]]\<rparr>)) =
      Inl (JsError ''protectedPaths[0] must be a non-empty path'')" by code_simp
  then show "policyHash H (ex_policy\<lparr>protectedPaths := [[]]\<rparr>) =
     Inl (JsError ''protectedPaths[0] must be a non-empty path'')" by (simp add: policyHash_def)
qed code_simp+

end
