(* ===== verification/Protocol.thy ===== *)
theory Protocol
  imports State_View "HOL-Library.Multiset" "HOL-Library.Char_ord"
begin

text \<open>
  Canonical JSON and the digests of the commit gate (\<^verbatim>\<open>commitgate/protocol.ts\<close>):
  members are sorted by key before the text is hashed. The order is the runtime's English
  collation, the parameter \<open>le\<close>; where a fact needs it to be a linear order it says so
  (\<open>collation\<close>). The evaluation context, the check results and the evidence bundle are hashed
  this way. No object hashed here has a key that reads as an array index, so the sorted order is
  the order of the text. Identifiers and the path containment test of \<^verbatim>\<open>file-ops.ts\<close> are here too.
\<close>

type_synonym key_order = "string \<Rightarrow> string \<Rightarrow> bool"

fun insert_member :: "key_order \<Rightarrow> string \<times> 'a \<Rightarrow> (string \<times> 'a) list \<Rightarrow> (string \<times> 'a) list" where
  "insert_member le x [] = [x]"
| "insert_member le x (y # ys) = (if le (fst x) (fst y) then x # y # ys else y # insert_member le x ys)"

definition sort_members :: "key_order \<Rightarrow> (string \<times> 'a) list \<Rightarrow> (string \<times> 'a) list" where
  "sort_members le kvs = foldr (insert_member le) kvs []"

fun canonical :: "key_order \<Rightarrow> json \<Rightarrow> json" where
  "canonical le (JArr xs) = JArr (map (canonical le) xs)"
| "canonical le (JObj kvs) = JObj (sort_members le (map (\<lambda>(k, v). (k, canonical le v)) kvs))"
| "canonical le j = j"

definition canonicalJson :: "key_order \<Rightarrow> json \<Rightarrow> string" where
  "canonicalJson le j = stringify (canonical le j)"

definition sha256Canonical :: "(string \<Rightarrow> string) \<Rightarrow> key_order \<Rightarrow> json \<Rightarrow> string" where
  "sha256Canonical H le j = H (canonicalJson le j)"

subsection \<open>What is hashed\<close>

record evaluation_context =
  ctx_schemaVersion :: int
  ctx_runId :: string
  ctx_agentId :: string
  ctx_proposalId :: string
  ctx_baseView :: state_view
  ctx_manifestSchemaVersion :: int
  ctx_policyHash :: string
  ctx_checkBundleHash :: string
  ctx_checkSpecHash :: string
  ctx_verifierImageDigest :: string
  ctx_verifierConfigHash :: string
  ctx_resourcePolicyHash :: string
  ctx_sourceRevision :: string

definition context_json :: "evaluation_context \<Rightarrow> json" where
  "context_json c = JObj
     [(''schemaVersion'', JNum (ctx_schemaVersion c)), (''runId'', JStr (ctx_runId c)),
      (''agentId'', JStr (ctx_agentId c)), (''proposalId'', JStr (ctx_proposalId c)),
      (''baseView'', view_json (ctx_baseView c)),
      (''manifestSchemaVersion'', JNum (ctx_manifestSchemaVersion c)),
      (''policyHash'', JStr (ctx_policyHash c)), (''checkBundleHash'', JStr (ctx_checkBundleHash c)),
      (''checkSpecHash'', JStr (ctx_checkSpecHash c)),
      (''verifierImageDigest'', JStr (ctx_verifierImageDigest c)),
      (''verifierConfigHash'', JStr (ctx_verifierConfigHash c)),
      (''resourcePolicyHash'', JStr (ctx_resourcePolicyHash c)),
      (''sourceRevision'', JStr (ctx_sourceRevision c))]"

definition computeEvaluationContextHash ::
  "(string \<Rightarrow> string) \<Rightarrow> key_order \<Rightarrow> evaluation_context \<Rightarrow> string res" where
  "computeEvaluationContextHash H le c =
     bindE (assertStateViewRef H (ctx_baseView c)) (\<lambda>_. Inr (sha256Canonical H le (context_json c)))"

record check_result =
  check_id :: string
  check_status :: string
  check_exitCode :: "int option"
  check_durationMs :: int
  check_output :: string
  check_timedOut :: bool

definition check_result_json :: "(string \<Rightarrow> string) \<Rightarrow> check_result \<Rightarrow> json" where
  "check_result_json H c = JObj
     [(''id'', JStr (check_id c)), (''status'', JStr (check_status c)),
      (''exitCode'', (case check_exitCode c of None \<Rightarrow> JNull | Some n \<Rightarrow> JNum n)),
      (''durationMs'', JNum (check_durationMs c)), (''outputHash'', JStr (H (check_output c))),
      (''timedOut'', JBool (check_timedOut c))]"

definition computeCheckResultsHash :: "(string \<Rightarrow> string) \<Rightarrow> key_order \<Rightarrow> check_result list \<Rightarrow> string" where
  "computeCheckResultsHash H le cs = sha256Canonical H le (JArr (map (check_result_json H) cs))"

record evidence_input =
  eb_proposalId :: string
  eb_evaluationContextHash :: string
  eb_verifierInputHash :: string
  eb_checkResultsHash :: string
  eb_coverage :: string
  eb_requiredChecksPassed :: bool
  eb_issuedAt :: string

record evidence_bundle = evidence_input +
  eb_schemaVersion :: int
  eb_digest :: string

definition unsigned_evidence :: "int \<Rightarrow> 'a evidence_input_scheme \<Rightarrow> json" where
  "unsigned_evidence v b = JObj
     [(''schemaVersion'', JNum v), (''proposalId'', JStr (eb_proposalId b)),
      (''evaluationContextHash'', JStr (eb_evaluationContextHash b)),
      (''verifierInputHash'', JStr (eb_verifierInputHash b)),
      (''checkResultsHash'', JStr (eb_checkResultsHash b)), (''coverage'', JStr (eb_coverage b)),
      (''requiredChecksPassed'', JBool (eb_requiredChecksPassed b)), (''issuedAt'', JStr (eb_issuedAt b))]"

definition createEvidenceBundle :: "(string \<Rightarrow> string) \<Rightarrow> key_order \<Rightarrow> evidence_input \<Rightarrow> evidence_bundle" where
  "createEvidenceBundle H le b =
     evidence_input.extend b \<lparr>eb_schemaVersion = 1, eb_digest = sha256Canonical H le (unsigned_evidence 1 b)\<rparr>"

definition assertEvidenceBundle :: "(string \<Rightarrow> string) \<Rightarrow> key_order \<Rightarrow> evidence_bundle \<Rightarrow> unit res" where
  "assertEvidenceBundle H le b =
     (if sha256Canonical H le (unsigned_evidence (eb_schemaVersion b) b) \<noteq> eb_digest b
      then Inl (JsError ''EVIDENCE_DIGEST_MISMATCH'') else Inr ())"

subsection \<open>Identifiers and containment\<close>

definition assertSafeIdentifier :: "string \<Rightarrow> string \<Rightarrow> unit res" where
  "assertSafeIdentifier value label =
     (if \<not> is_identifier value \<or> value = ''.'' \<or> value = ''..''
      then Inl (JsError (label @ '' contains unsafe characters'')) else Inr ())"

text \<open>On paths already resolved to their absolute normal form (\<^verbatim>\<open>path.resolve\<close>).\<close>

definition contained :: "string \<Rightarrow> string \<Rightarrow> bool" where
  "contained root resolved \<longleftrightarrow> resolved = root \<or> starts_with resolved (root @ ''/'')"

definition assertContained :: "string \<Rightarrow> string \<Rightarrow> string \<Rightarrow> unit res" where
  "assertContained root resolved label =
     (if contained root resolved then Inr () else Inl (JsError (label @ '' escapes its trusted root'')))"

lemma assertSafeIdentifier_Inr [res_simps]:
  "assertSafeIdentifier v l = Inr u \<longleftrightarrow> is_identifier v \<and> v \<noteq> ''.'' \<and> v \<noteq> ''..''"
  by (auto simp: assertSafeIdentifier_def)

lemma assertContained_Inr [res_simps]: "assertContained r p l = Inr u \<longleftrightarrow> contained r p"
  by (simp add: assertContained_def)

lemma contained_iff: "contained root p \<longleftrightarrow> p = root \<or> (\<exists>rest. p = root @ ''/'' @ rest)"
  by (auto simp: contained_def starts_with_iff)

subsection \<open>Facts\<close>

text \<open>What the runtime's comparison of keys has to be for a canonical form to exist.\<close>

definition collation :: "key_order \<Rightarrow> bool" where
  "collation le \<longleftrightarrow> (\<forall>a b. le a b \<or> le b a) \<and> (\<forall>a b. le a b \<longrightarrow> le b a \<longrightarrow> a = b) \<and>
     (\<forall>a b c. le a b \<longrightarrow> le b c \<longrightarrow> le a c)"

lemma insert_member_commute:
  assumes "collation le" and "fst x \<noteq> fst y"
  shows "insert_member le x (insert_member le y zs) = insert_member le y (insert_member le x zs)"
proof (induction zs)
  case Nil
  show ?case using assms unfolding collation_def by (auto; metis)
next
  case (Cons z zs)
  show ?case
  proof (cases "le (fst x) (fst z)"; cases "le (fst y) (fst z)")
    assume "le (fst x) (fst z)" "le (fst y) (fst z)"
    with assms show ?thesis unfolding collation_def by (auto; metis)
  next
    assume "le (fst x) (fst z)" "\<not> le (fst y) (fst z)"
    with assms have "\<not> le (fst y) (fst x)" unfolding collation_def by metis
    with \<open>le (fst x) (fst z)\<close> \<open>\<not> le (fst y) (fst z)\<close> show ?thesis by simp
  next
    assume "\<not> le (fst x) (fst z)" "le (fst y) (fst z)"
    with assms have "\<not> le (fst x) (fst y)" unfolding collation_def by metis
    with \<open>\<not> le (fst x) (fst z)\<close> \<open>le (fst y) (fst z)\<close> show ?thesis by simp
  next
    assume "\<not> le (fst x) (fst z)" "\<not> le (fst y) (fst z)"
    with Cons.IH show ?thesis by simp
  qed
qed

lemma sort_members_perm:
  assumes "collation le" and "distinct (map fst kvs)" and "mset kvs = mset kvs'"
  shows "sort_members le kvs = sort_members le kvs'"
proof -
  have "fold (insert_member le) (rev kvs) = fold (insert_member le) (rev kvs')"
  proof (rule fold_multiset_equiv)
    fix x y assume xy: "x \<in> set (rev kvs)" "y \<in> set (rev kvs)"
    show "insert_member le x \<circ> insert_member le y = insert_member le y \<circ> insert_member le x"
    proof (cases "x = y")
      case False
      with xy assms(2) have "fst x \<noteq> fst y" by (auto simp: distinct_map inj_on_def)
      then show ?thesis by (simp add: fun_eq_iff insert_member_commute [OF assms(1)])
    qed simp
  qed (use assms(3) in simp)
  then show ?thesis by (simp add: sort_members_def foldr_conv_fold)
qed

lemma canonical_obj_perm:
  assumes "collation le" and "distinct (map fst kvs)" and "mset kvs = mset kvs'"
  shows "canonical le (JObj kvs) = canonical le (JObj kvs')"
proof -
  have "map fst (map (\<lambda>(k, v). (k, canonical le v)) kvs) = map fst kvs" by auto
  with assms show ?thesis
    by (auto simp del: map_map intro!: sort_members_perm)
qed

lemma sort_members_mset: "mset (sort_members le kvs) = mset kvs"
proof -
  have ins: "mset (insert_member le x ys) = add_mset x (mset ys)" for x :: "string \<times> 'a" and ys
    by (induction ys) auto
  show ?thesis by (induction kvs) (simp_all add: sort_members_def ins)
qed

lemma assertEvidenceBundle_Inr [res_simps]:
  "assertEvidenceBundle H le b = Inr u \<longleftrightarrow>
     eb_digest b = sha256Canonical H le (unsigned_evidence (eb_schemaVersion b) b)"
  by (auto simp: assertEvidenceBundle_def)

text \<open>Two objects with one canonical form have the same canonical value under every key.\<close>

lemma canonical_member:
  assumes eq: "canonical le (JObj kvs) = canonical le (JObj kvs')"
    and d: "distinct (map fst kvs)" "distinct (map fst kvs')"
  shows "map_option (canonical le) (map_of kvs k) = map_option (canonical le) (map_of kvs' k)"
proof -
  let ?c = "map (\<lambda>(k, v). (k, canonical le v))"
  from eq have "sort_members le (?c kvs) = sort_members le (?c kvs')" by (simp del: map_map)
  then have "mset (?c kvs) = mset (?c kvs')" using sort_members_mset by (metis (no_types, lifting))
  then have "set (?c kvs) = set (?c kvs')" by (rule mset_eq_setD)
  moreover have keys: "map fst (?c l) = map fst l" for l by (induction l) auto
  have "distinct (map fst (?c kvs))" "distinct (map fst (?c kvs'))" unfolding keys by (rule d)+
  ultimately have "map_of (?c kvs) = map_of (?c kvs')"
    by (intro map_of_inject_set [THEN iffD2])
  then show ?thesis by (simp add: map_of_map fun_eq_iff)
qed

lemma canonical_evidence_inj:
  assumes "canonical le (unsigned_evidence v b) = canonical le (unsigned_evidence w c)"
  shows "v = w \<and> evidence_input.truncate b = evidence_input.truncate c"
proof -
  note m = canonical_member [OF assms [unfolded unsigned_evidence_def]]
  show ?thesis
    using m [of "''schemaVersion''"] m [of "''proposalId''"] m [of "''evaluationContextHash''"]
      m [of "''verifierInputHash''"] m [of "''checkResultsHash''"] m [of "''coverage''"]
      m [of "''requiredChecksPassed''"] m [of "''issuedAt''"]
    by (simp add: evidence_input.truncate_def)
qed

lemma canonical_view_inj:
  assumes "canonical le (view_json v) = canonical le (view_json w)"
  shows "v = w"
proof -
  note m = canonical_member [OF assms [unfolded view_json_def]]
  show ?thesis
    using m [of "''schemaVersion''"] m [of "''viewId''"] m [of "''agentId''"] m [of "''headVersionId''"]
      m [of "''generation''"] m [of "''versionedHash''"] m [of "''platformManagedHash''"]
      m [of "''liveStateHash''"] m [of "''sessionEpoch''"] m [of "''agentConfigVersion''"]
      m [of "''policyVersion''"]
    by simp
qed

lemma canonical_context_inj:
  assumes "canonical le (context_json c) = canonical le (context_json d)"
  shows "c = d"
proof -
  note m = canonical_member [OF assms [unfolded context_json_def]]
  have "ctx_baseView c = ctx_baseView d"
    using m [of "''baseView''"]
    by (intro canonical_view_inj) simp
  then show ?thesis
    using m [of "''schemaVersion''"] m [of "''runId''"] m [of "''agentId''"] m [of "''proposalId''"]
      m [of "''manifestSchemaVersion''"] m [of "''policyHash''"] m [of "''checkBundleHash''"]
      m [of "''checkSpecHash''"] m [of "''verifierImageDigest''"] m [of "''verifierConfigHash''"]
      m [of "''resourcePolicyHash''"] m [of "''sourceRevision''"]
    by simp
qed

lemma sha256Canonical_binds:
  "sha256Canonical H le i = sha256Canonical H le j \<Longrightarrow>
     canonical le i = canonical le j \<or> collision_in H {canonicalJson le i, canonicalJson le j}"
  unfolding sha256Canonical_def canonicalJson_def by (rule hash_binds)

lemma createEvidenceBundle_simps [simp]:
  "eb_digest (createEvidenceBundle H le i) = sha256Canonical H le (unsigned_evidence 1 i)"
  "eb_schemaVersion (createEvidenceBundle H le i) = 1"
  "evidence_input.truncate (createEvidenceBundle H le i) = i"
  "unsigned_evidence v (createEvidenceBundle H le i) = unsigned_evidence v i"
  by (simp_all add: createEvidenceBundle_def evidence_input.defs unsigned_evidence_def)

subsection \<open>Properties\<close>

text \<open>The order of strings by their characters, for the concrete instances.\<close>

definition char_order :: key_order where
  "char_order = ord_class.lexordp_eq"

lemma char_order_collation: "collation char_order"
  unfolding collation_def char_order_def
  by (metis lexordp_eq_antisym lexordp_eq_linear lexordp_eq_trans)

definition ex_evidence_input :: evidence_input where
  "ex_evidence_input = \<lparr>eb_proposalId = ''p1'', eb_evaluationContextHash = ''ctx'',
     eb_verifierInputHash = ''manifest'', eb_checkResultsHash = ''checks'', eb_coverage = ''complete'',
     eb_requiredChecksPassed = True, eb_issuedAt = ''2026-01-01T00:00:00.000Z''\<rparr>"

text \<open>A created evidence bundle passes its own assertion, and whatever bundle with that digest passes
  it carries the same proposal, context, input, results, coverage and verdict, unless the two hashed
  texts collide: the verdict cannot be changed without changing the digest.\<close>

theorem evidence_digest_seals:
  "assertEvidenceBundle H le (createEvidenceBundle H le i) = Inr () \<and>
   (assertEvidenceBundle H le b = Inr () \<longrightarrow> eb_digest b = eb_digest (createEvidenceBundle H le i) \<longrightarrow>
     eb_schemaVersion b = 1 \<and> evidence_input.truncate b = i \<or>
     collision_in H {canonicalJson le (unsigned_evidence (eb_schemaVersion b) b),
                     canonicalJson le (unsigned_evidence 1 i)})"
proof (intro conjI impI)
  show "assertEvidenceBundle H le (createEvidenceBundle H le i) = Inr ()"
    by (simp add: assertEvidenceBundle_Inr)
next
  assume "assertEvidenceBundle H le b = Inr ()" "eb_digest b = eb_digest (createEvidenceBundle H le i)"
  then have "sha256Canonical H le (unsigned_evidence (eb_schemaVersion b) b) =
      sha256Canonical H le (unsigned_evidence 1 i)"
    by (simp add: assertEvidenceBundle_Inr)
  from sha256Canonical_binds [OF this]
  show "eb_schemaVersion b = 1 \<and> evidence_input.truncate b = i \<or>
     collision_in H {canonicalJson le (unsigned_evidence (eb_schemaVersion b) b),
                     canonicalJson le (unsigned_evidence 1 i)}"
    using canonical_evidence_inj [of le "eb_schemaVersion b" b 1 i]
    by (auto simp: evidence_input.truncate_def)
qed

theorem evidence_digest_seals_witness:
  "evidence_input.truncate (createEvidenceBundle id char_order ex_evidence_input) = ex_evidence_input \<and>
   assertEvidenceBundle id char_order (createEvidenceBundle id char_order ex_evidence_input) = Inr ()"
  using evidence_digest_seals [of id char_order ex_evidence_input
      "createEvidenceBundle id char_order ex_evidence_input"]
  by (auto simp: collision_in_def)

text \<open>C24: Equal evaluation context hashes mean equal contexts, base view included, unless the two canonical
  texts collide: evidence for one proposal, policy, check bundle, verifier image, resource policy or
  base view cannot be presented for another.\<close>

theorem context_hash_binds:
  assumes "computeEvaluationContextHash H le c = Inr h" and "computeEvaluationContextHash H le d = Inr h"
  shows "view_ok H (ctx_baseView c) \<and>
    (c = d \<or> collision_in H {canonicalJson le (context_json c), canonicalJson le (context_json d)})"
proof -
  from assms have "sha256Canonical H le (context_json c) = sha256Canonical H le (context_json d)"
    and "view_ok H (ctx_baseView c)"
    by (auto simp: computeEvaluationContextHash_def bindE_eq_Inr assertStateViewRef_eq)
  with sha256Canonical_binds [OF this(1)] show ?thesis by (blast dest: canonical_context_inj)
qed

definition ex_context :: "(string \<Rightarrow> string) \<Rightarrow> evaluation_context" where
  "ex_context H = \<lparr>ctx_schemaVersion = 1, ctx_runId = ''run'', ctx_agentId = ''agent'', ctx_proposalId = ''p1'',
     ctx_baseView = makeStateView H
       \<lparr>view_agentId = ''agent'', headVersionId = ''v0'', generation = 0, versionedHash = EMPTY_STATE_HASH,
        platformManagedHash = EMPTY_STATE_HASH, liveStateHash = EMPTY_STATE_HASH, sessionEpoch = 0,
        agentConfigVersion = 1, policyVersion = 1\<rparr>,
     ctx_manifestSchemaVersion = 2, ctx_policyHash = ''policy'', ctx_checkBundleHash = ''bundle'',
     ctx_checkSpecHash = ''spec'', ctx_verifierImageDigest = ''image'', ctx_verifierConfigHash = ''config'',
     ctx_resourcePolicyHash = ''resources'', ctx_sourceRevision = ''revision''\<rparr>"

lemma empty_hash_digest [simp]: "is_digest EMPTY_STATE_HASH"
  by (simp add: EMPTY_STATE_HASH_def is_hex_def list_all_iff is_lower_hex_def is_digit_def char_code_def)

lemma ex_context_hash:
  "computeEvaluationContextHash H le (ex_context H) = Inr (sha256Canonical H le (context_json (ex_context H)))"
proof -
  have "assertStateViewRef H (ctx_baseView (ex_context H)) = Inr ()"
    unfolding assertStateViewRef_eq
    by (simp add: ex_context_def hashes_ok_def is_safe_integer_def max_safe_integer_def)
  then show ?thesis by (simp add: computeEvaluationContextHash_def)
qed

theorem context_hash_binds_witness:
  "view_ok id (ctx_baseView (ex_context id))"
  using context_hash_binds [OF ex_context_hash ex_context_hash, of id char_order] by blast

text \<open>The canonical digest does not depend on the order in which an object's members are listed, so a
  value re-read from disk or received with its members in another order hashes to the same digest.\<close>

theorem canonical_order_free:
  assumes "collation le" and "distinct (map fst kvs)" and "mset kvs = mset kvs'"
  shows "sha256Canonical H le (JObj kvs) = sha256Canonical H le (JObj kvs')"
  using canonical_obj_perm [OF assms] by (simp only: sha256Canonical_def canonicalJson_def)

theorem canonical_order_free_witness:
  "sha256Canonical id char_order (JObj [(''b'', JNum 1), (''a'', JNum 2)]) =
   sha256Canonical id char_order (JObj [(''a'', JNum 2), (''b'', JNum 1)])"
  by (rule canonical_order_free [OF char_order_collation]) auto

end
