(* ===== verification/Manifest.thy ===== *)
theory Manifest
  imports Policy_Facts Protocol
begin

text \<open>
  Snapshot manifests (\<^verbatim>\<open>commitgate/manifest.ts\<close>): the walk over a workspace tree that
  refuses links, special and shared files and colliding names, the manifest and its hash, the
  difference of two manifests and its hash. A directory is the list of its entries in name order,
  the order the walk sorts them into; what \<^verbatim>\<open>lstat\<close> says of an inode is the record
  \<open>stats\<close>. Unicode normalisation and lower case are the parameters \<open>nfc\<close> and \<open>lower\<close>.
\<close>

record stats =
  st_uid :: int
  st_gid :: int
  st_mode :: int
  st_size :: int
  st_nlink :: int
  st_blocks :: int

text \<open>A regular file holds its bytes and whether two looks at it agree while it is read.\<close>

datatype fs_node =
    FDir stats "(string \<times> fs_node) list"
  | FFile stats string bool
  | FLink stats string
  | FSpecial stats

fun node_stats :: "fs_node \<Rightarrow> stats" where
  "node_stats (FDir s _) = s"
| "node_stats (FFile s _ _) = s"
| "node_stats (FLink s _) = s"
| "node_stats (FSpecial s) = s"

datatype entry_type = EFile | EDir | ESymlink

record manifest_entry =
  me_path :: string
  me_type :: entry_type
  me_mode :: int
  me_size :: int
  me_contentHash :: "string option"
  me_linkTarget :: "string option"
  me_pathClass :: path_class

record snapshot_manifest =
  sm_schemaVersion :: int
  sm_entries :: "manifest_entry list"
  sm_hash :: string

subsection \<open>Names that one file system takes for one\<close>

fun collide :: "(string \<Rightarrow> string) \<Rightarrow> (string \<Rightarrow> string) \<Rightarrow> (string \<rightharpoonup> string) \<Rightarrow> (string \<rightharpoonup> string) \<Rightarrow>
    string list \<Rightarrow> unit res" where
  "collide nfc lower byNormal byCase [] = Inr ()"
| "collide nfc lower byNormal byCase (relative # rest) =
     (let normalized = nfc relative; folded = lower normalized;
          clash = (\<lambda>prior. prior \<noteq> None \<and> prior \<noteq> Some [] \<and> prior \<noteq> Some relative)
      in if clash (byNormal normalized)
         then Inl (JsError (''UNICODE_NORMALIZATION_COLLISION:'' @ the (byNormal normalized) @ '':'' @ relative))
         else if clash (byCase folded)
         then Inl (JsError (''CASEFOLD_PATH_COLLISION:'' @ the (byCase folded) @ '':'' @ relative))
         else collide nfc lower (byNormal(normalized \<mapsto> relative)) (byCase(folded \<mapsto> relative)) rest)"

definition assertNoPathIdentityCollisions ::
  "(string \<Rightarrow> string) \<Rightarrow> (string \<Rightarrow> string) \<Rightarrow> string list \<Rightarrow> unit res" where
  "assertNoPathIdentityCollisions nfc lower paths = collide nfc lower Map.empty Map.empty paths"

subsection \<open>The walk\<close>

definition sha256File :: "(string \<Rightarrow> string) \<Rightarrow> string \<Rightarrow> string \<Rightarrow> bool \<Rightarrow> string res" where
  "sha256File H path bytes unchanged =
     (if \<not> unchanged then Inl (JsError (''FILE_MUTATED_DURING_READ:'' @ path)) else Inr (H bytes))"

record walk_env =
  we_include :: "path_class list"
  we_policy :: policy
  we_root :: stats
  we_linux :: bool
  we_nfc :: "string \<Rightarrow> string"
  we_lower :: "string \<Rightarrow> string"
  we_H :: "string \<Rightarrow> string"

type_synonym walk_state = "manifest_entry list \<times> string list"

definition registerAuthoritativePath :: "walk_env \<Rightarrow> string \<Rightarrow> walk_state \<Rightarrow> walk_state res" where
  "registerAuthoritativePath env relative acc =
     (case acc of (entries, paths) \<Rightarrow>
        bindE (assertNoPathIdentityCollisions (we_nfc env) (we_lower env) (paths @ [relative]))
          (\<lambda>_. Inr (entries, paths @ [relative])))"

definition add_entry :: "manifest_entry \<Rightarrow> walk_state \<Rightarrow> walk_state" where
  "add_entry e acc = (case acc of (entries, paths) \<Rightarrow> (entries @ [e], paths))"

definition child_path :: "string \<Rightarrow> string \<Rightarrow> string" where
  "child_path dir name = (if dir = [] then name else dir @ ''/'' @ name)"

definition permission_bits :: "int \<Rightarrow> int" where
  "permission_bits mode = mode mod 512"

definition dir_entry :: "string \<Rightarrow> stats \<Rightarrow> path_class \<Rightarrow> manifest_entry" where
  "dir_entry p s c = \<lparr>me_path = p, me_type = EDir, me_mode = permission_bits (st_mode s), me_size = 0,
     me_contentHash = None, me_linkTarget = None, me_pathClass = c\<rparr>"

definition file_entry :: "string \<Rightarrow> stats \<Rightarrow> string \<Rightarrow> path_class \<Rightarrow> manifest_entry" where
  "file_entry p s h c = \<lparr>me_path = p, me_type = EFile, me_mode = permission_bits (st_mode s), me_size = st_size s,
     me_contentHash = Some h, me_linkTarget = None, me_pathClass = c\<rparr>"

definition owner_differs :: "walk_env \<Rightarrow> stats \<Rightarrow> bool" where
  "owner_differs env s \<longleftrightarrow> st_uid s \<noteq> st_uid (we_root env) \<or> st_gid s \<noteq> st_gid (we_root env)"

definition is_sparse :: "walk_env \<Rightarrow> stats \<Rightarrow> bool" where
  "is_sparse env s \<longleftrightarrow> we_linux env \<and> 0 < st_size s \<and> st_blocks s * 512 < st_size s"

fun walk_node :: "walk_env \<Rightarrow> string \<Rightarrow> fs_node \<Rightarrow> walk_state \<Rightarrow> walk_state res"
  and walk_dir :: "walk_env \<Rightarrow> string \<Rightarrow> (string \<times> fs_node) list \<Rightarrow> walk_state \<Rightarrow> walk_state res" where
  "walk_node env relative (FDir s children) acc =
     bindE (classifyPath relative (we_policy env)) (\<lambda>c.
       if c \<in> set (we_include env) \<and> owner_differs env s
       then Inl (JsError (''OWNERSHIP_MISMATCH:'' @ relative))
       else
         bindE (if c \<in> set (we_include env)
                then bindE (registerAuthoritativePath env relative acc) (\<lambda>a. Inr (add_entry (dir_entry relative s c) a))
                else Inr acc) (\<lambda>a.
           if c \<noteq> IgnoredEphemeral \<or> IgnoredEphemeral \<in> set (we_include env)
           then walk_dir env relative children a else Inr a))"
| "walk_node env relative (FFile s bytes unchanged) acc =
     bindE (classifyPath relative (we_policy env)) (\<lambda>c.
       if c \<in> set (we_include env) \<and> owner_differs env s
       then Inl (JsError (''OWNERSHIP_MISMATCH:'' @ relative))
       else if c \<in> set (we_include env) then
         bindE (registerAuthoritativePath env relative acc) (\<lambda>a.
           if 1 < st_nlink s then Inl (JsError (''HARDLINK_FILE:'' @ relative))
           else if is_sparse env s then Inl (JsError (''SPARSE_FILE:'' @ relative))
           else bindE (sha256File (we_H env) relative bytes unchanged) (\<lambda>h.
             Inr (add_entry (file_entry relative s h c) a)))
       else Inr acc)"
| "walk_node env relative (FLink s target) acc =
     bindE (classifyPath relative (we_policy env)) (\<lambda>c.
       if c \<in> set (we_include env) \<and> owner_differs env s
       then Inl (JsError (''OWNERSHIP_MISMATCH:'' @ relative))
       else if c \<in> set (we_include env) then Inl (JsError (''SYMLINK_FILE:'' @ relative))
       else Inr acc)"
| "walk_node env relative (FSpecial s) acc =
     bindE (classifyPath relative (we_policy env)) (\<lambda>c.
       if c \<in> set (we_include env) \<and> owner_differs env s
       then Inl (JsError (''OWNERSHIP_MISMATCH:'' @ relative))
       else Inl (JsError (''SPECIAL_FILE:'' @ relative)))"
| "walk_dir env dir [] acc = Inr acc"
| "walk_dir env dir ((name, node) # rest) acc =
     bindE (walk_node env (child_path dir name) node acc) (walk_dir env dir rest)"

fun entry_type_text :: "entry_type \<Rightarrow> string" where
  "entry_type_text EFile = ''file''"
| "entry_type_text EDir = ''dir''"
| "entry_type_text ESymlink = ''symlink''"

fun path_class_text :: "path_class \<Rightarrow> string" where
  "path_class_text Versioned = ''versioned''"
| "path_class_text PlatformManaged = ''platformManaged''"
| "path_class_text IgnoredEphemeral = ''ignoredEphemeral''"

definition hash_or_null :: "string option \<Rightarrow> json" where
  "hash_or_null v = (case v of None \<Rightarrow> JNull | Some s \<Rightarrow> JStr s)"

definition entry_json :: "manifest_entry \<Rightarrow> json" where
  "entry_json e = JObj
     [(''path'', JStr (me_path e)), (''type'', JStr (entry_type_text (me_type e))), (''mode'', JNum (me_mode e)),
      (''size'', JNum (me_size e)), (''contentHash'', hash_or_null (me_contentHash e)),
      (''linkTarget'', hash_or_null (me_linkTarget e)), (''pathClass'', JStr (path_class_text (me_pathClass e)))]"

definition hashManifestEntries :: "(string \<Rightarrow> string) \<Rightarrow> manifest_entry list \<Rightarrow> string" where
  "hashManifestEntries H es = H (stringify (JArr (map entry_json es)))"

definition buildManifest :: "walk_env \<Rightarrow> fs_node \<Rightarrow> snapshot_manifest res" where
  "buildManifest env root =
     (case root of
        FDir s children \<Rightarrow>
          bindE (walk_dir (env\<lparr>we_root := s\<rparr>) [] children ([], [])) (\<lambda>(found, _).
            let es = sort_key me_path found
            in Inr \<lparr>sm_schemaVersion = 2, sm_entries = es, sm_hash = hashManifestEntries (we_H env) es\<rparr>)
      | _ \<Rightarrow> Inl (JsError ''AUTHORITATIVE_ROOT_INVALID''))"

subsection \<open>Differences\<close>

datatype change_kind = Added | Modified | Deleted

record manifest_change =
  mc_path :: string
  mc_kind :: change_kind
  mc_before :: "manifest_entry option"
  mc_after :: "manifest_entry option"

definition sameEntry :: "manifest_entry \<Rightarrow> manifest_entry \<Rightarrow> bool" where
  "sameEntry l r \<longleftrightarrow> me_type l = me_type r \<and> me_mode l = me_mode r \<and> me_size l = me_size r \<and>
     me_contentHash l = me_contentHash r \<and> me_linkTarget l = me_linkTarget r \<and> me_pathClass l = me_pathClass r"

definition locale_sort :: "key_order \<Rightarrow> string list \<Rightarrow> string list" where
  "locale_sort le xs = map fst (sort_members le (map (\<lambda>x. (x, ())) xs))"

text \<open>\<^verbatim>\<open>new Map(entries.map((e) => [e.path, e]))\<close>: the last entry of a path counts.\<close>

definition by_path :: "manifest_entry list \<Rightarrow> string \<rightharpoonup> manifest_entry" where
  "by_path es = map_of (rev (map (\<lambda>e. (me_path e, e)) es))"

definition path_change :: "string \<Rightarrow> manifest_entry option \<Rightarrow> manifest_entry option \<Rightarrow> manifest_change option" where
  "path_change p old new =
     (case (old, new) of
        (None, Some n) \<Rightarrow> Some \<lparr>mc_path = p, mc_kind = Added, mc_before = None, mc_after = Some n\<rparr>
      | (Some e, None) \<Rightarrow> Some \<lparr>mc_path = p, mc_kind = Deleted, mc_before = Some e, mc_after = None\<rparr>
      | (Some e, Some n) \<Rightarrow>
          if \<not> sameEntry e n
          then Some \<lparr>mc_path = p, mc_kind = Modified, mc_before = Some e, mc_after = Some n\<rparr> else None
      | (None, None) \<Rightarrow> None)"

definition diffManifests :: "key_order \<Rightarrow> snapshot_manifest \<Rightarrow> snapshot_manifest \<Rightarrow> manifest_change list" where
  "diffManifests le before after =
     (let old = by_path (sm_entries before); new = by_path (sm_entries after);
          paths = locale_sort le (remdups (map me_path (sm_entries before) @ map me_path (sm_entries after)))
      in List.map_filter (\<lambda>p. path_change p (old p) (new p)) paths)"

fun change_kind_text :: "change_kind \<Rightarrow> string" where
  "change_kind_text Added = ''added''"
| "change_kind_text Modified = ''modified''"
| "change_kind_text Deleted = ''deleted''"

definition side_json :: "manifest_entry option \<Rightarrow> json" where
  "side_json side =
     (case side of None \<Rightarrow> JNull
      | Some e \<Rightarrow> JArr [JStr (entry_type_text (me_type e)), JNum (me_mode e), JNum (me_size e),
                        hash_or_null (me_contentHash e), hash_or_null (me_linkTarget e)])"

definition change_json :: "manifest_change \<Rightarrow> json" where
  "change_json c = JObj
     [(''path'', JStr (mc_path c)), (''kind'', JStr (change_kind_text (mc_kind c))),
      (''before'', side_json (mc_before c)), (''after'', side_json (mc_after c))]"

definition patchHash :: "(string \<Rightarrow> string) \<Rightarrow> manifest_change list \<Rightarrow> string" where
  "patchHash H cs = H (stringify (JArr (map change_json cs)))"

definition file_size :: "manifest_entry option \<Rightarrow> int" where
  "file_size side = (case side of Some e \<Rightarrow> if me_type e = EFile then me_size e else 0 | None \<Rightarrow> 0)"

definition changedByteCount :: "manifest_change list \<Rightarrow> int" where
  "changedByteCount cs = foldl (\<lambda>sum c. sum + max (file_size (mc_before c)) (file_size (mc_after c))) 0 cs"

end
