(* ===== verification/Manifest_Facts.thy ===== *)
theory Manifest_Facts
  imports Manifest
begin

text \<open>
  Facts of manifests: the walk against its reference listing of the tree, what the manifest hash
  binds, and the difference of two manifests against their lookups.
\<close>

subsection \<open>Reference listing\<close>

text \<open>Everything the walk looks at: all children, but nothing below an ignored directory.\<close>

type_synonym listed = "string \<times> path_class \<times> fs_node"

fun reach_node :: "walk_env \<Rightarrow> string \<Rightarrow> fs_node \<Rightarrow> listed list"
  and reach_dir :: "walk_env \<Rightarrow> string \<Rightarrow> (string \<times> fs_node) list \<Rightarrow> listed list" where
  "reach_node env p (FDir s children) =
     (case classifyPath p (we_policy env) of
        Inl _ \<Rightarrow> []
      | Inr c \<Rightarrow> (p, c, FDir s children) #
          (if c \<noteq> IgnoredEphemeral \<or> IgnoredEphemeral \<in> set (we_include env) then reach_dir env p children else []))"
| "reach_node env p n = (case classifyPath p (we_policy env) of Inl _ \<Rightarrow> [] | Inr c \<Rightarrow> [(p, c, n)])"
| "reach_dir env d [] = []"
| "reach_dir env d ((name, n) # rest) = reach_node env (child_path d name) n @ reach_dir env d rest"

definition included :: "walk_env \<Rightarrow> listed \<Rightarrow> bool" where
  "included env l \<longleftrightarrow> fst (snd l) \<in> set (we_include env)"

definition listed_entry :: "walk_env \<Rightarrow> listed \<Rightarrow> manifest_entry" where
  "listed_entry env l =
     (case l of (p, c, n) \<Rightarrow>
        (case n of FFile s bytes _ \<Rightarrow> file_entry p s (we_H env bytes) c | _ \<Rightarrow> dir_entry p (node_stats n) c))"

text \<open>What the walk demands of an inode.\<close>

definition acceptable :: "walk_env \<Rightarrow> listed \<Rightarrow> bool" where
  "acceptable env l \<longleftrightarrow>
     (case l of (p, c, n) \<Rightarrow>
        classifyPath p (we_policy env) = Inr c \<and> (\<forall>s. n \<noteq> FSpecial s) \<and>
        (c \<in> set (we_include env) \<longrightarrow>
           \<not> owner_differs env (node_stats n) \<and> (\<forall>s t. n \<noteq> FLink s t) \<and>
           (\<forall>s b u. n = FFile s b u \<longrightarrow> st_nlink s \<le> 1 \<and> \<not> is_sparse env s \<and> u)))"

definition walked :: "walk_env \<Rightarrow> listed list \<Rightarrow> walk_state \<Rightarrow> walk_state \<Rightarrow> bool" where
  "walked env ls acc acc' \<longleftrightarrow>
     list_all (acceptable env) ls \<and>
     fst acc' = fst acc @ map (listed_entry env) (filter (included env) ls) \<and>
     (assertNoPathIdentityCollisions (we_nfc env) (we_lower env) (snd acc) = Inr () \<longrightarrow>
      assertNoPathIdentityCollisions (we_nfc env) (we_lower env) (snd acc') = Inr ()) \<and>
     snd acc' = snd acc @ map fst (filter (included env) ls)"

lemma walked_Nil: "walked env [] acc acc"
  by (simp add: walked_def)

lemma walked_append: "walked env ls a b \<Longrightarrow> walked env ms b c \<Longrightarrow> walked env (ls @ ms) a c"
  by (auto simp: walked_def)

lemma register_Inr:
  "registerAuthoritativePath env p acc = Inr acc' \<longleftrightarrow>
     assertNoPathIdentityCollisions (we_nfc env) (we_lower env) (snd acc @ [p]) = Inr () \<and>
     acc' = (fst acc, snd acc @ [p])"
  by (cases acc) (auto simp: registerAuthoritativePath_def bindE_eq_Inr)

lemma walked_skip:
  assumes "acceptable env (p, c, n)" and "c \<notin> set (we_include env)"
  shows "walked env [(p, c, n)] acc acc"
  using assms by (simp add: walked_def included_def)

lemma walked_take:
  assumes "acceptable env (p, c, n)" and "c \<in> set (we_include env)"
    and "registerAuthoritativePath env p acc = Inr a"
  shows "walked env [(p, c, n)] acc (add_entry (listed_entry env (p, c, n)) a)"
  using assms by (auto simp: walked_def included_def register_Inr add_entry_def)

lemma walk_walked:
  "walk_node env p n acc = Inr acc' \<Longrightarrow> walked env (reach_node env p n) acc acc'"
  "walk_dir env d ch acc = Inr acc' \<Longrightarrow> walked env (reach_dir env d ch) acc acc'"
proof (induction env p n acc and env d ch acc arbitrary: acc' and acc' rule: walk_node_walk_dir.induct)
  case (1 env p s children acc)
  from "1.prems" obtain c a where c: "classifyPath p (we_policy env) = Inr c"
    and ow: "c \<in> set (we_include env) \<longrightarrow> \<not> owner_differs env s"
    and a: "(if c \<in> set (we_include env)
             then bindE (registerAuthoritativePath env p acc) (\<lambda>a. Inr (add_entry (dir_entry p s c) a))
             else Inr acc) = Inr a"
    and r: "(if c \<noteq> IgnoredEphemeral \<or> IgnoredEphemeral \<in> set (we_include env)
             then walk_dir env p children a else Inr a) = Inr acc'"
    by (auto simp only: walk_node.simps bindE_eq_Inr if_Inl_eq_Inr)
  have acc: "acceptable env (p, c, FDir s children)" using c ow by (simp add: acceptable_def)
  have le: "listed_entry env (p, c, FDir s children) = dir_entry p s c" by (simp add: listed_entry_def)
  have head: "walked env [(p, c, FDir s children)] acc a"
  proof (cases "c \<in> set (we_include env)")
    case True
    with a obtain b where "registerAuthoritativePath env p acc = Inr b" "a = add_entry (dir_entry p s c) b"
      by (auto simp: bindE_eq_Inr)
    with walked_take [OF acc True] le show ?thesis by simp
  next
    case False
    with a walked_skip [OF acc] show ?thesis by simp
  qed
  show ?case
  proof (cases "c \<noteq> IgnoredEphemeral \<or> IgnoredEphemeral \<in> set (we_include env)")
    case True
    with r have "walk_dir env p children a = Inr acc'" by simp
    with "1.IH" [of c a] ow True have "walked env (reach_dir env p children) a acc'" by blast
    with walked_append [OF head this] c True show ?thesis by simp
  next
    case False
    with r head c show ?thesis by simp
  qed
next
  case (2 env p s bytes unchanged acc)
  from "2.prems" obtain c where c: "classifyPath p (we_policy env) = Inr c"
    and ow: "c \<in> set (we_include env) \<longrightarrow> \<not> owner_differs env s"
    by (auto simp: bindE_eq_Inr split: if_splits)
  show ?case
  proof (cases "c \<in> set (we_include env)")
    case True
    with "2.prems" c ow obtain a where a: "registerAuthoritativePath env p acc = Inr a" "st_nlink s \<le> 1"
      "\<not> is_sparse env s" "unchanged" "acc' = add_entry (file_entry p s (we_H env bytes) c) a"
      by (auto simp: bindE_eq_Inr sha256File_def split: if_splits)
    have "acceptable env (p, c, FFile s bytes unchanged)" using c ow a by (simp add: acceptable_def)
    from walked_take [OF this True a(1)] a(5) c show ?thesis by (simp add: listed_entry_def)
  next
    case False
    with "2.prems" c have "acc' = acc" by simp
    moreover have "acceptable env (p, c, FFile s bytes unchanged)" using c False by (simp add: acceptable_def)
    ultimately show ?thesis using walked_skip False c by simp
  qed
next
  case (3 env p s target acc)
  then obtain c where c: "classifyPath p (we_policy env) = Inr c" "c \<notin> set (we_include env)" "acc' = acc"
    by (auto simp: bindE_eq_Inr split: if_splits)
  then have "acceptable env (p, c, FLink s target)" by (simp add: acceptable_def)
  with walked_skip c show ?case by simp
next
  case (4 env p s acc)
  then show ?case by (auto simp: bindE_eq_Inr split: if_splits)
next
  case (5 env d acc)
  then show ?case by (simp add: walked_Nil)
next
  case (6 env d name node rest acc)
  from "6.prems" obtain b where b: "walk_node env (child_path d name) node acc = Inr b"
    "walk_dir env d rest b = Inr acc'" by (auto simp: bindE_eq_Inr)
  from walked_append [OF "6.IH"(1) [OF b(1)] "6.IH"(2) [OF b(2)]] show ?case by simp
qed

subsection \<open>Names\<close>

lemma collide_free:
  assumes "collide nfc lower m1 m2 xs = Inr ()" and "\<forall>x\<in>set xs. x \<noteq> []" and "[] \<notin> ran m2"
  shows "(\<forall>p\<in>set xs. \<forall>q\<in>set xs. lower (nfc p) = lower (nfc q) \<longrightarrow> p = q) \<and>
    (\<forall>p\<in>set xs. m2 (lower (nfc p)) = None \<or> m2 (lower (nfc p)) = Some p)"
  using assms
proof (induction xs arbitrary: m1 m2)
  case (Cons x xs)
  let ?k = "lower (nfc x)"
  from Cons.prems(1) have ok: "m2 ?k = None \<or> m2 ?k = Some [] \<or> m2 ?k = Some x"
    and rest: "collide nfc lower (m1(nfc x \<mapsto> x)) (m2(?k \<mapsto> x)) xs = Inr ()"
    by (auto simp: Let_def split: if_splits)
  from ok Cons.prems(3) have hd_ok: "m2 ?k = None \<or> m2 ?k = Some x" by (auto simp: ran_def)
  have "[] \<notin> ran (m2(?k \<mapsto> x))" using Cons.prems(2,3) by (auto simp: ran_def split: if_splits)
  from Cons.IH [OF rest _ this] Cons.prems(2) have
    IH: "\<forall>p\<in>set xs. \<forall>q\<in>set xs. lower (nfc p) = lower (nfc q) \<longrightarrow> p = q"
      "\<forall>p\<in>set xs. (m2(?k \<mapsto> x)) (lower (nfc p)) = None \<or> (m2(?k \<mapsto> x)) (lower (nfc p)) = Some p"
    by (simp_all del: fun_upd_apply)
  have same: "p = x" if "p \<in> set xs" "lower (nfc p) = ?k" for p
    using IH(2) that by (metis fun_upd_same option.distinct(1) option.inject)
  have other: "m2 (lower (nfc p)) = None \<or> m2 (lower (nfc p)) = Some p" if "p \<in> set xs" for p
    using IH(2) that same hd_ok by (metis fun_upd_other)
  show ?case using IH(1) same hd_ok other by (simp; metis)
qed simp

lemma no_collisions:
  assumes "assertNoPathIdentityCollisions nfc lower xs = Inr ()" and "\<forall>x\<in>set xs. x \<noteq> []"
  shows "p \<in> set xs \<Longrightarrow> q \<in> set xs \<Longrightarrow> lower (nfc p) = lower (nfc q) \<Longrightarrow> p = q"
  using collide_free [OF assms(1) [unfolded assertNoPathIdentityCollisions_def] assms(2)] by simp

subsection \<open>Built manifests\<close>

lemma buildManifest_Inr:
  assumes "buildManifest env (FDir s children) = Inr m"
  shows "sm_schemaVersion m = 2 \<and> sm_hash m = hashManifestEntries (we_H env) (sm_entries m) \<and>
    (let env' = env\<lparr>we_root := s\<rparr>; ls = reach_dir env' [] children
     in list_all (acceptable env') ls \<and>
        sm_entries m = sort_key me_path (map (listed_entry env') (filter (included env') ls)) \<and>
        assertNoPathIdentityCollisions (we_nfc env) (we_lower env) (map fst (filter (included env') ls)) = Inr ())"
proof -
  let ?env = "env\<lparr>we_root := s\<rparr>"
  from assms obtain es ps where w: "walk_dir ?env [] children ([], []) = Inr (es, ps)"
    and m: "m = \<lparr>sm_schemaVersion = 2, sm_entries = sort_key me_path es,
                 sm_hash = hashManifestEntries (we_H env) (sort_key me_path es)\<rparr>"
    by (auto simp: buildManifest_def bindE_eq_Inr Let_def)
  from walk_walked(2) [OF w] m show ?thesis
    by (auto simp: walked_def Let_def assertNoPathIdentityCollisions_def)
qed

lemma hash_or_null_inj [simp]: "hash_or_null a = hash_or_null b \<longleftrightarrow> a = b"
  by (auto simp: hash_or_null_def split: option.splits)

lemma entry_type_text_inj [simp]: "entry_type_text a = entry_type_text b \<longleftrightarrow> a = b"
  by (cases a; cases b) simp_all

lemma path_class_text_inj [simp]: "path_class_text a = path_class_text b \<longleftrightarrow> a = b"
  by (cases a; cases b) simp_all

lemma entry_json_inj [simp]: "entry_json a = entry_json b \<longleftrightarrow> a = b"
  by (auto simp: entry_json_def)

text \<open>The text hashed into a manifest hash.\<close>

definition entries_text :: "manifest_entry list \<Rightarrow> string" where
  "entries_text es = stringify (JArr (map entry_json es))"

lemma manifest_hash_binds:
  assumes "hashManifestEntries H es = hashManifestEntries H es'"
  shows "es = es' \<or> collision_in H {entries_text es, entries_text es'}"
proof -
  have "inj entry_json" by (rule injI) simp
  with hash_binds [of H "JArr (map entry_json es)" "JArr (map entry_json es')"] assms show ?thesis
    by (auto simp: hashManifestEntries_def entries_text_def inj_map_eq_map)
qed

lemma file_entry_eq:
  assumes "listed_entry env (p, c, FFile s b u) = listed_entry env' (q, d, n)"
  shows "p = q \<and> c = d \<and> (\<exists>s' b' u'. n = FFile s' b' u' \<and> we_H env b = we_H env' b' \<and>
    permission_bits (st_mode s) = permission_bits (st_mode s') \<and> st_size s = st_size s')"
  using assms by (cases n) (simp_all add: listed_entry_def file_entry_def dir_entry_def)

subsection \<open>Differences\<close>

lemma by_path_Some: "by_path es p = Some e \<Longrightarrow> e \<in> set es \<and> me_path e = p"
  by (auto simp: by_path_def dest: map_of_SomeD)

lemma by_path_None: "by_path es p = None \<longleftrightarrow> p \<notin> me_path ` set es"
  by (auto simp: by_path_def map_of_eq_None_iff image_iff)

lemma by_path_distinct:
  assumes "distinct (map me_path es)" and "e \<in> set es"
  shows "by_path es (me_path e) = Some e"
  using assms by (auto simp: by_path_def rev_map intro!: map_of_is_SomeI simp: comp_def distinct_map)

lemma set_locale_sort [simp]: "set (locale_sort le xs) = set xs"
proof -
  have "set (sort_members le (map (\<lambda>x. (x, ())) xs)) = set (map (\<lambda>x. (x, ())) xs)"
    by (rule mset_eq_setD) (rule sort_members_mset)
  then show ?thesis by (auto simp: locale_sort_def image_iff)
qed

lemma distinct_locale_sort: "distinct xs \<Longrightarrow> distinct (locale_sort le xs)"
proof -
  assume "distinct xs"
  have "mset (locale_sort le xs) = image_mset fst (mset (sort_members le (map (\<lambda>x. (x, ())) xs)))"
    by (simp only: locale_sort_def mset_map)
  also have "\<dots> = mset (map fst (map (\<lambda>x. (x, ())) xs))" by (simp only: sort_members_mset mset_map)
  also have "\<dots> = mset xs" by (simp add: comp_def)
  finally have "mset (locale_sort le xs) = mset xs" .
  with \<open>distinct xs\<close> show ?thesis by (metis mset_eq_imp_distinct_iff)
qed

lemma path_change_Some:
  "path_change p old new = Some c \<Longrightarrow> mc_path c = p \<and> mc_before c = old \<and> mc_after c = new"
  by (auto simp: path_change_def split: option.splits if_splits)

lemma sameEntry_eq: "me_path l = me_path r \<Longrightarrow> sameEntry l r \<longleftrightarrow> l = r"
  by (auto simp: sameEntry_def)

lemma path_change_None:
  assumes "\<And>e. old = Some e \<Longrightarrow> me_path e = p" and "\<And>e. new = Some e \<Longrightarrow> me_path e = p"
  shows "path_change p old new = None \<longleftrightarrow> old = new"
  using assms by (auto simp: path_change_def sameEntry_eq split: option.splits if_splits)

lemma diff_member:
  "c \<in> set (diffManifests le b a) \<longleftrightarrow>
     path_change (mc_path c) (by_path (sm_entries b) (mc_path c)) (by_path (sm_entries a) (mc_path c)) = Some c"
proof
  assume "c \<in> set (diffManifests le b a)"
  then obtain p where "path_change p (by_path (sm_entries b) p) (by_path (sm_entries a) p) = Some c"
    by (auto simp: diffManifests_def Let_def map_filter_def)
  with path_change_Some [OF this]
  show "path_change (mc_path c) (by_path (sm_entries b) (mc_path c)) (by_path (sm_entries a) (mc_path c)) = Some c"
    by simp
next
  assume c: "path_change (mc_path c) (by_path (sm_entries b) (mc_path c)) (by_path (sm_entries a) (mc_path c)) = Some c"
  then have "by_path (sm_entries b) (mc_path c) \<noteq> None \<or> by_path (sm_entries a) (mc_path c) \<noteq> None"
    by (auto simp: path_change_def split: option.splits)
  then have "mc_path c \<in> me_path ` (set (sm_entries b) \<union> set (sm_entries a))"
    by (auto simp: by_path_None)
  with c show "c \<in> set (diffManifests le b a)"
    by (force simp: diffManifests_def Let_def map_filter_def)
qed

lemma diff_paths_distinct: "distinct (map mc_path (diffManifests le b a))"
proof -
  have "map mc_path (List.map_filter (\<lambda>p. path_change p (f p) (g p)) ps) =
      filter (\<lambda>p. path_change p (f p) (g p) \<noteq> None) ps" for f g ps
    by (induction ps) (auto simp: map_filter_simps dest: path_change_Some split: option.splits)
  then show ?thesis by (simp add: diffManifests_def Let_def distinct_locale_sort)
qed

lemma diff_lookup:
  "(\<exists>c\<in>set (diffManifests le b a). mc_path c = p) \<longleftrightarrow> by_path (sm_entries b) p \<noteq> by_path (sm_entries a) p"
proof -
  let ?c = "path_change p (by_path (sm_entries b) p) (by_path (sm_entries a) p)"
  have none: "?c = None \<longleftrightarrow> by_path (sm_entries b) p = by_path (sm_entries a) p"
    by (rule path_change_None) (auto dest: by_path_Some)
  have "(\<exists>c\<in>set (diffManifests le b a). mc_path c = p) \<longleftrightarrow> ?c \<noteq> None"
  proof
    assume "\<exists>c\<in>set (diffManifests le b a). mc_path c = p"
    then show "?c \<noteq> None" by (auto simp: diff_member)
  next
    assume "?c \<noteq> None"
    then obtain c where c: "?c = Some c" by blast
    with path_change_Some [OF c] have "c \<in> set (diffManifests le b a)" by (simp add: diff_member)
    with path_change_Some [OF c] show "\<exists>c\<in>set (diffManifests le b a). mc_path c = p" by blast
  qed
  with none show ?thesis by simp
qed

text \<open>Replaying a difference over lookups.\<close>

definition apply_changes :: "(string \<rightharpoonup> manifest_entry) \<Rightarrow> manifest_change list \<Rightarrow> (string \<rightharpoonup> manifest_entry)" where
  "apply_changes m cs = foldl (\<lambda>m c. m(mc_path c := mc_after c)) m cs"

lemma apply_changes_other: "p \<notin> mc_path ` set cs \<Longrightarrow> apply_changes m cs p = m p"
  unfolding apply_changes_def by (induction cs arbitrary: m) auto

lemma apply_changes_at:
  "distinct (map mc_path cs) \<Longrightarrow> c \<in> set cs \<Longrightarrow> apply_changes m cs (mc_path c) = mc_after c"
proof (induction cs arbitrary: m)
  case (Cons d cs)
  show ?case
  proof (cases "c = d")
    case True
    with Cons.prems(1) apply_changes_other [of "mc_path d" cs "m(mc_path d := mc_after d)"] show ?thesis
      by (simp add: apply_changes_def)
  next
    case False
    with Cons show ?thesis by (simp add: apply_changes_def)
  qed
qed simp

lemma apply_diff: "apply_changes (by_path (sm_entries b)) (diffManifests le b a) = by_path (sm_entries a)"
proof
  fix p
  show "apply_changes (by_path (sm_entries b)) (diffManifests le b a) p = by_path (sm_entries a) p"
  proof (cases "\<exists>c\<in>set (diffManifests le b a). mc_path c = p")
    case True
    then obtain c where c: "c \<in> set (diffManifests le b a)" "mc_path c = p" by blast
    then have "mc_after c = by_path (sm_entries a) p" by (auto simp: diff_member dest: path_change_Some)
    with apply_changes_at [OF diff_paths_distinct c(1)] c(2) show ?thesis by simp
  next
    case False
    then have "by_path (sm_entries b) p = by_path (sm_entries a) p" by (simp add: diff_lookup)
    moreover have "p \<notin> mc_path ` set (diffManifests le b a)" using False by auto
    ultimately show ?thesis by (simp add: apply_changes_other)
  qed
qed

end
