(* ===== verification/Candidate_Checks.thy ===== *)
theory Candidate_Checks
  imports Manifest_Facts
begin

text \<open>
  The static checks of a candidate (\<^verbatim>\<open>commitgate/validators.ts\<close>), its budget of ignored
  files (\<^verbatim>\<open>commitgate/resource-budget.ts\<close>) and the derived disposition proof
  (\<^verbatim>\<open>commitgate/effect-proof.ts\<close>). The candidate's changed files are read through the
  parameter \<open>files\<close>: the bytes of a regular file at a path, if there is one.
\<close>

subsection \<open>Static validation\<close>

fun includes_text :: "string \<Rightarrow> string \<Rightarrow> bool" where
  "includes_text [] v = (v = [])"
| "includes_text (c # cs) v = (starts_with (c # cs) v \<or> includes_text cs v)"

definition readChangedFileBuffers ::
  "(string \<Rightarrow> string option) \<Rightarrow> string list \<Rightarrow> int \<Rightarrow> (string \<times> string) list" where
  "readChangedFileBuffers files paths maxBytes =
     List.map_filter (\<lambda>p. case files p of
         None \<Rightarrow> None
       | Some bytes \<Rightarrow> if int (length bytes) > maxBytes then None else Some (p, bytes)) paths"

definition is_dir_side :: "manifest_entry option \<Rightarrow> bool" where
  "is_dir_side side \<longleftrightarrow> (case side of None \<Rightarrow> True | Some e \<Rightarrow> me_type e = EDir)"

definition changed_files :: "manifest_change list \<Rightarrow> nat" where
  "changed_files cs = length (filter (\<lambda>c. \<not> is_dir_side (mc_before c) \<or> \<not> is_dir_side (mc_after c)) cs)"

definition side_has :: "(manifest_entry \<Rightarrow> bool) \<Rightarrow> manifest_entry option \<Rightarrow> bool" where
  "side_has P side \<longleftrightarrow> (case side of None \<Rightarrow> False | Some e \<Rightarrow> P e)"

definition masked :: "string \<Rightarrow> string" where
  "masked p = map (\<lambda>c. if c = slash then slash else CHR ''*'') p"

definition change_failures :: "policy \<Rightarrow> string list \<Rightarrow> manifest_change \<Rightarrow> string list res" where
  "change_failures p sensitive c =
     bindE (pathMatches (mc_path c) (protectedPaths p)) (\<lambda>prot.
       Inr ((if list_ex (\<lambda>v. v \<noteq> [] \<and> includes_text (mc_path c) v) sensitive
             then [''SENSITIVE_VALUE_DETECTED:'' @ masked (mc_path c)] else []) @
            (if side_has (\<lambda>e. me_pathClass e = PlatformManaged) (mc_before c) \<or>
                side_has (\<lambda>e. me_pathClass e = PlatformManaged) (mc_after c)
             then [''PLATFORM_MANAGED_PATH_CHANGED:'' @ mc_path c] else []) @
            (if prot then [''PROTECTED_PATH_CHANGED:'' @ mc_path c] else []) @
            (if side_has (\<lambda>e. me_type e = ESymlink) (mc_before c) \<or> side_has (\<lambda>e. me_type e = ESymlink) (mc_after c)
             then [''SYMLINK_CHANGED:'' @ mc_path c] else []) @
            (if side_has (\<lambda>e. me_type e = EFile \<and> me_size e > maxSingleFileBytes p) (mc_after c)
             then [''SINGLE_FILE_BUDGET_EXCEEDED:'' @ mc_path c] else [])))"

definition content_failures :: "policy \<Rightarrow> string list \<Rightarrow> string \<times> string \<Rightarrow> string list" where
  "content_failures p sensitive f =
     (case f of (path, bytes) \<Rightarrow>
        (if list_ex (includes_text bytes) (canaryPatterns p) then [''CANARY_DETECTED:'' @ path] else []) @
        (if list_ex (\<lambda>v. v \<noteq> [] \<and> includes_text bytes v) sensitive
         then [''SENSITIVE_VALUE_DETECTED:'' @ path] else []))"

definition dedup :: "'a list \<Rightarrow> 'a list" where
  "dedup xs = rev (remdups (rev xs))"

definition validateCandidate ::
  "key_order \<Rightarrow> policy \<Rightarrow> snapshot_manifest \<Rightarrow> snapshot_manifest \<Rightarrow> (string \<Rightarrow> string option) \<Rightarrow>
     string list \<Rightarrow> (manifest_change list \<times> string list) res" where
  "validateCandidate le p base candidate files sensitive =
     (let changes = diffManifests le base candidate
      in bindE (mapE (change_failures p sensitive) changes) (\<lambda>fs.
           let budget =
                 (if int (changed_files changes) > maxChangedFiles p then [''DIFF_FILE_BUDGET_EXCEEDED''] else []) @
                 (if changedByteCount changes > maxChangedBytes p then [''DIFF_BYTE_BUDGET_EXCEEDED''] else []);
               contents =
                 (if canaryPatterns p \<noteq> [] \<or> sensitive \<noteq> []
                  then concat (map (content_failures p sensitive)
                    (readChangedFileBuffers files
                      (map mc_path (take (nat (maxChangedFiles p + 1)) changes)) (maxSingleFileBytes p)))
                  else [])
           in Inr (changes, dedup (budget @ concat fs @ contents))))"

subsection \<open>Budget of ignored files\<close>

record resource_limits =
  maxIgnoredEntries :: int
  maxIgnoredBytes :: int
  maxIgnoredSingleFileBytes :: int

definition DEFAULT_CANDIDATE_RESOURCE_LIMITS :: resource_limits where
  "DEFAULT_CANDIDATE_RESOURCE_LIMITS =
     \<lparr>maxIgnoredEntries = 4096, maxIgnoredBytes = 64 * 1024 * 1024, maxIgnoredSingleFileBytes = 16 * 1024 * 1024\<rparr>"

definition positive_safe :: "int \<Rightarrow> string \<Rightarrow> unit res" where
  "positive_safe value name =
     (if \<not> is_safe_integer value \<or> value \<le> 0 then Inl (JsError (name @ '' must be a positive safe integer''))
      else Inr ())"

definition override :: "'a option \<Rightarrow> 'a \<Rightarrow> 'a" where
  "override v d = (case v of None \<Rightarrow> d | Some x \<Rightarrow> x)"

text \<open>Overrides of the three limits, each given or not.\<close>

definition normalizeCandidateResourceLimits ::
  "int option \<Rightarrow> int option \<Rightarrow> int option \<Rightarrow> resource_limits res" where
  "normalizeCandidateResourceLimits entries bytes single =
     (let e = override entries (maxIgnoredEntries DEFAULT_CANDIDATE_RESOURCE_LIMITS);
          b = override bytes (maxIgnoredBytes DEFAULT_CANDIDATE_RESOURCE_LIMITS);
          s = override single (maxIgnoredSingleFileBytes DEFAULT_CANDIDATE_RESOURCE_LIMITS)
      in bindE (positive_safe e ''maxIgnoredEntries'') (\<lambda>_.
         bindE (positive_safe b ''maxIgnoredBytes'') (\<lambda>_.
         bindE (positive_safe s ''maxIgnoredSingleFileBytes'') (\<lambda>_.
           Inr \<lparr>maxIgnoredEntries = e, maxIgnoredBytes = b, maxIgnoredSingleFileBytes = s\<rparr>))))"

type_synonym usage = "int \<times> int"

definition count_ignored :: "resource_limits \<Rightarrow> string \<Rightarrow> int \<Rightarrow> usage \<Rightarrow> usage res" where
  "count_ignored l relative bytes u =
     (case u of (n, b) \<Rightarrow>
        if n + 1 > maxIgnoredEntries l
        then Inl (JsError (''IGNORED_EPHEMERAL_FILE_BUDGET_EXCEEDED:'' @ relative))
        else if bytes > maxIgnoredSingleFileBytes l
        then Inl (JsError (''IGNORED_EPHEMERAL_SINGLE_FILE_BUDGET_EXCEEDED:'' @ relative))
        else if b + bytes > maxIgnoredBytes l
        then Inl (JsError (''IGNORED_EPHEMERAL_BYTE_BUDGET_EXCEEDED:'' @ relative))
        else Inr (n + 1, b + bytes))"

definition is_ignored :: "policy \<Rightarrow> bool \<Rightarrow> string \<Rightarrow> bool res" where
  "is_ignored p inherited relative =
     (if inherited then Inr True
      else bindE (classifyPath relative p) (\<lambda>c. Inr (c = IgnoredEphemeral)))"

fun audit_node :: "policy \<Rightarrow> resource_limits \<Rightarrow> bool \<Rightarrow> string \<Rightarrow> fs_node \<Rightarrow> usage \<Rightarrow> usage res"
  and audit_dir :: "policy \<Rightarrow> resource_limits \<Rightarrow> bool \<Rightarrow> string \<Rightarrow> (string \<times> fs_node) list \<Rightarrow> usage \<Rightarrow> usage res" where
  "audit_node p l inherited relative (FDir s children) u =
     bindE (is_ignored p inherited relative) (\<lambda>ignored.
     bindE (if ignored then count_ignored l relative 0 u else Inr u)
       (audit_dir p l ignored relative children))"
| "audit_node p l inherited relative (FFile s bytes unchanged) u =
     bindE (is_ignored p inherited relative) (\<lambda>ignored.
       if ignored then count_ignored l relative (st_size s) u else Inr u)"
| "audit_node p l inherited relative (FLink s target) u =
     bindE (is_ignored p inherited relative) (\<lambda>ignored.
       if ignored then count_ignored l relative (st_size s) u else Inr u)"
| "audit_node p l inherited relative (FSpecial s) u =
     bindE (is_ignored p inherited relative) (\<lambda>ignored.
     bindE (if ignored then count_ignored l relative (st_size s) u else Inr u)
       (\<lambda>_. Inl (JsError (''CANDIDATE_SPECIAL_FILE:'' @ relative))))"
| "audit_dir p l inherited dir [] u = Inr u"
| "audit_dir p l inherited dir ((name, node) # rest) u =
     bindE (audit_node p l inherited (child_path dir name) node u) (audit_dir p l inherited dir rest)"

definition auditCandidateResourceUsage :: "policy \<Rightarrow> resource_limits \<Rightarrow> fs_node \<Rightarrow> usage res" where
  "auditCandidateResourceUsage p limits root =
     bindE (normalizeCandidateResourceLimits (Some (maxIgnoredEntries limits)) (Some (maxIgnoredBytes limits))
              (Some (maxIgnoredSingleFileBytes limits))) (\<lambda>l.
       case root of
         FDir s children \<Rightarrow> audit_dir p l False [] children (0, 0)
       | _ \<Rightarrow> Inl (JsError ''CANDIDATE_RESOURCE_ROOT_INVALID''))"

subsection \<open>Disposition proof\<close>

datatype observation = Changed | Unchanged | Unobserved

record disposition_input =
  di_committed :: bool
  di_baseHash :: string
  di_candidateHash :: "string option"
  di_finalHash :: string
  di_sealedProposalHash :: "string option"
  di_verifierInputHash :: "string option"
  di_promotionSourceHash :: "string option"
  di_finalAuthoritativeHash :: "string option"
  di_authoritativeBeforeHash :: "string option"

record effect_proof =
  ep_candidateChanged :: bool
  ep_candidateObservation :: observation
  ep_admissionBaseHash :: string
  ep_authoritativeBeforeHash :: string
  ep_authoritativeAfterHash :: string
  ep_authoritativeChanged :: bool
  ep_sealedProposalHash :: "string option"
  ep_verifierInputHash :: "string option"
  ep_promotionSourceHash :: "string option"
  ep_finalAuthoritativeHash :: string
  ep_promotedExactProposal :: bool
  ep_invariantSatisfied :: bool

definition deriveEffectDispositionProof :: "disposition_input \<Rightarrow> effect_proof" where
  "deriveEffectDispositionProof i =
     (let sealed = di_sealedProposalHash i; verified = di_verifierInputHash i; promoted = di_promotionSourceHash i;
          final = override (di_finalAuthoritativeHash i) (di_finalHash i);
          before = override (di_authoritativeBeforeHash i) (di_baseHash i);
          observed = (case di_candidateHash i of
              None \<Rightarrow> Unobserved | Some h \<Rightarrow> if h = di_baseHash i then Unchanged else Changed);
          exact = (sealed \<noteq> None \<and> verified \<noteq> None \<and> promoted \<noteq> None \<and>
              sealed = verified \<and> sealed = promoted \<and> sealed = Some final)
      in \<lparr>ep_candidateChanged = (observed = Changed), ep_candidateObservation = observed,
          ep_admissionBaseHash = di_baseHash i, ep_authoritativeBeforeHash = before,
          ep_authoritativeAfterHash = di_finalHash i,
          ep_authoritativeChanged = (di_finalHash i \<noteq> before),
          ep_sealedProposalHash = sealed, ep_verifierInputHash = verified, ep_promotionSourceHash = promoted,
          ep_finalAuthoritativeHash = final, ep_promotedExactProposal = di_committed i,
          ep_invariantSatisfied = (if di_committed i then exact else before = di_finalHash i)\<rparr>)"

subsection \<open>Facts\<close>

lemma set_dedup [simp]: "set (dedup xs) = set xs"
  by (simp add: dedup_def)

lemma dedup_Nil_iff [simp]: "dedup xs = [] \<longleftrightarrow> xs = []"
  by (simp add: dedup_def)

lemma change_failures_Nil:
  "change_failures p sensitive c = Inr [] \<longleftrightarrow>
     pathMatches (mc_path c) (protectedPaths p) = Inr False \<and>
     (\<forall>v\<in>set sensitive. v \<noteq> [] \<longrightarrow> \<not> includes_text (mc_path c) v) \<and>
     (\<forall>e. mc_before c = Some e \<or> mc_after c = Some e \<longrightarrow>
        me_pathClass e \<noteq> PlatformManaged \<and> me_type e \<noteq> ESymlink) \<and>
     (\<forall>e. mc_after c = Some e \<longrightarrow> me_type e = EFile \<longrightarrow> me_size e \<le> maxSingleFileBytes p)"
proof -
  have side: "side_has P s \<longleftrightarrow> (\<exists>e. s = Some e \<and> P e)" for P s
    by (auto simp: side_has_def split: option.splits)
  have nil: "(if b then [x] else []) = [] \<longleftrightarrow> \<not> b" for b and x :: string by simp
  show ?thesis
    unfolding change_failures_def bindE_eq_Inr sum.inject append_is_Nil_conv nil side list_ex_iff
    by (auto simp: not_less)
qed

lemma mapE_concat_Nil:
  assumes "mapE f xs = Inr fs" and "concat fs = []"
  shows "\<forall>x\<in>set xs. f x = Inr []"
  using assms by (auto simp: mapE_Inr_iff list_all2_conv_all_nth in_set_conv_nth) (metis nth_mem)

lemma content_failures_Nil:
  "content_failures p sensitive (path, bytes) = [] \<longleftrightarrow>
     (\<forall>k\<in>set (canaryPatterns p). \<not> includes_text bytes k) \<and>
     (\<forall>v\<in>set sensitive. v \<noteq> [] \<longrightarrow> \<not> includes_text bytes v)"
  by (auto simp: content_failures_def list_ex_iff)

lemma read_buffers_set:
  "(q, bytes) \<in> set (readChangedFileBuffers files paths m) \<longleftrightarrow>
     q \<in> set paths \<and> files q = Some bytes \<and> int (length bytes) \<le> m"
  unfolding readChangedFileBuffers_def
  by (induction paths) (auto simp: map_filter_simps split: option.splits if_splits)

lemma validateCandidate_clean:
  assumes "validateCandidate le p base candidate files sensitive = Inr (cs, [])"
  shows "cs = diffManifests le base candidate" and "int (changed_files cs) \<le> maxChangedFiles p"
    and "changedByteCount cs \<le> maxChangedBytes p" and "\<forall>c\<in>set cs. change_failures p sensitive c = Inr []"
    and "canaryPatterns p \<noteq> [] \<or> sensitive \<noteq> [] \<Longrightarrow>
      c \<in> set (take (nat (maxChangedFiles p + 1)) cs) \<Longrightarrow> files (mc_path c) = Some bytes \<Longrightarrow>
      int (length bytes) \<le> maxSingleFileBytes p \<Longrightarrow> content_failures p sensitive (mc_path c, bytes) = []"
proof -
  from assms obtain fs where cs: "cs = diffManifests le base candidate"
    and fs: "mapE (change_failures p sensitive) cs = Inr fs" "concat fs = []"
    and budget: "(if int (changed_files cs) > maxChangedFiles p then [''DIFF_FILE_BUDGET_EXCEEDED''] else []) = []"
      "(if changedByteCount cs > maxChangedBytes p then [''DIFF_BYTE_BUDGET_EXCEEDED''] else []) = []"
    and contents: "(if canaryPatterns p \<noteq> [] \<or> sensitive \<noteq> []
       then concat (map (content_failures p sensitive)
         (readChangedFileBuffers files (map mc_path (take (nat (maxChangedFiles p + 1)) cs)) (maxSingleFileBytes p)))
       else []) = []"
    unfolding validateCandidate_def Let_def bindE_eq_Inr sum.inject prod.inject dedup_Nil_iff append_is_Nil_conv
    by blast
  from cs show "cs = diffManifests le base candidate" .
  from budget show "int (changed_files cs) \<le> maxChangedFiles p" "changedByteCount cs \<le> maxChangedBytes p"
    by (auto simp: not_less split: if_splits)
  from mapE_concat_Nil [OF fs] show "\<forall>c\<in>set cs. change_failures p sensitive c = Inr []" .
  assume "canaryPatterns p \<noteq> [] \<or> sensitive \<noteq> []" and c: "c \<in> set (take (nat (maxChangedFiles p + 1)) cs)"
    "files (mc_path c) = Some bytes" "int (length bytes) \<le> maxSingleFileBytes p"
  with contents have "\<forall>f\<in>set (readChangedFileBuffers files (map mc_path (take (nat (maxChangedFiles p + 1)) cs))
      (maxSingleFileBytes p)). content_failures p sensitive f = []"
    by (auto simp: concat_eq_Nil_conv)
  moreover have "(mc_path c, bytes) \<in> set (readChangedFileBuffers files
      (map mc_path (take (nat (maxChangedFiles p + 1)) cs)) (maxSingleFileBytes p))"
    using c by (simp add: read_buffers_set)
  ultimately show "content_failures p sensitive (mc_path c, bytes) = []" by blast
qed

text \<open>The ignored inodes of a tree with their sizes, directories counting as empty.\<close>

definition ignores :: "policy \<Rightarrow> bool \<Rightarrow> string \<Rightarrow> bool" where
  "ignores p inherited relative \<longleftrightarrow> inherited \<or> classifyPath relative p = Inr IgnoredEphemeral"

fun ignored_node :: "policy \<Rightarrow> bool \<Rightarrow> string \<Rightarrow> fs_node \<Rightarrow> (string \<times> int) list"
  and ignored_dir :: "policy \<Rightarrow> bool \<Rightarrow> string \<Rightarrow> (string \<times> fs_node) list \<Rightarrow> (string \<times> int) list" where
  "ignored_node p inh r (FDir s children) =
     (if ignores p inh r then [(r, 0)] else []) @ ignored_dir p (ignores p inh r) r children"
| "ignored_node p inh r n = (if ignores p inh r then [(r, st_size (node_stats n))] else [])"
| "ignored_dir p inh d [] = []"
| "ignored_dir p inh d ((name, n) # rest) = ignored_node p inh (child_path d name) n @ ignored_dir p inh d rest"

lemma is_ignored_Inr: "is_ignored p inh r = Inr b \<Longrightarrow> b = ignores p inh r"
  by (auto simp: is_ignored_def ignores_def bindE_eq_Inr split: if_splits)

definition within :: "resource_limits \<Rightarrow> usage \<Rightarrow> bool" where
  "within l u \<longleftrightarrow> fst u \<le> maxIgnoredEntries l \<and> snd u \<le> maxIgnoredBytes l"

definition audited :: "resource_limits \<Rightarrow> (string \<times> int) list \<Rightarrow> usage \<Rightarrow> usage \<Rightarrow> bool" where
  "audited l ns u u' \<longleftrightarrow> u' = (fst u + int (length ns), snd u + sum_list (map snd ns)) \<and>
     (\<forall>(r, b)\<in>set ns. b \<le> maxIgnoredSingleFileBytes l) \<and> (within l u \<longrightarrow> within l u')"

lemma audited_Nil: "audited l [] u u"
  by (simp add: audited_def)

lemma audited_append: "audited l ns u v \<Longrightarrow> audited l ms v w \<Longrightarrow> audited l (ns @ ms) u w"
  by (auto simp: audited_def)

lemma count_ignored_Inr: "count_ignored l r b u = Inr u' \<Longrightarrow> audited l [(r, b)] u u'"
  by (cases u) (auto simp: count_ignored_def audited_def within_def split: if_splits)

lemma count_if:
  "(if ignores p inh r then count_ignored l r b u else Inr u) = Inr v \<Longrightarrow>
     audited l (if ignores p inh r then [(r, b)] else []) u v"
  by (auto simp: audited_Nil dest: count_ignored_Inr split: if_splits)

lemma audit_audited:
  "audit_node p l inh r n u = Inr u' \<Longrightarrow> audited l (ignored_node p inh r n) u u'"
  "audit_dir p l inh d ch u = Inr u' \<Longrightarrow> audited l (ignored_dir p inh d ch) u u'"
proof (induction p l inh r n u and p l inh d ch u arbitrary: u' and u' rule: audit_node_audit_dir.induct)
  case (1 p l inh r s children u)
  from "1.prems" obtain b v where b: "is_ignored p inh r = Inr b"
    and v: "(if b then count_ignored l r 0 u else Inr u) = Inr v" "audit_dir p l b r children v = Inr u'"
    by (auto simp: bindE_eq_Inr)
  from is_ignored_Inr [OF b] have bi: "b = ignores p inh r" .
  from audited_append [OF count_if [OF v(1) [unfolded bi]] "1.IH" [OF v(2), unfolded bi]]
  show ?case by simp
next
  case (2 p l inh r s bytes unchanged u)
  then show ?case by (auto simp: bindE_eq_Inr dest!: is_ignored_Inr count_if simp del: if_split_asm)
next
  case (3 p l inh r s target u)
  then show ?case by (auto simp: bindE_eq_Inr dest!: is_ignored_Inr count_if simp del: if_split_asm)
next
  case (4 p l inh r s u)
  then show ?case by (auto simp: bindE_eq_Inr)
next
  case (5 p l inh d u)
  then show ?case by (simp add: audited_Nil)
next
  case (6 p l inh d name node rest u)
  from "6.prems" obtain v where v: "audit_node p l inh (child_path d name) node u = Inr v"
    "audit_dir p l inh d rest v = Inr u'" by (auto simp: bindE_eq_Inr)
  from audited_append [OF "6.IH"(1) [OF v(1)] "6.IH"(2) [OF v(2)]] show ?case by simp
qed

end
