(* ===== verification/Candidate_Props.thy ===== *)
theory Candidate_Props
  imports Candidate_Checks
begin

text \<open>Properties of manifests and candidate checks, with the tree that instantiates them.\<close>

definition ex_stats :: "int \<Rightarrow> stats" where
  "ex_stats n = \<lparr>st_uid = 1000, st_gid = 1000, st_mode = 420, st_size = n, st_nlink = 1, st_blocks = 8\<rparr>"

definition ex_children :: "(string \<times> fs_node) list" where
  "ex_children =
     [(''AGENTS.md'', FFile (ex_stats 2) ''hi'' True),
      (''node_modules'', FDir (ex_stats 0) [(''x'', FLink (ex_stats 5) ''/etc'')]),
      (''src'', FDir (ex_stats 0) [(''a.ts'', FFile (ex_stats 3) ''abc'' True)])]"

definition ex_env :: walk_env where
  "ex_env = \<lparr>we_include = [Versioned, PlatformManaged], we_policy = ex_policy, we_root = ex_stats 0,
     we_linux = True, we_nfc = id, we_lower = id, we_H = id\<rparr>"

definition ex_manifest :: snapshot_manifest where
  "ex_manifest = (case buildManifest ex_env (FDir (ex_stats 0) ex_children) of Inr m \<Rightarrow> m | Inl _ \<Rightarrow> undefined)"

lemma ex_build: "buildManifest ex_env (FDir (ex_stats 0) ex_children) = Inr ex_manifest"
proof -
  have "isl (buildManifest ex_env (FDir (ex_stats 0) ex_children)) = False" by code_simp
  then show ?thesis by (auto simp: ex_manifest_def split: sum.splits)
qed

text \<open>C30: A manifest that is built lists exactly the included files and directories of the tree, sorted by
  path, and vouches for them: same owner as the root, no symbolic link, no special file anywhere it
  looked, no file shared by a hard link, sparse or changing while read, and no two names that a case
  folding or normalising file system takes for one.\<close>

theorem manifest_vouches:
  assumes "buildManifest env (FDir s children) = Inr m"
  shows "\<exists>ls. ls = reach_dir (env\<lparr>we_root := s\<rparr>) [] children \<and>
    sm_entries m = sort_key me_path (map (listed_entry env) (filter (included env) ls)) \<and>
    sm_hash m = hashManifestEntries (we_H env) (sm_entries m) \<and>
    (\<forall>(p, c, n)\<in>set ls. classifyPath p (we_policy env) = Inr c \<and> (\<forall>st. n \<noteq> FSpecial st) \<and>
       (c \<in> set (we_include env) \<longrightarrow>
          st_uid (node_stats n) = st_uid s \<and> st_gid (node_stats n) = st_gid s \<and> (\<forall>st t. n \<noteq> FLink st t) \<and>
          (\<forall>st b u. n = FFile st b u \<longrightarrow> st_nlink st \<le> 1 \<and> \<not> is_sparse env st \<and> u))) \<and>
    (\<forall>p\<in>fst ` set (filter (included env) ls). \<forall>q\<in>fst ` set (filter (included env) ls).
       we_lower env (we_nfc env p) = we_lower env (we_nfc env q) \<longrightarrow> p = q)"
proof -
  let ?env = "env\<lparr>we_root := s\<rparr>"
  let ?ls = "reach_dir ?env [] children"
  have same: "listed_entry ?env = listed_entry env" "included ?env = included env"
    by (simp_all add: fun_eq_iff listed_entry_def included_def split: fs_node.splits)
  from buildManifest_Inr [OF assms] have acc: "list_all (acceptable ?env) ?ls"
    and es: "sm_entries m = sort_key me_path (map (listed_entry env) (filter (included env) ?ls))"
    and h: "sm_hash m = hashManifestEntries (we_H env) (sm_entries m)"
    and names: "assertNoPathIdentityCollisions (we_nfc env) (we_lower env) (map fst (filter (included env) ?ls)) = Inr ()"
    by (simp_all add: Let_def same)
  from acc have "p \<noteq> []" if "(p, c, n) \<in> set ?ls" for p c n
    using that by (auto simp: list_all_iff acceptable_def classifyPath_def bindE_eq_Inr normalize_iff)
  then have "\<forall>x\<in>set (map fst (filter (included env) ?ls)). x \<noteq> []" by auto
  from no_collisions [OF names this] have unique:
    "\<forall>p\<in>fst ` set (filter (included env) ?ls). \<forall>q\<in>fst ` set (filter (included env) ?ls).
       we_lower env (we_nfc env p) = we_lower env (we_nfc env q) \<longrightarrow> p = q"
    by (simp only: set_map) blast
  have "is_sparse ?env = is_sparse env" by (simp add: fun_eq_iff is_sparse_def)
  with acc have each: "\<forall>(p, c, n)\<in>set ?ls. classifyPath p (we_policy env) = Inr c \<and> (\<forall>st. n \<noteq> FSpecial st) \<and>
       (c \<in> set (we_include env) \<longrightarrow>
          st_uid (node_stats n) = st_uid s \<and> st_gid (node_stats n) = st_gid s \<and> (\<forall>st t. n \<noteq> FLink st t) \<and>
          (\<forall>st b u. n = FFile st b u \<longrightarrow> st_nlink st \<le> 1 \<and> \<not> is_sparse env st \<and> u))"
    by (auto simp: list_all_iff acceptable_def owner_differs_def)
  show ?thesis by (intro exI conjI) (rule refl es h each unique)+
qed

theorem manifest_vouches_witness:
  "map me_path (sm_entries ex_manifest) = [''AGENTS.md'', ''src'', ''src/a.ts''] \<and>
   sm_hash ex_manifest = hashManifestEntries id (sm_entries ex_manifest)"
proof -
  have "map me_path (sm_entries ex_manifest) = [''AGENTS.md'', ''src'', ''src/a.ts'']"
    unfolding ex_manifest_def by code_simp
  moreover have "we_H ex_env = id" by (simp add: ex_env_def)
  ultimately show ?thesis using manifest_vouches [OF ex_build] by auto
qed

text \<open>C31: One manifest hash, one tree: two trees whose manifests have the same hash hold the same included
  files, path by path with the same permission bits, size and bytes, unless the two entry texts or
  the two contents of one path collide.\<close>

theorem manifest_hash_binds_tree:
  assumes "buildManifest env (FDir s children) = Inr m" and "buildManifest env' (FDir s' children') = Inr m'"
    and "sm_hash m = sm_hash m'" and "we_H env' = we_H env"
    and "(p, c, FFile st b u) \<in> set (reach_dir (env\<lparr>we_root := s\<rparr>) [] children)" and "c \<in> set (we_include env)"
  shows "collision_in (we_H env) {entries_text (sm_entries m), entries_text (sm_entries m')} \<or>
    (\<exists>st' b' u'. (p, c, FFile st' b' u') \<in> set (reach_dir (env'\<lparr>we_root := s'\<rparr>) [] children') \<and>
       permission_bits (st_mode st) = permission_bits (st_mode st') \<and> st_size st = st_size st' \<and>
       (b = b' \<or> collision_in (we_H env) {b, b'}))"
proof (cases "sm_entries m = sm_entries m'")
  case True
  let ?env = "env\<lparr>we_root := s\<rparr>" and ?env' = "env'\<lparr>we_root := s'\<rparr>"
  have "(p, c, FFile st b u) \<in> set (filter (included ?env) (reach_dir ?env [] children))"
    using assms(5,6) by (simp add: included_def)
  then have "listed_entry ?env (p, c, FFile st b u) \<in> set (sm_entries m)"
    using buildManifest_Inr [OF assms(1)] by (auto simp: Let_def)
  with True buildManifest_Inr [OF assms(2)] obtain q d n where
    n: "(q, d, n) \<in> set (reach_dir ?env' [] children')"
      "listed_entry ?env (p, c, FFile st b u) = listed_entry ?env' (q, d, n)"
    by (auto simp: Let_def)
  from file_entry_eq [OF n(2)] obtain st' b' u' where f: "p = q" "c = d" "n = FFile st' b' u'"
    "we_H env b = we_H env' b'" "permission_bits (st_mode st) = permission_bits (st_mode st')"
    "st_size st = st_size st'" by auto
  then have "b = b' \<or> collision_in (we_H env) {b, b'}" using assms(4) by (auto simp: collision_in_def)
  with n(1) f show ?thesis by blast
next
  case False
  with assms(3,4) buildManifest_Inr [OF assms(1)] buildManifest_Inr [OF assms(2)] manifest_hash_binds
  show ?thesis by metis
qed

theorem manifest_hash_binds_tree_witness:
  "\<exists>st b u. (''src/a.ts'', Versioned, FFile st b u) \<in> set (reach_dir (ex_env\<lparr>we_root := ex_stats 0\<rparr>) [] ex_children) \<and> b = ''abc''"
proof -
  have "(''src/a.ts'', Versioned, FFile (ex_stats 3) ''abc'' True) \<in> set (reach_dir (ex_env\<lparr>we_root := ex_stats 0\<rparr>) [] ex_children)"
    by code_simp
  from manifest_hash_binds_tree [OF ex_build ex_build refl refl this] show ?thesis
    by (auto simp: ex_env_def collision_in_def)
qed

text \<open>C32: The difference of two manifests is exact: a path occurs in it once or not at all, it occurs
  exactly when its entries differ, each change carries the two entries, and replaying the changes
  over the first manifest's lookup gives the second's.\<close>

theorem diff_exact:
  "distinct (map mc_path (diffManifests le base candidate)) \<and>
   (\<forall>p. (\<exists>c\<in>set (diffManifests le base candidate). mc_path c = p) \<longleftrightarrow>
        by_path (sm_entries base) p \<noteq> by_path (sm_entries candidate) p) \<and>
   (\<forall>c\<in>set (diffManifests le base candidate).
        mc_before c = by_path (sm_entries base) (mc_path c) \<and> mc_after c = by_path (sm_entries candidate) (mc_path c)) \<and>
   apply_changes (by_path (sm_entries base)) (diffManifests le base candidate) = by_path (sm_entries candidate)"
  using diff_paths_distinct diff_lookup apply_diff by (auto simp: diff_member dest: path_change_Some)

theorem diff_exact_witness:
  "apply_changes (by_path []) (diffManifests char_order \<lparr>sm_schemaVersion = 2, sm_entries = [], sm_hash = []\<rparr> ex_manifest) =
   by_path (sm_entries ex_manifest)"
  using diff_exact [of char_order "\<lparr>sm_schemaVersion = 2, sm_entries = [], sm_hash = []\<rparr>" ex_manifest] by simp

text \<open>C29: A candidate without static failures respects the policy on every path where it differs from the
  base: no protected path, nothing platform managed, no link, no file above the size limit, no
  sensitive value in a path, the file and byte budgets; and when the changes are no more than the
  file limit plus one, no changed file that can be read holds a canary or a sensitive value.\<close>

theorem clean_candidate:
  assumes "validateCandidate le p base candidate files sensitive = Inr (cs, [])"
    and "by_path (sm_entries base) path \<noteq> by_path (sm_entries candidate) path"
  shows "pathMatches path (protectedPaths p) = Inr False \<and>
    (\<forall>e. by_path (sm_entries base) path = Some e \<or> by_path (sm_entries candidate) path = Some e \<longrightarrow>
       me_pathClass e \<noteq> PlatformManaged \<and> me_type e \<noteq> ESymlink) \<and>
    (\<forall>e. by_path (sm_entries candidate) path = Some e \<longrightarrow> me_type e = EFile \<longrightarrow> me_size e \<le> maxSingleFileBytes p) \<and>
    (\<forall>v\<in>set sensitive. v \<noteq> [] \<longrightarrow> \<not> includes_text path v) \<and>
    int (changed_files cs) \<le> maxChangedFiles p \<and> changedByteCount cs \<le> maxChangedBytes p \<and>
    (int (length cs) \<le> maxChangedFiles p + 1 \<longrightarrow>
       (\<forall>bytes. files path = Some bytes \<longrightarrow> int (length bytes) \<le> maxSingleFileBytes p \<longrightarrow>
          (\<forall>k\<in>set (canaryPatterns p). \<not> includes_text bytes k) \<and>
          (\<forall>v\<in>set sensitive. v \<noteq> [] \<longrightarrow> \<not> includes_text bytes v)))"
proof -
  note v = validateCandidate_clean [OF assms(1)]
  from assms(2) v(1) obtain c where c0: "c \<in> set cs" "mc_path c = path"
    using diff_lookup [of le base candidate path] by auto
  with v(1) have "path_change path (by_path (sm_entries base) path) (by_path (sm_entries candidate) path) = Some c"
    by (auto simp: diff_member)
  with c0 path_change_Some have c: "c \<in> set cs" "mc_path c = path"
    "mc_before c = by_path (sm_entries base) path" "mc_after c = by_path (sm_entries candidate) path" by metis+
  have "content_failures p sensitive (path, bytes) = []"
    if "canaryPatterns p \<noteq> [] \<or> sensitive \<noteq> []" "int (length cs) \<le> maxChangedFiles p + 1" "files path = Some bytes"
      "int (length bytes) \<le> maxSingleFileBytes p" for bytes
    using v(5) [OF that(1), of c bytes] that c(1,2) by simp
  then have "int (length cs) \<le> maxChangedFiles p + 1 \<longrightarrow>
       (\<forall>bytes. files path = Some bytes \<longrightarrow> int (length bytes) \<le> maxSingleFileBytes p \<longrightarrow>
          (\<forall>k\<in>set (canaryPatterns p). \<not> includes_text bytes k) \<and>
          (\<forall>v\<in>set sensitive. v \<noteq> [] \<longrightarrow> \<not> includes_text bytes v))"
    unfolding content_failures_Nil by (metis empty_iff list.set(1))
  moreover from v(4) c(1) have "change_failures p sensitive c = Inr []" by blast
  ultimately show ?thesis using v(2,3) c unfolding change_failures_Nil by (auto; metis)
qed

definition ex_base :: snapshot_manifest where
  "ex_base = \<lparr>sm_schemaVersion = 2, sm_entries = [], sm_hash = ''base''\<rparr>"

definition ex_new_file :: "string \<Rightarrow> manifest_entry" where
  "ex_new_file path = \<lparr>me_path = path, me_type = EFile, me_mode = 420, me_size = 3,
     me_contentHash = Some ''h'', me_linkTarget = None, me_pathClass = Versioned\<rparr>"

definition ex_new_dir :: "string \<Rightarrow> manifest_entry" where
  "ex_new_dir path = \<lparr>me_path = path, me_type = EDir, me_mode = 493, me_size = 0,
     me_contentHash = None, me_linkTarget = None, me_pathClass = Versioned\<rparr>"

definition ex_candidate :: snapshot_manifest where
  "ex_candidate = \<lparr>sm_schemaVersion = 2, sm_entries = [ex_new_file ''a.ts''], sm_hash = ''cand''\<rparr>"

definition ascii_le :: key_order where
  "ascii_le a b \<longleftrightarrow> a \<le> b"

lemma ex_clean:
  "validateCandidate ascii_le ex_policy ex_base ex_candidate (\<lambda>_. Some ''abc'') [''secret''] =
     Inr (diffManifests ascii_le ex_base ex_candidate, [])"
  by code_simp

theorem clean_candidate_witness:
  "pathMatches ''a.ts'' (protectedPaths ex_policy) = Inr False \<and> me_size (ex_new_file ''a.ts'') \<le> maxSingleFileBytes ex_policy \<and>
   \<not> includes_text ''abc'' ''secret''"
proof -
  have path: "by_path (sm_entries ex_base) ''a.ts'' \<noteq> by_path (sm_entries ex_candidate) ''a.ts''"
    "by_path (sm_entries ex_candidate) ''a.ts'' = Some (ex_new_file ''a.ts'')" "me_type (ex_new_file ''a.ts'') = EFile"
    by (simp_all add: ex_base_def ex_candidate_def by_path_def ex_new_file_def)
  have "int (length (diffManifests ascii_le ex_base ex_candidate)) \<le> maxChangedFiles ex_policy + 1"
    "int (length ''abc'') \<le> maxSingleFileBytes ex_policy" by code_simp+
  with clean_candidate [OF ex_clean path(1)] path(2,3) show ?thesis by auto
qed

text \<open>The content scan can be outrun by directories: it reads only as many changes as the file limit
  plus one, in path order and counting directories, while the file budget does not count them. With a
  limit of one file, two new directories in front of a file hide its canary and its sensitive value,
  and the candidate is clean.\<close>

theorem directories_hide_canary:
  "validateCandidate ascii_le (ex_policy\<lparr>canaryPatterns := [''CANARY''], maxChangedFiles := 1\<rparr>) ex_base
     \<lparr>sm_schemaVersion = 2, sm_entries = [ex_new_dir ''a'', ex_new_dir ''b'', ex_new_file ''c''], sm_hash = ''cand''\<rparr>
     (\<lambda>path. if path = ''c'' then Some ''xCANARYtoken'' else None) [''token''] =
   Inr (map (\<lambda>e. \<lparr>mc_path = me_path e, mc_kind = Added, mc_before = None, mc_after = Some e\<rparr>)
          [ex_new_dir ''a'', ex_new_dir ''b'', ex_new_file ''c''], []) \<and>
   validateCandidate ascii_le (ex_policy\<lparr>canaryPatterns := [''CANARY''], maxChangedFiles := 1\<rparr>) ex_base
     \<lparr>sm_schemaVersion = 2, sm_entries = [ex_new_file ''c''], sm_hash = ''cand''\<rparr>
     (\<lambda>path. if path = ''c'' then Some ''xCANARYtoken'' else None) [''token''] =
   Inr ([\<lparr>mc_path = ''c'', mc_kind = Added, mc_before = None, mc_after = Some (ex_new_file ''c'')\<rparr>],
        [''CANARY_DETECTED:c'', ''SENSITIVE_VALUE_DETECTED:c''])"
  by (rule conjI; code_simp)

text \<open>The resource audit of a candidate, when it passes, has counted every ignored inode and its bytes:
  the usage it returns is the number and total size of the ignored entries of the tree, nothing under
  an ignored directory left out, and it is within the entry, byte and single-file limits.\<close>

theorem audit_within_limits:
  assumes "auditCandidateResourceUsage p limits (FDir s children) = Inr (n, b)"
  shows "n = int (length (ignored_dir p False [] children)) \<and>
    b = sum_list (map snd (ignored_dir p False [] children)) \<and>
    n \<le> maxIgnoredEntries limits \<and> b \<le> maxIgnoredBytes limits \<and>
    (\<forall>(path, k)\<in>set (ignored_dir p False [] children). k \<le> maxIgnoredSingleFileBytes limits) \<and>
    0 < maxIgnoredEntries limits \<and> 0 < maxIgnoredBytes limits"
proof -
  from assms have a: "audit_dir p limits False [] children (0, 0) = Inr (n, b)"
    and pos: "0 < maxIgnoredEntries limits" "0 < maxIgnoredBytes limits"
    by (auto simp: auditCandidateResourceUsage_def normalizeCandidateResourceLimits_def Let_def bindE_eq_Inr
        positive_safe_def override_def split: if_splits)
      (metis resource_limits.surjective old.unit.exhaust)
  from audit_audited(2) [OF a] pos show ?thesis by (simp add: audited_def within_def)
qed

theorem audit_within_limits_witness:
  "auditCandidateResourceUsage ex_policy DEFAULT_CANDIDATE_RESOURCE_LIMITS (FDir (ex_stats 0) ex_children) = Inr (2, 5) \<and>
   2 \<le> maxIgnoredEntries DEFAULT_CANDIDATE_RESOURCE_LIMITS"
proof -
  have a: "auditCandidateResourceUsage ex_policy DEFAULT_CANDIDATE_RESOURCE_LIMITS (FDir (ex_stats 0) ex_children) = Inr (2, 5)"
    by code_simp
  from audit_within_limits [OF a] a show ?thesis by simp
qed

end
