(* ===== verification/Worker_Gate.thy ===== *)
theory Worker_Gate
  imports Policy_Facts Protocol
begin

text \<open>
  The contract the transition worker owns (\<^verbatim>\<open>worker-gate-policy.ts\<close>): the two policy
  profiles, the hashes that name them, and the decision on recorded verifier evidence. Facts: the
  contract of each profile exists, evidence is admitted exactly when every pin agrees and the
  required checks, each once and no other, passed on their own record, and evidence made for one
  profile is refused under the other.
\<close>

datatype policy_profile = WorkspaceDefault | DeploymentProtected

fun profile_text :: "policy_profile \<Rightarrow> string" where
  "profile_text WorkspaceDefault = ''workspace-default''"
| "profile_text DeploymentProtected = ''deployment-protected''"

definition DEPLOYMENT_PROTECTED_PATHS :: "string list" where
  "DEPLOYMENT_PROTECTED_PATHS =
     [''.github/workflows/deploy.yml'', ''infra/production.yaml'', ''config/payment-production.json'']"

definition WORKSPACE_SANITY_CHECK :: required_check where
  "WORKSPACE_SANITY_CHECK =
     \<lparr>rc_id = JStr ''workspace-sanity'', rc_runner = ''node'', rc_entrypoint = ''workspace-sanity.mjs'',
      rc_args = [], rc_timeoutMs = 15000, rc_scratchBytes = 64 * 1024 * 1024\<rparr>"

definition frozenPolicy :: "string list \<Rightarrow> policy" where
  "frozenPolicy paths = defaultCommitGatePolicy
     \<lparr>protectedPaths := paths, requiredChecks := [WORKSPACE_SANITY_CHECK]\<rparr>"

fun PROFILE_POLICIES :: "policy_profile \<Rightarrow> policy" where
  "PROFILE_POLICIES WorkspaceDefault = frozenPolicy []"
| "PROFILE_POLICIES DeploymentProtected = frozenPolicy DEPLOYMENT_PROTECTED_PATHS"

definition parseWorkerPolicyProfile :: "json option \<Rightarrow> policy_profile res" where
  "parseWorkerPolicyProfile v =
     (if v = Some (JStr ''workspace-default'') then Inr WorkspaceDefault
      else if v = Some (JStr ''deployment-protected'') then Inr DeploymentProtected
      else Inl (JsError ''COMMITGATE_POLICY_PROFILE must be workspace-default or deployment-protected''))"

definition computeCheckSpecHash :: "(string \<Rightarrow> string) \<Rightarrow> key_order \<Rightarrow> required_check list \<Rightarrow> string" where
  "computeCheckSpecHash H le checks = sha256Canonical H le (JArr (map check_json checks))"

record gate_contract =
  gc_profile :: policy_profile
  gc_policyVersion :: int
  gc_policy :: policy
  gc_policyHash :: string
  gc_checkSpecHash :: string
  gc_requiredCheckIds :: "json list"

definition resolveWorkerGateContract ::
  "(string \<Rightarrow> string) \<Rightarrow> key_order \<Rightarrow> policy_profile \<Rightarrow> gate_contract res" where
  "resolveWorkerGateContract H le profile =
     (let p = PROFILE_POLICIES profile
      in bindE (policyHash H p) (\<lambda>h.
           Inr \<lparr>gc_profile = profile, gc_policyVersion = (if profile = WorkspaceDefault then 1 else 2),
                gc_policy = p, gc_policyHash = h,
                gc_checkSpecHash = computeCheckSpecHash H le (requiredChecks p),
                gc_requiredCheckIds = map rc_id (requiredChecks p)\<rparr>))"

definition workerGatePolicy :: "policy_profile \<Rightarrow> policy" where
  "workerGatePolicy profile = PROFILE_POLICIES profile"

definition WORKER_MANIFEST_SCHEMA_VERSION :: int where
  "WORKER_MANIFEST_SCHEMA_VERSION = 2"

record recorded_check =
  rk_id :: string
  rk_status :: string
  rk_exitCode :: "int option"
  rk_timedOut :: bool

record evidence_contract_input =
  ei_context :: evaluation_context
  ei_checks :: "recorded_check list"
  ei_coverage :: string
  ei_requiredChecksPassed :: bool
  ei_sourceRevision :: string
  ei_requireEnvironmentPins :: bool
  ei_expectedCheckBundleHash :: "string option"
  ei_expectedVerifierImageDigest :: "string option"
  ei_expectedVerifierConfigHash :: "string option"
  ei_expectedResourcePolicyHash :: "string option"

datatype contract_failure =
    MANIFEST_SCHEMA_MISMATCH | POLICY_HASH_MISMATCH | CHECK_SPEC_HASH_MISMATCH
  | SOURCE_REVISION_MISMATCH | WORKER_GATE_CONFIG_INCOMPLETE | CHECK_BUNDLE_HASH_MISMATCH
  | VERIFIER_IMAGE_DIGEST_MISMATCH | VERIFIER_CONFIG_HASH_MISMATCH | RESOURCE_POLICY_HASH_MISMATCH
  | TRUSTED_CHECK_COVERAGE_INCOMPLETE | TRUSTED_CHECK_SET_MISMATCH | TRUSTED_CHECK_FAILED

text \<open>A pin that was given and differs; a pin that is missing or empty.\<close>

definition pin_differs :: "string option \<Rightarrow> string \<Rightarrow> bool" where
  "pin_differs pin observed \<longleftrightarrow> (case pin of None \<Rightarrow> False | Some p \<Rightarrow> observed \<noteq> p)"

definition pin_falsy :: "string option \<Rightarrow> bool" where
  "pin_falsy pin \<longleftrightarrow> pin = None \<or> pin = Some []"

definition check_set_mismatch :: "recorded_check list \<Rightarrow> json list \<Rightarrow> bool" where
  "check_set_mismatch checks required =
     (let ids = map (\<lambda>c. JStr (rk_id c)) checks
      in length ids \<noteq> length required \<or> \<not> distinct ids \<or> \<not> list_all (\<lambda>i. i \<in> set ids) required)"

definition check_passed :: "recorded_check \<Rightarrow> bool" where
  "check_passed c \<longleftrightarrow> rk_status c = ''PASS'' \<and> rk_exitCode c = Some 0 \<and> \<not> rk_timedOut c"

definition validateWorkerEvidenceContract ::
  "evidence_contract_input \<Rightarrow> gate_contract \<Rightarrow> contract_failure option" where
  "validateWorkerEvidenceContract i c =
     (if ctx_manifestSchemaVersion (ei_context i) \<noteq> WORKER_MANIFEST_SCHEMA_VERSION
      then Some MANIFEST_SCHEMA_MISMATCH
      else if ctx_policyHash (ei_context i) \<noteq> gc_policyHash c then Some POLICY_HASH_MISMATCH
      else if ctx_checkSpecHash (ei_context i) \<noteq> gc_checkSpecHash c then Some CHECK_SPEC_HASH_MISMATCH
      else if ctx_sourceRevision (ei_context i) \<noteq> ei_sourceRevision i then Some SOURCE_REVISION_MISMATCH
      else if ei_requireEnvironmentPins i \<and>
        list_ex pin_falsy [ei_expectedCheckBundleHash i, ei_expectedVerifierImageDigest i,
          ei_expectedVerifierConfigHash i, ei_expectedResourcePolicyHash i]
      then Some WORKER_GATE_CONFIG_INCOMPLETE
      else if pin_differs (ei_expectedCheckBundleHash i) (ctx_checkBundleHash (ei_context i))
      then Some CHECK_BUNDLE_HASH_MISMATCH
      else if pin_differs (ei_expectedVerifierImageDigest i) (ctx_verifierImageDigest (ei_context i))
      then Some VERIFIER_IMAGE_DIGEST_MISMATCH
      else if pin_differs (ei_expectedVerifierConfigHash i) (ctx_verifierConfigHash (ei_context i))
      then Some VERIFIER_CONFIG_HASH_MISMATCH
      else if pin_differs (ei_expectedResourcePolicyHash i) (ctx_resourcePolicyHash (ei_context i))
      then Some RESOURCE_POLICY_HASH_MISMATCH
      else if ei_coverage i \<noteq> ''complete'' then Some TRUSTED_CHECK_COVERAGE_INCOMPLETE
      else if check_set_mismatch (ei_checks i) (gc_requiredCheckIds c) then Some TRUSTED_CHECK_SET_MISMATCH
      else
        let independentlyPassed = list_all check_passed (ei_checks i)
        in if \<not> independentlyPassed \<or> ei_requiredChecksPassed i \<noteq> independentlyPassed
           then Some TRUSTED_CHECK_FAILED
           else None)"

subsection \<open>Facts\<close>

lemma pin_differs_iff: "\<not> pin_differs pin observed \<longleftrightarrow> pin = None \<or> pin = Some observed"
  by (auto simp: pin_differs_def split: option.splits)

text \<open>Same length, no id twice and every required id present: the same ids up to order.\<close>

lemma check_set_iff:
  assumes "distinct required"
  shows "\<not> check_set_mismatch checks required \<longleftrightarrow> mset (map (\<lambda>c. JStr (rk_id c)) checks) = mset required"
proof -
  let ?ids = "map (\<lambda>c. JStr (rk_id c)) checks"
  have "length ?ids = length required \<and> distinct ?ids \<and> set required \<subseteq> set ?ids \<longleftrightarrow> mset ?ids = mset required"
  proof
    assume l: "length ?ids = length required \<and> distinct ?ids \<and> set required \<subseteq> set ?ids"
    then have "card (set ?ids) = card (set required)" using assms by (simp only: distinct_card)
    with l have "set required = set ?ids" by (intro card_subset_eq) simp_all
    with l assms show "mset ?ids = mset required" by (metis set_eq_iff_mset_eq_distinct)
  next
    assume m: "mset ?ids = mset required"
    then have "set ?ids = set required" by (rule mset_eq_setD)
    with m assms show "length ?ids = length required \<and> distinct ?ids \<and> set required \<subseteq> set ?ids"
      by (metis mset_eq_imp_distinct_iff mset_eq_length order_refl)
  qed
  then show ?thesis by (auto simp: check_set_mismatch_def Let_def list_all_iff subset_iff)
qed

lemma frozen_validates:
  "validatePolicy (policy_json (PROFILE_POLICIES profile)) =
     Inr (PROFILE_POLICIES profile
       \<lparr>ignoredEphemeralNames := sort DEFAULT_IGNORED_EPHEMERAL_NAMES,
        protectedPaths := sort (protectedPaths (PROFILE_POLICIES profile))\<rparr>)"
  by (cases profile) (simp_all only:, code_simp+)

definition policy_text :: "policy_profile \<Rightarrow> string" where
  "policy_text profile = stringify (policy_json (PROFILE_POLICIES profile
       \<lparr>ignoredEphemeralNames := sort DEFAULT_IGNORED_EPHEMERAL_NAMES,
        protectedPaths := sort (protectedPaths (PROFILE_POLICIES profile))\<rparr>))"

lemma profile_policyHash: "policyHash H (PROFILE_POLICIES profile) = Inr (H (policy_text profile))"
  by (simp add: policyHash_def frozen_validates policy_text_def)

lemma resolve_Inr:
  "resolveWorkerGateContract H le profile = Inr
     \<lparr>gc_profile = profile, gc_policyVersion = (if profile = WorkspaceDefault then 1 else 2),
      gc_policy = PROFILE_POLICIES profile, gc_policyHash = H (policy_text profile),
      gc_checkSpecHash = computeCheckSpecHash H le [WORKSPACE_SANITY_CHECK],
      gc_requiredCheckIds = [JStr ''workspace-sanity'']\<rparr>"
proof -
  have "requiredChecks (PROFILE_POLICIES profile) = [WORKSPACE_SANITY_CHECK]"
    by (cases profile) (simp_all add: frozenPolicy_def)
  then show ?thesis
    by (simp add: resolveWorkerGateContract_def profile_policyHash WORKSPACE_SANITY_CHECK_def)
qed

lemma policy_text_inj: "policy_text p = policy_text q \<Longrightarrow> p = q"
proof -
  assume "policy_text p = policy_text q"
  then have "sort (protectedPaths (PROFILE_POLICIES p)) = sort (protectedPaths (PROFILE_POLICIES q))"
    by (auto simp: policy_text_def dest!: policy_json_inj arg_cong [where f = protectedPaths])
  then have "length (protectedPaths (PROFILE_POLICIES p)) = length (protectedPaths (PROFILE_POLICIES q))"
    by (metis length_sort)
  then show "p = q"
    by (cases p; cases q) (simp_all add: frozenPolicy_def DEPLOYMENT_PROTECTED_PATHS_def)
qed

lemma if_Some_eq_None: "(if b then Some x else r) = None \<longleftrightarrow> \<not> b \<and> r = None"
  by simp

lemma pin_good:
  "(req \<longrightarrow> \<not> pin_falsy pin) \<and> \<not> pin_differs pin observed \<longleftrightarrow>
     (pin = None \<or> pin = Some observed) \<and> (req \<longrightarrow> pin = Some observed \<and> observed \<noteq> [])"
  by (auto simp: pin_falsy_def pin_differs_iff)

subsection \<open>Properties\<close>

text \<open>C28: The worker admits evidence exactly when manifest schema, policy, check specification and source
  revision are its own, every verifier pin it holds agrees (and all four are held when it demands
  them), coverage is complete, the recorded checks are the required ones, each once, in any order, all
  passed with exit code zero and in time, and the caller's claim says the same.\<close>

theorem evidence_admitted_iff:
  assumes "distinct (gc_requiredCheckIds c)"
  shows "validateWorkerEvidenceContract i c = None \<longleftrightarrow>
    ctx_manifestSchemaVersion (ei_context i) = 2 \<and>
    ctx_policyHash (ei_context i) = gc_policyHash c \<and>
    ctx_checkSpecHash (ei_context i) = gc_checkSpecHash c \<and>
    ctx_sourceRevision (ei_context i) = ei_sourceRevision i \<and>
    (let pins = [(ei_expectedCheckBundleHash i, ctx_checkBundleHash (ei_context i)),
                 (ei_expectedVerifierImageDigest i, ctx_verifierImageDigest (ei_context i)),
                 (ei_expectedVerifierConfigHash i, ctx_verifierConfigHash (ei_context i)),
                 (ei_expectedResourcePolicyHash i, ctx_resourcePolicyHash (ei_context i))]
     in \<forall>(pin, observed)\<in>set pins.
          (pin = None \<or> pin = Some observed) \<and>
          (ei_requireEnvironmentPins i \<longrightarrow> pin = Some observed \<and> observed \<noteq> [])) \<and>
    ei_coverage i = ''complete'' \<and>
    mset (map (\<lambda>k. JStr (rk_id k)) (ei_checks i)) = mset (gc_requiredCheckIds c) \<and>
    (\<forall>k\<in>set (ei_checks i). rk_status k = ''PASS'' \<and> rk_exitCode k = Some 0 \<and> \<not> rk_timedOut k) \<and>
    ei_requiredChecksPassed i"
proof -
  let ?x = "ei_context i"
  let ?req = "ei_requireEnvironmentPins i"
  have passed: "list_all check_passed (ei_checks i) \<longleftrightarrow>
      (\<forall>k\<in>set (ei_checks i). rk_status k = ''PASS'' \<and> rk_exitCode k = Some 0 \<and> \<not> rk_timedOut k)"
    by (simp add: list_all_iff check_passed_def)
  have "validateWorkerEvidenceContract i c = None \<longleftrightarrow>
      ctx_manifestSchemaVersion ?x = 2 \<and> ctx_policyHash ?x = gc_policyHash c \<and>
      ctx_checkSpecHash ?x = gc_checkSpecHash c \<and> ctx_sourceRevision ?x = ei_sourceRevision i \<and>
      ((?req \<longrightarrow> \<not> pin_falsy (ei_expectedCheckBundleHash i)) \<and>
         \<not> pin_differs (ei_expectedCheckBundleHash i) (ctx_checkBundleHash ?x)) \<and>
      ((?req \<longrightarrow> \<not> pin_falsy (ei_expectedVerifierImageDigest i)) \<and>
         \<not> pin_differs (ei_expectedVerifierImageDigest i) (ctx_verifierImageDigest ?x)) \<and>
      ((?req \<longrightarrow> \<not> pin_falsy (ei_expectedVerifierConfigHash i)) \<and>
         \<not> pin_differs (ei_expectedVerifierConfigHash i) (ctx_verifierConfigHash ?x)) \<and>
      ((?req \<longrightarrow> \<not> pin_falsy (ei_expectedResourcePolicyHash i)) \<and>
         \<not> pin_differs (ei_expectedResourcePolicyHash i) (ctx_resourcePolicyHash ?x)) \<and>
      ei_coverage i = ''complete'' \<and> \<not> check_set_mismatch (ei_checks i) (gc_requiredCheckIds c) \<and>
      list_all check_passed (ei_checks i) \<and> ei_requiredChecksPassed i"
    unfolding validateWorkerEvidenceContract_def WORKER_MANIFEST_SCHEMA_VERSION_def Let_def if_Some_eq_None
    by simp blast
  then show ?thesis
    unfolding pin_good check_set_iff [OF assms] passed Let_def by simp
qed

definition ex_admitted :: "(string \<Rightarrow> string) \<Rightarrow> gate_contract \<Rightarrow> evidence_contract_input" where
  "ex_admitted H c = \<lparr>ei_context = (ex_context H)\<lparr>ctx_policyHash := gc_policyHash c, ctx_checkSpecHash := gc_checkSpecHash c\<rparr>,
     ei_checks = [\<lparr>rk_id = ''workspace-sanity'', rk_status = ''PASS'', rk_exitCode = Some 0, rk_timedOut = False\<rparr>],
     ei_coverage = ''complete'', ei_requiredChecksPassed = True, ei_sourceRevision = ''revision'',
     ei_requireEnvironmentPins = True, ei_expectedCheckBundleHash = Some ''bundle'',
     ei_expectedVerifierImageDigest = Some ''image'', ei_expectedVerifierConfigHash = Some ''config'',
     ei_expectedResourcePolicyHash = Some ''resources''\<rparr>"

theorem evidence_admitted_iff_witness:
  "\<exists>c. resolveWorkerGateContract id char_order WorkspaceDefault = Inr c \<and>
     validateWorkerEvidenceContract (ex_admitted id c) c = None"
proof (intro exI conjI)
  let ?c = "\<lparr>gc_profile = WorkspaceDefault, gc_policyVersion = 1, gc_policy = PROFILE_POLICIES WorkspaceDefault,
    gc_policyHash = id (policy_text WorkspaceDefault),
    gc_checkSpecHash = computeCheckSpecHash id char_order [WORKSPACE_SANITY_CHECK],
    gc_requiredCheckIds = [JStr ''workspace-sanity'']\<rparr>"
  show "resolveWorkerGateContract id char_order WorkspaceDefault = Inr ?c" by (simp add: resolve_Inr)
  have "distinct (gc_requiredCheckIds ?c)" by simp
  from evidence_admitted_iff [OF this, of "ex_admitted id ?c"]
  show "validateWorkerEvidenceContract (ex_admitted id ?c) ?c = None"
    by (simp add: ex_admitted_def ex_context_def)
qed

text \<open>Each profile has a contract, made of worker constants only, and evidence that the contract of one
  profile admits is refused by the contract of the other with a policy hash mismatch, unless the two
  policy texts collide.\<close>

theorem profiles_do_not_mix:
  "\<exists>c d. resolveWorkerGateContract H le WorkspaceDefault = Inr c \<and>
     resolveWorkerGateContract H le DeploymentProtected = Inr d \<and>
     gc_requiredCheckIds c = [JStr ''workspace-sanity''] \<and> gc_requiredCheckIds d = [JStr ''workspace-sanity''] \<and>
     protectedPaths (gc_policy d) = DEPLOYMENT_PROTECTED_PATHS \<and>
     (\<forall>i. (validateWorkerEvidenceContract i c = None \<longrightarrow>
              validateWorkerEvidenceContract i d = Some POLICY_HASH_MISMATCH) \<and>
           (validateWorkerEvidenceContract i d = None \<longrightarrow>
              validateWorkerEvidenceContract i c = Some POLICY_HASH_MISMATCH) \<or>
           collision_in H {policy_text WorkspaceDefault, policy_text DeploymentProtected})"
proof -
  have "collision_in H {policy_text WorkspaceDefault, policy_text DeploymentProtected}"
    if "H (policy_text WorkspaceDefault) = H (policy_text DeploymentProtected)"
    using that policy_text_inj [of WorkspaceDefault DeploymentProtected] by (auto simp: collision_in_def)
  then show ?thesis
    by (auto simp: resolve_Inr validateWorkerEvidenceContract_def frozenPolicy_def)
qed

theorem profiles_do_not_mix_witness:
  "\<exists>c d. resolveWorkerGateContract id char_order WorkspaceDefault = Inr c \<and>
     resolveWorkerGateContract id char_order DeploymentProtected = Inr d \<and>
     (\<forall>i. validateWorkerEvidenceContract i c = None \<longrightarrow>
          validateWorkerEvidenceContract i d = Some POLICY_HASH_MISMATCH)"
proof -
  have "\<not> collision_in id {policy_text WorkspaceDefault, policy_text DeploymentProtected}"
    by (simp add: collision_in_def)
  with profiles_do_not_mix [of id char_order] show ?thesis by blast
qed

end
