(* ===== verification/Effects.thy ===== *)
theory Effects
  imports Prelude
begin

text \<open>
  Operations that change a state and may throw: the state they leave is kept also when they
  throw, as the files and fields written before a \<^verbatim>\<open>throw\<close> are. Shared by the stores
  and the worker, with counting of the steps of a history that a predicate picks out.
\<close>

type_synonym ('s, 'e, 'a) eff = "'s \<Rightarrow> ('e + 'a) \<times> 's"

definition returnS :: "'a \<Rightarrow> ('s, 'e, 'a) eff" where
  "returnS x s = (Inr x, s)"

definition throwS :: "'e \<Rightarrow> ('s, 'e, 'a) eff" where
  "throwS e s = (Inl e, s)"

definition bindS :: "('s, 'e, 'a) eff \<Rightarrow> ('a \<Rightarrow> ('s, 'e, 'b) eff) \<Rightarrow> ('s, 'e, 'b) eff" where
  "bindS m f s = (case m s of (Inl e, s') \<Rightarrow> (Inl e, s') | (Inr x, s') \<Rightarrow> f x s')"

definition liftS :: "'e + 'a \<Rightarrow> ('s, 'e, 'a) eff" where
  "liftS r s = (r, s)"

definition getS :: "('s \<Rightarrow> 'a) \<Rightarrow> ('s, 'e, 'a) eff" where
  "getS f s = (Inr (f s), s)"

definition putS :: "('s \<Rightarrow> 's) \<Rightarrow> ('s, 'e, unit) eff" where
  "putS f s = (Inr (), f s)"

definition assertS :: "bool \<Rightarrow> 'e \<Rightarrow> ('s, 'e, unit) eff" where
  "assertS b e = (if b then returnS () else throwS e)"

definition mapErr :: "('e \<Rightarrow> 'f) \<Rightarrow> 'e + 'a \<Rightarrow> 'f + 'a" where
  "mapErr f r = (case r of Inl e \<Rightarrow> Inl (f e) | Inr x \<Rightarrow> Inr x)"

lemma mapErr_Inr [simp, res_simps]: "mapErr f r = Inr x \<longleftrightarrow> r = Inr x"
  by (cases r) (simp_all add: mapErr_def)

text \<open>How each step ends; \<open>eff_simps\<close> takes an operation that returned apart.\<close>

named_theorems eff_simps \<open>inversion of operations that returned\<close>

lemma bindS_Inr [eff_simps]:
  "bindS m f s = (Inr y, s'') \<longleftrightarrow> (\<exists>x s'. m s = (Inr x, s') \<and> f x s' = (Inr y, s''))"
  by (auto simp: bindS_def split: prod.splits sum.splits)

lemma returnS_eq [eff_simps]: "returnS x s = (r, s') \<longleftrightarrow> r = Inr x \<and> s' = s"
  by (auto simp: returnS_def)

lemma throwS_eq [eff_simps]: "throwS e s = (r, s') \<longleftrightarrow> r = Inl e \<and> s' = s"
  by (auto simp: throwS_def)

lemma liftS_eq [eff_simps]: "liftS q s = (r, s') \<longleftrightarrow> r = q \<and> s' = s"
  by (auto simp: liftS_def)

lemma getS_eq [eff_simps]: "getS f s = (r, s') \<longleftrightarrow> r = Inr (f s) \<and> s' = s"
  by (auto simp: getS_def)

lemma putS_eq [eff_simps]: "putS f s = (r, s') \<longleftrightarrow> r = Inr () \<and> s' = f s"
  by (auto simp: putS_def)

lemma assertS_Inr [eff_simps]: "assertS b e s = (Inr u, s') \<longleftrightarrow> b \<and> s' = s"
  by (auto simp: assertS_def returnS_def throwS_def)

lemma assertS_Inl: "assertS b e s = (Inl e', s') \<longleftrightarrow> \<not> b \<and> e' = e \<and> s' = s"
  by (auto simp: assertS_def returnS_def throwS_def)

lemma bindS_Inl:
  "bindS m f s = (Inl e, s'') \<longleftrightarrow>
     m s = (Inl e, s'') \<or> (\<exists>x s'. m s = (Inr x, s') \<and> f x s' = (Inl e, s''))"
  by (auto simp: bindS_def split: prod.splits sum.splits)

text \<open>Running an operation from a state, step by step.\<close>

named_theorems run_simps \<open>execution of single steps\<close>

lemma bindS_liftS [run_simps]: "bindS (liftS q) f s = (case q of Inl e \<Rightarrow> (Inl e, s) | Inr x \<Rightarrow> f x s)"
  by (simp add: bindS_def liftS_def)

lemma bindS_lift_mapErr [run_simps]:
  "bindS (liftS (mapErr g q)) f s = (case q of Inl e \<Rightarrow> (Inl (g e), s) | Inr x \<Rightarrow> f x s)"
  by (simp add: bindS_def liftS_def mapErr_def split: sum.splits)

lemma case_mapErr [run_simps]:
  "(case mapErr g q of Inl e \<Rightarrow> a e | Inr x \<Rightarrow> b x) = (case q of Inl e \<Rightarrow> a (g e) | Inr x \<Rightarrow> b x)"
  by (simp add: mapErr_def split: sum.splits)

lemma bindS_assertS [run_simps]: "bindS (assertS b e) f s = (if b then f () s else (Inl e, s))"
  by (simp add: bindS_def assertS_def returnS_def throwS_def)

lemma bindS_putS [run_simps]: "bindS (putS g) f s = f () (g s)"
  by (simp add: bindS_def putS_def)

lemma bindS_getS [run_simps]: "bindS (getS g) f s = f (g s) s"
  by (simp add: bindS_def getS_def)

lemma bindS_returnS [run_simps]: "bindS (returnS x) f s = f x s"
  by (simp add: bindS_def returnS_def)

lemma bindS_throwS [run_simps]: "bindS (throwS e) f s = (Inl e, s)"
  by (simp add: bindS_def throwS_def)

lemma bindS_assoc: "bindS (bindS m f) g s = bindS m (\<lambda>x. bindS (f x) g) s"
  by (auto simp: bindS_def split: prod.splits sum.splits)

lemma bindS_if [run_simps]: "bindS (if b then m else n) f s = (if b then bindS m f s else bindS n f s)"
  by simp

lemma bindS_assoc_fun [run_simps]: "bindS (bindS m f) g = bindS m (\<lambda>x. bindS (f x) g)"
  by (rule ext) (rule bindS_assoc)

subsection \<open>What a whole operation keeps\<close>

text \<open>\<open>keeps R m\<close>: whatever it returns or throws, \<open>m\<close> relates the state before and after by \<open>R\<close>.\<close>

definition keeps :: "('s \<Rightarrow> 's \<Rightarrow> bool) \<Rightarrow> ('s, 'e, 'a) eff \<Rightarrow> bool" where
  "keeps R m \<longleftrightarrow> (\<forall>s. R s (snd (m s)))"

lemma keepsI: "(\<And>s. R s (snd (m s))) \<Longrightarrow> keeps R m"
  by (simp add: keeps_def)

lemma keepsD: "keeps R m \<Longrightarrow> m s = (r, s') \<Longrightarrow> R s s'"
  by (metis keeps_def snd_conv)

locale preorder_rel =
  fixes R :: "'s \<Rightarrow> 's \<Rightarrow> bool"
  assumes refl: "R s s"
    and trans: "R s t \<Longrightarrow> R t u \<Longrightarrow> R s u"
begin

lemma keeps_return: "keeps R (returnS x)"
  by (simp add: keeps_def returnS_def refl)

lemma keeps_throw: "keeps R (throwS e)"
  by (simp add: keeps_def throwS_def refl)

lemma keeps_lift: "keeps R (liftS r)"
  by (simp add: keeps_def liftS_def refl)

lemma keeps_get: "keeps R (getS f)"
  by (simp add: keeps_def getS_def refl)

lemma keeps_assert: "keeps R (assertS b e)"
  by (simp add: assertS_def keeps_return keeps_throw)

lemma keeps_bind: "keeps R m \<Longrightarrow> (\<And>x. keeps R (f x)) \<Longrightarrow> keeps R (bindS m f)"
  unfolding keeps_def bindS_def by (auto split: prod.splits sum.splits) (metis snd_conv trans)+

lemma keeps_if: "keeps R m \<Longrightarrow> keeps R n \<Longrightarrow> keeps R (if b then m else n)"
  by simp

lemmas keeps_intros = keeps_return keeps_throw keeps_lift keeps_get keeps_assert keeps_bind keeps_if

end

subsection \<open>Counting steps of a history\<close>

fun occurrences :: "('s \<Rightarrow> 'o \<Rightarrow> 's) \<Rightarrow> ('s \<Rightarrow> 'o \<Rightarrow> bool) \<Rightarrow> 's \<Rightarrow> 'o list \<Rightarrow> nat" where
  "occurrences step P s [] = 0"
| "occurrences step P s (o1 # os) = (if P s o1 then 1 else 0) + occurrences step P (step s o1) os"

end
