(* ===== verification/Permit_Store.thy ===== *)
theory Permit_Store
  imports Effects Manifest
begin

text \<open>
  The two permit stores of the gate (\<^verbatim>\<open>commitgate/promotion-permit-store.ts\<close>,
  \<^verbatim>\<open>commitgate/rollback-permit-store.ts\<close>): permit files, claim files opened
  exclusively, and the in-process capabilities with their consumed flag. An operation runs to its
  end before the next one on the same permit (the promise queue), so a history is a sequence of
  operations; a crash is an operation that stops early, and a restart forgets the capabilities.

  A time stamp is the instant its text denotes, \<open>None\<close> where \<^verbatim>\<open>Date.parse\<close> gives
  \<^verbatim>\<open>NaN\<close>; the clock and the UUIDs are arguments. Control paths are absolute and normal,
  so \<^verbatim>\<open>path.join\<close> below them appends.
\<close>

type_synonym instant = "int option"

definition to_instant :: "int \<Rightarrow> instant res" where
  "to_instant ms =
     (if - 8640000000000000 \<le> ms \<and> ms \<le> 8640000000000000 then Inr (Some ms)
      else Inl (JsError ''Invalid time value''))"

datatype stored_state = ISSUED | CONSUMING | CONSUMED | REVOKED

fun stored_state_text :: "stored_state \<Rightarrow> string" where
  "stored_state_text ISSUED = ''ISSUED''"
| "stored_state_text CONSUMING = ''CONSUMING''"
| "stored_state_text CONSUMED = ''CONSUMED''"
| "stored_state_text REVOKED = ''REVOKED''"

definition expired_at :: "instant \<Rightarrow> int \<Rightarrow> bool" where
  "expired_at expires now \<longleftrightarrow> (case expires of None \<Rightarrow> False | Some t \<Rightarrow> t \<le> now)"

definition ttl_or :: "int option \<Rightarrow> int" where
  "ttl_or ttl = max 1 (case ttl of None \<Rightarrow> 60000 | Some t \<Rightarrow> t)"

datatype permit_code = PERMIT_REPLAY | PERMIT_EXPIRED | PERMIT_BINDING_MISMATCH | PERMIT_STATE_INVALID

datatype permit_error = PermitStateError permit_code string | Thrown js_error

abbreviation lifted :: "'a res \<Rightarrow> ('s, permit_error, 'a) eff" where
  "lifted r \<equiv> liftS (mapErr Thrown r)"

subsection \<open>Promotion permits\<close>

datatype proposal_status = SEALED | DESTROYED

record sealed_proposal =
  sp_schemaVersion :: int
  sp_proposalId :: string
  sp_runId :: string
  sp_agentId :: string
  sp_baseViewId :: string
  sp_artifactHash :: string
  sp_manifestHash :: string
  sp_changedPathsDigest :: string
  sp_runtimeTeardownDigest :: string
  sp_state :: proposal_status
  sp_sealedAt :: string

record promotion_permit =
  pp_schemaVersion :: int
  pp_permitId :: string
  pp_runId :: string
  pp_agentId :: string
  pp_proposalId :: string
  pp_baseViewId :: string
  pp_targetArtifactHash :: string
  pp_evaluationContextHash :: string
  pp_evidenceDigest :: string
  pp_nonce :: string
  pp_expiresAt :: instant
  pp_state :: stored_state
  pp_issuedAt :: instant
  pp_updatedAt :: instant

record issue_input =
  is_runId :: string
  is_agentId :: string
  is_controlPath :: string
  is_proposal :: sealed_proposal
  is_baseView :: state_view
  is_evaluationContextHash :: string
  is_evidence :: evidence_bundle
  is_ttlMs :: "int option"

record claim_input =
  cl_agentId :: string
  cl_controlPath :: string
  cl_permitId :: string
  cl_proposal :: sealed_proposal
  cl_proposalPath :: string
  cl_proposalManifest :: snapshot_manifest
  cl_baseView :: state_view
  cl_evaluationContextHash :: string
  cl_evidenceDigest :: string

record promotion_capability =
  cap_permit :: promotion_permit
  cap_proposal :: sealed_proposal
  cap_proposalPath :: string
  cap_proposalManifest :: snapshot_manifest
  cap_baseView :: state_view
  cap_controlPath :: string
  cap_locallyConsumed :: bool

record promotion_store =
  ps_permits :: "string \<rightharpoonup> promotion_permit"
  ps_claims :: "string \<rightharpoonup> string"
  ps_capabilities :: "promotion_capability list"

type_synonym 'a promotion_op = "(promotion_store, permit_error, 'a) eff"

definition permitPath :: "string \<Rightarrow> string \<Rightarrow> string res" where
  "permitPath controlPath permitId =
     bindE (assertSafeIdentifier permitId ''permitId'') (\<lambda>_.
       let result = controlPath @ ''/permits/'' @ permitId @ ''.json''
       in bindE (assertContained controlPath result ''promotion permit path'') (\<lambda>_. Inr result))"

definition read_permit :: "string \<Rightarrow> promotion_permit promotion_op" where
  "read_permit path s =
     (case ps_permits s path of
        None \<Rightarrow> (Inl (Thrown (JsError ''ENOENT'')), s)
      | Some p \<Rightarrow> (Inr p, s))"

definition write_permit :: "string \<Rightarrow> promotion_permit \<Rightarrow> unit promotion_op" where
  "write_permit path p = putS (\<lambda>s. s\<lparr>ps_permits := (ps_permits s)(path \<mapsto> p)\<rparr>)"

definition permit_get :: "string \<Rightarrow> string \<Rightarrow> promotion_permit promotion_op" where
  "permit_get controlPath permitId = bindS (lifted (permitPath controlPath permitId)) read_permit"

definition permit_update ::
  "string \<Rightarrow> promotion_permit \<Rightarrow> stored_state \<Rightarrow> int \<Rightarrow> promotion_permit promotion_op" where
  "permit_update controlPath p st now =
     bindS (lifted (to_instant now)) (\<lambda>at.
     let next = p\<lparr>pp_state := st, pp_updatedAt := at\<rparr>
     in bindS (lifted (permitPath controlPath (pp_permitId p))) (\<lambda>path.
        bindS (write_permit path next) (\<lambda>_. returnS next)))"

definition issue_mismatch :: "issue_input \<Rightarrow> bool" where
  "issue_mismatch i \<longleftrightarrow>
     sp_runId (is_proposal i) \<noteq> is_runId i \<or> sp_agentId (is_proposal i) \<noteq> is_agentId i \<or>
     sp_baseViewId (is_proposal i) \<noteq> viewId (is_baseView i) \<or> sp_state (is_proposal i) \<noteq> SEALED \<or>
     eb_proposalId (is_evidence i) \<noteq> sp_proposalId (is_proposal i) \<or>
     eb_evaluationContextHash (is_evidence i) \<noteq> is_evaluationContextHash i \<or>
     eb_coverage (is_evidence i) \<noteq> ''complete'' \<or> \<not> eb_requiredChecksPassed (is_evidence i) \<or>
     eb_verifierInputHash (is_evidence i) \<noteq> sp_manifestHash (is_proposal i)"

definition new_permit :: "issue_input \<Rightarrow> string \<Rightarrow> string \<Rightarrow> instant \<Rightarrow> instant \<Rightarrow> promotion_permit" where
  "new_permit i permitId nonce expires at =
     \<lparr>pp_schemaVersion = 1, pp_permitId = permitId, pp_runId = is_runId i, pp_agentId = is_agentId i,
      pp_proposalId = sp_proposalId (is_proposal i), pp_baseViewId = viewId (is_baseView i),
      pp_targetArtifactHash = sp_artifactHash (is_proposal i),
      pp_evaluationContextHash = is_evaluationContextHash i, pp_evidenceDigest = eb_digest (is_evidence i),
      pp_nonce = nonce, pp_expiresAt = expires, pp_state = ISSUED, pp_issuedAt = at, pp_updatedAt = at\<rparr>"

definition permit_issue ::
  "(string \<Rightarrow> string) \<Rightarrow> key_order \<Rightarrow> issue_input \<Rightarrow> int \<Rightarrow> string \<Rightarrow> string \<Rightarrow> promotion_permit promotion_op" where
  "permit_issue H le i now uuid nonce =
     bindS (lifted (assertSafeIdentifier (is_runId i) ''runId'')) (\<lambda>_.
     bindS (lifted (assertSafeIdentifier (is_agentId i) ''agentId'')) (\<lambda>_.
     bindS (lifted (assertStateViewRef H (is_baseView i))) (\<lambda>_.
     bindS (lifted (assertEvidenceBundle H le (is_evidence i))) (\<lambda>_.
     bindS (assertS (\<not> issue_mismatch i)
              (PermitStateError PERMIT_BINDING_MISMATCH ''Permit inputs do not bind the same proposal, view and evidence'')) (\<lambda>_.
     bindS (lifted (to_instant (now + ttl_or (is_ttlMs i)))) (\<lambda>expires.
     bindS (lifted (to_instant now)) (\<lambda>at.
     let permitId = ''k-'' @ uuid;
         p = new_permit i permitId nonce expires at
     in bindS (lifted (permitPath (is_controlPath i) permitId)) (\<lambda>path.
        bindS (write_permit path p) (\<lambda>_. returnS p)))))))))"

text \<open>An entry as it is hashed here: the members that are there.\<close>

definition entry_members :: "manifest_entry \<Rightarrow> json" where
  "entry_members e = JObj
     ([(''path'', JStr (me_path e)), (''type'', JStr (entry_type_text (me_type e))), (''mode'', JNum (me_mode e)),
       (''size'', JNum (me_size e))] @
      (case me_contentHash e of None \<Rightarrow> [] | Some h \<Rightarrow> [(''contentHash'', JStr h)]) @
      (case me_linkTarget e of None \<Rightarrow> [] | Some t \<Rightarrow> [(''linkTarget'', JStr t)]) @
      [(''pathClass'', JStr (path_class_text (me_pathClass e)))])"

definition artifact_hash :: "(string \<Rightarrow> string) \<Rightarrow> key_order \<Rightarrow> snapshot_manifest \<Rightarrow> string" where
  "artifact_hash H le m = sha256Canonical H le (JObj
     [(''manifestSchemaVersion'', JNum (sm_schemaVersion m)), (''manifestHash'', JStr (sm_hash m)),
      (''entries'', JArr (map entry_members (sm_entries m)))])"

definition claim_mismatch :: "(string \<Rightarrow> string) \<Rightarrow> key_order \<Rightarrow> promotion_permit \<Rightarrow> claim_input \<Rightarrow> bool" where
  "claim_mismatch H le p i \<longleftrightarrow>
     pp_schemaVersion p \<noteq> 1 \<or> pp_permitId p \<noteq> cl_permitId i \<or> pp_agentId p \<noteq> cl_agentId i \<or>
     pp_proposalId p \<noteq> sp_proposalId (cl_proposal i) \<or> pp_baseViewId p \<noteq> viewId (cl_baseView i) \<or>
     pp_targetArtifactHash p \<noteq> sp_artifactHash (cl_proposal i) \<or>
     pp_evaluationContextHash p \<noteq> cl_evaluationContextHash i \<or> pp_evidenceDigest p \<noteq> cl_evidenceDigest i \<or>
     sp_baseViewId (cl_proposal i) \<noteq> viewId (cl_baseView i) \<or> sp_state (cl_proposal i) \<noteq> SEALED \<or>
     sm_schemaVersion (cl_proposalManifest i) \<noteq> 2 \<or>
     sm_hash (cl_proposalManifest i) \<noteq> sp_manifestHash (cl_proposal i) \<or>
     artifact_hash H le (cl_proposalManifest i) \<noteq> sp_artifactHash (cl_proposal i)"

definition assertBindings ::
  "(string \<Rightarrow> string) \<Rightarrow> key_order \<Rightarrow> promotion_permit \<Rightarrow> claim_input \<Rightarrow> unit promotion_op" where
  "assertBindings H le p i =
     bindS (lifted (assertStateViewRef H (cl_baseView i))) (\<lambda>_.
     bindS (lifted (assertContained (cl_controlPath i) (cl_proposalPath i) ''proposal path'')) (\<lambda>_.
       assertS (\<not> claim_mismatch H le p i)
         (PermitStateError PERMIT_BINDING_MISMATCH ''Promotion permit binding mismatch'')))"

definition claim_path :: "string \<Rightarrow> string" where
  "claim_path permitFile = permitFile @ ''.claim''"

text \<open>\<^verbatim>\<open>open(path, "wx")\<close>: creates the claim file or fails if it exists.\<close>

definition open_claim :: "string \<Rightarrow> string \<Rightarrow> unit promotion_op" where
  "open_claim permitFile nonce =
     bindS (getS (\<lambda>s. ps_claims s (claim_path permitFile))) (\<lambda>existing.
     bindS (assertS (existing = None)
              (PermitStateError PERMIT_REPLAY ''Promotion permit already has a durable claim'')) (\<lambda>_.
       putS (\<lambda>s. s\<lparr>ps_claims := (ps_claims s)(claim_path permitFile \<mapsto> nonce)\<rparr>)))"

text \<open>The part of \<^verbatim>\<open>claim\<close> up to the claim file; a crash there leaves the permit issued.\<close>

definition claim_open ::
  "(string \<Rightarrow> string) \<Rightarrow> key_order \<Rightarrow> claim_input \<Rightarrow> int \<Rightarrow> promotion_permit promotion_op" where
  "claim_open H le i now =
     bindS (lifted (permitPath (cl_controlPath i) (cl_permitId i))) (\<lambda>path.
     bindS (read_permit path) (\<lambda>p.
     bindS (assertBindings H le p i) (\<lambda>_.
     bindS (assertS (pp_state p = ISSUED)
              (PermitStateError PERMIT_REPLAY (''Permit is already '' @ stored_state_text (pp_state p)))) (\<lambda>_.
     bindS (if expired_at (pp_expiresAt p) now
            then bindS (permit_update (cl_controlPath i) p REVOKED now)
                   (\<lambda>_. throwS (PermitStateError PERMIT_EXPIRED ''Promotion permit expired''))
            else returnS ()) (\<lambda>_.
     bindS (open_claim path (pp_nonce p)) (\<lambda>_. returnS p))))))"

definition permit_claim ::
  "(string \<Rightarrow> string) \<Rightarrow> key_order \<Rightarrow> claim_input \<Rightarrow> int \<Rightarrow> promotion_capability promotion_op" where
  "permit_claim H le i now =
     bindS (claim_open H le i now) (\<lambda>p.
     bindS (permit_update (cl_controlPath i) p CONSUMING now) (\<lambda>consuming.
     let c = \<lparr>cap_permit = consuming, cap_proposal = cl_proposal i, cap_proposalPath = cl_proposalPath i,
              cap_proposalManifest = cl_proposalManifest i, cap_baseView = cl_baseView i,
              cap_controlPath = cl_controlPath i, cap_locallyConsumed = False\<rparr>
     in bindS (putS (\<lambda>s. s\<lparr>ps_capabilities := ps_capabilities s @ [c]\<rparr>)) (\<lambda>_. returnS c)))"

definition consumeClaim :: "string \<Rightarrow> string \<Rightarrow> string \<Rightarrow> int \<Rightarrow> promotion_permit promotion_op" where
  "consumeClaim controlPath permitId nonce now =
     bindS (permit_get controlPath permitId) (\<lambda>p.
     bindS (assertS (pp_nonce p = nonce \<and> pp_state p = CONSUMING)
              (PermitStateError PERMIT_REPLAY ''Promotion permit is no longer consumable'')) (\<lambda>_.
       permit_update controlPath p CONSUMED now))"

text \<open>\<^verbatim>\<open>capability.consume()\<close> of the n-th capability handed out since the start.\<close>

definition capability_consume :: "nat \<Rightarrow> int \<Rightarrow> promotion_permit promotion_op" where
  "capability_consume n now s =
     (if n < length (ps_capabilities s) then
        (let c = ps_capabilities s ! n
         in bindS (assertS (\<not> cap_locallyConsumed c)
                (PermitStateError PERMIT_REPLAY ''Promotion capability was already consumed'')) (\<lambda>_.
            bindS (putS (\<lambda>s. s\<lparr>ps_capabilities := (ps_capabilities s)[n := c\<lparr>cap_locallyConsumed := True\<rparr>]\<rparr>)) (\<lambda>_.
              consumeClaim (cap_controlPath c) (pp_permitId (cap_permit c)) (pp_nonce (cap_permit c)) now))) s
      else (Inl (Thrown JsTypeError), s))"

definition markConsumed :: "string \<Rightarrow> string \<Rightarrow> int \<Rightarrow> promotion_permit promotion_op" where
  "markConsumed controlPath permitId now =
     bindS (permit_get controlPath permitId) (\<lambda>p.
       if pp_state p = CONSUMED then returnS p
       else bindS (assertS (pp_state p = CONSUMING)
              (PermitStateError PERMIT_STATE_INVALID (''Cannot consume permit in state '' @ stored_state_text (pp_state p)))) (\<lambda>_.
         permit_update controlPath p CONSUMED now))"

definition permit_revoke :: "string \<Rightarrow> string \<Rightarrow> int \<Rightarrow> promotion_permit promotion_op" where
  "permit_revoke controlPath permitId now =
     bindS (permit_get controlPath permitId) (\<lambda>p.
       if pp_state p = REVOKED then returnS p
       else if pp_state p = CONSUMED then returnS p
       else permit_update controlPath p REVOKED now)"

datatype promotion_step =
    PIssue issue_input int string string
  | PClaim claim_input int
  | PConsume nat int
  | PMarkConsumed string string int
  | PRevoke string string int
  | PClaimCrash claim_input int
  | PRestart

fun promotion_exec :: "(string \<Rightarrow> string) \<Rightarrow> key_order \<Rightarrow> promotion_store \<Rightarrow> promotion_step \<Rightarrow> promotion_store" where
  "promotion_exec H le s (PIssue i now u n) = snd (permit_issue H le i now u n s)"
| "promotion_exec H le s (PClaim i now) = snd (permit_claim H le i now s)"
| "promotion_exec H le s (PConsume n now) = snd (capability_consume n now s)"
| "promotion_exec H le s (PMarkConsumed c k now) = snd (markConsumed c k now s)"
| "promotion_exec H le s (PRevoke c k now) = snd (permit_revoke c k now s)"
| "promotion_exec H le s (PClaimCrash i now) = (snd (claim_open H le i now s))\<lparr>ps_capabilities := []\<rparr>"
| "promotion_exec H le s PRestart = s\<lparr>ps_capabilities := []\<rparr>"

end
