(* ===== verification/One_Shot.thy ===== *)
theory One_Shot
  imports Permit_Store
begin

text \<open>
  The contract both permit stores keep, as a locale over histories of a store: a claim is never
  taken back, a permit enters \<open>CONSUMING\<close> only by taking the claim that nobody had, and
  \<open>CONSUMED\<close> only from there. Two facts follow for whole histories, whatever else happens to
  the permit file in between: each permit enters each of these states at most once. Both stores
  interpret the locale; a crash between the claim file and the permit file is one of their steps.
\<close>

locale one_shot =
  fixes step :: "'s \<Rightarrow> 'o \<Rightarrow> 's"
    and inv :: "'s \<Rightarrow> bool"
    and status :: "'s \<Rightarrow> 'k \<Rightarrow> stored_state option"
    and claimed :: "'s \<Rightarrow> 'k \<Rightarrow> bool"
  assumes step_inv: "inv s \<Longrightarrow> inv (step s x)"
    and claimed_step: "claimed s k \<Longrightarrow> claimed (step s x) k"
    and consuming_claimed: "inv s \<Longrightarrow> status s k = Some CONSUMING \<Longrightarrow> claimed s k"
    and enter_consuming: "inv s \<Longrightarrow> status (step s x) k = Some CONSUMING \<Longrightarrow> status s k \<noteq> Some CONSUMING \<Longrightarrow>
      \<not> claimed s k"
    and enter_consumed: "inv s \<Longrightarrow> status (step s x) k = Some CONSUMED \<Longrightarrow> status s k \<noteq> Some CONSUMED \<Longrightarrow>
      status s k = Some CONSUMING"
begin

definition enters :: "stored_state \<Rightarrow> 'k \<Rightarrow> 's \<Rightarrow> 'o \<Rightarrow> bool" where
  "enters st k s x \<longleftrightarrow> status s k \<noteq> Some st \<and> status (step s x) k = Some st"

lemma claimed_enters_consuming: "inv s \<Longrightarrow> claimed s k \<Longrightarrow> occurrences step (enters CONSUMING k) s xs = 0"
proof (induction xs arbitrary: s)
  case (Cons x xs)
  then show ?case using enter_consuming by (auto simp: enters_def step_inv claimed_step)
qed simp

lemma consuming_at_most_once: "inv s \<Longrightarrow> occurrences step (enters CONSUMING k) s xs \<le> 1"
proof (induction xs arbitrary: s)
  case (Cons x xs)
  show ?case
  proof (cases "enters CONSUMING k s x")
    case True
    then have "claimed (step s x) k"
      using consuming_claimed step_inv Cons.prems by (auto simp: enters_def)
    then show ?thesis using claimed_enters_consuming Cons.prems True by (simp add: step_inv)
  next
    case False
    then show ?thesis using Cons.IH Cons.prems by (simp add: step_inv)
  qed
qed simp

lemma spent_enters_consumed:
  "inv s \<Longrightarrow> claimed s k \<Longrightarrow> status s k \<noteq> Some CONSUMING \<Longrightarrow> occurrences step (enters CONSUMED k) s xs = 0"
proof (induction xs arbitrary: s)
  case (Cons x xs)
  then have "\<not> enters CONSUMED k s x" using enter_consumed by (auto simp: enters_def)
  moreover have "status (step s x) k \<noteq> Some CONSUMING" using Cons.prems enter_consuming by blast
  ultimately show ?case using Cons by (simp add: step_inv claimed_step)
qed simp

lemma consumed_at_most_once: "inv s \<Longrightarrow> occurrences step (enters CONSUMED k) s xs \<le> 1"
proof (induction xs arbitrary: s)
  case (Cons x xs)
  show ?case
  proof (cases "enters CONSUMED k s x")
    case True
    then have "status s k = Some CONSUMING" using enter_consumed Cons.prems by (auto simp: enters_def)
    then have "claimed (step s x) k" using consuming_claimed claimed_step Cons.prems by blast
    moreover have "status (step s x) k \<noteq> Some CONSUMING" using True by (simp add: enters_def)
    ultimately show ?thesis using spent_enters_consumed Cons.prems True by (simp add: step_inv)
  next
    case False
    then show ?thesis using Cons.IH Cons.prems by (simp add: step_inv)
  qed
qed simp

lemma occurrences_le:
  assumes "\<And>s x. inv s \<Longrightarrow> P s x \<Longrightarrow> Q s x" and "inv s"
  shows "occurrences step P s xs \<le> occurrences step Q s xs"
  using assms(2)
proof (induction xs arbitrary: s)
  case (Cons x xs)
  from Cons.IH [OF step_inv [OF Cons.prems]] assms(1) [OF Cons.prems, of x] show ?case
    by (auto intro: le_SucI)
qed simp

end

subsection \<open>Stores of permit files\<close>

text \<open>
  The contract of the files alone: what a step may do to permit and claim files so that the store
  is one-shot. \<open>move\<close> lists it; the lemmas give it for the four kinds of writes the stores do.
\<close>

locale permit_files =
  fixes permits :: "'s \<Rightarrow> string \<rightharpoonup> 'p"
    and claims :: "'s \<Rightarrow> string \<rightharpoonup> string"
    and pid :: "'p \<Rightarrow> string"
    and pstate :: "'p \<Rightarrow> stored_state"
    and ppath :: "string \<Rightarrow> string \<Rightarrow> string res"
  assumes ppath_unique: "ppath c i = Inr k \<Longrightarrow> ppath c' j = Inr k \<Longrightarrow> c = c' \<and> i = j"
begin

definition inv :: "'s \<Rightarrow> bool" where
  "inv s \<longleftrightarrow> (\<forall>k p. permits s k = Some p \<longrightarrow>
     (\<exists>c. ppath c (pid p) = Inr k) \<and> (pstate p = CONSUMING \<longrightarrow> claims s (claim_path k) \<noteq> None))"

definition status :: "'s \<Rightarrow> string \<Rightarrow> stored_state option" where
  "status s k = map_option pstate (permits s k)"

definition claimed :: "'s \<Rightarrow> string \<Rightarrow> bool" where
  "claimed s k \<longleftrightarrow> claims s (claim_path k) \<noteq> None"

definition move :: "'s \<Rightarrow> 's \<Rightarrow> bool" where
  "move s s' \<longleftrightarrow> (inv s \<longrightarrow> inv s') \<and> (\<forall>k. claimed s k \<longrightarrow> claimed s' k) \<and>
     (inv s \<longrightarrow> (\<forall>k.
       (status s' k = Some CONSUMING \<longrightarrow> status s k \<noteq> Some CONSUMING \<longrightarrow> \<not> claimed s k) \<and>
       (status s' k = Some CONSUMED \<longrightarrow> status s k \<noteq> Some CONSUMED \<longrightarrow> status s k = Some CONSUMING)))"

lemma same_files:
  assumes "permits t = permits s" and "claims t = claims s"
  shows "inv t = inv s" and "status t = status s" and "claimed t = claimed s"
  using assms by (simp_all add: inv_def status_def claimed_def fun_eq_iff)

lemma move_same: "permits s' = permits s \<Longrightarrow> claims s' = claims s \<Longrightarrow> move s s'"
  unfolding move_def by (simp only: same_files [of s' s]) blast

lemma move_from: "move t s' \<Longrightarrow> permits t = permits s \<Longrightarrow> claims t = claims s \<Longrightarrow> move s s'"
  unfolding move_def by (simp only: same_files [of t s])

lemma move_to: "move s t \<Longrightarrow> permits s' = permits t \<Longrightarrow> claims s' = claims t \<Longrightarrow> move s s'"
  unfolding move_def by (simp only: same_files [of s' t])

lemma write_files:
  assumes "permits s' = (permits s)(k \<mapsto> q)" and "claims s' = claims s"
  shows "status s' k' = (if k' = k then Some (pstate q) else status s k')" and "claimed s' k' = claimed s k'"
  using assms by (simp_all add: status_def claimed_def)

lemma move_write:
  assumes "permits s' = (permits s)(k \<mapsto> q)" and "claims s' = claims s" and "ppath c (pid q) = Inr k"
    and "pstate q \<noteq> CONSUMING" and "pstate q = CONSUMED \<Longrightarrow> inv s \<Longrightarrow> status s k = Some CONSUMING"
  shows "move s s'"
proof -
  have "inv s'" if "inv s"
    using that assms(1-4) unfolding inv_def by (simp; blast)
  then show ?thesis
    unfolding move_def write_files [OF assms(1,2)] using assms(4,5) by (auto split: if_splits)
qed

text \<open>A permit read from its path and written back to the path its own id names.\<close>

lemma move_write_back:
  assumes "ppath c i = Inr k" and "permits s k = Some p" and "ppath c (pid p) = Inr k'"
    and "permits s' = (permits s)(k' \<mapsto> q)" and "claims s' = claims s" and "pid q = pid p"
    and "pstate q = REVOKED \<or> pstate q = CONSUMED \<and> pstate p = CONSUMING"
  shows "move s s'"
proof (rule move_write [OF assms(4,5)])
  show "ppath c (pid q) = Inr k'" using assms(3,6) by simp
  show "pstate q \<noteq> CONSUMING" using assms(7) by auto
next
  assume c: "pstate q = CONSUMED" and "inv s"
  then obtain c' where "ppath c' (pid p) = Inr k" using assms(2) by (auto simp: inv_def)
  from ppath_unique [OF assms(1) this] assms(1,3) have "k' = k" by simp
  with c assms(2,7) show "status s k' = Some CONSUMING" by (simp add: status_def)
qed

lemma move_claim_file: "permits s' = permits s \<Longrightarrow> claims s' = (claims s)(k \<mapsto> n) \<Longrightarrow> move s s'"
  by (auto simp: move_def inv_def status_def claimed_def)

lemma move_claim:
  assumes "permits s' = (permits s)(k \<mapsto> q)" and "claims s' = (claims s)(claim_path k \<mapsto> n)"
    and "ppath c (pid q) = Inr k" and "pstate q = CONSUMING" and "\<not> claimed s k"
  shows "move s s'"
proof -
  have c: "claimed s' k' \<longleftrightarrow> k' = k \<or> claimed s k'" for k'
    using assms(2) by (auto simp: claimed_def claim_path_def)
  have st: "status s' k' = (if k' = k then Some CONSUMING else status s k')" for k'
    using assms(1,4) by (simp add: status_def)
  have "inv s'" if "inv s"
    using that assms(1-4) unfolding inv_def by (auto simp: claim_path_def)
  with assms(5) c st show ?thesis by (auto simp: move_def)
qed

lemma moves_one_shot:
  assumes "\<And>s x. move s (step s x)"
  shows "one_shot step inv status claimed"
proof
  fix s x k
  note m = assms [of s x, unfolded move_def]
  show "inv s \<Longrightarrow> inv (step s x)" using m by blast
  show "claimed s k \<Longrightarrow> claimed (step s x) k" using m by blast
  show "inv s \<Longrightarrow> status (step s x) k = Some CONSUMING \<Longrightarrow> status s k \<noteq> Some CONSUMING \<Longrightarrow> \<not> claimed s k"
    using m by blast
  show "inv s \<Longrightarrow> status (step s x) k = Some CONSUMED \<Longrightarrow> status s k \<noteq> Some CONSUMED \<Longrightarrow>
      status s k = Some CONSUMING" using m by blast
  show "inv s \<Longrightarrow> status s k = Some CONSUMING \<Longrightarrow> claimed s k"
    by (auto simp: inv_def status_def claimed_def)
qed

end

text \<open>Where a sequence of pure checks can end.\<close>

lemma case_sum_run:
  "(case q of Inl e \<Rightarrow> (Inl (g e), s) | Inr x \<Rightarrow> f x) = (r, s') \<Longrightarrow> s' \<noteq> s \<Longrightarrow> \<exists>x. q = Inr x \<and> f x = (r, s')"
  by (cases q) auto

lemma case_option_run:
  "(case q of None \<Rightarrow> (Inl e, s) | Some x \<Rightarrow> f x) = (r, s') \<Longrightarrow> s' \<noteq> s \<Longrightarrow> \<exists>x. q = Some x \<and> f x = (r, s')"
  by (cases q) auto

lemma if_run: "(if b then m else (Inl e, s)) = (r, s') \<Longrightarrow> s' \<noteq> s \<Longrightarrow> b \<and> m = (r, s')"
  by (cases b) auto

subsection \<open>Permit paths\<close>

lemma last_segment_unique:
  assumes "a @ d # x = b @ d # y" and "d \<notin> set x" and "d \<notin> set y"
  shows "a = b \<and> x = y"
proof -
  have t: "takeWhile (\<lambda>c. c \<noteq> d) (rev (p @ d # q)) = rev q" if "d \<notin> set q" for p q
    using that by (simp add: takeWhile_append2 takeWhile_eq_all_conv [THEN iffD2])
      (subst takeWhile_append2, auto)
  from assms t [of x a] t [of y b] have "x = y" by simp
  with assms(1) show ?thesis by simp
qed

lemma safe_no_slash: "assertSafeIdentifier i l = Inr u \<Longrightarrow> slash \<notin> set i"
  by (auto simp: assertSafeIdentifier_Inr is_identifier_def is_ident_char_def is_digit_def char_code_def list_all_iff)

lemma file_path_unique:
  assumes "a @ (dir @ slash # i @ ''.json'') = b @ (dir @ slash # j @ ''.json'')"
    and "slash \<notin> set i" and "slash \<notin> set j"
  shows "a = b \<and> i = j"
  using last_segment_unique [of "a @ dir" slash "i @ ''.json''" "b @ dir" "j @ ''.json''"] assms by simp

lemma permitPath_Inr: "permitPath cp i = Inr k \<longleftrightarrow>
    is_identifier i \<and> i \<noteq> ''.'' \<and> i \<noteq> ''..'' \<and> k = cp @ ''/permits/'' @ i @ ''.json''"
  by (auto simp: permitPath_def Let_def res_simps contained_iff)

lemma identifier_no_slash: "is_identifier i \<Longrightarrow> slash \<notin> set i"
  by (auto simp: is_identifier_def is_ident_char_def is_digit_def char_code_def list_all_iff)

lemma permitPath_unique: "permitPath cp i = Inr k \<Longrightarrow> permitPath cp' j = Inr k \<Longrightarrow> cp = cp' \<and> i = j"
  using file_path_unique [of cp "''/permits''" i cp' j] identifier_no_slash
  by (auto simp: permitPath_Inr)

end
