(* ===== verification/Promotion_Facts.thy ===== *)
theory Promotion_Facts
  imports One_Shot
begin

text \<open>
  The promotion permit store keeps the one-shot contract: each of its operations is one of the
  moves of \<open>permit_files\<close>, so the store interprets \<open>one_shot\<close>; and what a successful claim
  has checked.
\<close>

interpretation pf: permit_files ps_permits ps_claims pp_permitId pp_state permitPath
  by unfold_locales (rule permitPath_unique)

lemma permit_update_eq:
  "permit_update cp p st now s = (r, s') \<Longrightarrow>
     s' = s \<and> isl r \<or>
     (\<exists>k at. permitPath cp (pp_permitId p) = Inr k \<and> r = Inr (p\<lparr>pp_state := st, pp_updatedAt := at\<rparr>) \<and>
        s' = s\<lparr>ps_permits := (ps_permits s)(k \<mapsto> p\<lparr>pp_state := st, pp_updatedAt := at\<rparr>)\<rparr>)"
  by (auto simp: permit_update_def Let_def bindS_def liftS_def write_permit_def putS_def returnS_def mapErr_def
      split: prod.splits sum.splits)

lemma bindS_read [run_simps]:
  "bindS (read_permit k) f s =
     (case ps_permits s k of None \<Rightarrow> (Inl (Thrown (JsError ''ENOENT'')), s) | Some p \<Rightarrow> f p s)"
  by (simp add: bindS_def read_permit_def split: option.splits)

lemma bindS_permit_get [run_simps]:
  "bindS (permit_get cp i) f s =
     (case permitPath cp i of Inl e \<Rightarrow> (Inl (Thrown e), s)
      | Inr k \<Rightarrow> (case ps_permits s k of None \<Rightarrow> (Inl (Thrown (JsError ''ENOENT'')), s) | Some p \<Rightarrow> f p s))"
  by (simp add: permit_get_def run_simps split: sum.splits)

lemma move_update:
  assumes "permit_update cp p st now s = (r, s')" and "permitPath cp i = Inr k" and "ps_permits s k = Some p"
    and "st = REVOKED \<or> st = CONSUMED \<and> pp_state p = CONSUMING"
  shows "pf.move s s'"
proof (cases "s' = s")
  case False
  with permit_update_eq [OF assms(1)] obtain k' at where "permitPath cp (pp_permitId p) = Inr k'"
    "s' = s\<lparr>ps_permits := (ps_permits s)(k' \<mapsto> p\<lparr>pp_state := st, pp_updatedAt := at\<rparr>)\<rparr>" by auto
  with pf.move_write_back [OF assms(2,3)] assms(4) show ?thesis by simp
qed (simp add: pf.move_same)

lemma permit_issue_eq:
  assumes "permit_issue H le i now u n s = (r, s')" and "s' \<noteq> s"
  shows "\<exists>k expires at. permitPath (is_controlPath i) (''k-'' @ u) = Inr k \<and>
     s' = s\<lparr>ps_permits := (ps_permits s)(k \<mapsto> new_permit i (''k-'' @ u) n expires at)\<rparr>"
  using assms(1) unfolding permit_issue_def Let_def write_permit_def run_simps
  by (elim exE conjE case_sum_run [OF _ assms(2), elim_format] if_run [OF _ assms(2), elim_format])
    (auto simp: returnS_eq)

lemma move_issue:
  assumes "permit_issue H le i now u n s = (r, s')"
  shows "pf.move s s'"
proof (cases "s' = s")
  case False
  from permit_issue_eq [OF assms False] obtain k expires at where
    "permitPath (is_controlPath i) (pp_permitId (new_permit i (''k-'' @ u) n expires at)) = Inr k"
    "s' = s\<lparr>ps_permits := (ps_permits s)(k \<mapsto> new_permit i (''k-'' @ u) n expires at)\<rparr>"
    by (auto simp: new_permit_def)
  then show ?thesis
    by (intro pf.move_write [of s' s k "new_permit i (''k-'' @ u) n expires at" "is_controlPath i"])
      (simp_all add: new_permit_def)
qed (simp add: pf.move_same)

text \<open>The checks of a claim, and what it has done when it changed anything.\<close>

definition claimable ::
  "(string \<Rightarrow> string) \<Rightarrow> key_order \<Rightarrow> promotion_store \<Rightarrow> claim_input \<Rightarrow> string \<Rightarrow> promotion_permit \<Rightarrow> bool" where
  "claimable H le s i k p \<longleftrightarrow>
     permitPath (cl_controlPath i) (cl_permitId i) = Inr k \<and> ps_permits s k = Some p \<and>
     view_ok H (cl_baseView i) \<and> contained (cl_controlPath i) (cl_proposalPath i) \<and>
     \<not> claim_mismatch H le p i \<and> pp_state p = ISSUED"

lemma claim_open_cases:
  assumes "claim_open H le i now s = (r, s')" and "s' \<noteq> s"
  shows "\<exists>k p. claimable H le s i k p \<and>
    (expired_at (pp_expiresAt p) now \<and> isl r \<and> (\<exists>r'. permit_update (cl_controlPath i) p REVOKED now s = (r', s')) \<or>
     \<not> expired_at (pp_expiresAt p) now \<and> \<not> pf.claimed s k \<and> r = Inr p \<and>
       s' = s\<lparr>ps_claims := (ps_claims s)(claim_path k \<mapsto> pp_nonce p)\<rparr>)"
proof -
  from assms(1) obtain k p where k: "permitPath (cl_controlPath i) (cl_permitId i) = Inr k" "ps_permits s k = Some p"
    "assertStateViewRef H (cl_baseView i) = Inr ()"
    "assertContained (cl_controlPath i) (cl_proposalPath i) ''proposal path'' = Inr ()"
    "\<not> claim_mismatch H le p i" "pp_state p = ISSUED"
    and rest: "(if expired_at (pp_expiresAt p) now
       then bindS (permit_update (cl_controlPath i) p REVOKED now)
              (\<lambda>_. bindS (throwS (PermitStateError PERMIT_EXPIRED ''Promotion permit expired''))
                 (\<lambda>_. bindS (open_claim k (pp_nonce p)) (\<lambda>_. returnS p))) s
       else bindS (open_claim k (pp_nonce p)) (\<lambda>_. returnS p) s) = (r, s')"
    unfolding claim_open_def assertBindings_def run_simps
    by (elim exE conjE case_sum_run [OF _ assms(2), elim_format] case_option_run [OF _ assms(2), elim_format]
        if_run [OF _ assms(2), elim_format]) (simp add: bindS_throwS)
  then have "claimable H le s i k p" by (auto simp: claimable_def assertStateViewRef_eq assertContained_Inr)
  moreover have "isl r \<and> (\<exists>r'. permit_update (cl_controlPath i) p REVOKED now s = (r', s'))"
    if "expired_at (pp_expiresAt p) now"
    using rest that
    by (auto simp: bindS_throwS bindS_def [of "permit_update _ _ _ _"] split: prod.splits sum.splits)
  moreover have "\<not> pf.claimed s k \<and> r = Inr p \<and>
      s' = s\<lparr>ps_claims := (ps_claims s)(claim_path k \<mapsto> pp_nonce p)\<rparr>"
    if "\<not> expired_at (pp_expiresAt p) now"
    using rest that assms(2)
    by (auto simp: open_claim_def run_simps returnS_def pf.claimed_def split: if_splits)
  ultimately show ?thesis by blast
qed

lemma claim_open_move:
  assumes "claim_open H le i now s = (r, s')"
  shows "pf.move s s'"
proof (cases "s' = s")
  case False
  from claim_open_cases [OF assms False] obtain k p where c: "claimable H le s i k p"
    and d: "(\<exists>r'. permit_update (cl_controlPath i) p REVOKED now s = (r', s')) \<or>
       s' = s\<lparr>ps_claims := (ps_claims s)(claim_path k \<mapsto> pp_nonce p)\<rparr>" by blast
  from c have k: "permitPath (cl_controlPath i) (cl_permitId i) = Inr k" "ps_permits s k = Some p"
    by (simp_all add: claimable_def)
  from d show ?thesis using move_update [OF _ k] by (auto intro: pf.move_claim_file)
qed (simp add: pf.move_same)

lemma claim_open_changes:
  assumes "claim_open H le i now s = (Inr p, t)"
  shows "t \<noteq> s"
proof -
  from assms obtain k u where "ps_claims u (claim_path k) = None" "u = s"
    "t = u\<lparr>ps_claims := (ps_claims u)(claim_path k \<mapsto> pp_nonce p)\<rparr>"
    unfolding claim_open_def assertBindings_def open_claim_def run_simps
    by (auto simp: returnS_eq bindS_Inr throwS_eq split: sum.splits option.splits if_splits)
  then have "ps_claims t (claim_path k) \<noteq> ps_claims s (claim_path k)" by simp
  then show ?thesis by blast
qed

text \<open>A whole claim: what it checked, and the two files it wrote.\<close>

lemma permit_claim_Inr:
  assumes "permit_claim H le i now s = (Inr c, s')"
  shows "\<exists>k p at. claimable H le s i k p \<and> \<not> expired_at (pp_expiresAt p) now \<and> \<not> pf.claimed s k \<and>
    cap_permit c = p\<lparr>pp_state := CONSUMING, pp_updatedAt := at\<rparr> \<and> cap_controlPath c = cl_controlPath i \<and>
    cap_proposal c = cl_proposal i \<and> cap_proposalManifest c = cl_proposalManifest i \<and>
    cap_baseView c = cl_baseView i \<and> \<not> cap_locallyConsumed c \<and>
    s' = s\<lparr>ps_claims := (ps_claims s)(claim_path k \<mapsto> pp_nonce p),
           ps_permits := (ps_permits s)(k \<mapsto> p\<lparr>pp_state := CONSUMING, pp_updatedAt := at\<rparr>),
           ps_capabilities := ps_capabilities s @ [c]\<rparr>"
proof -
  from assms obtain p t q u where o: "claim_open H le i now s = (Inr p, t)"
    and up: "permit_update (cl_controlPath i) p CONSUMING now t = (Inr q, u)"
    and c: "c = \<lparr>cap_permit = q, cap_proposal = cl_proposal i, cap_proposalPath = cl_proposalPath i,
       cap_proposalManifest = cl_proposalManifest i, cap_baseView = cl_baseView i,
       cap_controlPath = cl_controlPath i, cap_locallyConsumed = False\<rparr>"
    and s': "s' = u\<lparr>ps_capabilities := ps_capabilities u @ [c]\<rparr>"
    unfolding permit_claim_def Let_def by (auto simp: eff_simps)
  have "t \<noteq> s" by (rule claim_open_changes [OF o])
  from claim_open_cases [OF o this] obtain k where k: "claimable H le s i k p"
    "\<not> expired_at (pp_expiresAt p) now" "\<not> pf.claimed s k"
    "t = s\<lparr>ps_claims := (ps_claims s)(claim_path k \<mapsto> pp_nonce p)\<rparr>" by auto
  from k(1) have id: "pp_permitId p = cl_permitId i" "permitPath (cl_controlPath i) (cl_permitId i) = Inr k"
    by (auto simp: claimable_def claim_mismatch_def)
  from permit_update_eq [OF up] id obtain at where
    "q = p\<lparr>pp_state := CONSUMING, pp_updatedAt := at\<rparr>"
    "u = t\<lparr>ps_permits := (ps_permits t)(k \<mapsto> p\<lparr>pp_state := CONSUMING, pp_updatedAt := at\<rparr>)\<rparr>" by auto
  with k c s' show ?thesis by (intro exI [of _ k] exI [of _ p] exI [of _ at]) simp
qed

lemma claim_move:
  assumes "permit_claim H le i now s = (r, s')"
  shows "pf.move s s'"
proof -
  obtain r1 t where o: "claim_open H le i now s = (r1, t)" by force
  note m = claim_open_move [OF o]
  show ?thesis
  proof (cases r)
    case (Inr c)
    from permit_claim_Inr [OF assms [unfolded Inr]] obtain k p at where
      k: "claimable H le s i k p" "\<not> pf.claimed s k"
      and s': "s' = s\<lparr>ps_claims := (ps_claims s)(claim_path k \<mapsto> pp_nonce p),
           ps_permits := (ps_permits s)(k \<mapsto> p\<lparr>pp_state := CONSUMING, pp_updatedAt := at\<rparr>),
           ps_capabilities := ps_capabilities s @ [c]\<rparr>" by blast
    from k(1) have "permitPath (cl_controlPath i) (pp_permitId p) = Inr k"
      by (auto simp: claimable_def claim_mismatch_def)
    with k(2) show ?thesis unfolding s'
      by (intro pf.move_claim [of _ s k "p\<lparr>pp_state := CONSUMING, pp_updatedAt := at\<rparr>" "pp_nonce p" "cl_controlPath i"]) simp_all
  next
    case (Inl e)
    with assms o have "s' = t"
      by (auto simp: permit_claim_def bindS_Inl Let_def eff_simps dest!: permit_update_eq)
    with m show ?thesis by simp
  qed
qed

text \<open>Operations that read a permit, check it and write it back.\<close>

lemma get_case_move:
  assumes "(case permitPath cp i of Inl e \<Rightarrow> (Inl (Thrown e), s)
     | Inr k \<Rightarrow> (case ps_permits s k of None \<Rightarrow> (Inl (Thrown (JsError ''ENOENT'')), s) | Some p \<Rightarrow> f p s)) = (r, s')"
    and "\<And>k p. permitPath cp i = Inr k \<Longrightarrow> ps_permits s k = Some p \<Longrightarrow> f p s = (r, s') \<Longrightarrow>
       s' = s \<or> (\<exists>st now r'. permit_update cp p st now s = (r', s') \<and> (st = REVOKED \<or> st = CONSUMED \<and> pp_state p = CONSUMING))"
  shows "pf.move s s'"
proof (cases "s' = s")
  case False
  from case_sum_run [OF assms(1) False] obtain k where k: "permitPath cp i = Inr k"
    "(case ps_permits s k of None \<Rightarrow> (Inl (Thrown (JsError ''ENOENT'')), s) | Some p \<Rightarrow> f p s) = (r, s')" by blast
  from case_option_run [OF k(2) False] obtain p where p: "ps_permits s k = Some p" "f p s = (r, s')" by blast
  from assms(2) [OF k(1) p] False move_update k(1) p(1) show ?thesis by blast
qed (simp add: pf.move_same)

lemma get_if_move:
  assumes "(if b then permit_update cp p st now s else (Inl e, s)) = (r, s')"
    and "b \<Longrightarrow> st = REVOKED \<or> st = CONSUMED \<and> pp_state p = CONSUMING"
  shows "s' = s \<or> (\<exists>st now r'. permit_update cp p st now s = (r', s') \<and> (st = REVOKED \<or> st = CONSUMED \<and> pp_state p = CONSUMING))"
  using assms by (cases b) auto

lemma consumeClaim_move: "consumeClaim cp i n now s = (r, s') \<Longrightarrow> pf.move s s'"
  unfolding consumeClaim_def run_simps by (erule get_case_move, erule get_if_move) simp

lemma markConsumed_move: "markConsumed cp i now s = (r, s') \<Longrightarrow> pf.move s s'"
  unfolding markConsumed_def run_simps
proof (erule get_case_move, goal_cases)
  case (1 k p)
  then show ?case
    by (cases "pp_state p = CONSUMED"; cases "pp_state p = CONSUMING") (auto simp: returnS_eq bindS_assertS)
qed

lemma revoke_move: "permit_revoke cp i now s = (r, s') \<Longrightarrow> pf.move s s'"
  unfolding permit_revoke_def run_simps
proof (erule get_case_move)
  fix k p
  assume "(if pp_state p = REVOKED then returnS p else if pp_state p = CONSUMED then returnS p
     else permit_update cp p REVOKED now) s = (r, s')"
  then show "s' = s \<or> (\<exists>st now r'. permit_update cp p st now s = (r', s') \<and>
      (st = REVOKED \<or> st = CONSUMED \<and> pp_state p = CONSUMING))"
    by (cases "pp_state p = REVOKED \<or> pp_state p = CONSUMED") (auto simp: returnS_eq split: if_splits)
qed

lemma consume_move: "capability_consume n now s = (r, s') \<Longrightarrow> pf.move s s'"
proof -
  let ?c = "ps_capabilities s ! n"
  let ?t = "s\<lparr>ps_capabilities := (ps_capabilities s)[n := ?c\<lparr>cap_locallyConsumed := True\<rparr>]\<rparr>"
  assume "capability_consume n now s = (r, s')"
  then consider "s' = s"
    | "consumeClaim (cap_controlPath ?c) (pp_permitId (cap_permit ?c)) (pp_nonce (cap_permit ?c)) now ?t = (r, s')"
    unfolding capability_consume_def Let_def run_simps by (auto split: if_splits)
  then show ?thesis
  proof cases
    case 2
    from pf.move_from [OF consumeClaim_move [OF this]] show ?thesis by simp
  qed (simp add: pf.move_same)
qed

lemma promotion_exec_move: "pf.move s (promotion_exec H le s x)"
proof (cases x)
  case (PClaimCrash i now)
  obtain r t where "claim_open H le i now s = (r, t)" by force
  with PClaimCrash show ?thesis by (auto intro: pf.move_to [OF claim_open_move])
qed (simp_all add: move_issue [OF surjective_pairing] claim_move [OF surjective_pairing]
    consume_move [OF surjective_pairing] markConsumed_move [OF surjective_pairing]
    revoke_move [OF surjective_pairing] pf.move_same)

interpretation promotion: one_shot "promotion_exec H le" pf.inv pf.status pf.claimed for H le
  by (rule pf.moves_one_shot) (rule promotion_exec_move)

end
