(* ===== verification/Rollback_Store.thy ===== *)
theory Rollback_Store
  imports Permit_Store
begin

text \<open>
  Rollback permits (\<^verbatim>\<open>commitgate/rollback-permit-store.ts\<close>): the same life as promotion
  permits, bound to a version, its snapshot and the HEAD it was asked for.
\<close>

record rollback_permit =
  rp_schemaVersion :: int
  rp_rollbackPermitId :: string
  rp_runId :: string
  rp_agentId :: string
  rp_targetVersionId :: string
  rp_targetSnapshotHash :: string
  rp_expectedHeadVersionId :: string
  rp_baseHash :: string
  rp_nonce :: string
  rp_expiresAt :: instant
  rp_state :: stored_state
  rp_issuedAt :: instant
  rp_updatedAt :: instant

record rollback_issue_input =
  ri_runId :: string
  ri_agentId :: string
  ri_controlPath :: string
  ri_targetVersionId :: string
  ri_targetSnapshotHash :: string
  ri_expectedHeadVersionId :: string
  ri_baseHash :: string
  ri_ttlMs :: "int option"

record rollback_claim_input =
  rc_controlPath :: string
  rc_rollbackPermitId :: string
  rc_snapshotPath :: string
  rc_targetVersionId :: string
  rc_targetSnapshotHash :: string
  rc_expectedHeadVersionId :: string
  rc_baseHash :: string

record rollback_capability =
  rcap_permit :: rollback_permit
  rcap_snapshotPath :: string
  rcap_controlPath :: string
  rcap_locallyConsumed :: bool

record rollback_store =
  rs_permits :: "string \<rightharpoonup> rollback_permit"
  rs_claims :: "string \<rightharpoonup> string"
  rs_capabilities :: "rollback_capability list"

type_synonym 'a rollback_op = "(rollback_store, js_error, 'a) eff"

definition rollback_permitPath :: "string \<Rightarrow> string \<Rightarrow> string res" where
  "rollback_permitPath controlPath rollbackPermitId =
     bindE (assertSafeIdentifier rollbackPermitId ''rollbackPermitId'') (\<lambda>_.
       let result = controlPath @ ''/rollback-permits/'' @ rollbackPermitId @ ''.json''
       in bindE (assertContained controlPath result ''rollback permit path'') (\<lambda>_. Inr result))"

definition read_rollback :: "string \<Rightarrow> rollback_permit rollback_op" where
  "read_rollback path s =
     (case rs_permits s path of None \<Rightarrow> (Inl (JsError ''ENOENT''), s) | Some p \<Rightarrow> (Inr p, s))"

definition write_rollback :: "string \<Rightarrow> rollback_permit \<Rightarrow> unit rollback_op" where
  "write_rollback path p = putS (\<lambda>s. s\<lparr>rs_permits := (rs_permits s)(path \<mapsto> p)\<rparr>)"

definition rollback_get :: "string \<Rightarrow> string \<Rightarrow> rollback_permit rollback_op" where
  "rollback_get controlPath rollbackPermitId =
     bindS (liftS (rollback_permitPath controlPath rollbackPermitId)) read_rollback"

definition rollback_update ::
  "string \<Rightarrow> rollback_permit \<Rightarrow> stored_state \<Rightarrow> int \<Rightarrow> rollback_permit rollback_op" where
  "rollback_update controlPath p st now =
     bindS (liftS (to_instant now)) (\<lambda>at.
     let next = p\<lparr>rp_state := st, rp_updatedAt := at\<rparr>
     in bindS (liftS (rollback_permitPath controlPath (rp_rollbackPermitId p))) (\<lambda>path.
        bindS (write_rollback path next) (\<lambda>_. returnS next)))"

definition new_rollback_permit ::
  "rollback_issue_input \<Rightarrow> string \<Rightarrow> string \<Rightarrow> instant \<Rightarrow> instant \<Rightarrow> rollback_permit" where
  "new_rollback_permit i permitId nonce expires at =
     \<lparr>rp_schemaVersion = 1, rp_rollbackPermitId = permitId, rp_runId = ri_runId i,
      rp_agentId = ri_agentId i, rp_targetVersionId = ri_targetVersionId i,
      rp_targetSnapshotHash = ri_targetSnapshotHash i,
      rp_expectedHeadVersionId = ri_expectedHeadVersionId i, rp_baseHash = ri_baseHash i,
      rp_nonce = nonce, rp_expiresAt = expires, rp_state = ISSUED, rp_issuedAt = at, rp_updatedAt = at\<rparr>"

definition rollback_issue ::
  "rollback_issue_input \<Rightarrow> int \<Rightarrow> string \<Rightarrow> string \<Rightarrow> rollback_permit rollback_op" where
  "rollback_issue i now uuid nonce =
     bindS (liftS (assertSafeIdentifier (ri_runId i) ''runId'')) (\<lambda>_.
     bindS (liftS (assertSafeIdentifier (ri_agentId i) ''agentId'')) (\<lambda>_.
     bindS (liftS (assertSafeIdentifier (ri_targetVersionId i) ''targetVersionId'')) (\<lambda>_.
     bindS (liftS (assertSafeIdentifier (ri_expectedHeadVersionId i) ''expectedHeadVersionId'')) (\<lambda>_.
     bindS (liftS (to_instant (now + ttl_or (ri_ttlMs i)))) (\<lambda>expires.
     bindS (liftS (to_instant now)) (\<lambda>at.
     let permitId = ''rk-'' @ uuid;
         p = new_rollback_permit i permitId nonce expires at
     in bindS (liftS (rollback_permitPath (ri_controlPath i) permitId)) (\<lambda>path.
        bindS (write_rollback path p) (\<lambda>_. returnS p))))))))"

definition rollback_mismatch :: "rollback_permit \<Rightarrow> rollback_claim_input \<Rightarrow> bool" where
  "rollback_mismatch p i \<longleftrightarrow>
     rp_schemaVersion p \<noteq> 1 \<or> rp_rollbackPermitId p \<noteq> rc_rollbackPermitId i \<or>
     rp_targetVersionId p \<noteq> rc_targetVersionId i \<or> rp_targetSnapshotHash p \<noteq> rc_targetSnapshotHash i \<or>
     rp_expectedHeadVersionId p \<noteq> rc_expectedHeadVersionId i \<or> rp_baseHash p \<noteq> rc_baseHash i"

definition open_rollback_claim :: "string \<Rightarrow> string \<Rightarrow> unit rollback_op" where
  "open_rollback_claim permitFile nonce =
     bindS (getS (\<lambda>s. rs_claims s (claim_path permitFile))) (\<lambda>existing.
     bindS (assertS (existing = None) (JsError ''ROLLBACK_PERMIT_REPLAY'')) (\<lambda>_.
       putS (\<lambda>s. s\<lparr>rs_claims := (rs_claims s)(claim_path permitFile \<mapsto> nonce)\<rparr>)))"

definition rollback_claim_open :: "rollback_claim_input \<Rightarrow> int \<Rightarrow> rollback_permit rollback_op" where
  "rollback_claim_open i now =
     bindS (liftS (assertContained (rc_controlPath i) (rc_snapshotPath i) ''rollback snapshot path'')) (\<lambda>_.
     bindS (liftS (rollback_permitPath (rc_controlPath i) (rc_rollbackPermitId i))) (\<lambda>path.
     bindS (read_rollback path) (\<lambda>p.
     bindS (assertS (\<not> rollback_mismatch p i) (JsError ''ROLLBACK_PERMIT_BINDING_MISMATCH'')) (\<lambda>_.
     bindS (assertS (rp_state p = ISSUED) (JsError ''ROLLBACK_PERMIT_REPLAY'')) (\<lambda>_.
     bindS (if expired_at (rp_expiresAt p) now
            then bindS (rollback_update (rc_controlPath i) p REVOKED now)
                   (\<lambda>_. throwS (JsError ''ROLLBACK_PERMIT_EXPIRED''))
            else returnS ()) (\<lambda>_.
     bindS (open_rollback_claim path (rp_nonce p)) (\<lambda>_. returnS p)))))))"

definition rollback_claim :: "rollback_claim_input \<Rightarrow> int \<Rightarrow> rollback_capability rollback_op" where
  "rollback_claim i now =
     bindS (rollback_claim_open i now) (\<lambda>p.
     bindS (rollback_update (rc_controlPath i) p CONSUMING now) (\<lambda>consuming.
     let c = \<lparr>rcap_permit = consuming, rcap_snapshotPath = rc_snapshotPath i,
              rcap_controlPath = rc_controlPath i, rcap_locallyConsumed = False\<rparr>
     in bindS (putS (\<lambda>s. s\<lparr>rs_capabilities := rs_capabilities s @ [c]\<rparr>)) (\<lambda>_. returnS c)))"

definition rollback_consumeClaim :: "string \<Rightarrow> string \<Rightarrow> string \<Rightarrow> int \<Rightarrow> rollback_permit rollback_op" where
  "rollback_consumeClaim controlPath rollbackPermitId nonce now =
     bindS (rollback_get controlPath rollbackPermitId) (\<lambda>p.
     bindS (assertS (rp_nonce p = nonce \<and> rp_state p = CONSUMING) (JsError ''ROLLBACK_PERMIT_REPLAY'')) (\<lambda>_.
       rollback_update controlPath p CONSUMED now))"

definition rollback_capability_consume :: "nat \<Rightarrow> int \<Rightarrow> rollback_permit rollback_op" where
  "rollback_capability_consume n now s =
     (if n < length (rs_capabilities s) then
        (let c = rs_capabilities s ! n
         in bindS (assertS (\<not> rcap_locallyConsumed c) (JsError ''ROLLBACK_PERMIT_REPLAY'')) (\<lambda>_.
            bindS (putS (\<lambda>s. s\<lparr>rs_capabilities := (rs_capabilities s)[n := c\<lparr>rcap_locallyConsumed := True\<rparr>]\<rparr>)) (\<lambda>_.
              rollback_consumeClaim (rcap_controlPath c) (rp_rollbackPermitId (rcap_permit c)) (rp_nonce (rcap_permit c)) now))) s
      else (Inl JsTypeError, s))"

definition rollback_markConsumed :: "string \<Rightarrow> string \<Rightarrow> int \<Rightarrow> rollback_permit rollback_op" where
  "rollback_markConsumed controlPath rollbackPermitId now =
     bindS (rollback_get controlPath rollbackPermitId) (\<lambda>p.
       if rp_state p = CONSUMED then returnS p
       else bindS (assertS (rp_state p = CONSUMING) (JsError ''ROLLBACK_PERMIT_STATE_INVALID'')) (\<lambda>_.
         rollback_update controlPath p CONSUMED now))"

definition rollback_revoke :: "string \<Rightarrow> string \<Rightarrow> int \<Rightarrow> rollback_permit rollback_op" where
  "rollback_revoke controlPath rollbackPermitId now =
     bindS (rollback_get controlPath rollbackPermitId) (\<lambda>p.
       if rp_state p = REVOKED \<or> rp_state p = CONSUMED then returnS p
       else rollback_update controlPath p REVOKED now)"

datatype rollback_step =
    RIssue rollback_issue_input int string string
  | RClaim rollback_claim_input int
  | RConsume nat int
  | RMarkConsumed string string int
  | RRevoke string string int
  | RClaimCrash rollback_claim_input int
  | RRestart

fun rollback_exec :: "rollback_store \<Rightarrow> rollback_step \<Rightarrow> rollback_store" where
  "rollback_exec s (RIssue i now u n) = snd (rollback_issue i now u n s)"
| "rollback_exec s (RClaim i now) = snd (rollback_claim i now s)"
| "rollback_exec s (RConsume n now) = snd (rollback_capability_consume n now s)"
| "rollback_exec s (RMarkConsumed c k now) = snd (rollback_markConsumed c k now s)"
| "rollback_exec s (RRevoke c k now) = snd (rollback_revoke c k now s)"
| "rollback_exec s (RClaimCrash i now) = (snd (rollback_claim_open i now s))\<lparr>rs_capabilities := []\<rparr>"
| "rollback_exec s RRestart = s\<lparr>rs_capabilities := []\<rparr>"

end
