(* ===== verification/Rollback_Facts.thy ===== *)
theory Rollback_Facts
  imports One_Shot Rollback_Store
begin

text \<open>
  The rollback permit store keeps the one-shot contract: each of its operations is one of the
  moves of \<open>permit_files\<close>, so the store interprets \<open>one_shot\<close>; and what a successful claim
  has checked.
\<close>

lemma rollback_permitPath_Inr: "rollback_permitPath cp i = Inr k \<longleftrightarrow>
    is_identifier i \<and> i \<noteq> ''.'' \<and> i \<noteq> ''..'' \<and> k = cp @ ''/rollback-permits/'' @ i @ ''.json''"
  by (auto simp: rollback_permitPath_def Let_def res_simps contained_iff)

lemma rollback_permitPath_unique:
  "rollback_permitPath cp i = Inr k \<Longrightarrow> rollback_permitPath cp' j = Inr k \<Longrightarrow> cp = cp' \<and> i = j"
  using file_path_unique [of cp "''/rollback-permits''" i cp' j] identifier_no_slash
  by (auto simp: rollback_permitPath_Inr)

interpretation rf: permit_files rs_permits rs_claims rp_rollbackPermitId rp_state rollback_permitPath
  by unfold_locales (rule rollback_permitPath_unique)

lemma rollback_update_eq:
  "rollback_update cp p st now s = (r, s') \<Longrightarrow>
     s' = s \<and> isl r \<or>
     (\<exists>k at. rollback_permitPath cp (rp_rollbackPermitId p) = Inr k \<and> r = Inr (p\<lparr>rp_state := st, rp_updatedAt := at\<rparr>) \<and>
        s' = s\<lparr>rs_permits := (rs_permits s)(k \<mapsto> p\<lparr>rp_state := st, rp_updatedAt := at\<rparr>)\<rparr>)"
  by (auto simp: rollback_update_def Let_def bindS_def liftS_def write_rollback_def putS_def returnS_def mapErr_def
      split: prod.splits sum.splits)

lemma bindS_read_rollback [run_simps]:
  "bindS (read_rollback k) f s =
     (case rs_permits s k of None \<Rightarrow> (Inl (JsError ''ENOENT''), s) | Some p \<Rightarrow> f p s)"
  by (simp add: bindS_def read_rollback_def split: option.splits)

lemma bindS_rollback_get [run_simps]:
  "bindS (rollback_get cp i) f s =
     (case rollback_permitPath cp i of Inl e \<Rightarrow> (Inl e, s)
      | Inr k \<Rightarrow> (case rs_permits s k of None \<Rightarrow> (Inl (JsError ''ENOENT''), s) | Some p \<Rightarrow> f p s))"
  by (simp add: rollback_get_def run_simps split: sum.splits)

lemma rollback_move_update:
  assumes "rollback_update cp p st now s = (r, s')" and "rollback_permitPath cp i = Inr k" and "rs_permits s k = Some p"
    and "st = REVOKED \<or> st = CONSUMED \<and> rp_state p = CONSUMING"
  shows "rf.move s s'"
proof (cases "s' = s")
  case False
  with rollback_update_eq [OF assms(1)] obtain k' at where "rollback_permitPath cp (rp_rollbackPermitId p) = Inr k'"
    "s' = s\<lparr>rs_permits := (rs_permits s)(k' \<mapsto> p\<lparr>rp_state := st, rp_updatedAt := at\<rparr>)\<rparr>" by auto
  with rf.move_write_back [OF assms(2,3)] assms(4) show ?thesis by simp
qed (simp add: rf.move_same)

lemma rollback_issue_eq:
  assumes "rollback_issue i now u n s = (r, s')" and "s' \<noteq> s"
  shows "\<exists>k expires at. rollback_permitPath (ri_controlPath i) (''rk-'' @ u) = Inr k \<and>
     s' = s\<lparr>rs_permits := (rs_permits s)(k \<mapsto> new_rollback_permit i (''rk-'' @ u) n expires at)\<rparr>"
  using assms(1) unfolding rollback_issue_def Let_def write_rollback_def run_simps
  by (elim exE conjE case_sum_run [OF _ assms(2), elim_format] if_run [OF _ assms(2), elim_format])
    (auto simp: returnS_eq)

lemma rollback_move_issue:
  assumes "rollback_issue i now u n s = (r, s')"
  shows "rf.move s s'"
proof (cases "s' = s")
  case False
  from rollback_issue_eq [OF assms False] obtain k expires at where
    "rollback_permitPath (ri_controlPath i) (rp_rollbackPermitId (new_rollback_permit i (''rk-'' @ u) n expires at)) = Inr k"
    "s' = s\<lparr>rs_permits := (rs_permits s)(k \<mapsto> new_rollback_permit i (''rk-'' @ u) n expires at)\<rparr>"
    by (auto simp: new_rollback_permit_def)
  then show ?thesis
    by (intro rf.move_write [of s' s k "new_rollback_permit i (''rk-'' @ u) n expires at" "ri_controlPath i"])
      (simp_all add: new_rollback_permit_def)
qed (simp add: rf.move_same)

text \<open>The checks of a claim, and what it has done when it changed anything.\<close>

definition rollback_claimable ::
  "rollback_store \<Rightarrow> rollback_claim_input \<Rightarrow> string \<Rightarrow> rollback_permit \<Rightarrow> bool" where
  "rollback_claimable s i k p \<longleftrightarrow>
     rollback_permitPath (rc_controlPath i) (rc_rollbackPermitId i) = Inr k \<and> rs_permits s k = Some p \<and>
     contained (rc_controlPath i) (rc_snapshotPath i) \<and>
     \<not> rollback_mismatch p i \<and> rp_state p = ISSUED"

lemma rollback_claim_open_cases:
  assumes "rollback_claim_open i now s = (r, s')" and "s' \<noteq> s"
  shows "\<exists>k p. rollback_claimable s i k p \<and>
    (expired_at (rp_expiresAt p) now \<and> isl r \<and> (\<exists>r'. rollback_update (rc_controlPath i) p REVOKED now s = (r', s')) \<or>
     \<not> expired_at (rp_expiresAt p) now \<and> \<not> rf.claimed s k \<and> r = Inr p \<and>
       s' = s\<lparr>rs_claims := (rs_claims s)(claim_path k \<mapsto> rp_nonce p)\<rparr>)"
proof -
  from assms(1) obtain k p where k: "rollback_permitPath (rc_controlPath i) (rc_rollbackPermitId i) = Inr k" "rs_permits s k = Some p"
    "assertContained (rc_controlPath i) (rc_snapshotPath i) ''rollback snapshot path'' = Inr ()"
    "\<not> rollback_mismatch p i" "rp_state p = ISSUED"
    and rest: "(if expired_at (rp_expiresAt p) now
       then bindS (rollback_update (rc_controlPath i) p REVOKED now)
              (\<lambda>_. bindS (throwS (JsError ''ROLLBACK_PERMIT_EXPIRED''))
                 (\<lambda>_. bindS (open_rollback_claim k (rp_nonce p)) (\<lambda>_. returnS p))) s
       else bindS (open_rollback_claim k (rp_nonce p)) (\<lambda>_. returnS p) s) = (r, s')"
    unfolding rollback_claim_open_def run_simps
    by (elim exE conjE case_sum_run [OF _ assms(2), elim_format] case_option_run [OF _ assms(2), elim_format]
        if_run [OF _ assms(2), elim_format]) (simp add: bindS_throwS)
  then have "rollback_claimable s i k p" by (auto simp: rollback_claimable_def assertContained_Inr)
  moreover have "isl r \<and> (\<exists>r'. rollback_update (rc_controlPath i) p REVOKED now s = (r', s'))"
    if "expired_at (rp_expiresAt p) now"
    using rest that
    by (auto simp: bindS_throwS bindS_def [of "rollback_update _ _ _ _"] split: prod.splits sum.splits)
  moreover have "\<not> rf.claimed s k \<and> r = Inr p \<and>
      s' = s\<lparr>rs_claims := (rs_claims s)(claim_path k \<mapsto> rp_nonce p)\<rparr>"
    if "\<not> expired_at (rp_expiresAt p) now"
    using rest that assms(2)
    by (auto simp: open_rollback_claim_def run_simps returnS_def rf.claimed_def split: if_splits)
  ultimately show ?thesis by blast
qed

lemma rollback_claim_open_move:
  assumes "rollback_claim_open i now s = (r, s')"
  shows "rf.move s s'"
proof (cases "s' = s")
  case False
  from rollback_claim_open_cases [OF assms False] obtain k p where c: "rollback_claimable s i k p"
    and d: "(\<exists>r'. rollback_update (rc_controlPath i) p REVOKED now s = (r', s')) \<or>
       s' = s\<lparr>rs_claims := (rs_claims s)(claim_path k \<mapsto> rp_nonce p)\<rparr>" by blast
  from c have k: "rollback_permitPath (rc_controlPath i) (rc_rollbackPermitId i) = Inr k" "rs_permits s k = Some p"
    by (simp_all add: rollback_claimable_def)
  from d show ?thesis using rollback_move_update [OF _ k] by (auto intro: rf.move_claim_file)
qed (simp add: rf.move_same)

lemma rollback_claim_open_changes:
  assumes "rollback_claim_open i now s = (Inr p, t)"
  shows "t \<noteq> s"
proof -
  from assms obtain k u where "rs_claims u (claim_path k) = None" "u = s"
    "t = u\<lparr>rs_claims := (rs_claims u)(claim_path k \<mapsto> rp_nonce p)\<rparr>"
    unfolding rollback_claim_open_def open_rollback_claim_def run_simps
    by (auto simp: returnS_eq bindS_Inr throwS_eq split: sum.splits option.splits if_splits)
  then have "rs_claims t (claim_path k) \<noteq> rs_claims s (claim_path k)" by simp
  then show ?thesis by blast
qed

text \<open>A whole claim: what it checked, and the two files it wrote.\<close>

lemma rollback_claim_Inr:
  assumes "rollback_claim i now s = (Inr c, s')"
  shows "\<exists>k p at. rollback_claimable s i k p \<and> \<not> expired_at (rp_expiresAt p) now \<and> \<not> rf.claimed s k \<and>
    rcap_permit c = p\<lparr>rp_state := CONSUMING, rp_updatedAt := at\<rparr> \<and> rcap_controlPath c = rc_controlPath i \<and>
    rcap_snapshotPath c = rc_snapshotPath i \<and> \<not> rcap_locallyConsumed c \<and>
    s' = s\<lparr>rs_claims := (rs_claims s)(claim_path k \<mapsto> rp_nonce p),
           rs_permits := (rs_permits s)(k \<mapsto> p\<lparr>rp_state := CONSUMING, rp_updatedAt := at\<rparr>),
           rs_capabilities := rs_capabilities s @ [c]\<rparr>"
proof -
  from assms obtain p t q u where o: "rollback_claim_open i now s = (Inr p, t)"
    and up: "rollback_update (rc_controlPath i) p CONSUMING now t = (Inr q, u)"
    and c: "c = \<lparr>rcap_permit = q, rcap_snapshotPath = rc_snapshotPath i,
       rcap_controlPath = rc_controlPath i, rcap_locallyConsumed = False\<rparr>"
    and s': "s' = u\<lparr>rs_capabilities := rs_capabilities u @ [c]\<rparr>"
    unfolding rollback_claim_def Let_def by (auto simp: eff_simps)
  have "t \<noteq> s" by (rule rollback_claim_open_changes [OF o])
  from rollback_claim_open_cases [OF o this] obtain k where k: "rollback_claimable s i k p"
    "\<not> expired_at (rp_expiresAt p) now" "\<not> rf.claimed s k"
    "t = s\<lparr>rs_claims := (rs_claims s)(claim_path k \<mapsto> rp_nonce p)\<rparr>" by auto
  from k(1) have id: "rp_rollbackPermitId p = rc_rollbackPermitId i" "rollback_permitPath (rc_controlPath i) (rc_rollbackPermitId i) = Inr k"
    by (auto simp: rollback_claimable_def rollback_mismatch_def)
  from rollback_update_eq [OF up] id obtain at where
    "q = p\<lparr>rp_state := CONSUMING, rp_updatedAt := at\<rparr>"
    "u = t\<lparr>rs_permits := (rs_permits t)(k \<mapsto> p\<lparr>rp_state := CONSUMING, rp_updatedAt := at\<rparr>)\<rparr>" by auto
  with k c s' show ?thesis by (intro exI [of _ k] exI [of _ p] exI [of _ at]) simp
qed

lemma rollback_claim_move:
  assumes "rollback_claim i now s = (r, s')"
  shows "rf.move s s'"
proof -
  obtain r1 t where o: "rollback_claim_open i now s = (r1, t)" by force
  note m = rollback_claim_open_move [OF o]
  show ?thesis
  proof (cases r)
    case (Inr c)
    from rollback_claim_Inr [OF assms [unfolded Inr]] obtain k p at where
      k: "rollback_claimable s i k p" "\<not> rf.claimed s k"
      and s': "s' = s\<lparr>rs_claims := (rs_claims s)(claim_path k \<mapsto> rp_nonce p),
           rs_permits := (rs_permits s)(k \<mapsto> p\<lparr>rp_state := CONSUMING, rp_updatedAt := at\<rparr>),
           rs_capabilities := rs_capabilities s @ [c]\<rparr>" by blast
    from k(1) have "rollback_permitPath (rc_controlPath i) (rp_rollbackPermitId p) = Inr k"
      by (auto simp: rollback_claimable_def rollback_mismatch_def)
    with k(2) show ?thesis unfolding s'
      by (intro rf.move_claim [of _ s k "p\<lparr>rp_state := CONSUMING, rp_updatedAt := at\<rparr>" "rp_nonce p" "rc_controlPath i"]) simp_all
  next
    case (Inl e)
    with assms o have "s' = t"
      by (auto simp: rollback_claim_def bindS_Inl Let_def eff_simps dest!: rollback_update_eq)
    with m show ?thesis by simp
  qed
qed

text \<open>Operations that read a permit, check it and write it back.\<close>

lemma rollback_get_case_move:
  assumes "(case rollback_permitPath cp i of Inl e \<Rightarrow> (Inl e, s)
     | Inr k \<Rightarrow> (case rs_permits s k of None \<Rightarrow> (Inl (JsError ''ENOENT''), s) | Some p \<Rightarrow> f p s)) = (r, s')"
    and "\<And>k p. rollback_permitPath cp i = Inr k \<Longrightarrow> rs_permits s k = Some p \<Longrightarrow> f p s = (r, s') \<Longrightarrow>
       s' = s \<or> (\<exists>st now r'. rollback_update cp p st now s = (r', s') \<and> (st = REVOKED \<or> st = CONSUMED \<and> rp_state p = CONSUMING))"
  shows "rf.move s s'"
proof (cases "s' = s")
  case False
  from case_sum_run [OF assms(1) False] obtain k where k: "rollback_permitPath cp i = Inr k"
    "(case rs_permits s k of None \<Rightarrow> (Inl (JsError ''ENOENT''), s) | Some p \<Rightarrow> f p s) = (r, s')" by blast
  from case_option_run [OF k(2) False] obtain p where p: "rs_permits s k = Some p" "f p s = (r, s')" by blast
  from assms(2) [OF k(1) p] False rollback_move_update k(1) p(1) show ?thesis by blast
qed (simp add: rf.move_same)

lemma rollback_get_if_move:
  assumes "(if b then rollback_update cp p st now s else (Inl e, s)) = (r, s')"
    and "b \<Longrightarrow> st = REVOKED \<or> st = CONSUMED \<and> rp_state p = CONSUMING"
  shows "s' = s \<or> (\<exists>st now r'. rollback_update cp p st now s = (r', s') \<and> (st = REVOKED \<or> st = CONSUMED \<and> rp_state p = CONSUMING))"
  using assms by (cases b) auto

lemma rollback_consumeClaim_move: "rollback_consumeClaim cp i n now s = (r, s') \<Longrightarrow> rf.move s s'"
  unfolding rollback_consumeClaim_def run_simps by (erule rollback_get_case_move, erule rollback_get_if_move) simp

lemma rollback_markConsumed_move: "rollback_markConsumed cp i now s = (r, s') \<Longrightarrow> rf.move s s'"
  unfolding rollback_markConsumed_def run_simps
proof (erule rollback_get_case_move, goal_cases)
  case (1 k p)
  then show ?case
    by (cases "rp_state p = CONSUMED"; cases "rp_state p = CONSUMING") (auto simp: returnS_eq bindS_assertS)
qed

lemma rollback_revoke_move: "rollback_revoke cp i now s = (r, s') \<Longrightarrow> rf.move s s'"
  unfolding rollback_revoke_def run_simps
proof (erule rollback_get_case_move, goal_cases)
  case (1 k p)
  then show ?case
    by (cases "rp_state p = REVOKED \<or> rp_state p = CONSUMED") (auto simp: returnS_eq)
qed

lemma rollback_consume_move: "rollback_capability_consume n now s = (r, s') \<Longrightarrow> rf.move s s'"
proof -
  let ?c = "rs_capabilities s ! n"
  let ?t = "s\<lparr>rs_capabilities := (rs_capabilities s)[n := ?c\<lparr>rcap_locallyConsumed := True\<rparr>]\<rparr>"
  assume "rollback_capability_consume n now s = (r, s')"
  then consider "s' = s"
    | "rollback_consumeClaim (rcap_controlPath ?c) (rp_rollbackPermitId (rcap_permit ?c)) (rp_nonce (rcap_permit ?c)) now ?t = (r, s')"
    unfolding rollback_capability_consume_def Let_def run_simps by (auto split: if_splits)
  then show ?thesis
  proof cases
    case 2
    from rf.move_from [OF rollback_consumeClaim_move [OF this]] show ?thesis by simp
  qed (simp add: rf.move_same)
qed

lemma rollback_exec_move: "rf.move s (rollback_exec s x)"
proof (cases x)
  case (RClaimCrash i now)
  obtain r t where "rollback_claim_open i now s = (r, t)" by force
  with RClaimCrash show ?thesis by (auto intro: rf.move_to [OF rollback_claim_open_move])
qed (simp_all add: rollback_move_issue [OF surjective_pairing] rollback_claim_move [OF surjective_pairing]
    rollback_consume_move [OF surjective_pairing] rollback_markConsumed_move [OF surjective_pairing]
    rollback_revoke_move [OF surjective_pairing] rf.move_same)

interpretation rollback: one_shot "rollback_exec" rf.inv rf.status rf.claimed
  by (rule rf.moves_one_shot) (rule rollback_exec_move)

end
