(* ===== verification/Permit_Props.thy ===== *)
theory Permit_Props
  imports Promotion_Facts Rollback_Facts
begin

text \<open>Properties of the permit stores, with a small history that instantiates them.\<close>

subsection \<open>Events\<close>

fun promotion_claims :: "(string \<Rightarrow> string) \<Rightarrow> key_order \<Rightarrow> string \<Rightarrow> promotion_store \<Rightarrow> promotion_step \<Rightarrow> bool" where
  "promotion_claims H le k s (PClaim i now) \<longleftrightarrow>
     permitPath (cl_controlPath i) (cl_permitId i) = Inr k \<and> \<not> isl (fst (permit_claim H le i now s))"
| "promotion_claims H le k s _ \<longleftrightarrow> False"

fun promotion_consumes :: "string \<Rightarrow> promotion_store \<Rightarrow> promotion_step \<Rightarrow> bool" where
  "promotion_consumes k s (PConsume n now) \<longleftrightarrow>
     n < length (ps_capabilities s) \<and> \<not> isl (fst (capability_consume n now s)) \<and>
     permitPath (cap_controlPath (ps_capabilities s ! n)) (pp_permitId (cap_permit (ps_capabilities s ! n))) = Inr k"
| "promotion_consumes k s _ \<longleftrightarrow> False"

fun rollback_claims :: "string \<Rightarrow> rollback_store \<Rightarrow> rollback_step \<Rightarrow> bool" where
  "rollback_claims k s (RClaim i now) \<longleftrightarrow>
     rollback_permitPath (rc_controlPath i) (rc_rollbackPermitId i) = Inr k \<and> \<not> isl (fst (rollback_claim i now s))"
| "rollback_claims k s _ \<longleftrightarrow> False"

fun rollback_consumes :: "string \<Rightarrow> rollback_store \<Rightarrow> rollback_step \<Rightarrow> bool" where
  "rollback_consumes k s (RConsume n now) \<longleftrightarrow>
     n < length (rs_capabilities s) \<and> \<not> isl (fst (rollback_capability_consume n now s)) \<and>
     rollback_permitPath (rcap_controlPath (rs_capabilities s ! n))
       (rp_rollbackPermitId (rcap_permit (rs_capabilities s ! n))) = Inr k"
| "rollback_consumes k s _ \<longleftrightarrow> False"

lemma promotion_claims_enters:
  assumes "promotion_claims H le k s x"
  shows "promotion.enters H le CONSUMING k s x"
proof -
  from assms obtain i now where x: "x = PClaim i now" "permitPath (cl_controlPath i) (cl_permitId i) = Inr k"
    "\<not> isl (fst (permit_claim H le i now s))" by (cases x) auto
  then obtain c s' where "permit_claim H le i now s = (Inr c, s')"
    by (cases "permit_claim H le i now s"; cases "fst (permit_claim H le i now s)") auto
  with permit_claim_Inr [OF this] x show ?thesis
    by (auto simp: promotion.enters_def pf.status_def claimable_def)
qed

lemma promotion_consumes_enters:
  assumes "promotion_consumes k s x" and "pf.inv s"
  shows "promotion.enters H le CONSUMED k s x"
proof -
  from assms(1) obtain n now where x: "x = PConsume n now" "n < length (ps_capabilities s)"
    "\<not> isl (fst (capability_consume n now s))"
    "permitPath (cap_controlPath (ps_capabilities s ! n)) (pp_permitId (cap_permit (ps_capabilities s ! n))) = Inr k"
    by (cases x) auto
  let ?c = "ps_capabilities s ! n"
  let ?t = "s\<lparr>ps_capabilities := (ps_capabilities s)[n := ?c\<lparr>cap_locallyConsumed := True\<rparr>]\<rparr>"
  from x(2,3) obtain q s' where q: "capability_consume n now s = (Inr q, s')"
    by (cases "capability_consume n now s"; cases "fst (capability_consume n now s)") auto
  with x(2) have "consumeClaim (cap_controlPath ?c) (pp_permitId (cap_permit ?c)) (pp_nonce (cap_permit ?c)) now ?t = (Inr q, s')"
    unfolding capability_consume_def Let_def run_simps by (auto split: if_splits)
  with x(4) obtain p where p: "ps_permits s k = Some p" "pp_state p = CONSUMING"
    "permit_update (cap_controlPath ?c) p CONSUMED now ?t = (Inr q, s')"
    unfolding consumeClaim_def run_simps by (auto split: option.splits if_splits)
  from assms(2) p(1) obtain c' where "permitPath c' (pp_permitId p) = Inr k" by (auto simp: pf.inv_def)
  with permitPath_unique [OF x(4) this] permit_update_eq [OF p(3)] have "ps_permits s' k = Some q" "pp_state q = CONSUMED"
    by auto
  with q x(1) p(1,2) show ?thesis by (simp add: promotion.enters_def pf.status_def)
qed

lemma rollback_claims_enters:
  assumes "rollback_claims k s x"
  shows "rollback.enters CONSUMING k s x"
proof -
  from assms obtain i now where x: "x = RClaim i now" "rollback_permitPath (rc_controlPath i) (rc_rollbackPermitId i) = Inr k"
    "\<not> isl (fst (rollback_claim i now s))" by (cases x) auto
  then obtain c s' where "rollback_claim i now s = (Inr c, s')"
    by (cases "rollback_claim i now s"; cases "fst (rollback_claim i now s)") auto
  with rollback_claim_Inr [OF this] x show ?thesis
    by (auto simp: rollback.enters_def rf.status_def rollback_claimable_def)
qed

lemma rollback_consumes_enters:
  assumes "rollback_consumes k s x" and "rf.inv s"
  shows "rollback.enters CONSUMED k s x"
proof -
  from assms(1) obtain n now where x: "x = RConsume n now" "n < length (rs_capabilities s)"
    "\<not> isl (fst (rollback_capability_consume n now s))"
    "rollback_permitPath (rcap_controlPath (rs_capabilities s ! n)) (rp_rollbackPermitId (rcap_permit (rs_capabilities s ! n))) = Inr k"
    by (cases x) auto
  let ?c = "rs_capabilities s ! n"
  let ?t = "s\<lparr>rs_capabilities := (rs_capabilities s)[n := ?c\<lparr>rcap_locallyConsumed := True\<rparr>]\<rparr>"
  from x(2,3) obtain q s' where q: "rollback_capability_consume n now s = (Inr q, s')"
    by (cases "rollback_capability_consume n now s"; cases "fst (rollback_capability_consume n now s)") auto
  with x(2) have "rollback_consumeClaim (rcap_controlPath ?c) (rp_rollbackPermitId (rcap_permit ?c)) (rp_nonce (rcap_permit ?c)) now ?t = (Inr q, s')"
    unfolding rollback_capability_consume_def Let_def run_simps by (auto split: if_splits)
  with x(4) obtain p where p: "rs_permits s k = Some p" "rp_state p = CONSUMING"
    "rollback_update (rcap_controlPath ?c) p CONSUMED now ?t = (Inr q, s')"
    unfolding rollback_consumeClaim_def run_simps by (auto split: option.splits if_splits)
  from assms(2) p(1) obtain c' where "rollback_permitPath c' (rp_rollbackPermitId p) = Inr k" by (auto simp: rf.inv_def)
  with rollback_permitPath_unique [OF x(4) this] rollback_update_eq [OF p(3)] have "rs_permits s' k = Some q" "rp_state q = CONSUMED"
    by auto
  with q x(1) p(1,2) show ?thesis by (simp add: rollback.enters_def rf.status_def)
qed

subsection \<open>A history\<close>

definition ex_le :: key_order where
  "ex_le a b \<longleftrightarrow> a \<le> b"

text \<open>A hash that tells nothing apart is enough for an example.\<close>

definition ex_H :: "string \<Rightarrow> string" where
  "ex_H s = ''h''"

definition ex_proposal_manifest :: snapshot_manifest where
  "ex_proposal_manifest = \<lparr>sm_schemaVersion = 2, sm_entries = [], sm_hash = ''manifest''\<rparr>"

definition ex_proposal :: sealed_proposal where
  "ex_proposal = \<lparr>sp_schemaVersion = 1, sp_proposalId = ''p1'', sp_runId = ''run'', sp_agentId = ''agent'',
     sp_baseViewId = viewId (ctx_baseView (ex_context ex_H)), sp_artifactHash = artifact_hash ex_H ex_le ex_proposal_manifest,
     sp_manifestHash = ''manifest'', sp_changedPathsDigest = ''d'', sp_runtimeTeardownDigest = ''t'',
     sp_state = SEALED, sp_sealedAt = ''now''\<rparr>"

definition ex_issue :: issue_input where
  "ex_issue = \<lparr>is_runId = ''run'', is_agentId = ''agent'', is_controlPath = ''/ctl'', is_proposal = ex_proposal,
     is_baseView = ctx_baseView (ex_context ex_H), is_evaluationContextHash = ''ctx'',
     is_evidence = createEvidenceBundle ex_H ex_le ex_evidence_input, is_ttlMs = None\<rparr>"

definition ex_claim :: claim_input where
  "ex_claim = \<lparr>cl_agentId = ''agent'', cl_controlPath = ''/ctl'', cl_permitId = ''k-u'', cl_proposal = ex_proposal,
     cl_proposalPath = ''/ctl/proposals/p1'', cl_proposalManifest = ex_proposal_manifest,
     cl_baseView = ctx_baseView (ex_context ex_H), cl_evaluationContextHash = ''ctx'',
     cl_evidenceDigest = eb_digest (createEvidenceBundle ex_H ex_le ex_evidence_input)\<rparr>"

definition ex_store :: promotion_store where
  "ex_store = \<lparr>ps_permits = Map.empty, ps_claims = Map.empty, ps_capabilities = []\<rparr>"

definition ex_issued :: promotion_store where
  "ex_issued = promotion_exec ex_H ex_le ex_store (PIssue ex_issue 0 ''u'' ''n'')"

text \<open>The issue and the claim, run step by step.\<close>

lemma ex_path: "permitPath ''/ctl'' ''k-u'' = Inr ''/ctl/permits/k-u.json''"
  by (simp add: permitPath_Inr is_identifier_def is_ident_char_def is_digit_def char_code_def)

lemma ex_view_asserted: "assertStateViewRef ex_H (ctx_baseView (ex_context ex_H)) = Inr ()"
  unfolding assertStateViewRef_eq
  by (simp add: ex_context_def hashes_ok_def is_safe_integer_def max_safe_integer_def)

definition ex_permit :: promotion_permit where
  "ex_permit = new_permit ex_issue ''k-u'' ''n'' (Some 60000) (Some 0)"

lemma ex_issued_eq: "ex_issued = ex_store\<lparr>ps_permits := [''/ctl/permits/k-u.json'' \<mapsto> ex_permit]\<rparr>"
proof -
  have ok: "assertSafeIdentifier ''run'' l = Inr ()" "assertSafeIdentifier ''agent'' l = Inr ()" for l
    by (simp_all add: assertSafeIdentifier_Inr is_identifier_def is_ident_char_def is_digit_def char_code_def)
  have ev: "assertEvidenceBundle ex_H ex_le (createEvidenceBundle ex_H ex_le ex_evidence_input) = Inr ()"
    by (simp add: assertEvidenceBundle_Inr)
  have mm: "\<not> issue_mismatch ex_issue"
    by (simp add: issue_mismatch_def ex_issue_def ex_proposal_def createEvidenceBundle_def evidence_input.defs
        ex_evidence_input_def)
  have f: "is_runId ex_issue = ''run''" "is_agentId ex_issue = ''agent''" "is_controlPath ex_issue = ''/ctl''"
    "is_baseView ex_issue = ctx_baseView (ex_context ex_H)" "is_ttlMs ex_issue = None"
    "is_evidence ex_issue = createEvidenceBundle ex_H ex_le ex_evidence_input"
    by (simp_all add: ex_issue_def)
  show ?thesis
    unfolding ex_issued_def promotion_exec.simps permit_issue_def Let_def run_simps f
    by (simp add: ok ev mm ex_view_asserted to_instant_def ttl_or_def write_permit_def run_simps ex_path returnS_def
        ex_permit_def ex_store_def new_permit_def f)
qed

lemma ex_claim_returns: "isl (fst (permit_claim ex_H ex_le ex_claim 5 ex_issued)) = False"
proof -
  have f: "cl_controlPath ex_claim = ''/ctl''" "cl_permitId ex_claim = ''k-u''"
    "cl_baseView ex_claim = ctx_baseView (ex_context ex_H)" "cl_proposalPath ex_claim = ''/ctl/proposals/p1''"
    by (simp_all add: ex_claim_def)
  have c: "assertContained ''/ctl'' ''/ctl/proposals/p1'' l = Inr ()" for l
    by (simp add: assertContained_Inr contained_iff)
  have p: "pp_state ex_permit = ISSUED" "pp_permitId ex_permit = ''k-u''" "\<not> expired_at (pp_expiresAt ex_permit) 5"
    by (simp_all add: ex_permit_def new_permit_def expired_at_def)
  have mm: "\<not> claim_mismatch ex_H ex_le ex_permit ex_claim"
    by (simp add: claim_mismatch_def ex_permit_def new_permit_def ex_issue_def ex_claim_def ex_proposal_def
        ex_proposal_manifest_def)
  show ?thesis
    unfolding permit_claim_def claim_open_def assertBindings_def open_claim_def Let_def run_simps ex_issued_eq f ex_path
    by (simp add: ex_view_asserted c p mm ex_store_def permit_update_def Let_def run_simps to_instant_def write_permit_def
        returnS_def ex_path f)
qed

subsection \<open>Properties\<close>

lemma empty_inv: "pf.inv s0" if "ps_permits s0 = Map.empty" for s0
  using that by (simp add: pf.inv_def)

lemma empty_rollback_inv: "rf.inv s0" if "rs_permits s0 = Map.empty" for s0
  using that by (simp add: rf.inv_def)

text \<open>C34: A permit is good for one effect. Over any history of a control directory that starts without
  permits (issues, even with a repeated id, claims, consumptions, revocations, restarts and crashes in
  the middle of a claim), every permit file is claimed successfully at most once and consumed through a
  capability at most once, for promotion and for rollback permits alike.\<close>

theorem permits_one_shot:
  assumes "ps_permits s0 = Map.empty" and "rs_permits r0 = Map.empty"
  shows "occurrences (promotion_exec H le) (promotion_claims H le k) s0 xs \<le> 1 \<and>
    occurrences (promotion_exec H le) (promotion_consumes k) s0 xs \<le> 1 \<and>
    occurrences rollback_exec (rollback_claims k) r0 ys \<le> 1 \<and>
    occurrences rollback_exec (rollback_consumes k) r0 ys \<le> 1"
proof -
  note p = empty_inv [OF assms(1)] and r = empty_rollback_inv [OF assms(2)]
  have "occurrences (promotion_exec H le) (promotion_claims H le k) s0 xs \<le> 1"
    by (rule order_trans [OF promotion.occurrences_le [OF promotion_claims_enters p] promotion.consuming_at_most_once [OF p]])
  moreover have "occurrences (promotion_exec H le) (promotion_consumes k) s0 xs \<le> 1"
    by (rule order_trans [OF promotion.occurrences_le [OF promotion_consumes_enters p] promotion.consumed_at_most_once [OF p]])
  moreover have "occurrences rollback_exec (rollback_claims k) r0 ys \<le> 1"
    by (rule order_trans [OF rollback.occurrences_le [OF rollback_claims_enters r] rollback.consuming_at_most_once [OF r]])
  moreover have "occurrences rollback_exec (rollback_consumes k) r0 ys \<le> 1"
    by (rule order_trans [OF rollback.occurrences_le [OF rollback_consumes_enters r] rollback.consumed_at_most_once [OF r]])
  ultimately show ?thesis by blast
qed

text \<open>C35: A promotion claim that returns has checked everything the permit binds: it was issued, unexpired and
  never claimed before, for this agent, proposal, base view, evaluation context and evidence, the
  proposal is sealed on that view, its path lies inside the control directory, and its manifest is a
  schema 2 manifest whose artifact digest is the one the permit names. It leaves the claim file and
  the permit in state CONSUMING.\<close>

theorem claim_checks_bindings:
  assumes "permit_claim H le i now s = (Inr c, s')"
  shows "\<exists>k p. permitPath (cl_controlPath i) (cl_permitId i) = Inr k \<and> ps_permits s k = Some p \<and>
    pp_state p = ISSUED \<and> \<not> expired_at (pp_expiresAt p) now \<and> ps_claims s (claim_path k) = None \<and>
    pp_permitId p = cl_permitId i \<and> pp_agentId p = cl_agentId i \<and>
    pp_proposalId p = sp_proposalId (cl_proposal i) \<and> pp_baseViewId p = viewId (cl_baseView i) \<and>
    pp_evaluationContextHash p = cl_evaluationContextHash i \<and> pp_evidenceDigest p = cl_evidenceDigest i \<and>
    sp_state (cl_proposal i) = SEALED \<and> sp_baseViewId (cl_proposal i) = viewId (cl_baseView i) \<and>
    view_ok H (cl_baseView i) \<and> contained (cl_controlPath i) (cl_proposalPath i) \<and>
    sm_schemaVersion (cl_proposalManifest i) = 2 \<and> sm_hash (cl_proposalManifest i) = sp_manifestHash (cl_proposal i) \<and>
    pp_targetArtifactHash p = artifact_hash H le (cl_proposalManifest i) \<and>
    ps_claims s' (claim_path k) = Some (pp_nonce p) \<and>
    ps_permits s' k = Some (cap_permit c) \<and> pp_state (cap_permit c) = CONSUMING \<and> pp_nonce (cap_permit c) = pp_nonce p"
proof -
  from permit_claim_Inr [OF assms] obtain k p at where k: "claimable H le s i k p"
    "\<not> expired_at (pp_expiresAt p) now" "\<not> pf.claimed s k"
    "cap_permit c = p\<lparr>pp_state := CONSUMING, pp_updatedAt := at\<rparr>"
    "s' = s\<lparr>ps_claims := (ps_claims s)(claim_path k \<mapsto> pp_nonce p),
           ps_permits := (ps_permits s)(k \<mapsto> p\<lparr>pp_state := CONSUMING, pp_updatedAt := at\<rparr>),
           ps_capabilities := ps_capabilities s @ [c]\<rparr>" by blast
  from k(1) show ?thesis
    unfolding claimable_def claim_mismatch_def using k(2-5)
    by (intro exI [of _ k] exI [of _ p]) (simp add: pf.claimed_def)
qed

theorem claim_checks_bindings_witness:
  "\<exists>k p. ps_permits ex_issued k = Some p \<and> pp_state p = ISSUED \<and> pp_proposalId p = ''p1''"
proof -
  from ex_claim_returns obtain c s' where "permit_claim ex_H ex_le ex_claim 5 ex_issued = (Inr c, s')"
    by (cases "permit_claim ex_H ex_le ex_claim 5 ex_issued"; cases "fst (permit_claim ex_H ex_le ex_claim 5 ex_issued)") auto
  from claim_checks_bindings [OF this] have
    "\<exists>k p. ps_permits ex_issued k = Some p \<and> pp_state p = ISSUED \<and> pp_proposalId p = sp_proposalId (cl_proposal ex_claim)"
    by (elim exE conjE) (rule exI, rule exI, rule conjI, assumption, rule conjI, assumption, assumption)
  moreover have "sp_proposalId (cl_proposal ex_claim) = ''p1''" by (simp add: ex_claim_def ex_proposal_def)
  ultimately show ?thesis by (simp only: simp_thms)
qed

definition ex_rollback_store :: rollback_store where
  "ex_rollback_store = \<lparr>rs_permits = Map.empty, rs_claims = Map.empty, rs_capabilities = []\<rparr>"

theorem permits_one_shot_witness:
  "occurrences (promotion_exec ex_H ex_le) (promotion_claims ex_H ex_le ''/ctl/permits/k-u.json'') ex_store
     [PIssue ex_issue 0 ''u'' ''n'', PClaim ex_claim 5, PClaim ex_claim 7] = 1"
proof -
  have "permitPath (cl_controlPath ex_claim) (cl_permitId ex_claim) = Inr ''/ctl/permits/k-u.json''"
    by (simp add: ex_claim_def ex_path)
  then have "promotion_claims ex_H ex_le ''/ctl/permits/k-u.json'' ex_issued (PClaim ex_claim 5)"
    using ex_claim_returns by simp
  then have "1 \<le> occurrences (promotion_exec ex_H ex_le) (promotion_claims ex_H ex_le ''/ctl/permits/k-u.json'') ex_store
     [PIssue ex_issue 0 ''u'' ''n'', PClaim ex_claim 5, PClaim ex_claim 7]"
    unfolding occurrences.simps ex_issued_def [symmetric] by simp
  moreover have "ps_permits ex_store = Map.empty" "rs_permits ex_rollback_store = Map.empty"
    by (simp_all add: ex_store_def ex_rollback_store_def)
  ultimately show ?thesis using permits_one_shot [of ex_store ex_rollback_store ex_H ex_le _ _ "[]"] le_antisym by blast
qed

end
