(* ===== verification/Outbox.thy ===== *)
theory Outbox
  imports Effects Protocol
begin

text \<open>
  The effect outbox (\<^verbatim>\<open>research/effect-outbox.ts\<close>): external effects are prepared, authorised
  by a commit, dispatched to a registered adapter at least once and settled. The file is what is
  durable; the set of dispatches in flight lives in the process and is lost in a crash.

  Every mutation reads the file, works on the parsed list and writes it back, one after the other
  (the promise tail), so a mutation is one step. A dispatch is four: it enters the set, marks the
  intent \<^verbatim>\<open>DISPATCHED\<close>, calls the adapter and settles; other operations, and a crash, may come
  between any two of them. What the adapter and the hook do is the argument of the last step; the
  calls adapters receive are logged. Clock and UUIDs are arguments; a write may fail
  (\<open>ob_writable\<close>).
\<close>

subsection \<open>Data\<close>

datatype effect_state = PREPARED | AUTHORIZED | DISPATCHED | SUCCEEDED | FAILED | COMPENSATED | CANCELLED

datatype reversibility = Reversible | Irreversible

datatype approval = PolicyApproval | HumanApproval

record effect_intent =
  ef_schemaVersion :: int
  ef_effectId :: string
  ef_viewId :: string
  ef_proposalId :: string
  ef_adapter :: string
  ef_action :: string
  ef_canonicalArgsDigest :: string
  ef_idempotencyKey :: string
  ef_reversibility :: reversibility
  ef_approvalRequirement :: approval
  ef_state :: effect_state
  ef_createdAt :: string
  ef_updatedAt :: string
  ef_resultDigest :: "string option"
  ef_errorClass :: "string option"

record effect_adapter =
  ad_id :: string
  ad_actions :: "string list"
  ad_compensates :: bool

record effect_input =
  ei_viewId :: string
  ei_proposalId :: string
  ei_adapter :: string
  ei_action :: string
  ei_args :: "json option"
  ei_idempotencyKey :: string
  ei_reversibility :: reversibility
  ei_approvalRequirement :: approval

text \<open>What an adapter receives, with the id of the intent it was made for.\<close>

datatype call_payload = DispatchArgs "json option" | CompensateResult string

record adapter_call =
  call_effectId :: string
  call_adapter :: string
  call_action :: string
  call_payload :: call_payload
  call_idempotencyKey :: string

text \<open>How far a dispatch in flight is, with its local variables.\<close>

datatype dispatch_phase =
    Entered "json option"
  | Marked effect_intent "json option"
  | Called effect_intent "json option"

datatype outbox_file = NoOutboxFile | UnparsableOutbox | InvalidOutbox | OutboxFile "effect_intent list"

record outbox =
  ob_file :: outbox_file
  ob_writable :: bool
  ob_inFlight :: "string \<rightharpoonup> dispatch_phase"
  ob_calls :: "adapter_call list"

type_synonym 'a outbox_op = "(outbox, js_error, 'a) eff"

abbreviation refuse :: "string \<Rightarrow> ('s, js_error, 'a) eff" where
  "refuse msg \<equiv> throwS (JsError msg)"

subsection \<open>Reading, writing, digests\<close>

definition outbox_sha256 :: "(string \<Rightarrow> string) \<Rightarrow> key_order \<Rightarrow> json option \<Rightarrow> string" where
  "outbox_sha256 H le v = H (case v of None \<Rightarrow> ''undefined'' | Some j \<Rightarrow> stringify (canonical le j))"

fun register_adapters :: "effect_adapter list \<Rightarrow> effect_adapter list \<Rightarrow> effect_adapter list res" where
  "register_adapters known [] = Inr known"
| "register_adapters known (a # as) =
     (if ad_id a \<in> set (map ad_id known) then Inl (JsError (''Duplicate effect adapter '' @ ad_id a))
      else register_adapters (known @ [a]) as)"

definition requireAdapter :: "effect_adapter list \<Rightarrow> string \<Rightarrow> string \<Rightarrow> effect_adapter res" where
  "requireAdapter ads adapterId act =
     (case List.find (\<lambda>a. ad_id a = adapterId) ads of
        None \<Rightarrow> Inl (JsError ''UNREGISTERED_EFFECT_ADAPTER'')
      | Some a \<Rightarrow> if act \<in> set (ad_actions a) then Inr a else Inl (JsError ''UNREGISTERED_EFFECT_ADAPTER''))"

definition find_effect :: "string \<Rightarrow> effect_intent list \<Rightarrow> effect_intent option" where
  "find_effect effectId = List.find (\<lambda>e. ef_effectId e = effectId)"

definition requireEffect :: "effect_intent list \<Rightarrow> string \<Rightarrow> effect_intent res" where
  "requireEffect es effectId =
     (case find_effect effectId es of None \<Rightarrow> Inl (JsError ''EFFECT_NOT_FOUND'') | Some e \<Rightarrow> Inr e)"

fun outbox_read :: "outbox_file \<Rightarrow> effect_intent list res" where
  "outbox_read NoOutboxFile = Inr []"
| "outbox_read UnparsableOutbox = Inl (JsError ''SyntaxError'')"
| "outbox_read InvalidOutbox = Inl (JsError ''OUTBOX_INVALID'')"
| "outbox_read (OutboxFile es) = Inr es"

definition outbox_write :: "effect_intent list \<Rightarrow> unit outbox_op" where
  "outbox_write es s =
     (if ob_writable s then (Inr (), s\<lparr>ob_file := OutboxFile es\<rparr>) else (Inl (JsError ''EIO''), s))"

definition mutate :: "(effect_intent list \<Rightarrow> ('a \<times> effect_intent list) outbox_op) \<Rightarrow> 'a outbox_op" where
  "mutate op =
     bindS (getS ob_file) (\<lambda>f.
     bindS (liftS (outbox_read f)) (\<lambda>es.
     bindS (op es) (\<lambda>(x, es').
     bindS (outbox_write es') (\<lambda>_. returnS x))))"

text \<open>The object found is changed in place: the first with the id.\<close>

fun update_effect :: "string \<Rightarrow> (effect_intent \<Rightarrow> effect_intent) \<Rightarrow> effect_intent list \<Rightarrow> effect_intent list" where
  "update_effect effectId f [] = []"
| "update_effect effectId f (e # es) =
     (if ef_effectId e = effectId then f e # es else e # update_effect effectId f es)"

definition transition_effect :: "string \<Rightarrow> effect_intent list \<Rightarrow> (effect_intent \<Rightarrow> effect_intent) \<Rightarrow>
    (effect_intent \<times> effect_intent list) outbox_op" where
  "transition_effect effectId es f =
     (let es' = update_effect effectId f es
      in bindS (liftS (requireEffect es' effectId)) (\<lambda>e. returnS (e, es')))"

subsection \<open>Operations\<close>

definition new_intent :: "effect_input \<Rightarrow> string \<Rightarrow> string \<Rightarrow> string \<Rightarrow> effect_intent" where
  "new_intent i digest uuid now =
     \<lparr>ef_schemaVersion = 1, ef_effectId = uuid, ef_viewId = ei_viewId i, ef_proposalId = ei_proposalId i,
      ef_adapter = ei_adapter i, ef_action = ei_action i, ef_canonicalArgsDigest = digest,
      ef_idempotencyKey = ei_idempotencyKey i, ef_reversibility = ei_reversibility i,
      ef_approvalRequirement = ei_approvalRequirement i, ef_state = PREPARED, ef_createdAt = now,
      ef_updatedAt = now, ef_resultDigest = None, ef_errorClass = None\<rparr>"

definition prepare_effect :: "(string \<Rightarrow> string) \<Rightarrow> key_order \<Rightarrow> effect_adapter list \<Rightarrow> effect_input \<Rightarrow>
    string \<Rightarrow> string \<Rightarrow> effect_intent outbox_op" where
  "prepare_effect H le ads i uuid now = mutate (\<lambda>es.
     bindS (liftS (requireAdapter ads (ei_adapter i) (ei_action i))) (\<lambda>_.
     let digest = outbox_sha256 H le (ei_args i)
     in case List.find (\<lambda>e. ef_idempotencyKey e = ei_idempotencyKey i) es of
          Some prior \<Rightarrow>
            if ef_adapter prior \<noteq> ei_adapter i \<or> ef_action prior \<noteq> ei_action i \<or>
               ef_canonicalArgsDigest prior \<noteq> digest
            then refuse ''IDEMPOTENCY_KEY_REUSE'' else returnS (prior, es)
        | None \<Rightarrow> let e = new_intent i digest uuid now in returnS (e, es @ [e])))"

definition authorize_effect :: "string \<Rightarrow> string \<Rightarrow> string \<Rightarrow> approval \<Rightarrow> string \<Rightarrow> effect_intent outbox_op" where
  "authorize_effect effectId committedViewId proposalId appr now = mutate (\<lambda>es.
     bindS (liftS (requireEffect es effectId)) (\<lambda>e.
     if ef_state e \<noteq> PREPARED then refuse ''EFFECT_NOT_PREPARED''
     else if ef_viewId e \<noteq> committedViewId \<or> ef_proposalId e \<noteq> proposalId
     then refuse ''EFFECT_COMMIT_BINDING_MISMATCH''
     else if ef_approvalRequirement e \<noteq> appr then refuse ''EFFECT_APPROVAL_MISMATCH''
     else transition_effect effectId es (\<lambda>e. e\<lparr>ef_state := AUTHORIZED, ef_updatedAt := now\<rparr>)))"

text \<open>\<^verbatim>\<open>dispatch\<close>, step by step. \<open>leave_flight\<close> is its \<^verbatim>\<open>finally\<close>.\<close>

definition leave_flight :: "string \<Rightarrow> 'a outbox_op \<Rightarrow> 'a outbox_op" where
  "leave_flight effectId m s =
     (case m s of (r, s') \<Rightarrow> (r, s'\<lparr>ob_inFlight := (ob_inFlight s')(effectId := None)\<rparr>))"

definition set_phase :: "string \<Rightarrow> dispatch_phase \<Rightarrow> unit outbox_op" where
  "set_phase effectId ph = putS (\<lambda>s. s\<lparr>ob_inFlight := (ob_inFlight s)(effectId \<mapsto> ph)\<rparr>)"

definition dispatch_enter :: "string \<Rightarrow> json option \<Rightarrow> unit outbox_op" where
  "dispatch_enter effectId args =
     bindS (getS ob_inFlight) (\<lambda>running.
     if running effectId \<noteq> None then refuse ''EFFECT_DISPATCH_IN_FLIGHT''
     else set_phase effectId (Entered args))"

definition mark_dispatched :: "(string \<Rightarrow> string) \<Rightarrow> key_order \<Rightarrow> effect_adapter list \<Rightarrow> string \<Rightarrow> json option \<Rightarrow>
    string \<Rightarrow> effect_intent outbox_op" where
  "mark_dispatched H le ads effectId args now = mutate (\<lambda>es.
     bindS (liftS (requireEffect es effectId)) (\<lambda>e.
     if ef_state e \<noteq> AUTHORIZED \<and> ef_state e \<noteq> DISPATCHED then refuse ''EFFECT_NOT_AUTHORIZED''
     else if ef_canonicalArgsDigest e \<noteq> outbox_sha256 H le args then refuse ''EFFECT_ARGS_DIGEST_MISMATCH''
     else bindS (liftS (requireAdapter ads (ef_adapter e) (ef_action e))) (\<lambda>_.
       if ef_state e = AUTHORIZED
       then transition_effect effectId es (\<lambda>e. e\<lparr>ef_state := DISPATCHED, ef_updatedAt := now\<rparr>)
       else returnS (e, es))))"

definition dispatch_mark :: "(string \<Rightarrow> string) \<Rightarrow> key_order \<Rightarrow> effect_adapter list \<Rightarrow> string \<Rightarrow> json option \<Rightarrow>
    string \<Rightarrow> effect_intent outbox_op" where
  "dispatch_mark H le ads effectId args now s =
     (case bindS (mark_dispatched H le ads effectId args now) (\<lambda>e.
             bindS (liftS (requireAdapter ads (ef_adapter e) (ef_action e))) (\<lambda>_.
             bindS (set_phase effectId (Marked e args)) (\<lambda>_. returnS e))) s of
        (Inl err, s') \<Rightarrow> leave_flight effectId (throwS err) s'
      | (Inr e, s') \<Rightarrow> (Inr e, s'))"

definition log_call :: "adapter_call \<Rightarrow> unit outbox_op" where
  "log_call c = putS (\<lambda>s. s\<lparr>ob_calls := ob_calls s @ [c]\<rparr>)"

definition dispatch_call :: "string \<Rightarrow> effect_intent \<Rightarrow> json option \<Rightarrow> unit outbox_op" where
  "dispatch_call effectId e args =
     bindS (log_call \<lparr>call_effectId = effectId, call_adapter = ef_adapter e, call_action = ef_action e,
                      call_payload = DispatchArgs args, call_idempotencyKey = ef_idempotencyKey e\<rparr>) (\<lambda>_.
     set_phase effectId (Called e args))"

datatype adapter_outcome = AdapterThrew string | HookThrew js_error | AdapterReturned "json option"

definition settle_effect :: "string \<Rightarrow> (effect_intent \<Rightarrow> effect_intent) \<Rightarrow> effect_intent outbox_op" where
  "settle_effect effectId f = mutate (\<lambda>es.
     bindS (liftS (requireEffect es effectId)) (\<lambda>e.
     if ef_state e \<noteq> DISPATCHED then refuse ''EFFECT_DISPATCH_STATE_CHANGED''
     else transition_effect effectId es f))"

fun dispatch_outcome :: "(string \<Rightarrow> string) \<Rightarrow> key_order \<Rightarrow> string \<Rightarrow> adapter_outcome \<Rightarrow> string \<Rightarrow> effect_intent outbox_op" where
  "dispatch_outcome H le effectId (AdapterThrew name) now =
     settle_effect effectId (\<lambda>e. e\<lparr>ef_state := FAILED, ef_errorClass := Some name, ef_updatedAt := now\<rparr>)"
| "dispatch_outcome H le effectId (HookThrew err) now = throwS err"
| "dispatch_outcome H le effectId (AdapterReturned result) now =
     settle_effect effectId (\<lambda>e. e\<lparr>ef_state := SUCCEEDED, ef_resultDigest := Some (outbox_sha256 H le result),
                                    ef_errorClass := None, ef_updatedAt := now\<rparr>)"

definition dispatch_settle :: "(string \<Rightarrow> string) \<Rightarrow> key_order \<Rightarrow> string \<Rightarrow> adapter_outcome \<Rightarrow> string \<Rightarrow>
    effect_intent outbox_op" where
  "dispatch_settle H le effectId outcome now = leave_flight effectId (dispatch_outcome H le effectId outcome now)"

text \<open>The whole operation when nothing comes between.\<close>

definition dispatch_effect :: "(string \<Rightarrow> string) \<Rightarrow> key_order \<Rightarrow> effect_adapter list \<Rightarrow> string \<Rightarrow> json option \<Rightarrow>
    adapter_outcome \<Rightarrow> string \<Rightarrow> effect_intent outbox_op" where
  "dispatch_effect H le ads effectId args outcome now =
     bindS (dispatch_enter effectId args) (\<lambda>_.
     bindS (dispatch_mark H le ads effectId args now) (\<lambda>e.
     bindS (dispatch_call effectId e args) (\<lambda>_.
     dispatch_settle H le effectId outcome now)))"

definition cancelled :: "string \<Rightarrow> string \<Rightarrow> effect_intent \<Rightarrow> effect_intent" where
  "cancelled proposalId now e =
     (if ef_proposalId e = proposalId \<and> ef_state e = PREPARED
      then e\<lparr>ef_state := CANCELLED, ef_updatedAt := now\<rparr> else e)"

definition cancelForProposal :: "string \<Rightarrow> string \<Rightarrow> nat outbox_op" where
  "cancelForProposal proposalId now = mutate (\<lambda>es.
     returnS (length (filter (\<lambda>e. ef_proposalId e = proposalId \<and> ef_state e = PREPARED) es),
              map (cancelled proposalId now) es))"

text \<open>The adapter is called inside the mutation; \<open>threw\<close> is what it throws, if it does.\<close>

definition compensate_effect :: "effect_adapter list \<Rightarrow> string \<Rightarrow> js_error option \<Rightarrow> string \<Rightarrow> effect_intent outbox_op" where
  "compensate_effect ads effectId threw now = mutate (\<lambda>es.
     bindS (liftS (requireEffect es effectId)) (\<lambda>e.
     if ef_state e \<noteq> SUCCEEDED \<or> ef_reversibility e \<noteq> Reversible then refuse ''EFFECT_NOT_COMPENSATABLE''
     else bindS (liftS (requireAdapter ads (ef_adapter e) (ef_action e))) (\<lambda>a.
       case ef_resultDigest e of
         Some digest \<Rightarrow>
           if \<not> ad_compensates a \<or> digest = '''' then refuse ''EFFECT_ADAPTER_NO_COMPENSATION''
           else bindS (log_call \<lparr>call_effectId = effectId, call_adapter = ef_adapter e, call_action = ef_action e,
                                 call_payload = CompensateResult digest,
                                 call_idempotencyKey = ef_idempotencyKey e\<rparr>) (\<lambda>_.
             case threw of
               Some err \<Rightarrow> throwS err
             | None \<Rightarrow> transition_effect effectId es (\<lambda>e. e\<lparr>ef_state := COMPENSATED, ef_updatedAt := now\<rparr>))
       | None \<Rightarrow> refuse ''EFFECT_ADAPTER_NO_COMPENSATION'')))"

definition list_effects :: "effect_intent list outbox_op" where
  "list_effects = bindS (getS ob_file) (\<lambda>f. liftS (outbox_read f))"

subsection \<open>Histories\<close>

datatype outbox_label =
    Prepare effect_input string string
  | Authorize string string string approval string
  | Enter string "json option"
  | Mark string string
  | Call string
  | Settle string adapter_outcome string
  | Cancel string string
  | Compensate string "js_error option" string
  | Disk bool
  | Crash

fun outbox_step :: "(string \<Rightarrow> string) \<Rightarrow> key_order \<Rightarrow> effect_adapter list \<Rightarrow> outbox \<Rightarrow> outbox_label \<Rightarrow> outbox" where
  "outbox_step H le ads s (Prepare i uuid now) = snd (prepare_effect H le ads i uuid now s)"
| "outbox_step H le ads s (Authorize i v p a now) = snd (authorize_effect i v p a now s)"
| "outbox_step H le ads s (Enter i args) = snd (dispatch_enter i args s)"
| "outbox_step H le ads s (Mark i now) =
     (case ob_inFlight s i of Some (Entered args) \<Rightarrow> snd (dispatch_mark H le ads i args now s) | _ \<Rightarrow> s)"
| "outbox_step H le ads s (Call i) =
     (case ob_inFlight s i of Some (Marked e args) \<Rightarrow> snd (dispatch_call i e args s) | _ \<Rightarrow> s)"
| "outbox_step H le ads s (Settle i outcome now) =
     (case ob_inFlight s i of Some (Called e args) \<Rightarrow> snd (dispatch_settle H le i outcome now s) | _ \<Rightarrow> s)"
| "outbox_step H le ads s (Cancel p now) = snd (cancelForProposal p now s)"
| "outbox_step H le ads s (Compensate i threw now) = snd (compensate_effect ads i threw now s)"
| "outbox_step H le ads s (Disk b) = s\<lparr>ob_writable := b\<rparr>"
| "outbox_step H le ads s Crash = s\<lparr>ob_inFlight := Map.empty\<rparr>"

definition outbox_run :: "(string \<Rightarrow> string) \<Rightarrow> key_order \<Rightarrow> effect_adapter list \<Rightarrow> outbox \<Rightarrow> outbox_label list \<Rightarrow> outbox" where
  "outbox_run H le ads = foldl (outbox_step H le ads)"

definition opened :: "outbox_file \<Rightarrow> outbox" where
  "opened f = \<lparr>ob_file = f, ob_writable = True, ob_inFlight = Map.empty, ob_calls = []\<rparr>"

end
