(* ===== verification/Outbox_Facts.thy ===== *)
theory Outbox_Facts
  imports Outbox
begin

text \<open>
  The life of one intent as a labelled transition relation (\<open>lifecycle\<close>), and what each step of
  the outbox does to the stored intents: nothing, or one transition of that relation. From it
  follow the invariant that ties calls and dispatches in flight to stored intents, and the count
  of calls.
\<close>

subsection \<open>The contract\<close>

inductive lifecycle :: "(string \<Rightarrow> string) \<Rightarrow> key_order \<Rightarrow> outbox_label \<Rightarrow> string \<Rightarrow>
    effect_intent \<Rightarrow> effect_intent \<Rightarrow> bool" for H le where
  authorised: "ef_state x = PREPARED \<Longrightarrow> ef_viewId x = v \<Longrightarrow> ef_proposalId x = p \<Longrightarrow>
     ef_approvalRequirement x = a \<Longrightarrow>
     lifecycle H le (Authorize i v p a now) i x (x\<lparr>ef_state := AUTHORIZED, ef_updatedAt := now\<rparr>)"
| dispatched: "ef_state x = AUTHORIZED \<Longrightarrow>
     lifecycle H le (Mark i now) i x (x\<lparr>ef_state := DISPATCHED, ef_updatedAt := now\<rparr>)"
| failed: "ef_state x = DISPATCHED \<Longrightarrow>
     lifecycle H le (Settle i (AdapterThrew name) now) i x
       (x\<lparr>ef_state := FAILED, ef_errorClass := Some name, ef_updatedAt := now\<rparr>)"
| succeeded: "ef_state x = DISPATCHED \<Longrightarrow>
     lifecycle H le (Settle i (AdapterReturned v) now) i x
       (x\<lparr>ef_state := SUCCEEDED, ef_resultDigest := Some (outbox_sha256 H le v), ef_errorClass := None,
          ef_updatedAt := now\<rparr>)"
| cancelled: "ef_state x = PREPARED \<Longrightarrow> ef_proposalId x = p \<Longrightarrow>
     lifecycle H le (Cancel p now) i x (x\<lparr>ef_state := CANCELLED, ef_updatedAt := now\<rparr>)"
| compensated: "ef_state x = SUCCEEDED \<Longrightarrow> ef_reversibility x = Reversible \<Longrightarrow>
     lifecycle H le (Compensate i None now) i x (x\<lparr>ef_state := COMPENSATED, ef_updatedAt := now\<rparr>)"

inductive_cases lifecycleE: "lifecycle H le l i x y"

definition created :: "outbox_label \<Rightarrow> string \<Rightarrow> effect_intent \<Rightarrow> bool" where
  "created l i y \<longleftrightarrow> (\<exists>inp now d. l = Prepare inp i now \<and> y = new_intent inp d i now)"

text \<open>What no transition changes.\<close>

definition intent_of :: "effect_intent \<Rightarrow> effect_intent" where
  "intent_of e = e\<lparr>ef_state := PREPARED, ef_updatedAt := '''', ef_resultDigest := None, ef_errorClass := None\<rparr>"

lemma lifecycle_intent: "lifecycle H le l i x y \<Longrightarrow> intent_of y = intent_of x"
  by (erule lifecycleE) (simp_all add: intent_of_def)

lemma intent_of_fields:
  assumes "intent_of x = intent_of y"
  shows "ef_effectId x = ef_effectId y" "ef_viewId x = ef_viewId y" "ef_proposalId x = ef_proposalId y"
    "ef_adapter x = ef_adapter y" "ef_action x = ef_action y"
    "ef_canonicalArgsDigest x = ef_canonicalArgsDigest y" "ef_idempotencyKey x = ef_idempotencyKey y"
    "ef_approvalRequirement x = ef_approvalRequirement y" "ef_reversibility x = ef_reversibility y"
  using assms by (cases x; cases y; simp add: intent_of_def)+

subsection \<open>Stored intents\<close>

definition effects_in :: "outbox_file \<Rightarrow> effect_intent list" where
  "effects_in f = (case outbox_read f of Inl e \<Rightarrow> [] | Inr es \<Rightarrow> es)"

definition stored :: "outbox \<Rightarrow> string \<Rightarrow> effect_intent option" where
  "stored s i = find_effect i (effects_in (ob_file s))"

lemma effects_in_simps [simp]:
  "effects_in (OutboxFile es) = es"
  "outbox_read f = Inr es \<Longrightarrow> effects_in f = es"
  by (simp_all add: effects_in_def)

lemma find_effect_id: "find_effect i es = Some x \<Longrightarrow> ef_effectId x = i"
  unfolding find_effect_def by (drule find_Some_in) simp

lemma stored_id: "stored s i = Some x \<Longrightarrow> ef_effectId x = i"
  by (simp add: stored_def find_effect_id)

lemma find_update:
  assumes "\<And>e. ef_effectId (f e) = ef_effectId e"
  shows "find_effect i (update_effect j f es) =
           (if i = j then map_option f (find_effect i es) else find_effect i es)"
  by (induction es) (auto simp: find_effect_def assms)

lemma find_effect_append:
  "find_effect i (es @ [e]) =
     (case find_effect i es of Some x \<Rightarrow> Some x | None \<Rightarrow> if ef_effectId e = i then Some e else None)"
  by (induction es) (auto simp: find_effect_def)

lemma find_map:
  assumes "\<And>e. ef_effectId (f e) = ef_effectId e"
  shows "find_effect i (map f es) = map_option f (find_effect i es)"
  by (induction es) (auto simp: find_effect_def assms)

lemma cancelled_id [simp]: "ef_effectId (cancelled p now e) = ef_effectId e"
  by (simp add: cancelled_def)

subsection \<open>What an operation leaves\<close>

text \<open>
  \<open>refiles R s s'\<close>: the file is as it was or rewritten, from a readable list, by \<open>R\<close>; the
  flights and the disk are untouched.
\<close>

definition refiles :: "(effect_intent list \<Rightarrow> effect_intent list \<Rightarrow> bool) \<Rightarrow> outbox \<Rightarrow> outbox \<Rightarrow> bool" where
  "refiles R s s' \<longleftrightarrow> ob_inFlight s' = ob_inFlight s \<and> ob_writable s' = ob_writable s \<and>
     (ob_file s' = ob_file s \<or>
      (\<exists>es es'. outbox_read (ob_file s) = Inr es \<and> ob_file s' = OutboxFile es' \<and> R es es'))"

lemma refiles_mono: "refiles Q s s' \<Longrightarrow> (\<And>es es'. Q es es' \<Longrightarrow> R es es') \<Longrightarrow> refiles R s s'"
  unfolding refiles_def by blast

lemma mutate_eq:
  "mutate op s = (case outbox_read (ob_file s) of Inl e \<Rightarrow> (Inl e, s)
     | Inr es \<Rightarrow> (case op es s of (Inl e, s1) \<Rightarrow> (Inl e, s1)
         | (Inr (x, es'), s1) \<Rightarrow> if ob_writable s1 then (Inr x, s1\<lparr>ob_file := OutboxFile es'\<rparr>)
                               else (Inl (JsError ''EIO''), s1)))"
  unfolding mutate_def run_simps
  by (auto simp: bindS_def outbox_write_def returnS_def split: sum.splits prod.splits)

lemma mutate_result:
  assumes "mutate op s = (r, s')"
  obtains (unread) e where "outbox_read (ob_file s) = Inl e" "r = Inl e" "s' = s"
  | (thrown) es e where "outbox_read (ob_file s) = Inr es" "op es s = (Inl e, s')" "r = Inl e"
  | (kept) es x es' where "outbox_read (ob_file s) = Inr es" "op es s = (Inr (x, es'), s')" "r = Inl (JsError ''EIO'')"
      "\<not> ob_writable s'"
  | (written) es x es' s1 where "outbox_read (ob_file s) = Inr es" "op es s = (Inr (x, es'), s1)" "r = Inr x"
      "ob_writable s1" "s' = s1\<lparr>ob_file := OutboxFile es'\<rparr>"
proof (cases "outbox_read (ob_file s)")
  case (Inl e)
  with assms have "r = Inl e" "s' = s" by (auto simp: mutate_eq)
  with Inl show ?thesis by (rule unread)
next
  case (Inr es)
  obtain q s1 where q: "op es s = (q, s1)" by (cases "op es s")
  show ?thesis
  proof (cases q)
    case (Inl e)
    with assms Inr q have "r = Inl e" "s' = s1" by (auto simp: mutate_eq)
    with Inr q Inl show ?thesis using thrown by blast
  next
    fix p assume p: "q = Inr p"
    obtain x es' where x: "p = (x, es')" by (cases p)
    from assms Inr q p x have "ob_writable s1 \<and> r = Inr x \<and> s' = s1\<lparr>ob_file := OutboxFile es'\<rparr> \<or>
        \<not> ob_writable s1 \<and> r = Inl (JsError ''EIO'') \<and> s' = s1"
      by (auto simp: mutate_eq split: if_splits)
    with Inr q p x show ?thesis using kept written by blast
  qed
qed

text \<open>The bodies of the mutations change no state of their own, apart from the log of calls.\<close>

lemma mutate_refiles:
  assumes "\<And>es r s1. op es s = (r, s1) \<Longrightarrow> ob_file s1 = ob_file s \<and> ob_inFlight s1 = ob_inFlight s \<and>
      ob_writable s1 = ob_writable s"
    and "\<And>es x es' s1. op es s = (Inr (x, es'), s1) \<Longrightarrow> R es es'"
  shows "refiles R s (snd (mutate op s))"
proof -
  obtain r s' where m: "mutate op s = (r, s')" by (cases "mutate op s")
  from this have "refiles R s s'"
  proof (cases rule: mutate_result)
    case unread
    then show ?thesis by (simp add: refiles_def)
  next
    case (thrown es e)
    then show ?thesis using assms(1) by (auto simp: refiles_def)
  next
    case (kept es x es')
    then show ?thesis using assms(1) by (auto simp: refiles_def)
  next
    case (written es x es' s1)
    then show ?thesis using assms(1) [OF written(2)] assms(2) [OF written(2)] by (auto simp: refiles_def)
  qed
  with m show ?thesis by simp
qed

lemma transition_effect_eq:
  "transition_effect i es f s =
     (case requireEffect (update_effect i f es) i of Inl e \<Rightarrow> (Inl e, s) | Inr e \<Rightarrow> (Inr (e, update_effect i f es), s))"
  by (simp add: transition_effect_def Let_def run_simps returnS_def cong: sum.case_cong)

lemmas outbox_split = sum.splits option.splits if_splits prod.splits
lemmas body_simps = run_simps transition_effect_eq returnS_def throwS_def Let_def

lemma requireEffect_Inr [simp]: "requireEffect es i = Inr x \<longleftrightarrow> find_effect i es = Some x"
  by (simp add: requireEffect_def split: option.splits)

subsection \<open>Every step is a step of the contract\<close>

definition simulates :: "(string \<Rightarrow> string) \<Rightarrow> key_order \<Rightarrow> outbox_label \<Rightarrow> string \<Rightarrow>
    effect_intent option \<Rightarrow> effect_intent option \<Rightarrow> bool" where
  "simulates H le l i before after =
     (case before of
        None \<Rightarrow> (case after of None \<Rightarrow> True | Some y \<Rightarrow> created l i y)
      | Some x \<Rightarrow> (case after of None \<Rightarrow> False | Some y \<Rightarrow> y = x \<or> lifecycle H le l i x y))"

lemma simulates_refl [simp]: "simulates H le l i a a"
  by (simp add: simulates_def split: option.splits)

abbreviation list_simulates :: "(string \<Rightarrow> string) \<Rightarrow> key_order \<Rightarrow> outbox_label \<Rightarrow>
    effect_intent list \<Rightarrow> effect_intent list \<Rightarrow> bool" where
  "list_simulates H le l es es' \<equiv> \<forall>i. simulates H le l i (find_effect i es) (find_effect i es')"

lemma update_simulates:
  assumes "find_effect j es = Some x" and "lifecycle H le l j x (f x)" and "\<And>e. ef_effectId (f e) = ef_effectId e"
  shows "simulates H le l i (find_effect i es) (find_effect i (update_effect j f es))"
  using assms by (simp add: find_update simulates_def split: option.splits)

lemma prepare_simulates: "refiles (list_simulates H le (Prepare inp uuid now)) s (snd (prepare_effect H le ads inp uuid now s))"
  unfolding prepare_effect_def
proof (rule mutate_refiles, goal_cases)
  case (2 es x es' s1)
  then have "es' = es \<or> (\<exists>d. es' = es @ [new_intent inp d uuid now])"
    by (auto simp: body_simps split: outbox_split)
  moreover have "created (Prepare inp uuid now) i (new_intent inp d uuid now)"
    if "ef_effectId (new_intent inp d uuid now) = i" for d i
    using that by (auto simp: created_def new_intent_def)
  ultimately show ?case by (auto simp: find_effect_append simulates_def split: option.splits if_splits)
qed (auto simp: body_simps split: outbox_split)

lemma authorize_simulates: "refiles (list_simulates H le (Authorize i v p a now)) s (snd (authorize_effect i v p a now s))"
  unfolding authorize_effect_def
proof (rule mutate_refiles, goal_cases)
  case (2 es x es' s1)
  then obtain e where e: "find_effect i es = Some e" "ef_state e = PREPARED" "ef_viewId e = v" "ef_proposalId e = p"
      "ef_approvalRequirement e = a" "es' = update_effect i (\<lambda>e. e\<lparr>ef_state := AUTHORIZED, ef_updatedAt := now\<rparr>) es"
    by (auto simp: body_simps split: outbox_split)
  show ?case unfolding e(6) by (intro allI update_simulates [OF e(1)]) (auto intro!: authorised simp: e)
qed (auto simp: body_simps split: outbox_split)

lemma mark_simulates: "refiles (list_simulates H le (Mark i now)) s (snd (mark_dispatched H le ads i args now s))"
  unfolding mark_dispatched_def
proof (rule mutate_refiles, goal_cases)
  case (2 es x es' s1)
  then consider "es' = es" | e where "find_effect i es = Some e" "ef_state e = AUTHORIZED" "es' = update_effect i (\<lambda>e. e\<lparr>ef_state := DISPATCHED, ef_updatedAt := now\<rparr>) es"
    by (auto simp: body_simps split: outbox_split)
  then show ?case
  proof cases
    case e: 2
    show ?thesis unfolding e(3) by (intro allI update_simulates [OF e(1)]) (auto intro!: dispatched simp: e)
  qed simp
qed (auto simp: body_simps split: outbox_split)

lemma settle_refiles:
  "refiles (\<lambda>es es'. \<exists>x. find_effect i es = Some x \<and> ef_state x = DISPATCHED \<and> es' = update_effect i f es)
     s (snd (settle_effect i f s))"
  unfolding settle_effect_def
  by (rule mutate_refiles) (auto simp: body_simps split: outbox_split)

lemma outcome_simulates: "refiles (list_simulates H le (Settle i out now)) s (snd (dispatch_outcome H le i out now s))"
proof (cases out)
  case (AdapterThrew name)
  show ?thesis unfolding AdapterThrew dispatch_outcome.simps
    by (rule refiles_mono [OF settle_refiles]) (auto intro: update_simulates simp: lifecycle.failed)
next
  case (HookThrew err)
  then show ?thesis by (simp add: refiles_def throwS_def)
next
  case (AdapterReturned v)
  show ?thesis unfolding AdapterReturned dispatch_outcome.simps
    by (rule refiles_mono [OF settle_refiles]) (auto intro: update_simulates simp: lifecycle.succeeded)
qed

lemma cancel_simulates: "refiles (list_simulates H le (Cancel p now)) s (snd (cancelForProposal p now s))"
  unfolding cancelForProposal_def
proof (rule mutate_refiles, goal_cases)
  case (2 es x es' s1)
  then have "es' = map (cancelled p now) es" by (auto simp: body_simps)
  moreover have "cancelled p now e = e \<or> lifecycle H le (Cancel p now) i e (cancelled p now e)" for e i
    by (auto simp: cancelled_def intro!: lifecycle.cancelled)
  ultimately show ?case by (auto simp: find_map simulates_def split: option.splits)
qed (auto simp: body_simps)

lemma compensate_simulates: "refiles (list_simulates H le (Compensate i threw now)) s (snd (compensate_effect ads i threw now s))"
  unfolding compensate_effect_def
proof (rule mutate_refiles, goal_cases)
  case (2 es x es' s1)
  then obtain e where e: "find_effect i es = Some e" "ef_state e = SUCCEEDED" "ef_reversibility e = Reversible"
      "threw = None" "es' = update_effect i (\<lambda>e. e\<lparr>ef_state := COMPENSATED, ef_updatedAt := now\<rparr>) es"
    by (auto simp: body_simps log_call_def split: outbox_split)
  show ?case unfolding e(5) by (intro allI update_simulates [OF e(1)]) (auto intro!: compensated simp: e)
qed (auto simp: body_simps log_call_def split: outbox_split)

lemma refiles_stored:
  assumes "refiles (list_simulates H le l) s s'" and "ob_file t = ob_file s" and "ob_file t' = ob_file s'"
  shows "simulates H le l i (stored t i) (stored t' i)"
  using assms by (auto simp: refiles_def stored_def)

lemma dispatch_mark_file: "ob_file (snd (dispatch_mark H le ads i args now s)) = ob_file (snd (mark_dispatched H le ads i args now s))"
  by (auto simp: dispatch_mark_def bindS_def leave_flight_def throwS_def liftS_def set_phase_def putS_def returnS_def
      split: sum.splits prod.splits)

lemma step_simulates: "simulates H le l i (stored s i) (stored (outbox_step H le ads s l) i)"
proof (cases l)
  case (Prepare inp uuid now)
  then show ?thesis using refiles_stored [OF prepare_simulates refl refl] by simp
next
  case (Authorize j v p a now)
  then show ?thesis using refiles_stored [OF authorize_simulates refl refl] by simp
next
  case (Enter j args)
  then have "ob_file (outbox_step H le ads s l) = ob_file s"
    by (simp add: dispatch_enter_def set_phase_def run_simps putS_def throwS_def)
  then show ?thesis by (simp add: stored_def)
next
  case (Mark j now)
  then show ?thesis using refiles_stored [OF mark_simulates refl dispatch_mark_file]
    by (simp split: option.splits dispatch_phase.splits)
next
  case (Call j)
  then have "ob_file (outbox_step H le ads s l) = ob_file s"
    by (simp add: dispatch_call_def log_call_def set_phase_def run_simps putS_def split: option.splits dispatch_phase.splits)
  then show ?thesis by (simp add: stored_def)
next
  case (Settle j out now)
  have "ob_file (snd (dispatch_settle H le j out now s)) = ob_file (snd (dispatch_outcome H le j out now s))"
    by (simp add: dispatch_settle_def leave_flight_def split: prod.splits)
  from refiles_stored [OF outcome_simulates refl this] Settle show ?thesis
    by (simp split: option.splits dispatch_phase.splits)
next
  case (Cancel p now)
  then show ?thesis using refiles_stored [OF cancel_simulates refl refl] by simp
next
  case (Compensate j threw now)
  then show ?thesis using refiles_stored [OF compensate_simulates refl refl] by simp
qed (simp_all add: stored_def)

end
