(* ===== verification/Outbox_Props.thy ===== *)
theory Outbox_Props
  imports Outbox_Facts
begin

text \<open>
  What holds along every history of the outbox: an adapter is only called with an intent that was
  authorised, under its idempotency key and with the arguments it was prepared with; a call
  happens once unless a crash, a hook or the disk interrupts the dispatch; and an authorised
  intent can be brought to its end after any history.
\<close>

subsection \<open>Dispatches in flight\<close>

fun marked_in :: "dispatch_phase option \<Rightarrow> (effect_intent \<times> json option) option" where
  "marked_in (Some (Marked e args)) = Some (e, args)"
| "marked_in (Some (Called e args)) = Some (e, args)"
| "marked_in _ = None"

definition flight_ok :: "(string \<Rightarrow> string) \<Rightarrow> key_order \<Rightarrow> outbox \<Rightarrow> bool" where
  "flight_ok H le s \<longleftrightarrow> (\<forall>i e args. marked_in (ob_inFlight s i) = Some (e, args) \<longrightarrow>
     (\<exists>x. stored s i = Some x \<and> ef_state x = DISPATCHED \<and> intent_of x = intent_of e \<and>
          ef_canonicalArgsDigest x = outbox_sha256 H le args))"

lemma flight_okD:
  "flight_ok H le s \<Longrightarrow> marked_in (ob_inFlight s i) = Some (e, args) \<Longrightarrow>
     \<exists>x. stored s i = Some x \<and> ef_state x = DISPATCHED \<and> intent_of x = intent_of e \<and>
       ef_canonicalArgsDigest x = outbox_sha256 H le args"
  by (simp add: flight_ok_def)

lemma dispatched_settles:
  "lifecycle H le l i x y \<Longrightarrow> ef_state x = DISPATCHED \<Longrightarrow> \<exists>out now. l = Settle i out now"
  by (erule lifecycleE) simp_all

lemma dispatched_stays:
  assumes "stored s i = Some x" and "ef_state x = DISPATCHED" and "\<And>out now. l \<noteq> Settle i out now"
  shows "stored (outbox_step H le ads s l) i = Some x"
proof -
  from step_simulates [of H le l i s ads] assms(1) obtain y where
    "stored (outbox_step H le ads s l) i = Some y" "y = x \<or> lifecycle H le l i x y"
    by (auto simp: simulates_def split: option.splits)
  with dispatched_settles [OF _ assms(2), of H le l i y] assms(3) show ?thesis by blast
qed

lemma mark_dispatched_Inr:
  assumes "mark_dispatched H le ads i args now s = (Inr e, s')"
  shows "stored s' i = Some e \<and> ef_state e = DISPATCHED \<and> ef_canonicalArgsDigest e = outbox_sha256 H le args \<and>
     (\<exists>a. requireAdapter ads (ef_adapter e) (ef_action e) = Inr a)"
  using assms unfolding mark_dispatched_def mutate_eq
  by (auto simp: body_simps stored_def find_update split: outbox_split)

lemma dispatch_mark_Inr:
  "dispatch_mark H le ads i args now s = (Inr e, s') \<longleftrightarrow>
     (\<exists>s1. mark_dispatched H le ads i args now s = (Inr e, s1) \<and>
        s' = s1\<lparr>ob_inFlight := (ob_inFlight s1)(i \<mapsto> Marked e args)\<rparr>)"
  by (auto simp: dispatch_mark_def bindS_def leave_flight_def throwS_def liftS_def set_phase_def putS_def returnS_def
      dest!: mark_dispatched_Inr split: sum.splits prod.splits)

lemma refiles_flight: "refiles R s s' \<Longrightarrow> ob_inFlight s' = ob_inFlight s"
  by (simp add: refiles_def)

lemmas op_flights [simp] =
  prepare_simulates [THEN refiles_flight] authorize_simulates [THEN refiles_flight]
  mark_simulates [THEN refiles_flight] outcome_simulates [THEN refiles_flight]
  cancel_simulates [THEN refiles_flight] compensate_simulates [THEN refiles_flight]

lemma mark_flight:
  "ob_inFlight (snd (dispatch_mark H le ads i args now s)) =
     (case dispatch_mark H le ads i args now s of
        (Inl err, _) \<Rightarrow> (ob_inFlight s)(i := None)
      | (Inr e, _) \<Rightarrow> (ob_inFlight s)(i \<mapsto> Marked e args))"
proof -
  obtain r s1 where m: "mark_dispatched H le ads i args now s = (r, s1)" by (cases "mark_dispatched H le ads i args now s")
  then have f: "ob_inFlight s1 = ob_inFlight s" by (metis op_flights(3) snd_conv)
  show ?thesis
    using m f by (auto simp: dispatch_mark_def bindS_def leave_flight_def throwS_def liftS_def set_phase_def putS_def
        returnS_def split: sum.splits)
qed

lemma settle_flight: "ob_inFlight (snd (dispatch_settle H le i out now s)) = (ob_inFlight s)(i := None)"
proof -
  obtain r s1 where m: "dispatch_outcome H le i out now s = (r, s1)" by (cases "dispatch_outcome H le i out now s")
  then have "ob_inFlight s1 = ob_inFlight s" by (metis op_flights(4) snd_conv)
  with m show ?thesis by (simp add: dispatch_settle_def leave_flight_def)
qed

text \<open>How a step changes the flight of one intent.\<close>

lemma flight_step:
  assumes "marked_in (ob_inFlight (outbox_step H le ads s l) i) = Some (e, args)"
  shows "marked_in (ob_inFlight s i) = Some (e, args) \<and> ((\<forall>out now. l \<noteq> Settle i out now) \<or> outbox_step H le ads s l = s) \<or>
    (\<exists>now. l = Mark i now \<and> fst (dispatch_mark H le ads i args now s) = Inr e \<and>
       outbox_step H le ads s l = snd (dispatch_mark H le ads i args now s))"
proof (cases l)
  case (Enter j a)
  with assms show ?thesis
    by (auto simp: dispatch_enter_def set_phase_def run_simps putS_def throwS_def split: if_splits)
next
  case (Mark j now)
  with assms show ?thesis
    by (auto simp: mark_flight split: option.splits dispatch_phase.splits if_splits sum.splits prod.splits)
next
  case (Call j)
  with assms show ?thesis
    by (auto simp: dispatch_call_def log_call_def set_phase_def run_simps putS_def
        split: option.splits dispatch_phase.splits if_splits)
next
  case (Settle j out now)
  with assms show ?thesis
    by (cases "ob_inFlight s i") (auto simp: settle_flight split: option.splits dispatch_phase.splits if_splits)
qed (use assms in auto)

lemma flight_ok_step:
  assumes "flight_ok H le s"
  shows "flight_ok H le (outbox_step H le ads s l)"
  unfolding flight_ok_def
proof (intro allI impI)
  fix i e args
  let ?s' = "outbox_step H le ads s l"
  assume "marked_in (ob_inFlight ?s' i) = Some (e, args)"
  from flight_step [OF this] show "\<exists>x. stored ?s' i = Some x \<and> ef_state x = DISPATCHED \<and>
      intent_of x = intent_of e \<and> ef_canonicalArgsDigest x = outbox_sha256 H le args"
  proof
    assume "marked_in (ob_inFlight s i) = Some (e, args) \<and>
      ((\<forall>out now. l \<noteq> Settle i out now) \<or> ?s' = s)"
    moreover from this assms obtain x where x: "stored s i = Some x" "ef_state x = DISPATCHED"
        "intent_of x = intent_of e" "ef_canonicalArgsDigest x = outbox_sha256 H le args"
      unfolding flight_ok_def by blast
    ultimately show ?thesis using dispatched_stays [OF x(1,2)] by metis
  next
    assume "\<exists>now. l = Mark i now \<and> fst (dispatch_mark H le ads i args now s) = Inr e \<and>
      ?s' = snd (dispatch_mark H le ads i args now s)"
    then obtain now where "dispatch_mark H le ads i args now s = (Inr e, ?s')" by (metis prod.collapse)
    then obtain s1 where "mark_dispatched H le ads i args now s = (Inr e, s1)" "ob_file ?s' = ob_file s1"
      unfolding dispatch_mark_Inr by auto
    with mark_dispatched_Inr [OF this(1)] show ?thesis by (auto simp: stored_def)
  qed
qed

subsection \<open>Calls\<close>

definition begun :: "effect_state \<Rightarrow> bool" where
  "begun st \<longleftrightarrow> st \<in> {DISPATCHED, SUCCEEDED, FAILED, COMPENSATED}"

definition call_for :: "(string \<Rightarrow> string) \<Rightarrow> key_order \<Rightarrow> adapter_call \<Rightarrow> effect_intent \<Rightarrow> bool" where
  "call_for H le c x \<longleftrightarrow> call_adapter c = ef_adapter x \<and> call_action c = ef_action x \<and>
     call_idempotencyKey c = ef_idempotencyKey x \<and>
     (\<forall>args. call_payload c = DispatchArgs args \<longrightarrow> ef_canonicalArgsDigest x = outbox_sha256 H le args)"

definition calls_ok :: "(string \<Rightarrow> string) \<Rightarrow> key_order \<Rightarrow> outbox \<Rightarrow> bool" where
  "calls_ok H le s \<longleftrightarrow> (\<forall>c \<in> set (ob_calls s). \<exists>x. stored s (call_effectId c) = Some x \<and> begun (ef_state x) \<and>
     call_for H le c x)"

lemma mutate_calls:
  assumes "\<And>es r s1. op es s = (r, s1) \<Longrightarrow> ob_calls s1 = ob_calls s"
  shows "ob_calls (snd (mutate op s)) = ob_calls s"
  using assms by (auto simp: mutate_eq split: outbox_split)

lemma op_calls [simp]:
  "ob_calls (snd (prepare_effect H le ads inp uuid now s)) = ob_calls s"
  "ob_calls (snd (authorize_effect i v p a now s)) = ob_calls s"
  "ob_calls (snd (mark_dispatched H le ads i args now s)) = ob_calls s"
  "ob_calls (snd (settle_effect i f s)) = ob_calls s"
  "ob_calls (snd (cancelForProposal p now s)) = ob_calls s"
  unfolding prepare_effect_def authorize_effect_def mark_dispatched_def settle_effect_def cancelForProposal_def
  by (rule mutate_calls; auto simp: body_simps split: outbox_split)+

lemma compensate_calls:
  "ob_calls (snd (compensate_effect ads i threw now s)) = ob_calls s \<or>
   (\<exists>x d. stored s i = Some x \<and> ef_state x = SUCCEEDED \<and>
      ob_calls (snd (compensate_effect ads i threw now s)) =
        ob_calls s @ [\<lparr>call_effectId = i, call_adapter = ef_adapter x, call_action = ef_action x,
                       call_payload = CompensateResult d, call_idempotencyKey = ef_idempotencyKey x\<rparr>])"
  unfolding compensate_effect_def mutate_eq
  by (auto simp: body_simps log_call_def stored_def split: outbox_split)

lemma mark_calls: "ob_calls (snd (dispatch_mark H le ads i args now s)) = ob_calls s"
proof -
  obtain r s1 where m: "mark_dispatched H le ads i args now s = (r, s1)" by (cases "mark_dispatched H le ads i args now s")
  then have "ob_calls s1 = ob_calls s" by (metis op_calls(3) snd_conv)
  with m show ?thesis
    by (auto simp: dispatch_mark_def bindS_def leave_flight_def throwS_def liftS_def set_phase_def putS_def
        returnS_def split: sum.splits)
qed

lemma settle_calls: "ob_calls (snd (dispatch_settle H le i out now s)) = ob_calls s"
  by (cases out) (simp_all add: dispatch_settle_def leave_flight_def throwS_def op_calls split: prod.splits; metis op_calls(4) snd_conv)+

definition dispatch_record :: "string \<Rightarrow> effect_intent \<Rightarrow> json option \<Rightarrow> adapter_call" where
  "dispatch_record i e args = \<lparr>call_effectId = i, call_adapter = ef_adapter e, call_action = ef_action e,
     call_payload = DispatchArgs args, call_idempotencyKey = ef_idempotencyKey e\<rparr>"

lemma calls_step:
  obtains (same) "ob_calls (outbox_step H le ads s l) = ob_calls s" "\<And>e args i. l = Call i \<Longrightarrow> ob_inFlight s i \<noteq> Some (Marked e args)"
  | (dispatch) i e args where "l = Call i" "ob_inFlight s i = Some (Marked e args)"
      "ob_calls (outbox_step H le ads s l) = ob_calls s @ [dispatch_record i e args]"
  | (compensate) i threw now x d where "l = Compensate i threw now" "stored s i = Some x" "ef_state x = SUCCEEDED"
      "ob_calls (outbox_step H le ads s l) =
         ob_calls s @ [\<lparr>call_effectId = i, call_adapter = ef_adapter x, call_action = ef_action x,
                        call_payload = CompensateResult d, call_idempotencyKey = ef_idempotencyKey x\<rparr>]"
proof (cases l)
  case (Enter i args)
  then have "ob_calls (outbox_step H le ads s l) = ob_calls s"
    by (simp add: dispatch_enter_def set_phase_def run_simps putS_def throwS_def)
  with Enter show ?thesis by (intro same) auto
next
  case (Mark i now)
  then have "ob_calls (outbox_step H le ads s l) = ob_calls s"
    by (simp add: mark_calls split: option.splits dispatch_phase.splits)
  with Mark show ?thesis by (intro same) auto
next
  case (Settle i out now)
  then have "ob_calls (outbox_step H le ads s l) = ob_calls s"
    by (simp add: settle_calls split: option.splits dispatch_phase.splits)
  with Settle show ?thesis by (intro same) auto
next
  case (Call i)
  show ?thesis
  proof (cases "\<exists>e args. ob_inFlight s i = Some (Marked e args)")
    case True
    then obtain e args where m: "ob_inFlight s i = Some (Marked e args)" by blast
    with Call have "ob_calls (outbox_step H le ads s l) = ob_calls s @ [dispatch_record i e args]"
      by (simp add: dispatch_call_def dispatch_record_def log_call_def set_phase_def run_simps putS_def)
    with Call m show ?thesis by (rule dispatch)
  next
    case False
    with Call show ?thesis by (intro same) (auto split: option.splits dispatch_phase.splits)
  qed
next
  case (Compensate i threw now)
  from compensate_calls [of ads i threw now s] show ?thesis
  proof (elim disjE exE conjE)
    assume "ob_calls (snd (compensate_effect ads i threw now s)) = ob_calls s"
    with Compensate show ?thesis by (intro same) auto
  next
    fix x d
    assume *: "stored s i = Some x" "ef_state x = SUCCEEDED"
      "ob_calls (snd (compensate_effect ads i threw now s)) =
         ob_calls s @ [\<lparr>call_effectId = i, call_adapter = ef_adapter x, call_action = ef_action x,
                        call_payload = CompensateResult d, call_idempotencyKey = ef_idempotencyKey x\<rparr>]"
    with Compensate show ?thesis using compensate [OF Compensate *(1,2)] by simp
  qed
qed (use same in auto)

lemma call_for_intent: "call_for H le c x \<Longrightarrow> intent_of y = intent_of x \<Longrightarrow> call_for H le c y"
  using intent_of_fields [of y x] by (simp add: call_for_def)

lemma begun_step:
  assumes "stored s i = Some x" and "begun (ef_state x)"
  obtains y where "stored (outbox_step H le ads s l) i = Some y" "begun (ef_state y)" "intent_of y = intent_of x"
proof -
  from step_simulates [of H le l i s ads] assms(1) obtain y where
    y: "stored (outbox_step H le ads s l) i = Some y" "y = x \<or> lifecycle H le l i x y"
    by (auto simp: simulates_def split: option.splits)
  moreover have "begun (ef_state y)" using y(2) assms(2) by (elim disjE) (auto elim!: lifecycleE simp: begun_def)
  moreover have "intent_of y = intent_of x" using y(2) lifecycle_intent by blast
  ultimately show ?thesis using that by blast
qed

lemma calls_ok_step:
  assumes "flight_ok H le s" and "calls_ok H le s"
  shows "calls_ok H le (outbox_step H le ads s l)"
  unfolding calls_ok_def
proof
  let ?s' = "outbox_step H le ads s l"
  fix c
  assume c: "c \<in> set (ob_calls ?s')"
  have "\<exists>x. stored s (call_effectId c) = Some x \<and> begun (ef_state x) \<and> call_for H le c x"
  proof (cases rule: calls_step [of H le ads s l])
    case same
    with c assms(2) show ?thesis by (auto simp: calls_ok_def)
  next
    case (dispatch i e args)
    from flight_okD [OF assms(1), of i e args] dispatch(2) obtain x where "stored s i = Some x"
        "ef_state x = DISPATCHED" "intent_of x = intent_of e" "ef_canonicalArgsDigest x = outbox_sha256 H le args"
      by auto
    moreover from this intent_of_fields [of x e] have "call_for H le (dispatch_record i e args) x"
      by (simp add: call_for_def dispatch_record_def)
    ultimately show ?thesis using c dispatch(3) assms(2)
      by (auto simp: calls_ok_def begun_def dispatch_record_def)
  next
    case (compensate i threw now x d)
    with c assms(2) show ?thesis by (auto simp: calls_ok_def begun_def call_for_def)
  qed
  then obtain x where x: "stored s (call_effectId c) = Some x" "begun (ef_state x)" "call_for H le c x" by blast
  from begun_step [OF x(1,2), of H le ads l] obtain y where "stored ?s' (call_effectId c) = Some y"
      "begun (ef_state y)" "intent_of y = intent_of x" by metis
  with call_for_intent [OF x(3)] show "\<exists>x. stored ?s' (call_effectId c) = Some x \<and> begun (ef_state x) \<and> call_for H le c x"
    by blast
qed

subsection \<open>Histories\<close>

lemma outbox_run_simps [simp]:
  "outbox_run H le ads s [] = s"
  "outbox_run H le ads s (l # ls) = outbox_run H le ads (outbox_step H le ads s l) ls"
  "outbox_run H le ads s (ls @ [l]) = outbox_step H le ads (outbox_run H le ads s ls) l"
  by (simp_all add: outbox_run_def)

lemma opened_ok: "flight_ok H le (opened f)" "calls_ok H le (opened f)"
  by (simp_all add: flight_ok_def calls_ok_def opened_def)

lemma run_ok:
  shows "flight_ok H le (outbox_run H le ads (opened f) ls)" and "calls_ok H le (outbox_run H le ads (opened f) ls)"
proof (induction ls rule: rev_induct)
  case (snoc l ls)
  { case 1 show ?case using snoc by (simp add: flight_ok_step) }
  { case 2 show ?case using snoc by (simp add: calls_ok_step) }
qed (simp_all add: opened_ok)

definition approved :: "effect_state \<Rightarrow> bool" where
  "approved st \<longleftrightarrow> st = AUTHORIZED \<or> begun st"

lemma approved_by_history:
  assumes "stored (outbox_run H le ads s ls) i = Some x" and "approved (ef_state x)"
  shows "(\<exists>now. Authorize i (ef_viewId x) (ef_proposalId x) (ef_approvalRequirement x) now \<in> set ls) \<or>
    (\<exists>x0. stored s i = Some x0 \<and> approved (ef_state x0) \<and> intent_of x0 = intent_of x)"
  using assms
proof (induction ls arbitrary: x rule: rev_induct)
  case (snoc l ls)
  let ?s = "outbox_run H le ads s ls"
  from step_simulates [of H le l i ?s ads] snoc.prems(1) consider
      (new) "stored ?s i = None" "created l i x"
    | (old) x1 where "stored ?s i = Some x1" "x = x1 \<or> lifecycle H le l i x1 x"
    by (auto simp: simulates_def split: option.splits)
  then show ?case
  proof cases
    case new
    then show ?thesis using snoc.prems(2) by (auto simp: created_def new_intent_def approved_def begun_def)
  next
    case old
    show ?thesis
    proof (cases "approved (ef_state x1)")
      case True
      have "intent_of x = intent_of x1" using old(2) lifecycle_intent by blast
      with snoc.IH [OF old(1) True] intent_of_fields [OF this] show ?thesis by auto
    next
      case False
      with old(2) snoc.prems(2) have "\<exists>now. l = Authorize i (ef_viewId x) (ef_proposalId x) (ef_approvalRequirement x) now"
        by (elim disjE) (auto elim!: lifecycleE simp: approved_def begun_def)
      then show ?thesis by auto
    qed
  qed
qed auto

subsection \<open>Counting calls\<close>

fun is_dispatch :: "call_payload \<Rightarrow> bool" where
  "is_dispatch (DispatchArgs args) = True"
| "is_dispatch (CompensateResult d) = False"

definition dispatches :: "string \<Rightarrow> outbox \<Rightarrow> nat" where
  "dispatches i s = length (filter (\<lambda>c. call_effectId c = i \<and> is_dispatch (call_payload c)) (ob_calls s))"

fun is_called :: "dispatch_phase option \<Rightarrow> bool" where
  "is_called (Some (Called e args)) = True"
| "is_called _ = False"

text \<open>
  A dispatch whose adapter was called ends without being settled: the process stops, or the step that
  settles it throws (the hook or the disk).
\<close>

definition interrupted :: "(string \<Rightarrow> string) \<Rightarrow> key_order \<Rightarrow> effect_adapter list \<Rightarrow> string \<Rightarrow> outbox \<Rightarrow> outbox_label \<Rightarrow> bool" where
  "interrupted H le ads i s l \<longleftrightarrow> is_called (ob_inFlight s i) \<and>
     (case l of
        Crash \<Rightarrow> True
      | Settle k out now \<Rightarrow> k = i \<and> (case fst (dispatch_settle H le i out now s) of Inl err \<Rightarrow> True | Inr y \<Rightarrow> False)
      | _ \<Rightarrow> False)"

definition spent :: "string \<Rightarrow> outbox \<Rightarrow> nat" where
  "spent i s = (if is_called (ob_inFlight s i) \<or>
     (\<exists>x. stored s i = Some x \<and> begun (ef_state x) \<and> ef_state x \<noteq> DISPATCHED) then 1 else 0)"

lemma called_marked: "is_called ph \<Longrightarrow> \<exists>e args. ph = Some (Called e args) \<and> marked_in ph = Some (e, args)"
  by (cases ph rule: is_called.cases) auto

lemma stored_next:
  assumes "stored s i = Some x"
  obtains y where "stored (outbox_step H le ads s l) i = Some y" "y = x \<or> lifecycle H le l i x y"
  using step_simulates [of H le l i s ads] assms by (auto simp: simulates_def split: option.splits)

lemma lifecycle_dispatched:
  "lifecycle H le l i x y \<Longrightarrow> ef_state x = DISPATCHED \<Longrightarrow> ef_state y = SUCCEEDED \<or> ef_state y = FAILED"
  by (erule lifecycleE) simp_all

text \<open>What ends a dispatch after its adapter was called.\<close>

lemma call_ends:
  assumes "is_called (ob_inFlight s i)" and "\<not> is_called (ob_inFlight (outbox_step H le ads s l) i)"
  shows "l = Crash \<or> (\<exists>out now. l = Settle i out now)"
proof (cases l)
  case (Enter j a)
  with assms show ?thesis
    by (auto simp: dispatch_enter_def set_phase_def run_simps putS_def throwS_def split: if_splits)
next
  case (Mark j now)
  with assms show ?thesis
    by (cases "j = i") (auto simp: mark_flight split: option.splits dispatch_phase.splits if_splits sum.splits prod.splits)
next
  case (Call j)
  with assms show ?thesis
    by (cases "j = i") (auto simp: dispatch_call_def log_call_def set_phase_def run_simps putS_def
        split: option.splits dispatch_phase.splits if_splits)
next
  case (Settle j out now)
  with assms show ?thesis
    by (cases "ob_inFlight s j") (auto simp: settle_flight split: dispatch_phase.splits if_splits)
qed (use assms in auto)

text \<open>A dispatch that is settled without throwing has ended its intent.\<close>

lemma settle_ends:
  assumes "dispatch_settle H le i out now s = (Inr y, s')"
  shows "\<exists>x. stored s' i = Some x \<and> begun (ef_state x) \<and> ef_state x \<noteq> DISPATCHED"
proof -
  have settled: "\<exists>x. stored s1 i = Some x \<and> begun (ef_state x) \<and> ef_state x \<noteq> DISPATCHED"
    if "settle_effect i f s = (Inr y, s1)" "\<And>e. ef_effectId (f e) = ef_effectId e \<and> ef_state (f e) \<in> {SUCCEEDED, FAILED}" for f s1
  proof -
    from that obtain es x where "find_effect i es = Some x" "ob_file s1 = OutboxFile (update_effect i f es)"
      by (auto simp: settle_effect_def mutate_eq body_simps find_update requireEffect_def
          split: if_splits option.splits sum.splits prod.splits)
    then have "stored s1 i = Some (f x)" using that(2) by (simp add: stored_def find_update)
    then show ?thesis using that(2) [of x] by (auto simp: begun_def)
  qed
  from assms obtain s1 where s1: "dispatch_outcome H le i out now s = (Inr y, s1)" "ob_file s' = ob_file s1"
    by (auto simp: dispatch_settle_def leave_flight_def split: prod.splits)
  have "\<exists>x. stored s1 i = Some x \<and> begun (ef_state x) \<and> ef_state x \<noteq> DISPATCHED"
    using s1(1) by (cases out) (auto simp: throwS_def elim!: settled)
  with s1(2) show ?thesis by (simp add: stored_def)
qed

lemma spent_keeps:
  assumes "flight_ok H le s"
  shows "spent i s \<le> spent i (outbox_step H le ads s l) + (if interrupted H le ads i s l then 1 else 0)"
proof -
  let ?s' = "outbox_step H le ads s l"
  show ?thesis
  proof (cases "spent i s = 0 \<or> spent i ?s' = 1 \<or> interrupted H le ads i s l")
    case False
    then have kept: "spent i s \<noteq> 0" "spent i ?s' \<noteq> 1" "\<not> interrupted H le ads i s l" by auto
    then consider (called) "is_called (ob_inFlight s i)"
      | (over) x where "stored s i = Some x" "begun (ef_state x)" "ef_state x \<noteq> DISPATCHED"
      by (auto simp: spent_def split: if_splits)
    then show ?thesis
    proof cases
      case called
      have "\<not> is_called (ob_inFlight ?s' i)" using kept(2) by (auto simp: spent_def)
      from call_ends [OF called this] kept(3) called obtain out now where l: "l = Settle i out now"
        by (auto simp: interrupted_def)
      with kept(3) called obtain y where "fst (dispatch_settle H le i out now s) = Inr y"
        by (auto simp: interrupted_def split: sum.splits)
      moreover have "?s' = snd (dispatch_settle H le i out now s)" using called_marked [OF called] l by auto
      ultimately have "dispatch_settle H le i out now s = (Inr y, ?s')" by (metis prod.collapse)
      from settle_ends [OF this] kept(2) show ?thesis by (auto simp: spent_def)
    next
      case over
      obtain y where y: "stored ?s' i = Some y" "y = x \<or> lifecycle H le l i x y" by (rule stored_next [OF over(1)])
      then have "begun (ef_state y) \<and> ef_state y \<noteq> DISPATCHED"
        using over by (elim disjE) (auto elim!: lifecycleE simp: begun_def)
      then show ?thesis using y(1) by (auto simp: spent_def)
    qed
  next
    case True
    have "spent i s \<le> 1" by (simp add: spent_def)
    with True show ?thesis by auto
  qed
qed

lemma spent_step:
  assumes "flight_ok H le s"
  shows "dispatches i (outbox_step H le ads s l) + spent i s \<le>
    dispatches i s + spent i (outbox_step H le ads s l) + (if interrupted H le ads i s l then 1 else 0)"
proof (cases rule: calls_step [of H le ads s l])
  case same
  then show ?thesis using spent_keeps [OF assms, of i ads l] by (simp add: dispatches_def)
next
  case (dispatch j e args)
  show ?thesis
  proof (cases "j = i")
    case True
    from flight_okD [OF assms, of i e args] dispatch True have "spent i s = 0" by (auto simp: spent_def)
    moreover have "is_called (ob_inFlight (outbox_step H le ads s l) i)"
      using dispatch True by (simp add: dispatch_call_def log_call_def set_phase_def run_simps putS_def)
    ultimately show ?thesis using dispatch(3) by (simp add: spent_def dispatches_def dispatch_record_def)
  next
    case False
    then show ?thesis using dispatch(3) spent_keeps [OF assms, of i ads l]
      by (simp add: dispatches_def dispatch_record_def)
  qed
next
  case (compensate j threw now x d)
  then show ?thesis using spent_keeps [OF assms, of i ads l] by (simp add: dispatches_def)
qed

lemma dispatches_bound:
  "flight_ok H le s \<Longrightarrow> dispatches i (outbox_run H le ads s ls) + spent i s \<le>
     dispatches i s + spent i (outbox_run H le ads s ls) + occurrences (outbox_step H le ads) (interrupted H le ads i) s ls"
proof (induction ls arbitrary: s)
  case (Cons l ls)
  from Cons.IH [OF flight_ok_step [OF Cons.prems, of ads l]] spent_step [OF Cons.prems, of i ads l]
  show ?case by simp
qed simp

subsection \<open>A dispatch that nothing disturbs\<close>

lemma stored_read:
  assumes "stored s i = Some x"
  obtains es where "outbox_read (ob_file s) = Inr es" "find_effect i es = Some x"
  using assms by (cases "outbox_read (ob_file s)") (auto simp: stored_def effects_in_def find_effect_def)

lemma dispatch_ends:
  assumes "stored s i = Some x" and "ob_inFlight s i = None" and "ob_writable s"
    and "ef_state x = AUTHORIZED \<or> ef_state x = DISPATCHED"
    and "requireAdapter ads (ef_adapter x) (ef_action x) = Inr a"
    and "ef_canonicalArgsDigest x = outbox_sha256 H le args"
  shows "\<exists>y s'. dispatch_effect H le ads i args (AdapterReturned v) now s = (Inr y, s') \<and>
    stored s' i = Some y \<and> ef_state y = SUCCEEDED \<and> ef_resultDigest y = Some (outbox_sha256 H le v) \<and>
    ob_calls s' = ob_calls s @ [dispatch_record i x args]"
proof -
  from stored_read [OF assms(1)] obtain es where es: "outbox_read (ob_file s) = Inr es" "find_effect i es = Some x" by metis
  let ?s1 = "s\<lparr>ob_inFlight := (ob_inFlight s)(i \<mapsto> Entered args)\<rparr>"
  have 1: "dispatch_enter i args s = (Inr (), ?s1)"
    using assms(2) by (simp add: dispatch_enter_def set_phase_def run_simps putS_def)
  let ?e = "if ef_state x = AUTHORIZED then x\<lparr>ef_state := DISPATCHED, ef_updatedAt := now\<rparr> else x"
  have e: "ef_state ?e = DISPATCHED" "ef_adapter ?e = ef_adapter x" "ef_action ?e = ef_action x"
    "ef_idempotencyKey ?e = ef_idempotencyKey x" using assms(4) by auto
  obtain es1 where m: "mark_dispatched H le ads i args now ?s1 = (Inr ?e, ?s1\<lparr>ob_file := OutboxFile es1\<rparr>)"
      "find_effect i es1 = Some ?e"
    using assms(3-6) es by (auto simp: mark_dispatched_def mutate_eq body_simps find_update requireEffect_def)
  let ?s2 = "s\<lparr>ob_inFlight := (ob_inFlight s)(i \<mapsto> Marked ?e args), ob_file := OutboxFile es1\<rparr>"
  have 2: "dispatch_mark H le ads i args now ?s1 = (Inr ?e, ?s2)"
    unfolding dispatch_mark_Inr using m(1) by (intro exI conjI, assumption) simp
  let ?s3 = "?s2\<lparr>ob_calls := ob_calls s @ [dispatch_record i x args],
    ob_inFlight := (ob_inFlight s)(i \<mapsto> Called ?e args)\<rparr>"
  have 3: "dispatch_call i ?e args ?s2 = (Inr (), ?s3)"
    using e by (simp add: dispatch_call_def log_call_def set_phase_def dispatch_record_def run_simps putS_def)
  let ?f = "\<lambda>e. e\<lparr>ef_state := SUCCEEDED, ef_resultDigest := Some (outbox_sha256 H le v), ef_errorClass := None,
    ef_updatedAt := now\<rparr>"
  have 4: "settle_effect i ?f ?s3 = (Inr (?f ?e), ?s3\<lparr>ob_file := OutboxFile (update_effect i ?f es1)\<rparr>)"
    using m(2) e(1) assms(3) by (simp add: settle_effect_def mutate_eq body_simps find_update requireEffect_def)
  have "dispatch_effect H le ads i args (AdapterReturned v) now s =
      (Inr (?f ?e), ?s3\<lparr>ob_file := OutboxFile (update_effect i ?f es1), ob_inFlight := (ob_inFlight s)(i := None)\<rparr>)"
    using 1 2 3 4 by (simp add: dispatch_effect_def dispatch_settle_def leave_flight_def bindS_def)
  then show ?thesis using m(2) by (auto simp: stored_def find_update)
qed

subsection \<open>Properties\<close>

text \<open>C36: Every step of the outbox, interleaved with any other, a crash or a failing disk, does to every stored intent
  nothing or one transition of its life cycle, prepared to authorised or cancelled, authorised to
  dispatched, dispatched to succeeded or failed, succeeded to compensated, each by its own operation; what the
  intent is bound to never changes, and new intents start prepared.\<close>

theorem outbox_refines_lifecycle:
  "(case stored s i of
      None \<Rightarrow> (case stored (outbox_step H le ads s l) i of None \<Rightarrow> True | Some y \<Rightarrow> created l i y)
    | Some x \<Rightarrow> (case stored (outbox_step H le ads s l) i of None \<Rightarrow> False
                 | Some y \<Rightarrow> y = x \<or> lifecycle H le l i x y \<and> intent_of y = intent_of x))"
  using step_simulates [of H le l i s ads] lifecycle_intent [of H le l i]
  by (auto simp: simulates_def split: option.splits)

text \<open>C37: An adapter is only ever called to dispatch for a stored intent that is dispatched or beyond, with the adapter, the
  action, the idempotency key and arguments of the digest the intent was prepared with; and that
  intent was authorised with its own view, proposal and approval kind, in this history or before
  the file was opened.\<close>

theorem calls_were_authorised:
  assumes "c \<in> set (ob_calls (outbox_run H le ads (opened f) ls))" and "call_payload c = DispatchArgs args"
  shows "\<exists>x. stored (outbox_run H le ads (opened f) ls) (call_effectId c) = Some x \<and>
    ef_state x \<in> {DISPATCHED, SUCCEEDED, FAILED, COMPENSATED} \<and>
    call_adapter c = ef_adapter x \<and> call_action c = ef_action x \<and> call_idempotencyKey c = ef_idempotencyKey x \<and>
    ef_canonicalArgsDigest x = outbox_sha256 H le args \<and>
    ((\<exists>now. Authorize (call_effectId c) (ef_viewId x) (ef_proposalId x) (ef_approvalRequirement x) now \<in> set ls) \<or>
     (\<exists>x0. stored (opened f) (call_effectId c) = Some x0 \<and> ef_state x0 \<notin> {PREPARED, CANCELLED}))"
proof -
  let ?s = "outbox_run H le ads (opened f) ls"
  from run_ok(2) [of H le ads f ls] assms(1) obtain x where
    x: "stored ?s (call_effectId c) = Some x" "begun (ef_state x)" "call_for H le c x" by (auto simp: calls_ok_def)
  then have "approved (ef_state x)" by (simp add: approved_def)
  from approved_by_history [OF x(1) this] have
    "(\<exists>now. Authorize (call_effectId c) (ef_viewId x) (ef_proposalId x) (ef_approvalRequirement x) now \<in> set ls) \<or>
     (\<exists>x0. stored (opened f) (call_effectId c) = Some x0 \<and> ef_state x0 \<notin> {PREPARED, CANCELLED})"
    by (auto simp: approved_def begun_def)
  with x assms(2) show ?thesis by (auto simp: begun_def call_for_def)
qed

text \<open>C38: An intent is dispatched to its adapter at most once, plus once for every dispatch that was interrupted after
  the adapter was called: the process stopped, or the step that settles it threw (the hook, the disk).
  In particular two dispatches of one intent that overlap call its adapter once.\<close>

theorem dispatched_once_unless_interrupted:
  "dispatches i (outbox_run H le ads (opened f) ls) \<le>
     1 + occurrences (outbox_step H le ads) (interrupted H le ads i) (opened f) ls"
proof -
  have "dispatches i (opened f) = 0" by (simp add: dispatches_def opened_def)
  moreover have "spent i (outbox_run H le ads (opened f) ls) \<le> 1" by (simp add: spent_def)
  ultimately show ?thesis using dispatches_bound [OF opened_ok(1) [of H le f], of i ads ls] by linarith
qed

text \<open>C39: After any history and a restart, an intent that is authorised, or was dispatched and left so by the crash, is
  brought to its end by dispatching it again: the adapter is called once more, under the same
  idempotency key, and its result is stored.\<close>

theorem dispatch_ends_after_restart:
  assumes "stored (outbox_run H le ads (opened f) (ls @ [Crash, Disk True])) i = Some x"
    and "ef_state x = AUTHORIZED \<or> ef_state x = DISPATCHED"
    and "requireAdapter ads (ef_adapter x) (ef_action x) = Inr a"
    and "ef_canonicalArgsDigest x = outbox_sha256 H le args"
  shows "\<exists>y s'. dispatch_effect H le ads i args (AdapterReturned v) now
      (outbox_run H le ads (opened f) (ls @ [Crash, Disk True])) = (Inr y, s') \<and>
    stored s' i = Some y \<and> ef_state y = SUCCEEDED \<and> ef_resultDigest y = Some (outbox_sha256 H le v) \<and>
    ob_calls s' = ob_calls (outbox_run H le ads (opened f) ls) @ [dispatch_record i x args]"
proof -
  let ?s = "outbox_run H le ads (opened f) (ls @ [Crash, Disk True])"
  have "?s = outbox_run H le ads (opened f) ((ls @ [Crash]) @ [Disk True])" by simp
  also have "\<dots> = (outbox_run H le ads (opened f) ls)\<lparr>ob_inFlight := Map.empty, ob_writable := True\<rparr>"
    by (simp only: outbox_run_simps(3) outbox_step.simps)
  finally have s: "?s = (outbox_run H le ads (opened f) ls)\<lparr>ob_inFlight := Map.empty, ob_writable := True\<rparr>" .
  with dispatch_ends [of ?s i x ads a] assms show ?thesis by simp
qed

subsection \<open>A history\<close>

text \<open>An intent is prepared, authorised and dispatched; the process stops after the adapter was called.\<close>

definition ex_adapters :: "effect_adapter list" where
  "ex_adapters = [\<lparr>ad_id = ''mail'', ad_actions = [''send''], ad_compensates = False\<rparr>]"

definition ex_effect :: effect_input where
  "ex_effect = \<lparr>ei_viewId = ''v1'', ei_proposalId = ''p1'', ei_adapter = ''mail'', ei_action = ''send'',
     ei_args = Some (JStr ''hello''), ei_idempotencyKey = ''k1'', ei_reversibility = Irreversible,
     ei_approvalRequirement = HumanApproval\<rparr>"

definition ex_history :: "outbox_label list" where
  "ex_history =
     [Prepare ex_effect ''e1'' ''t0'', Authorize ''e1'' ''v1'' ''p1'' HumanApproval ''t1'',
      Enter ''e1'' (Some (JStr ''hello'')), Mark ''e1'' ''t2'', Call ''e1'']"

definition any_order :: key_order where
  "any_order a b = True"

definition ex_run :: "outbox_label list \<Rightarrow> outbox" where
  "ex_run ls = outbox_run (\<lambda>t. t) any_order ex_adapters (opened NoOutboxFile) ls"

definition ex_intent :: "effect_state \<Rightarrow> string \<Rightarrow> effect_intent" where
  "ex_intent st now = (new_intent ex_effect (outbox_sha256 (\<lambda>t. t) any_order (Some (JStr ''hello''))) ''e1'' ''t0'')
     \<lparr>ef_state := st, ef_updatedAt := now\<rparr>"

lemma ex_run_history:
  "ex_run ex_history = \<lparr>ob_file = OutboxFile [ex_intent DISPATCHED ''t2''], ob_writable = True,
     ob_inFlight = [''e1'' \<mapsto> Called (ex_intent DISPATCHED ''t2'') (Some (JStr ''hello''))],
     ob_calls = [dispatch_record ''e1'' (ex_intent DISPATCHED ''t2'') (Some (JStr ''hello''))]\<rparr>"
proof -
  have "ex_run ex_history = outbox_run (\<lambda>t. t) any_order ex_adapters (opened NoOutboxFile) ex_history"
    by (simp add: ex_run_def)
  also have "\<dots> = \<lparr>ob_file = OutboxFile [ex_intent DISPATCHED ''t2''], ob_writable = True,
     ob_inFlight = [''e1'' \<mapsto> Called (ex_intent DISPATCHED ''t2'') (Some (JStr ''hello''))],
     ob_calls = [dispatch_record ''e1'' (ex_intent DISPATCHED ''t2'') (Some (JStr ''hello''))]\<rparr>"
    unfolding ex_history_def outbox_run_simps outbox_step.simps opened_def
    by (simp add: prepare_effect_def authorize_effect_def dispatch_enter_def dispatch_mark_def mark_dispatched_def
        dispatch_call_def mutate_eq body_simps bindS_def putS_def getS_def liftS_def set_phase_def log_call_def
        dispatch_record_def ex_intent_def new_intent_def ex_effect_def ex_adapters_def requireAdapter_def requireEffect_def
        find_effect_def leave_flight_def)
  finally show ?thesis .
qed

lemma calls_were_authorised_witness:
  "\<exists>x. stored (ex_run ex_history) ''e1'' = Some x \<and> ef_state x \<in> {DISPATCHED, SUCCEEDED, FAILED, COMPENSATED}"
  using calls_were_authorised [of "dispatch_record ''e1'' (ex_intent DISPATCHED ''t2'') (Some (JStr ''hello''))"
      "\<lambda>t. t" any_order ex_adapters NoOutboxFile ex_history "Some (JStr ''hello'')"]
    ex_run_history [unfolded ex_run_def]
  by (auto simp: ex_run_def dispatch_record_def)

lemma dispatch_ends_after_restart_witness:
  "\<exists>y s'. dispatch_effect (\<lambda>t. t) any_order ex_adapters ''e1'' (Some (JStr ''hello'')) (AdapterReturned None) ''t9''
      (ex_run (ex_history @ [Crash, Disk True])) = (Inr y, s') \<and> ef_state y = SUCCEEDED"
proof -
  have f: "ob_file (ex_run (ex_history @ [Crash, Disk True])) = OutboxFile [ex_intent DISPATCHED ''t2'']"
    using ex_run_history by (simp add: ex_run_def outbox_run_def)
  have "stored (ex_run (ex_history @ [Crash, Disk True])) ''e1'' = Some (ex_intent DISPATCHED ''t2'')"
    unfolding stored_def f by (simp add: find_effect_def ex_intent_def new_intent_def)
  from dispatch_ends_after_restart [OF this [unfolded ex_run_def], of "hd ex_adapters" "Some (JStr ''hello'')" None "''t9''"]
  show ?thesis
    by (auto simp: ex_run_def ex_intent_def new_intent_def ex_effect_def ex_adapters_def requireAdapter_def)
qed

end
