(* ===== verification/Redaction.thy ===== *)
theory Redaction
  imports Policy "HOL-Library.Sublist"
begin

text \<open>
  The redaction of texts that enter a receipt (\<^verbatim>\<open>redactReceiptText\<close> in
  \<^verbatim>\<open>commitgate/receipt-store.ts\<close>): the secrets a deployment names, the patterns of
  credentials, the length. The patterns are values of a small datatype of regular expressions with
  the backtracking order of the language: \<open>runs r prev s\<close> lists the prefixes of \<open>s\<close> that
  \<open>r\<close> matches after the character \<open>prev\<close>, the preferred one first. Exact for ASCII texts.
\<close>

subsection \<open>Regular expressions\<close>

datatype re =
    Chars "char \<Rightarrow> bool"
  | Many nat "char \<Rightarrow> bool" \<comment> \<open>greedy, at least so many\<close>
  | Word_Boundary
  | Skip
  | Seq re re
  | Alt re re

definition is_word :: "char option \<Rightarrow> bool" where
  "is_word c = (case c of None \<Rightarrow> False
     | Some c \<Rightarrow> c = CHR ''_'' \<or> is_digit c \<or> is_letter c)"

definition first_char :: "string \<Rightarrow> char option" where
  "first_char s = (case s of [] \<Rightarrow> None | c # _ \<Rightarrow> Some c)"

definition char_before :: "char option \<Rightarrow> string \<Rightarrow> char option" where
  "char_before prev m = (if m = [] then prev else Some (last m))"

fun runs :: "re \<Rightarrow> char option \<Rightarrow> string \<Rightarrow> string list" where
  "runs (Chars P) prev s = (case s of [] \<Rightarrow> [] | c # _ \<Rightarrow> if P c then [[c]] else [])"
| "runs (Many n P) prev s = map (\<lambda>i. take i s) (rev [n..<Suc (length (takeWhile P s))])"
| "runs Word_Boundary prev s = (if is_word prev \<noteq> is_word (first_char s) then [[]] else [])"
| "runs Skip prev s = [[]]"
| "runs (Seq a b) prev s =
     concat (map (\<lambda>x. map (\<lambda>y. x @ y) (runs b (char_before prev x) (drop (length x) s))) (runs a prev s))"
| "runs (Alt a b) prev s = runs a prev s @ runs b prev s"

text \<open>\<^verbatim>\<open>text.replace(/r/g, rep)\<close> for an expression that does not match the empty text.\<close>

function replace_re :: "re \<Rightarrow> string \<Rightarrow> char option \<Rightarrow> string \<Rightarrow> string" where
  "replace_re r rep prev [] = []"
| "replace_re r rep prev (c # cs) =
     (case runs r prev (c # cs) of
        (x # xs) # _ \<Rightarrow> rep @ replace_re r rep (Some (last (x # xs))) (drop (length xs) cs)
      | _ \<Rightarrow> c # replace_re r rep (Some c) cs)"
  by pat_completeness auto
termination by (relation "measure (\<lambda>(r, rep, prev, s). length s)") auto

text \<open>\<^verbatim>\<open>text.split(sub).join(rep)\<close> for a text \<open>sub\<close> that is not empty.\<close>

function replace_all :: "string \<Rightarrow> string \<Rightarrow> string \<Rightarrow> string" where
  "replace_all sub rep [] = []"
| "replace_all sub rep (c # cs) =
     (if prefix sub (c # cs) then rep @ replace_all sub rep (drop (length sub - 1) cs)
      else c # replace_all sub rep cs)"
  by pat_completeness auto
termination by (relation "measure (\<lambda>(sub, rep, s). length s)") auto

subsection \<open>The patterns\<close>

definition one_of :: "string \<Rightarrow> char \<Rightarrow> bool" where
  "one_of cs c \<longleftrightarrow> c \<in> set cs"

definition alnum :: "char \<Rightarrow> bool" where
  "alnum c \<longleftrightarrow> is_word (Some c) \<and> c \<noteq> CHR ''_''"

definition token_char :: "char \<Rightarrow> bool" where
  "token_char c \<longleftrightarrow> alnum c \<or> one_of ''_-'' c"

definition space_char :: "char \<Rightarrow> bool" where
  "space_char c \<longleftrightarrow> c = CHR '' '' \<or> 9 \<le> char_code c \<and> char_code c \<le> 13"

fun lit :: "string \<Rightarrow> re" where
  "lit [] = Skip"
| "lit (c # cs) = Seq (Chars (\<lambda>d. d = c)) (lit cs)"

definition to_lower :: "char \<Rightarrow> char" where
  "to_lower c = (if 65 \<le> char_code c \<and> char_code c \<le> 90 then char_of (char_code c + 32) else c)"

text \<open>With the flag \<^verbatim>\<open>i\<close>.\<close>

fun lit_any_case :: "string \<Rightarrow> re" where
  "lit_any_case [] = Skip"
| "lit_any_case (c # cs) = Seq (Chars (\<lambda>d. to_lower d = to_lower c)) (lit_any_case cs)"

fun seq :: "re list \<Rightarrow> re" where
  "seq [] = Skip"
| "seq (r # rs) = Seq r (seq rs)"

definition SECRET_PATTERNS :: "re list" where
  "SECRET_PATTERNS =
     [seq [Word_Boundary, Alt (lit ''sk'') (lit ''ak''), lit ''-'', Many 12 token_char, Word_Boundary],
      seq [Word_Boundary, Alt (lit ''cg1'') (lit ''rt1''), lit ''_'', Many 12 token_char, Word_Boundary],
      seq [Word_Boundary, lit ''cg1.'', Many 1 token_char, lit ''.'', Many 1 token_char, Word_Boundary],
      seq [Word_Boundary, lit_any_case ''Bearer'', Many 1 space_char, Many 1 (\<lambda>c. alnum c \<or> one_of ''._~+/-'' c),
           Many 0 (one_of ''=''), Word_Boundary],
      seq [Word_Boundary, lit_any_case ''ARK_API_KEY'', Many 0 space_char, lit ''='', Many 0 space_char,
           Many 1 (\<lambda>c. \<not> space_char c)],
      seq [Word_Boundary,
           Alt (seq [lit_any_case ''api'', Alt (Chars (one_of ''_-'')) Skip, lit_any_case ''key''])
             (Alt (lit_any_case ''token'') (Alt (lit_any_case ''secret'') (lit_any_case ''password''))),
           Many 0 space_char, Chars (one_of '':=''), Many 0 space_char,
           Many 1 (\<lambda>c. \<not> space_char c \<and> \<not> one_of '',;'' c)]]"

abbreviation REDACTED :: string where
  "REDACTED \<equiv> ''[REDACTED]''"

definition TRUNCATED :: string where
  "TRUNCATED = CHR 0x0A # ''[TRUNCATED]''"

definition remove_values :: "string list \<Rightarrow> string \<Rightarrow> string" where
  "remove_values sensitiveValues value =
     foldl (\<lambda>s v. if v = [] then s else replace_all v REDACTED s) value sensitiveValues"

definition remove_patterns :: "string \<Rightarrow> string" where
  "remove_patterns s = foldl (\<lambda>s r. replace_re r REDACTED None s) s SECRET_PATTERNS"

definition redactReceiptText :: "nat \<Rightarrow> string list \<Rightarrow> string \<Rightarrow> string" where
  "redactReceiptText maxBytes sensitiveValues value =
     (let out = remove_patterns (remove_values sensitiveValues value)
      in if length out \<le> maxBytes then out else take maxBytes out @ TRUNCATED)"

subsection \<open>A secret does not come back\<close>

text \<open>A text with some parts replaced by the mark.\<close>

inductive blotted :: "string \<Rightarrow> string \<Rightarrow> bool" where
  nil: "blotted [] []"
| copy: "blotted x y \<Longrightarrow> blotted (c # x) (c # y)"
| blot: "blotted x y \<Longrightarrow> blotted (m @ x) (REDACTED @ y)"

definition plain :: "string \<Rightarrow> bool" where
  "plain v \<longleftrightarrow> v \<noteq> [] \<and> set v \<inter> {CHR ''['', CHR '']'', CHR 0x0A} = {} \<and>
     \<not> sublist v REDACTED \<and> \<not> sublist v TRUNCATED"

lemma blotted_refl: "blotted x x"
  by (induction x) (auto intro: blotted.intros)

lemma blotted_prefix: "blotted x y \<Longrightarrow> CHR ''['' \<notin> set v \<Longrightarrow> prefix v y \<Longrightarrow> prefix v x"
proof (induction x y arbitrary: v rule: blotted.induct)
  case (copy x y c)
  then show ?case by (cases v) auto
next
  case (blot x y m)
  then show ?case by (cases v) auto
qed simp

lemma blotted_hides:
  assumes "blotted x y" and "plain v" and "sublist v y"
  shows "sublist v x"
  using assms(1,3)
proof (induction rule: blotted.induct)
  case (copy x y c)
  from copy.prems have "prefix v (c # y) \<or> sublist v y" by (simp add: sublist_Cons_right)
  moreover have "prefix v (c # y) \<Longrightarrow> prefix v (c # x)"
    by (rule blotted_prefix [OF blotted.copy [OF copy.hyps]]) (use assms(2) in \<open>auto simp: plain_def\<close>)
  ultimately show ?case using copy.IH by (auto simp: sublist_Cons_right)
next
  case (blot x y m)
  have v: "CHR ''['' \<notin> set v" "CHR '']'' \<notin> set v" "\<not> sublist v REDACTED" using assms(2) by (auto simp: plain_def)
  from blot.prems consider "sublist v REDACTED" | "sublist v y"
    | v1 v2 where "v = v1 @ v2" "suffix v1 REDACTED" "prefix v2 y"
    unfolding sublist_append by blast
  then show ?case
  proof cases
    case 2
    then show ?thesis using blot.IH by (simp add: sublist_append)
  next
    case 3
    have "v1 = []"
    proof (rule ccontr)
      assume "v1 \<noteq> []"
      with 3(2) have "last v1 = CHR '']''" by (auto simp: suffix_def dest: arg_cong [where f = last])
      with \<open>v1 \<noteq> []\<close> v(2) 3(1) show False by (metis Un_iff last_in_set set_append)
    qed
    with 3 blotted_prefix [OF blot.hyps v(1)] show ?thesis by (auto simp: sublist_append dest: prefix_imp_sublist)
  qed (use v in simp)
qed simp

lemma runs_prefix: "m \<in> set (runs r prev s) \<Longrightarrow> prefix m s"
proof (induction r arbitrary: prev s m)
  case (Chars P)
  then show ?case by (auto split: list.splits if_splits)
next
  case (Many n P)
  then show ?case by (auto simp: take_is_prefix)
next
  case (Seq a b)
  then obtain x y where xy: "m = x @ y" "x \<in> set (runs a prev s)" "y \<in> set (runs b (char_before prev x) (drop (length x) s))"
    by auto
  from Seq.IH(1) [OF xy(2)] Seq.IH(2) [OF xy(3)] show ?case unfolding xy(1)
    by (metis append_take_drop_id append_eq_conv_conj prefix_def same_prefix_prefix)
qed (auto split: if_splits)

lemma replace_re_blotted: "blotted s (replace_re r REDACTED prev s)"
proof (induction "length s" arbitrary: s prev rule: less_induct)
  case less
  show ?case
  proof (cases s)
    case Nil
    then show ?thesis by (simp add: blotted.nil)
  next
  case (Cons c cs)
  note s = Cons
  have step: "blotted (c # cs) (c # replace_re r REDACTED (Some c) cs)"
    using less [of cs "Some c"] s by (simp add: blotted.copy)
  show ?thesis
  proof (cases "runs r prev (c # cs)")
    case Nil
    with step s show ?thesis by simp
  next
    case (Cons m ms)
    show ?thesis
    proof (cases m)
      case Nil
      with Cons step s show ?thesis by simp
    next
      case m: (Cons x xs)
      have "prefix (x # xs) (c # cs)" using runs_prefix [of m r prev "c # cs"] Cons m by simp
      then have "cs = xs @ drop (length xs) cs" "x = c" by (auto simp: prefix_def)
      then have eq: "c # cs = (x # xs) @ drop (length xs) cs" by simp
      have "blotted ((x # xs) @ drop (length xs) cs) (REDACTED @ replace_re r REDACTED (Some (last (x # xs))) (drop (length xs) cs))"
        by (rule blotted.blot) (use less s in simp)
      then show ?thesis using Cons m eq s by simp
    qed
  qed
  qed
qed

lemma replace_all_blotted: "sub \<noteq> [] \<Longrightarrow> blotted s (replace_all sub REDACTED s)"
proof (induction sub REDACTED s rule: replace_all.induct)
  case (2 sub c cs)
  show ?case
  proof (cases "prefix sub (c # cs)")
    case True
    with \<open>sub \<noteq> []\<close> obtain xs where sub: "sub = c # xs" "prefix xs cs" by (cases sub) auto
    then have eq: "c # cs = sub @ drop (length xs) cs" by (auto simp: prefix_def)
    have "blotted (sub @ drop (length xs) cs) (REDACTED @ replace_all sub REDACTED (drop (length xs) cs))"
      by (rule blotted.blot) (use 2 True sub in simp)
    then show ?thesis using True eq sub by simp
  qed (use 2 in \<open>simp add: blotted.copy\<close>)
qed (simp add: blotted.nil)

lemma replace_all_removes: "plain v \<Longrightarrow> \<not> sublist v (replace_all v REDACTED s)"
proof (induction v REDACTED s rule: replace_all.induct)
  case (1 sub)
  then show ?case by (simp add: plain_def)
next
  case (2 sub c cs)
  have sub: "sub \<noteq> []" "CHR ''['' \<notin> set sub" using 2(3) by (auto simp: plain_def)
  show ?case
  proof (cases "prefix sub (c # cs)")
    case True
    let ?rest = "drop (length sub - 1) cs"
    have rest: "\<not> sublist sub (replace_all sub REDACTED ?rest)" using 2 True by simp
    have "blotted (replace_all sub REDACTED ?rest) (REDACTED @ replace_all sub REDACTED ?rest)"
      using blotted.blot [OF blotted_refl, of "[]"] by simp
    with rest blotted_hides 2(3) have "\<not> sublist sub (REDACTED @ replace_all sub REDACTED ?rest)" by blast
    with True show ?thesis by simp
  next
    case False
    have "\<not> prefix sub (c # replace_all sub REDACTED cs)"
    proof
      assume "prefix sub (c # replace_all sub REDACTED cs)"
      from blotted_prefix [OF blotted.copy [OF replace_all_blotted [OF sub(1)]] sub(2) this] False show False by simp
    qed
    with False 2 show ?thesis by (simp add: sublist_Cons_right)
  qed
qed

lemma blotted_trans_hides:
  "blotted x y \<Longrightarrow> plain v \<Longrightarrow> \<not> sublist v x \<Longrightarrow> \<not> sublist v y"
  using blotted_hides by blast

lemma remove_values_hides:
  assumes "plain v" and "\<not> sublist v s"
  shows "\<not> sublist v (remove_values vs s)"
  using assms(2) unfolding remove_values_def
proof (induction vs arbitrary: s)
  case (Cons w vs)
  have "\<not> sublist v (if w = [] then s else replace_all w REDACTED s)"
    using Cons.prems blotted_trans_hides [OF replace_all_blotted assms(1)] by simp
  with Cons.IH show ?case by simp
qed simp

lemma remove_values_removes:
  assumes "plain v" and "v \<in> set vs"
  shows "\<not> sublist v (remove_values vs s)"
  using assms(2)
proof (induction vs arbitrary: s)
  case (Cons w vs)
  show ?case
  proof (cases "v = w")
    case True
    have "w \<noteq> []" using assms(1) True by (simp add: plain_def)
    with remove_values_hides [OF assms(1) replace_all_removes [OF assms(1)], of vs s] True
    show ?thesis by (simp add: remove_values_def)
  next
    case False
    with Cons show ?thesis by (simp add: remove_values_def)
  qed
qed simp

lemma remove_patterns_hides:
  assumes "plain v" and "\<not> sublist v s"
  shows "\<not> sublist v (remove_patterns s)"
proof -
  have "\<not> sublist v (foldl (\<lambda>s r. replace_re r REDACTED None s) s rs)" for rs
    using assms(2)
  proof (induction rs arbitrary: s)
    case (Cons r rs)
    from Cons.IH [OF blotted_trans_hides [OF replace_re_blotted assms(1) Cons.prems]] show ?case by simp
  qed simp
  then show ?thesis by (simp add: remove_patterns_def)
qed

lemma truncated_hides:
  assumes "plain v" and out: "\<not> sublist v out"
  shows "\<not> sublist v (if length out \<le> n then out else take n out @ TRUNCATED)"
proof -
  have "\<not> sublist v (take n out @ TRUNCATED)"
  proof
    assume "sublist v (take n out @ TRUNCATED)"
    then consider "sublist v (take n out)" | "sublist v TRUNCATED"
      | v1 v2 where "v = v1 @ v2" "suffix v1 (take n out)" "prefix v2 TRUNCATED"
      by (auto simp: sublist_append)
    then show False
    proof cases
      case 1
      then show ?thesis using out by (meson sublist_order.order_trans sublist_take)
    next
      case 2
      then show ?thesis using assms(1) by (simp add: plain_def)
    next
      case 3
      have "v2 = []"
      proof (rule ccontr)
        assume "v2 \<noteq> []"
        with 3(3) have "hd v2 = CHR 0x0A" by (cases v2) (auto simp: TRUNCATED_def)
        with \<open>v2 \<noteq> []\<close> 3(1) assms(1) show False by (cases v2) (auto simp: plain_def)
      qed
      with 3 out show ?thesis
        by (metis append_Nil2 sublist_order.order_trans sublist_take suffix_imp_sublist)
    qed
  qed
  with out show ?thesis by simp
qed

lemma redacted_hides:
  "plain v \<Longrightarrow> v \<in> set sensitiveValues \<Longrightarrow> \<not> sublist v (redactReceiptText maxBytes sensitiveValues value)"
  unfolding redactReceiptText_def Let_def
  by (intro truncated_hides remove_patterns_hides remove_values_removes)

lemma redact_keeps_hidden:
  "plain v \<Longrightarrow> \<not> sublist v value \<Longrightarrow> \<not> sublist v (redactReceiptText maxBytes sensitiveValues value)"
  unfolding redactReceiptText_def Let_def
  by (intro truncated_hides remove_patterns_hides remove_values_hides)

end
