(* ===== verification/Crash.thy ===== *)
theory Crash
  imports Effects Manifest Permit_Store
begin

text \<open>
  The files a workspace transaction works on, and operations over them that may fail or stop at
  any input or output. The state holds directory trees by path, the promotion journals by path,
  and a list of faults: each input or output takes the next one. It works, throws, or the process
  stops there; a removal or a copy that does not complete leaves any tree behind, a rename and a
  journal write (a rename itself, \<^verbatim>\<open>commitgate/atomic-json.ts\<close>) happen or do not. With no
  faults left everything works. A fact that holds for every list of faults holds for every crash.

  \<open>wp m Q E s\<close> says of running \<open>m\<close> from \<open>s\<close> that \<open>Q\<close> holds of what is returned and
  \<open>E\<close> of what is thrown, each with the state left.
\<close>

subsection \<open>State\<close>

datatype journal_kind = Promotion | Rollback

datatype journal_state = PREPARING | PROMOTING | PROMOTED_PENDING_DB | ACKNOWLEDGED | ROLLED_BACK

record journal =
  jn_schemaVersion :: int
  jn_runId :: string
  jn_agentId :: string
  jn_kind :: journal_kind
  jn_state :: journal_state
  jn_persistentPath :: string
  jn_stagingPath :: string
  jn_backupPath :: string
  jn_sourcePath :: string
  jn_baseHash :: string
  jn_targetHash :: string
  jn_targetVersionId :: "string option"
  jn_proposalId :: "string option"
  jn_permitId :: "string option"
  jn_baseViewId :: "string option"
  jn_evaluationContextHash :: "string option"
  jn_createdAt :: string
  jn_updatedAt :: string

datatype fault = Works | Throws js_error "fs_node option" | Stops "fs_node option"

record control =
  c_dirs :: "string \<rightharpoonup> fs_node"
  c_journals :: "string \<rightharpoonup> journal"
  c_faults :: "fault list"

text \<open>What an operation may throw; \<open>Stopped\<close> is the end of the process, which nothing catches.\<close>

datatype tx_error =
    TxError js_error
  | StateConflict string
  | RecoveryRequired string
  | VersionFault string
  | PermitFault permit_error
  | SealError string string
  | Stopped

type_synonym ('r, 'a) tx = "('r control_scheme, tx_error, 'a) eff"

subsection \<open>Input and output\<close>

definition io :: "('r control_scheme \<Rightarrow> 'r control_scheme) \<Rightarrow>
    (fs_node option \<Rightarrow> 'r control_scheme \<Rightarrow> 'r control_scheme) \<Rightarrow> ('r, unit) tx" where
  "io f partial s =
     (case c_faults s of
        [] \<Rightarrow> (Inr (), f s)
      | Works # fs \<Rightarrow> (Inr (), f (s\<lparr>c_faults := fs\<rparr>))
      | Throws e t # fs \<Rightarrow> (Inl (TxError e), partial t (s\<lparr>c_faults := fs\<rparr>))
      | Stops t # fs \<Rightarrow> (Inl Stopped, partial t (s\<lparr>c_faults := fs\<rparr>)))"

abbreviation look :: "('r, unit) tx" where
  "look \<equiv> io (\<lambda>s. s) (\<lambda>t s. s)"

abbreviation tx_res :: "'a res \<Rightarrow> ('r, 'a) tx" where
  "tx_res r \<equiv> liftS (mapErr TxError r)"

abbreviation tx_throw :: "string \<Rightarrow> ('r, 'a) tx" where
  "tx_throw msg \<equiv> throwS (TxError (JsError msg))"

definition pathExists :: "string \<Rightarrow> ('r, bool) tx" where
  "pathExists p = bindS look (\<lambda>_. getS (\<lambda>s. c_dirs s p \<noteq> None))"

text \<open>\<^verbatim>\<open>rm(p, {recursive, force})\<close>: no error when there is nothing.\<close>

definition rm_dir :: "string \<Rightarrow> ('r, unit) tx" where
  "rm_dir p = io (\<lambda>s. s\<lparr>c_dirs := (c_dirs s)(p := None)\<rparr>)
     (\<lambda>t s. if c_dirs s p = None then s else s\<lparr>c_dirs := (c_dirs s)(p := t)\<rparr>)"

fun is_empty_dir :: "fs_node option \<Rightarrow> bool" where
  "is_empty_dir (Some (FDir _ [])) = True"
| "is_empty_dir _ = False"

definition rename_dir :: "string \<Rightarrow> string \<Rightarrow> ('r, unit) tx" where
  "rename_dir src dst = bindS (getS c_dirs) (\<lambda>dirs.
     if dirs src = None then tx_throw ''ENOENT''
     else if dirs dst \<noteq> None \<and> \<not> is_empty_dir (dirs dst) then tx_throw ''ENOTEMPTY''
     else io (\<lambda>s. s\<lparr>c_dirs := (c_dirs s)(dst := c_dirs s src, src := None)\<rparr>) (\<lambda>t s. s))"

definition write_journal :: "string \<Rightarrow> journal \<Rightarrow> ('r, unit) tx" where
  "write_journal p j = io (\<lambda>s. s\<lparr>c_journals := (c_journals s)(p \<mapsto> j)\<rparr>) (\<lambda>t s. s)"

definition read_journal :: "string \<Rightarrow> ('r, journal) tx" where
  "read_journal p = bindS look (\<lambda>_. bindS (getS (\<lambda>s. c_journals s p)) (\<lambda>j.
     case j of None \<Rightarrow> tx_throw ''ENOENT'' | Some j \<Rightarrow> returnS j))"

definition updateJournal :: "string \<Rightarrow> journal \<Rightarrow> journal_state \<Rightarrow> string \<Rightarrow> ('r, journal) tx" where
  "updateJournal p j st now =
     (let next = j\<lparr>jn_state := st, jn_updatedAt := now\<rparr> in bindS (write_journal p next) (\<lambda>_. returnS next))"

definition build_at :: "walk_env \<Rightarrow> string \<Rightarrow> ('r, snapshot_manifest) tx" where
  "build_at env p = bindS look (\<lambda>_. bindS (getS (\<lambda>s. c_dirs s p)) (\<lambda>t.
     case t of None \<Rightarrow> tx_throw ''ENOENT'' | Some t \<Rightarrow> tx_res (buildManifest env t)))"

definition change_tree :: "string \<Rightarrow> (fs_node \<Rightarrow> fs_node res) \<Rightarrow> ('r, unit) tx" where
  "change_tree p f = bindS (getS (\<lambda>s. c_dirs s p)) (\<lambda>t.
     case t of None \<Rightarrow> tx_throw ''ENOENT''
     | Some t \<Rightarrow> bindS (tx_res (f t)) (\<lambda>t'.
         io (\<lambda>s. s\<lparr>c_dirs := (c_dirs s)(p \<mapsto> t')\<rparr>) (\<lambda>t s. s\<lparr>c_dirs := (c_dirs s)(p := t)\<rparr>)))"

text \<open>\<^verbatim>\<open>try m catch (e) h\<close>.\<close>

definition catchS :: "('r, 'a) tx \<Rightarrow> (tx_error \<Rightarrow> ('r, 'a) tx) \<Rightarrow> ('r, 'a) tx" where
  "catchS m h s = (case m s of
     (Inr x, s') \<Rightarrow> (Inr x, s')
   | (Inl e, s') \<Rightarrow> if e = Stopped then (Inl e, s') else h e s')"

subsection \<open>Assertions\<close>

definition wp :: "('s, 'e, 'a) eff \<Rightarrow> ('a \<Rightarrow> 's \<Rightarrow> bool) \<Rightarrow> ('e \<Rightarrow> 's \<Rightarrow> bool) \<Rightarrow> 's \<Rightarrow> bool" where
  "wp m Q E s \<longleftrightarrow> (case m s of (Inr x, s') \<Rightarrow> Q x s' | (Inl e, s') \<Rightarrow> E e s')"

lemma wpD: "wp m Q E s \<Longrightarrow> m s = (Inr x, s') \<Longrightarrow> Q x s'" "wp m Q E s \<Longrightarrow> m s = (Inl e, s') \<Longrightarrow> E e s'"
  by (simp_all add: wp_def)

lemma wpI: "(\<And>x s'. m s = (Inr x, s') \<Longrightarrow> Q x s') \<Longrightarrow> (\<And>e s'. m s = (Inl e, s') \<Longrightarrow> E e s') \<Longrightarrow> wp m Q E s"
  by (auto simp: wp_def split: prod.splits sum.splits)

named_theorems wp_simps \<open>assertions of single steps\<close>

lemma wp_bind [wp_simps]: "wp (bindS m f) Q E = wp m (\<lambda>x. wp (f x) Q E) E"
  by (rule ext) (auto simp: wp_def bindS_def split: prod.splits sum.splits)

lemma wp_return [wp_simps]: "wp (returnS x) Q E = Q x"
  by (rule ext) (simp add: wp_def returnS_def)

lemma wp_throw [wp_simps]: "wp (throwS e) Q E = E e"
  by (rule ext) (simp add: wp_def throwS_def)

lemma wp_get [wp_simps]: "wp (getS f) Q E = (\<lambda>s. Q (f s) s)"
  by (rule ext) (simp add: wp_def getS_def)

lemma wp_put [wp_simps]: "wp (putS f) Q E = (\<lambda>s. Q () (f s))"
  by (rule ext) (simp add: wp_def putS_def)

lemma wp_res [wp_simps]: "wp (liftS (mapErr f r)) Q E = (\<lambda>s. case r of Inl e \<Rightarrow> E (f e) s | Inr x \<Rightarrow> Q x s)"
  by (rule ext) (simp add: wp_def liftS_def mapErr_def split: sum.splits)

lemma wp_if [wp_simps]: "wp (if b then m else n) Q E = (\<lambda>s. if b then wp m Q E s else wp n Q E s)"
  by simp

lemma wp_option [wp_simps]:
  "wp (case v of None \<Rightarrow> m | Some x \<Rightarrow> f x) Q E =
     (\<lambda>s. case v of None \<Rightarrow> wp m Q E s | Some x \<Rightarrow> wp (f x) Q E s)"
  by (rule ext) (simp split: option.splits)

lemma wp_io:
  assumes "\<And>fs. Q () (f (s\<lparr>c_faults := fs\<rparr>))"
    and "\<And>fs t e. E e (partial t (s\<lparr>c_faults := fs\<rparr>))"
  shows "wp (io f partial) Q E s"
proof -
  have "s = s\<lparr>c_faults := c_faults s\<rparr>" by simp
  with assms(1) [of "c_faults s"] assms show ?thesis
    by (auto simp: wp_def io_def split: list.splits fault.splits)
qed

lemma wp_catch [wp_simps]:
  "wp (catchS m h) Q E = wp m Q (\<lambda>e s'. if e = Stopped then E e s' else wp (h e) Q E s')"
  by (rule ext) (auto simp: wp_def catchS_def split: prod.splits sum.splits)

lemma wp_mono:
  assumes "wp m Q E s" and "\<And>x s'. Q x s' \<Longrightarrow> Q' x s'" and "\<And>e s'. E e s' \<Longrightarrow> E' e s'"
  shows "wp m Q' E' s"
  using assms by (auto simp: wp_def split: prod.splits sum.splits)

subsection \<open>What operations leave alone\<close>

lemma wp_keeps:
  assumes "keeps R m" and "wp m Q E s"
  shows "wp m (\<lambda>x s'. Q x s' \<and> R s s') (\<lambda>e s'. E e s' \<and> R s s') s"
  using assms unfolding wp_def keeps_def by (auto split: prod.splits sum.splits) (metis snd_conv)+

text \<open>
  A relation between the states before and after that faults do not break: operations built from
  inputs and outputs that keep it keep it, whatever they catch.
\<close>

locale tx_frame = preorder_rel R for R :: "'r control_scheme \<Rightarrow> 'r control_scheme \<Rightarrow> bool" +
  assumes faults: "R s (s\<lparr>c_faults := fs\<rparr>)"
begin

lemma keeps_io:
  assumes f: "\<And>s. R s (f s)" and p: "\<And>t s. R s (partial t s)"
  shows "keeps R (io f partial)"
proof (rule keepsI)
  fix s
  have "R s (f (s\<lparr>c_faults := fs\<rparr>))" "R s (partial t (s\<lparr>c_faults := fs\<rparr>))" for fs t
    using trans [OF faults f] trans [OF faults p] by blast+
  with f show "R s (snd (io f partial s))" by (simp add: io_def split: list.splits fault.splits)
qed

lemma keeps_look: "keeps R look"
  by (rule keeps_io) (simp_all add: refl)

lemma keeps_catch:
  assumes m: "keeps R m" and h: "\<And>e. keeps R (h e)"
  shows "keeps R (catchS m h)"
proof (rule keepsI)
  fix s
  obtain r s1 where ms: "m s = (r, s1)" by (cases "m s")
  with keepsD [OF m] have "R s s1" by blast
  moreover have "R s1 (snd (h e s1))" for e using h by (simp add: keeps_def)
  ultimately show "R s (snd (catchS m h s))" using ms trans by (cases r) (auto simp: catchS_def)
qed

lemma keeps_case_option: "keeps R m \<Longrightarrow> (\<And>x. keeps R (f x)) \<Longrightarrow> keeps R (case v of None \<Rightarrow> m | Some x \<Rightarrow> f x)"
  by (simp split: option.splits)

lemma keeps_case_prod: "(\<And>x y. keeps R (f x y)) \<Longrightarrow> keeps R (case v of (x, y) \<Rightarrow> f x y)"
  by (simp split: prod.splits)

lemma keeps_exists: "keeps R (pathExists p)"
  unfolding pathExists_def by (intro keeps_intros keeps_look)

lemma keeps_build: "keeps R (build_at env p)"
  unfolding build_at_def by (intro keeps_intros keeps_look keeps_case_option)

lemma keeps_read: "keeps R (read_journal p)"
  unfolding read_journal_def by (intro keeps_intros keeps_look keeps_case_option)

lemmas frame_intros = keeps_intros keeps_look keeps_catch keeps_case_option keeps_case_prod keeps_exists keeps_build keeps_read

end

end
