(* ===== verification/Workspace_Tx.thy ===== *)
theory Workspace_Tx
  imports Crash Rollback_Store
begin

text \<open>
  The workspace transaction (\<^verbatim>\<open>commitgate/workspace-transaction.ts\<close>): a new tree is staged,
  the journal written, the base compared, the authorisation consumed, and the staged tree swapped
  in by two renames with the old tree kept as backup; a failing swap is undone. \<open>promote\<close> is the
  private method both entry points end in.

  \<^verbatim>\<open>copyWorkspace\<close> is an option of the class and an argument here (\<open>copy\<close>: the source tree,
  the destination's tree if it exists, the path classes, whether the destination is emptied
  first). The time stamps of one operation are one argument \<open>now\<close>; \<open>stamp\<close> is the text of
  \<^verbatim>\<open>Date.now()\<close> in the name of a failed tree. Whether two paths are on one device is the argument
  \<open>sameDevice\<close>. Control paths are absolute and normal.
\<close>

type_synonym copy_fn = "fs_node \<Rightarrow> fs_node option \<Rightarrow> path_class list \<Rightarrow> bool \<Rightarrow> fs_node res"

record tx_env =
  te_walk :: walk_env
  te_copy :: copy_fn
  te_sameDevice :: bool
  te_now :: string
  te_stamp :: string

abbreviation authoritative :: "path_class list" where
  "authoritative \<equiv> [Versioned, PlatformManaged]"

definition manifest_of :: "tx_env \<Rightarrow> path_class list \<Rightarrow> fs_node \<Rightarrow> snapshot_manifest res" where
  "manifest_of te include = buildManifest ((te_walk te)\<lparr>we_include := include\<rparr>)"

abbreviation manifest_at :: "tx_env \<Rightarrow> path_class list \<Rightarrow> string \<Rightarrow> ('r, snapshot_manifest) tx" where
  "manifest_at te include \<equiv> build_at ((te_walk te)\<lparr>we_include := include\<rparr>)"

subsection \<open>Modes of a staged tree\<close>

definition with_mode :: "int \<Rightarrow> stats \<Rightarrow> stats" where
  "with_mode mode s = s\<lparr>st_mode := (st_mode s div 512) * 512 + mode mod 512\<rparr>"

fun chmod_at :: "string list \<Rightarrow> int \<Rightarrow> fs_node \<Rightarrow> fs_node res"
  and chmod_in :: "string \<Rightarrow> string list \<Rightarrow> int \<Rightarrow> (string \<times> fs_node) list \<Rightarrow> (string \<times> fs_node) list res" where
  "chmod_at [] mode (FDir s cs) = Inr (FDir (with_mode mode s) cs)"
| "chmod_at [] mode (FFile s b u) = Inr (FFile (with_mode mode s) b u)"
| "chmod_at [] mode (FSpecial s) = Inr (FSpecial (with_mode mode s))"
| "chmod_at (seg # segs) mode (FDir s cs) = bindE (chmod_in seg segs mode cs) (\<lambda>cs'. Inr (FDir s cs'))"
| "chmod_at segs mode n = Inl (JsError ''ENOENT'')"
| "chmod_in seg segs mode [] = Inl (JsError ''ENOENT'')"
| "chmod_in seg segs mode ((name, n) # cs) =
     (if name = seg then bindE (chmod_at segs mode n) (\<lambda>n'. Inr ((name, n') # cs))
      else bindE (chmod_in seg segs mode cs) (\<lambda>cs'. Inr ((name, n) # cs')))"

definition depth :: "manifest_entry \<Rightarrow> nat" where
  "depth e = length (split_on slash (me_path e))"

text \<open>Files first, then directories from the deepest up.\<close>

definition mode_order :: "path_class list \<Rightarrow> manifest_entry list \<Rightarrow> manifest_entry list" where
  "mode_order include es =
     (let selected = filter (\<lambda>e. me_pathClass e \<in> set include) es
      in filter (\<lambda>e. me_type e = EFile) selected @
         rev (sort_key depth (rev (filter (\<lambda>e. me_type e = EDir) selected))))"

fun apply_modes :: "manifest_entry list \<Rightarrow> fs_node \<Rightarrow> fs_node res" where
  "apply_modes [] t = Inr t"
| "apply_modes (e # es) t =
     (let segs = normal_segments (me_path e)
      in if segs \<noteq> [] \<and> hd segs = ''..'' then Inl (JsError ''manifest mode path escapes its trusted root'')
         else bindE (chmod_at segs (me_mode e) t) (apply_modes es))"

definition applyManifestModes :: "path_class list \<Rightarrow> snapshot_manifest \<Rightarrow> fs_node \<Rightarrow> fs_node res" where
  "applyManifestModes include m = apply_modes (mode_order include (sm_entries m))"

subsection \<open>Promotion\<close>

record 'w promote_input =
  pi_runId :: string
  pi_agentId :: string
  pi_persistentPath :: string
  pi_controlPath :: string
  pi_sourcePath :: string
  pi_baseHash :: string
  pi_expectedTargetHash :: "string option"
  pi_expectedSourceVersionedHash :: "string option"
  pi_kind :: journal_kind
  pi_targetVersionId :: "string option"
  pi_proposalId :: "string option"
  pi_permitId :: "string option"
  pi_baseViewId :: "string option"
  pi_evaluationContextHash :: "string option"
  pi_proposalManifest :: "snapshot_manifest option"
  pi_assertCurrentView :: "('w \<Rightarrow> bool res) option"
  pi_consumeAuthorization :: "('w, tx_error, unit) eff option"

definition staging_path :: "'w promote_input \<Rightarrow> string" where
  "staging_path i = pi_controlPath i @ ''/staging/'' @ pi_runId i"

definition backup_path :: "'w promote_input \<Rightarrow> string" where
  "backup_path i = pi_controlPath i @ ''/backups/'' @ pi_runId i"

definition journal_path :: "'w promote_input \<Rightarrow> string" where
  "journal_path i = pi_controlPath i @ ''/journals/'' @ pi_runId i @ ''.json''"

definition failed_path :: "tx_env \<Rightarrow> string \<Rightarrow> string \<Rightarrow> string" where
  "failed_path te controlPath runId = controlPath @ ''/failed/'' @ runId @ ''-'' @ te_stamp te"

definition assertSameFilesystem :: "tx_env \<Rightarrow> string \<Rightarrow> ('r, unit) tx" where
  "assertSameFilesystem te persistentPath =
     bindS look (\<lambda>_. bindS (getS (\<lambda>s. c_dirs s persistentPath)) (\<lambda>t.
       if t = None then tx_throw ''ENOENT''
       else if \<not> te_sameDevice te then tx_throw ''EXDEV_UNSUPPORTED_FILESYSTEM'' else returnS ()))"

text \<open>\<^verbatim>\<open>if (expected)\<close>: absent and empty are both false.\<close>

definition expected_hash :: "string option \<Rightarrow> string option" where
  "expected_hash h = (if h = Some [] then None else h)"

definition check_versioned :: "tx_env \<Rightarrow> string option \<Rightarrow> string \<Rightarrow> string \<Rightarrow> ('r, unit) tx" where
  "check_versioned te expected p msg =
     (case expected_hash expected of
        None \<Rightarrow> returnS ()
      | Some h \<Rightarrow> bindS (manifest_at te [Versioned] p) (\<lambda>m. if sm_hash m \<noteq> h then tx_throw msg else returnS ()))"

definition copy_dir :: "tx_env \<Rightarrow> string \<Rightarrow> string \<Rightarrow> path_class list \<Rightarrow> bool \<Rightarrow> ('r, unit) tx" where
  "copy_dir te src dst include clean =
     bindS (getS c_dirs) (\<lambda>dirs.
       case dirs src of
         None \<Rightarrow> tx_throw ''ENOENT''
       | Some t \<Rightarrow> bindS (tx_res (te_copy te t (dirs dst) include clean)) (\<lambda>t'.
           io (\<lambda>s. s\<lparr>c_dirs := (c_dirs s)(dst \<mapsto> t')\<rparr>) (\<lambda>t s. s\<lparr>c_dirs := (c_dirs s)(dst := t)\<rparr>)))"

definition stage_tree :: "tx_env \<Rightarrow> 'w promote_input \<Rightarrow> ('r, snapshot_manifest) tx" where
  "stage_tree te i =
     bindS (rm_dir (staging_path i)) (\<lambda>_.
     bindS (rm_dir (backup_path i)) (\<lambda>_.
     bindS (check_versioned te (pi_expectedSourceVersionedHash i) (pi_sourcePath i)
              ''Rollback snapshot hash does not match version metadata'') (\<lambda>_.
     bindS (copy_dir te (pi_sourcePath i) (staging_path i) [Versioned] True) (\<lambda>_.
     bindS (copy_dir te (pi_persistentPath i) (staging_path i) [PlatformManaged] False) (\<lambda>_.
     bindS (case pi_proposalManifest i of
              Some m \<Rightarrow> if pi_kind i \<noteq> Rollback then change_tree (staging_path i) (applyManifestModes authoritative m)
                         else returnS ()
            | None \<Rightarrow> returnS ()) (\<lambda>_.
     bindS (check_versioned te (pi_expectedSourceVersionedHash i) (staging_path i)
              ''Rollback staging bytes do not match the permitted snapshot'') (\<lambda>_.
     bindS (manifest_at te authoritative (staging_path i)) (\<lambda>staged.
       case expected_hash (pi_expectedTargetHash i) of
         None \<Rightarrow> returnS staged
       | Some h \<Rightarrow> if sm_hash staged \<noteq> h then tx_throw ''Staging workspace does not match verified candidate hash''
                   else returnS staged))))))))"

definition new_journal :: "tx_env \<Rightarrow> 'w promote_input \<Rightarrow> string \<Rightarrow> journal" where
  "new_journal te i target =
     \<lparr>jn_schemaVersion = 1, jn_runId = pi_runId i, jn_agentId = pi_agentId i, jn_kind = pi_kind i,
      jn_state = PREPARING, jn_persistentPath = pi_persistentPath i, jn_stagingPath = staging_path i,
      jn_backupPath = backup_path i, jn_sourcePath = pi_sourcePath i, jn_baseHash = pi_baseHash i,
      jn_targetHash = target, jn_targetVersionId = pi_targetVersionId i, jn_proposalId = pi_proposalId i,
      jn_permitId = pi_permitId i, jn_baseViewId = pi_baseViewId i,
      jn_evaluationContextHash = pi_evaluationContextHash i, jn_createdAt = te_now te, jn_updatedAt = te_now te\<rparr>"

definition discard :: "tx_env \<Rightarrow> 'w promote_input \<Rightarrow> journal \<Rightarrow> ('r, unit) tx" where
  "discard te i j = bindS (rm_dir (staging_path i)) (\<lambda>_.
     bindS (updateJournal (journal_path i) j ROLLED_BACK (te_now te)) (\<lambda>_. returnS ()))"

text \<open>The swap itself; what it returns on failure is the error and whether the backup exists.\<close>

definition swap_in :: "tx_env \<Rightarrow> 'w promote_input \<Rightarrow> snapshot_manifest \<Rightarrow> ('r, (tx_error \<times> bool) option) tx" where
  "swap_in te i staged =
     catchS (bindS (rename_dir (pi_persistentPath i) (backup_path i)) (\<lambda>_.
             catchS (bindS (rename_dir (staging_path i) (pi_persistentPath i)) (\<lambda>_.
                     bindS (manifest_at te authoritative (pi_persistentPath i)) (\<lambda>final.
                       if sm_hash final \<noteq> sm_hash staged
                       then tx_throw ''Promoted workspace hash does not match staging hash'' else returnS None)))
               (\<lambda>e. returnS (Some (e, True)))))
       (\<lambda>e. returnS (Some (e, False)))"

definition set_aside :: "string \<Rightarrow> string \<Rightarrow> ('r, unit) tx" where
  "set_aside persistentPath failedPath =
     bindS (pathExists persistentPath) (\<lambda>there.
       if there then bindS look (\<lambda>_. rename_dir persistentPath failedPath) else returnS ())"

definition undo_swap :: "tx_env \<Rightarrow> 'w promote_input \<Rightarrow> journal \<Rightarrow> bool \<Rightarrow> ('r, unit) tx" where
  "undo_swap te i j backupCreated =
     bindS (if backupCreated then
              bindS (set_aside (pi_persistentPath i) (failed_path te (pi_controlPath i) (pi_runId i))) (\<lambda>_.
              bindS (pathExists (backup_path i)) (\<lambda>there.
              bindS (if there then rename_dir (backup_path i) (pi_persistentPath i) else returnS ()) (\<lambda>_.
              bindS (manifest_at te authoritative (pi_persistentPath i)) (\<lambda>restored.
                if sm_hash restored \<noteq> pi_baseHash i
                then tx_throw ''Promotion failure recovery restored an unexpected workspace hash'' else returnS ()))))
            else returnS ()) (\<lambda>_.
     bindS (updateJournal (journal_path i) j ROLLED_BACK (te_now te)) (\<lambda>_. returnS ()))"

text \<open>The comparison with the current state, and the authorisation consumed; either failing discards the run.\<close>

definition admit_swap :: "tx_env \<Rightarrow> ('r control_scheme) promote_input \<Rightarrow> journal \<Rightarrow> ('r, unit) tx" where
  "admit_swap te i j =
     bindS (manifest_at te authoritative (pi_persistentPath i)) (\<lambda>current.
     bindS (case pi_assertCurrentView i of
              None \<Rightarrow> returnS True
            | Some f \<Rightarrow> bindS (getS f) (\<lambda>r. tx_res r)) (\<lambda>currentViewMatches.
     if sm_hash current \<noteq> pi_baseHash i \<or> \<not> currentViewMatches
     then bindS (discard te i j) (\<lambda>_.
            throwS (StateConflict ''Persistent workspace changed after candidate preparation''))
     else
       case pi_consumeAuthorization i of
         None \<Rightarrow> returnS ()
       | Some consume \<Rightarrow> catchS consume (\<lambda>e. bindS (discard te i j) (\<lambda>_. throwS e))))"

definition swap_phase :: "tx_env \<Rightarrow> 'w promote_input \<Rightarrow> journal \<Rightarrow> snapshot_manifest \<Rightarrow> ('r, journal) tx" where
  "swap_phase te i j staged =
     bindS (updateJournal (journal_path i) j PROMOTING (te_now te)) (\<lambda>j.
     bindS (swap_in te i staged) (\<lambda>failure.
     case failure of
       None \<Rightarrow>
         catchS (updateJournal (journal_path i) j PROMOTED_PENDING_DB (te_now te))
           (\<lambda>_. throwS (RecoveryRequired
              ''Promotion completed but the pending database journal state was not persisted''))
     | Some (e, backupCreated) \<Rightarrow>
         bindS (catchS (undo_swap te i j backupCreated)
                  (\<lambda>_. throwS (RecoveryRequired
                    ''Promotion failed after swap began and automatic restoration did not complete''))) (\<lambda>_. throwS e)))"

definition promote_tx :: "tx_env \<Rightarrow> ('r control_scheme) promote_input \<Rightarrow> ('r, journal) tx" where
  "promote_tx te i =
     bindS (tx_res (assertSafeIdentifier (pi_runId i) ''runId'')) (\<lambda>_.
     bindS (tx_res (assertSafeIdentifier (pi_agentId i) ''agentId'')) (\<lambda>_.
     bindS (assertSameFilesystem te (pi_persistentPath i)) (\<lambda>_.
     bindS look (\<lambda>_.
     bindS (stage_tree te i) (\<lambda>staged.
     let j = new_journal te i (sm_hash staged) in
     bindS (write_journal (journal_path i) j) (\<lambda>_.
     bindS (admit_swap te i j) (\<lambda>_.
     swap_phase te i j staged)))))))"

subsection \<open>Settling and recovery\<close>

text \<open>\<^verbatim>\<open>path.dirname\<close> of an absolute normal path of at least two segments.\<close>

definition dirname :: "string \<Rightarrow> string" where
  "dirname p = rev (tl (dropWhile (\<lambda>c. c \<noteq> slash) (rev p)))"

definition rollbackJournal :: "tx_env \<Rightarrow> journal \<Rightarrow> string \<Rightarrow> ('r, unit) tx" where
  "rollbackJournal te j journalPath =
     (if jn_state j = ROLLED_BACK then returnS ()
      else if jn_state j = ACKNOWLEDGED then tx_throw ''Acknowledged transaction cannot be rolled back''
      else
        bindS (pathExists (jn_backupPath j)) (\<lambda>there.
        bindS (if there then
                 bindS (set_aside (jn_persistentPath j) (failed_path te (dirname (dirname (jn_backupPath j))) (jn_runId j))) (\<lambda>_.
                 rename_dir (jn_backupPath j) (jn_persistentPath j))
               else returnS ()) (\<lambda>_.
        bindS (manifest_at te authoritative (jn_persistentPath j)) (\<lambda>restored.
        if sm_hash restored \<noteq> jn_baseHash j
        then tx_throw ''Recovery restored a workspace with an unexpected hash''
        else
          bindS (rm_dir (jn_stagingPath j)) (\<lambda>_.
          bindS (updateJournal journalPath j ROLLED_BACK (te_now te)) (\<lambda>_. returnS ()))))))"

text \<open>
  The two methods of the handle a promotion returns. They share the flag \<^verbatim>\<open>settled\<close>; each
  returns its new value.
\<close>

definition handle_acknowledge :: "tx_env \<Rightarrow> string \<Rightarrow> string \<Rightarrow> bool \<Rightarrow> ('r, bool) tx" where
  "handle_acknowledge te journalPath backupPath settled =
     (if settled then returnS True
      else bindS (read_journal journalPath) (\<lambda>j.
        if jn_state j = ACKNOWLEDGED then returnS settled
        else if jn_state j \<noteq> PROMOTED_PENDING_DB then tx_throw ''Cannot acknowledge transaction''
        else bindS (rm_dir backupPath) (\<lambda>_.
          bindS (updateJournal journalPath j ACKNOWLEDGED (te_now te)) (\<lambda>_. returnS True))))"

definition handle_rollback :: "tx_env \<Rightarrow> string \<Rightarrow> bool \<Rightarrow> ('r, bool) tx" where
  "handle_rollback te journalPath settled =
     (if settled then returnS True
      else bindS (read_journal journalPath) (\<lambda>j.
        bindS (rollbackJournal te j journalPath) (\<lambda>_. returnS True)))"

subsection \<open>The sealed payload\<close>

definition write_bits :: "int \<Rightarrow> bool" where
  "write_bits mode \<longleftrightarrow> (mode div 128) mod 2 = 1 \<or> (mode div 16) mod 2 = 1 \<or> (mode div 2) mod 2 = 1"

definition without_write :: "int \<Rightarrow> int" where
  "without_write mode = mode - 128 * ((mode div 128) mod 2) - 16 * ((mode div 16) mod 2) - 2 * ((mode div 2) mod 2)"

definition sealed_entry :: "(string \<rightharpoonup> manifest_entry) \<Rightarrow> manifest_entry \<Rightarrow> (string \<times> string) + manifest_entry" where
  "sealed_entry expectedByPath e =
     (case expectedByPath (me_path e) of
        None \<Rightarrow> Inl (''SEALED_PAYLOAD_CORRUPT'', ''SEALED_PAYLOAD_ENTRY_MISMATCH:'' @ me_path e)
      | Some x \<Rightarrow>
          if me_type e \<noteq> me_type x \<or> me_size e \<noteq> me_size x \<or> me_contentHash e \<noteq> me_contentHash x \<or>
             me_linkTarget e \<noteq> me_linkTarget x \<or> me_pathClass e \<noteq> me_pathClass x \<or>
             me_mode e \<noteq> without_write (me_mode x)
          then Inl (''SEALED_PAYLOAD_CORRUPT'', ''SEALED_PAYLOAD_ENTRY_MISMATCH:'' @ me_path e)
          else Inr (e\<lparr>me_mode := me_mode x\<rparr>))"

abbreviation seal_throw :: "string \<Rightarrow> ('r, 'a) tx" where
  "seal_throw msg \<equiv> throwS (SealError ''SEALED_PAYLOAD_CORRUPT'' msg)"

definition readonly_root :: "fs_node \<Rightarrow> bool" where
  "readonly_root t \<longleftrightarrow> (case t of FDir s cs \<Rightarrow> \<not> write_bits (st_mode s) | _ \<Rightarrow> False)"

definition assertReadonlySealedPayload :: "tx_env \<Rightarrow> string \<Rightarrow> snapshot_manifest \<Rightarrow> ('r, unit) tx" where
  "assertReadonlySealedPayload te payloadPath m =
     bindS look (\<lambda>_. bindS (getS (\<lambda>s. c_dirs s payloadPath)) (\<lambda>root.
     case root of
       None \<Rightarrow> tx_throw ''ENOENT''
     | Some t \<Rightarrow>
         if \<not> readonly_root t then seal_throw ''SEALED_PAYLOAD_ROOT_NOT_READONLY''
         else
           bindS (manifest_at te authoritative payloadPath) (\<lambda>physical.
           bindS (liftS (mapErr (\<lambda>(code, msg). SealError code msg)
                    (mapE (sealed_entry (by_path (sm_entries m))) (sm_entries physical)))) (\<lambda>normalized.
           if length normalized \<noteq> length (sm_entries m) then seal_throw ''SEALED_PAYLOAD_ENTRY_COUNT_MISMATCH''
           else if sm_schemaVersion m \<noteq> 2 \<or> sm_hash m \<noteq> hashManifestEntries (we_H (te_walk te)) normalized
           then seal_throw ''SEALED_MANIFEST_DIGEST_MISMATCH''
           else look))))"

subsection \<open>The two entry points\<close>

record 'w authorized_promote =
  ap_runId :: string
  ap_agentId :: string
  ap_persistentPath :: string
  ap_controlPath :: string
  ap_capability :: promotion_capability
  ap_consume :: "('w, tx_error, unit) eff"
  ap_assertCurrentView :: "'w \<Rightarrow> bool res"

definition capability_mismatch :: "string \<Rightarrow> string \<Rightarrow> promotion_capability \<Rightarrow> bool" where
  "capability_mismatch runId agentId c \<longleftrightarrow>
     pp_state (cap_permit c) \<noteq> CONSUMING \<or> pp_runId (cap_permit c) \<noteq> runId \<or> pp_agentId (cap_permit c) \<noteq> agentId \<or>
     pp_proposalId (cap_permit c) \<noteq> sp_proposalId (cap_proposal c) \<or>
     pp_baseViewId (cap_permit c) \<noteq> viewId (cap_baseView c) \<or>
     pp_targetArtifactHash (cap_permit c) \<noteq> sp_artifactHash (cap_proposal c) \<or>
     sp_baseViewId (cap_proposal c) \<noteq> viewId (cap_baseView c) \<or> sp_state (cap_proposal c) \<noteq> SEALED"

definition authorized_input :: "('w) authorized_promote \<Rightarrow> 'w promote_input" where
  "authorized_input a = (let c = ap_capability a in
     \<lparr>pi_runId = ap_runId a, pi_agentId = ap_agentId a, pi_persistentPath = ap_persistentPath a,
      pi_controlPath = ap_controlPath a, pi_sourcePath = cap_proposalPath c,
      pi_baseHash = liveStateHash (cap_baseView c), pi_expectedTargetHash = Some (sp_manifestHash (cap_proposal c)),
      pi_expectedSourceVersionedHash = None, pi_kind = Promotion, pi_targetVersionId = None,
      pi_proposalId = Some (sp_proposalId (cap_proposal c)), pi_permitId = Some (pp_permitId (cap_permit c)),
      pi_baseViewId = Some (viewId (cap_baseView c)),
      pi_evaluationContextHash = Some (pp_evaluationContextHash (cap_permit c)),
      pi_proposalManifest = Some (cap_proposalManifest c), pi_assertCurrentView = Some (ap_assertCurrentView a),
      pi_consumeAuthorization = Some (ap_consume a)\<rparr>)"

definition promoteAuthorized :: "key_order \<Rightarrow> tx_env \<Rightarrow> int \<Rightarrow> ('r control_scheme) authorized_promote \<Rightarrow> ('r, journal) tx" where
  "promoteAuthorized le te clock a = (let c = ap_capability a; source = cap_proposalManifest c in
     if capability_mismatch (ap_runId a) (ap_agentId a) c then tx_throw ''PROMOTION_CAPABILITY_BINDING_MISMATCH''
     else if expired_at (pp_expiresAt (cap_permit c)) clock then tx_throw ''PROMOTION_PERMIT_EXPIRED_BEFORE_SWAP''
     else bindS (assertReadonlySealedPayload te (cap_proposalPath c) source) (\<lambda>_.
       if sm_hash source \<noteq> sp_manifestHash (cap_proposal c) \<or>
          artifact_hash (we_H (te_walk te)) le source \<noteq> sp_artifactHash (cap_proposal c)
       then tx_throw ''PROMOTION_SOURCE_IS_NOT_SEALED_PROPOSAL''
       else promote_tx te (authorized_input a)))"

record 'w authorized_rollback =
  ar_persistentPath :: string
  ar_controlPath :: string
  ar_capability :: rollback_capability
  ar_consume :: "('w, tx_error, unit) eff"

definition rollback_input :: "'w authorized_rollback \<Rightarrow> 'w promote_input" where
  "rollback_input a = (let p = rcap_permit (ar_capability a) in
     \<lparr>pi_runId = rp_runId p, pi_agentId = rp_agentId p, pi_persistentPath = ar_persistentPath a,
      pi_controlPath = ar_controlPath a, pi_sourcePath = rcap_snapshotPath (ar_capability a),
      pi_baseHash = rp_baseHash p, pi_expectedTargetHash = None,
      pi_expectedSourceVersionedHash = Some (rp_targetSnapshotHash p), pi_kind = Rollback,
      pi_targetVersionId = Some (rp_targetVersionId p), pi_proposalId = None,
      pi_permitId = Some (rp_rollbackPermitId p), pi_baseViewId = None, pi_evaluationContextHash = None,
      pi_proposalManifest = None, pi_assertCurrentView = None, pi_consumeAuthorization = Some (ar_consume a)\<rparr>)"

definition rollbackAuthorized :: "tx_env \<Rightarrow> int \<Rightarrow> ('r control_scheme) authorized_rollback \<Rightarrow> ('r, journal) tx" where
  "rollbackAuthorized te clock a = (let p = rcap_permit (ar_capability a) in
     if rp_state p \<noteq> CONSUMING then tx_throw ''ROLLBACK_PERMIT_NOT_CONSUMING''
     else if expired_at (rp_expiresAt p) clock then tx_throw ''ROLLBACK_PERMIT_EXPIRED_BEFORE_SWAP''
     else promote_tx te (rollback_input a))"

end
