(* ===== verification/Version_Store.thy ===== *)
theory Version_Store
  imports Workspace_Tx
begin

text \<open>
  The version store (\<^verbatim>\<open>commitgate/version-store.ts\<close>): the index of an agent's versions and
  snapshots, recording, reverting, pruning by count and bytes, and the staged rollback that goes
  through a rollback permit and the workspace transaction. An operation on one agent runs to its
  end before the next (the promise queue). The index is a file written atomically; snapshot
  payloads are directories below the agent's control root; every input or output may fail or be
  the last (\<open>Crash\<close>). A snapshot in an index is found by its hash; \<open>find\<close> is the first.
\<close>

datatype vs_kind = INITIAL | AGENT_COMMIT | ROLLBACK

record version_record =
  ve_id :: string
  ve_agentId :: string
  ve_sequence :: int
  ve_kind :: vs_kind
  ve_snapshotHash :: string
  ve_policyHash :: string
  ve_parentVersionId :: "string option"
  ve_rollbackTargetVersionId :: "string option"
  ve_runId :: "string option"
  ve_createdAt :: string
  ve_snapshotAvailable :: bool

record snapshot_record =
  sn_hash :: string
  sn_relativePath :: string
  sn_sizeBytes :: int
  sn_refCount :: int
  sn_createdAt :: string
  sn_prunedAt :: "string option"

record version_index =
  vi_schemaVersion :: int
  vi_agentId :: string
  vi_headVersionId :: "string option"
  vi_versions :: "version_record list"
  vi_snapshots :: "snapshot_record list"

text \<open>A pending rollback keeps the handle of its promotion: the two paths and the settled flag.\<close>

record pending_rollback =
  pr_agentId :: string
  pr_journalPath :: string
  pr_backupPath :: string
  pr_settled :: bool

record version_world = control +
  vw_indexes :: "string \<rightharpoonup> version_index"
  vw_permits :: rollback_store
  vw_pending :: "string \<rightharpoonup> pending_rollback"

type_synonym ('r, 'a) vs_op = "('r version_world_scheme, tx_error, 'a) eff"

record vs_env =
  vs_tx :: tx_env
  vs_le :: key_order
  vs_controlRoot :: string
  vs_maxUniqueSnapshots :: int
  vs_maxPayloadBytes :: int
  vs_uuid :: string
  vs_permitUuid :: string
  vs_nonce :: string
  vs_clock :: int

subsection \<open>The index\<close>

definition empty_index :: "string \<Rightarrow> version_index" where
  "empty_index agentId =
     \<lparr>vi_schemaVersion = 1, vi_agentId = agentId, vi_headVersionId = None, vi_versions = [], vi_snapshots = []\<rparr>"

definition find_version :: "version_index \<Rightarrow> string option \<Rightarrow> version_record option" where
  "find_version vi vid = List.find (\<lambda>v. Some (ve_id v) = vid) (vi_versions vi)"

definition find_snapshot :: "version_index \<Rightarrow> string \<Rightarrow> snapshot_record option" where
  "find_snapshot vi h = List.find (\<lambda>s. sn_hash s = h) (vi_snapshots vi)"

fun update_first :: "('a \<Rightarrow> bool) \<Rightarrow> ('a \<Rightarrow> 'a) \<Rightarrow> 'a list \<Rightarrow> 'a list" where
  "update_first P f [] = []"
| "update_first P f (x # xs) = (if P x then f x # xs else x # update_first P f xs)"

definition set_available :: "string \<Rightarrow> bool \<Rightarrow> version_record \<Rightarrow> version_record" where
  "set_available h b v = (if ve_snapshotHash v = h then v\<lparr>ve_snapshotAvailable := b\<rparr> else v)"

definition references :: "version_record list \<Rightarrow> string \<Rightarrow> nat" where
  "references vs h = length (filter (\<lambda>v. ve_snapshotHash v = h) vs)"

definition adopt_snapshot :: "string \<Rightarrow> int \<Rightarrow> string \<Rightarrow> version_index \<Rightarrow> version_index" where
  "adopt_snapshot h bytes now vi =
     vi\<lparr>vi_snapshots := filter (\<lambda>s. sn_hash s \<noteq> h) (vi_snapshots vi) @
          [\<lparr>sn_hash = h, sn_relativePath = ''snapshots/'' @ h, sn_sizeBytes = bytes,
            sn_refCount = int (references (vi_versions vi) h), sn_createdAt = now, sn_prunedAt = None\<rparr>],
        vi_versions := map (set_available h True) (vi_versions vi)\<rparr>"

definition next_sequence :: "version_index \<Rightarrow> int" where
  "next_sequence vi = (if vi_versions vi = [] then 0 else ve_sequence (last (vi_versions vi))) + 1"

definition add_version :: "version_record \<Rightarrow> version_index \<Rightarrow> version_index" where
  "add_version v vi =
     vi\<lparr>vi_snapshots := update_first (\<lambda>s. sn_hash s = ve_snapshotHash v) (\<lambda>s. s\<lparr>sn_refCount := sn_refCount s + 1\<rparr>)
          (vi_snapshots vi),
        vi_versions := vi_versions vi @ [v], vi_headVersionId := Some (ve_id v)\<rparr>"

definition drop_version :: "version_record \<Rightarrow> version_index \<Rightarrow> version_index" where
  "drop_version head vi =
     vi\<lparr>vi_versions := filter (\<lambda>v. ve_id v \<noteq> ve_id head) (vi_versions vi),
        vi_headVersionId := ve_parentVersionId head,
        vi_snapshots := update_first (\<lambda>s. sn_hash s = ve_snapshotHash head)
          (\<lambda>s. s\<lparr>sn_refCount := max 0 (sn_refCount s - 1)\<rparr>) (vi_snapshots vi)\<rparr>"

subsection \<open>Pruning\<close>

definition unpruned :: "version_index \<Rightarrow> snapshot_record list" where
  "unpruned vi = filter (\<lambda>s. sn_prunedAt s = None) (vi_snapshots vi)"

definition total_bytes :: "snapshot_record list \<Rightarrow> int" where
  "total_bytes ss = sum_list (map sn_sizeBytes ss)"

definition protected_hashes :: "version_index \<Rightarrow> string list" where
  "protected_hashes vi =
     filter (\<lambda>h. h \<noteq> [])
       ((case List.find (\<lambda>v. ve_kind v = INITIAL) (vi_versions vi) of None \<Rightarrow> [] | Some v \<Rightarrow> [ve_snapshotHash v]) @
        (case find_version vi (vi_headVersionId vi) of None \<Rightarrow> [] | Some v \<Rightarrow> [ve_snapshotHash v]))"

definition mark_pruned :: "string \<Rightarrow> string \<Rightarrow> version_index \<Rightarrow> version_index" where
  "mark_pruned now h vi =
     vi\<lparr>vi_snapshots := update_first (\<lambda>s. sn_hash s = h \<and> sn_prunedAt s = None) (\<lambda>s. s\<lparr>sn_prunedAt := Some now\<rparr>)
          (vi_snapshots vi),
        vi_versions := map (set_available h False) (vi_versions vi)\<rparr>"

definition within_limits :: "vs_env \<Rightarrow> snapshot_record list \<Rightarrow> int \<Rightarrow> bool" where
  "within_limits env available bytes \<longleftrightarrow>
     int (length available) \<le> vs_maxUniqueSnapshots env \<and> bytes \<le> vs_maxPayloadBytes env"

text \<open>The loop: candidates oldest first, with what is still available, its bytes and the payloads to delete.\<close>

fun prune_loop :: "vs_env \<Rightarrow> string list \<Rightarrow> snapshot_record list \<Rightarrow> snapshot_record list \<Rightarrow> int \<Rightarrow> version_index \<Rightarrow>
    string list \<Rightarrow> version_index \<times> string list" where
  "prune_loop env prot [] available bytes vi payloads = (vi, payloads)"
| "prune_loop env prot (s # ss) available bytes vi payloads =
     (if within_limits env available bytes then (vi, payloads)
      else if sn_hash s \<in> set prot then prune_loop env prot ss available bytes vi payloads
      else prune_loop env prot ss (filter (\<lambda>a. sn_hash a \<noteq> sn_hash s) available) (bytes - sn_sizeBytes s)
             (mark_pruned (te_now (vs_tx env)) (sn_hash s) vi) (payloads @ [sn_relativePath s]))"

definition oldest_first :: "key_order \<Rightarrow> snapshot_record list \<Rightarrow> snapshot_record list" where
  "oldest_first le ss = map snd (sort_members le (map (\<lambda>s. (sn_createdAt s, s)) ss))"

definition prune_index :: "vs_env \<Rightarrow> version_index \<Rightarrow> version_index \<times> string list" where
  "prune_index env vi =
     (let available = unpruned vi; bytes = total_bytes available
      in if within_limits env available bytes then (vi, [])
         else prune_loop env (protected_hashes vi) (oldest_first (vs_le env) available) available bytes vi [])"

subsection \<open>Files\<close>

definition agentRoot :: "vs_env \<Rightarrow> string \<Rightarrow> string res" where
  "agentRoot env agentId =
     bindE (assertSafeIdentifier agentId ''agentId'') (\<lambda>_. Inr (vs_controlRoot env @ ''/'' @ agentId))"

definition payload_path :: "string \<Rightarrow> string \<Rightarrow> string" where
  "payload_path root relative = root @ ''/'' @ relative"

definition load_index :: "vs_env \<Rightarrow> string \<Rightarrow> ('r, version_index) vs_op" where
  "load_index env agentId =
     bindS (tx_res (agentRoot env agentId)) (\<lambda>_.
     bindS look (\<lambda>_. bindS (getS (\<lambda>s. vw_indexes s agentId)) (\<lambda>v.
       returnS (case v of None \<Rightarrow> empty_index agentId | Some vi \<Rightarrow> vi))))"

definition persist_index :: "vs_env \<Rightarrow> version_index \<Rightarrow> ('r, unit) vs_op" where
  "persist_index env vi =
     bindS (tx_res (agentRoot env (vi_agentId vi))) (\<lambda>_.
     bindS look (\<lambda>_.
     io (\<lambda>s. s\<lparr>vw_indexes := (vw_indexes s)(vi_agentId vi \<mapsto> vi)\<rparr>) (\<lambda>t s. s)))"

text \<open>\<^verbatim>\<open>rm(...).catch(() => undefined)\<close>, path after path.\<close>

fun rm_quiet :: "string list \<Rightarrow> ('r, unit) tx" where
  "rm_quiet [] = returnS ()"
| "rm_quiet (p # ps) = bindS (catchS (rm_dir p) (\<lambda>_. returnS ())) (\<lambda>_. rm_quiet ps)"

definition prune :: "vs_env \<Rightarrow> version_index \<Rightarrow> ('r, version_index) vs_op" where
  "prune env vi =
     bindS (tx_res (agentRoot env (vi_agentId vi))) (\<lambda>root.
     bindS (rm_quiet (map (\<lambda>s. payload_path root (sn_relativePath s))
              (filter (\<lambda>s. sn_prunedAt s \<noteq> None) (vi_snapshots vi)))) (\<lambda>_.
     let (vi', payloads) = prune_index env vi in
     if payloads = [] then returnS vi'
     else bindS (persist_index env vi') (\<lambda>_.
          bindS (rm_quiet (map (payload_path root) payloads)) (\<lambda>_. returnS vi'))))"

subsection \<open>Recording\<close>

record record_input =
  re_agentId :: string
  re_workspacePath :: string
  re_kind :: vs_kind
  re_runId :: "string option"
  re_manifestOverride :: "snapshot_manifest option"

definition override_manifest :: "vs_env \<Rightarrow> snapshot_manifest \<Rightarrow> snapshot_manifest" where
  "override_manifest env m =
     (let es = filter (\<lambda>e. me_pathClass e = Versioned) (sm_entries m)
      in \<lparr>sm_schemaVersion = 2, sm_entries = es, sm_hash = hashManifestEntries (we_H (te_walk (vs_tx env))) es\<rparr>)"

definition entries_bytes :: "manifest_entry list \<Rightarrow> int" where
  "entries_bytes es = sum_list (map (\<lambda>e. if me_type e = EFile then me_size e else 0) es)"

definition import_snapshot :: "vs_env \<Rightarrow> string \<Rightarrow> record_input \<Rightarrow> snapshot_manifest \<Rightarrow> ('r, unit) tx" where
  "import_snapshot env path i m =
     (let te = vs_tx env in
      bindS (copy_dir te (re_workspacePath i) path [Versioned] True) (\<lambda>_.
      bindS (case re_manifestOverride i of
               None \<Rightarrow> returnS ()
             | Some om \<Rightarrow> change_tree path (applyManifestModes [Versioned] om)) (\<lambda>_.
      bindS (manifest_at te [Versioned] path) (\<lambda>copied.
      if sm_hash copied \<noteq> sm_hash m
      then bindS (rm_dir path) (\<lambda>_. tx_throw ''VERSION_SNAPSHOT_CHANGED_DURING_IMPORT'')
      else returnS ()))))"

definition new_version :: "vs_env \<Rightarrow> record_input \<Rightarrow> string \<Rightarrow> string \<Rightarrow> vs_kind \<Rightarrow> string option \<Rightarrow> version_index \<Rightarrow> version_record" where
  "new_version env i h policy_hash kind target vi =
     \<lparr>ve_id = ''v'' @ int_text (next_sequence vi) @ ''-'' @ take 10 h @ ''-'' @ take 8 (vs_uuid env),
      ve_agentId = re_agentId i, ve_sequence = next_sequence vi, ve_kind = kind, ve_snapshotHash = h,
      ve_policyHash = policy_hash, ve_parentVersionId = vi_headVersionId vi,
      ve_rollbackTargetVersionId = target, ve_runId = re_runId i, ve_createdAt = te_now (vs_tx env),
      ve_snapshotAvailable = True\<rparr>"

definition needs_import :: "version_index \<Rightarrow> string \<Rightarrow> bool \<Rightarrow> bool" where
  "needs_import vi h there \<longleftrightarrow>
     (case find_snapshot vi h of None \<Rightarrow> True | Some s \<Rightarrow> sn_prunedAt s \<noteq> None \<or> \<not> there)"

text \<open>From the version's record on: the reference, the new head, pruning, the file.\<close>

definition finish_record :: "vs_env \<Rightarrow> record_input \<Rightarrow> vs_kind \<Rightarrow> string option \<Rightarrow> bool \<Rightarrow> string \<Rightarrow> version_index \<Rightarrow>
    ('r, version_record \<times> version_index) vs_op" where
  "finish_record env i kind target deferPrune h vi1 =
     bindS (tx_res (policyHash (we_H (te_walk (vs_tx env))) (we_policy (te_walk (vs_tx env))))) (\<lambda>policy_hash.
     let v = new_version env i h policy_hash kind target vi1; vi2 = add_version v vi1 in
     bindS (if deferPrune then returnS vi2 else prune env vi2) (\<lambda>vi3.
     bindS (persist_index env vi3) (\<lambda>_.
     returnS (case find_version vi3 (Some (ve_id v)) of Some v' \<Rightarrow> v' | None \<Rightarrow> v, vi3))))"

definition import_needed :: "vs_env \<Rightarrow> record_input \<Rightarrow> version_index \<Rightarrow> snapshot_manifest \<Rightarrow> string \<Rightarrow> bool \<Rightarrow>
    ('r, version_index) tx" where
  "import_needed env i vi m path there =
     (if needs_import vi (sm_hash m) there
      then bindS (import_snapshot env path i m) (\<lambda>_.
             returnS (adopt_snapshot (sm_hash m) (entries_bytes (sm_entries m)) (te_now (vs_tx env)) vi))
      else returnS vi)"

definition payload_there :: "version_index \<Rightarrow> string \<Rightarrow> string \<Rightarrow> ('r, bool) tx" where
  "payload_there vi h path =
     (case find_snapshot vi h of
        Some s \<Rightarrow> if sn_prunedAt s = None then pathExists path else returnS False
      | None \<Rightarrow> returnS False)"

definition recordUnlocked :: "vs_env \<Rightarrow> version_index \<Rightarrow> record_input \<Rightarrow> vs_kind \<Rightarrow> string option \<Rightarrow> bool \<Rightarrow>
    ('r, version_record \<times> version_index) vs_op" where
  "recordUnlocked env vi i kind target deferPrune =
     bindS (case re_manifestOverride i of
              Some m \<Rightarrow> returnS (override_manifest env m)
            | None \<Rightarrow> manifest_at (vs_tx env) [Versioned] (re_workspacePath i)) (\<lambda>m.
     bindS (tx_res (agentRoot env (re_agentId i))) (\<lambda>root.
     bindS (payload_there vi (sm_hash m) (payload_path root (''snapshots/'' @ sm_hash m))) (\<lambda>there.
     bindS (import_needed env i vi m (payload_path root (''snapshots/'' @ sm_hash m)) there) (\<lambda>vi1.
     finish_record env i kind target deferPrune (sm_hash m) vi1))))"

definition initializeAgent :: "vs_env \<Rightarrow> string \<Rightarrow> string \<Rightarrow> ('r, version_record) vs_op" where
  "initializeAgent env agentId workspacePath =
     bindS (load_index env agentId) (\<lambda>vi.
     case vi_versions vi of
       v # _ \<Rightarrow> returnS v
     | [] \<Rightarrow> bindS (recordUnlocked env vi \<lparr>re_agentId = agentId, re_workspacePath = workspacePath, re_kind = INITIAL, re_runId = None, re_manifestOverride = None\<rparr>
                 INITIAL None False) (\<lambda>(v, _). returnS v))"

record commit_options =
  co_deferPrune :: bool
  co_sourcePath :: "string option"
  co_sourceManifest :: "snapshot_manifest option"

definition recordCommit :: "vs_env \<Rightarrow> string \<Rightarrow> string \<Rightarrow> string \<Rightarrow> commit_options \<Rightarrow> ('r, version_record) vs_op" where
  "recordCommit env agentId workspacePath runId options =
     bindS (load_index env agentId) (\<lambda>vi.
     case List.find (\<lambda>v. ve_kind v = AGENT_COMMIT \<and> ve_runId v = Some runId) (vi_versions vi) of
       Some v \<Rightarrow> returnS v
     | None \<Rightarrow>
         bindS (if vi_versions vi = []
                then bindS (recordUnlocked env vi \<lparr>re_agentId = agentId, re_workspacePath = workspacePath, re_kind = INITIAL, re_runId = None, re_manifestOverride = None\<rparr>
                       INITIAL None False) (\<lambda>(_, vi1). returnS vi1)
                else returnS vi) (\<lambda>vi1.
         bindS (recordUnlocked env vi1
             \<lparr>re_agentId = agentId,
              re_workspacePath = (case co_sourcePath options of Some p \<Rightarrow> p | None \<Rightarrow> workspacePath),
              re_kind = AGENT_COMMIT, re_runId = Some runId,
              re_manifestOverride = co_sourceManifest options\<rparr>
             AGENT_COMMIT None (co_deferPrune options)) (\<lambda>(v, _). returnS v)))"

definition revertRunVersion :: "vs_env \<Rightarrow> string \<Rightarrow> string \<Rightarrow> ('r, bool) vs_op" where
  "revertRunVersion env agentId runId =
     bindS (load_index env agentId) (\<lambda>vi.
     case find_version vi (vi_headVersionId vi) of
       None \<Rightarrow> returnS False
     | Some head \<Rightarrow>
         if ve_runId head \<noteq> Some runId \<or> ve_kind head = INITIAL then returnS False
         else bindS (prune env (drop_version head vi)) (\<lambda>vi'.
              bindS (persist_index env vi') (\<lambda>_. returnS True)))"

definition releaseRetention :: "vs_env \<Rightarrow> string \<Rightarrow> ('r, unit) vs_op" where
  "releaseRetention env agentId =
     bindS (load_index env agentId) (\<lambda>vi. bindS (prune env vi) (persist_index env))"

definition version_head :: "vs_env \<Rightarrow> string \<Rightarrow> ('r, version_record option) vs_op" where
  "version_head env agentId = bindS (load_index env agentId) (\<lambda>vi. returnS (find_version vi (vi_headVersionId vi)))"

definition version_list :: "vs_env \<Rightarrow> string \<Rightarrow> int \<Rightarrow> int option \<Rightarrow> ('r, version_record list) vs_op" where
  "version_list env agentId limit beforeSequence =
     bindS (load_index env agentId) (\<lambda>vi.
       returnS (take (nat (max 1 (min 100 limit)))
         (sort_key (\<lambda>v. - ve_sequence v)
           (filter (\<lambda>v. case beforeSequence of None \<Rightarrow> True | Some b \<Rightarrow> ve_sequence v < b) (vi_versions vi)))))"

subsection \<open>Rollback to a version\<close>

definition lift_permits :: "(rollback_store, js_error, 'a) eff \<Rightarrow> ('r, 'a) vs_op" where
  "lift_permits m s = (case m (vw_permits s) of (r, p) \<Rightarrow> (mapErr TxError r, s\<lparr>vw_permits := p\<rparr>))"

record rollback_version_input =
  rv_agentId :: string
  rv_workspacePath :: string
  rv_targetVersionId :: string
  rv_expectedHeadVersionId :: string
  rv_runId :: string

text \<open>The target and its payload path, or why it cannot be rolled back to.\<close>

definition rollback_target :: "vs_env \<Rightarrow> rollback_version_input \<Rightarrow> version_index \<Rightarrow> ('r, version_record \<times> string) tx" where
  "rollback_target env i vi =
     (if vi_headVersionId vi \<noteq> Some (rv_expectedHeadVersionId i) then throwS (VersionFault ''HEAD_MISMATCH'')
      else case find_version vi (Some (rv_targetVersionId i)) of
        None \<Rightarrow> throwS (VersionFault ''VERSION_NOT_FOUND'')
      | Some target \<Rightarrow>
          (case find_snapshot vi (ve_snapshotHash target) of
             None \<Rightarrow> throwS (VersionFault ''SNAPSHOT_PRUNED'')
           | Some sn \<Rightarrow>
               if sn_prunedAt sn \<noteq> None \<or> \<not> ve_snapshotAvailable target then throwS (VersionFault ''SNAPSHOT_PRUNED'')
               else bindS (tx_res (agentRoot env (rv_agentId i))) (\<lambda>root.
                    let path = payload_path root (sn_relativePath sn)
                    in bindS (pathExists path) (\<lambda>there.
                       if \<not> there then throwS (VersionFault ''SNAPSHOT_PRUNED'') else returnS (target, path)))))"

definition issue_rollback :: "vs_env \<Rightarrow> rollback_version_input \<Rightarrow> string \<Rightarrow> version_record \<Rightarrow> string \<Rightarrow> string \<Rightarrow>
    ('r, rollback_capability) vs_op" where
  "issue_rollback env i root target path base =
     bindS (lift_permits (rollback_issue
       \<lparr>ri_runId = rv_runId i, ri_agentId = rv_agentId i, ri_controlPath = root, ri_targetVersionId = ve_id target,
        ri_targetSnapshotHash = ve_snapshotHash target, ri_expectedHeadVersionId = rv_expectedHeadVersionId i,
        ri_baseHash = base, ri_ttlMs = None\<rparr> (vs_clock env) (vs_permitUuid env) (vs_nonce env))) (\<lambda>issued.
     lift_permits (rollback_claim
       \<lparr>rc_controlPath = root, rc_rollbackPermitId = rp_rollbackPermitId issued, rc_snapshotPath = path,
        rc_targetVersionId = ve_id target, rc_targetSnapshotHash = ve_snapshotHash target,
        rc_expectedHeadVersionId = rv_expectedHeadVersionId i, rc_baseHash = base\<rparr> (vs_clock env)))"

text \<open>The capability claimed last is the last of the list.\<close>

definition rollback_request :: "vs_env \<Rightarrow> rollback_version_input \<Rightarrow> string \<Rightarrow> rollback_capability \<Rightarrow> nat \<Rightarrow>
    ('r version_world_scheme) authorized_rollback" where
  "rollback_request env i root c n =
     \<lparr>ar_persistentPath = rv_workspacePath i, ar_controlPath = root, ar_capability = c,
      ar_consume = bindS (lift_permits (rollback_capability_consume n (vs_clock env))) (\<lambda>_. returnS ())\<rparr>"

text \<open>The version recorded and the run pending, or the promoted tree put back.\<close>

definition record_rollback :: "vs_env \<Rightarrow> rollback_version_input \<Rightarrow> version_index \<Rightarrow> string \<Rightarrow> pending_rollback \<Rightarrow>
    ('r, version_record) vs_op" where
  "record_rollback env i vi target pending =
     catchS (bindS (recordUnlocked env vi
               \<lparr>re_agentId = rv_agentId i, re_workspacePath = rv_workspacePath i, re_kind = AGENT_COMMIT,
                re_runId = Some (rv_runId i), re_manifestOverride = None\<rparr> ROLLBACK (Some target) True) (\<lambda>(v, _).
             bindS (putS (\<lambda>s. s\<lparr>vw_pending := (vw_pending s)(rv_runId i \<mapsto> pending)\<rparr>)) (\<lambda>_. returnS v)))
       (\<lambda>e. bindS (catchS (bindS (handle_rollback (vs_tx env) (pr_journalPath pending) False) (\<lambda>_. returnS ()))
                (\<lambda>_. throwS (RecoveryRequired
                  ''CommitGate rollback staging failed and the promoted workspace could not be restored''))) (\<lambda>_.
              throwS e))"

text \<open>From the claimed permit on: the promotion, the permit revoked when it fails, the version.\<close>

definition run_rollback :: "vs_env \<Rightarrow> rollback_version_input \<Rightarrow> version_index \<Rightarrow> string \<Rightarrow> string \<Rightarrow> rollback_capability \<Rightarrow> nat \<Rightarrow>
    ('r, version_record) vs_op" where
  "run_rollback env i vi root target c n =
     (let a = rollback_request env i root c n in
     bindS (catchS (rollbackAuthorized (vs_tx env) (vs_clock env) a)
       (\<lambda>e. bindS (catchS (bindS (lift_permits (rollback_revoke root (rp_rollbackPermitId (rcap_permit c)) (vs_clock env)))
                     (\<lambda>_. returnS ())) (\<lambda>_. returnS ())) (\<lambda>_. throwS e))) (\<lambda>journal.
     bindS (lift_permits (rollback_markConsumed root (rp_rollbackPermitId (rcap_permit c)) (vs_clock env))) (\<lambda>_.
     record_rollback env i vi target
       \<lparr>pr_agentId = rv_agentId i, pr_journalPath = journal_path (rollback_input a),
        pr_backupPath = backup_path (rollback_input a), pr_settled = False\<rparr>)))"

definition stageRollback :: "vs_env \<Rightarrow> rollback_version_input \<Rightarrow> ('r, version_record) vs_op" where
  "stageRollback env i =
     bindS (getS vw_pending) (\<lambda>pending.
     if pending (rv_runId i) \<noteq> None then tx_throw ''Rollback run already has a pending transaction''
     else
     bindS (load_index env (rv_agentId i)) (\<lambda>vi.
     bindS (rollback_target env i vi) (\<lambda>(target, path).
     bindS (manifest_at (vs_tx env) authoritative (rv_workspacePath i)) (\<lambda>base.
     bindS (tx_res (agentRoot env (rv_agentId i))) (\<lambda>root.
     bindS (issue_rollback env i root target path (sm_hash base)) (\<lambda>c.
     bindS (getS (\<lambda>s. length (rs_capabilities (vw_permits s)) - 1)) (\<lambda>n.
     run_rollback env i vi root (ve_id target) c n)))))))"

definition settle_pending :: "string \<Rightarrow> ('r, unit) vs_op" where
  "settle_pending runId = putS (\<lambda>s. s\<lparr>vw_pending := (vw_pending s)(runId := None)\<rparr>)"

definition acknowledgeRollback :: "vs_env \<Rightarrow> string \<Rightarrow> ('r, unit) vs_op" where
  "acknowledgeRollback env runId =
     bindS (getS (\<lambda>s. vw_pending s runId)) (\<lambda>pending.
     case pending of
       None \<Rightarrow> tx_throw (''No pending rollback transaction for run '' @ runId)
     | Some p \<Rightarrow>
         bindS (handle_acknowledge (vs_tx env) (pr_journalPath p) (pr_backupPath p) (pr_settled p)) (\<lambda>_.
         bindS (settle_pending runId) (\<lambda>_. releaseRetention env (pr_agentId p))))"

definition rollbackPendingRollback :: "vs_env \<Rightarrow> string \<Rightarrow> ('r, unit) vs_op" where
  "rollbackPendingRollback env runId =
     bindS (getS (\<lambda>s. vw_pending s runId)) (\<lambda>pending.
     case pending of
       None \<Rightarrow> returnS ()
     | Some p \<Rightarrow>
         bindS (handle_rollback (vs_tx env) (pr_journalPath p) (pr_settled p)) (\<lambda>settled.
         bindS (putS (\<lambda>s. s\<lparr>vw_pending := (vw_pending s)(runId \<mapsto> p\<lparr>pr_settled := settled\<rparr>)\<rparr>)) (\<lambda>_.
         bindS (revertRunVersion env (pr_agentId p) runId) (\<lambda>_. settle_pending runId))))"

definition rollback_version :: "vs_env \<Rightarrow> rollback_version_input \<Rightarrow> ('r, version_record) vs_op" where
  "rollback_version env i =
     bindS (stageRollback env i) (\<lambda>v.
     catchS (bindS (acknowledgeRollback env (rv_runId i)) (\<lambda>_. returnS v))
       (\<lambda>e. bindS (catchS (rollbackPendingRollback env (rv_runId i)) (\<lambda>_. returnS ())) (\<lambda>_. throwS e)))"

end
