(* ===== verification/Receipt_Store.thy ===== *)
theory Receipt_Store
  imports Redaction Version_Store
begin

text \<open>
  The gate's receipts (\<^verbatim>\<open>commitgate/receipt-store.ts\<close>): one file per run, replaced until it is
  terminal, and two directories of events beside it. The state extends that of the version store,
  so that recovery works on both; every input or output may fail or be the last (\<open>Crash\<close>).
  The event files of a run are a list in the order of their names. The receipts of one agent are
  read in name order from the argument \<open>names\<close>, what \<^verbatim>\<open>readdir\<close> lists.
\<close>

datatype receipt_phase = PENDING_PROMOTION | PENDING_DISPOSITION | TERMINAL

datatype gate_decision = COMMITTED | QUARANTINED | CONFLICTED | ABORTED

record provider_identity =
  pv_providerId :: string
  pv_gateway :: string
  pv_requestedModel :: string
  pv_resolvedModel :: "string option"

text \<open>Members that may be absent are options; absent and null are not told apart. The derived
  \<^verbatim>\<open>effectProof\<close> is added when a receipt is shown and not stored.\<close>

record gate_receipt =
  gr_schemaVersion :: int
  gr_runId :: string
  gr_agentId :: string
  gr_phase :: receipt_phase
  gr_decision :: gate_decision
  gr_failureClass :: "string option"
  gr_reasonCodes :: "string list"
  gr_baseSnapshotHash :: string
  gr_candidateSnapshotHash :: "string option"
  gr_patchHash :: "string option"
  gr_finalSnapshotHash :: string
  gr_policyHash :: string
  gr_policyProfile :: "string option"
  gr_policyVersion :: "int option"
  gr_checkSpecHash :: "string option"
  gr_evidence :: "(string \<times> string) list"
  gr_checks :: "check_result list"
  gr_changedPaths :: "string list"
  gr_threadDisposition :: string
  gr_candidateCleanup :: string
  gr_sessionEpoch :: int
  gr_versionId :: "string option"
  gr_promotionPendingDatabaseAck :: bool
  gr_baseView :: "state_view option"
  gr_nextView :: "state_view option"
  gr_baseViewId :: "string option"
  gr_finalViewId :: "string option"
  gr_baseGeneration :: "int option"
  gr_nextGeneration :: "int option"
  gr_generation :: "int option"
  gr_proposalId :: "string option"
  gr_evaluationContextHash :: "string option"
  gr_evidenceDigest :: "string option"
  gr_permitId :: "string option"
  gr_permitState :: "stored_state option"
  gr_transactionStatus :: "receipt_phase option"
  gr_artifactRetention :: "string option"
  gr_provider :: "provider_identity option"
  gr_startedAt :: string
  gr_completedAt :: string

datatype recovery_type = RECOVERY_ACKNOWLEDGED | RECOVERY_ROLLED_BACK

record recovery_event =
  rv_schemaVersion :: int
  rv_eventId :: string
  rv_eventAgentId :: string
  rv_eventRunId :: string
  rv_type :: recovery_type
  rv_originalDecision :: "gate_decision option"
  rv_effectiveDecision :: gate_decision
  rv_reasonCode :: string
  rv_finalSnapshotHash :: string
  rv_threadDisposition :: string
  rv_createdAt :: string

record replay_event =
  re_schemaVersion :: int
  re_eventId :: string
  re_eventAgentId :: string
  re_eventRunId :: string
  re_permitId :: string
  re_expectedViewId :: string
  re_createdAt :: string

record receipt_world = version_world +
  rw_receipts :: "string \<times> string \<rightharpoonup> gate_receipt"
  rw_recoveryEvents :: "string \<times> string \<Rightarrow> recovery_event list"
  rw_replayEvents :: "string \<times> string \<Rightarrow> replay_event list"

type_synonym ('r, 'a) receipt_op = "('r receipt_world_scheme, tx_error, 'a) eff"

subsection \<open>Sanitising\<close>

definition sanitize_check :: "string list \<Rightarrow> check_result \<Rightarrow> check_result" where
  "sanitize_check vs c = c\<lparr>check_output := redactReceiptText 16384 vs (check_output c)\<rparr>"

definition sanitize_provider :: "string list \<Rightarrow> provider_identity \<Rightarrow> provider_identity" where
  "sanitize_provider vs p =
     p\<lparr>pv_gateway := redactReceiptText 2048 vs (pv_gateway p),
       pv_requestedModel := redactReceiptText 512 vs (pv_requestedModel p),
       pv_resolvedModel := (case pv_resolvedModel p of
          None \<Rightarrow> None
        | Some m \<Rightarrow> if m = [] then None else Some (redactReceiptText 512 vs m))\<rparr>"

definition sanitizeReceipt :: "string list \<Rightarrow> gate_receipt \<Rightarrow> gate_receipt" where
  "sanitizeReceipt vs r =
     r\<lparr>gr_reasonCodes := map (redactReceiptText 512 vs) (gr_reasonCodes r),
       gr_checks := map (sanitize_check vs) (gr_checks r),
       gr_changedPaths := map (redactReceiptText 512 vs) (gr_changedPaths r),
       gr_provider := map_option (sanitize_provider vs) (gr_provider r)\<rparr>"

subsection \<open>Receipts\<close>

definition receipt_key :: "string \<Rightarrow> string \<Rightarrow> (string \<times> string) res" where
  "receipt_key agentId runId =
     bindE (assertSafeIdentifier agentId ''agentId'') (\<lambda>_.
     bindE (assertSafeIdentifier runId ''runId'') (\<lambda>_. Inr (agentId, runId)))"

definition receipt_get :: "string \<Rightarrow> string \<Rightarrow> ('r, gate_receipt option) receipt_op" where
  "receipt_get agentId runId =
     bindS (tx_res (receipt_key agentId runId)) (\<lambda>k. bindS look (\<lambda>_. getS (\<lambda>s. rw_receipts s k)))"

definition receipt_put :: "string list \<Rightarrow> gate_receipt \<Rightarrow> ('r, unit) receipt_op" where
  "receipt_put vs r =
     bindS (receipt_get (gr_agentId r) (gr_runId r)) (\<lambda>existing.
     let sanitized = sanitizeReceipt vs r in
     if (case existing of Some e \<Rightarrow> gr_phase e = TERMINAL \<and> e \<noteq> sanitized | None \<Rightarrow> False)
     then tx_throw ''TERMINAL_RECEIPT_IMMUTABLE''
     else bindS (tx_res (receipt_key (gr_agentId r) (gr_runId r))) (\<lambda>k.
          io (\<lambda>s. s\<lparr>rw_receipts := (rw_receipts s)(k \<mapsto> sanitized)\<rparr>) (\<lambda>t s. s)))"

fun collect_all :: "('a \<Rightarrow> ('r, 'b option) tx) \<Rightarrow> 'a list \<Rightarrow> ('r, 'b list) tx" where
  "collect_all f [] = returnS []"
| "collect_all f (x # xs) = bindS (f x) (\<lambda>y. bindS (collect_all f xs) (\<lambda>ys.
     returnS (case y of None \<Rightarrow> ys | Some v \<Rightarrow> v # ys)))"

definition receipt_list :: "string list \<Rightarrow> string \<Rightarrow> ('r, gate_receipt list) receipt_op" where
  "receipt_list names agentId =
     bindS (tx_res (assertSafeIdentifier agentId ''agentId'')) (\<lambda>_.
     bindS look (\<lambda>_.
     collect_all (\<lambda>runId. bindS look (\<lambda>_. getS (\<lambda>s. rw_receipts s (agentId, runId)))) names))"

subsection \<open>Events\<close>

definition listRecoveryEvents :: "string \<Rightarrow> string \<Rightarrow> ('r, recovery_event list) receipt_op" where
  "listRecoveryEvents agentId runId =
     bindS (tx_res (receipt_key agentId runId)) (\<lambda>k. bindS look (\<lambda>_. getS (\<lambda>s. rw_recoveryEvents s k)))"

text \<open>The name of a file is \<open>eventId\<close> and \<^verbatim>\<open>.json\<close>.\<close>

definition insert_event :: "('e \<Rightarrow> string) \<Rightarrow> 'e \<Rightarrow> 'e list \<Rightarrow> 'e list" where
  "insert_event ident e es = insort_key ident e (filter (\<lambda>f. ident f \<noteq> ident e) es)"

record recovery_input =
  rn_agentId :: string
  rn_runId :: string
  rn_type :: recovery_type
  rn_originalDecision :: "gate_decision option"
  rn_effectiveDecision :: gate_decision
  rn_reasonCode :: string
  rn_finalSnapshotHash :: string
  rn_threadDisposition :: string

definition same_recovery :: "recovery_input \<Rightarrow> recovery_event \<Rightarrow> bool" where
  "same_recovery i e \<longleftrightarrow> rv_type e = rn_type i \<and> rv_reasonCode e = rn_reasonCode i \<and>
     rv_finalSnapshotHash e = rn_finalSnapshotHash i \<and> rv_effectiveDecision e = rn_effectiveDecision i"

definition new_recovery_event :: "string \<Rightarrow> string \<Rightarrow> recovery_input \<Rightarrow> recovery_event" where
  "new_recovery_event uuid now i =
     \<lparr>rv_schemaVersion = 1, rv_eventId = ''re-'' @ uuid, rv_eventAgentId = rn_agentId i, rv_eventRunId = rn_runId i,
      rv_type = rn_type i, rv_originalDecision = rn_originalDecision i, rv_effectiveDecision = rn_effectiveDecision i,
      rv_reasonCode = rn_reasonCode i, rv_finalSnapshotHash = rn_finalSnapshotHash i,
      rv_threadDisposition = rn_threadDisposition i, rv_createdAt = now\<rparr>"

definition appendRecoveryEvent :: "string \<Rightarrow> string \<Rightarrow> recovery_input \<Rightarrow> ('r, recovery_event) receipt_op" where
  "appendRecoveryEvent uuid now i =
     bindS (listRecoveryEvents (rn_agentId i) (rn_runId i)) (\<lambda>existing.
     case List.find (same_recovery i) existing of
       Some duplicate \<Rightarrow> returnS duplicate
     | None \<Rightarrow>
         let e = new_recovery_event uuid now i; k = (rn_agentId i, rn_runId i)
         in bindS (io (\<lambda>s. s\<lparr>rw_recoveryEvents := (rw_recoveryEvents s)(k := insert_event rv_eventId e (rw_recoveryEvents s k))\<rparr>)
              (\<lambda>t s. s)) (\<lambda>_. returnS e))"

definition listPermitReplayEvents :: "string \<Rightarrow> string \<Rightarrow> ('r, replay_event list) receipt_op" where
  "listPermitReplayEvents agentId runId =
     bindS (tx_res (receipt_key agentId runId)) (\<lambda>k. bindS look (\<lambda>_. getS (\<lambda>s. rw_replayEvents s k)))"

definition appendPermitReplayEvent :: "string \<Rightarrow> string \<Rightarrow> string \<Rightarrow> string \<Rightarrow> string \<Rightarrow> string \<Rightarrow> ('r, replay_event) receipt_op" where
  "appendPermitReplayEvent uuid now agentId runId permitId expectedViewId =
     bindS (tx_res (receipt_key agentId runId)) (\<lambda>k.
     bindS (tx_res (assertSafeIdentifier permitId ''permitId'')) (\<lambda>_.
     bindS (listPermitReplayEvents agentId runId) (\<lambda>existing.
     case List.find (\<lambda>e. re_permitId e = permitId \<and> re_expectedViewId e = expectedViewId) existing of
       Some duplicate \<Rightarrow> returnS duplicate
     | None \<Rightarrow>
         let e = \<lparr>re_schemaVersion = 1, re_eventId = ''se-'' @ uuid, re_eventAgentId = agentId, re_eventRunId = runId,
                  re_permitId = permitId, re_expectedViewId = expectedViewId, re_createdAt = now\<rparr>
         in bindS (io (\<lambda>s. s\<lparr>rw_replayEvents := (rw_replayEvents s)(k := insert_event re_eventId e (rw_replayEvents s k))\<rparr>)
              (\<lambda>t s. s)) (\<lambda>_. returnS e))))"

end
