(* ===== verification/Recovery.thy ===== *)
theory Recovery
  imports Receipt_Store
begin

text \<open>
  Startup recovery (\<^verbatim>\<open>commitgate/recovery.ts\<close>): every journal of every agent is settled by
  what the journal, the workspace's hash, the version index and the database head say, pending
  receipts without a journal are disposed, and what is left of candidates is removed. It works
  through the version store, the receipt store and the workspace transaction. Lists of names
  (\<^verbatim>\<open>readdir\<close>), the agents' policies and the database's heads are arguments; so is a UUID for
  each run, which takes at most one event.
\<close>

record database_head =
  dh_versionId :: string
  dh_liveStateHash :: string
  dh_runId :: "string option"
  dh_kind :: vs_kind

datatype recovery_kind = Acknowledged_Run | Rolled_Back_Run | Cleaned_Run | Manual_Intervention

record recovery_action =
  ra_agentId :: string
  ra_runId :: string
  ra_action :: recovery_kind
  ra_detail :: string

record recovery_env =
  rc_vs :: vs_env
  rc_workspaceRoot :: string
  rc_policy :: "string \<Rightarrow> policy res"
  rc_databaseHead :: "string \<Rightarrow> database_head option res"
  rc_uuid :: "string \<Rightarrow> string"
  rc_agents :: "string list"
  rc_journals :: "string \<Rightarrow> string list"
  rc_receipts :: "string \<Rightarrow> string list"
  rc_entries :: "string \<Rightarrow> string list"

abbreviation rc_tx :: "recovery_env \<Rightarrow> tx_env" where
  "rc_tx env \<equiv> vs_tx (rc_vs env)"

abbreviation rc_now :: "recovery_env \<Rightarrow> string" where
  "rc_now env \<equiv> te_now (rc_tx env)"

text \<open>The environment with the policy of one agent.\<close>

definition with_policy :: "policy \<Rightarrow> recovery_env \<Rightarrow> recovery_env" where
  "with_policy p env = env\<lparr>rc_vs := (rc_vs env)\<lparr>vs_tx := (rc_tx env)\<lparr>te_walk := (te_walk (rc_tx env))\<lparr>we_policy := p\<rparr>\<rparr>\<rparr>\<rparr>"

text \<open>\<^verbatim>\<open>error.message\<close>; what an engine's own errors say is not modelled.\<close>

fun error_text :: "tx_error \<Rightarrow> string" where
  "error_text (TxError (JsError msg)) = msg"
| "error_text (TxError JsTypeError) = ''TypeError''"
| "error_text (StateConflict msg) = msg"
| "error_text (RecoveryRequired msg) = msg"
| "error_text (VersionFault msg) = msg"
| "error_text (PermitFault (PermitStateError code msg)) = msg"
| "error_text (PermitFault (Thrown e)) = ''Error''"
| "error_text (SealError code msg) = msg"
| "error_text Stopped = []"

definition validateJournal :: "string \<Rightarrow> string \<Rightarrow> string \<Rightarrow> string \<Rightarrow> journal \<Rightarrow> unit res" where
  "validateJournal agentId root workspaceRoot controlRoot j =
     (if jn_schemaVersion j \<noteq> 1 \<or> jn_agentId j \<noteq> agentId
      then Inl (JsError ''Journal schema or agent identity is invalid'')
      else bindE (assertSafeIdentifier (jn_runId j) ''journal runId'') (\<lambda>_.
        if \<not> is_hex 64 (jn_baseHash j) \<or> \<not> is_hex 64 (jn_targetHash j) then Inl (JsError ''Journal hashes are invalid'')
        else bindE (assertContained workspaceRoot (jn_persistentPath j) ''journal persistent path'') (\<lambda>_.
          if contained controlRoot (jn_persistentPath j)
          then Inl (JsError ''Journal persistent path points into the control plane'')
          else bindE (assertContained root (jn_stagingPath j) ''journal staging path'') (\<lambda>_.
               bindE (assertContained root (jn_backupPath j) ''journal backup path'') (\<lambda>_.
               assertContained root (jn_sourcePath j) ''journal source path'')))))"

definition manifestHashOrNull :: "tx_env \<Rightarrow> string \<Rightarrow> ('r, string option) tx" where
  "manifestHashOrNull te p =
     bindS (pathExists p) (\<lambda>there.
       if \<not> there then returnS None
       else bindS (manifest_at te authoritative p) (\<lambda>m. returnS (Some (sm_hash m))))"

subsection \<open>Receipts of recovered runs\<close>

text \<open>A patch changes the receipt; its own final hash, when it has one, goes into the event.\<close>

definition updateRecoveredReceipt :: "recovery_env \<Rightarrow> string \<Rightarrow> string \<Rightarrow> (gate_receipt \<Rightarrow> gate_receipt) \<Rightarrow>
    string option \<Rightarrow> ('r, unit) receipt_op" where
  "updateRecoveredReceipt env agentId runId patch final =
     bindS (receipt_get agentId runId) (\<lambda>r.
     bindS (appendRecoveryEvent (rc_uuid env runId) (rc_now env)
       \<lparr>rn_agentId = agentId, rn_runId = runId, rn_type = RECOVERY_ACKNOWLEDGED,
        rn_originalDecision = map_option gr_decision r, rn_effectiveDecision = COMMITTED,
        rn_reasonCode = ''STARTUP_RECOVERY_ACKNOWLEDGED'',
        rn_finalSnapshotHash = (case final of Some h \<Rightarrow> h
           | None \<Rightarrow> (case r of Some x \<Rightarrow> gr_finalSnapshotHash x | None \<Rightarrow> ''unavailable'')),
        rn_threadDisposition = ''resumed''\<rparr>) (\<lambda>_.
     case r of
       Some x \<Rightarrow> if gr_phase x \<noteq> TERMINAL then receipt_put [] (patch x) else returnS ()
     | None \<Rightarrow> returnS ()))"

definition rolled_back_receipt :: "string \<Rightarrow> string \<Rightarrow> gate_receipt \<Rightarrow> gate_receipt" where
  "rolled_back_receipt baseHash now r =
     r\<lparr>gr_phase := TERMINAL, gr_decision := ABORTED, gr_failureClass := Some ''infra_errored'',
       gr_reasonCodes := gr_reasonCodes r @ [''STARTUP_RECOVERY_ROLLBACK''],
       gr_finalSnapshotHash := baseHash, gr_threadDisposition := ''reset'',
       gr_sessionEpoch := (if gr_threadDisposition r = ''resumed'' then gr_sessionEpoch r + 1 else gr_sessionEpoch r),
       gr_versionId := None, gr_promotionPendingDatabaseAck := False, gr_transactionStatus := Some TERMINAL,
       gr_artifactRetention := Some ''destroyed'', gr_completedAt := now\<rparr>"

definition markReceiptRolledBack :: "recovery_env \<Rightarrow> string \<Rightarrow> string \<Rightarrow> string \<Rightarrow> ('r, unit) receipt_op" where
  "markReceiptRolledBack env agentId runId baseHash =
     bindS (receipt_get agentId runId) (\<lambda>r.
     bindS (appendRecoveryEvent (rc_uuid env runId) (rc_now env)
       \<lparr>rn_agentId = agentId, rn_runId = runId, rn_type = RECOVERY_ROLLED_BACK,
        rn_originalDecision = map_option gr_decision r, rn_effectiveDecision = ABORTED,
        rn_reasonCode = ''STARTUP_RECOVERY_ROLLBACK'', rn_finalSnapshotHash = baseHash,
        rn_threadDisposition = ''reset''\<rparr>) (\<lambda>_.
     case r of
       Some x \<Rightarrow> if gr_phase x = TERMINAL then returnS () else receipt_put [] (rolled_back_receipt baseHash (rc_now env) x)
     | None \<Rightarrow> returnS ()))"

subsection \<open>One journal\<close>

definition action :: "string \<Rightarrow> string \<Rightarrow> recovery_kind \<Rightarrow> string \<Rightarrow> recovery_action" where
  "action agentId runId k detail = \<lparr>ra_agentId = agentId, ra_runId = runId, ra_action = k, ra_detail = detail\<rparr>"

definition terminal_patch :: "gate_receipt \<Rightarrow> gate_receipt" where
  "terminal_patch r =
     r\<lparr>gr_phase := TERMINAL, gr_transactionStatus := Some TERMINAL, gr_artifactRetention := Some ''version_snapshot'',
       gr_promotionPendingDatabaseAck := False\<rparr>"

definition settle_acknowledged :: "recovery_env \<Rightarrow> journal \<Rightarrow> ('r, recovery_action) receipt_op" where
  "settle_acknowledged env j =
     bindS (if jn_kind j = Promotion
            then updateRecoveredReceipt env (jn_agentId j) (jn_runId j)
                   (\<lambda>r. (terminal_patch r)\<lparr>gr_finalSnapshotHash := jn_targetHash j\<rparr>) (Some (jn_targetHash j))
            else returnS ()) (\<lambda>_.
     bindS (releaseRetention (rc_vs env) (jn_agentId j)) (\<lambda>_.
     returnS (action (jn_agentId j) (jn_runId j) Acknowledged_Run
       ''Journal was already acknowledged; terminal cleanup is complete'')))"

definition settle_rolled_back :: "recovery_env \<Rightarrow> journal \<Rightarrow> ('r, recovery_action) receipt_op" where
  "settle_rolled_back env j =
     bindS (revertRunVersion (rc_vs env) (jn_agentId j) (jn_runId j)) (\<lambda>_.
     bindS (markReceiptRolledBack env (jn_agentId j) (jn_runId j) (jn_baseHash j)) (\<lambda>_.
     bindS (releaseRetention (rc_vs env) (jn_agentId j)) (\<lambda>_.
     returnS (action (jn_agentId j) (jn_runId j) Rolled_Back_Run
       ''Journal was already rolled back; terminal cleanup is complete''))))"

definition settle_preparing :: "recovery_env \<Rightarrow> string \<Rightarrow> journal \<Rightarrow> ('r, recovery_action) receipt_op" where
  "settle_preparing env journalPath j =
     bindS (rm_dir (jn_stagingPath j)) (\<lambda>_.
     bindS (updateJournal journalPath j ROLLED_BACK (rc_now env)) (\<lambda>_.
     returnS (action (jn_agentId j) (jn_runId j) Cleaned_Run ''Removed unpromoted staging workspace'')))"

definition staged_version :: "version_index \<Rightarrow> journal \<Rightarrow> version_record option" where
  "staged_version vi j =
     List.find (\<lambda>v. Some (ve_id v) = vi_headVersionId vi \<and> ve_runId v = Some (jn_runId j)) (vi_versions vi)"

definition expected_kind :: "journal \<Rightarrow> vs_kind" where
  "expected_kind j = (if jn_kind j = Rollback then ROLLBACK else AGENT_COMMIT)"

definition databaseCommitted :: "version_record option \<Rightarrow> database_head option \<Rightarrow> journal \<Rightarrow> bool" where
  "databaseCommitted v head j \<longleftrightarrow>
     (case (v, head) of
        (Some v, Some h) \<Rightarrow> ve_kind v = expected_kind j \<and> dh_versionId h = ve_id v \<and>
          dh_liveStateHash h = jn_targetHash j \<and> dh_runId h = Some (jn_runId j) \<and> dh_kind h = expected_kind j
      | _ \<Rightarrow> False)"

text \<open>\<^verbatim>\<open>item.id === journal.targetVersionId\<close>; a rollback's version names the same target and snapshot.\<close>

definition rollback_event_missing :: "version_index \<Rightarrow> version_record \<Rightarrow> journal \<Rightarrow> bool" where
  "rollback_event_missing vi v j \<longleftrightarrow>
     ve_rollbackTargetVersionId v \<noteq> jn_targetVersionId j \<or>
     (case find_version vi (jn_targetVersionId j) of
        None \<Rightarrow> True | Some target \<Rightarrow> ve_snapshotHash v \<noteq> ve_snapshotHash target)"

definition settle_committed :: "recovery_env \<Rightarrow> string \<Rightarrow> journal \<Rightarrow> version_index \<Rightarrow> version_record \<Rightarrow>
    ('r, recovery_action) receipt_op" where
  "settle_committed env journalPath j vi v =
     (if jn_kind j = Rollback \<and> rollback_event_missing vi v j
      then tx_throw ''Rollback journal matches the database hash, but its append-only version event is missing or inconsistent''
      else
        bindS (rm_dir (jn_backupPath j)) (\<lambda>_.
        bindS (updateJournal journalPath j ACKNOWLEDGED (rc_now env)) (\<lambda>_.
        bindS (releaseRetention (rc_vs env) (jn_agentId j)) (\<lambda>_.
        bindS (if jn_kind j = Promotion
               then updateRecoveredReceipt env (jn_agentId j) (jn_runId j)
                      (\<lambda>r. (terminal_patch r)\<lparr>gr_versionId := Some (ve_id v)\<rparr>) None
               else returnS ()) (\<lambda>_.
        returnS (action (jn_agentId j) (jn_runId j) Acknowledged_Run ''Database and promoted workspace agree''))))))"

definition settle_from_backup :: "recovery_env \<Rightarrow> string \<Rightarrow> journal \<Rightarrow> ('r, recovery_action) receipt_op" where
  "settle_from_backup env journalPath j =
     bindS (rollbackJournal (rc_tx env) j journalPath) (\<lambda>_.
     bindS (revertRunVersion (rc_vs env) (jn_agentId j) (jn_runId j)) (\<lambda>_.
     bindS (markReceiptRolledBack env (jn_agentId j) (jn_runId j) (jn_baseHash j)) (\<lambda>_.
     returnS (action (jn_agentId j) (jn_runId j) Rolled_Back_Run ''Fail-closed recovery restored backup''))))"

definition settle_at_base :: "recovery_env \<Rightarrow> string \<Rightarrow> journal \<Rightarrow> ('r, recovery_action) receipt_op" where
  "settle_at_base env journalPath j =
     bindS (updateJournal journalPath j ROLLED_BACK (rc_now env)) (\<lambda>_.
     bindS (revertRunVersion (rc_vs env) (jn_agentId j) (jn_runId j)) (\<lambda>_.
     bindS (markReceiptRolledBack env (jn_agentId j) (jn_runId j) (jn_baseHash j)) (\<lambda>_.
     returnS (action (jn_agentId j) (jn_runId j) Rolled_Back_Run ''Persistent workspace already matches base''))))"

definition settle_missing :: "recovery_env \<Rightarrow> string \<Rightarrow> journal \<Rightarrow> ('r, recovery_action) receipt_op" where
  "settle_missing env journalPath j =
     bindS (rename_dir (jn_backupPath j) (jn_persistentPath j)) (\<lambda>_.
     bindS (updateJournal journalPath j ROLLED_BACK (rc_now env)) (\<lambda>_.
     returnS (action (jn_agentId j) (jn_runId j) Rolled_Back_Run ''Restored missing persistent workspace'')))"

definition settle_uncommitted :: "recovery_env \<Rightarrow> string \<Rightarrow> journal \<Rightarrow> string option \<Rightarrow> ('r, recovery_action) receipt_op" where
  "settle_uncommitted env journalPath j persistentHash =
     bindS (pathExists (jn_backupPath j)) (\<lambda>there.
     if there then settle_from_backup env journalPath j
     else if persistentHash = Some (jn_baseHash j) then settle_at_base env journalPath j
     else bindS (if persistentHash = None then pathExists (jn_backupPath j) else returnS False) (\<lambda>missing.
       if missing then settle_missing env journalPath j
       else returnS (action (jn_agentId j) (jn_runId j) Manual_Intervention
         ''Journal, database and workspace hashes cannot be reconciled uniquely'')))"

definition settle_swapping :: "recovery_env \<Rightarrow> string \<Rightarrow> journal \<Rightarrow> ('r, recovery_action) receipt_op" where
  "settle_swapping env journalPath j =
     bindS (manifestHashOrNull (rc_tx env) (jn_persistentPath j)) (\<lambda>persistentHash.
     bindS (tx_res (rc_databaseHead env (jn_agentId j))) (\<lambda>head.
     bindS (load_index (rc_vs env) (jn_agentId j)) (\<lambda>vi.
     case staged_version vi j of
       Some v \<Rightarrow>
         if jn_state j = PROMOTED_PENDING_DB \<and> databaseCommitted (Some v) head j \<and> persistentHash = Some (jn_targetHash j)
         then settle_committed env journalPath j vi v
         else settle_uncommitted env journalPath j persistentHash
     | None \<Rightarrow> settle_uncommitted env journalPath j persistentHash)))"

definition settle_journal :: "recovery_env \<Rightarrow> string \<Rightarrow> journal \<Rightarrow> ('r, recovery_action) receipt_op" where
  "settle_journal env journalPath j =
     catchS
       (if jn_state j = ACKNOWLEDGED then settle_acknowledged env j
        else if jn_state j = ROLLED_BACK then settle_rolled_back env j
        else if jn_state j = PREPARING then settle_preparing env journalPath j
        else settle_swapping env journalPath j)
       (\<lambda>e. returnS (action (jn_agentId j) (jn_runId j) Manual_Intervention (error_text e)))"

definition journal_suffix :: string where
  "journal_suffix = ''.json''"

definition run_of_file :: "string \<Rightarrow> string" where
  "run_of_file name = (if suffix journal_suffix name then take (length name - length journal_suffix) name else name)"

definition read_valid :: "recovery_env \<Rightarrow> string \<Rightarrow> string \<Rightarrow> string \<Rightarrow> ('r, journal) tx" where
  "read_valid env agentId root journalPath =
     bindS (read_journal journalPath) (\<lambda>j.
     bindS (tx_res (validateJournal agentId root (rc_workspaceRoot env) (vs_controlRoot (rc_vs env)) j)) (\<lambda>_.
     returnS j))"

definition recover_file :: "recovery_env \<Rightarrow> string \<Rightarrow> string \<Rightarrow> string \<Rightarrow> ('r, recovery_action) receipt_op" where
  "recover_file env agentId root name =
     (let journalPath = root @ ''/journals/'' @ name in
     bindS (catchS (bindS (read_valid env agentId root journalPath) (\<lambda>j. returnS (Inr j)))
              (\<lambda>e. returnS (Inl (''Invalid promotion journal: '' @ error_text e)))) (\<lambda>r.
     case r of
       Inl detail \<Rightarrow> returnS (action agentId (run_of_file name) Manual_Intervention detail)
     | Inr j \<Rightarrow> settle_journal env journalPath j))"

subsection \<open>The whole\<close>

fun each :: "('a \<Rightarrow> ('r, 'b list) tx) \<Rightarrow> 'a list \<Rightarrow> ('r, 'b list) tx" where
  "each f [] = returnS []"
| "each f (x # xs) = bindS (f x) (\<lambda>ys. bindS (each f xs) (\<lambda>zs. returnS (ys @ zs)))"

text \<open>A pending promotion without a journal: the process stopped before the swap began.\<close>

definition recover_receipt :: "recovery_env \<Rightarrow> string \<Rightarrow> string list \<Rightarrow> gate_receipt \<Rightarrow> ('r, recovery_action list) receipt_op" where
  "recover_receipt env agentId journalRunIds r =
     (if gr_phase r \<noteq> PENDING_PROMOTION \<or> gr_runId r \<in> set journalRunIds then returnS []
      else
        bindS (manifestHashOrNull (rc_tx env) (rc_workspaceRoot env @ ''/'' @ agentId)) (\<lambda>persistentHash.
        if persistentHash = Some (gr_baseSnapshotHash r)
        then bindS (markReceiptRolledBack env agentId (gr_runId r) (gr_baseSnapshotHash r)) (\<lambda>_.
             returnS [action agentId (gr_runId r) Rolled_Back_Run
               ''Disposed a pre-swap promotion transaction with no transition journal''])
        else returnS [action agentId (gr_runId r) Manual_Intervention
               ''Pending promotion has no journal and authoritative bytes do not match its base'']))"

definition clean_directory :: "recovery_env \<Rightarrow> string \<Rightarrow> string \<Rightarrow> string \<Rightarrow> ('r, recovery_action list) receipt_op" where
  "clean_directory env agentId root name =
     bindS look (\<lambda>_.
     each (\<lambda>entry. bindS (rm_dir (root @ ''/'' @ name @ ''/'' @ entry)) (\<lambda>_.
            returnS [action agentId entry Cleaned_Run (''Removed orphaned '' @ name @ '' directory'')]))
       (rc_entries env (root @ ''/'' @ name)))"

definition recover_agent :: "recovery_env \<Rightarrow> string \<Rightarrow> ('r, recovery_action list) receipt_op" where
  "recover_agent env0 agentId =
     (let root = vs_controlRoot (rc_vs env0) @ ''/'' @ agentId in
     bindS look (\<lambda>_.
     case rc_policy env0 agentId of
       Inl e \<Rightarrow> returnS [action agentId ''unknown'' Manual_Intervention (''Invalid recovery policy: '' @ error_text (TxError e))]
     | Inr p \<Rightarrow>
         let env = with_policy p env0;
             files = filter (suffix journal_suffix) (rc_journals env agentId)
         in
         bindS look (\<lambda>_.
         bindS (each (\<lambda>name. bindS (recover_file env agentId root name) (\<lambda>a. returnS [a])) files) (\<lambda>settled.
         bindS (receipt_list (rc_receipts env agentId) agentId) (\<lambda>receipts.
         bindS (each (recover_receipt env agentId (map run_of_file files)) receipts) (\<lambda>disposed.
         bindS (each (clean_directory env agentId root) [''candidates'', ''verify'', ''staging'']) (\<lambda>cleaned.
         returnS (settled @ disposed @ cleaned))))))))"

definition healthy :: "recovery_action list \<Rightarrow> bool" where
  "healthy actions \<longleftrightarrow> list_all (\<lambda>a. ra_action a \<noteq> Manual_Intervention) actions"

definition recoverCommitGate :: "recovery_env \<Rightarrow> ('r, recovery_action list \<times> bool) receipt_op" where
  "recoverCommitGate env =
     bindS look (\<lambda>_. bindS look (\<lambda>_.
     bindS (each (recover_agent env)
              (filter (\<lambda>n. n \<noteq> ''trusted-checks'' \<and> \<not> prefix ''.'' n) (rc_agents env))) (\<lambda>actions.
     returnS (actions, healthy actions))))"

end
