(* ===== verification/Version_Facts.thy ===== *)
theory Version_Facts
  imports Version_Store
begin

text \<open>
  The index invariant: the versions are a chain numbered from one whose first is the initial one
  and whose last is the head, snapshots have distinct hashes and counts that are the number of
  versions that name them, and a version is available exactly when its snapshot is not pruned.
  Every change of the index keeps it.
\<close>

subsection \<open>The invariant\<close>

fun chain_from :: "int \<Rightarrow> string option \<Rightarrow> version_record list \<Rightarrow> bool" where
  "chain_from n parent [] \<longleftrightarrow> True"
| "chain_from n parent (v # vs) \<longleftrightarrow>
     ve_sequence v = n \<and> ve_parentVersionId v = parent \<and> (ve_kind v = INITIAL \<longleftrightarrow> parent = None) \<and>
     (\<exists>rest. ve_id v = ''v'' @ int_text n @ ''-'' @ rest) \<and> chain_from (n + 1) (Some (ve_id v)) vs"

definition last_id :: "string option \<Rightarrow> version_record list \<Rightarrow> string option" where
  "last_id parent vs = (if vs = [] then parent else Some (ve_id (last vs)))"

definition counted :: "version_index \<Rightarrow> snapshot_record \<Rightarrow> bool" where
  "counted vi s \<longleftrightarrow> sn_refCount s = int (references (vi_versions vi) (sn_hash s)) \<and>
     sn_relativePath s = ''snapshots/'' @ sn_hash s \<and>
     (\<forall>v \<in> set (vi_versions vi). ve_snapshotHash v = sn_hash s \<longrightarrow> (ve_snapshotAvailable v \<longleftrightarrow> sn_prunedAt s = None))"

definition index_ok :: "version_index \<Rightarrow> bool" where
  "index_ok vi \<longleftrightarrow>
     chain_from 1 None (vi_versions vi) \<and> vi_headVersionId vi = last_id None (vi_versions vi) \<and>
     distinct (map sn_hash (vi_snapshots vi)) \<and> list_all (counted vi) (vi_snapshots vi) \<and>
     (\<forall>v \<in> set (vi_versions vi). ve_snapshotHash v \<in> sn_hash ` set (vi_snapshots vi))"

lemma index_okD:
  assumes "index_ok vi"
  shows "chain_from 1 None (vi_versions vi)" "vi_headVersionId vi = last_id None (vi_versions vi)"
    "distinct (map sn_hash (vi_snapshots vi))" "\<And>s. s \<in> set (vi_snapshots vi) \<Longrightarrow> counted vi s"
    "\<And>v. v \<in> set (vi_versions vi) \<Longrightarrow> \<exists>s \<in> set (vi_snapshots vi). sn_hash s = ve_snapshotHash v"
  using assms by (auto simp: index_ok_def list_all_iff) (metis imageE)

lemma empty_index_ok [simp]: "index_ok (empty_index a)"
  by (simp add: index_ok_def empty_index_def last_id_def)

subsection \<open>Chains\<close>

lemma chain_append:
  "chain_from n p (xs @ ys) \<longleftrightarrow> chain_from n p xs \<and> chain_from (n + int (length xs)) (last_id p xs) ys"
  by (induction xs arbitrary: n p) (auto simp: last_id_def algebra_simps)

lemma chain_map_available [simp]: "chain_from n p (map (set_available h b) vs) \<longleftrightarrow> chain_from n p vs"
  by (induction vs arbitrary: n p) (auto simp: set_available_def)

lemma set_available_simps [simp]:
  "ve_id (set_available h b v) = ve_id v" "ve_sequence (set_available h b v) = ve_sequence v"
  "ve_snapshotHash (set_available h b v) = ve_snapshotHash v" "ve_kind (set_available h b v) = ve_kind v"
  "ve_parentVersionId (set_available h b v) = ve_parentVersionId v"
  by (simp_all add: set_available_def)

lemma last_id_available [simp]: "last_id p (map (set_available h b) vs) = last_id p vs"
  by (simp add: last_id_def last_map)

lemma chain_sequence: "chain_from n p vs \<Longrightarrow> v \<in> set vs \<Longrightarrow> n \<le> ve_sequence v"
  by (induction vs arbitrary: n p) fastforce+

lemma chain_id: "chain_from n p vs \<Longrightarrow> v \<in> set vs \<Longrightarrow> \<exists>rest. ve_id v = ''v'' @ int_text (ve_sequence v) @ ''-'' @ rest"
  by (induction vs arbitrary: n p) auto

lemma chain_last_sequence: "chain_from n p vs \<Longrightarrow> vs \<noteq> [] \<Longrightarrow> ve_sequence (last vs) = n + int (length vs) - 1"
proof (induction vs arbitrary: n p)
  case (Cons v vs)
  then show ?case using Cons.IH [of "n + 1" "Some (ve_id v)"] by (cases "vs = []") (auto simp: algebra_simps)
qed simp

lemma chain_inj:
  assumes "chain_from n p vs" and "v \<in> set vs" and "w \<in> set vs" and "ve_id v = ve_id w"
  shows "v = w"
proof -
  from chain_id [OF assms(1,2)] chain_id [OF assms(1,3)] assms(4) obtain r r' where
    "int_text (ve_sequence v) @ (CHR ''-'' # r) = int_text (ve_sequence w) @ (CHR ''-'' # r')" by fastforce
  then have "ve_sequence v = ve_sequence w"
    using int_text_unique by (auto simp: is_digit_def char_code_def)
  with assms(1-3) show ?thesis
  proof (induction vs arbitrary: n p)
    case (Cons u us)
    then have "ve_sequence x \<noteq> ve_sequence u" if "x \<in> set us" for x
      using chain_sequence [of "n + 1" "Some (ve_id u)" us x] that by auto
    with Cons show ?case by (metis chain_from.simps(2) set_ConsD)
  qed simp
qed

lemma chain_snoc:
  assumes "chain_from 1 None vs" and "ve_sequence v = (if vs = [] then 0 else ve_sequence (last vs)) + 1"
    and "ve_parentVersionId v = last_id None vs" and "ve_kind v = INITIAL \<longleftrightarrow> vs = []"
    and "ve_id v = ''v'' @ int_text (ve_sequence v) @ ''-'' @ rest"
  shows "chain_from 1 None (vs @ [v])"
  using assms chain_last_sequence [OF assms(1)] by (auto simp: chain_append last_id_def add.commute)

lemma chain_butlast:
  assumes "chain_from 1 None vs" and "vs \<noteq> []"
  shows "chain_from 1 None (butlast vs)" and "ve_parentVersionId (last vs) = last_id None (butlast vs)"
    and "filter (\<lambda>v. ve_id v \<noteq> ve_id (last vs)) vs = butlast vs"
proof -
  have vs: "vs = butlast vs @ [last vs]" using assms(2) by simp
  from assms(1) have c: "chain_from 1 None (butlast vs @ [last vs])" using vs by simp
  then show "chain_from 1 None (butlast vs)" "ve_parentVersionId (last vs) = last_id None (butlast vs)"
    by (auto simp: chain_append)
  have "ve_id v \<noteq> ve_id (last vs)" if "v \<in> set (butlast vs)" for v
  proof
    assume eq: "ve_id v = ve_id (last vs)"
    have "v \<in> set vs" "last vs \<in> set vs" using that assms(2) by (auto dest: in_set_butlastD)
    from chain_inj [OF assms(1) this eq] have "last vs \<in> set (butlast vs)" using that by simp
    then obtain xs ys where "butlast vs = xs @ last vs # ys" by (meson split_list)
    with c have ch: "chain_from (1 + int (length xs) + 1) (Some (ve_id (last vs))) (ys @ [last vs])"
      and s: "ve_sequence (last vs) = 1 + int (length xs)"
      by (auto simp: chain_append algebra_simps)
    from chain_sequence [OF ch, of "last vs"] s show False by simp
  qed
  then have "filter (\<lambda>v. ve_id v \<noteq> ve_id (last vs)) (butlast vs) = butlast vs" by (simp add: filter_id_conv)
  then have "filter (\<lambda>v. ve_id v \<noteq> ve_id (last vs)) (butlast vs @ [last vs]) = butlast vs" by simp
  with vs show "filter (\<lambda>v. ve_id v \<noteq> ve_id (last vs)) vs = butlast vs" by metis
qed

subsection \<open>Snapshots found by hash\<close>

lemma update_first_hash:
  assumes "distinct (map sn_hash ss)" and "\<And>s. sn_hash (f s) = sn_hash s"
  shows "update_first (\<lambda>s. sn_hash s = h) f ss = map (\<lambda>s. if sn_hash s = h then f s else s) ss"
  using assms(1)
proof (induction ss)
  case (Cons s ss)
  show ?case
  proof (cases "sn_hash s = h")
    case True
    then have "\<forall>x \<in> set ss. sn_hash x \<noteq> h" using Cons.prems by (metis distinct.simps(2) image_eqI list.set_map list.simps(9))
    then have "map (\<lambda>s. if sn_hash s = h then f s else s) ss = ss" by (simp add: map_idI)
    with True show ?thesis by simp
  next
    case False
    with Cons show ?thesis by simp
  qed
qed simp

lemma update_first_pruned:
  assumes "distinct (map sn_hash ss)"
  shows "update_first (\<lambda>s. sn_hash s = h \<and> sn_prunedAt s = None) (\<lambda>s. s\<lparr>sn_prunedAt := Some now\<rparr>) ss =
    map (\<lambda>s. if sn_hash s = h \<and> sn_prunedAt s = None then s\<lparr>sn_prunedAt := Some now\<rparr> else s) ss"
  using assms
proof (induction ss)
  case (Cons s ss)
  show ?case
  proof (cases "sn_hash s = h")
    case True
    then have "\<forall>x \<in> set ss. sn_hash x \<noteq> h" using Cons.prems by (metis distinct.simps(2) image_eqI list.set_map list.simps(9))
    then have "map (\<lambda>s. if sn_hash s = h \<and> sn_prunedAt s = None then s\<lparr>sn_prunedAt := Some now\<rparr> else s) ss = ss"
      by (simp add: map_idI)
    with True Cons show ?thesis by auto
  next
    case False
    with Cons show ?thesis by auto
  qed
qed simp

lemma find_snapshot_Some: "find_snapshot vi h = Some s \<Longrightarrow> s \<in> set (vi_snapshots vi) \<and> sn_hash s = h"
  unfolding find_snapshot_def by (drule find_Some_in) simp

lemma find_version_Some: "find_version vi i = Some v \<Longrightarrow> v \<in> set (vi_versions vi) \<and> Some (ve_id v) = i"
  unfolding find_version_def by (drule find_Some_in) simp

lemma same_hash:
  "distinct (map sn_hash ss) \<Longrightarrow> s \<in> set ss \<Longrightarrow> t \<in> set ss \<Longrightarrow> sn_hash s = sn_hash t \<Longrightarrow> s = t"
  by (metis distinct_map inj_onD)

subsection \<open>Changes of the index\<close>

lemma references_available [simp]: "references (map (set_available h b) vs) k = references vs k"
  by (simp add: references_def filter_map comp_def)

lemma counted_available:
  assumes "counted vi s" and "sn_hash s \<noteq> h" and "vi_versions vi' = map (set_available h b) (vi_versions vi)"
  shows "counted vi' s"
  using assms by (auto simp: counted_def set_available_def)

lemma adopt_ok:
  assumes "index_ok vi"
  shows "index_ok (adopt_snapshot h bytes now vi)"
    and "\<exists>s. find_snapshot (adopt_snapshot h bytes now vi) h = Some s \<and> sn_prunedAt s = None"
proof -
  let ?vi = "adopt_snapshot h bytes now vi"
  note d = index_okD [OF assms]
  let ?new = "\<lparr>sn_hash = h, sn_relativePath = ''snapshots/'' @ h, sn_sizeBytes = bytes,
     sn_refCount = int (references (vi_versions vi) h), sn_createdAt = now, sn_prunedAt = None\<rparr>"
  let ?rest = "filter (\<lambda>s. sn_hash s \<noteq> h) (vi_snapshots vi)"
  have sn: "vi_snapshots ?vi = ?rest @ [?new]" and ve: "vi_versions ?vi = map (set_available h True) (vi_versions vi)"
    and hd: "vi_headVersionId ?vi = vi_headVersionId vi" by (simp_all add: adopt_snapshot_def)
  have "counted ?vi s" if "s \<in> set ?rest" for s
    by (rule counted_available [OF d(4) _ ve]) (use that in auto)
  moreover have "counted ?vi ?new" by (simp add: counted_def ve) (simp add: set_available_def)
  ultimately have "list_all (counted ?vi) (vi_snapshots ?vi)" by (auto simp: sn list_all_iff)
  moreover have "distinct (map sn_hash (vi_snapshots ?vi))"
    using d(3) by (auto simp: sn distinct_map_filter)
  moreover have "\<forall>v \<in> set (vi_versions ?vi). ve_snapshotHash v \<in> sn_hash ` set (vi_snapshots ?vi)"
  proof
    fix v assume "v \<in> set (vi_versions ?vi)"
    then obtain v0 where v0: "v0 \<in> set (vi_versions vi)" "ve_snapshotHash v = ve_snapshotHash v0" by (auto simp: ve)
    from d(5) [OF v0(1)] obtain s where "s \<in> set (vi_snapshots vi)" "sn_hash s = ve_snapshotHash v0" by blast
    then show "ve_snapshotHash v \<in> sn_hash ` set (vi_snapshots ?vi)"
      by (cases "ve_snapshotHash v0 = h") (auto simp: sn v0(2) image_iff)
  qed
  ultimately show "index_ok ?vi" using d(1,2) by (simp add: index_ok_def ve hd)
  show "\<exists>s. find_snapshot ?vi h = Some s \<and> sn_prunedAt s = None"
    by (auto simp: find_snapshot_def sn find_append split: option.splits dest!: find_Some_in)
qed

lemma add_ok:
  assumes "index_ok vi" and "find_snapshot vi (ve_snapshotHash v) = Some s" and "sn_prunedAt s = None"
    and "ve_snapshotAvailable v" and "ve_sequence v = next_sequence vi" and "ve_parentVersionId v = vi_headVersionId vi"
    and "ve_kind v = INITIAL \<longleftrightarrow> vi_versions vi = []" and "ve_id v = ''v'' @ int_text (ve_sequence v) @ ''-'' @ rest"
  shows "index_ok (add_version v vi)"
proof -
  let ?vi = "add_version v vi" let ?h = "ve_snapshotHash v"
  note d = index_okD [OF assms(1)]
  from find_snapshot_Some [OF assms(2)] have s: "s \<in> set (vi_snapshots vi)" "sn_hash s = ?h" by auto
  have sn: "vi_snapshots ?vi = map (\<lambda>s. if sn_hash s = ?h then s\<lparr>sn_refCount := sn_refCount s + 1\<rparr> else s) (vi_snapshots vi)"
    unfolding add_version_def by (simp add: update_first_hash [OF d(3)])
  have hashes: "map sn_hash (vi_snapshots ?vi) = map sn_hash (vi_snapshots vi)" by (simp add: sn comp_def if_distrib cong: if_cong)
  have ve: "vi_versions ?vi = vi_versions vi @ [v]" "vi_headVersionId ?vi = Some (ve_id v)" by (simp_all add: add_version_def)
  have "counted ?vi t" if "t \<in> set (vi_snapshots ?vi)" for t
  proof -
    from that obtain t0 where t0: "t0 \<in> set (vi_snapshots vi)"
      "t = (if sn_hash t0 = ?h then t0\<lparr>sn_refCount := sn_refCount t0 + 1\<rparr> else t0)" by (auto simp: sn)
    show ?thesis
    proof (cases "sn_hash t0 = ?h")
      case True
      with s t0 same_hash [OF d(3)] have "t0 = s" by auto
      with d(4) [OF s(1)] t0 True assms(3,4) show ?thesis by (auto simp: counted_def references_def ve)
    next
      case False
      with d(4) [OF t0(1)] t0(2) show ?thesis by (auto simp: counted_def references_def ve)
    qed
  qed
  then have "list_all (counted ?vi) (vi_snapshots ?vi)" by (simp add: list_all_iff)
  moreover have "chain_from 1 None (vi_versions ?vi)"
    unfolding ve by (rule chain_snoc [OF d(1)]) (use assms d(2) in \<open>auto simp: next_sequence_def\<close>)
  moreover have "\<forall>w \<in> set (vi_versions ?vi). ve_snapshotHash w \<in> sn_hash ` set (vi_snapshots ?vi)"
  proof -
    have "sn_hash ` set (vi_snapshots ?vi) = sn_hash ` set (vi_snapshots vi)" by (metis hashes list.set_map)
    moreover have "?h \<in> sn_hash ` set (vi_snapshots vi)" using s by (metis imageI)
    ultimately show ?thesis using d(5) by (auto simp: ve) (metis imageI)
  qed
  ultimately show ?thesis using d(3) by (simp add: index_ok_def ve hashes last_id_def)
qed

lemma drop_ok:
  assumes "index_ok vi" and "find_version vi (vi_headVersionId vi) = Some head"
  shows "index_ok (drop_version head vi)"
proof -
  let ?vi = "drop_version head vi" let ?h = "ve_snapshotHash head"
  note d = index_okD [OF assms(1)]
  from find_version_Some [OF assms(2)] have head: "head \<in> set (vi_versions vi)" "Some (ve_id head) = vi_headVersionId vi" by auto
  then have ne: "vi_versions vi \<noteq> []" by auto
  with head(2) d(2) have "ve_id head = ve_id (last (vi_versions vi))" by (simp add: last_id_def)
  with chain_inj [OF d(1) head(1)] ne have last: "head = last (vi_versions vi)" by simp
  note b = chain_butlast [OF d(1) ne, folded last]
  have all: "vi_versions vi = butlast (vi_versions vi) @ [head]" using ne last by simp
  have ve: "vi_versions ?vi = butlast (vi_versions vi)" "vi_headVersionId ?vi = ve_parentVersionId head"
    using b(3) by (simp_all add: drop_version_def)
  have sn: "vi_snapshots ?vi = map (\<lambda>s. if sn_hash s = ?h then s\<lparr>sn_refCount := max 0 (sn_refCount s - 1)\<rparr> else s) (vi_snapshots vi)"
    unfolding drop_version_def by (simp add: update_first_hash [OF d(3)])
  have hashes: "map sn_hash (vi_snapshots ?vi) = map sn_hash (vi_snapshots vi)" by (simp add: sn comp_def if_distrib cong: if_cong)
  have refs: "references (vi_versions vi) k = references (butlast (vi_versions vi)) k + (if k = ?h then 1 else 0)" for k
    by (subst all) (auto simp: references_def)
  have "counted ?vi t" if "t \<in> set (vi_snapshots ?vi)" for t
  proof -
    from that obtain t0 where t0: "t0 \<in> set (vi_snapshots vi)"
      "t = (if sn_hash t0 = ?h then t0\<lparr>sn_refCount := max 0 (sn_refCount t0 - 1)\<rparr> else t0)" by (auto simp: sn)
    with d(4) [OF t0(1)] refs [of "sn_hash t0"] show ?thesis
      by (auto simp: counted_def ve dest: in_set_butlastD)
  qed
  then have "list_all (counted ?vi) (vi_snapshots ?vi)" by (simp add: list_all_iff)
  moreover have "\<forall>w \<in> set (vi_versions ?vi). ve_snapshotHash w \<in> sn_hash ` set (vi_snapshots ?vi)"
  proof -
    have "sn_hash ` set (vi_snapshots ?vi) = sn_hash ` set (vi_snapshots vi)" by (metis hashes list.set_map)
    then show ?thesis using d(5) by (auto simp: ve dest!: in_set_butlastD) (metis imageI)
  qed
  ultimately show ?thesis using d(3) b by (simp add: index_ok_def ve hashes)
qed

lemma mark_pruned_ok:
  assumes "index_ok vi"
  shows "index_ok (mark_pruned now h vi)"
proof -
  let ?vi = "mark_pruned now h vi"
  note d = index_okD [OF assms]
  let ?f = "\<lambda>s. if sn_hash s = h \<and> sn_prunedAt s = None then s\<lparr>sn_prunedAt := Some now\<rparr> else s"
  have sn: "vi_snapshots ?vi = map ?f (vi_snapshots vi)"
    by (simp add: mark_pruned_def update_first_pruned [OF d(3)])
  have hashes: "map sn_hash (vi_snapshots ?vi) = map sn_hash (vi_snapshots vi)" by (simp add: sn comp_def if_distrib cong: if_cong)
  have ve: "vi_versions ?vi = map (set_available h False) (vi_versions vi)" "vi_headVersionId ?vi = vi_headVersionId vi"
    by (simp_all add: mark_pruned_def)
  have "counted ?vi t" if "t \<in> set (vi_snapshots ?vi)" for t
  proof -
    from that obtain t0 where t0: "t0 \<in> set (vi_snapshots vi)" "t = ?f t0" by (auto simp: sn)
    with d(4) [OF t0(1)] show ?thesis by (auto simp: counted_def ve set_available_def)
  qed
  then have "list_all (counted ?vi) (vi_snapshots ?vi)" by (simp add: list_all_iff)
  moreover have "\<forall>w \<in> set (vi_versions ?vi). ve_snapshotHash w \<in> sn_hash ` set (vi_snapshots ?vi)"
  proof -
    have "sn_hash ` set (vi_snapshots ?vi) = sn_hash ` set (vi_snapshots vi)" by (metis hashes list.set_map)
    then show ?thesis using d(5) by (auto simp: ve) (metis imageI)
  qed
  ultimately show ?thesis using d(1-3) by (simp add: index_ok_def ve hashes)
qed

subsection \<open>Pruning\<close>

definition pruned_paths :: "version_index \<Rightarrow> string set" where
  "pruned_paths vi = sn_relativePath ` {s \<in> set (vi_snapshots vi). sn_prunedAt s \<noteq> None}"

lemma mark_pruned_unpruned:
  assumes "distinct (map sn_hash (vi_snapshots vi))"
  shows "unpruned (mark_pruned now h vi) = filter (\<lambda>a. sn_hash a \<noteq> h) (unpruned vi)"
proof -
  have "filter (\<lambda>s. sn_prunedAt s = None)
      (map (\<lambda>s. if sn_hash s = h \<and> sn_prunedAt s = None then s\<lparr>sn_prunedAt := Some now\<rparr> else s) ss) =
    filter (\<lambda>a. sn_hash a \<noteq> h) (filter (\<lambda>s. sn_prunedAt s = None) ss)" for ss
    by (induction ss) auto
  then show ?thesis by (simp add: unpruned_def mark_pruned_def update_first_pruned [OF assms])
qed

lemma bytes_without:
  assumes "distinct (map sn_hash ss)" and "s \<in> set ss"
  shows "total_bytes (filter (\<lambda>a. sn_hash a \<noteq> sn_hash s) ss) = total_bytes ss - sn_sizeBytes s"
  using assms
proof (induction ss)
  case (Cons t ss)
  show ?case
  proof (cases "sn_hash t = sn_hash s")
    case True
    with Cons.prems have "t = s" by (auto simp: image_iff)
    moreover have "filter (\<lambda>a. sn_hash a \<noteq> sn_hash s) ss = ss"
      using Cons.prems True by (auto simp: filter_id_conv image_iff)
    ultimately show ?thesis by (simp add: total_bytes_def)
  next
    case False
    with Cons show ?thesis by (auto simp: total_bytes_def)
  qed
qed simp

text \<open>What one run of the loop keeps and reaches.\<close>

lemma prune_loop_spec:
  assumes "prune_loop env prot ss available bytes vi payloads = (vi', payloads')"
    and "index_ok vi" and "available = unpruned vi" and "bytes = total_bytes available"
    and "\<forall>a \<in> set available. a \<in> set ss \<or> sn_hash a \<in> set prot" and "distinct (map sn_hash ss)"
    and "\<forall>s \<in> set ss. s \<in> set available"
    and "set payloads \<subseteq> pruned_paths vi"
  shows "index_ok vi' \<and> vi_agentId vi' = vi_agentId vi \<and> set payloads' \<subseteq> pruned_paths vi' \<and>
    set (unpruned vi') \<subseteq> set (unpruned vi) \<and>
    (\<forall>s \<in> set (unpruned vi). sn_hash s \<in> set prot \<longrightarrow> s \<in> set (unpruned vi')) \<and>
    (within_limits env (unpruned vi') (total_bytes (unpruned vi')) \<or> (\<forall>a \<in> set (unpruned vi'). sn_hash a \<in> set prot)) \<and>
    (payloads = [] \<longrightarrow> payloads' = [] \<longrightarrow> vi' = vi) \<and>
    map sn_hash (vi_snapshots vi') = map sn_hash (vi_snapshots vi)"
  using assms
proof (induction env prot ss available bytes vi payloads rule: prune_loop.induct)
  case (1 env prot available bytes vi payloads)
  then show ?case by auto
next
  case (2 env prot s ss available bytes vi payloads)
  show ?case
  proof (cases "within_limits env available bytes")
    case True
    with 2 show ?thesis by auto
  next
    case nl: False
    show ?thesis
    proof (cases "sn_hash s \<in> set prot")
      case True
      with 2(3-) nl show ?thesis by (intro 2(1)) auto
    next
      case False
      let ?vi = "mark_pruned (te_now (vs_tx env)) (sn_hash s) vi"
      let ?av = "filter (\<lambda>a. sn_hash a \<noteq> sn_hash s) available"
      note d = index_okD [OF 2(4)]
      have s: "s \<in> set available" using 2(9) by simp
      have dav: "distinct (map sn_hash available)" using d(3) 2(5) by (simp add: unpruned_def distinct_map_filter)
      have in_vi: "s \<in> set (vi_snapshots vi)" "sn_prunedAt s = None" using s 2(5) by (auto simp: unpruned_def)
      have marked: "s\<lparr>sn_prunedAt := Some (te_now (vs_tx env))\<rparr> \<in> set (vi_snapshots ?vi)"
        unfolding mark_pruned_def by (simp add: update_first_pruned [OF d(3)]) (use in_vi in force)
      have run: "prune_loop env prot ss ?av (bytes - sn_sizeBytes s) ?vi (payloads @ [sn_relativePath s]) = (vi', payloads')"
        using 2(3) nl False by simp
      have pp: "pruned_paths vi \<subseteq> pruned_paths ?vi"
        unfolding pruned_paths_def mark_pruned_def by (auto simp: update_first_pruned [OF d(3)] image_iff)
      have mine: "sn_relativePath s \<in> pruned_paths ?vi"
        unfolding pruned_paths_def
        by (rule image_eqI [where x = "s\<lparr>sn_prunedAt := Some (te_now (vs_tx env))\<rparr>"]) (simp_all add: marked)
      have IH: "index_ok vi' \<and> vi_agentId vi' = vi_agentId ?vi \<and> set payloads' \<subseteq> pruned_paths vi' \<and>
        set (unpruned vi') \<subseteq> set (unpruned ?vi) \<and>
        (\<forall>s \<in> set (unpruned ?vi). sn_hash s \<in> set prot \<longrightarrow> s \<in> set (unpruned vi')) \<and>
        (within_limits env (unpruned vi') (total_bytes (unpruned vi')) \<or> (\<forall>a \<in> set (unpruned vi'). sn_hash a \<in> set prot)) \<and>
        (payloads @ [sn_relativePath s] = [] \<longrightarrow> payloads' = [] \<longrightarrow> vi' = ?vi) \<and>
        map sn_hash (vi_snapshots vi') = map sn_hash (vi_snapshots ?vi)"
      proof (rule 2(2) [OF nl False run mark_pruned_ok [OF 2(4)]], goal_cases)
        case 1
        show ?case using mark_pruned_unpruned [OF d(3)] 2(5) by simp
      next
        case 2
        show ?case using bytes_without [OF dav s] \<open>bytes = total_bytes available\<close> by simp
      next
        case 3
        show ?case using \<open>\<forall>a \<in> set available. a \<in> set (s # ss) \<or> sn_hash a \<in> set prot\<close> by auto
      next
        case 4
        show ?case using \<open>distinct (map sn_hash (s # ss))\<close> by simp
      next
        case 5
        show ?case using \<open>distinct (map sn_hash (s # ss))\<close> \<open>\<forall>x \<in> set (s # ss). x \<in> set available\<close> by (auto simp: image_iff)
      next
        case 6
        show ?case using pp mine \<open>set payloads \<subseteq> pruned_paths vi\<close> by auto
      qed
      have "payloads' \<noteq> []"
      proof -
        have "payloads'' \<noteq> []" if "prune_loop env prot ss a b v q = (v'', payloads'')" "q \<noteq> []" for a b v q v'' payloads''
          using that by (induction env prot ss a b v q rule: prune_loop.induct) (auto split: if_splits)
        with run show ?thesis by blast
      qed
      moreover have "unpruned ?vi = filter (\<lambda>a. sn_hash a \<noteq> sn_hash s) (unpruned vi)" by (rule mark_pruned_unpruned [OF d(3)])
      moreover have "map sn_hash (vi_snapshots ?vi) = map sn_hash (vi_snapshots vi)"
        unfolding mark_pruned_def by (simp add: update_first_pruned [OF d(3)] comp_def if_distrib cong: if_cong)
      moreover have "vi_agentId ?vi = vi_agentId vi" by (simp add: mark_pruned_def)
      ultimately show ?thesis using IH False by auto
    qed
  qed
qed

lemma oldest_first_mset: "mset (oldest_first le ss) = mset ss"
  unfolding oldest_first_def by (metis (no_types, lifting) mset_map sort_members_mset list.map_comp list.map_ident_strong comp_apply snd_conv)

lemma prune_index_spec:
  assumes "prune_index env vi = (vi', payloads)" and "index_ok vi"
  shows "index_ok vi'" and "vi_agentId vi' = vi_agentId vi" and "set payloads \<subseteq> pruned_paths vi'"
    and "set (unpruned vi') \<subseteq> set (unpruned vi)"
    and "\<forall>s \<in> set (unpruned vi). sn_hash s \<in> set (protected_hashes vi) \<longrightarrow> s \<in> set (unpruned vi')"
    and "within_limits env (unpruned vi') (total_bytes (unpruned vi')) \<or>
      (\<forall>a \<in> set (unpruned vi'). sn_hash a \<in> set (protected_hashes vi))"
    and "payloads = [] \<longrightarrow> vi' = vi" and "map sn_hash (vi_snapshots vi') = map sn_hash (vi_snapshots vi)"
proof -
  have "index_ok vi' \<and> vi_agentId vi' = vi_agentId vi \<and> set payloads \<subseteq> pruned_paths vi' \<and>
    set (unpruned vi') \<subseteq> set (unpruned vi) \<and>
    (\<forall>s \<in> set (unpruned vi). sn_hash s \<in> set (protected_hashes vi) \<longrightarrow> s \<in> set (unpruned vi')) \<and>
    (within_limits env (unpruned vi') (total_bytes (unpruned vi')) \<or>
      (\<forall>a \<in> set (unpruned vi'). sn_hash a \<in> set (protected_hashes vi))) \<and>
    (payloads = [] \<longrightarrow> vi' = vi) \<and> map sn_hash (vi_snapshots vi') = map sn_hash (vi_snapshots vi)"
  proof (cases "within_limits env (unpruned vi) (total_bytes (unpruned vi))")
    case True
    with assms show ?thesis by (auto simp: prune_index_def Let_def)
  next
    case False
    let ?ss = "oldest_first (vs_le env) (unpruned vi)"
    have set: "set ?ss = set (unpruned vi)" using oldest_first_mset by (metis set_mset_mset)
    have "distinct (map sn_hash (unpruned vi))"
      using index_okD(3) [OF assms(2)] by (simp add: unpruned_def distinct_map_filter)
    moreover have "mset (map sn_hash ?ss) = mset (map sn_hash (unpruned vi))" by (simp add: oldest_first_mset)
    ultimately have dist: "distinct (map sn_hash ?ss)" by (metis mset_eq_imp_distinct_iff)
    from assms(1) False have "prune_loop env (protected_hashes vi) ?ss (unpruned vi) (total_bytes (unpruned vi)) vi [] = (vi', payloads)"
      by (simp add: prune_index_def Let_def)
    from prune_loop_spec [OF this assms(2) refl refl _ dist] set show ?thesis by auto
  qed
  then show "index_ok vi'" "vi_agentId vi' = vi_agentId vi" "set payloads \<subseteq> pruned_paths vi'"
    "set (unpruned vi') \<subseteq> set (unpruned vi)"
    "\<forall>s \<in> set (unpruned vi). sn_hash s \<in> set (protected_hashes vi) \<longrightarrow> s \<in> set (unpruned vi')"
    "within_limits env (unpruned vi') (total_bytes (unpruned vi')) \<or>
      (\<forall>a \<in> set (unpruned vi'). sn_hash a \<in> set (protected_hashes vi))"
    "payloads = [] \<longrightarrow> vi' = vi" "map sn_hash (vi_snapshots vi') = map sn_hash (vi_snapshots vi)" by blast+
qed

lemma prune_loop_ids: "prune_loop env prot ss av b vi ps = (vi', ps') \<Longrightarrow> map ve_id (vi_versions vi') = map ve_id (vi_versions vi)"
proof (induction env prot ss av b vi ps rule: prune_loop.induct)
  case (2 env prot s ss av b vi ps)
  then show ?case by (auto split: if_splits simp: mark_pruned_def comp_def)
qed simp

lemma prune_index_ids: "prune_index env vi = (vi', ps) \<Longrightarrow> map ve_id (vi_versions vi') = map ve_id (vi_versions vi)"
  using prune_loop_ids by (auto simp: prune_index_def Let_def split: if_splits)

end
