(* ===== verification/Tx_Facts.thy ===== *)
theory Tx_Facts
  imports Workspace_Tx
begin

text \<open>
  What every step of the transaction leaves in the directories and journals, whatever faults
  occur, and from it the crash safety of the whole: in every state a run can stop in, the old
  tree is at its place, or in the backup that the journal names.
\<close>

subsection \<open>Steps\<close>

lemma wp_look:
  assumes "\<And>s'. c_dirs s' = c_dirs s \<Longrightarrow> c_journals s' = c_journals s \<Longrightarrow> Q () s'"
    and "\<And>e s'. c_dirs s' = c_dirs s \<Longrightarrow> c_journals s' = c_journals s \<Longrightarrow> E e s'"
  shows "wp look Q E s"
  by (rule wp_io) (simp_all add: assms)

lemma wp_exists:
  assumes "\<And>s'. c_dirs s' = c_dirs s \<Longrightarrow> c_journals s' = c_journals s \<Longrightarrow> Q (c_dirs s p \<noteq> None) s'"
    and "\<And>e s'. c_dirs s' = c_dirs s \<Longrightarrow> c_journals s' = c_journals s \<Longrightarrow> E e s'"
  shows "wp (pathExists p) Q E s"
  unfolding pathExists_def wp_simps
proof (rule wp_look)
  fix s' :: "'a control_scheme"
  assume "c_dirs s' = c_dirs s" "c_journals s' = c_journals s"
  with assms(1) [of s'] show "Q (c_dirs s' p \<noteq> None) s'" by simp
qed (use assms(2) in blast)

lemma wp_rm:
  assumes "\<And>s'. c_dirs s' = (c_dirs s)(p := None) \<Longrightarrow> c_journals s' = c_journals s \<Longrightarrow> Q () s'"
    and "\<And>e t s'. c_dirs s' = (c_dirs s)(p := t) \<Longrightarrow> c_journals s' = c_journals s \<Longrightarrow> E e s'"
  shows "wp (rm_dir p) Q E s"
  unfolding rm_dir_def
proof (rule wp_io, goal_cases)
  case (2 fs t e)
  have "c_dirs s = (c_dirs s)(p := c_dirs s p)" by simp
  then show ?case by (auto intro!: assms(2))
qed (simp add: assms(1))

lemma wp_write:
  assumes "\<And>s'. c_dirs s' = c_dirs s \<Longrightarrow> c_journals s' = (c_journals s)(p \<mapsto> j) \<Longrightarrow> Q () s'"
    and "\<And>e s'. c_dirs s' = c_dirs s \<Longrightarrow> c_journals s' = c_journals s \<Longrightarrow> E e s'"
  shows "wp (write_journal p j) Q E s"
  unfolding write_journal_def by (rule wp_io) (simp_all add: assms)

lemma wp_update:
  assumes "\<And>s' j'. j' = j\<lparr>jn_state := st, jn_updatedAt := now\<rparr> \<Longrightarrow> c_dirs s' = c_dirs s \<Longrightarrow>
      c_journals s' = (c_journals s)(p \<mapsto> j') \<Longrightarrow> Q j' s'"
    and "\<And>e s'. c_dirs s' = c_dirs s \<Longrightarrow> c_journals s' = c_journals s \<Longrightarrow> E e s'"
  shows "wp (updateJournal p j st now) Q E s"
  unfolding updateJournal_def Let_def wp_simps by (rule wp_write) (simp_all add: assms)

lemma wp_build:
  assumes "\<And>s' t m. c_dirs s' = c_dirs s \<Longrightarrow> c_journals s' = c_journals s \<Longrightarrow> c_dirs s p = Some t \<Longrightarrow>
      buildManifest env t = Inr m \<Longrightarrow> Q m s'"
    and "\<And>e s'. c_dirs s' = c_dirs s \<Longrightarrow> c_journals s' = c_journals s \<Longrightarrow> E e s'"
  shows "wp (build_at env p) Q E s"
  unfolding build_at_def wp_simps
  by (rule wp_look) (auto simp: assms wp_simps split: option.splits sum.splits)

lemma wp_rename:
  assumes "\<And>s' t. c_dirs s src = Some t \<Longrightarrow> c_dirs s dst = None \<or> is_empty_dir (c_dirs s dst) \<Longrightarrow>
      c_dirs s' = (c_dirs s)(dst := Some t, src := None) \<Longrightarrow> c_journals s' = c_journals s \<Longrightarrow> Q () s'"
    and "\<And>e s'. c_dirs s' = c_dirs s \<Longrightarrow> c_journals s' = c_journals s \<Longrightarrow> E e s'"
  shows "wp (rename_dir src dst) Q E s"
  unfolding rename_dir_def wp_simps
  by (auto simp: assms intro!: wp_io)

lemma wp_copy:
  assumes "\<And>s' t. c_dirs s' = (c_dirs s)(dst \<mapsto> t) \<Longrightarrow> c_journals s' = c_journals s \<Longrightarrow> Q () s'"
    and "\<And>e t s'. c_dirs s' = (c_dirs s)(dst := t) \<Longrightarrow> c_journals s' = c_journals s \<Longrightarrow> E e s'"
  shows "wp (copy_dir te src dst include clean) Q E s"
proof -
  have "E e s" for e by (rule assms(2) [where t = "c_dirs s dst"]) simp_all
  then show ?thesis unfolding copy_dir_def wp_simps
    by (auto simp: wp_simps assms intro!: wp_io split: option.splits sum.splits)
qed

lemma wp_change:
  assumes "\<And>s' t. c_dirs s' = (c_dirs s)(p \<mapsto> t) \<Longrightarrow> c_journals s' = c_journals s \<Longrightarrow> Q () s'"
    and "\<And>e t s'. c_dirs s' = (c_dirs s)(p := t) \<Longrightarrow> c_journals s' = c_journals s \<Longrightarrow> E e s'"
  shows "wp (change_tree p f) Q E s"
proof -
  have "E e s" for e by (rule assms(2) [where t = "c_dirs s p"]) simp_all
  then show ?thesis unfolding change_tree_def wp_simps
    by (auto simp: wp_simps assms intro!: wp_io split: option.splits sum.splits)
qed

lemma wp_read:
  assumes "\<And>s' j. c_dirs s' = c_dirs s \<Longrightarrow> c_journals s' = c_journals s \<Longrightarrow> c_journals s p = Some j \<Longrightarrow> Q j s'"
    and "\<And>e s'. c_dirs s' = c_dirs s \<Longrightarrow> c_journals s' = c_journals s \<Longrightarrow> E e s'"
  shows "wp (read_journal p) Q E s"
  unfolding read_journal_def wp_simps
  by (rule wp_look) (auto simp: assms wp_simps split: option.splits)

lemmas wp_ops = wp_look wp_exists wp_rm wp_write wp_update wp_build wp_rename wp_copy wp_change wp_read

subsection \<open>Staging\<close>

lemma wp_versioned:
  assumes "\<And>s'. c_dirs s' = c_dirs s \<Longrightarrow> c_journals s' = c_journals s \<Longrightarrow> Q () s'"
    and "\<And>e s'. c_dirs s' = c_dirs s \<Longrightarrow> c_journals s' = c_journals s \<Longrightarrow> E e s'"
  shows "wp (check_versioned te h p msg) Q E s"
  unfolding check_versioned_def wp_simps
  by (auto simp: wp_simps assms intro!: wp_build split: option.splits)

text \<open>Staging touches the staging and the backup directory only.\<close>

definition apart :: "'w promote_input \<Rightarrow> bool" where
  "apart i \<longleftrightarrow> \<not> contained (pi_controlPath i) (pi_persistentPath i)"

lemma apart_paths:
  assumes "apart i"
  shows "pi_persistentPath i \<noteq> staging_path i" "pi_persistentPath i \<noteq> backup_path i"
    "pi_persistentPath i \<noteq> failed_path te (pi_controlPath i) r" "staging_path i \<noteq> backup_path i"
    "backup_path i \<noteq> failed_path te (pi_controlPath i) r" "staging_path i \<noteq> failed_path te (pi_controlPath i) r"
proof -
  have "contained c (c @ ''/'' @ x)" for c x :: string
    by (simp add: contained_def starts_with_iff)
  from this [of "pi_controlPath i" "''staging/'' @ pi_runId i"] this [of "pi_controlPath i" "''backups/'' @ pi_runId i"]
    this [of "pi_controlPath i" "''failed/'' @ r @ ''-'' @ te_stamp te"] assms
  show "pi_persistentPath i \<noteq> staging_path i" "pi_persistentPath i \<noteq> backup_path i"
    "pi_persistentPath i \<noteq> failed_path te (pi_controlPath i) r"
    by (auto simp: apart_def staging_path_def backup_path_def failed_path_def)
qed (simp_all add: staging_path_def backup_path_def failed_path_def)

lemma dirname_last: "list_all (\<lambda>c. c \<noteq> slash) r \<Longrightarrow> dirname (p @ slash # r) = p"
  unfolding dirname_def by (simp add: dropWhile_append list_all_iff)

lemma safe_identifier_no_slash: "assertSafeIdentifier v label = Inr () \<Longrightarrow> list_all (\<lambda>c. c \<noteq> slash) v"
  by (auto simp: assertSafeIdentifier_def is_identifier_def list_all_iff is_ident_char_def is_digit_def char_code_def
      split: if_splits)

lemma dirname_backup:
  assumes "assertSafeIdentifier (pi_runId i) label = Inr ()"
  shows "dirname (dirname (backup_path i)) = pi_controlPath i"
proof -
  have "backup_path i = (pi_controlPath i @ ''/backups'') @ slash # pi_runId i" by (simp add: backup_path_def)
  then have "dirname (backup_path i) = pi_controlPath i @ ''/backups''"
    using dirname_last safe_identifier_no_slash [OF assms] by metis
  moreover have "pi_controlPath i @ ''/backups'' = pi_controlPath i @ slash # ''backups''" by (simp add:)
  ultimately show ?thesis using dirname_last [of "''backups''" "pi_controlPath i"] by (simp add:)
qed

lemma wp_stage:
  assumes "apart i"
    and ok: "\<And>s' m t. c_dirs s' (pi_persistentPath i) = c_dirs s (pi_persistentPath i) \<Longrightarrow>
      c_dirs s' (backup_path i) = None \<Longrightarrow> c_journals s' = c_journals s \<Longrightarrow> c_dirs s' (staging_path i) = Some t \<Longrightarrow>
      manifest_of te authoritative t = Inr m \<Longrightarrow> expected_hash (pi_expectedTargetHash i) \<in> {None, Some (sm_hash m)} \<Longrightarrow>
      Q m s'"
    and err: "\<And>e s'. c_dirs s' (pi_persistentPath i) = c_dirs s (pi_persistentPath i) \<Longrightarrow>
      c_journals s' = c_journals s \<Longrightarrow> E e s'"
  shows "wp (stage_tree te i) Q E s"
proof -
  note paths = apart_paths [OF assms(1)]
  have final: "Q m s'"
    if "manifest_of te authoritative t = Inr m" "c_dirs s' (pi_persistentPath i) = c_dirs s (pi_persistentPath i)"
      "c_dirs s' (backup_path i) = None" "c_journals s' = c_journals s" "c_dirs s' (staging_path i) = Some t"
      "expected_hash (pi_expectedTargetHash i) \<in> {None, Some (sm_hash m)}" for s' m t
    using ok that by blast
  show ?thesis
    unfolding stage_tree_def wp_simps
    by (auto intro!: wp_rm wp_versioned wp_copy wp_change wp_build err simp: wp_simps paths manifest_of_def [symmetric]
        split: option.splits) (erule final; simp add: paths paths [symmetric])+
qed

subsection \<open>The swap and its undoing\<close>

definition hash_ok :: "tx_env \<Rightarrow> string \<Rightarrow> fs_node \<Rightarrow> bool" where
  "hash_ok te h t \<longleftrightarrow> (\<exists>m. manifest_of te authoritative t = Inr m \<and> sm_hash m = h)"

text \<open>The old tree is the backup, or there is no backup and it is at its place.\<close>

definition held :: "fs_node \<Rightarrow> string \<Rightarrow> string \<Rightarrow> 'r control_scheme \<Rightarrow> bool" where
  "held B P K s \<longleftrightarrow> c_dirs s K = Some B \<or> c_dirs s K = None \<and> c_dirs s P = Some B"

lemma wp_swap:
  assumes "apart i" and "c_dirs s (pi_persistentPath i) = Some B" and "c_dirs s (backup_path i) = None"
    and ok: "\<And>s' T. c_dirs s' (pi_persistentPath i) = Some T \<Longrightarrow> hash_ok te (sm_hash staged) T \<Longrightarrow>
      c_dirs s' (backup_path i) = Some B \<Longrightarrow> c_journals s' = c_journals s \<Longrightarrow> Q None s'"
    and after: "\<And>s' e. c_dirs s' (backup_path i) = Some B \<Longrightarrow> c_journals s' = c_journals s \<Longrightarrow> e \<noteq> Stopped \<Longrightarrow> Q (Some (e, True)) s'"
    and before: "\<And>s' e. c_dirs s' (pi_persistentPath i) = Some B \<Longrightarrow> c_dirs s' (backup_path i) = None \<Longrightarrow>
      c_journals s' = c_journals s \<Longrightarrow> e \<noteq> Stopped \<Longrightarrow> Q (Some (e, False)) s'"
    and err: "\<And>s'. held B (pi_persistentPath i) (backup_path i) s' \<Longrightarrow> c_journals s' = c_journals s \<Longrightarrow> E Stopped s'"
  shows "wp (swap_in te i staged) Q E s"
proof -
  note paths = apart_paths [OF assms(1)]
  let ?inner = "\<lambda>s. wp (bindS (rename_dir (staging_path i) (pi_persistentPath i)) (\<lambda>_.
      bindS (manifest_at te authoritative (pi_persistentPath i)) (\<lambda>final.
        if sm_hash final \<noteq> sm_hash staged
        then tx_throw ''Promoted workspace hash does not match staging hash'' else returnS None))) Q
      (\<lambda>e s'. if e = Stopped then E e s' else Q (Some (e, True)) s') s"
  have inner: "?inner s1" if s1: "c_dirs s1 (backup_path i) = Some B" "c_journals s1 = c_journals s" for s1
  proof -
    have fail: "if e = Stopped then E e s' else Q (Some (e, True)) s'"
      if "c_dirs s' (backup_path i) = Some B" "c_journals s' = c_journals s" for e s'
      using that after err by (auto simp: held_def)
    show ?thesis unfolding wp_simps
    proof (rule wp_rename, goal_cases)
      case (1 s2 t)
      then have s2: "c_dirs s2 (pi_persistentPath i) = Some t" "c_dirs s2 (backup_path i) = Some B"
        "c_journals s2 = c_journals s" using s1 paths paths [symmetric] by auto
      show ?case
      proof (rule wp_build, goal_cases)
        case (1 s3 t' m)
        then have "t' = t" "c_dirs s3 (pi_persistentPath i) = Some t" "c_dirs s3 (backup_path i) = Some B"
          "c_journals s3 = c_journals s" using s2 by auto
        then show ?case using ok [of s3 t] fail [of s3 "TxError (JsError ''Promoted workspace hash does not match staging hash'')"] 1
          by (auto simp: hash_ok_def manifest_of_def)
      next
        case (2 e s3)
        then show ?case using fail [of s3] s2 by simp
      qed
    next
      case (2 e s2)
      then show ?case using fail [of s2] s1 by simp
    qed
  qed
  show ?thesis
    unfolding swap_in_def wp_catch wp_bind [of "rename_dir (pi_persistentPath i) (backup_path i)"]
  proof (rule wp_rename, goal_cases)
    case (1 s1 t)
    then have "?inner s1" using inner assms(2) paths by auto
    then show ?case by (rule wp_mono) (auto simp: wp_simps)
  next
    case (2 e s')
    then show ?case using assms(2,3) before [of s' e] err [of s'] by (auto simp: wp_simps held_def)
  qed
qed

lemma wp_aside:
  assumes "P \<noteq> F"
    and "\<And>s'. c_dirs s' P = None \<Longrightarrow> (\<forall>p. p \<noteq> P \<longrightarrow> p \<noteq> F \<longrightarrow> c_dirs s' p = c_dirs s p) \<Longrightarrow>
      c_journals s' = c_journals s \<Longrightarrow> Q () s'"
    and "\<And>e s'. c_dirs s' = c_dirs s \<Longrightarrow> c_journals s' = c_journals s \<Longrightarrow> E e s'"
  shows "wp (set_aside P F) Q E s"
  unfolding set_aside_def wp_simps
proof (rule wp_exists, goal_cases)
  case (1 s1)
  then show ?case using assms
    by (auto simp: wp_simps intro!: wp_look wp_rename)
qed (use assms(3) in simp)

text \<open>Putting a held tree back, as the undo of a failed swap and the rollback of a journal do it.\<close>

lemma wp_undo:
  assumes "apart i" and "held B (pi_persistentPath i) (backup_path i) s"
    and created: "created \<longleftrightarrow> c_dirs s (backup_path i) = Some B"
    and ok: "\<And>s' j'. c_dirs s' (pi_persistentPath i) = Some B \<Longrightarrow> j' = j\<lparr>jn_state := ROLLED_BACK, jn_updatedAt := te_now te\<rparr> \<Longrightarrow>
      c_journals s' = (c_journals s)(journal_path i \<mapsto> j') \<Longrightarrow> Q () s'"
    and err: "\<And>e s'. held B (pi_persistentPath i) (backup_path i) s' \<Longrightarrow> c_journals s' = c_journals s \<Longrightarrow> E e s'"
  shows "wp (undo_swap te i j created) Q E s"
proof -
  note paths = apart_paths [OF assms(1)]
  have finish: "wp (updateJournal (journal_path i) j ROLLED_BACK (te_now te)) (\<lambda>x. Q ()) E s'"
    if "c_dirs s' (pi_persistentPath i) = Some B" "c_journals s' = c_journals s"
      "held B (pi_persistentPath i) (backup_path i) s'" for s'
    by (rule wp_update) (use that in \<open>auto intro!: ok err simp: held_def\<close>)
  show ?thesis
  proof (cases created)
    case False
    then have "c_dirs s (pi_persistentPath i) = Some B" using assms(2,3) by (auto simp: held_def)
    with False finish [of s] assms(2) show ?thesis by (simp add: undo_swap_def wp_simps)
  next
    case True
    with created have K: "c_dirs s (backup_path i) = Some B" by simp
    have "wp (set_aside (pi_persistentPath i) (failed_path te (pi_controlPath i) (pi_runId i)))
       (\<lambda>_. wp (pathExists (backup_path i)) (\<lambda>there.
          wp (if there then rename_dir (backup_path i) (pi_persistentPath i) else returnS ())
            (\<lambda>_. wp (manifest_at te authoritative (pi_persistentPath i)) (\<lambda>restored s.
               if sm_hash restored \<noteq> pi_baseHash i
               then E (TxError (JsError ''Promotion failure recovery restored an unexpected workspace hash'')) s
               else wp (updateJournal (journal_path i) j ROLLED_BACK (te_now te)) (\<lambda>x. Q ()) E s) E) E) E) E s"
    proof (rule wp_aside, goal_cases)
      case 1
      show ?case by (rule paths)
    next
      case (2 s1)
      then have s1: "c_dirs s1 (pi_persistentPath i) = None" "c_dirs s1 (backup_path i) = Some B"
        "c_journals s1 = c_journals s" using K paths paths [symmetric] by auto
      show ?case
      proof (rule wp_exists, goal_cases)
        case (1 s2)
        with s1 have s2: "c_dirs s2 (pi_persistentPath i) = None" "c_dirs s2 (backup_path i) = Some B"
          "c_journals s2 = c_journals s" by auto
        show ?case unfolding s1(2) wp_simps if_P [OF option.distinct(2)]
        proof (simp, rule wp_rename, goal_cases)
          case (1 s3 t)
          then have s3: "c_dirs s3 (pi_persistentPath i) = Some B" "c_dirs s3 (backup_path i) = None"
            "c_journals s3 = c_journals s" using s2 paths by auto
          show ?case
          proof (rule wp_build, goal_cases)
            case (1 s4 t m)
            then have "c_dirs s4 (pi_persistentPath i) = Some B" "c_journals s4 = c_journals s"
              "held B (pi_persistentPath i) (backup_path i) s4" using s3 by (auto simp: held_def)
            then show ?case using finish [of s4] err [of s4] by simp
          qed (use s3 err in \<open>auto simp: held_def\<close>)
        qed (use s2 err in \<open>auto simp: held_def\<close>)
      qed (use s1 err in \<open>auto simp: held_def\<close>)
    qed (use K err in \<open>auto simp: held_def\<close>)
    with True show ?thesis by (simp add: undo_swap_def wp_simps cong: if_cong)
  qed
qed

subsection \<open>Recoverable states\<close>

text \<open>A journal of the run of \<open>i\<close>, in any state.\<close>

definition journal_for :: "tx_env \<Rightarrow> 'w promote_input \<Rightarrow> journal \<Rightarrow> bool" where
  "journal_for te i j \<longleftrightarrow> jn_runId j = pi_runId i \<and> jn_agentId j = pi_agentId i \<and> jn_kind j = pi_kind i \<and>
     jn_persistentPath j = pi_persistentPath i \<and> jn_stagingPath j = staging_path i \<and>
     jn_backupPath j = backup_path i \<and> jn_baseHash j = pi_baseHash i"

definition recoverable :: "tx_env \<Rightarrow> fs_node \<Rightarrow> journal \<Rightarrow> 'r control_scheme \<Rightarrow> bool" where
  "recoverable te B j s \<longleftrightarrow>
     (case jn_state j of
        PREPARING \<Rightarrow> c_dirs s (jn_persistentPath j) = Some B
      | ROLLED_BACK \<Rightarrow> c_dirs s (jn_persistentPath j) = Some B
      | PROMOTING \<Rightarrow> hash_ok te (jn_baseHash j) B \<and> held B (jn_persistentPath j) (jn_backupPath j) s
      | PROMOTED_PENDING_DB \<Rightarrow> hash_ok te (jn_baseHash j) B \<and> held B (jn_persistentPath j) (jn_backupPath j) s
      | ACKNOWLEDGED \<Rightarrow> False)"

definition crash_safe :: "tx_env \<Rightarrow> 'w promote_input \<Rightarrow> fs_node \<Rightarrow> 'r control_scheme \<Rightarrow> bool" where
  "crash_safe te i B s \<longleftrightarrow>
     (case c_journals s (journal_path i) of
        None \<Rightarrow> c_dirs s (pi_persistentPath i) = Some B
      | Some j \<Rightarrow> journal_for te i j \<and> recoverable te B j s)"

definition frames :: "('r control_scheme, tx_error, 'a) eff \<Rightarrow> bool" where
  "frames m \<longleftrightarrow> (\<forall>s. c_dirs (snd (m s)) = c_dirs s \<and> c_journals (snd (m s)) = c_journals s)"

lemma wp_frames:
  assumes "frames m"
    and "\<And>x s'. m s = (Inr x, s') \<Longrightarrow> c_dirs s' = c_dirs s \<Longrightarrow> c_journals s' = c_journals s \<Longrightarrow> Q x s'"
    and "\<And>e s'. m s = (Inl e, s') \<Longrightarrow> c_dirs s' = c_dirs s \<Longrightarrow> c_journals s' = c_journals s \<Longrightarrow> E e s'"
  shows "wp m Q E s"
  using assms unfolding frames_def by (intro wpI) (metis snd_conv)+

text \<open>What a promotion may end with that does not return a handle.\<close>

definition ended :: "tx_env \<Rightarrow> 'w promote_input \<Rightarrow> fs_node \<Rightarrow> tx_error \<Rightarrow> 'r control_scheme \<Rightarrow> bool" where
  "ended te i B e s \<longleftrightarrow> crash_safe te i B s \<and>
     (e = Stopped \<or> (\<exists>msg. e = RecoveryRequired msg) \<or> c_dirs s (pi_persistentPath i) = Some B)"

definition promoted :: "tx_env \<Rightarrow> 'w promote_input \<Rightarrow> fs_node \<Rightarrow> journal \<Rightarrow> 'r control_scheme \<Rightarrow> bool" where
  "promoted te i B j s \<longleftrightarrow> (\<exists>T. c_dirs s (pi_persistentPath i) = Some T \<and> hash_ok te (jn_targetHash j) T \<and>
     expected_hash (pi_expectedTargetHash i) \<in> {None, Some (jn_targetHash j)} \<and>
     hash_ok te (pi_baseHash i) B \<and> c_dirs s (backup_path i) = Some B \<and>
     c_journals s (journal_path i) = Some j \<and> journal_for te i j \<and> jn_state j = PROMOTED_PENDING_DB)"

lemma ended_untouched:
  "c_dirs s (pi_persistentPath i) = Some B \<Longrightarrow> c_journals s (journal_path i) = None \<Longrightarrow> ended te i B e s"
  by (simp add: ended_def crash_safe_def)

lemma ended_preparing:
  "c_dirs s (pi_persistentPath i) = Some B \<Longrightarrow> c_journals s (journal_path i) = Some j \<Longrightarrow> journal_for te i j \<Longrightarrow>
     jn_state j = PREPARING \<or> jn_state j = ROLLED_BACK \<Longrightarrow> ended te i B e s"
  by (auto simp: ended_def crash_safe_def recoverable_def journal_for_def)

lemma wp_discard:
  assumes "apart i" and P: "c_dirs s (pi_persistentPath i) = Some B"
    and j: "c_journals s (journal_path i) = Some j" "journal_for te i j" "jn_state j = PREPARING"
    and ok: "\<And>s'. (\<And>e. ended te i B e s') \<Longrightarrow> c_dirs s' (pi_persistentPath i) = Some B \<Longrightarrow> Q () s'"
    and err: "\<And>s' e. ended te i B e s' \<Longrightarrow> c_dirs s' (pi_persistentPath i) = Some B \<Longrightarrow> E e s'"
  shows "wp (discard te i j) Q E s"
  unfolding discard_def wp_simps
proof (rule wp_rm, goal_cases)
  case (1 s1)
  then have s1: "c_dirs s1 (pi_persistentPath i) = Some B" "c_journals s1 (journal_path i) = Some j"
    using P j apart_paths(1) [OF assms(1)] by auto
  show ?case
  proof (rule wp_update, goal_cases)
    case (1 s2 j2)
    then have "ended te i B e s2" for e
      using s1 j by (intro ended_preparing [where j = j2]) (auto simp: journal_for_def)
    then show ?case using 1 s1 by (intro ok) auto
  next
    case (2 e s2)
    then show ?case using s1 j by (intro err ended_preparing) auto
  qed
next
  case (2 e t s1)
  then show ?case using P j apart_paths(1) [OF assms(1)] by (intro err ended_preparing) auto
qed

subsection \<open>The rest of the state\<close>

text \<open>Only the authorisation touches anything but files, journals and faults.\<close>

definition rest_same :: "'r control_scheme \<Rightarrow> 'r control_scheme \<Rightarrow> bool" where
  "rest_same s s' \<longleftrightarrow> control.more s' = control.more s"

interpretation rest: tx_frame rest_same
  by unfold_locales (simp_all add: rest_same_def)

lemma rest_rm: "keeps rest_same (rm_dir p)"
  unfolding rm_dir_def by (rule rest.keeps_io) (simp_all add: rest_same_def)

lemma rest_rename: "keeps rest_same (rename_dir p q)"
  unfolding rename_dir_def by (intro rest.frame_intros rest.keeps_io) (simp_all add: rest_same_def)

lemma rest_write: "keeps rest_same (write_journal p j)"
  unfolding write_journal_def by (rule rest.keeps_io) (simp_all add: rest_same_def)

lemma rest_update: "keeps rest_same (updateJournal p j st now)"
  unfolding updateJournal_def Let_def by (intro rest.frame_intros rest_write)

lemma rest_copy: "keeps rest_same (copy_dir te src p include clean)"
  unfolding copy_dir_def by (intro rest.frame_intros rest.keeps_io) (simp_all add: rest_same_def)

lemma rest_change: "keeps rest_same (change_tree p f)"
  unfolding change_tree_def by (intro rest.frame_intros rest.keeps_io) (simp_all add: rest_same_def)

lemma rest_aside: "keeps rest_same (set_aside p q)"
  unfolding set_aside_def by (intro rest.frame_intros rest_rename)

lemmas rest_ops = rest_rm rest_rename rest_write rest_update rest_copy rest_change rest_aside

lemma rest_stage: "keeps rest_same (stage_tree te i)"
  unfolding stage_tree_def check_versioned_def by (intro rest.frame_intros rest_ops)

lemma rest_discard: "keeps rest_same (discard te i j)"
  unfolding discard_def by (intro rest.frame_intros rest_ops)

lemma rest_swap: "keeps rest_same (swap_phase te i j m)"
  unfolding swap_phase_def swap_in_def undo_swap_def by (intro rest.frame_intros rest_ops)

lemma wp_rest:
  assumes "keeps rest_same m" and "wp m (\<lambda>x s'. control.more s' = control.more s \<longrightarrow> Q x s') E s"
  shows "wp m Q E s"
  using wp_keeps [OF assms] by (rule wp_mono) (simp_all add: rest_same_def)

text \<open>From the consumed authorisation on.\<close>

lemma wp_swap_phase:
  assumes "apart i" and P: "c_dirs s (pi_persistentPath i) = Some B" and K: "c_dirs s (backup_path i) = None"
    and j: "c_journals s (journal_path i) = Some j" "journal_for te i j" "jn_state j = PREPARING"
      "jn_targetHash j = sm_hash staged"
    and exp: "expected_hash (pi_expectedTargetHash i) \<in> {None, Some (sm_hash staged)}"
    and base: "hash_ok te (pi_baseHash i) B"
  shows "wp (swap_phase te i j staged) (promoted te i B) (ended te i B) s"
  unfolding swap_phase_def wp_bind
proof (rule wp_update, goal_cases)
  case (2 e s')
  then show ?case using P j by (intro ended_preparing) auto
next
  case (1 s1 j1)
  then have s1: "c_dirs s1 (pi_persistentPath i) = Some B" "c_dirs s1 (backup_path i) = None"
    "c_journals s1 (journal_path i) = Some j1" "journal_for te i j1" "jn_state j1 = PROMOTING" "jn_targetHash j1 = sm_hash staged"
    using P K j by (auto simp: journal_for_def)
  have promoting: "ended te i B e s'"
    if "held B (pi_persistentPath i) (backup_path i) s'" "c_journals s' (journal_path i) = Some j1"
      "e = Stopped \<or> (\<exists>msg. e = RecoveryRequired msg)" for e s'
    using that s1 base by (auto simp: ended_def crash_safe_def recoverable_def journal_for_def)
  have undo: "wp (bindS (catchS (undo_swap te i j1 b)
                  (\<lambda>_. throwS (RecoveryRequired
                    ''Promotion failed after swap began and automatic restoration did not complete''))) (\<lambda>_. throwS e))
        (promoted te i B) (ended te i B) s2"
    if "held B (pi_persistentPath i) (backup_path i) s2" "b \<longleftrightarrow> c_dirs s2 (backup_path i) = Some B"
      "c_journals s2 = c_journals s1" for b e s2
    unfolding wp_simps
  proof (rule wp_undo [OF assms(1) that(1,2)], goal_cases)
    case (1 s3 j3)
    then show ?case using s1 that(3) by (auto simp: journal_for_def intro!: ended_preparing [of s3 i B j3 te e])
  next
    case (2 e s3)
    then show ?case using s1 that(3) promoting [of s3] by auto
  qed
  show ?case
  proof (rule wp_swap [OF assms(1) s1(1,2)], goal_cases)
    case (1 s2 T)
    then have s2: "c_dirs s2 (pi_persistentPath i) = Some T" "hash_ok te (jn_targetHash j1) T"
      "c_dirs s2 (backup_path i) = Some B" "c_journals s2 (journal_path i) = Some j1"
      using s1 by (auto simp: fun_eq_iff)
    show ?case unfolding option.case wp_catch
    proof (rule wp_update, goal_cases)
      case (1 s3 j3)
      then show ?case using s2 s1 exp base by (auto simp: promoted_def journal_for_def)
    next
      case (2 e s3)
      then show ?case using s2 promoting [of s3] by (auto simp: wp_simps held_def)
    qed
  next
    case (2 s2 e)
    then show ?case using undo [of s2 True] by (auto simp: held_def)
  next
    case (3 s2 e)
    then show ?case using undo [of s2 False] by (auto simp: held_def)
  next
    case (4 s2)
    then show ?case using s1 by (auto intro!: promoting)
  qed
qed

lemma wp_admit:
  assumes "apart i" and P: "c_dirs s (pi_persistentPath i) = Some B" and K: "c_dirs s (backup_path i) = None"
    and j: "c_journals s (journal_path i) = Some j" "journal_for te i j" "jn_state j = PREPARING"
    and consume: "\<And>m. pi_consumeAuthorization i = Some m \<Longrightarrow> frames m"
    and ok: "\<And>s'. c_dirs s' (pi_persistentPath i) = Some B \<Longrightarrow> c_dirs s' (backup_path i) = None \<Longrightarrow>
      c_journals s' (journal_path i) = Some j \<Longrightarrow> hash_ok te (pi_baseHash i) B \<Longrightarrow>
      (\<And>m. pi_consumeAuthorization i = Some m \<Longrightarrow> \<exists>s1. control.more s1 = control.more s \<and> m s1 = (Inr (), s')) \<Longrightarrow> Q () s'"
    and err: "\<And>s' e. ended te i B e s' \<Longrightarrow> c_dirs s' (pi_persistentPath i) = Some B \<Longrightarrow> E e s'"
  shows "wp (admit_swap te i j) Q E s"
proof -
  have E: "E e s'" if "c_dirs s' = c_dirs s" "c_journals s' = c_journals s" for e s'
    by (intro err ended_preparing [where j = j]) (use that P j in auto)
  have discard: "wp (bindS (discard te i j) (\<lambda>_. throwS e)) Q E s'"
    if "c_dirs s' = c_dirs s" "c_journals s' = c_journals s" for e s'
    unfolding wp_simps
    by (rule wp_discard [OF assms(1)]) (use that P j err in auto)
  show ?thesis
    unfolding admit_swap_def wp_bind
  proof (rule wp_rest [OF rest.keeps_build], rule wp_build, goal_cases)
    case (2 e s')
    then show ?case by (rule E)
  next
    case (1 s1 t m)
    show ?case
    proof
    assume more: "control.more s1 = control.more s"
    have s1: "t = B" "c_dirs s1 = c_dirs s" "c_journals s1 = c_journals s" using 1 P by auto
    have base: "hash_ok te (pi_baseHash i) B" if "sm_hash m = pi_baseHash i"
      using 1 s1 that by (auto simp: hash_ok_def manifest_of_def)
    have admit: "wp (if sm_hash m \<noteq> pi_baseHash i \<or> \<not> v
        then bindS (discard te i j) (\<lambda>_. throwS (StateConflict ''Persistent workspace changed after candidate preparation''))
        else case pi_consumeAuthorization i of None \<Rightarrow> returnS ()
             | Some consume \<Rightarrow> catchS consume (\<lambda>e. bindS (discard te i j) (\<lambda>_. throwS e))) Q E s1" for v
    proof (cases "sm_hash m \<noteq> pi_baseHash i \<or> \<not> v")
      case True
      then show ?thesis using discard [of s1] s1 by simp
    next
      case False
      then have b: "hash_ok te (pi_baseHash i) B" using base by simp
      show ?thesis
      proof (cases "pi_consumeAuthorization i")
        case None
        with False b show ?thesis using s1 P K j ok [of s1] by (simp add: wp_simps)
      next
        case (Some c)
        have "wp (catchS c (\<lambda>e. bindS (discard te i j) (\<lambda>_. throwS e))) Q E s1"
          unfolding wp_catch
        proof (rule wp_frames [OF consume [OF Some]], goal_cases)
          case (1 x s2)
          then show ?case using s1 P K j b Some more by (cases x) (auto intro!: ok)
        next
          case (2 e s2)
          then show ?case using s1 discard [of s2] E [of s2] by simp
        qed
        with False Some show ?thesis by simp
      qed
    qed
    show "wp (case pi_assertCurrentView i of None \<Rightarrow> returnS True | Some f \<Rightarrow> bindS (getS f) (\<lambda>r. tx_res r))
        (\<lambda>v. wp (if sm_hash m \<noteq> pi_baseHash i \<or> \<not> v
        then bindS (discard te i j) (\<lambda>_. throwS (StateConflict ''Persistent workspace changed after candidate preparation''))
        else case pi_consumeAuthorization i of None \<Rightarrow> returnS ()
             | Some consume \<Rightarrow> catchS consume (\<lambda>e. bindS (discard te i j) (\<lambda>_. throwS e))) Q E) E s1"
    proof (cases "pi_assertCurrentView i")
      case None
      then show ?thesis using admit [of True] by (simp add: wp_return)
    next
      case (Some f)
      then show ?thesis using admit E [of s1] s1 by (cases "f s1") (simp_all add: wp_bind wp_get wp_res)
    qed
    qed
  qed
qed

text \<open>
  The run to the swap and the swap, for any two facts about their outcomes: the tree is untouched
  when an error comes before the authorisation is consumed.
\<close>

lemma wp_promote_phases:
  assumes "apart i" and P: "c_dirs s (pi_persistentPath i) = Some B" and J: "c_journals s (journal_path i) = None"
    and consume: "\<And>m. pi_consumeAuthorization i = Some m \<Longrightarrow> frames m"
    and before: "\<And>e s'. ended te i B e s' \<Longrightarrow> c_dirs s' (pi_persistentPath i) = Some B \<Longrightarrow> E e s'"
    and swap: "\<And>s1 j m. wp (swap_phase te i j m) (promoted te i B) (ended te i B) s1 \<Longrightarrow>
      (\<And>m. pi_consumeAuthorization i = Some m \<Longrightarrow> \<exists>s0. control.more s0 = control.more s \<and> m s0 = (Inr (), s1)) \<Longrightarrow> wp (swap_phase te i j m) Q E s1"
  shows "wp (promote_tx te i) Q E s"
proof -
  have E: "E e s'" if "c_dirs s' (pi_persistentPath i) = Some B" "c_journals s' = c_journals s" for e s'
    by (rule before, rule ended_untouched) (use that J in auto)
  have main: "wp (bindS (stage_tree te i) (\<lambda>staged.
     let j = new_journal te i (sm_hash staged) in
     bindS (write_journal (journal_path i) j) (\<lambda>_.
     bindS (admit_swap te i j) (\<lambda>_.
     swap_phase te i j staged)))) Q E s1"
    if s1: "c_dirs s1 = c_dirs s" "c_journals s1 = c_journals s" and more: "control.more s1 = control.more s" for s1
    unfolding wp_bind Let_def
  proof (rule wp_rest [OF rest_stage], rule wp_stage [OF assms(1)], goal_cases)
    case (2 e s2)
    then show ?case using s1 P by (intro E) auto
  next
    case (1 s2 m t)
    let ?j = "new_journal te i (sm_hash m)"
    have s2: "c_dirs s2 (pi_persistentPath i) = Some B" "c_journals s2 = c_journals s" using 1 s1 P by auto
    have j: "journal_for te i ?j" "jn_state ?j = PREPARING" "jn_targetHash ?j = sm_hash m"
      by (simp_all add: journal_for_def new_journal_def)
    have "wp (write_journal (journal_path i) ?j) (\<lambda>_. wp (admit_swap te i ?j) (\<lambda>_. wp (swap_phase te i ?j m) Q E) E) E s2"
      if more2: "control.more s2 = control.more s1"
    proof (rule wp_rest [OF rest_write], rule wp_write, goal_cases)
      case (2 e s3)
      then show ?case using s2 by (intro E) auto
    next
      case s3: (1 s3)
      have "wp (admit_swap te i ?j) (\<lambda>_. wp (swap_phase te i ?j m) Q E) E s3" if more3: "control.more s3 = control.more s2"
      proof (rule wp_admit [OF assms(1) _ _ _ j(1,2), where B = B], goal_cases)
        case (5 s4)
        show ?case
        proof (rule swap)
          show "wp (swap_phase te i ?j m) (promoted te i B) (ended te i B) s4"
            using 5 1 j by (intro wp_swap_phase [OF assms(1)]) auto
        qed (use 5(5) more more2 more3 in simp)
      next
        case (4 m)
        then show ?case by (rule consume)
      next
        case (6 s4 e)
        then show ?case by (rule before)
      qed (use s3 s2 1 in auto)
      then show ?case by simp
    qed
    then show ?case by simp
  qed
  have look: "wp look Q' E s1" if "\<And>s'. c_dirs s' = c_dirs s \<Longrightarrow> c_journals s' = c_journals s \<Longrightarrow>
      control.more s' = control.more s \<Longrightarrow> Q' () s'" and "c_dirs s1 = c_dirs s" "c_journals s1 = c_journals s"
      "control.more s1 = control.more s" for Q' s1
    by (rule wp_rest [OF rest.keeps_look], rule wp_look) (use that P in \<open>auto intro: E\<close>)
  show ?thesis
    unfolding promote_tx_def assertSameFilesystem_def wp_bind [of "tx_res _"] wp_bind [of "bindS look _"] wp_res wp_bind [of look] wp_get wp_bind [of "getS _"]
    by (auto intro!: look E main simp: P wp_return wp_throw split: sum.splits)
qed

lemma wp_promote:
  assumes "apart i" and "c_dirs s (pi_persistentPath i) = Some B" and "c_journals s (journal_path i) = None"
    and "\<And>m. pi_consumeAuthorization i = Some m \<Longrightarrow> frames m"
  shows "wp (promote_tx te i) (promoted te i B) (ended te i B) s"
  by (rule wp_promote_phases [OF assms])

text \<open>A tree that is not the old one any more was swapped in after the authorisation was consumed.\<close>

definition spent :: "('r control_scheme, tx_error, unit) eff \<Rightarrow> 'r control_scheme \<Rightarrow> 'r control_scheme \<Rightarrow> bool" where
  "spent m s s' \<longleftrightarrow> (\<exists>s0 s1. control.more s0 = control.more s \<and> m s0 = (Inr (), s1) \<and> control.more s' = control.more s1)"

lemma wp_promote_spent:
  assumes "apart i" and "c_dirs s (pi_persistentPath i) = Some B" and "c_journals s (journal_path i) = None"
    and "frames m" and m: "pi_consumeAuthorization i = Some m"
  shows "wp (promote_tx te i) (\<lambda>j s'. promoted te i B j s' \<and> spent m s s')
    (\<lambda>e s'. ended te i B e s' \<and> (spent m s s' \<or> c_dirs s' (pi_persistentPath i) = Some B)) s"
proof (rule wp_promote_phases [OF assms(1-3)], goal_cases)
  case (1 m')
  then show ?case using assms(4) m by simp
next
  case (3 s1 j staged)
  from 3(2) [OF m] obtain s0 where s0: "control.more s0 = control.more s" "m s0 = (Inr (), s1)" by blast
  from wp_keeps [OF rest_swap 3(1)] show ?case
    by (rule wp_mono) (use s0 in \<open>auto simp: rest_same_def spent_def\<close>)
qed auto

subsection \<open>Rolling a journal back\<close>

definition journal_failed_path :: "tx_env \<Rightarrow> journal \<Rightarrow> string" where
  "journal_failed_path te j = failed_path te (dirname (dirname (jn_backupPath j))) (jn_runId j)"

definition apart_journal :: "tx_env \<Rightarrow> journal \<Rightarrow> bool" where
  "apart_journal te j \<longleftrightarrow> jn_persistentPath j \<noteq> jn_backupPath j \<and> jn_persistentPath j \<noteq> jn_stagingPath j \<and>
     jn_persistentPath j \<noteq> journal_failed_path te j \<and> jn_backupPath j \<noteq> journal_failed_path te j \<and>
     jn_stagingPath j \<noteq> jn_backupPath j"

definition swapping :: "journal \<Rightarrow> bool" where
  "swapping j \<longleftrightarrow> jn_state j = PROMOTING \<or> jn_state j = PROMOTED_PENDING_DB"

lemma swapping_recoverable:
  "swapping j \<Longrightarrow> recoverable te B j s \<longleftrightarrow> hash_ok te (jn_baseHash j) B \<and> held B (jn_persistentPath j) (jn_backupPath j) s"
  by (auto simp: swapping_def recoverable_def)

lemma wp_rollbackJournal:
  assumes "apart_journal te j" and "swapping j" and rec: "recoverable te B j s"
    and ok: "\<And>s' j'. c_dirs s' (jn_persistentPath j) = Some B \<Longrightarrow> j' = j\<lparr>jn_state := ROLLED_BACK, jn_updatedAt := te_now te\<rparr> \<Longrightarrow>
      c_journals s' = (c_journals s)(p \<mapsto> j') \<Longrightarrow> Q () s'"
    and err: "\<And>e s'. recoverable te B j s' \<Longrightarrow> c_journals s' = c_journals s \<Longrightarrow> E e s'"
  shows "wp (rollbackJournal te j p) Q E s"
proof -
  let ?P = "jn_persistentPath j" let ?K = "jn_backupPath j"
  have base: "hash_ok te (jn_baseHash j) B" and h: "held B ?P ?K s" using rec assms(2) swapping_recoverable by auto
  have E: "E e s'" if "held B ?P ?K s'" "c_journals s' = c_journals s" for e s'
    using that base swapping_recoverable [OF assms(2)] by (intro err) auto
  have neq: "?P \<noteq> ?K" "?P \<noteq> jn_stagingPath j" "?P \<noteq> journal_failed_path te j" "?K \<noteq> journal_failed_path te j"
    "jn_stagingPath j \<noteq> ?K" using assms(1) by (auto simp: apart_journal_def)
  have finish: "wp (bindS (manifest_at te authoritative ?P) (\<lambda>restored.
        if sm_hash restored \<noteq> jn_baseHash j
        then tx_throw ''Recovery restored a workspace with an unexpected hash''
        else
          bindS (rm_dir (jn_stagingPath j)) (\<lambda>_.
          bindS (updateJournal p j ROLLED_BACK (te_now te)) (\<lambda>_. returnS ())))) Q E s1"
    if "c_dirs s1 ?P = Some B" "held B ?P ?K s1" "c_journals s1 = c_journals s" for s1
    unfolding wp_bind wp_if wp_return
  proof (rule wp_build, goal_cases)
    case (1 s2 t m)
    then have "sm_hash m = jn_baseHash j" using that base by (auto simp: hash_ok_def manifest_of_def)
    moreover have "wp (rm_dir (jn_stagingPath j)) (\<lambda>x. wp (updateJournal p j ROLLED_BACK (te_now te)) (\<lambda>x. Q ()) E) E s2"
    proof (rule wp_rm, goal_cases)
      case (1 s3)
      then have s3: "c_dirs s3 ?P = Some B" "held B ?P ?K s3" "c_journals s3 = c_journals s"
        using that \<open>c_dirs s2 = c_dirs s1\<close> \<open>c_journals s2 = c_journals s1\<close> neq neq [symmetric] by (auto simp: held_def)
      show ?case
      proof (rule wp_update, goal_cases)
        case (1 s4 j4)
        then show ?case using s3 by (intro ok) auto
      next
        case (2 e s4)
        then show ?case using s3 by (intro E) (auto simp: held_def)
      qed
    next
      case (2 e t s3)
      then show ?case using that \<open>c_dirs s2 = c_dirs s1\<close> \<open>c_journals s2 = c_journals s1\<close> neq neq [symmetric]
        by (intro E) (auto simp: held_def)
    qed
    ultimately show ?case by simp
  next
    case (2 e s2)
    then show ?case using that by (intro E) (auto simp: held_def)
  qed
  have go: "wp (bindS (pathExists ?K) (\<lambda>there.
      bindS (if there then
               bindS (set_aside ?P (journal_failed_path te j)) (\<lambda>_. rename_dir ?K ?P)
             else returnS ()) (\<lambda>_.
      bindS (manifest_at te authoritative ?P) (\<lambda>restored.
        if sm_hash restored \<noteq> jn_baseHash j
        then tx_throw ''Recovery restored a workspace with an unexpected hash''
        else
          bindS (rm_dir (jn_stagingPath j)) (\<lambda>_.
          bindS (updateJournal p j ROLLED_BACK (te_now te)) (\<lambda>_. returnS ())))))) Q E s"
    unfolding wp_bind [of "pathExists _"] wp_bind [of "if _ then _ else _"]
  proof (rule wp_exists, goal_cases)
    case (2 e s1)
    then show ?case using h by (intro E) (auto simp: held_def)
  next
    case (1 s1)
    show ?case
    proof (cases "c_dirs s ?K")
      case None
      then show ?thesis using 1 h finish [of s1] by (simp add: wp_return held_def)
    next
      case (Some t)
      then have s1: "c_dirs s1 ?K = Some B" "c_journals s1 = c_journals s" using 1 h by (auto simp: held_def)
      have "wp (set_aside ?P (journal_failed_path te j)) (\<lambda>x. wp (rename_dir ?K ?P)
         (\<lambda>_. wp (bindS (manifest_at te authoritative ?P) (\<lambda>restored.
            if sm_hash restored \<noteq> jn_baseHash j
            then tx_throw ''Recovery restored a workspace with an unexpected hash''
            else
              bindS (rm_dir (jn_stagingPath j)) (\<lambda>_.
              bindS (updateJournal p j ROLLED_BACK (te_now te)) (\<lambda>_. returnS ())))) Q E) E) E s1"
      proof (rule wp_aside, goal_cases)
        case 1
        show ?case by (rule neq)
      next
        case (2 s2)
        then have s2: "c_dirs s2 ?P = None" "c_dirs s2 ?K = Some B" "c_journals s2 = c_journals s"
          using s1 neq neq [symmetric] by auto
        show ?case
        proof (rule wp_rename, goal_cases)
          case (1 s3 t')
          then show ?case using s2 neq by (intro finish) (auto simp: held_def)
        next
          case (2 e s3)
          then show ?case using s2 by (intro E) (auto simp: held_def)
        qed
      next
        case (3 e s2)
        then show ?case using s1 by (intro E) (auto simp: held_def)
      qed
      with Some show ?thesis by (simp add: wp_bind)
    qed
  qed
  show ?thesis using go assms(2) unfolding rollbackJournal_def journal_failed_path_def by (auto simp: swapping_def)
qed

end
