(* ===== verification/Version_Props.thy ===== *)
theory Version_Props
  imports Version_Facts Tx_Facts
begin

text \<open>
  The version store over histories with faults: whatever fails or stops, the stored index keeps
  its invariant and every snapshot it advertises has its payload.
\<close>

subsection \<open>What the transaction leaves of the store\<close>

definition snap_same :: "string set \<Rightarrow> 'r version_world_scheme \<Rightarrow> 'r version_world_scheme \<Rightarrow> bool" where
  "snap_same D s s' \<longleftrightarrow> vw_indexes s' = vw_indexes s \<and> (\<forall>p \<in> D. c_dirs s' p = c_dirs s p)"

interpretation snap: tx_frame "snap_same D" for D
  by unfold_locales (auto simp: snap_same_def)

definition snapshot_paths :: "string \<Rightarrow> string set" where
  "snapshot_paths root = {root @ ''/snapshots/'' @ h | h. True}"

lemma snap_rm: "p \<notin> D \<Longrightarrow> keeps (snap_same D) (rm_dir p)"
  unfolding rm_dir_def by (rule snap.keeps_io) (auto simp: snap_same_def)

lemma snap_rename: "p \<notin> D \<Longrightarrow> q \<notin> D \<Longrightarrow> keeps (snap_same D) (rename_dir p q)"
  unfolding rename_dir_def
  by (intro snap.frame_intros snap.keeps_io) (auto simp: snap_same_def)

lemma snap_write: "keeps (snap_same D) (write_journal p j)"
  unfolding write_journal_def by (rule snap.keeps_io) (auto simp: snap_same_def)

lemma snap_update: "keeps (snap_same D) (updateJournal p j st now)"
  unfolding updateJournal_def Let_def by (intro snap.frame_intros snap_write)

lemma snap_copy: "p \<notin> D \<Longrightarrow> keeps (snap_same D) (copy_dir te src p include clean)"
  unfolding copy_dir_def
  by (intro snap.frame_intros snap.keeps_io) (auto simp: snap_same_def)

lemma snap_change: "p \<notin> D \<Longrightarrow> keeps (snap_same D) (change_tree p f)"
  unfolding change_tree_def
  by (intro snap.frame_intros snap.keeps_io) (auto simp: snap_same_def)

lemma snap_put: "(\<And>s. snap_same D s (f s)) \<Longrightarrow> keeps (snap_same D) (putS f)"
  by (simp add: keeps_def putS_def)

lemmas snap_ops = snap_rm snap_rename snap_write snap_update snap_copy snap_change

lemma snap_versioned: "keeps (snap_same D) (check_versioned te h p msg)"
  unfolding check_versioned_def by (intro snap.frame_intros)

lemma snap_aside: "p \<notin> D \<Longrightarrow> q \<notin> D \<Longrightarrow> keeps (snap_same D) (set_aside p q)"
  unfolding set_aside_def by (intro snap.frame_intros snap_ops)

lemma control_no_snapshot:
  "root @ ''/staging/'' @ r \<notin> snapshot_paths root" "root @ ''/backups/'' @ r \<notin> snapshot_paths root"
  "failed_path te root r \<notin> snapshot_paths root"
  by (auto simp: snapshot_paths_def failed_path_def)

lemma snap_promote:
  assumes "pi_persistentPath i \<notin> snapshot_paths root" and "pi_controlPath i = root"
    and "\<And>m. pi_consumeAuthorization i = Some m \<Longrightarrow> keeps (snap_same (snapshot_paths root)) m"
  shows "keeps (snap_same (snapshot_paths root)) (promote_tx te i)"
proof -
  have n: "staging_path i \<notin> snapshot_paths root" "backup_path i \<notin> snapshot_paths root"
    "failed_path te (pi_controlPath i) (pi_runId i) \<notin> snapshot_paths root"
    using control_no_snapshot assms(2) by (auto simp: staging_path_def backup_path_def)
  have "keeps (snap_same (snapshot_paths root)) (stage_tree te i)"
    unfolding stage_tree_def
    by (intro snap.frame_intros snap_ops snap_versioned n) 
  moreover have admit: "keeps (snap_same (snapshot_paths root)) (admit_swap te i j)" for j
  proof -
    have d: "keeps (snap_same (snapshot_paths root)) (bindS (discard te i j) (\<lambda>_. throwS e))" for e :: tx_error
      unfolding discard_def by (intro snap.frame_intros snap_ops n)
    have c: "keeps (snap_same (snapshot_paths root)) (case pi_consumeAuthorization i of None \<Rightarrow> returnS ()
        | Some consume \<Rightarrow> catchS consume (\<lambda>e. bindS (discard te i j) (\<lambda>_. throwS e)))"
    proof (cases "pi_consumeAuthorization i")
      case None
      then show ?thesis by (simp add: snap.keeps_return)
    next
      case (Some c)
      from snap.keeps_catch [OF assms(3) [OF Some] d] Some show ?thesis by simp
    qed
    show ?thesis unfolding admit_swap_def
      by (rule snap.keeps_bind snap.keeps_build snap.keeps_if d c snap.keeps_case_option snap.keeps_get
          snap.keeps_return snap.keeps_lift)+
  qed
  moreover have "keeps (snap_same (snapshot_paths root)) (swap_phase te i j staged)" for j staged
    unfolding swap_phase_def swap_in_def undo_swap_def
    by (intro snap.frame_intros snap_ops snap_aside n assms(1))
  ultimately show ?thesis
    unfolding promote_tx_def Let_def assertSameFilesystem_def
    by (intro snap.frame_intros snap_ops)
qed


subsection \<open>The stored index and its payloads\<close>

definition root_of :: "vs_env \<Rightarrow> string \<Rightarrow> string" where
  "root_of env a = vs_controlRoot env @ ''/'' @ a"

definition payloads_ok :: "string \<Rightarrow> version_index \<Rightarrow> 'r control_scheme \<Rightarrow> bool" where
  "payloads_ok root vi s \<longleftrightarrow> (\<forall>sn \<in> set (unpruned vi). c_dirs s (payload_path root (sn_relativePath sn)) \<noteq> None)"

definition store_ok :: "vs_env \<Rightarrow> string \<Rightarrow> 'r version_world_scheme \<Rightarrow> bool" where
  "store_ok env a s \<longleftrightarrow>
     (case vw_indexes s a of None \<Rightarrow> True
      | Some vi \<Rightarrow> index_ok vi \<and> vi_agentId vi = a \<and> payloads_ok (root_of env a) vi s)"

lemma counted_path: "index_ok vi \<Longrightarrow> s \<in> set (vi_snapshots vi) \<Longrightarrow> sn_relativePath s = ''snapshots/'' @ sn_hash s"
  using index_okD(4) by (auto simp: counted_def)

lemma payload_path_snapshot:
  "index_ok vi \<Longrightarrow> s \<in> set (vi_snapshots vi) \<Longrightarrow> payload_path root (sn_relativePath s) = root @ ''/snapshots/'' @ sn_hash s"
  by (simp add: payload_path_def counted_path)

lemma snap_same_payloads:
  assumes "snap_same (snapshot_paths root) s s'" and "index_ok vi" and "payloads_ok root vi s"
  shows "payloads_ok root vi s'"
  using assms by (auto simp: payloads_ok_def snap_same_def payload_path_snapshot unpruned_def snapshot_paths_def)

lemma snap_same_store:
  assumes "snap_same (snapshot_paths (root_of env a)) s s'" and "store_ok env a s"
  shows "store_ok env a s'"
  using assms snap_same_payloads [OF assms(1)] by (auto simp: store_ok_def snap_same_def split: option.splits)

lemma snap_rm_quiet: "set ps \<inter> D = {} \<Longrightarrow> keeps (snap_same D) (rm_quiet ps)"
proof (induction ps)
  case (Cons p ps)
  then show ?case by (auto intro!: snap.frame_intros snap_rm)
qed (simp add: snap.keeps_return)

text \<open>The paths an index advertises, and the removals that leave them alone.\<close>

definition advertised :: "string \<Rightarrow> version_index \<Rightarrow> string set" where
  "advertised root vi = (\<lambda>s. payload_path root (sn_relativePath s)) ` set (unpruned vi)"

lemma payloads_ok_iff: "payloads_ok root vi s \<longleftrightarrow> (\<forall>p \<in> advertised root vi. c_dirs s p \<noteq> None)"
  by (simp add: payloads_ok_def advertised_def)

lemma advertised_not_pruned:
  assumes "index_ok vi" and "p \<in> pruned_paths vi"
  shows "payload_path root p \<notin> advertised root vi"
proof
  assume "payload_path root p \<in> advertised root vi"
  with assms(2) obtain s t where st: "s \<in> set (vi_snapshots vi)" "sn_prunedAt s = None" "t \<in> set (vi_snapshots vi)"
    "sn_prunedAt t \<noteq> None" "sn_relativePath s = sn_relativePath t"
    by (auto simp: advertised_def pruned_paths_def payload_path_def unpruned_def)
  then have "sn_hash s = sn_hash t" using counted_path [OF assms(1)] by auto
  with same_hash [OF index_okD(3) [OF assms(1)] st(1,3)] have "s = t" by simp
  with st show False by simp
qed

text \<open>The stored index advertises nothing that the one at hand has pruned.\<close>

definition agrees :: "vs_env \<Rightarrow> string \<Rightarrow> version_index \<Rightarrow> 'r version_world_scheme \<Rightarrow> bool" where
  "agrees env a vi s \<longleftrightarrow>
     (case vw_indexes s a of None \<Rightarrow> True
      | Some vi0 \<Rightarrow> advertised (root_of env a) vi0 \<inter> payload_path (root_of env a) ` pruned_paths vi = {})"

definition ready :: "vs_env \<Rightarrow> string \<Rightarrow> version_index \<Rightarrow> 'r version_world_scheme \<Rightarrow> bool" where
  "ready env a vi s \<longleftrightarrow> index_ok vi \<and> vi_agentId vi = a \<and> payloads_ok (root_of env a) vi s \<and> store_ok env a s \<and> agrees env a vi s"

lemma wp_persist:
  assumes "index_ok vi" and "vi_agentId vi = a" and "payloads_ok (root_of env a) vi s" and "store_ok env a s"
    and "\<And>s'. c_dirs s' = c_dirs s \<Longrightarrow> vw_indexes s' = (vw_indexes s)(a \<mapsto> vi) \<Longrightarrow> store_ok env a s' \<Longrightarrow> Q () s'"
    and "\<And>e s'. store_ok env a s' \<Longrightarrow> E e s'"
  shows "wp (persist_index env vi) Q E s"
proof -
  have store: "store_ok env a s'" if "vw_indexes s' = vw_indexes s" "c_dirs s' = c_dirs s" for s' :: "'a version_world_scheme"
    using assms(4) that by (simp add: store_ok_def payloads_ok_def split: option.splits)
  show ?thesis
    unfolding persist_index_def wp_bind wp_res
    using assms(1-3) store
    by (auto intro!: wp_io assms(5,6) simp: store_ok_def payloads_ok_def split: sum.splits)
qed

lemma wp_only_keeps:
  assumes "keeps R m" and "\<And>x s'. R s s' \<Longrightarrow> Q x s'" and "\<And>e s'. R s s' \<Longrightarrow> E e s'"
  shows "wp m Q E s"
  using assms by (intro wpI) (auto dest: keepsD)

lemma agentRoot_Inr: "agentRoot env a = Inr r \<longleftrightarrow> assertSafeIdentifier a ''agentId'' = Inr () \<and> r = root_of env a"
  by (auto simp: agentRoot_def root_of_def bindE_eq_Inr)

lemma wp_prune:
  assumes r: "ready env a vi s"
    and ok: "\<And>vi' s'. index_ok vi' \<Longrightarrow> vi_agentId vi' = a \<Longrightarrow> payloads_ok (root_of env a) vi' s' \<Longrightarrow>
      store_ok env a s' \<Longrightarrow> map ve_id (vi_versions vi') = map ve_id (vi_versions vi) \<Longrightarrow> Q vi' s'"
    and err: "\<And>e s'. store_ok env a s' \<Longrightarrow> E e s'"
  shows "wp (prune env vi) Q E s"
proof -
  let ?root = "root_of env a"
  from r have vi: "index_ok vi" "vi_agentId vi = a" "payloads_ok ?root vi s" "store_ok env a s" "agrees env a vi s"
    by (auto simp: ready_def)
  let ?D = "advertised ?root vi \<union> (case vw_indexes s a of None \<Rightarrow> {} | Some vi0 \<Rightarrow> advertised ?root vi0)"
  let ?gone = "map (\<lambda>s. payload_path ?root (sn_relativePath s)) (filter (\<lambda>s. sn_prunedAt s \<noteq> None) (vi_snapshots vi))"
  have "set ?gone = payload_path ?root ` pruned_paths vi" by (auto simp: pruned_paths_def)
  then have gone: "set ?gone \<inter> ?D = {}"
    using vi(5) advertised_not_pruned [OF vi(1)] by (auto simp: agrees_def split: option.splits)
  obtain vi' payloads where pr: "prune_index env vi = (vi', payloads)" by (cases "prune_index env vi")
  note spec = prune_index_spec [OF pr vi(1)]
  have adv: "advertised ?root vi' \<subseteq> advertised ?root vi" using spec(4) by (auto simp: advertised_def)
  have same: "payloads_ok ?root vi s' \<and> store_ok env a s'" if "snap_same ?D s s'" for s'
    using that vi(3,4) by (auto simp: payloads_ok_iff store_ok_def snap_same_def split: option.splits)
  have rest: "wp (let (vi', payloads) = prune_index env vi in
       if payloads = [] then returnS vi'
       else bindS (persist_index env vi') (\<lambda>_. bindS (rm_quiet (map (payload_path ?root) payloads)) (\<lambda>_. returnS vi'))) Q E s1"
    if s1: "snap_same ?D s s1" for s1
  proof (cases "payloads = []")
    case True
    with spec(7) pr same [OF s1] ok [of vi s1] vi show ?thesis by (simp add: wp_return)
  next
    case False
    have p1: "payloads_ok ?root vi' s1" using same [OF s1] adv by (auto simp: payloads_ok_iff)
    have "wp (persist_index env vi') (\<lambda>x. wp (rm_quiet (map (payload_path ?root) payloads)) (\<lambda>x. Q vi') E) E s1"
    proof (rule wp_persist [OF spec(1) _ p1], goal_cases)
      case 1
      show ?case using spec(2) vi(2) by simp
    next
      case 2
      show ?case using same [OF s1] by simp
    next
      case (3 s2)
      have "set (map (payload_path ?root) payloads) \<inter> advertised ?root vi' = {}"
        using spec(3) advertised_not_pruned [OF spec(1)] by auto
      from snap_rm_quiet [OF this] show ?case
      proof (rule wp_only_keeps)
        fix s3 assume s3: "snap_same (advertised ?root vi') s2 s3"
        then have "store_ok env a s3" "payloads_ok ?root vi' s3"
          using 3 by (auto simp: store_ok_def snap_same_def payloads_ok_iff)
        then show "Q vi' s3" "E e s3" for e using ok [of vi' s3] err [of s3] spec(1,2) vi(2) prune_index_ids [OF pr] by auto
      qed
    next
      case (4 e s2)
      then show ?case by (rule err)
    qed
    with False pr show ?thesis by (simp add: wp_simps)
  qed
  show ?thesis
  proof (cases "agentRoot env a")
    case (Inl e)
    then show ?thesis using vi err [of s] unfolding prune_def by (simp add: wp_simps)
  next
    case (Inr root)
    then have "root = ?root" by (simp add: agentRoot_Inr)
    moreover have "wp (rm_quiet ?gone) (\<lambda>_. wp (let (vi', payloads) = prune_index env vi in
       if payloads = [] then returnS vi'
       else bindS (persist_index env vi') (\<lambda>_. bindS (rm_quiet (map (payload_path ?root) payloads)) (\<lambda>_. returnS vi'))) Q E) E s"
      by (rule wp_only_keeps [OF snap_rm_quiet [OF gone]]) (use rest same err in auto)
    ultimately show ?thesis unfolding prune_def using Inr vi(2) by (simp add: wp_bind [of "tx_res _"] wp_bind [of "rm_quiet _"] wp_res)
  qed
qed

subsection \<open>Recording and reverting\<close>

lemma advertised_mapped:
  assumes "vi_snapshots vi' = map f (vi_snapshots vi)" and "\<And>s. sn_relativePath (f s) = sn_relativePath s"
    and "\<And>s. sn_prunedAt (f s) = sn_prunedAt s"
  shows "advertised root vi' = advertised root vi" and "pruned_paths vi' = pruned_paths vi"
  using assms(2,3) by (auto simp: advertised_def unpruned_def pruned_paths_def assms(1) image_iff) metis+

lemma advertised_changes:
  assumes "index_ok vi"
  shows "advertised root (add_version v vi) = advertised root vi" "pruned_paths (add_version v vi) = pruned_paths vi"
    "advertised root (drop_version v vi) = advertised root vi" "pruned_paths (drop_version v vi) = pruned_paths vi"
proof -
  note dist = index_okD(3) [OF assms]
  show "advertised root (add_version v vi) = advertised root vi" "pruned_paths (add_version v vi) = pruned_paths vi"
    by (rule advertised_mapped [where f = "\<lambda>s. if sn_hash s = ve_snapshotHash v then s\<lparr>sn_refCount := sn_refCount s + 1\<rparr> else s"];
        simp add: add_version_def update_first_hash [OF dist])+
  show "advertised root (drop_version v vi) = advertised root vi" "pruned_paths (drop_version v vi) = pruned_paths vi"
    by (rule advertised_mapped [where f = "\<lambda>s. if sn_hash s = ve_snapshotHash v then s\<lparr>sn_refCount := max 0 (sn_refCount s - 1)\<rparr> else s"];
        simp add: drop_version_def update_first_hash [OF dist])+
qed

lemma advertised_adopt:
  "advertised root (adopt_snapshot h b now vi) \<subseteq> insert (payload_path root (''snapshots/'' @ h)) (advertised root vi)"
  "pruned_paths (adopt_snapshot h b now vi) \<subseteq> pruned_paths vi"
  by (auto simp: advertised_def unpruned_def pruned_paths_def adopt_snapshot_def)

definition loaded :: "string \<Rightarrow> version_index \<Rightarrow> 'r version_world_scheme \<Rightarrow> bool" where
  "loaded a vi s \<longleftrightarrow> (case vw_indexes s a of None \<Rightarrow> vi = empty_index a | Some vi0 \<Rightarrow> vi = vi0)"

lemma loaded_ok:
  assumes "loaded a vi s" and "store_ok env a s"
  shows "index_ok vi" "vi_agentId vi = a" "payloads_ok (root_of env a) vi s"
  using assms by (auto simp: loaded_def store_ok_def split: option.splits)
    (simp_all add: empty_index_def payloads_ok_def unpruned_def)

lemma loaded_agrees:
  assumes "loaded a vi s" and "store_ok env a s" and "pruned_paths vi' \<subseteq> pruned_paths vi"
  shows "agrees env a vi' s"
  using assms advertised_not_pruned [OF loaded_ok(1) [OF assms(1,2)]]
  by (fastforce simp: agrees_def loaded_def split: option.splits)

lemma wp_load:
  assumes "store_ok env a s"
    and "\<And>vi s'. loaded a vi s' \<Longrightarrow> store_ok env a s' \<Longrightarrow> snap_same UNIV s s' \<Longrightarrow> Q vi s'"
    and "\<And>e s'. store_ok env a s' \<Longrightarrow> E e s'"
  shows "wp (load_index env a) Q E s"
proof -
  have look: "wp look (\<lambda>_ s'. Q (case vw_indexes s' a of None \<Rightarrow> empty_index a | Some vi \<Rightarrow> vi) s') E s"
  proof (rule wp_only_keeps [OF snap.keeps_look [of UNIV]])
    fix s' assume same: "snap_same UNIV s s'"
    then have ok: "store_ok env a s'" using assms(1)
      by (auto simp: store_ok_def snap_same_def payloads_ok_def split: option.splits)
    then show "E e s'" for e by (rule assms(3))
    show "Q (case vw_indexes s' a of None \<Rightarrow> empty_index a | Some vi \<Rightarrow> vi) s'"
      by (rule assms(2) [OF _ ok same]) (simp add: loaded_def split: option.splits)
  qed
  show ?thesis unfolding load_index_def wp_bind wp_res wp_get wp_return
    using look assms(1,3) by (simp split: sum.splits)
qed

lemma wp_import:
  assumes "p \<notin> D"
  shows "wp (import_snapshot env p i m) (\<lambda>_ s'. c_dirs s' p \<noteq> None \<and> snap_same D s s') (\<lambda>_ s'. snap_same D s s') s"
proof -
  have "keeps (snap_same D) (import_snapshot env p i m)"
    unfolding import_snapshot_def Let_def by (intro snap.frame_intros snap_ops assms)
  moreover have "wp (import_snapshot env p i m) (\<lambda>_ s'. c_dirs s' p \<noteq> None) (\<lambda>_ _. True) s"
    unfolding import_snapshot_def Let_def wp_simps
    by (auto intro!: wp_copy wp_change wp_build wp_rm simp: wp_simps split: option.splits)
  ultimately show ?thesis by (auto dest!: wp_keeps elim: wp_mono)
qed

lemma loaded_keep:
  assumes "loaded a vi s" and "store_ok env a s" and "snap_same (advertised (root_of env a) vi) s s'"
  shows "loaded a vi s'" and "store_ok env a s'"
  using assms loaded_ok [OF assms(1,2)]
  by (auto simp: store_ok_def loaded_def snap_same_def payloads_ok_iff split: option.splits)

lemma wp_finish:
  assumes l: "loaded a vi s" and st: "store_ok env a s" and i: "re_agentId i = a"
    and kind: "kind = INITIAL \<longleftrightarrow> vi_versions vi = []"
    and ix: "index_ok vi1" "vi_agentId vi1 = a" "vi_headVersionId vi1 = vi_headVersionId vi"
      "vi_versions vi1 = [] \<longleftrightarrow> vi_versions vi = []" "pruned_paths vi1 \<subseteq> pruned_paths vi"
    and pay: "payloads_ok (root_of env a) vi1 s"
    and sn: "find_snapshot vi1 h = Some sn" "sn_prunedAt sn = None"
    and ok: "\<And>v vi' s'. loaded a vi' s' \<Longrightarrow> store_ok env a s' \<Longrightarrow> vi_versions vi' \<noteq> [] \<Longrightarrow> Q (v, vi') s'"
    and err: "\<And>e s'. store_ok env a s' \<Longrightarrow> E e s'"
  shows "wp (finish_record env i kind target later h vi1) Q E s"
proof (cases "policyHash (we_H (te_walk (vs_tx env))) (we_policy (te_walk (vs_tx env)))")
  case (Inl e)
  then show ?thesis using err st by (simp add: finish_record_def wp_simps)
next
  case (Inr ph)
  let ?root = "root_of env a"
  let ?v = "new_version env i h ph kind target vi1" let ?vi2 = "add_version ?v vi1"
  have ok2: "index_ok ?vi2"
    by (rule add_ok [OF ix(1), of ?v sn "take 10 h @ ''-'' @ take 8 (vs_uuid env)"])
      (use sn ix(4) kind in \<open>simp_all add: new_version_def\<close>)
  have a2: "vi_agentId ?vi2 = a" using ix(2) by (simp add: add_version_def)
  have pay2: "payloads_ok ?root ?vi2 s" using pay by (simp add: payloads_ok_iff advertised_changes [OF ix(1)])
  have ready: "ready env a ?vi2 s"
    using ok2 a2 pay2 st loaded_agrees [OF l st, of ?vi2] ix(5)
    by (auto simp: ready_def advertised_changes [OF ix(1)])
  have persist: "wp (persist_index env vi3) (\<lambda>_. Q (case find_version vi3 (Some (ve_id ?v)) of Some v' \<Rightarrow> v' | None \<Rightarrow> ?v, vi3)) E s2"
    if "index_ok vi3" "vi_agentId vi3 = a" "payloads_ok ?root vi3 s2" "store_ok env a s2"
      "map ve_id (vi_versions vi3) = map ve_id (vi_versions ?vi2)" for vi3 s2
  proof (rule wp_persist [OF that(1-4)], goal_cases)
    case (1 s3)
    have "vi_versions vi3 \<noteq> []" using that(5) by (auto simp: add_version_def)
    then show ?case using 1 by (intro ok) (auto simp: loaded_def)
  next
    case (2 e s3)
    then show ?case by (rule err)
  qed
  have "wp (if later then returnS ?vi2 else prune env ?vi2) (\<lambda>vi3. wp (persist_index env vi3)
      (\<lambda>_. Q (case find_version vi3 (Some (ve_id ?v)) of Some v' \<Rightarrow> v' | None \<Rightarrow> ?v, vi3)) E) E s"
  proof (cases later)
    case True
    then show ?thesis using persist [OF ok2 a2 pay2 st refl] by (simp add: wp_return)
  next
    case False
    have "wp (prune env ?vi2) (\<lambda>vi3. wp (persist_index env vi3)
      (\<lambda>_. Q (case find_version vi3 (Some (ve_id ?v)) of Some v' \<Rightarrow> v' | None \<Rightarrow> ?v, vi3)) E) E s"
      by (rule wp_prune [OF ready]) (rule persist, assumption+, rule err)
    with False show ?thesis by simp
  qed
  with Inr show ?thesis by (simp add: finish_record_def wp_bind wp_res wp_return Let_def)
qed

lemma not_advertised:
  assumes "index_ok vi" and "payloads_ok root vi s"
    and "needs_import vi h there" and "find_snapshot vi h = Some sn \<longrightarrow> sn_prunedAt sn = None \<longrightarrow>
      there = (c_dirs s (payload_path root (''snapshots/'' @ h)) \<noteq> None)"
    and "find_snapshot vi h \<noteq> None \<longrightarrow> find_snapshot vi h = Some sn"
  shows "payload_path root (''snapshots/'' @ h) \<notin> advertised root vi"
proof
  assume adv: "payload_path root (''snapshots/'' @ h) \<in> advertised root vi"
  then obtain t where t: "t \<in> set (vi_snapshots vi)" "sn_prunedAt t = None" "sn_hash t = h"
    using counted_path [OF assms(1)] by (auto simp: advertised_def unpruned_def payload_path_def)
  then have "find_snapshot vi h \<noteq> None" by (auto simp: find_snapshot_def find_None_iff)
  with assms(5) have f: "find_snapshot vi h = Some sn" by blast
  from find_snapshot_Some [OF f] t same_hash [OF index_okD(3) [OF assms(1)], of sn t] have "t = sn" by simp
  moreover have "c_dirs s (payload_path root (''snapshots/'' @ h)) \<noteq> None"
    using assms(2) adv by (auto simp: payloads_ok_iff)
  ultimately show False using assms(3,4) f t(2) by (auto simp: needs_import_def)
qed

lemma wp_there:
  assumes "\<And>s' there. snap_same D s s' \<Longrightarrow> (\<And>sn. find_snapshot vi h = Some sn \<Longrightarrow> sn_prunedAt sn = None \<Longrightarrow>
      there = (c_dirs s' p \<noteq> None)) \<Longrightarrow> Q there s'"
    and "\<And>e s'. snap_same D s s' \<Longrightarrow> E e s'"
  shows "wp (payload_there vi h p) Q E s"
proof -
  have keeps: "keeps (snap_same D) (payload_there vi h p)"
    unfolding payload_there_def by (intro snap.frame_intros)
  have "wp (payload_there vi h p) (\<lambda>there s'. \<forall>sn. find_snapshot vi h = Some sn \<longrightarrow> sn_prunedAt sn = None \<longrightarrow>
      there = (c_dirs s' p \<noteq> None)) (\<lambda>_ _. True) s"
    unfolding payload_there_def by (auto simp: wp_simps intro!: wp_exists split: option.splits)
  from wp_keeps [OF keeps this] show ?thesis by (rule wp_mono) (use assms in auto)
qed

lemma wp_record:
  assumes l: "loaded a vi s" and st: "store_ok env a s" and i: "re_agentId i = a"
    and kind: "kind = INITIAL \<longleftrightarrow> vi_versions vi = []"
    and ok: "\<And>v vi' s'. loaded a vi' s' \<Longrightarrow> store_ok env a s' \<Longrightarrow> vi_versions vi' \<noteq> [] \<Longrightarrow> Q (v, vi') s'"
    and err: "\<And>e s'. store_ok env a s' \<Longrightarrow> E e s'"
  shows "wp (recordUnlocked env vi i kind target later) Q E s"
proof -
  let ?root = "root_of env a" let ?D = "advertised ?root vi"
  note vi = loaded_ok [OF l st] and keep = loaded_keep [OF l st]
  have payD: "payloads_ok ?root vi s'" if "snap_same ?D s s'" for s'
    using vi(3) that by (auto simp: payloads_ok_iff snap_same_def)
  have import: "wp (import_needed env i vi m (payload_path ?root (''snapshots/'' @ sm_hash m)) there)
      (\<lambda>vi1. wp (finish_record env i kind target later (sm_hash m) vi1) Q E) E s1"
    if same: "snap_same ?D s s1" and there: "\<And>sn. find_snapshot vi (sm_hash m) = Some sn \<Longrightarrow> sn_prunedAt sn = None \<Longrightarrow>
      there = (c_dirs s1 (payload_path ?root (''snapshots/'' @ sm_hash m)) \<noteq> None)" for m there s1
  proof (cases "needs_import vi (sm_hash m) there")
    case True
    let ?p = "payload_path ?root (''snapshots/'' @ sm_hash m)"
    let ?vi1 = "adopt_snapshot (sm_hash m) (entries_bytes (sm_entries m)) (te_now (vs_tx env)) vi"
    have none: "?p \<notin> ?D"
      by (rule not_advertised [OF vi(1) payD [OF same] True, where sn = "the (find_snapshot vi (sm_hash m))"])
        (use there in auto)
    have "wp (import_snapshot env ?p i m) (\<lambda>_. wp (finish_record env i kind target later (sm_hash m) ?vi1) Q E) E s1"
    proof (rule wp_mono [OF wp_import [OF none]], goal_cases)
      case (1 x s2)
      from adopt_ok(2) [OF vi(1)] obtain sn where
        sn: "find_snapshot ?vi1 (sm_hash m) = Some sn" "sn_prunedAt sn = None" by blast
      have s2: "snap_same ?D s s2" using same 1 by (auto simp: snap_same_def)
      have pay: "payloads_ok ?root ?vi1 s2"
        using advertised_adopt(1) [of ?root] vi(3) s2 1 by (fastforce simp: payloads_ok_iff snap_same_def)
      show ?case
        by (rule wp_finish [OF keep [OF s2] i kind adopt_ok(1) [OF vi(1), of "sm_hash m"] _ _ _ advertised_adopt(2) pay sn])
          (use vi(2) ok err in \<open>simp_all add: adopt_snapshot_def\<close>)
    next
      case (2 e s2)
      then have "snap_same ?D s s2" using same by (auto simp: snap_same_def)
      then show ?case by (intro err keep)
    qed
    with True show ?thesis by (simp add: import_needed_def wp_bind wp_return)
  next
    case False
    then obtain sn where sn: "find_snapshot vi (sm_hash m) = Some sn" "sn_prunedAt sn = None"
      by (auto simp: needs_import_def split: option.splits)
    have "wp (finish_record env i kind target later (sm_hash m) vi) Q E s1"
      by (rule wp_finish [OF keep [OF same] i kind vi(1,2) refl refl subset_refl payD [OF same] sn]) (use ok err in simp_all)
    with False show ?thesis by (simp add: import_needed_def wp_return)
  qed
  have read: "keeps (snap_same ?D) (case re_manifestOverride i of
              Some m \<Rightarrow> returnS (override_manifest env m)
            | None \<Rightarrow> manifest_at (vs_tx env) [Versioned] (re_workspacePath i))"
    by (intro snap.frame_intros)
  show ?thesis
    unfolding recordUnlocked_def wp_bind wp_res
  proof (rule wp_only_keeps [OF read], goal_cases)
    case (1 m s1)
    show ?case
    proof (cases "agentRoot env (re_agentId i)")
      case (Inl e)
      then show ?thesis using err keep(2) [OF 1] by simp
    next
      case (Inr root)
      then have root: "root = ?root" using i by (simp add: agentRoot_Inr)
      have "wp (payload_there vi (sm_hash m) (payload_path ?root (''snapshots/'' @ sm_hash m)))
        (\<lambda>there. wp (import_needed env i vi m (payload_path ?root (''snapshots/'' @ sm_hash m)) there)
          (\<lambda>vi1. wp (finish_record env i kind target later (sm_hash m) vi1) Q E) E) E s1"
      proof (rule wp_there [where D = ?D], goal_cases)
        case (1 s2 there)
        moreover have "snap_same ?D s s2" using 1(1) \<open>snap_same ?D s s1\<close> by (auto simp: snap_same_def)
        ultimately show ?case by (intro import)
      next
        case (2 e s2)
        then have "snap_same ?D s s2" using \<open>snap_same ?D s s1\<close> by (auto simp: snap_same_def)
        then show ?case by (intro err keep)
      qed
      with Inr root show ?thesis by simp
    qed
  next
    case (2 e s1)
    then show ?case by (intro err keep)
  qed
qed

end
