(* ===== verification/Version_Ops.thy ===== *)
theory Version_Ops
  imports Version_Props
begin

text \<open>
  Every operation of the version store keeps the stored index and its payloads, whatever fails
  or stops: an operation built from sound ones is sound.
\<close>

subsection \<open>What the operations leave alone\<close>

definition jn_ok :: "string \<Rightarrow> journal \<Rightarrow> bool" where
  "jn_ok root j \<longleftrightarrow> jn_persistentPath j \<notin> snapshot_paths root \<and> jn_stagingPath j \<notin> snapshot_paths root \<and>
     jn_backupPath j \<notin> snapshot_paths root \<and> dirname (dirname (jn_backupPath j)) = root"

text \<open>Every journal stays away from the snapshots, and every pending rollback is of the agent.\<close>

definition calm :: "vs_env \<Rightarrow> string \<Rightarrow> 'r version_world_scheme \<Rightarrow> bool" where
  "calm env a s \<longleftrightarrow> (\<forall>j \<in> ran (c_journals s). jn_ok (root_of env a) j) \<and>
     (\<forall>p \<in> ran (vw_pending s). pr_agentId p = a \<and> pr_backupPath p \<notin> snapshot_paths (root_of env a))"

definition stays_calm :: "vs_env \<Rightarrow> string \<Rightarrow> 'r version_world_scheme \<Rightarrow> 'r version_world_scheme \<Rightarrow> bool" where
  "stays_calm env a s s' \<longleftrightarrow> (calm env a s \<longrightarrow> calm env a s')"

interpretation calm: tx_frame "stays_calm env a" for env a
  by unfold_locales (simp_all add: stays_calm_def, simp add: calm_def)

lemma calm_still:
  assumes "c_journals s' = c_journals s" and "vw_pending s' = vw_pending s"
  shows "stays_calm env a s s'"
  using assms by (simp add: stays_calm_def calm_def)

lemma calm_rm: "keeps (stays_calm env a) (rm_dir p)"
  unfolding rm_dir_def by (rule calm.keeps_io) (auto intro: calm_still)

lemma calm_rename: "keeps (stays_calm env a) (rename_dir p q)"
  unfolding rename_dir_def by (intro calm.frame_intros calm.keeps_io) (auto intro: calm_still)

lemma calm_copy: "keeps (stays_calm env a) (copy_dir te src p include clean)"
  unfolding copy_dir_def by (intro calm.frame_intros calm.keeps_io) (auto intro: calm_still)

lemma calm_change: "keeps (stays_calm env a) (change_tree p f)"
  unfolding change_tree_def by (intro calm.frame_intros calm.keeps_io) (auto intro: calm_still)

lemma ran_updated: "ran (m(p \<mapsto> v)) \<subseteq> insert v (ran m)"
  by (auto simp: ran_def split: if_splits)

lemma calm_write: "jn_ok (root_of env a) j \<Longrightarrow> keeps (stays_calm env a) (write_journal p j)"
  unfolding write_journal_def
  by (rule calm.keeps_io, use ran_updated in \<open>fastforce simp: stays_calm_def calm_def\<close>, simp add: stays_calm_def)

lemma calm_update: "jn_ok (root_of env a) j \<Longrightarrow> keeps (stays_calm env a) (updateJournal p j st now)"
  unfolding updateJournal_def Let_def by (intro calm.frame_intros calm_write) (simp add: jn_ok_def)

lemma calm_persist: "keeps (stays_calm env a) (persist_index env' vi)"
  unfolding persist_index_def by (intro calm.frame_intros calm.keeps_io) (auto intro: calm_still)

lemma calm_rm_quiet: "keeps (stays_calm env a) (rm_quiet ps)"
  by (induction ps) (auto intro!: calm.frame_intros calm_rm)

lemma calm_prune: "keeps (stays_calm env a) (prune env' vi)"
  unfolding prune_def Let_def by (intro calm.frame_intros calm_rm_quiet calm_persist)

lemma calm_load: "keeps (stays_calm env a) (load_index env' b)"
  unfolding load_index_def by (intro calm.frame_intros)

lemmas calm_ops = calm_rm calm_rename calm_copy calm_change calm_persist calm_rm_quiet calm_prune calm_load

lemma calm_record: "keeps (stays_calm env a) (recordUnlocked env' vi i kind target later)"
  unfolding recordUnlocked_def payload_there_def import_needed_def import_snapshot_def finish_record_def Let_def
  by (intro calm.frame_intros calm_ops)

lemma calm_versioned: "keeps (stays_calm env a) (check_versioned te h p msg)"
  unfolding check_versioned_def by (intro calm.frame_intros)

lemma calm_aside: "keeps (stays_calm env a) (set_aside p q)"
  unfolding set_aside_def by (intro calm.frame_intros calm_ops)


lemma path_ok:
  assumes "pi_controlPath i = root"
  shows "staging_path i \<notin> snapshot_paths root" "backup_path i \<notin> snapshot_paths root"
    "failed_path te (pi_controlPath i) (pi_runId i) \<notin> snapshot_paths root"
  using control_no_snapshot assms by (auto simp: staging_path_def backup_path_def)

lemma new_journal_ok:
  assumes "pi_persistentPath i \<notin> snapshot_paths root" and "pi_controlPath i = root"
    and "assertSafeIdentifier (pi_runId i) label = Inr ()"
  shows "jn_ok root (new_journal te i h)"
  using path_ok [OF assms(2)] dirname_backup [OF assms(3)] assms(1,2) by (simp add: jn_ok_def new_journal_def)

lemma jn_ok_state [simp]: "jn_ok root (j\<lparr>jn_state := st, jn_updatedAt := now\<rparr>) = jn_ok root j"
  by (simp add: jn_ok_def)

lemma keeps_throws:
  assumes "\<And>s. R s s"
  shows "keeps R (bindS (tx_res (Inl e)) f)"
  using assms by (simp add: keeps_def bindS_def liftS_def mapErr_def)

lemma returnS_bindS: "bindS (returnS x) f = f x"
  by (rule ext) (rule bindS_returnS)

lemma calm_consume:
  assumes "\<And>m. c = Some m \<Longrightarrow> keeps (stays_calm env a) m" and "keeps (stays_calm env a) n" and "\<And>e. keeps (stays_calm env a) (h e)"
  shows "keeps (stays_calm env a) (case c of None \<Rightarrow> n | Some m \<Rightarrow> catchS m h)"
  using assms by (auto intro: calm.keeps_catch split: option.splits)

lemma calm_swap:
  assumes "jn_ok (root_of env a) j"
  shows "keeps (stays_calm env a) (swap_phase te i j staged)"
proof -
  have after: "keeps (stays_calm env a) (bindS (swap_in te i staged) (\<lambda>failure.
     case failure of
       None \<Rightarrow>
         catchS (updateJournal (journal_path i) j' PROMOTED_PENDING_DB (te_now te))
           (\<lambda>_. throwS (RecoveryRequired
              ''Promotion completed but the pending database journal state was not persisted''))
     | Some (e, backupCreated) \<Rightarrow>
         bindS (catchS (undo_swap te i j' backupCreated)
                  (\<lambda>_. throwS (RecoveryRequired
                    ''Promotion failed after swap began and automatic restoration did not complete''))) (\<lambda>_. throwS e)))"
    if "jn_ok (root_of env a) j'" for j'
    using that unfolding swap_in_def undo_swap_def
    by (intro calm.frame_intros calm_ops calm_aside calm_update) auto
  have eq: "updateJournal (journal_path i) j PROMOTING (te_now te) =
    bindS (write_journal (journal_path i) (j\<lparr>jn_state := PROMOTING, jn_updatedAt := te_now te\<rparr>))
      (\<lambda>_. returnS (j\<lparr>jn_state := PROMOTING, jn_updatedAt := te_now te\<rparr>))" by (simp add: updateJournal_def Let_def)
  show ?thesis unfolding swap_phase_def eq bindS_assoc_fun returnS_bindS
    by (intro calm.keeps_bind after calm_write) (simp_all add: assms)
qed

lemma calm_promote:
  assumes "pi_persistentPath i \<notin> snapshot_paths (root_of env a)" and "pi_controlPath i = root_of env a"
    and "\<And>m. pi_consumeAuthorization i = Some m \<Longrightarrow> keeps (stays_calm env a) m"
  shows "keeps (stays_calm env a) (promote_tx te i)"
proof (cases "assertSafeIdentifier (pi_runId i) ''runId''")
  case (Inl e)
  then show ?thesis unfolding promote_tx_def by (simp add: keeps_throws calm.refl)
next
  case (Inr u)
  then have j: "jn_ok (root_of env a) (new_journal te i h)" for h using new_journal_ok [OF assms(1,2)] by simp
  have "keeps (stays_calm env a) (admit_swap te i (new_journal te i h))" for h
    unfolding admit_swap_def discard_def
    by (intro calm.keeps_bind calm.keeps_if calm.keeps_build calm_consume calm.keeps_case_option calm.frame_intros calm_ops calm_update j assms(3))
  then show ?thesis
    unfolding promote_tx_def Let_def assertSameFilesystem_def stage_tree_def
    by (intro calm.frame_intros calm_ops calm_versioned calm_write calm_swap j)
qed


lemma snap_rollback_journal:
  assumes "jn_ok root j"
  shows "keeps (snap_same (snapshot_paths root)) (rollbackJournal te j p)"
proof -
  have "failed_path te (dirname (dirname (jn_backupPath j))) (jn_runId j) \<notin> snapshot_paths root"
    using assms control_no_snapshot(3) [of te root "jn_runId j"] by (simp add: jn_ok_def)
  with assms show ?thesis
    unfolding rollbackJournal_def jn_ok_def by (intro snap.frame_intros snap_ops snap_aside) auto
qed

lemma calm_rollback_journal:
  assumes "jn_ok (root_of env a) j"
  shows "keeps (stays_calm env a) (rollbackJournal te j p)"
  unfolding rollbackJournal_def by (intro calm.frame_intros calm_ops calm_aside calm_update assms)

subsection \<open>Every operation keeps the store\<close>

definition world_ok :: "vs_env \<Rightarrow> string \<Rightarrow> 'r version_world_scheme \<Rightarrow> bool" where
  "world_ok env a s \<longleftrightarrow> store_ok env a s \<and> calm env a s"

definition sound :: "vs_env \<Rightarrow> string \<Rightarrow> ('r, 'a) vs_op \<Rightarrow> bool" where
  "sound env a m \<longleftrightarrow> (\<forall>s. world_ok env a s \<longrightarrow> wp m (\<lambda>_. world_ok env a) (\<lambda>_. world_ok env a) s)"

lemma soundD: "sound env a m \<Longrightarrow> world_ok env a s \<Longrightarrow> wp m (\<lambda>_. world_ok env a) (\<lambda>_. world_ok env a) s"
  by (simp add: sound_def)

lemma sound_calm:
  assumes "keeps (stays_calm env a) m"
    and "\<And>s. store_ok env a s \<Longrightarrow> wp m (\<lambda>_. store_ok env a) (\<lambda>_. store_ok env a) s"
  shows "sound env a m"
  unfolding sound_def
proof (intro allI impI, goal_cases)
  case (1 s)
  then have "store_ok env a s" by (simp add: world_ok_def)
  from wp_keeps [OF assms(1) assms(2) [OF this]] show ?case
    by (rule wp_mono) (use 1 in \<open>auto simp: world_ok_def stays_calm_def\<close>)
qed

lemma wp_ready_persist:
  assumes r: "ready env a vi s"
    and ok: "\<And>s'. store_ok env a s' \<Longrightarrow> Q () s'" and err: "\<And>e s'. store_ok env a s' \<Longrightarrow> E e s'"
  shows "wp (bindS (prune env vi) (persist_index env)) Q E s"
  unfolding wp_bind
  by (rule wp_prune [OF r], rule wp_persist) (use ok err in auto)

lemma store_release:
  assumes "store_ok env a s"
  shows "wp (releaseRetention env a) (\<lambda>_. store_ok env a) (\<lambda>_. store_ok env a) s"
  unfolding releaseRetention_def wp_bind [of "load_index env a"]
proof (rule wp_load [OF assms], goal_cases)
  case (1 vi s')
  then have "ready env a vi s'" using loaded_ok [OF 1(1,2)] loaded_agrees [OF 1(1,2) subset_refl] by (simp add: ready_def)
  then show ?case by (rule wp_ready_persist)
qed

lemma sound_release: "sound env a (releaseRetention env a)"
proof (rule sound_calm)
  show "keeps (stays_calm env a) (releaseRetention env a)"
    unfolding releaseRetention_def by (intro calm.frame_intros calm_ops)
qed (rule store_release)

lemma ready_drop:
  assumes "loaded a vi s" and "store_ok env a s" and "find_version vi (vi_headVersionId vi) = Some head"
  shows "ready env a (drop_version head vi) s"
proof -
  note vi = loaded_ok [OF assms(1,2)]
  note same = advertised_changes(3,4) [OF vi(1)]
  have "vi_agentId (drop_version head vi) = a" using vi(2) by (simp add: drop_version_def)
  then show ?thesis
    using drop_ok [OF vi(1) assms(3)] vi(3) assms(2) loaded_agrees [OF assms(1,2), of "drop_version head vi"]
    by (simp add: ready_def payloads_ok_iff same)
qed

lemma store_revert:
  assumes "store_ok env a s"
  shows "wp (revertRunVersion env a runId) (\<lambda>_. store_ok env a) (\<lambda>_. store_ok env a) s"
  unfolding revertRunVersion_def wp_bind [of "load_index env a"]
proof (rule wp_load [OF assms], goal_cases)
  case (1 vi s')
  show ?case
  proof (cases "find_version vi (vi_headVersionId vi)")
    case None
    with 1 show ?thesis by (simp add: wp_return)
  next
    case (Some head)
    from wp_ready_persist [OF ready_drop [OF 1(1,2) Some]] show ?thesis
      using Some 1(2) by (simp add: wp_simps)
  qed
qed

lemma sound_revert: "sound env a (revertRunVersion env a runId)"
proof (rule sound_calm)
  show "keeps (stays_calm env a) (revertRunVersion env a runId)"
    unfolding revertRunVersion_def by (intro calm.frame_intros calm_ops)
qed (rule store_revert)

lemma sound_initialize: "sound env a (initializeAgent env a w)"
proof (rule sound_calm)
  show "keeps (stays_calm env a) (initializeAgent env a w)"
    unfolding initializeAgent_def
    by (intro calm.frame_intros calm_ops) (auto intro!: calm.frame_intros calm_record split: list.splits)
  fix s :: "'a version_world_scheme"
  assume "store_ok env a s"
  then show "wp (initializeAgent env a w) (\<lambda>_. store_ok env a) (\<lambda>_. store_ok env a) s"
    unfolding initializeAgent_def wp_bind [of "load_index env a"]
  proof (rule wp_load, goal_cases)
    case (1 vi s')
    show ?case
    proof (cases "vi_versions vi")
      case Nil
      let ?i = "\<lparr>re_agentId = a, re_workspacePath = w, re_kind = INITIAL, re_runId = None, re_manifestOverride = None\<rparr>"
      have "wp (recordUnlocked env vi ?i INITIAL None False)
        (\<lambda>r. wp (case r of (v, _) \<Rightarrow> returnS v) (\<lambda>_. store_ok env a) (\<lambda>_. store_ok env a)) (\<lambda>_. store_ok env a) s'"
        by (rule wp_record [OF 1(1,2)]) (simp_all add: Nil wp_return)
      then show ?thesis by (simp add: Nil wp_bind)
    next
      case (Cons v vs)
      with 1 show ?thesis by (simp add: wp_return)
    qed
  qed
qed

lemma sound_commit: "sound env a (recordCommit env a w runId opts)"
proof (rule sound_calm)
  show "keeps (stays_calm env a) (recordCommit env a w runId opts)"
    unfolding recordCommit_def by (intro calm.frame_intros calm_ops calm_record)
  fix s :: "'a version_world_scheme"
  assume "store_ok env a s"
  then show "wp (recordCommit env a w runId opts) (\<lambda>_. store_ok env a) (\<lambda>_. store_ok env a) s"
    unfolding recordCommit_def wp_bind [of "load_index env a"]
  proof (rule wp_load, goal_cases)
    case (1 vi s')
    let ?init = "\<lparr>re_agentId = a, re_workspacePath = w, re_kind = INITIAL, re_runId = None, re_manifestOverride = None\<rparr>"
    let ?commit = "\<lparr>re_agentId = a,
              re_workspacePath = (case co_sourcePath opts of Some p \<Rightarrow> p | None \<Rightarrow> w),
              re_kind = AGENT_COMMIT, re_runId = Some runId, re_manifestOverride = co_sourceManifest opts\<rparr>"
    have commit: "wp (bindS (recordUnlocked env vi1 ?commit AGENT_COMMIT None (co_deferPrune opts)) (\<lambda>(v, _). returnS v))
        (\<lambda>_. store_ok env a) (\<lambda>_. store_ok env a) s1"
      if "loaded a vi1 s1" "store_ok env a s1" "vi_versions vi1 \<noteq> []" for vi1 s1
      unfolding wp_bind by (rule wp_record [OF that(1,2)]) (simp_all add: that(3) wp_return)
    have rest: "wp (bindS (if vi_versions vi = []
                then bindS (recordUnlocked env vi ?init INITIAL None False) (\<lambda>(_, vi1). returnS vi1)
                else returnS vi) (\<lambda>vi1.
         bindS (recordUnlocked env vi1 ?commit AGENT_COMMIT None (co_deferPrune opts)) (\<lambda>(v, _). returnS v)))
        (\<lambda>_. store_ok env a) (\<lambda>_. store_ok env a) s'"
    proof (cases "vi_versions vi = []")
      case True
      have "wp (recordUnlocked env vi ?init INITIAL None False)
        (\<lambda>r. wp (case r of (_, vi1) \<Rightarrow> returnS vi1) (\<lambda>vi1. wp (bindS (recordUnlocked env vi1 ?commit AGENT_COMMIT None (co_deferPrune opts)) (\<lambda>(v, _). returnS v))
        (\<lambda>_. store_ok env a) (\<lambda>_. store_ok env a)) (\<lambda>_. store_ok env a)) (\<lambda>_. store_ok env a) s'"
        by (rule wp_record [OF 1(1,2)]) (simp_all add: True wp_return commit)
      with True show ?thesis by (simp add: wp_bind)
    next
      case False
      with commit [OF 1(1,2)] show ?thesis by (simp add: wp_bind [of "returnS _"] wp_return)
    qed
    show ?case
    proof (cases "List.find (\<lambda>v. ve_kind v = AGENT_COMMIT \<and> ve_runId v = Some runId) (vi_versions vi)")
      case None
      with rest show ?thesis by simp
    next
      case (Some v)
      with 1 show ?thesis by (simp add: wp_return)
    qed
  qed
qed


subsection \<open>Rollback\<close>

lemma sound_bind:
  assumes "sound env a m" and "\<And>x. sound env a (f x)"
  shows "sound env a (bindS m f)"
  unfolding sound_def wp_bind
proof (intro allI impI, goal_cases)
  case (1 s)
  from soundD [OF assms(1) this] show ?case by (rule wp_mono) (auto intro: soundD [OF assms(2)])
qed

lemma sound_catch:
  assumes "sound env a m" and "\<And>e. sound env a (h e)"
  shows "sound env a (catchS m h)"
  unfolding sound_def wp_catch
proof (intro allI impI, goal_cases)
  case (1 s)
  from soundD [OF assms(1) this] show ?case by (rule wp_mono) (auto intro: soundD [OF assms(2)])
qed

lemma sound_simple:
  "sound env a (returnS x)" "sound env a (throwS e)" "sound env a (liftS r)"
  by (simp_all add: sound_def wp_simps) (simp add: wp_def liftS_def split: sum.splits)

lemma wp_kept:
  assumes snap: "keeps (snap_same (snapshot_paths (root_of env a))) m" and calm: "keeps (stays_calm env a) m"
    and s: "world_ok env a s" and l: "loaded a vi s"
    and ok: "\<And>x s'. world_ok env a s' \<Longrightarrow> loaded a vi s' \<Longrightarrow> Q x s'" and err: "\<And>e s'. world_ok env a s' \<Longrightarrow> E e s'"
  shows "wp m Q E s"
proof -
  from s have st: "store_ok env a s" by (simp add: world_ok_def)
  have sub: "advertised (root_of env a) vi \<subseteq> snapshot_paths (root_of env a)"
    using payload_path_snapshot [OF loaded_ok(1) [OF l st]] by (auto simp: advertised_def unpruned_def snapshot_paths_def)
  have "world_ok env a s' \<and> loaded a vi s'"
    if same: "snap_same (snapshot_paths (root_of env a)) s s'" "stays_calm env a s s'" for s'
  proof -
    have "snap_same (advertised (root_of env a) vi) s s'" using same(1) sub by (auto simp: snap_same_def)
    from loaded_keep [OF l st this] same(2) s show ?thesis by (simp add: world_ok_def stays_calm_def)
  qed
  then show ?thesis using snap calm ok err by (intro wpI) (auto dest!: keepsD)
qed

lemma sound_keeps:
  assumes "keeps (snap_same (snapshot_paths (root_of env a))) m" and "keeps (stays_calm env a) m"
  shows "sound env a m"
proof (rule sound_calm [OF assms(2)])
  fix s :: "'a version_world_scheme"
  assume "store_ok env a s"
  then show "wp m (\<lambda>_. store_ok env a) (\<lambda>_. store_ok env a) s"
    by (intro wp_only_keeps [OF assms(1)]) (auto intro: snap_same_store)
qed

lemma sound_read:
  assumes "\<And>j. jn_ok (root_of env a) j \<Longrightarrow> sound env a (f j)"
  shows "sound env a (bindS (read_journal p) f)"
  unfolding sound_def
proof (intro allI impI, goal_cases)
  case (1 s)
  have same: "sound env a (read_journal p)"
    by (rule sound_keeps) (rule snap.keeps_read, rule calm.keeps_read)
  have "wp (read_journal p) (\<lambda>j s'. c_journals s p = Some j) (\<lambda>_ _. True) s"
    by (rule wp_read) auto
  moreover have "jn_ok (root_of env a) j" if "c_journals s p = Some j" for j
    using 1 that by (auto simp: world_ok_def calm_def ran_def)
  ultimately have "wp (read_journal p) (\<lambda>j s'. jn_ok (root_of env a) j \<and> world_ok env a s') (\<lambda>_. world_ok env a) s"
    using soundD [OF same 1] by (auto simp: wp_def split: prod.splits sum.splits)
  then show ?case unfolding wp_bind by (rule wp_mono) (auto intro: soundD [OF assms])
qed

definition pending_fine :: "vs_env \<Rightarrow> string \<Rightarrow> pending_rollback \<Rightarrow> bool" where
  "pending_fine env a p \<longleftrightarrow> pr_agentId p = a \<and> pr_backupPath p \<notin> snapshot_paths (root_of env a)"

lemma sound_pending:
  assumes "\<And>p. pending_fine env a p \<Longrightarrow> sound env a (f (Some p))" and "sound env a (f None)"
  shows "sound env a (bindS (getS (\<lambda>s. vw_pending s r)) f)"
  unfolding sound_def wp_bind wp_get
proof (intro allI impI, goal_cases)
  case (1 s)
  then have "pending_fine env a p" if "vw_pending s r = Some p" for p
    using that by (auto simp: world_ok_def calm_def ran_def pending_fine_def)
  with assms 1 show ?case by (cases "vw_pending s r") (auto dest: soundD)
qed

lemma ran_dropped: "ran (m(p := None)) \<subseteq> ran m"
  by (auto simp: ran_def split: if_splits)

lemma sound_settle: "sound env a (settle_pending runId)"
  unfolding settle_pending_def
  using ran_dropped
  by (intro sound_keeps keepsI) (fastforce simp: putS_def snap_same_def stays_calm_def calm_def)+

lemma sound_set_pending:
  assumes "pending_fine env a p"
  shows "sound env a (putS (\<lambda>s. s\<lparr>vw_pending := (vw_pending s)(r \<mapsto> p)\<rparr>))"
  using ran_updated assms
  by (intro sound_keeps keepsI) (fastforce simp: putS_def snap_same_def stays_calm_def calm_def pending_fine_def)+

lemma sound_update: "jn_ok (root_of env a) j \<Longrightarrow> sound env a (updateJournal p j st now)"
  by (intro sound_keeps snap_update calm_update)

lemma sound_handle_acknowledge:
  assumes "backup \<notin> snapshot_paths (root_of env a)"
  shows "sound env a (handle_acknowledge te p backup settled)"
proof -
  have "sound env a (rm_dir backup)" by (intro sound_keeps snap_rm calm_rm assms)
  then show ?thesis unfolding handle_acknowledge_def
    by (auto intro!: sound_read sound_bind sound_update sound_simple)
qed

lemma sound_handle_rollback: "sound env a (handle_rollback te p settled)"
proof -
  have "sound env a (rollbackJournal te j p)" if "jn_ok (root_of env a) j" for j
    by (intro sound_keeps snap_rollback_journal calm_rollback_journal that)
  then show ?thesis unfolding handle_rollback_def
    by (auto intro!: sound_read sound_bind sound_simple)
qed

lemma sound_acknowledge: "sound env a (acknowledgeRollback env runId)"
  unfolding acknowledgeRollback_def
proof (rule sound_pending, goal_cases)
  case (1 p)
  then show ?case unfolding pending_fine_def
    by (auto intro!: sound_bind sound_handle_acknowledge sound_settle sound_release)
qed (simp add: sound_simple)

lemma sound_undo: "sound env a (rollbackPendingRollback env runId)"
  unfolding rollbackPendingRollback_def
proof (rule sound_pending, goal_cases)
  case (1 p)
  then have "pending_fine env a (p\<lparr>pr_settled := b\<rparr>)" for b by (simp add: pending_fine_def)
  with 1 show ?case
    by (auto intro!: sound_bind sound_handle_rollback sound_settle sound_set_pending sound_revert simp: pending_fine_def)
qed (simp add: sound_simple)

lemma lift_keeps: "keeps (snap_same D) (lift_permits m)" "keeps (stays_calm env a) (lift_permits m)"
  by (auto simp: keeps_def lift_permits_def snap_same_def stays_calm_def calm_def split: prod.splits)


lemma wp_load_world:
  assumes "world_ok env a s"
    and "\<And>vi s'. loaded a vi s' \<Longrightarrow> world_ok env a s' \<Longrightarrow> Q vi s'" and "\<And>e s'. world_ok env a s' \<Longrightarrow> E e s'"
  shows "wp (load_index env a) Q E s"
proof -
  have "wp (load_index env a) (\<lambda>vi s'. loaded a vi s' \<and> store_ok env a s') (\<lambda>_. store_ok env a) s"
    by (rule wp_load) (use assms(1) in \<open>auto simp: world_ok_def\<close>)
  from wp_keeps [OF calm_load [of env a] this] show ?thesis
    by (rule wp_mono) (use assms in \<open>auto simp: world_ok_def stays_calm_def\<close>)
qed

lemma sound_rollback_request:
  assumes "w \<notin> snapshot_paths (root_of env a)" and "rv_workspacePath i = w"
  shows "keeps (snap_same (snapshot_paths (root_of env a)))
      (rollbackAuthorized te clock (rollback_request env i (root_of env a) c n))"
    and "keeps (stays_calm env a) (rollbackAuthorized te clock (rollback_request env i (root_of env a) c n))"
proof -
  have "keeps (snap_same (snapshot_paths (root_of env a))) (promote_tx te (rollback_input (rollback_request env i (root_of env a) c n)))"
    by (rule snap_promote)
      (use assms in \<open>auto simp: rollback_input_def rollback_request_def Let_def intro!: snap.frame_intros lift_keeps\<close>)
  then show "keeps (snap_same (snapshot_paths (root_of env a)))
      (rollbackAuthorized te clock (rollback_request env i (root_of env a) c n))"
    unfolding rollbackAuthorized_def Let_def by (intro snap.frame_intros)
  have "keeps (stays_calm env a) (promote_tx te (rollback_input (rollback_request env i (root_of env a) c n)))"
    by (rule calm_promote)
      (use assms in \<open>auto simp: rollback_input_def rollback_request_def Let_def intro!: calm.frame_intros lift_keeps\<close>)
  then show "keeps (stays_calm env a) (rollbackAuthorized te clock (rollback_request env i (root_of env a) c n))"
    unfolding rollbackAuthorized_def Let_def by (intro calm.frame_intros)
qed

lemma wp_stage_record:
  fixes s :: "'r version_world_scheme"
  assumes w: "world_ok env a s" and l: "loaded a vi s" and vs: "vi_versions vi \<noteq> []" and i: "rv_agentId i = a"
    and p: "pending_fine env a p"
  shows "wp (record_rollback env i vi target p) (\<lambda>_. world_ok env a) (\<lambda>_. world_ok env a) s"
proof -
  let ?i = "\<lparr>re_agentId = rv_agentId i, re_workspacePath = rv_workspacePath i, re_kind = AGENT_COMMIT,
                re_runId = Some (rv_runId i), re_manifestOverride = None\<rparr>"
  have handler: "sound env a (bindS (catchS (bindS (handle_rollback (vs_tx env) j False) (\<lambda>_. returnS ()))
                (\<lambda>_. throwS (RecoveryRequired
                  ''CommitGate rollback staging failed and the promoted workspace could not be restored''))) (\<lambda>_.
              throwS e) :: ('r, version_record) vs_op)" for e :: tx_error and j
    by (intro sound_bind sound_catch sound_handle_rollback sound_simple)
  have put: "sound env a (bindS (putS (\<lambda>s. s\<lparr>vw_pending := (vw_pending s)(rv_runId i \<mapsto> p)\<rparr>)) (\<lambda>_. returnS v))"
    for v :: version_record
    by (intro sound_bind sound_set_pending sound_simple p)
  have "wp (recordUnlocked env vi ?i ROLLBACK (Some target) True) (\<lambda>_ s'. store_ok env a s') (\<lambda>_. store_ok env a) s"
    by (rule wp_record [OF l]) (use w i vs in \<open>auto simp: world_ok_def\<close>)
  from wp_keeps [OF calm_record [of env a] this] show ?thesis
    unfolding record_rollback_def wp_catch wp_bind [of "recordUnlocked _ _ _ _ _ _"]
  proof (rule wp_mono, goal_cases)
    case (1 r s')
    then have "world_ok env a s'" using w by (simp add: world_ok_def stays_calm_def)
    from soundD [OF put [of "fst r"] this] show ?case
      unfolding prod.case_eq_if by (rule wp_mono) (use soundD [OF handler] in simp_all)
  next
    case (2 e s')
    then have "world_ok env a s'" using w by (simp add: world_ok_def stays_calm_def)
    then show ?case using soundD [OF handler] by simp
  qed
qed

lemma wp_run_rollback:
  assumes s: "world_ok env a s" "loaded a vi s" and vs: "vi_versions vi \<noteq> []" and i: "rv_agentId i = a"
    and w: "rv_workspacePath i \<notin> snapshot_paths (root_of env a)"
  shows "wp (run_rollback env i vi (root_of env a) target c n) (\<lambda>_. world_ok env a) (\<lambda>_. world_ok env a) s"
  unfolding run_rollback_def Let_def wp_bind [of "catchS (rollbackAuthorized _ _ _) _"] wp_bind [of "lift_permits _"]
proof (rule wp_kept [OF _ _ s], goal_cases)
  case 1
  show ?case by (intro snap.frame_intros lift_keeps sound_rollback_request [OF w refl])
next
  case 2
  show ?case by (intro calm.frame_intros lift_keeps sound_rollback_request [OF w refl])
next
  case (3 j s2)
  show ?case
  proof (rule wp_kept [OF lift_keeps 3], goal_cases)
    case (1 x s3)
    have "backup_path (rollback_input (rollback_request env i (root_of env a) c n)) \<notin> snapshot_paths (root_of env a)"
      by (rule path_ok) (simp add: rollback_input_def rollback_request_def Let_def)
    then show ?case by (intro wp_stage_record [OF 1 vs i]) (simp add: pending_fine_def i)
  qed
qed

lemma wp_stage_rest:
  assumes s: "world_ok env a s" "loaded a vi s" and vs: "vi_versions vi \<noteq> []" and i: "rv_agentId i = a"
    and w: "rv_workspacePath i \<notin> snapshot_paths (root_of env a)"
  shows "wp (bindS (manifest_at (vs_tx env) authoritative (rv_workspacePath i)) (\<lambda>base.
     bindS (tx_res (agentRoot env (rv_agentId i))) (\<lambda>root.
     bindS (issue_rollback env i root target path (sm_hash base)) (\<lambda>c.
     bindS (getS (\<lambda>s. length (rs_capabilities (vw_permits s)) - 1)) (\<lambda>n.
     run_rollback env i vi root (ve_id target) c n))))) (\<lambda>_. world_ok env a) (\<lambda>_. world_ok env a) s"
  unfolding wp_bind wp_res wp_get
proof (rule wp_kept [OF snap.keeps_build calm.keeps_build s], goal_cases)
  case (1 base s1)
  show ?case
  proof (cases "agentRoot env (rv_agentId i)")
    case (Inl e)
    then show ?thesis using 1 by simp
  next
    case (Inr root)
    then have root: "root = root_of env a" using i by (simp add: agentRoot_Inr)
    have "keeps (snap_same (snapshot_paths (root_of env a))) (issue_rollback env i root target path (sm_hash base))"
      "keeps (stays_calm env a) (issue_rollback env i root target path (sm_hash base))"
      unfolding issue_rollback_def by (intro snap.frame_intros calm.frame_intros lift_keeps)+
    then have "wp (issue_rollback env i root target path (sm_hash base)) (\<lambda>c s. wp (run_rollback env i vi root (ve_id target) c
       (length (rs_capabilities (vw_permits s)) - 1)) (\<lambda>_. world_ok env a) (\<lambda>_. world_ok env a) s) (\<lambda>_. world_ok env a) s1"
      by (rule wp_kept [OF _ _ 1]) (auto simp: root intro: wp_run_rollback [OF _ _ vs i w])
    with Inr show ?thesis by simp
  qed
qed

lemma wp_no_version: "vi_versions vi = [] \<Longrightarrow> (\<And>e. E e s) \<Longrightarrow> wp (rollback_target env i vi) Q E s"
  by (simp add: rollback_target_def find_version_def wp_simps)

lemma sound_stage:
  assumes i: "rv_agentId i = a" and w: "rv_workspacePath i \<notin> snapshot_paths (root_of env a)"
  shows "sound env a (stageRollback env i)"
  unfolding sound_def stageRollback_def wp_bind [of "getS vw_pending"] wp_get wp_if wp_throw
    wp_bind [of "load_index _ _"] wp_bind [of "rollback_target _ _ _"]
proof (intro allI impI, goal_cases)
  case (1 s)
  have target: "keeps (snap_same (snapshot_paths (root_of env a))) (rollback_target env i vi)"
    "keeps (stays_calm env a) (rollback_target env i vi)" for vi
    unfolding rollback_target_def Let_def by (intro snap.frame_intros calm.frame_intros)+
  show ?case unfolding i
  proof (simp add: 1, intro impI, rule wp_load_world [OF 1], goal_cases)
    case (1 vi s1)
    show ?case
    proof (cases "vi_versions vi = []")
      case True
      show ?thesis by (rule wp_no_version [OF True]) (rule 1)
    next
      case False
      show ?thesis
        by (rule wp_kept [OF target 1(3,2)]) (use wp_stage_rest [OF _ _ False i w] in \<open>auto simp: i split: prod.splits\<close>)
    qed
  qed
qed

lemma sound_rollback_version:
  assumes i: "rv_agentId i = a" and w: "rv_workspacePath i \<notin> snapshot_paths (root_of env a)"
  shows "sound env a (rollback_version env i)"
  unfolding rollback_version_def
  by (intro sound_bind sound_catch sound_stage [OF i w] sound_acknowledge sound_undo sound_simple)

end
