(* ===== verification/Receipt_Store_Facts.thy ===== *)
theory Receipt_Store_Facts
  imports Recovery Version_Ops
begin

text \<open>
  What the receipt store keeps: a terminal receipt is never replaced, and no secret the deployment
  names enters a stored receipt. Both hold of recovery too.
\<close>

subsection \<open>Secrets\<close>

definition hides :: "string \<Rightarrow> gate_receipt \<Rightarrow> bool" where
  "hides v r \<longleftrightarrow> list_all (\<lambda>t. \<not> sublist v t) (gr_reasonCodes r) \<and> list_all (\<lambda>c. \<not> sublist v (check_output c)) (gr_checks r) \<and>
     list_all (\<lambda>t. \<not> sublist v t) (gr_changedPaths r) \<and>
     (case gr_provider r of None \<Rightarrow> True
      | Some p \<Rightarrow> \<not> sublist v (pv_gateway p) \<and> \<not> sublist v (pv_requestedModel p) \<and>
          (case pv_resolvedModel p of None \<Rightarrow> True | Some m \<Rightarrow> \<not> sublist v m))"

lemma sanitized_hides:
  assumes "\<And>t n. P t \<Longrightarrow> \<not> sublist v (redactReceiptText n vs t)"
    and "list_all P (gr_reasonCodes r)" "list_all (\<lambda>c. P (check_output c)) (gr_checks r)" "list_all P (gr_changedPaths r)"
      "case gr_provider r of None \<Rightarrow> True | Some p \<Rightarrow> P (pv_gateway p) \<and> P (pv_requestedModel p) \<and>
         (case pv_resolvedModel p of None \<Rightarrow> True | Some m \<Rightarrow> P m)"
  shows "hides v (sanitizeReceipt vs r)"
  using assms
  by (auto simp: hides_def sanitizeReceipt_def sanitize_check_def sanitize_provider_def list_all_iff split: option.splits)

lemma stored_hides: "plain v \<Longrightarrow> v \<in> set vs \<Longrightarrow> hides v (sanitizeReceipt vs r)"
  by (rule sanitized_hides [where P = "\<lambda>_. True"])
    (auto simp: redacted_hides list_all_iff split: option.splits)

lemma kept_hides: "plain v \<Longrightarrow> hides v r \<Longrightarrow> hides v (sanitizeReceipt vs r)"
  by (rule sanitized_hides [where P = "\<lambda>t. \<not> sublist v t"])
    (auto simp: redact_keeps_hidden hides_def)

subsection \<open>How the receipts change\<close>

text \<open>A terminal receipt stays; where no stored receipt shows \<open>v\<close>, none does later.\<close>

definition hidden :: "string \<Rightarrow> 'r receipt_world_scheme \<Rightarrow> bool" where
  "hidden v s \<longleftrightarrow> (\<forall>k r. rw_receipts s k = Some r \<longrightarrow> hides v r)"

definition unspoken :: "string \<Rightarrow> bool" where
  "unspoken v \<longleftrightarrow> plain v \<and> \<not> sublist v ''STARTUP_RECOVERY_ROLLBACK''"

definition receipts_kept :: "string \<Rightarrow> 'r receipt_world_scheme \<Rightarrow> 'r receipt_world_scheme \<Rightarrow> bool" where
  "receipts_kept v s s' \<longleftrightarrow>
     (\<forall>k r. rw_receipts s k = Some r \<longrightarrow> gr_phase r = TERMINAL \<longrightarrow> rw_receipts s' k = Some r) \<and>
     (unspoken v \<longrightarrow> hidden v s \<longrightarrow> hidden v s')"

interpretation receipts: tx_frame "receipts_kept v" for v
proof (unfold_locales, goal_cases)
  case (2 s s' s'')
  then show ?case by (simp add: receipts_kept_def)
qed (simp_all add: receipts_kept_def hidden_def)

lemma receipts_other: "rw_receipts s' = rw_receipts s \<Longrightarrow> receipts_kept v s s'"
  by (simp add: receipts_kept_def hidden_def)

lemma keeps_wp:
  assumes "\<And>s. wp m (\<lambda>_. R s) (\<lambda>_. R s) s"
  shows "keeps R m"
proof (rule keepsI)
  fix s
  show "R s (snd (m s))" using assms [of s] by (auto simp: wp_def split: prod.splits sum.splits)
qed

lemma receipts_get: "keeps (receipts_kept v) (receipt_get a r)"
  unfolding receipt_get_def by (intro receipts.frame_intros)

lemma wp_receipt_put:
  assumes s: "receipts_kept v s0 s" and r: "unspoken v \<Longrightarrow> hidden v s0 \<Longrightarrow> hides v (sanitizeReceipt vs r)"
  shows "wp (receipt_put vs r) (\<lambda>_. receipts_kept v s0) (\<lambda>_. receipts_kept v s0) s"
  using assms unfolding receipt_put_def Let_def receipt_get_def wp_simps
  by (cases "receipt_key (gr_agentId r) (gr_runId r)")
    (auto intro!: wp_io simp: wp_simps receipts_kept_def hidden_def split: option.splits)

lemma receipts_put: "v \<in> set vs \<Longrightarrow> keeps (receipts_kept v) (receipt_put vs r)"
  by (rule keeps_wp, rule wp_receipt_put [OF receipts.refl]) (simp add: stored_hides unspoken_def)

text \<open>A receipt that was read and is put back changed.\<close>

lemma receipts_reput:
  assumes f: "\<And>x. unspoken v \<Longrightarrow> hides v x \<Longrightarrow> hides v (f x)"
    and h: "\<And>x. h x = receipt_put vs (f x) \<or> h x = returnS ()" and m: "\<And>r. keeps (receipts_kept v) (m r)"
  shows "keeps (receipts_kept v) (bindS (receipt_get a i) (\<lambda>r. bindS (m r) (\<lambda>_.
     case r of Some x \<Rightarrow> h x | None \<Rightarrow> returnS ())))"
proof (rule keeps_wp)
  fix s :: "'a receipt_world_scheme"
  have get: "wp (receipt_get a i) (\<lambda>r s'. rw_receipts s' = rw_receipts s \<and> (\<forall>x. r = Some x \<longrightarrow> hidden v s \<longrightarrow> hides v x))
      (\<lambda>_ s'. rw_receipts s' = rw_receipts s) s"
    unfolding receipt_get_def wp_simps by (auto intro!: wp_io simp: hidden_def split: sum.splits)
  show "wp (bindS (receipt_get a i) (\<lambda>r. bindS (m r) (\<lambda>_.
     case r of Some x \<Rightarrow> h x | None \<Rightarrow> returnS ())))
     (\<lambda>_. receipts_kept v s) (\<lambda>_. receipts_kept v s) s"
    unfolding wp_bind [of "receipt_get a i"]
  proof (rule wp_mono [OF get], goal_cases)
    case (2 e s')
    then show ?case by (simp add: receipts_other)
  next
    case (1 r s1)
    then have s1: "receipts_kept v s s1" by (simp add: receipts_other)
    show ?case unfolding wp_bind
    proof (rule wp_only_keeps [OF m], goal_cases)
      case (2 e s2)
      then show ?case using receipts.trans [OF s1] by blast
    next
      case s2: (1 y s2)
      have "wp (receipt_put vs (f x)) (\<lambda>_. receipts_kept v s) (\<lambda>_. receipts_kept v s) s2" if x: "r = Some x" for x
        by (rule wp_receipt_put [OF receipts.trans [OF s1 s2]]) (use 1 x f in \<open>auto simp: unspoken_def intro!: kept_hides\<close>)
      then show ?case using receipts.trans [OF s1 s2] h by (cases r) (auto simp: wp_simps, metis wp_return)
    qed
  qed
qed

lemma receipts_append: "keeps (receipts_kept v) (appendRecoveryEvent uuid now i)"
  unfolding appendRecoveryEvent_def listRecoveryEvents_def Let_def
  by (intro receipts.frame_intros receipts.keeps_io) (auto intro: receipts_other)

lemma receipts_replay: "keeps (receipts_kept v) (appendPermitReplayEvent uuid now a r p expected)"
  unfolding appendPermitReplayEvent_def listPermitReplayEvents_def Let_def
  by (intro receipts.frame_intros receipts.keeps_io) (auto intro: receipts_other)

lemma receipts_list: "keeps (receipts_kept v) (receipt_list names a)"
proof -
  have "keeps (receipts_kept v) (collect_all (\<lambda>r. bindS look (\<lambda>_. getS (\<lambda>s. rw_receipts s (a, r)))) names)"
    by (induction names) (auto intro!: receipts.frame_intros)
  then show ?thesis unfolding receipt_list_def by (intro receipts.frame_intros)
qed

subsection \<open>Files and versions do not concern receipts\<close>

lemma receipts_rm: "keeps (receipts_kept v) (rm_dir p)"
  unfolding rm_dir_def by (rule receipts.keeps_io) (auto intro: receipts_other)

lemma receipts_rename: "keeps (receipts_kept v) (rename_dir p q)"
  unfolding rename_dir_def by (intro receipts.frame_intros receipts.keeps_io) (auto intro: receipts_other)

lemma receipts_update: "keeps (receipts_kept v) (updateJournal p j st now)"
  unfolding updateJournal_def write_journal_def Let_def
  by (intro receipts.frame_intros receipts.keeps_io) (auto intro: receipts_other)

lemma receipts_persist: "keeps (receipts_kept v) (persist_index env vi)"
  unfolding persist_index_def by (intro receipts.frame_intros receipts.keeps_io) (auto intro: receipts_other)

lemma receipts_rm_quiet: "keeps (receipts_kept v) (rm_quiet ps)"
  by (induction ps) (auto intro!: receipts.frame_intros receipts_rm)

lemma receipts_prune: "keeps (receipts_kept v) (prune env vi)"
  unfolding prune_def Let_def by (intro receipts.frame_intros receipts_rm_quiet receipts_persist)

lemma receipts_load: "keeps (receipts_kept v) (load_index env a)"
  unfolding load_index_def by (intro receipts.frame_intros)

lemma receipts_revert: "keeps (receipts_kept v) (revertRunVersion env a r)"
  unfolding revertRunVersion_def by (intro receipts.frame_intros receipts_load receipts_prune receipts_persist)

lemma receipts_release: "keeps (receipts_kept v) (releaseRetention env a)"
  unfolding releaseRetention_def by (intro receipts.frame_intros receipts_load receipts_prune receipts_persist)

lemma receipts_hash: "keeps (receipts_kept v) (manifestHashOrNull te p)"
  unfolding manifestHashOrNull_def by (intro receipts.frame_intros)

lemma receipts_rollback_journal: "keeps (receipts_kept v) (rollbackJournal te j p)"
  unfolding rollbackJournal_def set_aside_def by (intro receipts.frame_intros receipts_rm receipts_rename receipts_update)

lemmas receipts_ops = receipts_get receipts_append receipts_list receipts_rm receipts_rename receipts_update
  receipts_load receipts_revert receipts_release receipts_hash receipts_rollback_journal

subsection \<open>Recovery\<close>

lemma receipts_mark: "keeps (receipts_kept v) (markReceiptRolledBack env a r h)"
proof -
  let ?f = "rolled_back_receipt h (rc_now env)"
  have "hides v (?f x)" if "unspoken v" "hides v x" for x
    using that by (auto simp: hides_def rolled_back_receipt_def unspoken_def)
  then show ?thesis unfolding markReceiptRolledBack_def
    by (rule receipts_reput [where f = ?f and vs = "[]", OF _ _ receipts_append]) auto
qed

lemma receipts_recovered:
  assumes "\<And>x. unspoken v \<Longrightarrow> hides v x \<Longrightarrow> hides v (patch x)"
  shows "keeps (receipts_kept v) (updateRecoveredReceipt env a r patch final)"
  unfolding updateRecoveredReceipt_def
  using assms by (rule receipts_reput [where f = patch and vs = "[]", OF _ _ receipts_append]) auto

lemma patch_hides: "hides v x \<Longrightarrow> hides v (terminal_patch x)"
  "hides v (x\<lparr>gr_finalSnapshotHash := h\<rparr>) = hides v x" "hides v (x\<lparr>gr_versionId := i\<rparr>) = hides v x"
  by (simp_all add: hides_def terminal_patch_def)

lemma receipts_each: "(\<And>x. keeps (receipts_kept v) (f x)) \<Longrightarrow> keeps (receipts_kept v) (each f xs)"
  by (induction xs) (auto intro!: receipts.frame_intros)

lemma keeps_case_sum: "(\<And>x. keeps R (f x)) \<Longrightarrow> (\<And>y. keeps R (g y)) \<Longrightarrow> keeps R (case v of Inl x \<Rightarrow> f x | Inr y \<Rightarrow> g y)"
  by (cases v) auto

lemma receipts_settle: "keeps (receipts_kept v) (settle_journal env p j)"
proof -
  have "keeps (receipts_kept v) (settle_uncommitted env p j h)" for h
    unfolding settle_uncommitted_def settle_from_backup_def settle_at_base_def settle_missing_def
    by (intro receipts.frame_intros receipts_ops receipts_mark)
  then have "keeps (receipts_kept v) (settle_swapping env p j)"
    unfolding settle_swapping_def settle_committed_def
    by (intro receipts.frame_intros receipts_ops receipts_recovered) (simp_all add: patch_hides)
  then show ?thesis
    unfolding settle_journal_def settle_acknowledged_def settle_rolled_back_def settle_preparing_def
    by (intro receipts.frame_intros receipts_ops receipts_mark receipts_recovered) (simp_all add: patch_hides)
qed

lemma receipts_recover: "keeps (receipts_kept v) (recoverCommitGate env)"
proof -
  have one: "keeps (receipts_kept v) (recover_file env' a root name)" for env' a root name
    unfolding recover_file_def read_valid_def Let_def
    by (intro receipts.frame_intros keeps_case_sum receipts_settle)
  have receipt: "keeps (receipts_kept v) (recover_receipt env' a ids r)" for env' a ids r
    unfolding recover_receipt_def by (intro receipts.frame_intros receipts_ops receipts_mark)
  have clean: "keeps (receipts_kept v) (clean_directory env' a root name)" for env' a root name
    unfolding clean_directory_def by (intro receipts.frame_intros receipts_each receipts_rm)
  have "keeps (receipts_kept v) (recover_agent env a)" for a
    unfolding recover_agent_def Let_def
    by (intro receipts.frame_intros keeps_case_sum receipts_each receipts_list one receipt clean)
  then show ?thesis
    unfolding recoverCommitGate_def by (intro receipts.frame_intros receipts_each)
qed

end
