(* ===== verification/Tx_Props.thy ===== *)
theory Tx_Props
  imports Tx_Facts Permit_Props Candidate_Props
begin

text \<open>
  Properties of the workspace transaction: an authorised promotion over the permit store, and the
  recovery of any state a promotion can be stopped in.
\<close>

subsection \<open>Promotion with a capability of the permit store\<close>

record promotion_world = control +
  pw_permits :: promotion_store

definition lift_promotion :: "'a promotion_op \<Rightarrow> ('r promotion_world_scheme, tx_error, 'a) eff" where
  "lift_promotion m s = (case m (pw_permits s) of (r, p) \<Rightarrow> (mapErr PermitFault r, s\<lparr>pw_permits := p\<rparr>))"

definition consume_nth :: "nat \<Rightarrow> int \<Rightarrow> ('r promotion_world_scheme, tx_error, unit) eff" where
  "consume_nth n now = bindS (lift_promotion (capability_consume n now)) (\<lambda>_. returnS ())"

lemma frames_consume: "frames (consume_nth n now)"
  by (auto simp: frames_def consume_nth_def lift_promotion_def bindS_def returnS_def mapErr_def split: prod.splits sum.splits)

lemma spent_consume:
  assumes "spent (consume_nth n now) s s'"
  shows "\<exists>p. capability_consume n now (pw_permits s) = (Inr p, pw_permits s')"
proof -
  have permits: "pw_permits x = pw_permits y" if "control.more x = control.more y" for x y :: "'a promotion_world_scheme"
    using that by (cases x; cases y) simp
  from assms obtain s0 s1 where s: "control.more s0 = control.more s" "consume_nth n now s0 = (Inr (), s1)"
    "control.more s' = control.more s1" by (auto simp: spent_def)
  from s(2) obtain p where "capability_consume n now (pw_permits s0) = (Inr p, pw_permits s1)"
    by (auto simp: consume_nth_def lift_promotion_def bindS_def returnS_def mapErr_def split: prod.splits sum.splits)
  with permits [OF s(1)] permits [OF s(3)] show ?thesis by simp
qed

lemma wp_sealed:
  assumes "\<And>s'. c_dirs s' = c_dirs s \<Longrightarrow> c_journals s' = c_journals s \<Longrightarrow> control.more s' = control.more s \<Longrightarrow> Q () s'"
    and "\<And>e s'. c_dirs s' = c_dirs s \<Longrightarrow> c_journals s' = c_journals s \<Longrightarrow> E e s'"
  shows "wp (assertReadonlySealedPayload te p m) Q E s"
proof -
  have "keeps rest_same (assertReadonlySealedPayload te p m)"
    unfolding assertReadonlySealedPayload_def by (intro rest.frame_intros)
  moreover have "wp (assertReadonlySealedPayload te p m) (\<lambda>x s'. control.more s' = control.more s \<longrightarrow> Q x s') E s"
    unfolding assertReadonlySealedPayload_def wp_simps
    by (auto intro!: wp_look wp_build assms simp: wp_simps wp_def [of "liftS _"] liftS_def split: option.splits sum.splits)
  ultimately show ?thesis by (rule wp_rest)
qed


subsection \<open>A small promotion\<close>

text \<open>One hash for everything: the hashes agree, the checks of identity decide.\<close>

definition ex_tx :: tx_env where
  "ex_tx = \<lparr>te_walk = ex_env\<lparr>we_H := ex_H\<rparr>, te_copy = (\<lambda>t dst _ clean. Inr (if clean then t else case dst of None \<Rightarrow> t | Some d \<Rightarrow> d)), te_sameDevice = True, te_now = ''t'', te_stamp = ''1''\<rparr>"

definition ex_old :: fs_node where
  "ex_old = FDir (ex_stats 0) [(''a.ts'', FFile (ex_stats 3) ''abc'' True)]"

definition ex_payload :: fs_node where
  "ex_payload = FDir ((ex_stats 0)\<lparr>st_mode := 365\<rparr>) []"

definition ex_capability :: promotion_capability where
  "ex_capability = \<lparr>cap_permit = ex_permit\<lparr>pp_state := CONSUMING\<rparr>,
     cap_proposal = ex_proposal\<lparr>sp_manifestHash := ''h''\<rparr>, cap_proposalPath = ''/ctl/proposals/p1'',
     cap_proposalManifest = \<lparr>sm_schemaVersion = 2, sm_entries = [], sm_hash = ''h''\<rparr>,
     cap_baseView = (ctx_baseView (ex_context ex_H))\<lparr>liveStateHash := ''h''\<rparr>, cap_controlPath = ''/ctl'', cap_locallyConsumed = False\<rparr>"

definition ex_promote :: "promotion_world authorized_promote" where
  "ex_promote = \<lparr>ap_runId = ''run'', ap_agentId = ''agent'', ap_persistentPath = ''/ws'', ap_controlPath = ''/ctl'',
     ap_capability = ex_capability, ap_consume = consume_nth 0 5, ap_assertCurrentView = (\<lambda>_. Inr True)\<rparr>"

definition ex_promotion_world :: "fault list \<Rightarrow> promotion_world" where
  "ex_promotion_world faults = \<lparr>c_dirs = [''/ws'' \<mapsto> ex_old, ''/ctl/proposals/p1'' \<mapsto> ex_payload], c_journals = Map.empty,
     c_faults = faults, pw_permits = ex_store\<lparr>ps_permits := [''/ctl/permits/k-u.json'' \<mapsto> ex_permit\<lparr>pp_state := CONSUMING\<rparr>],
       ps_capabilities := [ex_capability]\<rparr>\<rparr>"

text \<open>C4: A promotion needs its capability and is all or nothing. Whatever inputs and outputs fail, when
  \<open>promoteAuthorized\<close> returns, the workspace holds a tree with the manifest hash of the sealed
  proposal, the replaced tree had the hash of the base view and is kept whole as the backup the
  stored journal names, and the capability's \<open>consume\<close> succeeded on the permits as they were.
  When it does not return, either the old tree is still at its place, or the capability is spent,
  the process stopped or asks for recovery, and the old tree is at its place or is the backup.\<close>

theorem promotion_spends_permit:
  assumes "\<not> contained (ap_controlPath a) (ap_persistentPath a)" and "c_dirs s (ap_persistentPath a) = Some B"
    and "c_journals s (journal_path (authorized_input a)) = None" and "ap_consume a = consume_nth n now"
  shows "case promoteAuthorized le te clock a s of
      (Inr j, s') \<Rightarrow>
        (\<exists>T m. c_dirs s' (ap_persistentPath a) = Some T \<and> manifest_of te authoritative T = Inr m \<and>
           (sp_manifestHash (cap_proposal (ap_capability a)) \<noteq> [] \<longrightarrow> sm_hash m = sp_manifestHash (cap_proposal (ap_capability a)))) \<and>
        (\<exists>m. manifest_of te authoritative B = Inr m \<and> sm_hash m = liveStateHash (cap_baseView (ap_capability a))) \<and>
        c_dirs s' (jn_backupPath j) = Some B \<and> jn_state j = PROMOTED_PENDING_DB \<and> jn_persistentPath j = ap_persistentPath a \<and>
        c_journals s' (journal_path (authorized_input a)) = Some j \<and>
        (\<exists>p. capability_consume n now (pw_permits s) = (Inr p, pw_permits s'))
    | (Inl e, s') \<Rightarrow>
        c_dirs s' (ap_persistentPath a) = Some B \<or>
        (e = Stopped \<or> (\<exists>msg. e = RecoveryRequired msg)) \<and>
        held B (ap_persistentPath a) (backup_path (authorized_input a)) s' \<and>
        (\<exists>p. capability_consume n now (pw_permits s) = (Inr p, pw_permits s'))"
proof -
  let ?i = "authorized_input a" let ?c = "ap_capability a"
  have i: "pi_persistentPath ?i = ap_persistentPath a" "pi_controlPath ?i = ap_controlPath a"
    "pi_baseHash ?i = liveStateHash (cap_baseView ?c)" "pi_consumeAuthorization ?i = Some (consume_nth n now)"
    "pi_expectedTargetHash ?i = Some (sp_manifestHash (cap_proposal ?c))"
    by (simp_all add: authorized_input_def Let_def assms(4))
  let ?Q = "\<lambda>j s'. promoted te ?i B j s' \<and> (\<exists>p. capability_consume n now (pw_permits s) = (Inr p, pw_permits s'))"
  let ?E = "\<lambda>e s'. ended te ?i B e s' \<and> ((\<exists>p. capability_consume n now (pw_permits s) = (Inr p, pw_permits s')) \<or>
      c_dirs s' (ap_persistentPath a) = Some B)"
  have early: "?E e s'" if "c_dirs s' = c_dirs s" "c_journals s' = c_journals s" for e s'
    using that assms(2,3) i ended_untouched [of s' ?i B te e] by simp
  have promote: "wp (promote_tx te ?i) ?Q ?E s1"
    if s1: "c_dirs s1 = c_dirs s" "c_journals s1 = c_journals s" "control.more s1 = control.more s" for s1
  proof -
    have permits: "pw_permits s1 = pw_permits s" using s1(3) by (cases s1; cases s) simp
    have "wp (promote_tx te ?i) (\<lambda>j s'. promoted te ?i B j s' \<and> spent (consume_nth n now) s1 s')
      (\<lambda>e s'. ended te ?i B e s' \<and> (spent (consume_nth n now) s1 s' \<or> c_dirs s' (pi_persistentPath ?i) = Some B)) s1"
      by (rule wp_promote_spent) (use assms s1 i frames_consume in \<open>auto simp: apart_def\<close>)
    then show ?thesis by (rule wp_mono) (use permits i in \<open>auto dest!: spent_consume\<close>)
  qed
  have "wp (promoteAuthorized le te clock a) ?Q ?E s"
    unfolding promoteAuthorized_def Let_def wp_if wp_throw wp_bind
    by (auto intro!: early wp_sealed promote simp: wp_simps)
  then show ?thesis
    unfolding wp_def
    by (cases "promoteAuthorized le te clock a s"; cases "fst (promoteAuthorized le te clock a s)")
      (auto simp: promoted_def ended_def crash_safe_def hash_ok_def i expected_hash_def journal_for_def recoverable_def
        split: option.splits journal_state.splits)
qed

theorem promotion_spends_permit_witness:
  "\<exists>j s' T. promoteAuthorized ex_le ex_tx 5 ex_promote (ex_promotion_world []) = (Inr j, s') \<and>
     c_dirs s' ''/ws'' = Some T \<and> T \<noteq> ex_old \<and> c_dirs s' (jn_backupPath j) = Some ex_old \<and>
     (\<exists>p. capability_consume 0 5 (pw_permits (ex_promotion_world [])) = (Inr p, pw_permits s'))"
proof -
  have run: "(case promoteAuthorized ex_le ex_tx 5 ex_promote (ex_promotion_world []) of
      (Inr j, s') \<Rightarrow> c_dirs s' ''/ws'' = Some ex_payload | (Inl e, s') \<Rightarrow> False)"
    by code_simp
  then obtain j s' where r: "promoteAuthorized ex_le ex_tx 5 ex_promote (ex_promotion_world []) = (Inr j, s')"
    "c_dirs s' ''/ws'' = Some ex_payload"
    by (auto split: prod.splits sum.splits)
  have "\<not> contained (ap_controlPath ex_promote) (ap_persistentPath ex_promote)"
    by (simp add: ex_promote_def contained_def starts_with_iff)
  moreover have "c_dirs (ex_promotion_world []) (ap_persistentPath ex_promote) = Some ex_old"
    by (simp add: ex_promotion_world_def ex_promote_def)
  moreover have "c_journals (ex_promotion_world []) (journal_path (authorized_input ex_promote)) = None"
    by (simp add: ex_promotion_world_def)
  moreover have "ap_consume ex_promote = consume_nth 0 5" by (simp add: ex_promote_def)
  ultimately have "c_dirs s' (jn_backupPath j) = Some ex_old \<and>
     (\<exists>p. capability_consume 0 5 (pw_permits (ex_promotion_world [])) = (Inr p, pw_permits s'))"
    using promotion_spends_permit [where a = ex_promote and s = "ex_promotion_world []" and B = ex_old and n = 0 and now = 5
      and le = ex_le and te = ex_tx and clock = 5] r(1) by simp
  moreover have "ex_payload \<noteq> ex_old" by (simp add: ex_payload_def ex_old_def)
  ultimately show ?thesis using r by auto
qed

subsection \<open>Recovery of what a stopped promotion leaves\<close>

lemma io_works: "c_faults s = [] \<Longrightarrow> io f partial s = (Inr (), f s)"
  by (simp add: io_def)

lemma bindS_works: "m s = (Inr x, s1) \<Longrightarrow> bindS m f s = f x s1"
  by (simp add: bindS_def)

lemma exists_works: "c_faults s = [] \<Longrightarrow> bindS (pathExists p) f s = f (c_dirs s p \<noteq> None) s"
  by (simp add: pathExists_def bindS_assoc bindS_works [OF io_works] bindS_getS)

lemma build_works:
  "c_faults s = [] \<Longrightarrow> c_dirs s p = Some t \<Longrightarrow> buildManifest env t = Inr m \<Longrightarrow> build_at env p s = (Inr m, s)"
  by (simp add: build_at_def bindS_works io_works getS_def liftS_def mapErr_def)

lemma rename_works:
  "c_faults s = [] \<Longrightarrow> c_dirs s src = Some t \<Longrightarrow> c_dirs s dst = None \<Longrightarrow>
     rename_dir src dst s = (Inr (), s\<lparr>c_dirs := (c_dirs s)(dst := Some t, src := None)\<rparr>)"
  by (simp add: rename_dir_def bindS_works io_works getS_def)

lemma aside_works:
  assumes "c_faults s = []" and "c_dirs s F = None"
  shows "\<exists>s1. set_aside P F s = (Inr (), s1) \<and> c_faults s1 = [] \<and> c_dirs s1 P = None \<and>
    (\<forall>q. q \<noteq> P \<longrightarrow> q \<noteq> F \<longrightarrow> c_dirs s1 q = c_dirs s q)"
proof (cases "c_dirs s P")
  case None
  with assms show ?thesis by (simp add: set_aside_def exists_works returnS_def)
next
  case (Some t)
  with assms show ?thesis
    by (auto simp: set_aside_def exists_works bindS_works [OF io_works] rename_works)
qed

lemma rollback_runs:
  assumes "apart_journal te j" and "swapping j" and "recoverable te B j s" and "c_faults s = []"
    and "c_dirs s (journal_failed_path te j) = None"
  shows "\<exists>s'. rollbackJournal te j p s = (Inr (), s')"
proof -
  let ?P = "jn_persistentPath j" let ?K = "jn_backupPath j"
  have h: "hash_ok te (jn_baseHash j) B" "held B ?P ?K s" using assms(2,3) swapping_recoverable by auto
  then obtain m where m: "buildManifest ((te_walk te)\<lparr>we_include := authoritative\<rparr>) B = Inr m" "sm_hash m = jn_baseHash j"
    by (auto simp: hash_ok_def manifest_of_def)
  have finish: "\<exists>s'. bindS (manifest_at te authoritative ?P) (\<lambda>restored.
        if sm_hash restored \<noteq> jn_baseHash j
        then tx_throw ''Recovery restored a workspace with an unexpected hash''
        else
          bindS (rm_dir (jn_stagingPath j)) (\<lambda>_.
          bindS (updateJournal p j ROLLED_BACK (te_now te)) (\<lambda>_. returnS ()))) s1 = (Inr (), s')"
    if "c_faults s1 = []" "c_dirs s1 ?P = Some B" for s1
    using that m by (simp add: bindS_works [OF build_works [OF _ _ m(1)]] rm_dir_def updateJournal_def write_journal_def
        Let_def bindS_assoc bindS_works io_works returnS_def)
  have "jn_state j \<noteq> ROLLED_BACK" "jn_state j \<noteq> ACKNOWLEDGED" using assms(2) by (auto simp: swapping_def)
  moreover have "\<exists>s'. bindS (pathExists ?K) (\<lambda>there.
      bindS (if there then
               bindS (set_aside ?P (journal_failed_path te j)) (\<lambda>_. rename_dir ?K ?P)
             else returnS ()) (\<lambda>_.
      bindS (manifest_at te authoritative ?P) (\<lambda>restored.
        if sm_hash restored \<noteq> jn_baseHash j
        then tx_throw ''Recovery restored a workspace with an unexpected hash''
        else
          bindS (rm_dir (jn_stagingPath j)) (\<lambda>_.
          bindS (updateJournal p j ROLLED_BACK (te_now te)) (\<lambda>_. returnS ()))))) s = (Inr (), s')"
  proof (cases "c_dirs s ?K")
    case None
    then have "c_dirs s ?P = Some B" using h(2) by (simp add: held_def)
    with None finish [OF assms(4)] show ?thesis
      by (simp add: exists_works [OF assms(4)] bindS_returnS)
  next
    case (Some t)
    with h(2) have K: "c_dirs s ?K = Some B" by (simp add: held_def)
    have neq: "?K \<noteq> ?P" "?K \<noteq> journal_failed_path te j" using assms(1) by (auto simp: apart_journal_def)
    from aside_works [OF assms(4,5), of ?P] obtain s1 where
      s1: "set_aside ?P (journal_failed_path te j) s = (Inr (), s1)" "c_faults s1 = []" "c_dirs s1 ?P = None" "c_dirs s1 ?K = Some B"
      using neq K by auto
    let ?s2 = "s1\<lparr>c_dirs := (c_dirs s1)(?P := Some B, ?K := None)\<rparr>"
    have "c_faults ?s2 = []" "c_dirs ?s2 ?P = Some B" using s1(2) neq by auto
    from finish [OF this] show ?thesis
      by (simp add: exists_works [OF assms(4)] K bindS_assoc bindS_works s1 rename_works)
  qed
  ultimately show ?thesis unfolding rollbackJournal_def journal_failed_path_def by simp
qed

lemma promote_crash_safe:
  assumes "apart i" and "c_dirs s (pi_persistentPath i) = Some B" and "c_journals s (journal_path i) = None"
    and "\<And>m. pi_consumeAuthorization i = Some m \<Longrightarrow> frames m" and "promote_tx te i s = (r, s1)"
  shows "crash_safe te i B s1"
proof -
  have "wp (promote_tx te i) (promoted te i B) (ended te i B) s" by (rule wp_promote) (use assms in auto)
  with assms(5) show ?thesis
    by (cases r) (auto simp: wp_def ended_def promoted_def crash_safe_def recoverable_def held_def journal_for_def)
qed

lemma promote_safe_ids:
  assumes "promote_tx te i s = (r, s1)" and "c_journals s (journal_path i) = None" and "c_journals s1 (journal_path i) \<noteq> None"
  shows "assertSafeIdentifier (pi_runId i) ''runId'' = Inr ()" and "assertSafeIdentifier (pi_agentId i) ''agentId'' = Inr ()"
proof -
  have "s1 \<noteq> s" using assms(2,3) by auto
  with assms(1) show "assertSafeIdentifier (pi_runId i) ''runId'' = Inr ()" "assertSafeIdentifier (pi_agentId i) ''agentId'' = Inr ()"
    by (auto simp: promote_tx_def bindS_def liftS_def mapErr_def split: sum.splits)
qed

lemma journal_for_apart:
  assumes "journal_for te i j" and "apart i" and id: "assertSafeIdentifier (pi_runId i) ''runId'' = Inr ()"
  shows "apart_journal te' j" and "journal_failed_path te' j = failed_path te' (pi_controlPath i) (pi_runId i)"
proof -
  show path: "journal_failed_path te' j = failed_path te' (pi_controlPath i) (pi_runId i)"
    using assms(1) dirname_backup [OF id] by (simp add: journal_failed_path_def journal_for_def)
  note paths = apart_paths [OF assms(2)]
  from path show "apart_journal te' j"
    using paths paths(3) [of te' "pi_runId i"] paths(5) [of te' "pi_runId i"] assms(1)
    by (simp add: apart_journal_def journal_for_def)
qed

text \<open>C5: No stop loses the workspace. Stop a promotion or a rollback at any input or output, or let any of
  them fail: either the old tree is at its place and the journal is absent, being prepared or rolled
  back, or the stored journal is in a swapping state and \<open>rollbackJournal\<close>, run on it in a later
  process whose inputs and outputs work, returns with the old tree back at its place and the
  journal rolled back.\<close>

theorem stopped_promotion_rolls_back:
  assumes "\<not> contained (pi_controlPath i) (pi_persistentPath i)" and "c_dirs s (pi_persistentPath i) = Some B"
    and "c_journals s (journal_path i) = None" and "\<forall>m. pi_consumeAuthorization i = Some m \<longrightarrow> frames m"
    and "promote_tx te i s = (r, s1)" and "te_walk te' = te_walk te"
    and "\<forall>j. c_journals s1 (journal_path i) = Some j \<longrightarrow> c_dirs s1 (journal_failed_path te' j) = None"
  shows "case c_journals s1 (journal_path i) of
      None \<Rightarrow> c_dirs s1 (pi_persistentPath i) = Some B
    | Some j \<Rightarrow>
        jn_state j \<in> {PREPARING, ROLLED_BACK} \<and> c_dirs s1 (pi_persistentPath i) = Some B \<or>
        jn_state j \<in> {PROMOTING, PROMOTED_PENDING_DB} \<and>
        (\<exists>s2 j2. rollbackJournal te' j (journal_path i) (s1\<lparr>c_faults := []\<rparr>) = (Inr (), s2) \<and>
           c_dirs s2 (pi_persistentPath i) = Some B \<and> c_journals s2 (journal_path i) = Some j2 \<and> jn_state j2 = ROLLED_BACK)"
proof -
  have ap: "apart i" using assms(1) by (simp add: apart_def)
  have safe: "crash_safe te i B s1" by (rule promote_crash_safe [OF ap assms(2,3) _ assms(5)]) (use assms(4) in blast)
  show ?thesis
  proof (cases "c_journals s1 (journal_path i)")
    case None
    with safe show ?thesis by (simp add: crash_safe_def)
  next
    case (Some j)
    with safe have j: "journal_for te i j" "recoverable te B j s1" by (simp_all add: crash_safe_def)
    show ?thesis
    proof (cases "swapping j")
      case False
      with j Some show ?thesis by (cases "jn_state j") (auto simp: swapping_def recoverable_def journal_for_def)
    next
      case True
      let ?s = "s1\<lparr>c_faults := []\<rparr>"
      have id: "assertSafeIdentifier (pi_runId i) ''runId'' = Inr ()"
        using promote_safe_ids(1) [OF assms(5,3)] Some by simp
      note aj = journal_for_apart(1) [OF j(1) ap id, of te']
      have hash: "hash_ok te' h t = hash_ok te h t" for h t using assms(6) by (simp add: hash_ok_def manifest_of_def)
      have rec: "recoverable te' B j ?s"
        using j(2) by (cases "jn_state j") (simp_all add: recoverable_def hash held_def)
      from rollback_runs [OF aj True rec] assms(7) Some obtain s2 where
        s2: "rollbackJournal te' j (journal_path i) ?s = (Inr (), s2)" by auto
      have "wp (rollbackJournal te' j (journal_path i)) (\<lambda>_ s'. c_dirs s' (jn_persistentPath j) = Some B \<and>
          (\<exists>j2. c_journals s' (journal_path i) = Some j2 \<and> jn_state j2 = ROLLED_BACK)) (\<lambda>_ _. True) ?s"
        by (rule wp_rollbackJournal [OF aj True rec]) auto
      with s2 have "c_dirs s2 (jn_persistentPath j) = Some B" "\<exists>j2. c_journals s2 (journal_path i) = Some j2 \<and> jn_state j2 = ROLLED_BACK"
        by (auto simp: wp_def)
      then show ?thesis using s2 j(1) True Some by (auto simp: journal_for_def swapping_def)
    qed
  qed
qed

theorem stopped_promotion_rolls_back_witness:
  "\<exists>s1 s2 j. promote_tx ex_tx (authorized_input ex_promote) (ex_promotion_world (replicate 12 Works @ [Stops None])) = (Inl Stopped, s1) \<and>
     c_dirs s1 ''/ws'' = None \<and> c_journals s1 ''/ctl/journals/run.json'' = Some j \<and>
     rollbackJournal (ex_tx\<lparr>te_stamp := ''2''\<rparr>) j ''/ctl/journals/run.json'' (s1\<lparr>c_faults := []\<rparr>) = (Inr (), s2) \<and>
     c_dirs s2 ''/ws'' = Some ex_old"
proof -
  let ?i = "authorized_input ex_promote" let ?s = "ex_promotion_world (replicate 12 Works @ [Stops None])"
  have run: "(case promote_tx ex_tx ?i ?s of (r, s1) \<Rightarrow> (case r of Inl e \<Rightarrow> e = Stopped | Inr _ \<Rightarrow> False) \<and> c_dirs s1 ''/ws'' = None \<and>
      (case c_journals s1 ''/ctl/journals/run.json'' of None \<Rightarrow> False | Some j \<Rightarrow>
         c_dirs s1 (journal_failed_path (ex_tx\<lparr>te_stamp := ''2''\<rparr>) j) = None))"
    by code_simp
  obtain r s1 where r: "promote_tx ex_tx ?i ?s = (r, s1)" by (cases "promote_tx ex_tx ?i ?s")
  with run obtain j where e: "r = Inl Stopped" "c_dirs s1 ''/ws'' = None" "c_journals s1 ''/ctl/journals/run.json'' = Some j"
    "c_dirs s1 (journal_failed_path (ex_tx\<lparr>te_stamp := ''2''\<rparr>) j) = None"
    by (auto split: option.splits sum.splits)
  have i: "pi_persistentPath ?i = ''/ws''" "pi_controlPath ?i = ''/ctl''" "journal_path ?i = ''/ctl/journals/run.json''"
    "pi_consumeAuthorization ?i = Some (consume_nth 0 5)"
    by (simp_all add: authorized_input_def Let_def ex_promote_def journal_path_def)
  have apart: "\<not> contained (pi_controlPath ?i) (pi_persistentPath ?i)" unfolding i by (simp add: contained_def starts_with_iff)
  have old: "c_dirs ?s (pi_persistentPath ?i) = Some ex_old" "c_journals ?s (journal_path ?i) = None"
    by (simp_all add: ex_promotion_world_def i)
  have consume: "\<forall>m. pi_consumeAuthorization ?i = Some m \<longrightarrow> frames m" using i(4) frames_consume by auto
  have walk: "te_walk (ex_tx\<lparr>te_stamp := ''2''\<rparr>) = te_walk ex_tx" by simp
  have "\<forall>j. c_journals s1 (journal_path ?i) = Some j \<longrightarrow> c_dirs s1 (journal_failed_path (ex_tx\<lparr>te_stamp := ''2''\<rparr>) j) = None"
    using e i by simp
  from stopped_promotion_rolls_back [OF apart old consume r walk this] e(2) have
    "\<exists>s2. rollbackJournal (ex_tx\<lparr>te_stamp := ''2''\<rparr>) j ''/ctl/journals/run.json'' (s1\<lparr>c_faults := []\<rparr>) = (Inr (), s2) \<and>
       c_dirs s2 ''/ws'' = Some ex_old"
    unfolding i e(3) option.case by auto
  then show ?thesis using e r by blast
qed

end
