(* ===== verification/Recovery_Facts.thy ===== *)
theory Recovery_Facts
  imports Receipt_Store_Facts Tx_Props
begin

text \<open>
  What settling one journal leaves of the files, whatever fails: the receipts and the version
  store touch no directory but payloads, so the facts on \<open>rollbackJournal\<close> decide where the
  workspace is.
\<close>

subsection \<open>Operations that leave files alone\<close>

definition files_same :: "'r receipt_world_scheme \<Rightarrow> 'r receipt_world_scheme \<Rightarrow> bool" where
  "files_same s s' \<longleftrightarrow> c_dirs s' = c_dirs s \<and> c_journals s' = c_journals s \<and> vw_indexes s' = vw_indexes s"

interpretation files: tx_frame files_same
  by unfold_locales (simp_all add: files_same_def)

lemma files_get: "keeps files_same (receipt_get a r)"
  unfolding receipt_get_def by (intro files.frame_intros)

lemma files_put: "keeps files_same (receipt_put vs r)"
  unfolding receipt_put_def Let_def
  by (intro files.frame_intros files_get files.keeps_io) (simp_all add: files_same_def)

lemma files_append: "keeps files_same (appendRecoveryEvent uuid now i)"
  unfolding appendRecoveryEvent_def listRecoveryEvents_def Let_def
  by (intro files.frame_intros files.keeps_io) (simp_all add: files_same_def)

lemma files_mark: "keeps files_same (markReceiptRolledBack env a r h)"
  unfolding markReceiptRolledBack_def by (intro files.frame_intros files_get files_put files_append)

lemma files_recovered: "keeps files_same (updateRecoveredReceipt env a r patch final)"
  unfolding updateRecoveredReceipt_def by (intro files.frame_intros files_get files_put files_append)

text \<open>All directories but the payloads below \<open>root\<close>, and the journals.\<close>

definition away :: "string \<Rightarrow> 'r version_world_scheme \<Rightarrow> 'r version_world_scheme \<Rightarrow> bool" where
  "away root s s' \<longleftrightarrow> c_journals s' = c_journals s \<and> (\<forall>p. p \<notin> snapshot_paths root \<longrightarrow> c_dirs s' p = c_dirs s p)"

interpretation away: tx_frame "away root" for root
  by unfold_locales (auto simp: away_def)

lemma files_away: "files_same s s' \<Longrightarrow> away root s s'"
  by (simp add: files_same_def away_def)

lemma away_rm: "p \<in> snapshot_paths root \<Longrightarrow> keeps (away root) (rm_dir p)"
  unfolding rm_dir_def by (rule away.keeps_io) (auto simp: away_def)

lemma away_persist: "keeps (away root) (persist_index env vi)"
  unfolding persist_index_def by (intro away.frame_intros away.keeps_io) (simp_all add: away_def)

lemma away_load: "keeps (away root) (load_index env a)"
  unfolding load_index_def by (intro away.frame_intros)

lemma away_rm_quiet: "set ps \<subseteq> snapshot_paths root \<Longrightarrow> keeps (away root) (rm_quiet ps)"
  by (induction ps) (auto intro!: away.frame_intros away_rm)

lemma pruned_payloads:
  assumes "index_ok vi" and "q \<in> pruned_paths vi"
  shows "payload_path root q \<in> snapshot_paths root"
  using assms payload_path_snapshot [OF assms(1)] by (auto simp: pruned_paths_def snapshot_paths_def)

lemma bindS_res_Inr: "bindS (liftS (mapErr f (Inr x))) g = g x"
  by (rule ext) (simp add: bindS_def liftS_def mapErr_def)

lemma away_prune:
  assumes "index_ok vi" and "vi_agentId vi = a"
  shows "keeps (away (root_of env a)) (prune env vi)"
proof (cases "agentRoot env a")
  case (Inl e)
  then show ?thesis using assms(2) unfolding prune_def
    by (intro keepsI) (simp add: bindS_def liftS_def mapErr_def away.refl)
next
  case (Inr root)
  then have root: "root = root_of env a" by (simp add: agentRoot_Inr)
  obtain vi' payloads where pr: "prune_index env vi = (vi', payloads)" by (cases "prune_index env vi")
  note spec = prune_index_spec [OF pr assms(1)]
  let ?gone = "map (\<lambda>s. payload_path root (sn_relativePath s)) (filter (\<lambda>s. sn_prunedAt s \<noteq> None) (vi_snapshots vi))"
  have "set ?gone \<subseteq> snapshot_paths root" using pruned_payloads [OF assms(1)] by (force simp: pruned_paths_def)
  moreover have "set (map (payload_path root) payloads) \<subseteq> snapshot_paths root" using pruned_payloads [OF spec(1)] spec(3) by auto
  ultimately have "keeps (away root) (bindS (rm_quiet ?gone) (\<lambda>_.
      let (vi', payloads) = prune_index env vi in
      if payloads = [] then returnS vi'
      else bindS (persist_index env vi') (\<lambda>_. bindS (rm_quiet (map (payload_path root) payloads)) (\<lambda>_. returnS vi'))))"
    unfolding pr Let_def prod.case by (intro away.frame_intros away_rm_quiet away_persist)
  then show ?thesis unfolding prune_def assms(2) Inr root by (simp add: bindS_res_Inr)
qed

text \<open>Reverting and releasing under the store's invariant.\<close>

lemma away_loaded:
  assumes st: "store_ok env a s"
    and f: "\<And>vi. index_ok vi \<Longrightarrow> vi_agentId vi = a \<Longrightarrow> keeps (away (root_of env a)) (f vi)"
  shows "wp (bindS (load_index env a) f) (\<lambda>_. away (root_of env a) s) (\<lambda>_. away (root_of env a) s) s"
proof -
  have "wp (load_index env a) (\<lambda>vi s1. index_ok vi \<and> vi_agentId vi = a) (\<lambda>_ _. True) s"
    by (rule wp_load [OF st]) (auto dest: loaded_ok)
  from wp_keeps [OF away_load [where root = "root_of env a"] this] show ?thesis
    unfolding wp_bind
  proof (rule wp_mono, goal_cases)
    case (1 vi s1)
    then show ?case by (intro wp_only_keeps [OF f [of vi]]) (auto intro: away.trans)
  qed simp
qed

lemma wp_conj: "wp m Q E s \<Longrightarrow> wp m Q' E' s \<Longrightarrow> wp m (\<lambda>x s'. Q x s' \<and> Q' x s') (\<lambda>e s'. E e s' \<and> E' e s') s"
  by (auto simp: wp_def split: prod.splits sum.splits)

lemma away_revert:
  assumes "store_ok env a s"
  shows "wp (revertRunVersion env a runId) (\<lambda>_ s'. store_ok env a s' \<and> away (root_of env a) s s')
    (\<lambda>_ s'. store_ok env a s' \<and> away (root_of env a) s s') s"
proof (rule wp_conj [OF store_revert [OF assms]])
  have "keeps (away (root_of env a)) (case find_version vi (vi_headVersionId vi) of
      None \<Rightarrow> returnS False
    | Some head \<Rightarrow>
        if ve_runId head \<noteq> Some runId \<or> ve_kind head = INITIAL then returnS False
        else bindS (prune env (drop_version head vi)) (\<lambda>vi'. bindS (persist_index env vi') (\<lambda>_. returnS True)))"
    if "index_ok vi" "vi_agentId vi = a" for vi
  proof (cases "find_version vi (vi_headVersionId vi)")
    case (Some head)
    have "vi_agentId (drop_version head vi) = a" using that(2) by (simp add: drop_version_def)
    from away_prune [OF drop_ok [OF that(1) Some] this] show ?thesis
      unfolding Some option.case by (intro away.frame_intros away_persist)
  qed (simp add: away.keeps_return)
  then show "wp (revertRunVersion env a runId) (\<lambda>_. away (root_of env a) s) (\<lambda>_. away (root_of env a) s) s"
    unfolding revertRunVersion_def by (rule away_loaded [OF assms])
qed

lemma away_release:
  assumes "store_ok env a s"
  shows "wp (releaseRetention env a) (\<lambda>_ s'. store_ok env a s' \<and> away (root_of env a) s s')
    (\<lambda>_ s'. store_ok env a s' \<and> away (root_of env a) s s') s"
proof (rule wp_conj [OF store_release [OF assms]])
  have "keeps (away (root_of env a)) (bindS (prune env vi) (persist_index env))" if "index_ok vi" "vi_agentId vi = a" for vi
    by (intro away.frame_intros away_persist away_prune that)
  then show "wp (releaseRetention env a) (\<lambda>_. away (root_of env a) s) (\<lambda>_. away (root_of env a) s) s"
    unfolding releaseRetention_def by (rule away_loaded [OF assms])
qed

subsection \<open>A swapping journal\<close>

text \<open>The journal that is stored is the one settled, or the one settled marked as rolled back; the old tree
  can be put back, or is.\<close>

definition still_safe :: "tx_env \<Rightarrow> fs_node \<Rightarrow> string \<Rightarrow> journal \<Rightarrow> 'r control_scheme \<Rightarrow> bool" where
  "still_safe te B p j s \<longleftrightarrow>
     c_journals s p = Some j \<and> recoverable te B j s \<or>
     c_dirs s (jn_persistentPath j) = Some B \<and>
     c_journals s p = Some (j\<lparr>jn_state := ROLLED_BACK, jn_updatedAt := te_now te\<rparr>)"

definition restored :: "tx_env \<Rightarrow> fs_node \<Rightarrow> string \<Rightarrow> journal \<Rightarrow> 'r control_scheme \<Rightarrow> bool" where
  "restored te B p j s \<longleftrightarrow> c_dirs s (jn_persistentPath j) = Some B \<and>
     c_journals s p = Some (j\<lparr>jn_state := ROLLED_BACK, jn_updatedAt := te_now te\<rparr>)"

text \<open>The database names the run's version, and the workspace is the tree with the journal's target hash.\<close>

definition head_committed :: "database_head option res \<Rightarrow> journal \<Rightarrow> bool" where
  "head_committed head j \<longleftrightarrow> (\<exists>h. head = Inr (Some h) \<and> dh_runId h = Some (jn_runId j) \<and>
     dh_liveStateHash h = jn_targetHash j \<and> dh_kind h = expected_kind j)"

definition kept_target :: "tx_env \<Rightarrow> journal \<Rightarrow> fs_node \<Rightarrow> 'r control_scheme \<Rightarrow> bool" where
  "kept_target te j T s \<longleftrightarrow> c_dirs s (jn_persistentPath j) = Some T \<and> hash_ok te (jn_targetHash j) T"

text \<open>A swapping journal whose paths are where a transaction puts them.\<close>

definition settleable :: "recovery_env \<Rightarrow> journal \<Rightarrow> bool" where
  "settleable env j \<longleftrightarrow> apart_journal (rc_tx env) j \<and> swapping j \<and> jn_ok (root_of (rc_vs env) (jn_agentId j)) j"

abbreviation store_fine :: "recovery_env \<Rightarrow> journal \<Rightarrow> 'r version_world_scheme \<Rightarrow> bool" where
  "store_fine env j \<equiv> store_ok (rc_vs env) (jn_agentId j)"

abbreviation away_of :: "recovery_env \<Rightarrow> journal \<Rightarrow> 'r version_world_scheme \<Rightarrow> 'r version_world_scheme \<Rightarrow> bool" where
  "away_of env j \<equiv> away (root_of (rc_vs env) (jn_agentId j))"

lemma files_store: "files_same s s' \<Longrightarrow> store_ok env a s \<Longrightarrow> store_ok env a s'"
  by (rule snap_same_store) (simp_all add: files_same_def snap_same_def)

lemma restored_away: "settleable env j \<Longrightarrow> away_of env j s s' \<Longrightarrow> restored te B p j s \<Longrightarrow> restored te B p j s'"
  by (simp add: away_def restored_def settleable_def jn_ok_def)

lemma target_away: "settleable env j \<Longrightarrow> away_of env j s s' \<Longrightarrow> kept_target te j T s \<Longrightarrow> kept_target te j T s'"
  by (simp add: away_def kept_target_def settleable_def jn_ok_def)

lemma restored_safe: "restored te B p j s \<Longrightarrow> still_safe te B p j s"
  by (simp add: restored_def still_safe_def)

text \<open>What follows once the tree is back.\<close>

lemma wp_tail:
  assumes j: "settleable env j" and "restored te B p j s" and "store_fine env j s"
  shows "wp (bindS (revertRunVersion (rc_vs env) (jn_agentId j) r) (\<lambda>_.
      bindS (markReceiptRolledBack env (jn_agentId j) r h) (\<lambda>_. returnS a)))
    (\<lambda>x s'. x = a \<and> restored te B p j s') (\<lambda>_. restored te B p j) s"
  unfolding wp_bind
proof (rule wp_mono [OF away_revert [OF assms(3)]], goal_cases)
  case (1 x s1)
  with assms(2) have "restored te B p j s1" by (blast intro: restored_away [OF j])
  then show ?case unfolding wp_return
    by (intro wp_only_keeps [OF files_mark]) (auto intro: restored_away [OF j] files_away)
next
  case (2 e s1)
  with assms(2) show ?case by (blast intro: restored_away [OF j])
qed

lemma wp_from_backup:
  assumes j: "settleable env j" and rec: "recoverable (rc_tx env) B j s" and "c_journals s p = Some j" and "store_fine env j s"
  shows "wp (settle_from_backup env p j) (\<lambda>a s'. ra_action a = Rolled_Back_Run \<and> restored (rc_tx env) B p j s')
    (\<lambda>_. still_safe (rc_tx env) B p j) s"
proof -
  let ?te = "rc_tx env"
  from j have parts: "apart_journal ?te j" "swapping j" "jn_ok (root_of (rc_vs env) (jn_agentId j)) j"
    by (simp_all add: settleable_def)
  have "wp (rollbackJournal ?te j p) (\<lambda>_. restored ?te B p j) (\<lambda>_. still_safe ?te B p j) s"
    by (rule wp_rollbackJournal [OF parts(1,2) rec]) (simp_all add: restored_def still_safe_def assms(3))
  from wp_keeps [OF snap_rollback_journal [OF parts(3)] this] show ?thesis
    unfolding settle_from_backup_def wp_bind [of "rollbackJournal _ _ _"]
  proof (rule wp_mono, goal_cases)
    case (1 x s1)
    then have "store_fine env j s1" using assms(4) by (blast intro: snap_same_store)
    from wp_tail [OF j conjunct1 [OF 1] this] show ?case
      by (rule wp_mono) (auto simp: action_def restored_safe)
  qed simp
qed

lemma wp_at_base:
  assumes j: "settleable env j" and rec: "recoverable (rc_tx env) B j s" and "c_journals s p = Some j" and "store_fine env j s"
    and P: "c_dirs s (jn_backupPath j) = None"
  shows "wp (settle_at_base env p j) (\<lambda>a s'. ra_action a = Rolled_Back_Run \<and> restored (rc_tx env) B p j s')
    (\<lambda>_. still_safe (rc_tx env) B p j) s"
proof -
  let ?te = "rc_tx env"
  have swap: "swapping j" using j by (simp add: settleable_def)
  have B: "c_dirs s (jn_persistentPath j) = Some B"
    using rec P by (simp add: swapping_recoverable [OF swap] held_def)
  have "wp (updateJournal p j ROLLED_BACK (rc_now env)) (\<lambda>_. restored ?te B p j) (\<lambda>_. still_safe ?te B p j) s"
    by (rule wp_update) (use B rec assms(3) in \<open>auto simp: restored_def still_safe_def swapping_recoverable [OF swap] held_def\<close>)
  from wp_keeps [OF snap_update [where D = "snapshot_paths (root_of (rc_vs env) (jn_agentId j))"] this] show ?thesis
    unfolding settle_at_base_def wp_bind [of "updateJournal _ _ _ _"]
  proof (rule wp_mono, goal_cases)
    case (1 x s1)
    then have "store_fine env j s1" using assms(4) by (blast intro: snap_same_store)
    from wp_tail [OF j conjunct1 [OF 1] this] show ?case
      by (rule wp_mono) (auto simp: action_def restored_safe)
  qed simp
qed

lemma wp_uncommitted:
  assumes j: "settleable env j" and rec: "recoverable (rc_tx env) B j s" and "c_journals s p = Some j" and "store_fine env j s"
  shows "wp (settle_uncommitted env p j h)
    (\<lambda>a s'. ra_action a = Rolled_Back_Run \<and> restored (rc_tx env) B p j s' \<or>
       ra_action a = Manual_Intervention \<and> still_safe (rc_tx env) B p j s')
    (\<lambda>_. still_safe (rc_tx env) B p j) s"
proof -
  let ?te = "rc_tx env" let ?K = "jn_backupPath j"
  have fine: "recoverable ?te B j s' \<and> c_journals s' p = Some j \<and> store_fine env j s'"
    if "files_same s s'" for s' :: "'a receipt_world_scheme"
    using that assms files_store [OF that] by (auto simp: files_same_def recoverable_def held_def split: journal_state.splits)
  have exists: "wp (pathExists ?K) (\<lambda>b s'. files_same s0 s' \<and> b = (c_dirs s0 ?K \<noteq> None)) (\<lambda>_. files_same s0) s0"
    for s0 :: "'a receipt_world_scheme"
    by (rule wp_mono [OF wp_keeps [OF files.keeps_exists wp_exists
      [where Q = "\<lambda>b _. b = (c_dirs s0 ?K \<noteq> None)" and E = "\<lambda>_ _. True"]]]) auto
  show ?thesis unfolding settle_uncommitted_def wp_bind [of "pathExists _"] wp_if
  proof (rule wp_mono [OF exists], goal_cases)
    case (2 e s1)
    then show ?case using fine by (simp add: still_safe_def)
  next
    case (1 there s1)
    then have s1: "recoverable ?te B j s1" "c_journals s1 p = Some j" "store_fine env j s1" "c_dirs s1 = c_dirs s"
      using fine by (auto simp: files_same_def)
    have manual: "wp (bindS (if h = None then pathExists ?K else returnS False) (\<lambda>missing.
        if missing then settle_missing env p j
        else returnS (action (jn_agentId j) (jn_runId j) Manual_Intervention
          ''Journal, database and workspace hashes cannot be reconciled uniquely'')))
      (\<lambda>a s'. ra_action a = Rolled_Back_Run \<and> restored ?te B p j s' \<or> ra_action a = Manual_Intervention \<and> still_safe ?te B p j s')
      (\<lambda>_. still_safe ?te B p j) s1" if "\<not> there"
    proof -
      have "wp (if h = None then pathExists ?K else returnS False) (\<lambda>b s'. files_same s1 s' \<and> \<not> b) (\<lambda>_. files_same s1) s1"
        using that 1 s1(4) by (auto simp: wp_return files.refl intro!: wp_mono [OF exists])
      then show ?thesis unfolding wp_bind [of "if h = None then _ else _"]
      proof (rule wp_mono, goal_cases)
        case (1 b s2)
        with files.trans \<open>files_same s s1 \<and> _\<close> have "files_same s s2" by blast
        with 1 fine show ?case by (simp add: wp_return still_safe_def action_def)
      next
        case (2 e s2)
        with files.trans \<open>files_same s s1 \<and> _\<close> have "files_same s s2" by blast
        with fine show ?case by (simp add: still_safe_def)
      qed
    qed
    show ?case
    proof (cases there)
      case True
      then show ?thesis using wp_from_backup [OF j s1(1-3)] by (simp, elim wp_mono) auto
    next
      case False
      then have "c_dirs s1 ?K = None" using 1 s1(4) by simp
      from wp_at_base [OF j s1(1-3) this] manual [OF False] False show ?thesis
        by (auto elim: wp_mono)
    qed
  qed
qed

text \<open>The database head agrees.\<close>

definition committed :: "recovery_env \<Rightarrow> journal \<Rightarrow> fs_node \<Rightarrow> 'r control_scheme \<Rightarrow> bool" where
  "committed env j T s \<longleftrightarrow> head_committed (rc_databaseHead env (jn_agentId j)) j \<and> kept_target (rc_tx env) j T s"

lemma wp_committed:
  assumes j: "settleable env j" and com: "committed env j T s" and "store_fine env j s"
  shows "wp (settle_committed env p j vi v) (\<lambda>a s'. ra_action a = Acknowledged_Run \<and> committed env j T s')
    (\<lambda>_. committed env j T) s"
proof -
  let ?goal = "\<lambda>s'. committed env j T s' \<and> store_fine env j s'"
  from j have K: "jn_backupPath j \<notin> snapshot_paths (root_of (rc_vs env) (jn_agentId j))" "jn_persistentPath j \<noteq> jn_backupPath j"
    by (simp_all add: settleable_def jn_ok_def apart_journal_def)
  have rm: "wp (rm_dir (jn_backupPath j)) (\<lambda>_. ?goal) (\<lambda>_. ?goal) s1" if "?goal s1" for s1 :: "'a receipt_world_scheme"
  proof -
    have "wp (rm_dir (jn_backupPath j)) (\<lambda>_. committed env j T) (\<lambda>_. committed env j T) s1"
      by (rule wp_rm) (use that K(2) in \<open>auto simp: committed_def kept_target_def\<close>)
    from wp_keeps [OF snap_rm [OF K(1)] this] show ?thesis
      by (rule wp_mono) (use that in \<open>auto intro: snap_same_store\<close>)
  qed
  have update: "wp (updateJournal p j ACKNOWLEDGED n) (\<lambda>_. ?goal) (\<lambda>_. ?goal) s1" if "?goal s1" for n and s1 :: "'a receipt_world_scheme"
  proof -
    have "wp (updateJournal p j ACKNOWLEDGED n) (\<lambda>_. committed env j T) (\<lambda>_. committed env j T) s1"
      by (rule wp_update) (use that in \<open>auto simp: committed_def kept_target_def\<close>)
    from wp_keeps [OF snap_update [where D = "snapshot_paths (root_of (rc_vs env) (jn_agentId j))"] this] show ?thesis
      by (rule wp_mono) (use that in \<open>auto intro: snap_same_store\<close>)
  qed
  have release: "wp (releaseRetention (rc_vs env) (jn_agentId j)) (\<lambda>_. ?goal) (\<lambda>_. ?goal) s1" if "?goal s1" for s1 :: "'a receipt_world_scheme"
    by (rule wp_mono [OF away_release]) (use that target_away [OF j] in \<open>auto simp: committed_def\<close>)
  have recovered: "wp (updateRecoveredReceipt env a r f h) (\<lambda>_. ?goal) (\<lambda>_. ?goal) s1" if "?goal s1" for a r f h and s1 :: "'a receipt_world_scheme"
  proof (rule wp_only_keeps [OF files_recovered])
    fix s' assume same: "files_same s1 s'"
    then have "committed env j T s'" using that by (auto simp: committed_def kept_target_def files_same_def)
    with files_store [OF same] that show "?goal s'" "?goal s'" by blast+
  qed
  have start: "?goal s" using com assms(3) by simp
  show ?thesis unfolding settle_committed_def wp_if wp_throw wp_bind
    using start
    by (auto simp: wp_return action_def com intro!: wp_mono [OF rm] wp_mono [OF update] wp_mono [OF release] wp_mono [OF recovered])
qed

lemma wp_hash:
  "wp (manifestHashOrNull te q) (\<lambda>h s'. files_same s s' \<and>
      (\<forall>x. h = Some x \<longrightarrow> (\<exists>T. c_dirs s q = Some T \<and> hash_ok te x T))) (\<lambda>_. files_same s) s"
proof -
  have "keeps files_same (manifestHashOrNull te q)"
    unfolding manifestHashOrNull_def by (intro files.frame_intros)
  moreover have "wp (manifestHashOrNull te q) (\<lambda>h s'. \<forall>x. h = Some x \<longrightarrow> (\<exists>T. c_dirs s q = Some T \<and> hash_ok te x T)) (\<lambda>_ _. True) s"
    unfolding manifestHashOrNull_def wp_simps
    by (rule wp_exists) (auto simp: wp_return hash_ok_def manifest_of_def intro!: wp_build)
  ultimately show ?thesis by (rule wp_mono [OF wp_keeps]) auto
qed

lemma wp_load_same: "wp (load_index env a) (\<lambda>_. files_same s) (\<lambda>_. files_same s) s"
proof -
  have "keeps files_same (load_index env a)" unfolding load_index_def by (intro files.frame_intros)
  then show ?thesis by (rule wp_only_keeps)
qed

lemma databaseCommitted_head:
  "databaseCommitted (Some v) head j \<Longrightarrow> head_committed (Inr head) j"
  by (auto simp: databaseCommitted_def head_committed_def split: option.splits)

definition decided :: "recovery_env \<Rightarrow> fs_node \<Rightarrow> string \<Rightarrow> journal \<Rightarrow> recovery_action \<Rightarrow> 'r control_scheme \<Rightarrow> bool" where
  "decided env B p j a s \<longleftrightarrow>
     ra_action a = Rolled_Back_Run \<and> restored (rc_tx env) B p j s \<or>
     ra_action a = Manual_Intervention \<and> still_safe (rc_tx env) B p j s \<or>
     ra_action a = Acknowledged_Run \<and> (\<exists>T. committed env j T s)"

definition undecided :: "recovery_env \<Rightarrow> fs_node \<Rightarrow> string \<Rightarrow> journal \<Rightarrow> 'r control_scheme \<Rightarrow> bool" where
  "undecided env B p j s \<longleftrightarrow> still_safe (rc_tx env) B p j s \<or> (\<exists>T. committed env j T s)"

lemma wp_swapping:
  assumes j: "settleable env j" and rec: "recoverable (rc_tx env) B j s" and "c_journals s p = Some j" and "store_fine env j s"
  shows "wp (settle_swapping env p j)
    (decided env B p j)
    (\<lambda>_. undecided env B p j) s"
proof -
  have fine: "recoverable (rc_tx env) B j s' \<and> c_journals s' p = Some j \<and> store_fine env j s'"
    if "files_same s s'" for s' :: "'a receipt_world_scheme"
    using that assms files_store [OF that] by (auto simp: files_same_def recoverable_def held_def split: journal_state.splits)
  have safe: "undecided env B p j s'" if "files_same s s'" for s' :: "'a receipt_world_scheme"
    using fine [OF that] by (simp add: still_safe_def undecided_def)
  show ?thesis unfolding settle_swapping_def wp_bind [of "manifestHashOrNull _ _"] wp_bind [of "tx_res _"] wp_bind [of "load_index _ _"] wp_res
  proof (rule wp_mono [OF wp_hash], goal_cases)
    case (2 e s1)
    then show ?case using safe by blast
  next
    case (1 h s1)
    show ?case
    proof (cases "rc_databaseHead env (jn_agentId j)")
      case (Inl e)
      then show ?thesis using 1 safe by simp
    next
      case (Inr head)
      have "wp (case staged_version vi j of
           Some v \<Rightarrow>
             if jn_state j = PROMOTED_PENDING_DB \<and> databaseCommitted (Some v) head j \<and> h = Some (jn_targetHash j)
             then settle_committed env p j vi v
             else settle_uncommitted env p j h
         | None \<Rightarrow> settle_uncommitted env p j h)
         (decided env B p j)
         (\<lambda>_. undecided env B p j) s2"
        if s2: "files_same s s2" for vi s2
      proof -
        note f = fine [OF s2]
        have un: "wp (settle_uncommitted env p j h)
           (decided env B p j)
           (\<lambda>_. undecided env B p j) s2"
          by (rule wp_mono [OF wp_uncommitted [OF j]]) (use f in \<open>auto simp: decided_def undecided_def\<close>)
        have com: "wp (settle_committed env p j vi v)
           (decided env B p j)
           (\<lambda>_. undecided env B p j) s2"
          if v: "databaseCommitted (Some v) head j" and h: "h = Some (jn_targetHash j)" for v
        proof -
          from 1 h obtain T where "c_dirs s (jn_persistentPath j) = Some T" "hash_ok (rc_tx env) (jn_targetHash j) T" by auto
          then have "committed env j T s2" using databaseCommitted_head [OF v] s2 Inr
            by (simp add: committed_def kept_target_def files_same_def)
          from wp_committed [OF j this conjunct2 [OF conjunct2 [OF f]]] show ?thesis by (rule wp_mono) (auto simp: decided_def undecided_def)
        qed
        show ?thesis using un com by (auto split: option.splits)
      qed
      moreover have "files_same s s2" if "files_same s1 s2" for s2 using 1 that by (blast intro: files.trans)
      ultimately show ?thesis using Inr safe by (simp, intro wp_mono [OF wp_load_same]) blast+
    qed
  qed
qed

end
