(* ===== verification/Recovery_Runs.thy ===== *)
theory Recovery_Runs
  imports Recovery_Facts
begin

text \<open>
  Recovery when its inputs and outputs work: every operation it calls returns, so the journal is
  settled in one pass.
\<close>

subsection \<open>Receipts\<close>

text \<open>A receipt is stored under its own run.\<close>

definition keyed :: "'r receipt_world_scheme \<Rightarrow> bool" where
  "keyed s \<longleftrightarrow> (\<forall>k r. rw_receipts s k = Some r \<longrightarrow> k = (gr_agentId r, gr_runId r))"

lemma get_works:
  "c_faults s = [] \<Longrightarrow> receipt_key a r = Inr k \<Longrightarrow> receipt_get a r s = (Inr (rw_receipts s k), s)"
  by (simp add: receipt_get_def bindS_res_Inr bindS_works [OF io_works] getS_def)

lemma receipt_key_Inr: "receipt_key a r = Inr k \<longleftrightarrow>
    assertSafeIdentifier a ''agentId'' = Inr () \<and> assertSafeIdentifier r ''runId'' = Inr () \<and> k = (a, r)"
  by (auto simp: receipt_key_def bindE_eq_Inr)

lemma append_works:
  assumes "c_faults s = []" and "receipt_key (rn_agentId i) (rn_runId i) = Inr k"
  shows "\<exists>e s'. appendRecoveryEvent uuid now i s = (Inr e, s') \<and> c_faults s' = [] \<and> rw_receipts s' = rw_receipts s"
proof -
  have "bindS (listRecoveryEvents (rn_agentId i) (rn_runId i)) f s = f (rw_recoveryEvents s k) s" for f :: "_ \<Rightarrow> ('a, recovery_event) receipt_op"
    by (simp add: listRecoveryEvents_def assms bindS_res_Inr bindS_assoc bindS_works [OF io_works] bindS_getS)
  then show ?thesis unfolding appendRecoveryEvent_def
    by (cases "List.find (same_recovery i) (rw_recoveryEvents s k)")
      (auto simp: Let_def returnS_def bindS_works [OF io_works] assms)
qed

lemma put_works:
  assumes "c_faults s = []" and "receipt_key (gr_agentId r) (gr_runId r) = Inr k"
    and "\<And>e. rw_receipts s k = Some e \<Longrightarrow> gr_phase e \<noteq> TERMINAL"
  shows "\<exists>s'. receipt_put vs r s = (Inr (), s') \<and> c_faults s' = []"
  using assms unfolding receipt_put_def
  by (auto simp: bindS_works [OF get_works] bindS_res_Inr Let_def io_works split: option.splits)

lemma mark_works:
  assumes "c_faults s = []" and key: "receipt_key a r = Inr k" and "keyed s"
  shows "\<exists>s'. markReceiptRolledBack env a r h s = (Inr (), s') \<and> c_faults s' = []"
proof -
  let ?i = "\<lparr>rn_agentId = a, rn_runId = r, rn_type = RECOVERY_ROLLED_BACK,
      rn_originalDecision = map_option gr_decision (rw_receipts s k), rn_effectiveDecision = ABORTED,
      rn_reasonCode = ''STARTUP_RECOVERY_ROLLBACK'', rn_finalSnapshotHash = h, rn_threadDisposition = ''reset''\<rparr>"
  obtain e s1 where s1: "appendRecoveryEvent (rc_uuid env r) (rc_now env) ?i s = (Inr e, s1)" "c_faults s1 = []"
    "rw_receipts s1 = rw_receipts s"
    using append_works [OF assms(1), of ?i k "rc_uuid env r" "rc_now env"] key by auto
  have "\<exists>s'. receipt_put [] (rolled_back_receipt h (rc_now env) x) s1 = (Inr (), s') \<and> c_faults s' = []"
    if "rw_receipts s k = Some x" "gr_phase x \<noteq> TERMINAL" for x
  proof (rule put_works [OF s1(2)])
    have "k = (gr_agentId x, gr_runId x)" using assms(3) that unfolding keyed_def by blast
    then show "receipt_key (gr_agentId (rolled_back_receipt h (rc_now env) x)) (gr_runId (rolled_back_receipt h (rc_now env) x)) = Inr k"
      using key by (simp add: receipt_key_Inr rolled_back_receipt_def)
  qed (use that s1 in auto)
  with s1 show ?thesis unfolding markReceiptRolledBack_def
    by (auto simp: bindS_works get_works [OF assms(1) key] returnS_def split: option.splits)
qed

subsection \<open>The version store\<close>

lemma load_works:
  "c_faults s = [] \<Longrightarrow> agentRoot env a = Inr root \<Longrightarrow>
     load_index env a s = (Inr (case vw_indexes s a of None \<Rightarrow> empty_index a | Some vi \<Rightarrow> vi), s)"
  by (simp add: load_index_def bindS_res_Inr bindS_works [OF io_works] bindS_getS returnS_def)

definition went :: "'r receipt_world_scheme \<Rightarrow> ('r receipt_world_scheme, tx_error, 'a) eff \<Rightarrow> ('a \<Rightarrow> bool) \<Rightarrow> bool" where
  "went s m P \<longleftrightarrow> (\<exists>x s'. m s = (Inr x, s') \<and> P x \<and> c_faults s' = [] \<and> rw_receipts s' = rw_receipts s)"

lemma went_bind:
  assumes "went s m P" and "\<And>x s'. P x \<Longrightarrow> c_faults s' = [] \<Longrightarrow> went s' (f x) R"
  shows "went s (bindS m f) R"
proof -
  obtain x s1 where s1: "m s = (Inr x, s1)" "P x" "c_faults s1 = []" "rw_receipts s1 = rw_receipts s"
    using assms(1) by (auto simp: went_def)
  from assms(2) [OF s1(2,3)] obtain y s2 where "f x s1 = (Inr y, s2)" "R y" "c_faults s2 = []" "rw_receipts s2 = rw_receipts s1"
    by (auto simp: went_def)
  with s1 show ?thesis by (simp add: went_def bindS_works)
qed

lemma went_return: "c_faults s = [] \<Longrightarrow> P x \<Longrightarrow> went s (returnS x) P"
  by (simp add: went_def returnS_def)

lemma went_io: "c_faults s = [] \<Longrightarrow> c_faults (f s) = [] \<Longrightarrow> rw_receipts (f s) = rw_receipts s \<Longrightarrow> went s (io f p) (\<lambda>_. True)"
  by (simp add: went_def io_works)

lemma went_rm: "c_faults s = [] \<Longrightarrow> went s (rm_dir p) (\<lambda>_. True)"
  unfolding rm_dir_def by (rule went_io) simp_all

lemma went_rm_quiet: "c_faults s = [] \<Longrightarrow> went s (rm_quiet ps) (\<lambda>_. True)"
proof (induction ps arbitrary: s)
  case (Cons p ps)
  have "went s (catchS (rm_dir p) (\<lambda>_. returnS ())) (\<lambda>_. True)"
    using went_rm [OF Cons.prems, of p] by (auto simp: went_def catchS_def)
  then show ?case unfolding rm_quiet.simps by (rule went_bind) (rule Cons.IH)
qed (simp add: went_return)

lemma went_persist:
  assumes "c_faults s = []" and "agentRoot env (vi_agentId vi) = Inr root"
  shows "went s (persist_index env vi) (\<lambda>_. True)"
  unfolding persist_index_def assms(2) bindS_res_Inr
  by (rule went_bind, rule went_io) (simp_all add: assms went_io)

lemma prune_loop_agent: "prune_loop env prot ss av b vi ps = (vi', ps') \<Longrightarrow> vi_agentId vi' = vi_agentId vi"
proof (induction env prot ss av b vi ps rule: prune_loop.induct)
  case (2 env prot s ss av b vi ps)
  then show ?case by (auto split: if_splits simp: mark_pruned_def Let_def)
qed simp

lemma prune_index_agent: "prune_index env vi = (vi', ps) \<Longrightarrow> vi_agentId vi' = vi_agentId vi"
  by (auto simp: prune_index_def Let_def dest: prune_loop_agent split: if_splits)

lemma went_prune:
  assumes "c_faults s = []" and "agentRoot env (vi_agentId vi) = Inr root"
  shows "went s (prune env vi) (\<lambda>vi'. vi_agentId vi' = vi_agentId vi)"
proof -
  obtain vi' payloads where pr: "prune_index env vi = (vi', payloads)" by (cases "prune_index env vi")
  note agent = prune_index_agent [OF pr]
  show ?thesis unfolding prune_def assms(2) bindS_res_Inr pr Let_def prod.case
  proof (rule went_bind [OF went_rm_quiet [OF assms(1)]])
    fix s1 :: "'a receipt_world_scheme" assume s1: "c_faults s1 = []"
    have "went s1 (bindS (persist_index env vi') (\<lambda>_. bindS (rm_quiet (map (payload_path root) payloads)) (\<lambda>_. returnS vi')))
        (\<lambda>vi'. vi_agentId vi' = vi_agentId vi)"
      by (intro went_bind [OF went_persist [OF s1]] went_bind [OF went_rm_quiet] went_return) (simp_all add: agent assms(2))
    then show "went s1 (if payloads = [] then returnS vi'
        else bindS (persist_index env vi') (\<lambda>_. bindS (rm_quiet (map (payload_path root) payloads)) (\<lambda>_. returnS vi')))
        (\<lambda>vi'. vi_agentId vi' = vi_agentId vi)"
      using s1 agent by (simp add: went_return)
  qed
qed

lemma went_load:
  assumes "c_faults s = []" and "agentRoot env a = Inr root" and "store_ok env a s"
  shows "went s (load_index env a) (\<lambda>vi. vi_agentId vi = a)"
  using assms(3) load_works [OF assms(1,2)] assms(1)
  by (auto simp: went_def store_ok_def empty_index_def split: option.splits)

lemma revert_works:
  assumes "c_faults s = []" and root: "agentRoot env a = Inr root" and "store_ok env a s"
  shows "went s (revertRunVersion env a r) (\<lambda>_. True)"
  unfolding revertRunVersion_def
proof (rule went_bind [OF went_load [OF assms]])
  fix vi :: version_index and s1 :: "'a receipt_world_scheme"
  assume vi: "vi_agentId vi = a" and s1: "c_faults s1 = []"
  have "went s1 (bindS (prune env (drop_version head vi)) (\<lambda>vi'. bindS (persist_index env vi') (\<lambda>_. returnS True))) (\<lambda>_. True)" for head
    by (intro went_bind [OF went_prune [OF s1]] went_bind [OF went_persist] went_return)
      (use vi root in \<open>simp_all add: drop_version_def\<close>)
  then show "went s1 (case find_version vi (vi_headVersionId vi) of
      None \<Rightarrow> returnS False
    | Some head \<Rightarrow>
        if ve_runId head \<noteq> Some r \<or> ve_kind head = INITIAL then returnS False
        else bindS (prune env (drop_version head vi)) (\<lambda>vi'. bindS (persist_index env vi') (\<lambda>_. returnS True))) (\<lambda>_. True)"
    using s1 by (auto simp: went_return split: option.splits)
qed

lemma release_works:
  assumes "c_faults s = []" and root: "agentRoot env a = Inr root" and "store_ok env a s"
  shows "went s (releaseRetention env a) (\<lambda>_. True)"
  unfolding releaseRetention_def
  by (intro went_bind [OF went_load [OF assms]] went_bind [OF went_prune] went_persist) (use root in simp_all)

subsection \<open>The transaction\<close>

text \<open>Operations that use up no more than the faults there are, and leave the receipts alone.\<close>

definition quiet :: "'r receipt_world_scheme \<Rightarrow> 'r receipt_world_scheme \<Rightarrow> bool" where
  "quiet s s' \<longleftrightarrow> (c_faults s = [] \<longrightarrow> c_faults s' = []) \<and> rw_receipts s' = rw_receipts s"

interpretation quiet: preorder_rel quiet
  by unfold_locales (simp_all add: quiet_def)

lemma quiet_io:
  assumes "\<And>s. c_faults (f s) = c_faults s" "\<And>s. rw_receipts (f s) = rw_receipts s"
    and "\<And>t s. rw_receipts (partial t s) = rw_receipts s"
  shows "keeps quiet (io f partial)"
  by (rule keepsI) (simp add: io_def quiet_def assms split: list.splits fault.splits)

lemma quiet_option: "keeps quiet m \<Longrightarrow> (\<And>x. keeps quiet (f x)) \<Longrightarrow> keeps quiet (case v of None \<Rightarrow> m | Some x \<Rightarrow> f x)"
  by (simp split: option.splits)

lemma quiet_look: "keeps quiet look"
  by (rule quiet_io) simp_all

lemma quiet_exists: "keeps quiet (pathExists p)"
  unfolding pathExists_def by (intro quiet.keeps_intros quiet_look)

lemma quiet_rm: "keeps quiet (rm_dir p)"
  unfolding rm_dir_def by (rule quiet_io) simp_all

lemma quiet_rename: "keeps quiet (rename_dir p q)"
  unfolding rename_dir_def by (intro quiet.keeps_intros quiet_io) simp_all

lemma quiet_build: "keeps quiet (build_at e p)"
  unfolding build_at_def by (intro quiet.keeps_intros quiet_look quiet_option)

lemma quiet_update: "keeps quiet (updateJournal p j st now)"
  unfolding updateJournal_def write_journal_def Let_def by (intro quiet.keeps_intros quiet_io) simp_all

lemma quiet_rollback: "keeps quiet (rollbackJournal te j p)"
  unfolding rollbackJournal_def set_aside_def
  by (intro quiet.keeps_intros quiet_look quiet_exists quiet_rm quiet_rename quiet_build quiet_update)

subsection \<open>A swapping journal is rolled back\<close>

definition store_usable :: "recovery_env \<Rightarrow> journal \<Rightarrow> 'r receipt_world_scheme \<Rightarrow> bool" where
  "store_usable env j s \<longleftrightarrow> c_faults s = [] \<and> keyed s \<and> store_fine env j s \<and>
     assertSafeIdentifier (jn_agentId j) ''agentId'' = Inr () \<and> assertSafeIdentifier (jn_runId j) ''runId'' = Inr ()"

lemma store_usableD:
  assumes "store_usable env j s"
  shows "c_faults s = []" "keyed s" "store_fine env j s" "agentRoot (rc_vs env) (jn_agentId j) = Inr (root_of (rc_vs env) (jn_agentId j))"
    "receipt_key (jn_agentId j) (jn_runId j) = Inr (jn_agentId j, jn_runId j)"
  using assms by (simp_all add: store_usable_def agentRoot_Inr receipt_key_Inr)

lemma tail_works:
  assumes "store_usable env j s"
  shows "\<exists>s'. bindS (revertRunVersion (rc_vs env) (jn_agentId j) (jn_runId j)) (\<lambda>_.
      bindS (markReceiptRolledBack env (jn_agentId j) (jn_runId j) h) (\<lambda>_. returnS a)) s = (Inr a, s')"
proof -
  note s = store_usableD [OF assms]
  from revert_works [OF s(1,4,3)] obtain x s1 where
    s1: "revertRunVersion (rc_vs env) (jn_agentId j) (jn_runId j) s = (Inr x, s1)" "c_faults s1 = []" "rw_receipts s1 = rw_receipts s"
    unfolding went_def by blast
  then have "keyed s1" using s(2) by (simp add: keyed_def)
  from mark_works [OF s1(2) s(5) this, of env h] s1 show ?thesis by (auto simp: bindS_works returnS_def)
qed

lemma usable_after:
  assumes "store_usable env j s" and "quiet s s'" and "snap_same (snapshot_paths (root_of (rc_vs env) (jn_agentId j))) s s'"
  shows "store_usable env j s'"
  using assms snap_same_store [OF assms(3)] by (auto simp: store_usable_def quiet_def keyed_def)

lemma from_backup_works:
  assumes j: "settleable env j" and "recoverable (rc_tx env) B j s" and u: "store_usable env j s"
    and "c_dirs s (journal_failed_path (rc_tx env) j) = None"
  shows "\<exists>a s'. settle_from_backup env p j s = (Inr a, s') \<and> ra_action a = Rolled_Back_Run"
proof -
  from j have parts: "apart_journal (rc_tx env) j" "swapping j" "jn_ok (root_of (rc_vs env) (jn_agentId j)) j"
    by (simp_all add: settleable_def)
  from rollback_runs [OF parts(1,2) assms(2) store_usableD(1) [OF u] assms(4)] obtain s1 where
    s1: "rollbackJournal (rc_tx env) j p s = (Inr (), s1)" by blast
  from usable_after [OF u keepsD [OF quiet_rollback s1] keepsD [OF snap_rollback_journal [OF parts(3)] s1]]
  have "store_usable env j s1" .
  from tail_works [OF this] s1 show ?thesis
    unfolding settle_from_backup_def by (fastforce simp: bindS_works action_def)
qed

lemma at_base_works:
  assumes u: "store_usable env j s"
  shows "\<exists>a s'. settle_at_base env p j s = (Inr a, s') \<and> ra_action a = Rolled_Back_Run"
proof -
  obtain s1 j1 where s1: "updateJournal p j ROLLED_BACK (rc_now env) s = (Inr j1, s1)"
    using store_usableD(1) [OF u] by (simp add: updateJournal_def write_journal_def Let_def bindS_works [OF io_works] returnS_def)
  from usable_after [OF u keepsD [OF quiet_update s1] keepsD [OF snap_update s1]] have "store_usable env j s1" .
  from tail_works [OF this] s1 show ?thesis
    unfolding settle_at_base_def by (fastforce simp: bindS_works action_def)
qed

text \<open>The workspace, if there is one, can be walked.\<close>

definition walkable :: "tx_env \<Rightarrow> string \<Rightarrow> 'r control_scheme \<Rightarrow> bool" where
  "walkable te q s \<longleftrightarrow> (\<forall>t. c_dirs s q = Some t \<longrightarrow> (\<exists>m. manifest_of te authoritative t = Inr m))"

lemma hash_works:
  assumes "c_faults s = []" and "walkable te q s"
  shows "\<exists>h. manifestHashOrNull te q s = (Inr h, s) \<and> (\<forall>t x. c_dirs s q = Some t \<longrightarrow> hash_ok te x t \<longrightarrow> h = Some x)"
proof (cases "c_dirs s q")
  case None
  then show ?thesis using assms(1) by (simp add: manifestHashOrNull_def exists_works returnS_def)
next
  case (Some t)
  with assms(2) obtain m where m: "buildManifest ((te_walk te)\<lparr>we_include := authoritative\<rparr>) t = Inr m"
    by (auto simp: walkable_def manifest_of_def)
  show ?thesis using Some m assms(1)
    by (auto simp: manifestHashOrNull_def exists_works bindS_works build_works [OF _ Some m] returnS_def hash_ok_def manifest_of_def)
qed

lemma swapping_works:
  assumes j: "settleable env j" and rec: "recoverable (rc_tx env) B j s" and u: "store_usable env j s"
    and "c_dirs s (journal_failed_path (rc_tx env) j) = None" and w: "walkable (rc_tx env) (jn_persistentPath j) s"
    and head: "rc_databaseHead env (jn_agentId j) = Inr head" "\<not> head_committed (Inr head) j"
  shows "\<exists>a s'. settle_swapping env p j s = (Inr a, s') \<and> ra_action a = Rolled_Back_Run"
proof -
  note us = store_usableD [OF u]
  from hash_works [OF us(1) w] obtain h where h: "manifestHashOrNull (rc_tx env) (jn_persistentPath j) s = (Inr h, s)"
    "\<forall>t x. c_dirs s (jn_persistentPath j) = Some t \<longrightarrow> hash_ok (rc_tx env) x t \<longrightarrow> h = Some x" by blast
  have un: "\<exists>a s'. settle_uncommitted env p j h s = (Inr a, s') \<and> ra_action a = Rolled_Back_Run"
  proof (cases "c_dirs s (jn_backupPath j)")
    case (Some t)
    with from_backup_works [OF j rec u assms(4)] show ?thesis
      by (simp add: settle_uncommitted_def exists_works us(1))
  next
    case None
    have sw: "swapping j" using j by (simp add: settleable_def)
    from rec None have "c_dirs s (jn_persistentPath j) = Some B" "hash_ok (rc_tx env) (jn_baseHash j) B"
      by (auto simp: swapping_recoverable [OF sw] held_def)
    with h(2) have "h = Some (jn_baseHash j)" by blast
    with None at_base_works [OF u] show ?thesis
      by (simp add: settle_uncommitted_def exists_works us(1))
  qed
  have "\<not> databaseCommitted (Some v) head j" for v using databaseCommitted_head head(2) by blast
  then have "(case staged_version vi j of
      Some v \<Rightarrow> if jn_state j = PROMOTED_PENDING_DB \<and> databaseCommitted (Some v) head j \<and> h = Some (jn_targetHash j)
        then settle_committed env p j vi v else settle_uncommitted env p j h
    | None \<Rightarrow> settle_uncommitted env p j h) s = settle_uncommitted env p j h s" for vi
    by (simp split: option.splits)
  with un show ?thesis
    unfolding settle_swapping_def head(1)
    by (simp add: bindS_works h(1) bindS_res_Inr load_works [OF us(1,4)])
qed

end
