(* ===== verification/Version_Calls.thy ===== *)
theory Version_Calls
  imports Version_Ops Tx_Props
begin

text \<open>
  The version store over any sequence of calls with restarts in between, and pruning.
\<close>

subsection \<open>Sequences of calls\<close>

datatype store_call =
    InitializeAgent string
  | RecordCommit string string commit_options
  | RevertRun string
  | ReleaseRetention
  | StageRollback rollback_version_input
  | AcknowledgeRollback string
  | RollbackPending string
  | RollbackVersion rollback_version_input
  | Restart "fault list"

text \<open>A call with its environment leaves a state, whatever it returns; a restart forgets what is pending.\<close>

fun run_call :: "string \<Rightarrow> vs_env \<times> store_call \<Rightarrow> 'r version_world_scheme \<Rightarrow> 'r version_world_scheme" where
  "run_call a (env, InitializeAgent w) s = snd (initializeAgent env a w s)"
| "run_call a (env, RecordCommit w r opts) s = snd (recordCommit env a w r opts s)"
| "run_call a (env, RevertRun r) s = snd (revertRunVersion env a r s)"
| "run_call a (env, ReleaseRetention) s = snd (releaseRetention env a s)"
| "run_call a (env, StageRollback i) s = snd (stageRollback env i s)"
| "run_call a (env, AcknowledgeRollback r) s = snd (acknowledgeRollback env r s)"
| "run_call a (env, RollbackPending r) s = snd (rollbackPendingRollback env r s)"
| "run_call a (env, RollbackVersion i) s = snd (rollback_version env i s)"
| "run_call a (env, Restart fs) s = s\<lparr>vw_pending := Map.empty, c_faults := fs\<rparr>"

fun call_fits :: "string \<Rightarrow> string \<Rightarrow> store_call \<Rightarrow> bool" where
  "call_fits ctl a (StageRollback i) \<longleftrightarrow> rv_agentId i = a \<and> \<not> contained ctl (rv_workspacePath i)"
| "call_fits ctl a (RollbackVersion i) \<longleftrightarrow> rv_agentId i = a \<and> \<not> contained ctl (rv_workspacePath i)"
| "call_fits ctl a _ \<longleftrightarrow> True"

definition run_calls :: "string \<Rightarrow> (vs_env \<times> store_call) list \<Rightarrow> 'r version_world_scheme \<Rightarrow> 'r version_world_scheme" where
  "run_calls a calls s = foldl (\<lambda>s c. run_call a c s) s calls"

lemma sound_snd: "sound env a m \<Longrightarrow> world_ok env a s \<Longrightarrow> world_ok env a (snd (m s))"
  by (drule (1) soundD) (auto simp: wp_def split: prod.splits sum.splits)

lemma outside_snapshots: "\<not> contained (vs_controlRoot env) w \<Longrightarrow> w \<notin> snapshot_paths (root_of env a)"
  by (auto simp: snapshot_paths_def root_of_def contained_def starts_with_iff)

lemma run_call_ok:
  assumes "world_ok env a s" and "call_fits (vs_controlRoot env) a c"
  shows "world_ok env a (run_call a (env, c) s)"
proof (cases c)
  case (Restart fs)
  then show ?thesis using assms(1)
    by (simp add: world_ok_def store_ok_def calm_def payloads_ok_def split: option.splits)
qed (use assms in \<open>auto intro!: sound_snd sound_initialize sound_commit sound_revert sound_release sound_stage
    sound_acknowledge sound_undo sound_rollback_version outside_snapshots\<close>)

lemma world_ok_env:
  assumes "vs_controlRoot env = vs_controlRoot env'"
  shows "world_ok env a = world_ok env' a"
proof -
  have "root_of env a = root_of env' a" using assms by (simp add: root_of_def)
  then show ?thesis by (intro ext) (simp add: world_ok_def store_ok_def calm_def cong: option.case_cong)
qed

lemma run_calls_ok:
  assumes "world_ok env a s" and "\<forall>(e, c) \<in> set calls. vs_controlRoot e = vs_controlRoot env \<and> call_fits (vs_controlRoot env) a c"
  shows "world_ok env a (run_calls a calls s)"
  using assms
proof (induction calls arbitrary: s)
  case (Cons ec calls)
  obtain e c where ec: "ec = (e, c)" by (cases ec)
  with Cons.prems have "world_ok e a s" by (auto simp: world_ok_env [of e env])
  with Cons.prems(2) ec have "world_ok e a (run_call a (e, c) s)" by (intro run_call_ok) auto
  then have "world_ok env a (run_call a (e, c) s)" using Cons.prems(2) ec by (auto simp: world_ok_env [of e env])
  with Cons ec show ?case by (simp add: run_calls_def)
qed (simp add: run_calls_def)

definition fresh_world :: "'r version_world_scheme \<Rightarrow> bool" where
  "fresh_world s \<longleftrightarrow> vw_indexes s = Map.empty \<and> c_journals s = Map.empty \<and> vw_pending s = Map.empty"

text \<open>C8: The version store keeps its index. After any calls for an agent, each with any inputs and outputs
  failing or stopping and restarts in between, the stored index is a chain of versions numbered from
  one with the last as head, its counts are the numbers of versions that name a snapshot, a version
  is available exactly when its snapshot is not pruned, and every snapshot that is not pruned has
  its payload directory.\<close>

theorem store_calls_keep_index:
  assumes "fresh_world s" and "\<forall>(env, c) \<in> set calls. vs_controlRoot env = ctl \<and> call_fits ctl a c"
    and "vw_indexes (run_calls a calls s) a = Some vi"
  shows "index_ok vi \<and> vi_agentId vi = a \<and>
    (\<forall>sn \<in> set (vi_snapshots vi). sn_prunedAt sn = None \<longrightarrow>
      c_dirs (run_calls a calls s) (ctl @ ''/'' @ a @ ''/snapshots/'' @ sn_hash sn) \<noteq> None)"
proof -
  obtain env :: vs_env where env: "vs_controlRoot env = ctl" by (meson vs_env.select_convs(3))
  have "world_ok env a s" using assms(1) by (simp add: world_ok_def fresh_world_def store_ok_def calm_def)
  from run_calls_ok [OF this] assms(2) env have "store_ok env a (run_calls a calls s)" by (simp add: world_ok_def)
  with assms(3) have vi: "index_ok vi" "vi_agentId vi = a" "payloads_ok (root_of env a) vi (run_calls a calls s)"
    by (auto simp: store_ok_def)
  then show ?thesis using payload_path_snapshot [OF vi(1)] env
    by (auto simp: payloads_ok_def unpruned_def root_of_def)
qed


definition ex_vs :: vs_env where
  "ex_vs = \<lparr>vs_tx = ex_tx, vs_le = ex_le, vs_controlRoot = ''/ctl'', vs_maxUniqueSnapshots = 1, vs_maxPayloadBytes = 9,
     vs_uuid = ''u'', vs_permitUuid = ''p'', vs_nonce = ''n'', vs_clock = 0\<rparr>"

definition ex_version_world :: version_world where
  "ex_version_world = \<lparr>c_dirs = [''/ws'' \<mapsto> ex_old], c_journals = Map.empty, c_faults = [Works, Works],
     vw_indexes = Map.empty, vw_permits = ex_rollback_store, vw_pending = Map.empty\<rparr>"

definition ex_calls :: "(vs_env \<times> store_call) list" where
  "ex_calls = [(ex_vs, InitializeAgent ''/ws''), (ex_vs, Restart [Works, Stops None]),
     (ex_vs, RecordCommit ''/ws'' ''run'' \<lparr>co_deferPrune = False, co_sourcePath = None, co_sourceManifest = None\<rparr>),
     (ex_vs, Restart []),
     (ex_vs, RecordCommit ''/ws'' ''run'' \<lparr>co_deferPrune = False, co_sourcePath = None, co_sourceManifest = None\<rparr>)]"

theorem store_calls_keep_index_witness:
  "\<exists>vi. vw_indexes (run_calls ''agent'' ex_calls ex_version_world) ''agent'' = Some vi \<and> length (vi_versions vi) = 2 \<and> index_ok vi"
proof -
  have "(case vw_indexes (run_calls ''agent'' ex_calls ex_version_world) ''agent'' of None \<Rightarrow> False
    | Some vi \<Rightarrow> length (vi_versions vi) = 2)" by code_simp
  then obtain vi where vi: "vw_indexes (run_calls ''agent'' ex_calls ex_version_world) ''agent'' = Some vi"
    "length (vi_versions vi) = 2" by (auto split: option.splits)
  have "fresh_world ex_version_world" by (simp add: fresh_world_def ex_version_world_def)
  moreover have "\<forall>(env, c) \<in> set ex_calls. vs_controlRoot env = ''/ctl'' \<and> call_fits ''/ctl'' ''agent'' c"
    by (simp add: ex_calls_def ex_vs_def)
  ultimately have "index_ok vi" using store_calls_keep_index vi(1) by blast
  with vi show ?thesis by blast
qed

subsection \<open>Pruning\<close>

text \<open>C9: Pruning keeps its limits and what is protected. Of a well-formed index it leaves snapshots
  within both limits, or only the ones of the initial version and the head; those two are never
  pruned, nothing pruned comes back, the payloads to delete are those of pruned snapshots, and the
  index stays well formed.\<close>

theorem prune_keeps_protected:
  assumes "prune_index env vi = (vi', payloads)" and "index_ok vi"
  shows "(int (length (unpruned vi')) \<le> vs_maxUniqueSnapshots env \<and> total_bytes (unpruned vi') \<le> vs_maxPayloadBytes env \<or>
       (\<forall>sn \<in> set (unpruned vi'). sn_hash sn \<in> set (protected_hashes vi))) \<and>
     (\<forall>sn \<in> set (unpruned vi). sn_hash sn \<in> set (protected_hashes vi) \<longrightarrow> sn \<in> set (unpruned vi')) \<and>
     set (unpruned vi') \<subseteq> set (unpruned vi) \<and>
     (\<forall>p \<in> set payloads. \<exists>sn \<in> set (vi_snapshots vi'). sn_relativePath sn = p \<and> sn_prunedAt sn \<noteq> None) \<and>
     index_ok vi'"
proof -
  note spec = prune_index_spec [OF assms]
  have "\<exists>sn \<in> set (vi_snapshots vi'). sn_relativePath sn = p \<and> sn_prunedAt sn \<noteq> None" if "p \<in> set payloads" for p
    using spec(3) that by (force simp: pruned_paths_def)
  with spec(1,4,5) spec(6) [unfolded within_limits_def] show ?thesis by blast
qed

definition ex_snapshot :: "string \<Rightarrow> snapshot_record" where
  "ex_snapshot h = \<lparr>sn_hash = h, sn_relativePath = ''snapshots/'' @ h, sn_sizeBytes = 4, sn_refCount = 1, sn_createdAt = h,
     sn_prunedAt = None\<rparr>"

definition ex_version :: "int \<Rightarrow> string \<Rightarrow> string option \<Rightarrow> version_record" where
  "ex_version n h parent = \<lparr>ve_id = ''v'' @ int_text n @ ''-'' @ h, ve_agentId = ''agent'', ve_sequence = n,
     ve_kind = (if parent = None then INITIAL else AGENT_COMMIT), ve_snapshotHash = h, ve_policyHash = [], ve_parentVersionId = parent,
     ve_rollbackTargetVersionId = None, ve_runId = None, ve_createdAt = [], ve_snapshotAvailable = True\<rparr>"

definition ex_index :: version_index where
  "ex_index = \<lparr>vi_schemaVersion = 1, vi_agentId = ''agent'', vi_headVersionId = Some ''v3-c'',
     vi_versions = [ex_version 1 ''a'' None, ex_version 2 ''b'' (Some ''v1-a''), ex_version 3 ''c'' (Some ''v2-b'')],
     vi_snapshots = [ex_snapshot ''a'', ex_snapshot ''b'', ex_snapshot ''c'']\<rparr>"

theorem prune_keeps_protected_witness:
  "map sn_hash (unpruned (fst (prune_index ex_vs ex_index))) = [''a'', ''c''] \<and>
   snd (prune_index ex_vs ex_index) = [''snapshots/b''] \<and> index_ok (fst (prune_index ex_vs ex_index))"
proof -
  have ids: "ve_id (ex_version 1 ''a'' None) = ''v1-a''" "ve_id (ex_version 2 ''b'' (Some ''v1-a'')) = ''v2-b''"
    "ve_id (ex_version 3 ''c'' (Some ''v2-b'')) = ''v3-c''"
    by code_simp+
  have texts: "int_text 1 = ''1''" "int_text 2 = ''2''" "int_text 3 = ''3''" by code_simp+
  have "index_ok ex_index"
    unfolding index_ok_def
    by (simp add: ex_index_def last_id_def ids, simp add: ex_version_def ex_snapshot_def counted_def references_def texts)
  moreover have "map sn_hash (unpruned (fst (prune_index ex_vs ex_index))) = [''a'', ''c''] \<and>
     snd (prune_index ex_vs ex_index) = [''snapshots/b'']"
    by code_simp
  moreover have "prune_index ex_vs ex_index = (fst (prune_index ex_vs ex_index), snd (prune_index ex_vs ex_index))" by simp
  ultimately show ?thesis using prune_keeps_protected by blast
qed

end
