(* ===== verification/Receipt_Calls.thy ===== *)
theory Receipt_Calls
  imports Receipt_Store_Facts Tx_Props
begin

text \<open>
  The receipt store over any sequence of calls, startup recoveries among them, with every input
  or output failing or stopping and restarts in between.
\<close>

subsection \<open>Sequences of calls\<close>

datatype receipt_call =
    Put "string list" gate_receipt
  | RecoveryEvent string string recovery_input
  | ReplayEvent string string string string string string
  | Recover recovery_env
  | RestartProcess "fault list"

fun run_receipt_call :: "receipt_call \<Rightarrow> 'r receipt_world_scheme \<Rightarrow> 'r receipt_world_scheme" where
  "run_receipt_call (Put sensitive r) s = snd (receipt_put sensitive r s)"
| "run_receipt_call (RecoveryEvent uuid now i) s = snd (appendRecoveryEvent uuid now i s)"
| "run_receipt_call (ReplayEvent uuid now a r p v) s = snd (appendPermitReplayEvent uuid now a r p v s)"
| "run_receipt_call (Recover env) s = snd (recoverCommitGate env s)"
| "run_receipt_call (RestartProcess fs) s = s\<lparr>vw_pending := Map.empty, c_faults := fs\<rparr>"

definition run_receipt_calls :: "receipt_call list \<Rightarrow> 'r receipt_world_scheme \<Rightarrow> 'r receipt_world_scheme" where
  "run_receipt_calls calls s = foldl (\<lambda>s c. run_receipt_call c s) s calls"

text \<open>What a call puts is redacted with \<open>v\<close>; recovery puts only what it read, patched.\<close>

fun redacts :: "string \<Rightarrow> receipt_call \<Rightarrow> bool" where
  "redacts v (Put sensitive r) \<longleftrightarrow> v \<in> set sensitive"
| "redacts v _ \<longleftrightarrow> True"

lemma receipts_put_any: "\<not> unspoken v \<Longrightarrow> keeps (receipts_kept v) (receipt_put sensitive r)"
  by (rule keeps_wp, rule wp_receipt_put [OF receipts.refl]) simp

lemma keeps_snd: "keeps R m \<Longrightarrow> R s (snd (m s))"
  by (simp add: keeps_def)

lemma receipts_call:
  assumes "redacts v c \<or> \<not> unspoken v"
  shows "receipts_kept v (s :: 'r receipt_world_scheme) (run_receipt_call c s)"
proof (cases c)
  case (Put vs r)
  with assms have "keeps (receipts_kept v) (receipt_put vs r :: ('r, unit) receipt_op)"
    by (metis receipts_put receipts_put_any redacts.simps(1))
  with Put show ?thesis by (simp add: keeps_snd)
next
  case (RestartProcess fs)
  then show ?thesis by (simp add: receipts_other)
qed (simp_all add: keeps_snd receipts_append receipts_replay receipts_recover)

lemma receipts_calls:
  assumes "\<And>c. c \<in> set calls \<Longrightarrow> redacts v c \<or> \<not> unspoken v"
  shows "receipts_kept v s (run_receipt_calls calls s)"
  using assms
proof (induction calls arbitrary: s)
  case (Cons c calls)
  have "receipts_kept v s (run_receipt_call c s)" by (rule receipts_call) (simp add: Cons.prems)
  moreover have "receipts_kept v (run_receipt_call c s) (run_receipt_calls calls (run_receipt_call c s))"
    by (rule Cons.IH) (simp add: Cons.prems)
  ultimately show ?case using receipts.trans by (simp add: run_receipt_calls_def) blast
qed (simp add: run_receipt_calls_def receipts.refl)

subsection \<open>Terminal receipts\<close>

text \<open>C12: A terminal receipt is immutable. After any calls of the receipt store and any startup
  recoveries, whatever fails or stops and with restarts in between, a receipt that was terminal is
  stored unchanged under its run, and putting any other receipt for that run throws
  \<open>TERMINAL_RECEIPT_IMMUTABLE\<close> when the store can be read.\<close>

theorem terminal_receipts_immutable:
  assumes "rw_receipts s (a, i) = Some r" and "gr_phase r = TERMINAL"
  shows "rw_receipts (run_receipt_calls calls s) (a, i) = Some r \<and>
    (gr_agentId r' = a \<longrightarrow> gr_runId r' = i \<longrightarrow> receipt_key a i = Inr (a, i) \<longrightarrow> sanitizeReceipt sensitive r' \<noteq> r \<longrightarrow>
     c_faults (run_receipt_calls calls s) = [] \<longrightarrow>
     fst (receipt_put sensitive r' (run_receipt_calls calls s)) = Inl (TxError (JsError ''TERMINAL_RECEIPT_IMMUTABLE'')))"
proof -
  have "\<not> unspoken []" by (simp add: unspoken_def plain_def)
  then have "receipts_kept [] s (run_receipt_calls calls s)" by (intro receipts_calls) simp
  with assms have kept: "rw_receipts (run_receipt_calls calls s) (a, i) = Some r" by (simp add: receipts_kept_def)
  then show ?thesis using assms(2)
    by (auto simp: receipt_put_def receipt_get_def bindS_def liftS_def mapErr_def io_def getS_def throwS_def)
qed

subsection \<open>Secrets\<close>

text \<open>C13: No named secret enters the receipts. When every receipt is put through a store that was given
  the secret \<open>v\<close>, a text without brackets or line ends that the redaction markers and the
  recovery's reason code do not contain, then after any calls and recoveries, failures and restarts
  no stored receipt shows \<open>v\<close> in a reason, a check's output, a changed path or the provider's
  gateway and models.\<close>

theorem no_secret_in_receipts:
  assumes "plain v" and "\<not> sublist v ''STARTUP_RECOVERY_ROLLBACK''"
    and "\<forall>c \<in> set calls. redacts v c" and "rw_receipts s = Map.empty"
    and "rw_receipts (run_receipt_calls calls s) k = Some r"
  shows "hides v r"
proof -
  have "receipts_kept v s (run_receipt_calls calls s)" using assms(3) by (intro receipts_calls) simp
  moreover have "hidden v s" using assms(4) by (simp add: hidden_def)
  moreover have "unspoken v" using assms(1,2) by (simp add: unspoken_def)
  ultimately have "hidden v (run_receipt_calls calls s)" by (simp add: receipts_kept_def)
  with assms(5) show ?thesis unfolding hidden_def by blast
qed

subsection \<open>Both at an example\<close>

definition ex_receipt :: gate_receipt where
  "ex_receipt = \<lparr>gr_schemaVersion = 2, gr_runId = ''run'', gr_agentId = ''agent'', gr_phase = PENDING_PROMOTION,
     gr_decision = COMMITTED, gr_failureClass = None, gr_reasonCodes = [''pw''], gr_baseSnapshotHash = ''b'',
     gr_candidateSnapshotHash = None, gr_patchHash = None, gr_finalSnapshotHash = ''c'', gr_policyHash = [], gr_policyProfile = None, gr_policyVersion = None, gr_checkSpecHash = None,
     gr_evidence = [], gr_checks = [], gr_changedPaths = [], gr_threadDisposition = ''resumed'',
     gr_candidateCleanup = ''pending'', gr_sessionEpoch = 3, gr_versionId = None, gr_promotionPendingDatabaseAck = True,
     gr_baseView = None, gr_nextView = None, gr_baseViewId = None, gr_finalViewId = None, gr_baseGeneration = None,
     gr_nextGeneration = None, gr_generation = None, gr_proposalId = None, gr_evaluationContextHash = None,
     gr_evidenceDigest = None, gr_permitId = None, gr_permitState = None, gr_transactionStatus = None,
     gr_artifactRetention = None, gr_provider = None,
     gr_startedAt = ''t'', gr_completedAt = ''t''\<rparr>"

definition ex_receipt_world :: receipt_world where
  "ex_receipt_world = \<lparr>c_dirs = Map.empty, c_journals = Map.empty, c_faults = [Works, Works, Works, Stops None],
     vw_indexes = Map.empty, vw_permits = ex_rollback_store, vw_pending = Map.empty,
     rw_receipts = Map.empty, rw_recoveryEvents = (\<lambda>_. []), rw_replayEvents = (\<lambda>_. [])\<rparr>"

definition ex_receipt_calls :: "receipt_call list" where
  "ex_receipt_calls =
     [Put [''pw''] ex_receipt, Put [''pw''] (ex_receipt\<lparr>gr_phase := TERMINAL\<rparr>), RestartProcess [],
      Put [''pw''] (ex_receipt\<lparr>gr_phase := TERMINAL, gr_decision := ABORTED\<rparr>), RestartProcess []]"

lemma ex_redacted: "redactReceiptText 512 [''pw''] ''pw'' = ''[REDACTED]''"
  by code_simp

lemma ex_sanitized:
  "sanitizeReceipt [''pw''] ex_receipt = ex_receipt\<lparr>gr_reasonCodes := [''[REDACTED]'']\<rparr>"
  "sanitizeReceipt vs (r\<lparr>gr_phase := p\<rparr>) = (sanitizeReceipt vs r)\<lparr>gr_phase := p\<rparr>"
  "sanitizeReceipt vs (r\<lparr>gr_decision := d\<rparr>) = (sanitizeReceipt vs r)\<lparr>gr_decision := d\<rparr>"
  by (simp_all add: sanitizeReceipt_def ex_receipt_def ex_redacted)

lemma ex_key: "receipt_key ''agent'' ''run'' = Inr (''agent'', ''run'')"
  by code_simp

lemma ex_receipt_run:
  "rw_receipts (run_receipt_calls ex_receipt_calls ex_receipt_world) (''agent'', ''run'') =
     Some (ex_receipt\<lparr>gr_reasonCodes := [''[REDACTED]''], gr_phase := TERMINAL, gr_decision := ABORTED\<rparr>)"
proof -
  have ids: "gr_agentId ex_receipt = ''agent''" "gr_runId ex_receipt = ''run''" "gr_phase ex_receipt = PENDING_PROMOTION"
    by (simp_all add: ex_receipt_def)
  show ?thesis
    by (simp add: run_receipt_calls_def ex_receipt_calls_def ex_receipt_world_def receipt_put_def receipt_get_def ids ex_key
      ex_sanitized bindS_def liftS_def mapErr_def io_def getS_def throwS_def Let_def)
qed

theorem no_secret_in_receipts_witness:
  "\<exists>r. rw_receipts (run_receipt_calls ex_receipt_calls ex_receipt_world) (''agent'', ''run'') = Some r \<and> hides ''pw'' r"
proof -
  have "plain ''pw''" "\<not> sublist ''pw'' ''STARTUP_RECOVERY_ROLLBACK''" by code_simp+
  moreover have "\<forall>c \<in> set ex_receipt_calls. redacts ''pw'' c" by (simp add: ex_receipt_calls_def)
  moreover have "rw_receipts ex_receipt_world = Map.empty" by (simp add: ex_receipt_world_def)
  ultimately have "hides ''pw'' r" if "rw_receipts (run_receipt_calls ex_receipt_calls ex_receipt_world) k = Some r" for k r
    using that by (rule no_secret_in_receipts)
  with ex_receipt_run show ?thesis by blast
qed

theorem terminal_receipts_immutable_witness:
  "rw_receipts (run_receipt_calls [Put [] ex_receipt, RestartProcess [Works]] (run_receipt_calls ex_receipt_calls ex_receipt_world))
     (''agent'', ''run'') = rw_receipts (run_receipt_calls ex_receipt_calls ex_receipt_world) (''agent'', ''run'')"
  using terminal_receipts_immutable [OF ex_receipt_run, of "[Put [] ex_receipt, RestartProcess [Works]]"] ex_receipt_run
  by simp

end
