(* ===== verification/Recovery_Props.thy ===== *)
theory Recovery_Props
  imports Recovery_Runs Version_Calls Receipt_Calls
begin

text \<open>
  What startup recovery decides for a journal a stopped promotion left, and that a restart with
  working inputs and outputs settles it.
\<close>

subsection \<open>Whatever fails\<close>

text \<open>The stored journal has the paths of \<open>j\<close>, and the old tree is at its place or can be put back.\<close>

definition held_by :: "tx_env \<Rightarrow> fs_node \<Rightarrow> string \<Rightarrow> journal \<Rightarrow> 'r control_scheme \<Rightarrow> bool" where
  "held_by te B p j s \<longleftrightarrow> (\<exists>j'. c_journals s p = Some j' \<and> recoverable te B j' s \<and>
     j' \<in> {j, j\<lparr>jn_state := ROLLED_BACK, jn_updatedAt := te_now te\<rparr>})"

definition put_back :: "fs_node \<Rightarrow> string \<Rightarrow> journal \<Rightarrow> 'r control_scheme \<Rightarrow> bool" where
  "put_back B p j s \<longleftrightarrow> c_dirs s (jn_persistentPath j) = Some B \<and>
     (\<exists>j'. c_journals s p = Some j' \<and> jn_state j' = ROLLED_BACK)"

lemma safe_held: "still_safe te B p j s \<Longrightarrow> held_by te B p j s"
  by (auto simp: still_safe_def held_by_def recoverable_def)

lemma wp_preparing:
  assumes "apart_journal (rc_tx env) j" and "jn_state j = PREPARING" and "recoverable (rc_tx env) B j s" and "c_journals s p = Some j"
  shows "wp (settle_preparing env p j) (\<lambda>a s'. ra_action a = Cleaned_Run \<and> put_back B p j s')
    (\<lambda>_. held_by (rc_tx env) B p j) s"
proof -
  have neq: "jn_persistentPath j \<noteq> jn_stagingPath j" using assms(1) by (simp add: apart_journal_def)
  have held: "held_by (rc_tx env) B p j s'"
    if "c_dirs s' (jn_persistentPath j) = Some B" "c_journals s' p = Some j" for s' :: "'a receipt_world_scheme"
    using that assms(2) by (auto simp: held_by_def recoverable_def)
  have P: "c_dirs s (jn_persistentPath j) = Some B" using assms(2,3) by (simp add: recoverable_def)
  show ?thesis unfolding settle_preparing_def wp_simps
    by (rule wp_rm; (rule wp_update)?)
      (use P assms(4) neq in \<open>auto simp: action_def put_back_def intro!: held\<close>)
qed

text \<open>
  A journal that is over is only tidied up after: the workspace and the journal are left as they are,
  whatever they are.
\<close>

definition left_alone :: "string \<Rightarrow> journal \<Rightarrow> 'r control_scheme \<Rightarrow> 'r control_scheme \<Rightarrow> bool" where
  "left_alone p j s s' \<longleftrightarrow> c_dirs s' (jn_persistentPath j) = c_dirs s (jn_persistentPath j) \<and> c_journals s' p = Some j"

lemma wp_terminal:
  fixes s :: "'r receipt_world_scheme"
  assumes "jn_ok (root_of (rc_vs env) (jn_agentId j)) j" and "c_journals s p = Some j" and "store_fine env j s"
  shows "wp (settle_rolled_back env j) (\<lambda>a s'. ra_action a = Rolled_Back_Run \<and> left_alone p j s s') (\<lambda>_. left_alone p j s) s"
    and "wp (settle_acknowledged env j) (\<lambda>a s'. ra_action a = Acknowledged_Run \<and> left_alone p j s s') (\<lambda>_. left_alone p j s) s"
proof -
  let ?ok = "\<lambda>s'. left_alone p j s s' \<and> store_fine env j s'"
  have away: "?ok s2" if "away_of env j s1 s2" "store_fine env j s2" "?ok s1" for s1 s2 :: "'r receipt_world_scheme"
    using that assms(1) by (simp add: away_def jn_ok_def left_alone_def)
  have files: "?ok s2" if "files_same s1 s2" "?ok s1" for s1 s2 :: "'r receipt_world_scheme"
    using that files_store [OF that(1)] by (simp add: files_same_def left_alone_def)
  have mark: "wp (markReceiptRolledBack env a r h) (\<lambda>_. ?ok) (\<lambda>_. ?ok) s1" if "?ok s1" for a r h and s1 :: "'r receipt_world_scheme"
    by (rule wp_only_keeps [OF files_mark]) (use files that in blast)+
  have update: "wp (updateRecoveredReceipt env a r f h) (\<lambda>_. ?ok) (\<lambda>_. ?ok) s1" if "?ok s1" for a r f h and s1 :: "'r receipt_world_scheme"
    by (rule wp_only_keeps [OF files_recovered]) (use files that in blast)+
  have revert: "wp (revertRunVersion (rc_vs env) (jn_agentId j) r) (\<lambda>_. ?ok) (\<lambda>_. ?ok) s1" if "?ok s1" for r and s1 :: "'r receipt_world_scheme"
    by (rule wp_mono [OF away_revert]) (use away that in blast)+
  have release: "wp (releaseRetention (rc_vs env) (jn_agentId j)) (\<lambda>_. ?ok) (\<lambda>_. ?ok) s1" if "?ok s1" for s1 :: "'r receipt_world_scheme"
    by (rule wp_mono [OF away_release]) (use away that in blast)+
  have s: "?ok s" using assms(2,3) by (simp add: left_alone_def)
  show "wp (settle_rolled_back env j) (\<lambda>a s'. ra_action a = Rolled_Back_Run \<and> left_alone p j s s') (\<lambda>_. left_alone p j s) s"
    unfolding settle_rolled_back_def wp_bind wp_return
    by (intro wp_mono [OF revert] wp_mono [OF mark] wp_mono [OF release] conjI) (auto simp: action_def s)
  have "wp (if jn_kind j = Promotion then updateRecoveredReceipt env (jn_agentId j) (jn_runId j) f h else returnS ())
      (\<lambda>_. ?ok) (\<lambda>_. ?ok) s" for f h
    using update [OF s] s by (simp add: wp_return)
  then show "wp (settle_acknowledged env j) (\<lambda>a s'. ra_action a = Acknowledged_Run \<and> left_alone p j s s') (\<lambda>_. left_alone p j s) s"
    unfolding settle_acknowledged_def wp_bind [of "if _ then _ else _"]
    by (rule wp_mono) (simp_all add: wp_bind wp_return, rule wp_mono [OF release], auto simp: action_def)
qed

lemma wp_rolled_back:
  assumes "jn_ok (root_of (rc_vs env) (jn_agentId j)) j" and "jn_state j = ROLLED_BACK"
    and "recoverable (rc_tx env) B j s" and "c_journals s p = Some j" and "store_fine env j s"
  shows "wp (settle_rolled_back env j) (\<lambda>a s'. ra_action a = Rolled_Back_Run \<and> put_back B p j s')
    (\<lambda>_. held_by (rc_tx env) B p j) s"
  by (rule wp_mono [OF wp_terminal(1) [OF assms(1,4,5)]])
    (use assms(2,3) in \<open>auto simp: left_alone_def put_back_def held_by_def recoverable_def\<close>)

text \<open>A journal whose run left the old tree in place, or where it can be put back.\<close>

lemma settle_decides:
  assumes "settle_journal env p j s = (r, s')" and "apart_journal (rc_tx env) j"
    and "jn_ok (root_of (rc_vs env) (jn_agentId j)) j" and "recoverable (rc_tx env) B j s"
    and "c_journals s p = Some j" and "store_ok (rc_vs env) (jn_agentId j) s"
  shows "(\<exists>a. r = Inr a \<and> ra_action a \<in> {Rolled_Back_Run, Cleaned_Run} \<and> put_back B p j s') \<or>
    (\<exists>a T. r = Inr a \<and> ra_action a = Acknowledged_Run \<and> committed env j T s') \<or>
    (r = Inl Stopped \<or> (\<exists>a. r = Inr a \<and> ra_action a = Manual_Intervention)) \<and>
      (held_by (rc_tx env) B p j s' \<or> (\<exists>T. committed env j T s'))"
proof -
  let ?Q = "\<lambda>a s'. ra_action a \<in> {Rolled_Back_Run, Cleaned_Run} \<and> put_back B p j s' \<or>
      ra_action a = Acknowledged_Run \<and> (\<exists>T. committed env j T s') \<or>
      ra_action a = Manual_Intervention \<and> (held_by (rc_tx env) B p j s' \<or> (\<exists>T. committed env j T s'))"
  let ?E = "\<lambda>e s'. held_by (rc_tx env) B p j s' \<or> (\<exists>T. committed env j T s')"
  have "wp (if jn_state j = ACKNOWLEDGED then settle_acknowledged env j
        else if jn_state j = ROLLED_BACK then settle_rolled_back env j
        else if jn_state j = PREPARING then settle_preparing env p j
        else settle_swapping env p j) ?Q ?E s"
  proof (cases "swapping j")
    case True
    then have st: "settleable env j" using assms by (simp add: settleable_def)
    from True have "jn_state j \<notin> {ACKNOWLEDGED, ROLLED_BACK, PREPARING}" by (auto simp: swapping_def)
    moreover have "wp (settle_swapping env p j) ?Q ?E s"
      by (rule wp_mono [OF wp_swapping [OF st assms(4-6)]])
        (auto simp: decided_def undecided_def put_back_def restored_def intro: safe_held)
    ultimately show ?thesis by simp
  next
    case False
    then consider "jn_state j = PREPARING" | "jn_state j = ROLLED_BACK"
      using assms(4) by (cases "jn_state j") (auto simp: swapping_def recoverable_def)
    then show ?thesis
    proof cases
      case 1
      have "wp (settle_preparing env p j) ?Q ?E s"
        by (rule wp_mono [OF wp_preparing [OF assms(2) 1 assms(4,5)]]) auto
      with 1 show ?thesis by simp
    next
      case 2
      have "wp (settle_rolled_back env j) ?Q ?E s"
        by (rule wp_mono [OF wp_rolled_back [OF assms(3) 2 assms(4-6)]]) auto
      with 2 show ?thesis by simp
    qed
  qed
  then have "wp (settle_journal env p j) ?Q (\<lambda>e s'. e = Stopped \<and> ?E e s') s"
    unfolding settle_journal_def wp_catch by (rule wp_mono) (auto simp: wp_return action_def)
  with assms(1) show ?thesis by (cases r) (auto simp: wp_def)
qed

text \<open>C10: Recovery decides a journal one way and never loses the tree. Whatever inputs and outputs fail
  while a journal is settled: a journal that is already over (ACKNOWLEDGED or ROLLED_BACK) is not
  checked against anything, its workspace and journal are left exactly as they are and its own
  outcome is reported, or manual intervention. For any other journal, from a state in which the old
  tree is in place or can be put back: when rolled back or cleaned is reported, the old tree is at its
  place and the stored journal says so; when acknowledged is reported, the database head names the
  run, its kind and the target hash, and the workspace is a tree with that hash; when manual
  intervention is reported or the process stops, nothing is lost: the old tree is still in place or
  can be put back by the stored journal, or the committed tree is in place.\<close>

theorem recovery_decides:
  assumes "settle_journal env p j s = (r, s')" and "apart_journal (rc_tx env) j"
    and "jn_ok (root_of (rc_vs env) (jn_agentId j)) j"
    and "jn_state j \<in> {PREPARING, PROMOTING, PROMOTED_PENDING_DB} \<longrightarrow> recoverable (rc_tx env) B j s"
    and "c_journals s p = Some j" and "store_ok (rc_vs env) (jn_agentId j) s"
  shows "if jn_state j \<in> {ACKNOWLEDGED, ROLLED_BACK}
    then c_dirs s' (jn_persistentPath j) = c_dirs s (jn_persistentPath j) \<and> c_journals s' p = Some j \<and>
      (r = Inl Stopped \<or> (\<exists>a. r = Inr a \<and> ra_action a \<in>
         {Manual_Intervention, if jn_state j = ACKNOWLEDGED then Acknowledged_Run else Rolled_Back_Run}))
    else
      (\<exists>a. r = Inr a \<and> ra_action a \<in> {Rolled_Back_Run, Cleaned_Run} \<and> put_back B p j s') \<or>
      (\<exists>a T. r = Inr a \<and> ra_action a = Acknowledged_Run \<and> committed env j T s') \<or>
      (r = Inl Stopped \<or> (\<exists>a. r = Inr a \<and> ra_action a = Manual_Intervention)) \<and>
        (held_by (rc_tx env) B p j s' \<or> (\<exists>T. committed env j T s'))"
proof -
  have over: "wp (settle_journal env p j) (\<lambda>a s'. ra_action a \<in> {Manual_Intervention, x} \<and> left_alone p j s s')
      (\<lambda>e s'. e = Stopped \<and> left_alone p j s s') s"
    if "wp (if jn_state j = ACKNOWLEDGED then settle_acknowledged env j
        else if jn_state j = ROLLED_BACK then settle_rolled_back env j
        else if jn_state j = PREPARING then settle_preparing env p j
        else settle_swapping env p j) (\<lambda>a s'. ra_action a = x \<and> left_alone p j s s') (\<lambda>_. left_alone p j s) s" for x
    unfolding settle_journal_def wp_catch by (rule wp_mono [OF that]) (auto simp: wp_return action_def)
  show ?thesis
  proof (cases "jn_state j \<in> {ACKNOWLEDGED, ROLLED_BACK}")
    case True
    then have "wp (settle_journal env p j)
        (\<lambda>a s'. ra_action a \<in> {Manual_Intervention, if jn_state j = ACKNOWLEDGED then Acknowledged_Run else Rolled_Back_Run} \<and>
           left_alone p j s s') (\<lambda>e s'. e = Stopped \<and> left_alone p j s s') s"
      by (intro over) (use wp_terminal [OF assms(3,5,6)] in auto)
    with assms(1) True show ?thesis by (cases r) (auto simp: wp_def left_alone_def)
  next
    case False
    then have "jn_state j \<in> {PREPARING, PROMOTING, PROMOTED_PENDING_DB}" by (cases "jn_state j") auto
    with assms(4) have "recoverable (rc_tx env) B j s" by blast
    from settle_decides [OF assms(1-3) this assms(5,6)] False show ?thesis by simp
  qed
qed

subsection \<open>A promotion and a restart\<close>

lemma journal_for_ok:
  assumes "journal_for te i j" and "apart i" and id: "assertSafeIdentifier (pi_runId i) ''runId'' = Inr ()"
  shows "jn_ok (pi_controlPath i) j"
proof -
  have "pi_persistentPath i \<notin> snapshot_paths (pi_controlPath i)"
    using assms(2) by (auto simp: apart_def snapshot_paths_def contained_def starts_with_iff)
  with control_no_snapshot dirname_backup [OF id] assms(1) show ?thesis
    by (simp add: jn_ok_def journal_for_def staging_path_def backup_path_def)
qed

lemma read_works: "c_faults s = [] \<Longrightarrow> c_journals s p = Some j \<Longrightarrow> read_journal p s = (Inr j, s)"
  by (simp add: read_journal_def bindS_works [OF io_works] bindS_getS returnS_def)

lemma read_valid_works:
  assumes "c_faults s = []" and "c_journals s p = Some j"
    and "validateJournal a root (rc_workspaceRoot env) (vs_controlRoot (rc_vs env)) j = Inr ()"
  shows "read_valid env a root p s = (Inr j, s)"
  by (simp add: read_valid_def bindS_works read_works [OF assms(1,2)] assms(3) bindS_res_Inr returnS_def)

lemma file_works:
  assumes "c_faults s = []" and "c_journals s (root @ ''/journals/'' @ name) = Some j"
    and "validateJournal a root (rc_workspaceRoot env) (vs_controlRoot (rc_vs env)) j = Inr ()"
  shows "recover_file env a root name s = settle_journal env (root @ ''/journals/'' @ name) j s"
proof -
  let ?p = "root @ ''/journals/'' @ name"
  have "catchS (bindS (read_valid env a root ?p) (\<lambda>j. returnS (Inr j))) h s = (Inr (Inr j :: string + journal), s)" for h
    by (simp only: catchS_def bindS_def read_valid_works [OF assms] returnS_def prod.case sum.case)
  then show ?thesis unfolding recover_file_def Let_def by (simp only: bindS_def prod.case sum.case)
qed

lemma preparing_works:
  assumes "c_faults s = []"
  shows "\<exists>a s'. settle_preparing env p j s = (Inr a, s') \<and> ra_action a = Cleaned_Run"
  using assms by (simp add: settle_preparing_def rm_dir_def updateJournal_def write_journal_def Let_def
      bindS_works [OF io_works] bindS_assoc bindS_returnS returnS_def action_def)

lemma rolled_back_works:
  assumes u: "store_usable env j s"
  shows "\<exists>a s'. settle_rolled_back env j s = (Inr a, s') \<and> ra_action a = Rolled_Back_Run"
proof -
  note s = store_usableD [OF u]
  from revert_works [OF s(1,4,3)] obtain x s1 where
    s1: "revertRunVersion (rc_vs env) (jn_agentId j) (jn_runId j) s = (Inr x, s1)" "c_faults s1 = []" "rw_receipts s1 = rw_receipts s"
    unfolding went_def by blast
  have "keyed s1" using s(2) s1(3) by (simp add: keyed_def)
  from mark_works [OF s1(2) s(5) this, of env "jn_baseHash j"] obtain s2 where
    s2: "markReceiptRolledBack env (jn_agentId j) (jn_runId j) (jn_baseHash j) s1 = (Inr (), s2)" "c_faults s2 = []" by blast
  have "store_fine env j s1" using wpD(1) [OF store_revert [OF s(3)] s1(1)] .
  then have "store_fine env j s2" using files_store [OF keepsD [OF files_mark s2(1)]] by blast
  from release_works [OF s2(2) s(4) this] obtain y s3 where
    "releaseRetention (rc_vs env) (jn_agentId j) s2 = (Inr y, s3)" unfolding went_def by blast
  with s1(1) s2(1) show ?thesis by (simp add: settle_rolled_back_def bindS_works returnS_def action_def)
qed

text \<open>C11: A restart settles what a stopped promotion left. Let a promotion end or stop anywhere with its
  journal stored and the database not at this run. When the next process's inputs and outputs work
  and the stored journal passes its validation, recovering the journal's file returns without manual
  intervention, with the old tree at its place and the journal rolled back, provided that the
  stores are in order and what lies at the workspace path can be walked.\<close>

theorem restart_recovers:
  assumes "\<not> contained (pi_controlPath i) (pi_persistentPath i)" and "c_dirs s (pi_persistentPath i) = Some B"
    and "c_journals s (journal_path i) = None" and "\<forall>m. pi_consumeAuthorization i = Some m \<longrightarrow> frames m"
    and "promote_tx te i s = (r, s1)" and "c_journals s1 (journal_path i) = Some j"
    and env: "te_walk (rc_tx env) = te_walk te" "root_of (rc_vs env) (pi_agentId i) = pi_controlPath i"
    and head: "rc_databaseHead env (pi_agentId i) = Inr head" "\<forall>h. head = Some h \<longrightarrow> dh_runId h \<noteq> Some (pi_runId i)"
    and valid: "validateJournal (pi_agentId i) (pi_controlPath i) (rc_workspaceRoot env) (vs_controlRoot (rc_vs env)) j = Inr ()"
    and stores: "store_ok (rc_vs env) (pi_agentId i) s1" "keyed s1"
    and "c_dirs s1 (failed_path (rc_tx env) (pi_controlPath i) (pi_runId i)) = None"
    and "walkable (rc_tx env) (pi_persistentPath i) s1"
  shows "\<exists>a s2 j2. recover_file env (pi_agentId i) (pi_controlPath i) (pi_runId i @ ''.json'') (s1\<lparr>c_faults := []\<rparr>) = (Inr a, s2) \<and>
    ra_action a \<in> {Rolled_Back_Run, Cleaned_Run} \<and> c_dirs s2 (pi_persistentPath i) = Some B \<and>
    c_journals s2 (journal_path i) = Some j2 \<and> jn_state j2 = ROLLED_BACK"
proof -
  let ?s = "s1\<lparr>c_faults := []\<rparr>" let ?te = "rc_tx env"
  have ap: "apart i" using assms(1) by (simp add: apart_def)
  have "crash_safe te i B s1" by (rule promote_crash_safe [OF ap assms(2,3) _ assms(5)]) (use assms(4) in blast)
  then have j: "journal_for te i j" "recoverable te B j s1" using assms(6) by (simp_all add: crash_safe_def)
  have id: "assertSafeIdentifier (pi_runId i) ''runId'' = Inr ()" and agent: "assertSafeIdentifier (pi_agentId i) ''agentId'' = Inr ()"
    using promote_safe_ids [OF assms(5,3)] assms(6) by simp_all
  note parts = journal_for_apart [OF j(1) ap id]
  from j(1) have names: "jn_agentId j = pi_agentId i" "jn_runId j = pi_runId i" "jn_persistentPath j = pi_persistentPath i"
    by (simp_all add: journal_for_def)
  have ok: "jn_ok (root_of (rc_vs env) (jn_agentId j)) j" using journal_for_ok [OF j(1) ap id] env(2) names by simp
  have "hash_ok ?te h t = hash_ok te h t" for h t using env(1) by (simp add: hash_ok_def manifest_of_def)
  then have rec: "recoverable ?te B j ?s" using j(2) by (cases "jn_state j") (simp_all add: recoverable_def held_def)
  have u: "store_usable env j ?s"
    using stores agent id names by (simp add: store_usable_def keyed_def store_ok_def payloads_ok_def cong: option.case_cong)
  have w: "walkable ?te (jn_persistentPath j) ?s" using assms(15) names by (simp add: walkable_def)
  have free: "c_dirs ?s (journal_failed_path ?te j) = None" using assms(14) parts(2) by simp
  have "\<not> head_committed (Inr head) j" using head(2) names by (auto simp: head_committed_def)
  then have sw: "\<exists>a s'. settle_swapping env (journal_path i) j ?s = (Inr a, s') \<and> ra_action a = Rolled_Back_Run" if "swapping j"
    using that swapping_works [OF _ rec u free w] head(1) names ok parts(1) by (simp add: settleable_def)
  have st: "jn_state j \<noteq> ACKNOWLEDGED" using j(2) by (auto simp: recoverable_def)
  have "\<exists>a s'. settle_journal env (journal_path i) j ?s = (Inr a, s') \<and> ra_action a \<in> {Rolled_Back_Run, Cleaned_Run}"
    using sw rolled_back_works [OF u] preparing_works [of ?s env "journal_path i" j] st
    by (cases "jn_state j") (auto simp: settle_journal_def catchS_def swapping_def)
  then obtain a s2 where run: "settle_journal env (journal_path i) j ?s = (Inr a, s2)" "ra_action a \<in> {Rolled_Back_Run, Cleaned_Run}"
    by blast
  have "put_back B (journal_path i) j s2"
    using settle_decides [OF run(1) parts(1) ok rec] assms(6) u run(2) by (auto simp: store_usable_def)
  moreover have "recover_file env (pi_agentId i) (pi_controlPath i) (pi_runId i @ ''.json'') ?s = (Inr a, s2)"
    using file_works [of ?s "pi_controlPath i" "pi_runId i @ ''.json''" j, OF _ _ valid] assms(6) run(1) by (simp add: journal_path_def)
  ultimately show ?thesis using run(2) names by (auto simp: put_back_def)
qed

subsection \<open>Examples\<close>

definition ex_hex :: string where
  "ex_hex = replicate 64 CHR ''a''"

definition ex_hex_tx :: tx_env where
  "ex_hex_tx = ex_tx\<lparr>te_walk := (te_walk ex_tx)\<lparr>we_H := (\<lambda>_. ex_hex)\<rparr>\<rparr>"

definition ex_input :: "receipt_world promote_input" where
  "ex_input = \<lparr>pi_runId = ''run'', pi_agentId = ''agent'', pi_persistentPath = ''/ws'', pi_controlPath = ''/ctl/agent'',
     pi_sourcePath = ''/ctl/agent/src'', pi_baseHash = ex_hex, pi_expectedTargetHash = None, pi_expectedSourceVersionedHash = None,
     pi_kind = Promotion, pi_targetVersionId = None, pi_proposalId = None, pi_permitId = None, pi_baseViewId = None,
     pi_evaluationContextHash = None, pi_proposalManifest = None, pi_assertCurrentView = None, pi_consumeAuthorization = None\<rparr>"

definition ex_start :: "fault list \<Rightarrow> receipt_world" where
  "ex_start fs = ex_receipt_world\<lparr>c_dirs := [''/ws'' \<mapsto> ex_old, ''/ctl/agent/src'' \<mapsto> ex_payload], c_faults := fs\<rparr>"

definition ex_recovery :: recovery_env where
  "ex_recovery = \<lparr>rc_vs = ex_vs\<lparr>vs_tx := ex_hex_tx\<lparr>te_stamp := ''2''\<rparr>\<rparr>, rc_workspaceRoot = ''/ws'', rc_policy = (\<lambda>_. Inl JsTypeError),
     rc_databaseHead = (\<lambda>_. Inr None), rc_uuid = (\<lambda>r. r), rc_agents = [''agent''], rc_journals = (\<lambda>_. [''run.json'']),
     rc_receipts = (\<lambda>_. []), rc_entries = (\<lambda>_. [])\<rparr>"

lemma ex_stopped:
  "(case promote_tx ex_hex_tx ex_input (ex_start (replicate 11 Works @ [Stops None])) of (r, s1) \<Rightarrow>
     (case r of Inl e \<Rightarrow> e = Stopped | Inr _ \<Rightarrow> False) \<and> c_dirs s1 ''/ws'' = None \<and>
     c_dirs s1 ''/ctl/agent/failed/run-2'' = None \<and> vw_indexes s1 ''agent'' = None \<and>
     (case c_journals s1 ''/ctl/agent/journals/run.json'' of None \<Rightarrow> False | Some j \<Rightarrow>
        validateJournal ''agent'' ''/ctl/agent'' ''/ws'' ''/ctl'' j = Inr ()))"
  by code_simp

lemma rest_promote:
  assumes "pi_consumeAuthorization i = None"
  shows "keeps rest_same (promote_tx te i)"
proof -
  have "keeps rest_same (admit_swap te i j)" for j
    unfolding admit_swap_def assms option.case
    by (intro rest.frame_intros rest_ops rest_discard)
  then show ?thesis unfolding promote_tx_def assertSameFilesystem_def Let_def
    by (intro rest.frame_intros rest_ops rest_stage rest_swap)
qed

theorem restart_recovers_witness:
  "\<exists>s1 a s2. promote_tx ex_hex_tx ex_input (ex_start (replicate 11 Works @ [Stops None])) = (Inl Stopped, s1) \<and>
     c_dirs s1 ''/ws'' = None \<and>
     recover_file ex_recovery ''agent'' ''/ctl/agent'' ''run.json'' (s1\<lparr>c_faults := []\<rparr>) = (Inr a, s2) \<and>
     ra_action a \<in> {Rolled_Back_Run, Cleaned_Run} \<and> c_dirs s2 ''/ws'' = Some ex_old"
proof -
  let ?s = "ex_start (replicate 11 Works @ [Stops None])"
  obtain r s1 where r: "promote_tx ex_hex_tx ex_input ?s = (r, s1)" by (cases "promote_tx ex_hex_tx ex_input ?s")
  with ex_stopped obtain j where e: "r = Inl Stopped" "c_dirs s1 ''/ws'' = None" "c_dirs s1 ''/ctl/agent/failed/run-2'' = None"
    "vw_indexes s1 ''agent'' = None" "c_journals s1 ''/ctl/agent/journals/run.json'' = Some j"
    "validateJournal ''agent'' ''/ctl/agent'' ''/ws'' ''/ctl'' j = Inr ()"
    by (auto split: option.splits sum.splits)
  have i: "pi_persistentPath ex_input = ''/ws''" "pi_controlPath ex_input = ''/ctl/agent''" "pi_runId ex_input = ''run''"
    "pi_agentId ex_input = ''agent''" "pi_consumeAuthorization ex_input = None"
    "journal_path ex_input = ''/ctl/agent/journals/run.json''" "pi_runId ex_input @ ''.json'' = ''run.json''"
    by (simp_all add: ex_input_def journal_path_def)
  have env: "te_walk (rc_tx ex_recovery) = te_walk ex_hex_tx" "root_of (rc_vs ex_recovery) ''agent'' = ''/ctl/agent''"
    "rc_databaseHead ex_recovery ''agent'' = Inr None" "rc_workspaceRoot ex_recovery = ''/ws''" "vs_controlRoot (rc_vs ex_recovery) = ''/ctl''"
    "failed_path (rc_tx ex_recovery) ''/ctl/agent'' ''run'' = ''/ctl/agent/failed/run-2''"
    by (simp_all add: ex_recovery_def ex_vs_def root_of_def failed_path_def)
  have "rest_same ?s s1" using keepsD [OF rest_promote [OF i(5)] r] .
  then have "rw_receipts s1 = Map.empty" by (cases s1) (simp add: rest_same_def ex_start_def ex_receipt_world_def)
  then have keyed: "keyed s1" by (simp add: keyed_def)
  have apart: "\<not> contained ''/ctl/agent'' ''/ws''" by (simp add: contained_def starts_with_iff)
  have old: "c_dirs ?s ''/ws'' = Some ex_old" "c_journals ?s ''/ctl/agent/journals/run.json'' = None"
    by (simp_all add: ex_start_def ex_receipt_world_def)
  from restart_recovers [of ex_input ?s ex_old ex_hex_tx r s1 j ex_recovery None, unfolded i env, OF apart old _ r e(5) refl refl refl _ e(6)]
    e keyed show ?thesis using r by (simp add: store_ok_def walkable_def) blast
qed

definition ex_journal :: "journal_state \<Rightarrow> journal" where
  "ex_journal st = \<lparr>jn_schemaVersion = 1, jn_runId = ''run'', jn_agentId = ''agent'', jn_kind = Promotion, jn_state = st,
     jn_persistentPath = ''/ws'', jn_stagingPath = ''/ctl/agent/staging/run'', jn_backupPath = ''/ctl/agent/backups/run'',
     jn_sourcePath = ''/ctl/agent/src'', jn_baseHash = ex_hex, jn_targetHash = ex_hex, jn_targetVersionId = None,
     jn_proposalId = None, jn_permitId = None, jn_baseViewId = None, jn_evaluationContextHash = None,
     jn_createdAt = ''t'', jn_updatedAt = ''t''\<rparr>"

definition ex_swapped :: "fault list \<Rightarrow> receipt_world" where
  "ex_swapped fs = ex_receipt_world\<lparr>c_dirs := [''/ctl/agent/backups/run'' \<mapsto> ex_old],
     c_journals := [''/ctl/agent/journals/run.json'' \<mapsto> ex_journal PROMOTING], c_faults := fs\<rparr>"

theorem recovery_decides_witness:
  "\<exists>s'. settle_journal ex_recovery ''/ctl/agent/journals/run.json'' (ex_journal PROMOTING) (ex_swapped (replicate 6 Works @ [Stops None])) = (Inl Stopped, s') \<and>
     c_dirs s' ''/ws'' = Some ex_old \<and>
     held_by (rc_tx ex_recovery) ex_old ''/ctl/agent/journals/run.json'' (ex_journal PROMOTING) s'"
proof -
  let ?j = "ex_journal PROMOTING" let ?p = "''/ctl/agent/journals/run.json''" let ?s = "ex_swapped (replicate 6 Works @ [Stops None])"
  have run: "(case settle_journal ex_recovery ?p ?j ?s of (r, s') \<Rightarrow>
      (case r of Inl e \<Rightarrow> e = Stopped | Inr _ \<Rightarrow> False) \<and> c_dirs s' ''/ws'' = Some ex_old)" by code_simp
  obtain r s' where r: "settle_journal ex_recovery ?p ?j ?s = (r, s')" by (cases "settle_journal ex_recovery ?p ?j ?s")
  with run have e: "r = Inl Stopped" "c_dirs s' ''/ws'' = Some ex_old" by (auto split: sum.splits)
  have ap: "apart_journal (rc_tx ex_recovery) ?j" by code_simp
  have dir: "dirname (dirname (jn_backupPath ?j)) = ''/ctl/agent''" by code_simp
  have root: "root_of (rc_vs ex_recovery) (jn_agentId ?j) = ''/ctl/agent''"
    by (simp add: root_of_def ex_recovery_def ex_vs_def ex_journal_def)
  have ok: "jn_ok (root_of (rc_vs ex_recovery) (jn_agentId ?j)) ?j"
    unfolding root using dir by (simp add: jn_ok_def snapshot_paths_def ex_journal_def)
  have "case manifest_of (rc_tx ex_recovery) authoritative ex_old of Inl _ \<Rightarrow> False | Inr m \<Rightarrow> sm_hash m = ex_hex" by code_simp
  then have "hash_ok (rc_tx ex_recovery) ex_hex ex_old" by (auto simp: hash_ok_def split: sum.splits)
  then have rec: "recoverable (rc_tx ex_recovery) ex_old ?j ?s"
    by (simp add: recoverable_def held_def ex_swapped_def ex_journal_def)
  have s: "c_journals ?s ?p = Some ?j" "store_ok (rc_vs ex_recovery) (jn_agentId ?j) ?s"
    by (simp_all add: ex_swapped_def store_ok_def ex_receipt_world_def)
  have "\<not> committed ex_recovery ?j T s'" for T
    by (simp add: committed_def head_committed_def ex_recovery_def)
  with recovery_decides [OF r ap ok _ s, of ex_old] rec e have "held_by (rc_tx ex_recovery) ex_old ?p ?j s'"
    by (auto simp: ex_journal_def)
  with r e show ?thesis by blast
qed

subsection \<open>A journal that is still being prepared\<close>

text \<open>C40: Recovery of a journal that was being prepared leaves its receipt pending. The run is reported as
  cleaned and healthy, the stored receipts and events are as before, and the later pass over
  pending receipts skips the run because its journal was there: a receipt that says COMMITTED and
  PENDING_PROMOTION stays so until the next restart.\<close>

theorem preparing_leaves_receipt:
  assumes "c_faults s = []" and "c_journals s (root @ ''/journals/'' @ name) = Some j" and "jn_state j = PREPARING"
    and "validateJournal a root (rc_workspaceRoot env) (vs_controlRoot (rc_vs env)) j = Inr ()"
    and "gr_runId r = run_of_file name" and "name \<in> set files"
  shows "\<exists>act s'. recover_file env a root name s = (Inr act, s') \<and> ra_action act = Cleaned_Run \<and> healthy [act] \<and>
    rw_receipts s' = rw_receipts s \<and> rw_recoveryEvents s' = rw_recoveryEvents s \<and>
    recover_receipt env a (map run_of_file files) r s' = (Inr [], s')"
proof -
  let ?p = "root @ ''/journals/'' @ name"
  obtain act s' where s': "settle_preparing env ?p j s = (Inr act, s')" "ra_action act = Cleaned_Run"
    "rw_receipts s' = rw_receipts s" "rw_recoveryEvents s' = rw_recoveryEvents s"
    using assms(1) by (simp add: settle_preparing_def rm_dir_def updateJournal_def write_journal_def Let_def
      bindS_works [OF io_works] bindS_assoc bindS_returnS returnS_def action_def)
  then have "settle_journal env ?p j s = (Inr act, s')" by (simp add: settle_journal_def assms(3) catchS_def)
  moreover have "recover_receipt env a (map run_of_file files) r s' = (Inr [], s')"
    using assms(5,6) by (simp add: recover_receipt_def returnS_def)
  ultimately show ?thesis
    unfolding file_works [OF assms(1,2,4)] using s'(2-4) by (simp add: healthy_def)
qed

definition ex_interrupted :: receipt_world where
  "ex_interrupted = ex_receipt_world\<lparr>c_dirs := [''/ws'' \<mapsto> ex_old], c_faults := [],
     c_journals := [''/ctl/agent/journals/run.json'' \<mapsto> ex_journal PREPARING],
     rw_receipts := [(''agent'', ''run'') \<mapsto> ex_receipt]\<rparr>"

theorem preparing_leaves_receipt_witness:
  "\<exists>act s'. recover_file ex_recovery ''agent'' ''/ctl/agent'' ''run.json'' ex_interrupted = (Inr act, s') \<and>
     ra_action act = Cleaned_Run \<and> healthy [act] \<and> rw_receipts s' (''agent'', ''run'') = Some ex_receipt \<and>
     gr_phase ex_receipt = PENDING_PROMOTION \<and> gr_decision ex_receipt = COMMITTED \<and>
     recover_receipt ex_recovery ''agent'' [''run''] ex_receipt s' = (Inr [], s')"
proof -
  have j: "c_faults ex_interrupted = []" "c_journals ex_interrupted (''/ctl/agent'' @ ''/journals/'' @ ''run.json'') = Some (ex_journal PREPARING)"
    "jn_state (ex_journal PREPARING) = PREPARING" by (simp_all add: ex_interrupted_def ex_journal_def)
  have valid: "validateJournal ''agent'' ''/ctl/agent'' (rc_workspaceRoot ex_recovery) (vs_controlRoot (rc_vs ex_recovery)) (ex_journal PREPARING) = Inr ()"
    by code_simp
  have run: "run_of_file ''run.json'' = ''run''" by code_simp
  have r: "gr_runId ex_receipt = run_of_file ''run.json''" unfolding run by (simp add: ex_receipt_def)
  have "rw_receipts ex_interrupted (''agent'', ''run'') = Some ex_receipt" "gr_phase ex_receipt = PENDING_PROMOTION"
    "gr_decision ex_receipt = COMMITTED" by (simp_all add: ex_interrupted_def ex_receipt_def)
  with preparing_leaves_receipt [OF j valid r, of "[''run.json'']"] show ?thesis by (auto simp: run)
qed

end
