(* ===== verification/Gate_Checks.thy ===== *)
theory Gate_Checks
  imports Worker_Gate Candidate_Checks
begin

text \<open>
  How the coordinator reads a verifier's results (\<^verbatim>\<open>normalizeCheckResult\<close> and
  \<^verbatim>\<open>assessTrustedChecks\<close> in \<^verbatim>\<open>commitgate/coordinator.ts\<close>): whatever the verifier returns becomes
  a check result, malformed ones an error, and the results are held against the required checks of
  the policy.
\<close>

text \<open>
  A member of what the verifier returned: absent, null, a text, a truth value, a whole number, a
  number that is not finite, or anything else. A duration that is no whole number is not modelled.
\<close>

datatype raw_value = Absent | Null | Text string | Truth bool | Whole int | NotFinite | Other

record raw_check =
  rk_id :: raw_value
  rk_status :: raw_value
  rk_exitCode :: raw_value
  rk_durationMs :: raw_value
  rk_output :: raw_value
  rk_timedOut :: raw_value

fun is_text :: "raw_value \<Rightarrow> bool" where
  "is_text (Text s) \<longleftrightarrow> True"
| "is_text v \<longleftrightarrow> False"

fun is_truth :: "raw_value \<Rightarrow> bool" where
  "is_truth (Truth b) \<longleftrightarrow> True"
| "is_truth v \<longleftrightarrow> False"

fun is_duration :: "raw_value \<Rightarrow> bool" where
  "is_duration (Whole n) \<longleftrightarrow> 0 \<le> n"
| "is_duration v \<longleftrightarrow> False"

fun is_exit :: "raw_value \<Rightarrow> bool" where
  "is_exit Null \<longleftrightarrow> True"
| "is_exit (Whole n) \<longleftrightarrow> True"
| "is_exit v \<longleftrightarrow> False"

definition check_statuses :: "string list" where
  "check_statuses = [''PASS'', ''FAIL'', ''ERROR'', ''SKIPPED'']"

text \<open>\<^verbatim>\<open>String(status)\<close> is one of them; a list holding one of them, whose text is the same, is taken as other.\<close>

fun is_status :: "raw_value \<Rightarrow> bool" where
  "is_status (Text s) \<longleftrightarrow> s \<in> set check_statuses"
| "is_status v \<longleftrightarrow> False"

definition structurallyValid :: "raw_check \<Rightarrow> bool" where
  "structurallyValid r \<longleftrightarrow> is_text (rk_id r) \<and> is_text (rk_output r) \<and> is_truth (rk_timedOut r) \<and>
     is_duration (rk_durationMs r) \<and> is_exit (rk_exitCode r) \<and> is_status (rk_status r)"

fun text_or :: "string \<Rightarrow> raw_value \<Rightarrow> string" where
  "text_or d (Text s) = s"
| "text_or d v = d"

fun whole_or_null :: "raw_value \<Rightarrow> int option" where
  "whole_or_null (Whole n) = Some n"
| "whole_or_null v = None"

fun duration_or_zero :: "raw_value \<Rightarrow> int" where
  "duration_or_zero (Whole n) = (if 0 \<le> n then n else 0)"
| "duration_or_zero v = 0"

definition normalizeCheckResult :: "raw_check \<Rightarrow> nat \<Rightarrow> check_result" where
  "normalizeCheckResult r index =
     \<lparr>check_id = text_or (''__invalid_'' @ int_text (int index)) (rk_id r),
      check_status = (if structurallyValid r then text_or [] (rk_status r) else ''ERROR''),
      check_exitCode = whole_or_null (rk_exitCode r),
      check_durationMs = duration_or_zero (rk_durationMs r),
      check_output = (if structurallyValid r then text_or [] (rk_output r)
                      else ''Malformed verifier result was normalized fail-closed''),
      check_timedOut = (rk_timedOut r = Truth True)\<rparr>"

definition normalize_results :: "raw_check list \<Rightarrow> check_result list" where
  "normalize_results rs = map (\<lambda>(i, r). normalizeCheckResult r i) (indexed rs)"

subsection \<open>Assessment\<close>

record check_assessment =
  ca_evidenceComplete :: bool
  ca_resultFailures :: "string list"
  ca_evidenceFailures :: "string list"

text \<open>\<^verbatim>\<open>new Set(ids)\<close>, in the order of insertion.\<close>

definition required_ids :: "policy \<Rightarrow> json list" where
  "required_ids p = dedup (map rc_id (requiredChecks p))"

text \<open>What one result adds, given the ids seen before it: evidence failures and result failures.\<close>

definition assess_check :: "policy \<Rightarrow> string list \<Rightarrow> check_result \<Rightarrow> string list \<times> string list" where
  "assess_check p seen c =
     (let cid = check_id c in
      if JStr cid \<notin> set (required_ids p) then ([''TRUSTED_CHECK_UNEXPECTED:'' @ cid], [])
      else if cid \<in> set seen then ([''TRUSTED_CHECK_DUPLICATE:'' @ cid], [])
      else if check_status c = ''PASS'' then
        (if check_exitCode c \<noteq> Some 0 \<or> check_timedOut c then [''TRUSTED_CHECK_EVIDENCE_INVALID:'' @ cid] else [], [])
      else if check_status c = ''FAIL'' then
        (if check_exitCode c = None \<or> check_exitCode c = Some 0 \<or> check_timedOut c
         then ([''TRUSTED_CHECK_EVIDENCE_INVALID:'' @ cid], [])
         else ([], [''TRUSTED_CHECK_FAILED:'' @ cid]))
      else ([''TRUSTED_CHECK_INCOMPLETE:'' @ cid], []))"

fun assess_all :: "policy \<Rightarrow> string list \<Rightarrow> check_result list \<Rightarrow> string list \<times> string list" where
  "assess_all p seen [] = ([], [])"
| "assess_all p seen (c # cs) =
     (let (e, r) = assess_check p seen c; (es, rs) = assess_all p (check_id c # seen) cs in (e @ es, r @ rs))"

definition missing_checks :: "policy \<Rightarrow> check_result list \<Rightarrow> string list" where
  "missing_checks p cs =
     map (\<lambda>k. ''TRUSTED_CHECK_RESULT_MISSING:'' @ js_string k)
       (filter (\<lambda>k. k \<notin> (\<lambda>c. JStr (check_id c)) ` set cs) (required_ids p))"

definition assessTrustedChecks :: "check_result list \<Rightarrow> policy \<Rightarrow> check_assessment" where
  "assessTrustedChecks cs p =
     (let (evidence, results) = assess_all p [] cs; es = evidence @ missing_checks p cs
      in \<lparr>ca_evidenceComplete = (es = []), ca_resultFailures = results, ca_evidenceFailures = es\<rparr>)"


subsection \<open>Facts\<close>

lemma assess_check_clean:
  "assess_check p seen c = ([], []) \<longleftrightarrow> JStr (check_id c) \<in> set (required_ids p) \<and> check_id c \<notin> set seen \<and>
     check_status c = ''PASS'' \<and> check_exitCode c = Some 0 \<and> \<not> check_timedOut c"
  by (auto simp: assess_check_def Let_def)

lemma assess_all_clean:
  "assess_all p seen cs = ([], []) \<longleftrightarrow> distinct (map check_id cs) \<and> set (map check_id cs) \<inter> set seen = {} \<and>
     (\<forall>c \<in> set cs. JStr (check_id c) \<in> set (required_ids p) \<and> check_status c = ''PASS'' \<and> check_exitCode c = Some 0 \<and>
        \<not> check_timedOut c)"
proof (induction cs arbitrary: seen)
  case (Cons c cs)
  have "assess_all p seen (c # cs) = ([], []) \<longleftrightarrow>
      assess_check p seen c = ([], []) \<and> assess_all p (check_id c # seen) cs = ([], [])"
    by (auto split: prod.splits)
  then show ?case unfolding Cons.IH assess_check_clean by auto
qed simp


text \<open>Every required check is there exactly once, passed with exit code 0 and in time, and nothing else is there.\<close>

definition required_passed :: "policy \<Rightarrow> check_result list \<Rightarrow> bool" where
  "required_passed p cs \<longleftrightarrow> distinct (map check_id cs) \<and>
     set (map (\<lambda>c. JStr (check_id c)) cs) = set (map rc_id (requiredChecks p)) \<and>
     (\<forall>c \<in> set cs. check_status c = ''PASS'' \<and> check_exitCode c = Some 0 \<and> \<not> check_timedOut c)"

lemma assessment_clean:
  "ca_evidenceFailures (assessTrustedChecks cs p) = [] \<and> ca_resultFailures (assessTrustedChecks cs p) = [] \<longleftrightarrow>
     required_passed p cs"
proof -
  have ids: "set (required_ids p) = set (map rc_id (requiredChecks p))" by (simp add: required_ids_def)
  have missing: "missing_checks p cs = [] \<longleftrightarrow> set (required_ids p) \<subseteq> set (map (\<lambda>c. JStr (check_id c)) cs)"
    by (auto simp: missing_checks_def filter_empty_conv)
  have "ca_evidenceFailures (assessTrustedChecks cs p) = [] \<and> ca_resultFailures (assessTrustedChecks cs p) = [] \<longleftrightarrow>
      assess_all p [] cs = ([], []) \<and> missing_checks p cs = []"
    by (auto simp: assessTrustedChecks_def split: prod.splits)
  then show ?thesis unfolding assess_all_clean missing required_passed_def ids by auto
qed

lemma assessment_complete: "ca_evidenceComplete (assessTrustedChecks cs p) \<longleftrightarrow> ca_evidenceFailures (assessTrustedChecks cs p) = []"
  by (simp add: assessTrustedChecks_def Let_def split: prod.splits)

text \<open>A normalized result passes only if the verifier returned it whole.\<close>

lemma normalized_passes:
  "check_status (normalizeCheckResult r i) = ''PASS'' \<longleftrightarrow> structurallyValid r \<and> rk_status r = Text ''PASS''"
  by (cases "rk_status r") (auto simp: normalizeCheckResult_def structurallyValid_def)

lemma normalized_id: "rk_id r = Text t \<Longrightarrow> check_id (normalizeCheckResult r i) = t"
  by (simp add: normalizeCheckResult_def)

lemma valid_id: "structurallyValid r \<Longrightarrow> \<exists>t. rk_id r = Text t"
  by (cases "rk_id r") (auto simp: structurallyValid_def)

lemma valid_fields:
  assumes "structurallyValid r"
  shows "check_exitCode (normalizeCheckResult r i) = Some 0 \<longleftrightarrow> rk_exitCode r = Whole 0"
    and "check_timedOut (normalizeCheckResult r i) \<longleftrightarrow> rk_timedOut r \<noteq> Truth False"
  using assms
  by (cases "rk_exitCode r"; cases "rk_timedOut r"; auto simp: normalizeCheckResult_def structurallyValid_def)+

subsection \<open>Property\<close>

definition raw_passed :: "raw_check \<Rightarrow> bool" where
  "raw_passed r \<longleftrightarrow> structurallyValid r \<and> rk_status r = Text ''PASS'' \<and> rk_exitCode r = Whole 0 \<and> rk_timedOut r = Truth False"

text \<open>The gate reads a verifier fail-closed. Whatever values the verifier returned, the assessment of the
  normalized results shows no failure exactly when every returned value is a complete result, passed
  with exit code 0 and not timed out, their ids are distinct and are the ids of the policy's required
  checks, all of them; a missing, unknown, repeated or malformed one is a failure.\<close>

theorem checks_read_fail_closed:
  "ca_evidenceFailures (assessTrustedChecks (normalize_results rs) p) = [] \<and>
   ca_resultFailures (assessTrustedChecks (normalize_results rs) p) = [] \<longleftrightarrow>
     (\<forall>r \<in> set rs. raw_passed r) \<and> distinct (map rk_id rs) \<and>
     (\<lambda>r. case rk_id r of Text t \<Rightarrow> JStr t | _ \<Rightarrow> JNull) ` set rs = rc_id ` set (requiredChecks p)"
proof -
  let ?name = "\<lambda>r. case rk_id r of Text t \<Rightarrow> JStr t | _ \<Rightarrow> JNull"
  let ?norm = "\<lambda>(i, r). normalizeCheckResult r i"
  let ?pairs = "indexed rs"
  have vals: "map snd ?pairs = rs" by (simp add: indexed_def)
  then have members: "snd ` set ?pairs = set rs" by (metis set_map)
  have pass: "check_status (?norm x) = ''PASS'' \<and> check_exitCode (?norm x) = Some 0 \<and> \<not> check_timedOut (?norm x) \<longleftrightarrow>
      raw_passed (snd x)" for x
    by (cases x) (auto simp: normalized_passes raw_passed_def valid_fields)
  have all: "(\<forall>c \<in> set (normalize_results rs). check_status c = ''PASS'' \<and> check_exitCode c = Some 0 \<and> \<not> check_timedOut c) \<longleftrightarrow>
      (\<forall>r \<in> set rs. raw_passed r)"
    unfolding normalize_results_def set_map ball_simps pass members [symmetric] by blast
  have same: "distinct (map check_id (normalize_results rs)) \<and>
      set (map (\<lambda>c. JStr (check_id c)) (normalize_results rs)) = rc_id ` set (requiredChecks p) \<longleftrightarrow>
      distinct (map rk_id rs) \<and> ?name ` set rs = rc_id ` set (requiredChecks p)" if "\<forall>r \<in> set rs. raw_passed r"
  proof -
    have named: "\<exists>t. rk_id (snd x) = Text t \<and> check_id (?norm x) = t" if "x \<in> set ?pairs" for x
    proof -
      have "raw_passed (snd x)" using that \<open>\<forall>r \<in> set rs. raw_passed r\<close> members by blast
      then obtain t where "rk_id (snd x) = Text t" using valid_id by (auto simp: raw_passed_def)
      then show ?thesis by (cases x) (simp add: normalized_id)
    qed
    then have ids: "map rk_id (map snd ?pairs) = map Text (map check_id (map ?norm ?pairs))" using named by auto
    have "distinct (map rk_id rs) \<longleftrightarrow> distinct (map check_id (normalize_results rs))"
      using ids unfolding vals normalize_results_def by (simp add: distinct_map inj_on_def)
    moreover have "?name ` set rs = set (map (\<lambda>c. JStr (check_id c)) (normalize_results rs))"
      using named unfolding members [symmetric] normalize_results_def by force
    ultimately show ?thesis by simp
  qed
  show ?thesis unfolding assessment_clean required_passed_def set_map [of rc_id] using all same by blast
qed

definition ex_raw :: raw_check where
  "ex_raw = \<lparr>rk_id = Text ''workspace-sanity'', rk_status = Text ''PASS'', rk_exitCode = Whole 0, rk_durationMs = Whole 5,
     rk_output = Text ''ok'', rk_timedOut = Truth False\<rparr>"

definition ex_check_policy :: policy where
  "ex_check_policy = defaultCommitGatePolicy\<lparr>requiredChecks := [WORKSPACE_SANITY_CHECK]\<rparr>"

theorem checks_read_fail_closed_witness:
  "ca_evidenceFailures (assessTrustedChecks (normalize_results [ex_raw]) ex_check_policy) = [] \<and>
   ca_evidenceFailures (assessTrustedChecks (normalize_results [ex_raw, ex_raw\<lparr>rk_id := Other\<rparr>]) ex_check_policy) \<noteq> []"
proof -
  have "raw_passed ex_raw" by (simp add: raw_passed_def structurallyValid_def ex_raw_def check_statuses_def)
  then have "ca_evidenceFailures (assessTrustedChecks (normalize_results [ex_raw]) ex_check_policy) = []"
    using checks_read_fail_closed [of "[ex_raw]" ex_check_policy]
    by (simp add: ex_raw_def ex_check_policy_def WORKSPACE_SANITY_CHECK_def)
  moreover have "ca_evidenceFailures (assessTrustedChecks (normalize_results [ex_raw, ex_raw\<lparr>rk_id := Other\<rparr>]) ex_check_policy) \<noteq> []"
    by code_simp
  ultimately show ?thesis by blast
qed

end
