(* ===== verification/Proposal_Store.thy ===== *)
theory Proposal_Store
  imports Recovery
begin

text \<open>
  The store of sealed proposals (\<^verbatim>\<open>commitgate/sealed-proposal-store.ts\<close>): a candidate tree is copied
  into a payload directory that is named by its content and loses its write bits, a manifest
  sidecar and the proposal's metadata are written after it. Metadata and sidecars are files by
  path; payloads are directories of the workspace transaction's state, and every input or output
  may fail or be the last (\<open>Crash\<close>). Reading a proposal back checks the payload against the
  sidecar and the sidecar against the metadata.
\<close>

record proposal_world = receipt_world +
  gw_proposals :: "string \<rightharpoonup> sealed_proposal"
  gw_manifests :: "string \<rightharpoonup> snapshot_manifest"

type_synonym ('r, 'a) proposal_op = "('r proposal_world_scheme, tx_error, 'a) eff"

record seal_input =
  sl_runId :: string
  sl_agentId :: string
  sl_controlPath :: string
  sl_candidatePath :: string
  sl_baseViewId :: string
  sl_changedPathsDigest :: string
  sl_runtimeTeardownDigest :: string
  sl_expectedCandidateHash :: "string option"
  sl_sealedAt :: "string option"

record resolved_proposal =
  rs_proposal :: sealed_proposal
  rs_payloadPath :: string
  rs_manifest :: snapshot_manifest

subsection \<open>Names and errors\<close>

definition invalid_candidate_prefixes :: "string list" where
  "invalid_candidate_prefixes =
     [''SPECIAL_FILE:'', ''SYMLINK_FILE:'', ''HARDLINK_FILE:'', ''CASEFOLD_PATH_COLLISION:'', ''UNICODE_NORMALIZATION_COLLISION:'']"

definition classifyManifestFailure :: "tx_error \<Rightarrow> tx_error" where
  "classifyManifestFailure e = (let message = error_text e in
     if list_ex (starts_with message) invalid_candidate_prefixes then SealError ''CANDIDATE_INVALID'' message
     else SealError ''CANDIDATE_MUTATED'' message)"

definition metadataPath :: "string \<Rightarrow> string \<Rightarrow> string res" where
  "metadataPath controlPath proposalId =
     (let result = controlPath @ ''/proposals/'' @ proposalId @ ''.json''
      in bindE (assertContained controlPath result ''proposal metadata path'') (\<lambda>_. Inr result))"

definition manifestPath :: "string \<Rightarrow> string \<Rightarrow> string res" where
  "manifestPath controlPath proposalId =
     (let result = controlPath @ ''/proposals/'' @ proposalId @ ''.manifest.json''
      in bindE (assertContained controlPath result ''proposal manifest path'') (\<lambda>_. Inr result))"

definition payloadPath :: "string \<Rightarrow> string \<Rightarrow> string \<Rightarrow> string res" where
  "payloadPath controlPath artifactHash proposalId =
     (if \<not> is_hex 64 artifactHash then Inl (JsError ''Proposal artifact hash is invalid'')
      else let result = controlPath @ ''/sealed/payloads/'' @ artifactHash @ ''/'' @ proposalId
           in bindE (assertContained controlPath result ''proposal payload path'') (\<lambda>_. Inr result))"

definition runtimeTeardownDigest :: "(string \<Rightarrow> string) \<Rightarrow> key_order \<Rightarrow> json \<Rightarrow> string" where
  "runtimeTeardownDigest H le value =
     sha256Canonical H le (JObj [(''schemaVersion'', JNum 1), (''teardown'', JStr (canonicalJson le value))])"

definition proposal_id :: "(string \<Rightarrow> string) \<Rightarrow> key_order \<Rightarrow> seal_input \<Rightarrow> string \<Rightarrow> string" where
  "proposal_id H le i artifactHash = ''p-'' @ sha256Canonical H le (JObj
     [(''runId'', JStr (sl_runId i)), (''agentId'', JStr (sl_agentId i)), (''baseViewId'', JStr (sl_baseViewId i)),
      (''artifactHash'', JStr artifactHash), (''changedPathsDigest'', JStr (sl_changedPathsDigest i)),
      (''runtimeTeardownDigest'', JStr (sl_runtimeTeardownDigest i))])"

subsection \<open>Files\<close>

definition read_proposal :: "string \<Rightarrow> ('r, sealed_proposal) proposal_op" where
  "read_proposal p = bindS look (\<lambda>_. bindS (getS (\<lambda>s. gw_proposals s p)) (\<lambda>v.
     case v of None \<Rightarrow> tx_throw ''ENOENT'' | Some x \<Rightarrow> returnS x))"

definition write_proposal :: "string \<Rightarrow> sealed_proposal \<Rightarrow> ('r, unit) proposal_op" where
  "write_proposal p x = io (\<lambda>s. s\<lparr>gw_proposals := (gw_proposals s)(p \<mapsto> x)\<rparr>) (\<lambda>t s. s)"

definition read_manifest :: "string \<Rightarrow> ('r, snapshot_manifest) proposal_op" where
  "read_manifest p = bindS look (\<lambda>_. bindS (getS (\<lambda>s. gw_manifests s p)) (\<lambda>v.
     case v of None \<Rightarrow> tx_throw ''ENOENT'' | Some x \<Rightarrow> returnS x))"

definition write_manifest :: "string \<Rightarrow> snapshot_manifest \<Rightarrow> ('r, unit) proposal_op" where
  "write_manifest p x = io (\<lambda>s. s\<lparr>gw_manifests := (gw_manifests s)(p \<mapsto> x)\<rparr>) (\<lambda>t s. s)"

text \<open>Both walk the tree below a path; a link or special file in a payload stops the first, under its path.
  The second also changes the mode of what a link points to; that file is not part of the tree.\<close>

fun makeReadonly :: "string \<Rightarrow> fs_node \<Rightarrow> fs_node res"
  and readonly_all :: "string \<Rightarrow> (string \<times> fs_node) list \<Rightarrow> (string \<times> fs_node) list res" where
  "makeReadonly item (FDir s cs) =
     bindE (readonly_all item cs) (\<lambda>cs'. Inr (FDir (with_mode (without_write (permission_bits (st_mode s))) s) cs'))"
| "makeReadonly item (FFile s b u) = Inr (FFile (with_mode (without_write (permission_bits (st_mode s))) s) b u)"
| "makeReadonly item (FLink s t) = Inl (JsError (''SEALED_PAYLOAD_SYMLINK:'' @ item))"
| "makeReadonly item (FSpecial s) = Inl (JsError (''SEALED_PAYLOAD_SPECIAL_FILE:'' @ item))"
| "readonly_all root [] = Inr []"
| "readonly_all root ((name, n) # cs) =
     bindE (makeReadonly (root @ ''/'' @ name) n) (\<lambda>n'. bindE (readonly_all root cs) (\<lambda>cs'. Inr ((name, n') # cs')))"

definition seal_tree :: "string \<Rightarrow> fs_node \<Rightarrow> fs_node res" where
  "seal_tree root t = (case t of FDir s cs \<Rightarrow> makeReadonly root t | _ \<Rightarrow> Inl (JsError ''SEALED_PAYLOAD_ROOT_INVALID''))"

fun mutable_tree :: "fs_node \<Rightarrow> fs_node" where
  "mutable_tree (FDir s cs) = FDir (with_mode 448 s) (map (\<lambda>(name, n). (name, mutable_tree n)) cs)"
| "mutable_tree (FFile s b u) = FFile (with_mode 384 s) b u"
| "mutable_tree (FSpecial s) = FSpecial (with_mode 384 s)"
| "mutable_tree (FLink s t) = FLink s t"

definition makeMutable :: "string \<Rightarrow> ('r, unit) tx" where
  "makeMutable p = bindS (pathExists p) (\<lambda>there.
     if there then change_tree p (\<lambda>t. Inr (mutable_tree t)) else returnS ())"

text \<open>\<^verbatim>\<open>m.catch(() => undefined)\<close>.\<close>

definition quietly :: "('r, 'a) tx \<Rightarrow> ('r, unit) tx" where
  "quietly m = catchS (bindS m (\<lambda>_. returnS ())) (\<lambda>_. returnS ())"

subsection \<open>Reading a proposal back\<close>

definition seal_corrupt :: "tx_error \<Rightarrow> ('r, 'a) tx" where
  "seal_corrupt e = throwS (SealError ''SEALED_PAYLOAD_CORRUPT'' (error_text e))"

definition resolve_manifest :: "tx_env \<Rightarrow> string \<Rightarrow> string \<Rightarrow> string \<Rightarrow> ('r, snapshot_manifest) proposal_op" where
  "resolve_manifest te controlPath proposalId payload =
     catchS (bindS (tx_res (manifestPath controlPath proposalId)) (\<lambda>path.
             bindS (read_manifest path) (\<lambda>m.
             bindS (assertReadonlySealedPayload te payload m) (\<lambda>_. returnS m)))) seal_corrupt"

definition seal_resolve :: "key_order \<Rightarrow> tx_env \<Rightarrow> string \<Rightarrow> string \<Rightarrow> ('r, resolved_proposal) proposal_op" where
  "seal_resolve le te controlPath proposalId =
     bindS (tx_res (assertSafeIdentifier proposalId ''proposalId'')) (\<lambda>_.
     bindS (tx_res (metadataPath controlPath proposalId)) (\<lambda>path.
     bindS (read_proposal path) (\<lambda>p.
     if sp_schemaVersion p \<noteq> 1 \<or> sp_proposalId p \<noteq> proposalId \<or> sp_state p \<noteq> SEALED
     then seal_throw ''SEALED_PROPOSAL_METADATA_INVALID''
     else
       bindS (tx_res (payloadPath controlPath (sp_artifactHash p) proposalId)) (\<lambda>payload.
       bindS (tx_res (assertContained controlPath payload ''sealed proposal payload'')) (\<lambda>_.
       bindS (resolve_manifest te controlPath proposalId payload) (\<lambda>m.
       if sm_hash m \<noteq> sp_manifestHash p \<or> artifact_hash (we_H (te_walk te)) le m \<noteq> sp_artifactHash p
       then seal_throw ''SEALED_PAYLOAD_DIGEST_MISMATCH''
       else returnS \<lparr>rs_proposal = p, rs_payloadPath = payload, rs_manifest = m\<rparr>))))))"

text \<open>The metadata alone, also of a destroyed proposal.\<close>

definition seal_describe :: "(string \<Rightarrow> string) \<Rightarrow> key_order \<Rightarrow> string \<Rightarrow> string \<Rightarrow> ('r, resolved_proposal) proposal_op" where
  "seal_describe H le controlPath proposalId =
     bindS (tx_res (assertSafeIdentifier proposalId ''proposalId'')) (\<lambda>_.
     bindS (tx_res (metadataPath controlPath proposalId)) (\<lambda>path.
     bindS (read_proposal path) (\<lambda>p.
     if sp_schemaVersion p \<noteq> 1 \<or> sp_proposalId p \<noteq> proposalId
     then seal_throw ''SEALED_PROPOSAL_METADATA_INVALID''
     else
       bindS (tx_res (manifestPath controlPath proposalId)) (\<lambda>sidecar.
       bindS (read_manifest sidecar) (\<lambda>m.
       if sm_schemaVersion m \<noteq> 2 \<or> sm_hash m \<noteq> sp_manifestHash p \<or> artifact_hash H le m \<noteq> sp_artifactHash p
       then seal_throw ''SEALED_PROPOSAL_DESCRIPTOR_DIGEST_MISMATCH''
       else bindS (tx_res (payloadPath controlPath (sp_artifactHash p) (sp_proposalId p))) (\<lambda>payload.
              returnS \<lparr>rs_proposal = p, rs_payloadPath = payload, rs_manifest = m\<rparr>))))))"

subsection \<open>Sealing\<close>

definition sealed_tmp :: "seal_input \<Rightarrow> string \<Rightarrow> string" where
  "sealed_tmp i proposalId =
     sl_controlPath i @ ''/sealed/tmp/'' @ sl_runId i @ ''-'' @ drop (length proposalId - 12) proposalId"

definition new_proposal :: "tx_env \<Rightarrow> seal_input \<Rightarrow> string \<Rightarrow> string \<Rightarrow> string \<Rightarrow> sealed_proposal" where
  "new_proposal te i proposalId artifactHash manifestHash =
     \<lparr>sp_schemaVersion = 1, sp_proposalId = proposalId, sp_runId = sl_runId i, sp_agentId = sl_agentId i,
      sp_baseViewId = sl_baseViewId i, sp_artifactHash = artifactHash, sp_manifestHash = manifestHash,
      sp_changedPathsDigest = sl_changedPathsDigest i, sp_runtimeTeardownDigest = sl_runtimeTeardownDigest i,
      sp_state = SEALED, sp_sealedAt = (case sl_sealedAt i of Some t \<Rightarrow> t | None \<Rightarrow> te_now te)\<rparr>"

text \<open>The copy taken, compared with its source, put under its name and made read-only.\<close>

definition import_payload :: "key_order \<Rightarrow> tx_env \<Rightarrow> seal_input \<Rightarrow> snapshot_manifest \<Rightarrow> string \<Rightarrow> string \<Rightarrow> ('r, snapshot_manifest) tx" where
  "import_payload le te i sourceBefore tmp payload =
     bindS (copy_dir te (sl_candidatePath i) tmp authoritative True) (\<lambda>_.
     bindS (manifest_at te authoritative (sl_candidatePath i)) (\<lambda>sourceAfter.
     bindS (manifest_at te authoritative tmp) (\<lambda>copied.
     if sm_hash sourceBefore \<noteq> sm_hash sourceAfter \<or> sm_hash sourceBefore \<noteq> sm_hash copied
     then throwS (SealError ''CANDIDATE_MUTATED'' ''CANDIDATE_MUTATED_DURING_SEAL'')
     else if artifact_hash (we_H (te_walk te)) le copied \<noteq> artifact_hash (we_H (te_walk te)) le sourceBefore
     then throwS (SealError ''CANDIDATE_MUTATED'' ''SEALED_ARTIFACT_DIGEST_MISMATCH'')
     else
       bindS look (\<lambda>_.
       bindS (rename_dir tmp payload) (\<lambda>_.
       bindS (change_tree payload (seal_tree payload)) (\<lambda>_. returnS copied))))))"

definition publish_proposal :: "string \<Rightarrow> string \<Rightarrow> sealed_proposal \<Rightarrow> snapshot_manifest \<Rightarrow> ('r, unit) proposal_op" where
  "publish_proposal controlPath metadata p m =
     bindS (tx_res (manifestPath controlPath (sp_proposalId p))) (\<lambda>sidecar.
     bindS (write_manifest sidecar m) (\<lambda>_. write_proposal metadata p))"

definition discard_payload :: "string \<Rightarrow> string \<Rightarrow> ('r, unit) tx" where
  "discard_payload tmp payload =
     bindS (quietly (makeMutable tmp)) (\<lambda>_. bindS (quietly (rm_dir tmp)) (\<lambda>_.
     bindS (quietly (makeMutable payload)) (\<lambda>_. quietly (rm_dir payload))))"

fun is_seal_error :: "tx_error \<Rightarrow> bool" where
  "is_seal_error (SealError code msg) \<longleftrightarrow> True"
| "is_seal_error e \<longleftrightarrow> False"

definition seal_new :: "key_order \<Rightarrow> tx_env \<Rightarrow> seal_input \<Rightarrow> snapshot_manifest \<Rightarrow> string \<Rightarrow> string \<Rightarrow> string \<Rightarrow>
    ('r, resolved_proposal) proposal_op" where
  "seal_new le te i sourceBefore proposalId metadata payload =
     (let artifactHash = artifact_hash (we_H (te_walk te)) le sourceBefore; tmp = sealed_tmp i proposalId in
     bindS (tx_res (assertContained (sl_controlPath i) tmp ''sealed temp path'')) (\<lambda>_.
     bindS (rm_dir tmp) (\<lambda>_.
     catchS
       (bindS (import_payload le te i sourceBefore tmp payload) (\<lambda>m.
        let p = new_proposal te i proposalId artifactHash (sm_hash m) in
        bindS (publish_proposal (sl_controlPath i) metadata p m) (\<lambda>_.
        returnS \<lparr>rs_proposal = p, rs_payloadPath = payload, rs_manifest = m\<rparr>)))
       (\<lambda>e. bindS (discard_payload tmp payload) (\<lambda>_.
             throwS (if is_seal_error e then e else classifyManifestFailure e))))))"

definition seal :: "key_order \<Rightarrow> tx_env \<Rightarrow> seal_input \<Rightarrow> ('r, resolved_proposal) proposal_op" where
  "seal le te i =
     bindS (tx_res (assertSafeIdentifier (sl_runId i) ''runId'')) (\<lambda>_.
     bindS (tx_res (assertSafeIdentifier (sl_agentId i) ''agentId'')) (\<lambda>_.
     bindS (tx_res (assertContained (sl_controlPath i) (sl_candidatePath i) ''candidate path'')) (\<lambda>_.
     bindS (catchS (manifest_at te authoritative (sl_candidatePath i)) (\<lambda>e. throwS (classifyManifestFailure e))) (\<lambda>sourceBefore.
     if (case expected_hash (sl_expectedCandidateHash i) of None \<Rightarrow> False | Some h \<Rightarrow> sm_hash sourceBefore \<noteq> h)
     then throwS (SealError ''CANDIDATE_MUTATED'' ''CANDIDATE_CHANGED_BEFORE_SEAL'')
     else
       let artifactHash = artifact_hash (we_H (te_walk te)) le sourceBefore;
           proposalId = proposal_id (we_H (te_walk te)) le i artifactHash in
       bindS (tx_res (payloadPath (sl_controlPath i) artifactHash proposalId)) (\<lambda>payload.
       bindS (tx_res (metadataPath (sl_controlPath i) proposalId)) (\<lambda>metadata.
       bindS look (\<lambda>_. bindS (getS (\<lambda>s. gw_proposals s metadata)) (\<lambda>there.
       if there \<noteq> None
       then bindS (read_proposal metadata) (\<lambda>existing. seal_resolve le te (sl_controlPath i) (sp_proposalId existing))
       else seal_new le te i sourceBefore proposalId metadata payload))))))))"

definition seal_destroy :: "string \<Rightarrow> string \<Rightarrow> ('r, unit) proposal_op" where
  "seal_destroy controlPath proposalId =
     bindS (tx_res (assertSafeIdentifier proposalId ''proposalId'')) (\<lambda>_.
     bindS (tx_res (metadataPath controlPath proposalId)) (\<lambda>metadata.
     bindS look (\<lambda>_. bindS (getS (\<lambda>s. gw_proposals s metadata)) (\<lambda>there.
     if there = None then returnS ()
     else bindS (read_proposal metadata) (\<lambda>p.
       if sp_state p = DESTROYED then returnS ()
       else bindS (tx_res (payloadPath controlPath (sp_artifactHash p) (sp_proposalId p))) (\<lambda>payload.
            bindS (quietly (makeMutable payload)) (\<lambda>_.
            bindS (rm_dir payload) (\<lambda>_.
            write_proposal metadata (p\<lparr>sp_state := DESTROYED\<rparr>)))))))))"

end
