(* ===== verification/Coordinator.thy ===== *)
theory Coordinator
  imports Gate_Checks Proposal_Store
begin

text \<open>
  The in-process commit gate (\<^verbatim>\<open>commitgate/coordinator.ts\<close>): it prepares a candidate from the
  workspace, seals it, lets the verifier run over the sealed payload, issues and claims a promotion
  permit, promotes through the workspace transaction and keeps the promotion pending until the
  database has committed. This is the variant that drives the transaction itself
  (\<^verbatim>\<open>options.transaction\<close>); the other hands the same inputs to a transition authority.

  The verifier, the description of its environment and the provider of state views are arguments:
  the first may change any part of the state, the other two read it. Making a control directory is an
  input or output with no effect of its own. The time stamps of one
  call are one argument; a promise that fails first is the first failure. A call to the permit store
  fails as a whole or not at all. \<^verbatim>\<open>signal.aborted\<close> is asked at three points.
\<close>

subsection \<open>Data\<close>

record prepared_candidate =
  pc_runId :: string
  pc_agentId :: string
  pc_persistentPath :: string
  pc_controlPath :: string
  pc_candidatePath :: string
  pc_verifyPath :: string
  pc_baseManifest :: snapshot_manifest
  pc_baseSnapshotHash :: string
  pc_baseView :: state_view
  pc_policy :: policy
  pc_policyHash :: string
  pc_policyPath :: "string option"
  pc_runLeaseId :: string
  pc_runtimeTeardownDigest :: string
  pc_runtimeTeardownVerified :: bool
  pc_sessionEpoch :: int
  pc_provider :: "provider_identity option"
  pc_startedAt :: string

record pending_promotion =
  pn_prepared :: prepared_candidate
  pn_journalPath :: string
  pn_backupPath :: string
  pn_settled :: bool
  pn_receipt :: gate_receipt
  pn_sealed :: resolved_proposal
  pn_permit :: promotion_permit
  pn_capability :: promotion_capability

record gate_world = proposal_world +
  gw_permits :: promotion_store
  gw_policies :: "string \<rightharpoonup> policy_file"
  gw_pending :: "string \<rightharpoonup> pending_promotion"

type_synonym ('r, 'a) gate_op = "('r gate_world_scheme, tx_error, 'a) eff"

record prepare_input =
  pq_runId :: string
  pq_agentId :: string
  pq_persistentPath :: string
  pq_sessionEpoch :: "int option"
  pq_policy :: "policy option"
  pq_runLeaseId :: "string option"
  pq_expectedBaseViewId :: "string option"
  pq_stateGeneration :: "int option"
  pq_expectedHeadVersionId :: "string option"
  pq_agentConfigVersion :: "int option"
  pq_policyVersion :: "int option"
  pq_provider :: "provider_identity option"

record admission_failure =
  af_runId :: string
  af_agentId :: string
  af_sessionEpoch :: int
  af_baseViewId :: "string option"
  af_stateGeneration :: "int option"
  af_baseLiveStateHash :: "string option"
  af_startedAt :: "string option"
  af_provider :: "provider_identity option"

record expected_metadata =
  xp_generation :: "int option"
  xp_headVersionId :: "string option"
  xp_agentConfigVersion :: "int option"
  xp_policyVersion :: "int option"

record verifier_environment =
  vn_imageReference :: string
  vn_imageId :: string
  vn_imageDigest :: string
  vn_configHash :: string
  vn_checkBundleHash :: string
  vn_resourcePolicyHash :: "string option"
  vn_sourceRevision :: "string option"

record run_request =
  rq_runId :: string
  rq_agentId :: string
  rq_verifyPath :: string
  rq_trustedChecksPath :: string
  rq_checks :: "required_check list"
  rq_timeoutMs :: int
  rq_maxOutputBytes :: int
  rq_proposalId :: string
  rq_evaluationContextHash :: string
  rq_checkBundleHash :: string

datatype abort_point = AtStart | BeforeContext | InVerifier

record 'w gate_env =
  ge_vs :: vs_env
  ge_workspaceRoot :: string
  ge_trustedChecksRoot :: string
  ge_defaultPolicy :: policy
  ge_sensitive :: "string list"
  ge_storeSensitive :: "string list"
  ge_requireTrustedChecks :: bool
  ge_requireTeardown :: bool
  ge_sourceRevision :: string
  ge_limits :: resource_limits
  ge_clock :: int
  ge_uuid :: string
  ge_nonce :: string
  ge_aborted :: "abort_point \<Rightarrow> string option"
  ge_verifierName :: string
  ge_describe :: "'w \<Rightarrow> string \<Rightarrow> verifier_environment option res"
  ge_run :: "run_request \<Rightarrow> ('w, tx_error, raw_check list) eff"
  ge_viewProvider :: "('w \<Rightarrow> state_view_input \<Rightarrow> state_view res) option"

subsection \<open>The environment under a policy\<close>

definition gate_vs :: "'w gate_env \<Rightarrow> policy \<Rightarrow> vs_env" where
  "gate_vs env p = (ge_vs env)\<lparr>vs_tx := (vs_tx (ge_vs env))\<lparr>te_walk := (te_walk (vs_tx (ge_vs env)))\<lparr>we_policy := p\<rparr>\<rparr>\<rparr>"

abbreviation gate_tx :: "'w gate_env \<Rightarrow> policy \<Rightarrow> tx_env" where
  "gate_tx env p \<equiv> vs_tx (gate_vs env p)"

abbreviation ge_now :: "'w gate_env \<Rightarrow> string" where
  "ge_now env \<equiv> te_now (vs_tx (ge_vs env))"

abbreviation ge_le :: "'w gate_env \<Rightarrow> key_order" where
  "ge_le env \<equiv> vs_le (ge_vs env)"

abbreviation ge_H :: "'w gate_env \<Rightarrow> string \<Rightarrow> string" where
  "ge_H env \<equiv> we_H (te_walk (vs_tx (ge_vs env)))"

abbreviation ge_controlRoot :: "'w gate_env \<Rightarrow> string" where
  "ge_controlRoot env \<equiv> vs_controlRoot (ge_vs env)"

text \<open>A call to the permit store.\<close>

definition with_permits :: "'a promotion_op \<Rightarrow> ('r, 'a) gate_op" where
  "with_permits m = bindS look (\<lambda>_. (\<lambda>s. case m (gw_permits s) of (r, p) \<Rightarrow> (mapErr PermitFault r, s\<lparr>gw_permits := p\<rparr>)))"

text \<open>\<^verbatim>\<open>try m catch (e) h(e)\<close> followed by \<open>f\<close>, which the handler does not cover.\<close>

definition tryS :: "('r, 'a) tx \<Rightarrow> (tx_error \<Rightarrow> ('r, 'b) tx) \<Rightarrow> ('a \<Rightarrow> ('r, 'b) tx) \<Rightarrow> ('r, 'b) tx" where
  "tryS m h f = bindS (catchS (bindS m (\<lambda>x. returnS (Inr x))) (\<lambda>e. returnS (Inl e)))
     (\<lambda>r. case r of Inl e \<Rightarrow> h e | Inr x \<Rightarrow> f x)"

subsection \<open>Policies and views\<close>

definition policy_file_of :: "string \<Rightarrow> 'r gate_world_scheme \<Rightarrow> policy_file" where
  "policy_file_of path s = (case gw_policies s path of None \<Rightarrow> MissingFile | Some f \<Rightarrow> f)"

definition policyForAgent :: "('r gate_world_scheme) gate_env \<Rightarrow> string \<Rightarrow> ('r, policy) gate_op" where
  "policyForAgent env agentId =
     bindS look (\<lambda>_.
     bindS (tx_res (assertSafeIdentifier agentId ''agentId'')) (\<lambda>_.
     bindS look (\<lambda>_.
     let path = ge_controlRoot env @ ''/'' @ agentId @ ''/policy.json'' in
     bindS (getS (\<lambda>s. gw_policies s path)) (\<lambda>f.
     case f of
       Some file \<Rightarrow> bindS look (\<lambda>_. tx_res (loadPolicy file))
     | None \<Rightarrow>
         bindS (tx_res (validatePolicy (policy_json (ge_defaultPolicy env)))) (\<lambda>p.
         bindS (io (\<lambda>s. s\<lparr>gw_policies := (gw_policies s)(path \<mapsto> PolicyDocument (policy_json p))\<rparr>) (\<lambda>t s. s)) (\<lambda>_.
         returnS p))))))"

definition coordinator_initializeAgent :: "('r gate_world_scheme) gate_env \<Rightarrow> string \<Rightarrow> string \<Rightarrow> ('r, version_record) gate_op" where
  "coordinator_initializeAgent env agentId persistentPath =
     bindS (policyForAgent env agentId) (\<lambda>p. initializeAgent (gate_vs env p) agentId persistentPath)"

definition createStateViewRef :: "(string \<Rightarrow> string) \<Rightarrow> state_view_input \<Rightarrow> state_view res" where
  "createStateViewRef H i =
     bindE (protocol_computeStateViewId H (makeStateView H i)) (\<lambda>h. Inr ((makeStateView H i)\<lparr>viewId := h\<rparr>))"

definition tree_manifest :: "tx_env \<Rightarrow> path_class list \<Rightarrow> string \<Rightarrow> 'r control_scheme \<Rightarrow> snapshot_manifest res" where
  "tree_manifest te include p s =
     (case c_dirs s p of None \<Rightarrow> Inl (JsError ''ENOENT'') | Some t \<Rightarrow> manifest_of te include t)"

definition head_of :: "vs_env \<Rightarrow> string \<Rightarrow> 'r version_world_scheme \<Rightarrow> version_record option res" where
  "head_of env agentId s =
     bindE (agentRoot env agentId) (\<lambda>_.
       let vi = (case vw_indexes s agentId of None \<Rightarrow> empty_index agentId | Some vi \<Rightarrow> vi)
       in Inr (find_version vi (vi_headVersionId vi)))"

definition view_for_other_bytes :: "string \<Rightarrow> state_view_input \<Rightarrow> state_view \<Rightarrow> bool" where
  "view_for_other_bytes agentId i v \<longleftrightarrow> view_agentId v \<noteq> agentId \<or> versionedHash v \<noteq> versionedHash i \<or>
     platformManagedHash v \<noteq> platformManagedHash i \<or> liveStateHash v \<noteq> liveStateHash i"

text \<open>What \<^verbatim>\<open>captureStateView\<close> reads and makes of a state. The schema version of a policy is 1 (\<open>validatePolicy\<close>).\<close>

definition view_of :: "('r gate_world_scheme) gate_env \<Rightarrow> string \<Rightarrow> string \<Rightarrow> policy \<Rightarrow> int \<Rightarrow> expected_metadata \<Rightarrow>
    'r gate_world_scheme \<Rightarrow> state_view res" where
  "view_of env agentId persistentPath p epoch expected s =
     (let te = gate_tx env p in
     bindE (tree_manifest te authoritative persistentPath s) (\<lambda>live.
     bindE (tree_manifest te [Versioned] persistentPath s) (\<lambda>versioned.
     bindE (tree_manifest te [PlatformManaged] persistentPath s) (\<lambda>platform.
     bindE (head_of (gate_vs env p) agentId s) (\<lambda>head.
     case head of
       None \<Rightarrow> Inl (JsError ''StateView requires an initialized version head'')
     | Some h \<Rightarrow>
         let i = \<lparr>view_agentId = agentId, headVersionId = override (xp_headVersionId expected) (ve_id h),
               generation = override (xp_generation expected) (ve_sequence h), versionedHash = sm_hash versioned,
               platformManagedHash = sm_hash platform, liveStateHash = sm_hash live, sessionEpoch = epoch,
               agentConfigVersion = override (xp_agentConfigVersion expected) 1,
               policyVersion = override (xp_policyVersion expected) 1\<rparr>
         in bindE (case ge_viewProvider env of Some f \<Rightarrow> f s i | None \<Rightarrow> createStateViewRef (ge_H env) i) (\<lambda>v.
            bindE (assertStateViewRef (ge_H env) v) (\<lambda>_.
            if view_for_other_bytes agentId i v
            then Inl (JsError ''StateView provider returned a view for different bytes'') else Inr v)))))))"

definition captureStateView :: "('r gate_world_scheme) gate_env \<Rightarrow> string \<Rightarrow> string \<Rightarrow> policy \<Rightarrow> int \<Rightarrow> expected_metadata \<Rightarrow>
    ('r, state_view) gate_op" where
  "captureStateView env agentId persistentPath p epoch expected =
     bindS look (\<lambda>_. bindS (getS (view_of env agentId persistentPath p epoch expected)) (\<lambda>r. tx_res r))"

definition base_metadata :: "state_view \<Rightarrow> expected_metadata" where
  "base_metadata v = \<lparr>xp_generation = Some (generation v), xp_headVersionId = Some (headVersionId v),
     xp_agentConfigVersion = Some (agentConfigVersion v), xp_policyVersion = Some (policyVersion v)\<rparr>"

text \<open>The view now, under the base view's own metadata.\<close>

definition current_view :: "('r gate_world_scheme) gate_env \<Rightarrow> prepared_candidate \<Rightarrow> 'r gate_world_scheme \<Rightarrow> state_view res" where
  "current_view env c = view_of env (pc_agentId c) (pc_persistentPath c) (pc_policy c)
     (sessionEpoch (pc_baseView c)) (base_metadata (pc_baseView c))"

definition describeVerifierEnvironment :: "('r gate_world_scheme) gate_env \<Rightarrow> string \<Rightarrow> 'r gate_world_scheme \<Rightarrow> verifier_environment res" where
  "describeVerifierEnvironment env runId s =
     bindE (ge_describe env s runId) (\<lambda>described.
     case described of
       Some d \<Rightarrow> Inr d
     | None \<Rightarrow>
         let identity = (if ge_verifierName env = [] then ''VerifierRunner'' else ge_verifierName env)
         in Inr \<lparr>vn_imageReference = ''unreported:'' @ identity, vn_imageId = ''unreported'',
              vn_imageDigest = sha256Canonical (ge_H env) (ge_le env) (JObj [(''unreportedVerifier'', JStr identity)]),
              vn_configHash = sha256Canonical (ge_H env) (ge_le env) (JObj [(''unreportedConfig'', JStr identity)]),
              vn_checkBundleHash = ''unreported'', vn_resourcePolicyHash = None, vn_sourceRevision = None\<rparr>)"

definition evaluation_context_of :: "('r gate_world_scheme) gate_env \<Rightarrow> prepared_candidate \<Rightarrow> resolved_proposal \<Rightarrow>
    'r gate_world_scheme \<Rightarrow> evaluation_context res" where
  "evaluation_context_of env c sealed s =
     bindE (case pc_policyPath c of
              Some path \<Rightarrow> bindE (loadPolicy (policy_file_of path s)) (policyHash (ge_H env))
            | None \<Rightarrow> policyHash (ge_H env) (pc_policy c)) (\<lambda>currentPolicyHash.
     bindE (describeVerifierEnvironment env (pc_runId c) s) (\<lambda>e.
     Inr \<lparr>ctx_schemaVersion = 1, ctx_runId = pc_runId c, ctx_agentId = pc_agentId c,
          ctx_proposalId = sp_proposalId (rs_proposal sealed), ctx_baseView = pc_baseView c,
          ctx_manifestSchemaVersion = sm_schemaVersion (rs_manifest sealed), ctx_policyHash = currentPolicyHash,
          ctx_checkBundleHash = vn_checkBundleHash e,
          ctx_checkSpecHash = computeCheckSpecHash (ge_H env) (ge_le env) (requiredChecks (pc_policy c)),
          ctx_verifierImageDigest = vn_imageDigest e,
          ctx_verifierConfigHash = sha256Canonical (ge_H env) (ge_le env) (JObj
            [(''reportedConfigHash'', JStr (vn_configHash e)), (''imageReference'', JStr (vn_imageReference e)),
             (''imageId'', JStr (vn_imageId e))]),
          ctx_resourcePolicyHash = override (vn_resourcePolicyHash e)
            (sha256Canonical (ge_H env) (ge_le env) (JObj
              [(''timeoutMs'', JNum (verifierTimeoutMs (pc_policy c))),
               (''maxOutputBytes'', JNum (verifierMaxOutputBytes (pc_policy c)))])),
          ctx_sourceRevision = override (vn_sourceRevision e) (ge_sourceRevision env)\<rparr>))"

definition context_hash_of :: "('r gate_world_scheme) gate_env \<Rightarrow> prepared_candidate \<Rightarrow> resolved_proposal \<Rightarrow>
    'r gate_world_scheme \<Rightarrow> string res" where
  "context_hash_of env c sealed s =
     bindE (evaluation_context_of env c sealed s) (computeEvaluationContextHash (ge_H env) (ge_le env))"

definition buildEvaluationContext :: "('r gate_world_scheme) gate_env \<Rightarrow> prepared_candidate \<Rightarrow> resolved_proposal \<Rightarrow>
    ('r, evaluation_context) gate_op" where
  "buildEvaluationContext env c sealed =
     bindS look (\<lambda>_. bindS (getS (evaluation_context_of env c sealed)) (\<lambda>r. tx_res r))"


subsection \<open>Preparing a candidate\<close>

definition recordRuntimeTeardown :: "(string \<Rightarrow> string) \<Rightarrow> key_order \<Rightarrow> prepared_candidate \<Rightarrow> json \<Rightarrow> prepared_candidate" where
  "recordRuntimeTeardown H le c evidence =
     c\<lparr>pc_runtimeTeardownVerified :=
         js_truthy (jfield evidence ''containerExited'') \<and> js_truthy (jfield evidence ''containerRemoved'') \<and>
         js_truthy (jfield evidence ''mountsReleased'') \<and>
         (\<not> is_true (jfield evidence ''relayCapabilityRequired'') \<or> is_true (jfield evidence ''relayCapabilityRevoked'')),
       pc_runtimeTeardownDigest := runtimeTeardownDigest H le evidence,
       pc_provider :=
         (case (pc_provider c, str_or_null (jfield evidence ''resolvedModel'')) of
            (Some p, Some m) \<Rightarrow> if trim_js m = [] then Some p else Some (p\<lparr>pv_resolvedModel := Some (trim_js m)\<rparr>)
          | _ \<Rightarrow> pc_provider c)\<rparr>"

definition unrecorded_teardown :: "string \<Rightarrow> json" where
  "unrecorded_teardown runId = JObj [(''runId'', JStr runId), (''verified'', JBool False),
     (''reason'', JStr ''runtime attestation not recorded'')]"

text \<open>\<^verbatim>\<open>await rm(candidatePath); throw new StateConflictError(message)\<close>.\<close>

definition conflict_discarding :: "string \<Rightarrow> string \<Rightarrow> ('r, 'a) tx" where
  "conflict_discarding candidatePath msg = bindS (rm_dir candidatePath) (\<lambda>_. throwS (StateConflict msg))"

definition materialize :: "tx_env \<Rightarrow> string \<Rightarrow> string \<Rightarrow> ('r, snapshot_manifest \<times> snapshot_manifest \<times> snapshot_manifest) tx" where
  "materialize te persistentPath candidatePath =
     bindS (manifest_at te authoritative persistentPath) (\<lambda>baseBefore.
     bindS (copy_dir te persistentPath candidatePath authoritative True) (\<lambda>_.
     bindS (manifest_at te authoritative candidatePath) (\<lambda>candidateBase.
     bindS (manifest_at te authoritative persistentPath) (\<lambda>baseAfter.
     returnS (baseBefore, candidateBase, baseAfter)))))"

definition prepared_from :: "('r gate_world_scheme) gate_env \<Rightarrow> prepare_input \<Rightarrow> policy \<Rightarrow> string \<Rightarrow> snapshot_manifest \<Rightarrow> state_view \<Rightarrow>
    prepared_candidate" where
  "prepared_from env i p policy_hash base v =
     (let controlPath = ge_controlRoot env @ ''/'' @ pq_agentId i in
      \<lparr>pc_runId = pq_runId i, pc_agentId = pq_agentId i, pc_persistentPath = pq_persistentPath i,
       pc_controlPath = controlPath, pc_candidatePath = controlPath @ ''/candidates/'' @ pq_runId i,
       pc_verifyPath = controlPath @ ''/verify/'' @ pq_runId i, pc_baseManifest = base,
       pc_baseSnapshotHash = sm_hash base, pc_baseView = v, pc_policy = p, pc_policyHash = policy_hash,
       pc_policyPath = (if pq_policy i = None then Some (controlPath @ ''/policy.json'') else None),
       pc_runLeaseId = override (pq_runLeaseId i) (pq_runId i),
       pc_runtimeTeardownDigest = runtimeTeardownDigest (ge_H env) (ge_le env) (unrecorded_teardown (pq_runId i)),
       pc_runtimeTeardownVerified = False, pc_sessionEpoch = sessionEpoch v, pc_provider = pq_provider i,
       pc_startedAt = ge_now env\<rparr>)"

definition input_metadata :: "prepare_input \<Rightarrow> expected_metadata" where
  "input_metadata i = \<lparr>xp_generation = pq_stateGeneration i, xp_headVersionId = pq_expectedHeadVersionId i,
     xp_agentConfigVersion = pq_agentConfigVersion i, xp_policyVersion = pq_policyVersion i\<rparr>"

text \<open>From the materialised candidate on: nothing changed meanwhile, and the view is the admitted one.\<close>

definition admit_candidate :: "('r gate_world_scheme) gate_env \<Rightarrow> prepare_input \<Rightarrow> policy \<Rightarrow> string \<Rightarrow>
    snapshot_manifest \<times> snapshot_manifest \<times> snapshot_manifest \<Rightarrow> ('r, prepared_candidate) gate_op" where
  "admit_candidate env i p candidatePath ms =
     (case ms of (baseBefore, candidateBase, baseAfter) \<Rightarrow>
      if sm_hash baseBefore \<noteq> sm_hash candidateBase \<or> sm_hash baseBefore \<noteq> sm_hash baseAfter
      then conflict_discarding candidatePath ''Workspace changed while preparing candidate''
      else
        bindS (captureStateView env (pq_agentId i) (pq_persistentPath i) p (override (pq_sessionEpoch i) 0) (input_metadata i)) (\<lambda>v.
        if liveStateHash v \<noteq> sm_hash baseBefore
        then conflict_discarding candidatePath ''Workspace changed while capturing the admitted StateView''
        else if (case expected_hash (pq_expectedBaseViewId i) of None \<Rightarrow> False | Some x \<Rightarrow> viewId v \<noteq> x)
        then conflict_discarding candidatePath ''Admitted StateView does not match RunnerRequest.baseViewId''
        else bindS (tx_res (policyHash (ge_H env) p)) (\<lambda>h. returnS (prepared_from env i p h baseBefore v))))"

definition prepare :: "('r gate_world_scheme) gate_env \<Rightarrow> prepare_input \<Rightarrow> ('r, prepared_candidate) gate_op" where
  "prepare env i =
     bindS look (\<lambda>_.
     bindS (tx_res (assertSafeIdentifier (pq_runId i) ''runId'')) (\<lambda>_.
     bindS (tx_res (assertSafeIdentifier (pq_agentId i) ''agentId'')) (\<lambda>_.
     bindS (tx_res (assertContained (ge_workspaceRoot env) (pq_persistentPath i) ''persistent workspace'')) (\<lambda>_.
     if contained (ge_controlRoot env) (pq_persistentPath i)
     then tx_throw ''Persistent workspace cannot be inside the CommitGate control plane''
     else
       let controlPath = ge_controlRoot env @ ''/'' @ pq_agentId i; candidatePath = controlPath @ ''/candidates/'' @ pq_runId i in
       bindS (tx_res (assertContained (ge_controlRoot env) controlPath ''control path'')) (\<lambda>_.
       bindS (tx_res (assertContained (ge_controlRoot env) candidatePath ''control path'')) (\<lambda>_.
       bindS (tx_res (assertContained (ge_controlRoot env) (controlPath @ ''/verify/'' @ pq_runId i) ''control path'')) (\<lambda>_.
       bindS look (\<lambda>_.
       bindS (case pq_policy i of Some p \<Rightarrow> tx_res (validatePolicy (policy_json p))
              | None \<Rightarrow> policyForAgent env (pq_agentId i)) (\<lambda>p.
       bindS (initializeAgent (gate_vs env p) (pq_agentId i) (pq_persistentPath i)) (\<lambda>_.
       bindS (materialize (gate_tx env p) (pq_persistentPath i) candidatePath) (admit_candidate env i p candidatePath)))))))))))"

subsection \<open>Receipts and summaries\<close>

record receipt_parts =
  mk_decision :: gate_decision
  mk_failureClass :: "string option"
  mk_reasonCodes :: "string list"
  mk_checks :: "check_result list"
  mk_candidateHash :: "string option"
  mk_finalHash :: string
  mk_changedPaths :: "string list"
  mk_patch :: "string option"
  mk_versionId :: "string option"
  mk_pendingAck :: bool
  mk_staticEvidence :: string
  mk_candidateCleanup :: string
  mk_proposalId :: "string option"
  mk_evaluationContextHash :: "string option"
  mk_evidenceDigest :: "string option"
  mk_permit :: "promotion_permit option"

definition receipt_status :: "receipt_parts \<Rightarrow> receipt_phase" where
  "receipt_status i = (if mk_pendingAck i then PENDING_PROMOTION
     else if mk_decision i = COMMITTED then TERMINAL else PENDING_DISPOSITION)"

definition makeReceipt :: "'w gate_env \<Rightarrow> prepared_candidate \<Rightarrow> receipt_parts \<Rightarrow> gate_receipt" where
  "makeReceipt env c i =
     (let committed = (mk_decision i = COMMITTED);
          next = (if committed then generation (pc_baseView c) + 1 else generation (pc_baseView c)) in
      sanitizeReceipt (ge_sensitive env)
        \<lparr>gr_schemaVersion = 2, gr_runId = pc_runId c, gr_agentId = pc_agentId c, gr_phase = receipt_status i,
         gr_decision = mk_decision i, gr_failureClass = mk_failureClass i, gr_reasonCodes = mk_reasonCodes i,
         gr_baseSnapshotHash = pc_baseSnapshotHash c, gr_candidateSnapshotHash = mk_candidateHash i,
         gr_patchHash = mk_patch i, gr_finalSnapshotHash = mk_finalHash i, gr_policyHash = pc_policyHash c,
         gr_policyProfile = None, gr_policyVersion = None, gr_checkSpecHash = None,
         gr_evidence = [(''static'', mk_staticEvidence i),
           (''trustedChecks'',
             if requiredChecks (pc_policy c) = [] then ''complete''
             else if ca_evidenceComplete (assessTrustedChecks (mk_checks i) (pc_policy c)) then ''complete''
             else if mk_checks i \<noteq> [] then ''partial'' else ''unavailable'')],
         gr_checks = mk_checks i, gr_changedPaths = mk_changedPaths i,
         gr_threadDisposition = (if committed then ''resumed'' else ''reset''),
         gr_candidateCleanup = mk_candidateCleanup i,
         gr_sessionEpoch = (if committed then pc_sessionEpoch c else pc_sessionEpoch c + 1),
         gr_versionId = mk_versionId i, gr_promotionPendingDatabaseAck = mk_pendingAck i,
         gr_baseView = Some (pc_baseView c), gr_nextView = None, gr_baseViewId = Some (viewId (pc_baseView c)),
         gr_finalViewId = None, gr_baseGeneration = Some (generation (pc_baseView c)),
         gr_nextGeneration = Some next, gr_generation = Some next, gr_proposalId = mk_proposalId i,
         gr_evaluationContextHash = mk_evaluationContextHash i, gr_evidenceDigest = mk_evidenceDigest i,
         gr_permitId = map_option pp_permitId (mk_permit i), gr_permitState = map_option pp_state (mk_permit i),
         gr_transactionStatus = Some (receipt_status i),
         gr_artifactRetention = Some (if mk_pendingAck i then ''sealed''
           else if mk_candidateCleanup i = ''deleted'' then ''destroyed'' else ''deferred''),
         gr_provider = pc_provider c, gr_startedAt = pc_startedAt c, gr_completedAt = ge_now env\<rparr>)"

record check_summary =
  cs_id :: string
  cs_status :: string
  cs_reasonCode :: "string option"

definition summary_of_check :: "check_result \<Rightarrow> check_summary" where
  "summary_of_check c =
     \<lparr>cs_id = check_id c, cs_status = check_status c,
      cs_reasonCode =
        (if check_status c = ''PASS'' then None
         else if check_timedOut c then Some ''CHECK_TIMEOUT''
         else if check_status c = ''FAIL'' then Some ''CHECK_NONZERO_EXIT''
         else if check_status c = ''SKIPPED'' then Some ''CHECK_SKIPPED'' else Some ''CHECK_ERROR'')\<rparr>"

record gate_summary =
  gs_decision :: gate_decision
  gs_failureClass :: "string option"
  gs_receiptId :: string
  gs_baseHash :: string
  gs_candidateHash :: "string option"
  gs_finalHash :: string
  gs_policyHash :: string
  gs_checks :: "check_summary list"
  gs_changedPaths :: "string list"
  gs_threadDisposition :: string
  gs_candidateCleanup :: string
  gs_transactionStatus :: receipt_phase
  gs_baseViewId :: "string option"
  gs_nextViewId :: "string option"
  gs_baseGeneration :: "int option"
  gs_nextGeneration :: "int option"
  gs_proposalId :: "string option"
  gs_proposalHash :: "string option"
  gs_evaluationContextHash :: "string option"
  gs_evidenceDigest :: "string option"
  gs_permitId :: "string option"
  gs_permitState :: "stored_state option"
  gs_artifactRetention :: string
  gs_provider :: "provider_identity option"
  gs_lifecycle :: "(int \<times> string) list"

definition lifecycle_of :: "gate_receipt \<Rightarrow> string list" where
  "lifecycle_of r =
     [''RUN_STARTED''] @
     (if expected_hash (gr_proposalId r) = None then [] else [''PROPOSAL_SEALED'']) @
     (if gr_checks r = [] then [] else [''VERIFICATION_COMPLETED'']) @
     (if expected_hash (gr_permitId r) = None then [] else [''PERMIT_ISSUED'']) @
     (if gr_decision r = COMMITTED then [''VIEW_COMMITTED''] else []) @
     (if gr_threadDisposition r = ''reset'' then [''SESSION_RESET''] else []) @
     (if gr_decision r = ABORTED then [''RUN_ABORTED''] else [])"

definition toSummary :: "gate_receipt \<Rightarrow> gate_summary" where
  "toSummary r =
     \<lparr>gs_decision = gr_decision r, gs_failureClass = gr_failureClass r, gs_receiptId = gr_runId r,
      gs_baseHash = gr_baseSnapshotHash r, gs_candidateHash = gr_candidateSnapshotHash r,
      gs_finalHash = gr_finalSnapshotHash r, gs_policyHash = gr_policyHash r,
      gs_checks = map summary_of_check (gr_checks r), gs_changedPaths = gr_changedPaths r,
      gs_threadDisposition = gr_threadDisposition r, gs_candidateCleanup = gr_candidateCleanup r,
      gs_transactionStatus = override (gr_transactionStatus r)
        (if gr_promotionPendingDatabaseAck r then PENDING_PROMOTION else TERMINAL),
      gs_baseViewId = gr_baseViewId r, gs_nextViewId = gr_finalViewId r,
      gs_baseGeneration =
        (case gr_baseGeneration r of Some g \<Rightarrow> Some g
         | None \<Rightarrow> map_option (\<lambda>g. if gr_decision r = COMMITTED \<and> expected_hash (gr_finalViewId r) \<noteq> None
                                   then max 0 (g - 1) else g) (gr_generation r)),
      gs_nextGeneration = (case gr_nextGeneration r of Some g \<Rightarrow> Some g | None \<Rightarrow> gr_generation r),
      gs_proposalId = gr_proposalId r, gs_proposalHash = gr_candidateSnapshotHash r,
      gs_evaluationContextHash = gr_evaluationContextHash r, gs_evidenceDigest = gr_evidenceDigest r,
      gs_permitId = gr_permitId r, gs_permitState = gr_permitState r,
      gs_artifactRetention =
        (if gr_artifactRetention r = Some ''sealed'' then ''deferred''
         else override (gr_artifactRetention r) (if gr_decision r = COMMITTED then ''version_snapshot'' else ''destroyed'')),
      gs_provider = gr_provider r,
      gs_lifecycle = map (\<lambda>(i, name). (int i + 1, name)) (indexed (lifecycle_of r))\<rparr>"

record gate_finalization =
  gf_receipt :: gate_receipt
  gf_summary :: gate_summary

definition finalization :: "gate_receipt \<Rightarrow> gate_finalization" where
  "finalization r = \<lparr>gf_receipt = r, gf_summary = toSummary r\<rparr>"

definition store_receipt :: "('r gate_world_scheme) gate_env \<Rightarrow> gate_receipt \<Rightarrow> ('r, gate_finalization) gate_op" where
  "store_receipt env r = bindS (receipt_put (ge_storeSensitive env) r) (\<lambda>_. returnS (finalization r))"

end
