(* ===== verification/Coordinator_Runs.thy ===== *)
theory Coordinator_Runs
  imports Coordinator
begin

text \<open>
  A run of the commit gate from the prepared candidate to its disposition, and what happens to a
  pending promotion afterwards (\<^verbatim>\<open>verifyAndFinalize\<close>, \<^verbatim>\<open>acknowledge\<close>, \<^verbatim>\<open>rollbackPending\<close> and the rest of
  \<^verbatim>\<open>commitgate/coordinator.ts\<close>). Every early return of \<^verbatim>\<open>verifyAndFinalize\<close> is a call of \<open>reject\<close>;
  each of its steps is a definition that ends in the next one.
\<close>

subsection \<open>Rejection\<close>

text \<open>\<^verbatim>\<open>Promise.all\<close> of two removals: both are tried.\<close>

definition cleanupTransient :: "prepared_candidate \<Rightarrow> ('r, unit) tx" where
  "cleanupTransient c =
     tryS (rm_dir (pc_candidatePath c)) (\<lambda>e. bindS (quietly (rm_dir (pc_verifyPath c))) (\<lambda>_. throwS e))
       (\<lambda>_. rm_dir (pc_verifyPath c))"

text \<open>Details of a rejection; the candidate hash may be given as null.\<close>

record protocol_details =
  pd_sealed :: "resolved_proposal option"
  pd_changes :: "manifest_change list option"
  pd_candidateHash :: "string option option"
  pd_evaluationContextHash :: "string option"
  pd_evidenceDigest :: "string option"
  pd_permit :: "promotion_permit option"

definition no_details :: protocol_details where
  "no_details = \<lparr>pd_sealed = None, pd_changes = None, pd_candidateHash = None, pd_evaluationContextHash = None,
     pd_evidenceDigest = None, pd_permit = None\<rparr>"

definition sealed_details :: "resolved_proposal \<Rightarrow> manifest_change list \<Rightarrow> protocol_details" where
  "sealed_details sealed changes = no_details\<lparr>pd_sealed := Some sealed, pd_changes := Some changes\<rparr>"

definition rejected_changes :: "('r gate_world_scheme) gate_env \<Rightarrow> prepared_candidate \<Rightarrow> protocol_details \<Rightarrow>
    ('r, manifest_change list \<times> string) gate_op" where
  "rejected_changes env c d =
     (case pd_changes d of
        Some changes \<Rightarrow> returnS (changes, ''complete'')
      | None \<Rightarrow>
          catchS
            (bindS (pathExists (pc_candidatePath c)) (\<lambda>there.
             if there then bindS (manifest_at (gate_tx env (pc_policy c)) authoritative (pc_candidatePath c)) (\<lambda>m.
                             returnS (diffManifests (ge_le env) (pc_baseManifest c) m, ''complete''))
             else returnS ([], ''unavailable'')))
            (\<lambda>_. returnS ([], ''unavailable'')))"

definition clean_rejected :: "prepared_candidate \<Rightarrow> protocol_details \<Rightarrow> ('r, string) proposal_op" where
  "clean_rejected c d =
     catchS
       (bindS (cleanupTransient c) (\<lambda>_.
        bindS (case pd_sealed d of None \<Rightarrow> returnS ()
               | Some x \<Rightarrow> seal_destroy (pc_controlPath c) (sp_proposalId (rs_proposal x))) (\<lambda>_.
        returnS ''deleted'')))
       (\<lambda>_. returnS ''deferred'')"

definition rejected_receipt :: "'w gate_env \<Rightarrow> prepared_candidate \<Rightarrow> gate_decision \<Rightarrow> string \<Rightarrow> string list \<Rightarrow>
    check_result list \<Rightarrow> protocol_details \<Rightarrow> string \<Rightarrow> manifest_change list \<times> string \<Rightarrow> string \<Rightarrow> gate_receipt" where
  "rejected_receipt env c decision failureClass reasons checks d final found cleanup =
     (case found of (changes, static) \<Rightarrow> makeReceipt env c
        \<lparr>mk_decision = decision, mk_failureClass = Some failureClass, mk_reasonCodes = reasons, mk_checks = checks,
         mk_candidateHash = override (pd_candidateHash d) (map_option (\<lambda>x. sp_manifestHash (rs_proposal x)) (pd_sealed d)),
         mk_finalHash = final, mk_changedPaths = map mc_path changes,
         mk_patch = (if changes \<noteq> [] then Some (patchHash (ge_H env) changes) else None), mk_versionId = None,
         mk_pendingAck = False, mk_staticEvidence = static, mk_candidateCleanup = cleanup,
         mk_proposalId = map_option (\<lambda>x. sp_proposalId (rs_proposal x)) (pd_sealed d),
         mk_evaluationContextHash = pd_evaluationContextHash d, mk_evidenceDigest = pd_evidenceDigest d,
         mk_permit = pd_permit d\<rparr>)"

text \<open>\<^verbatim>\<open>reject\<close> is never called with \<open>COMMITTED\<close>.\<close>

definition reject :: "('r gate_world_scheme) gate_env \<Rightarrow> prepared_candidate \<Rightarrow> gate_decision \<Rightarrow> string \<Rightarrow> string list \<Rightarrow>
    check_result list \<Rightarrow> protocol_details \<Rightarrow> ('r, gate_finalization) gate_op" where
  "reject env c decision failureClass reasons checks d =
     bindS (manifest_at (gate_tx env (pc_policy c)) authoritative (pc_persistentPath c)) (\<lambda>final.
     bindS (rejected_changes env c d) (\<lambda>found.
     bindS (clean_rejected c d) (\<lambda>cleanup.
     store_receipt env (rejected_receipt env c decision failureClass reasons checks d (sm_hash final) found cleanup))))"

abbreviation broken :: "('r gate_world_scheme) gate_env \<Rightarrow> prepared_candidate \<Rightarrow> string list \<Rightarrow> check_result list \<Rightarrow>
    protocol_details \<Rightarrow> ('r, gate_finalization) gate_op" where
  "broken env c \<equiv> reject env c ABORTED ''evidence_broken''"

abbreviation errored :: "('r gate_world_scheme) gate_env \<Rightarrow> prepared_candidate \<Rightarrow> string list \<Rightarrow> check_result list \<Rightarrow>
    protocol_details \<Rightarrow> ('r, gate_finalization) gate_op" where
  "errored env c \<equiv> reject env c ABORTED ''infra_errored''"

abbreviation quarantined :: "('r gate_world_scheme) gate_env \<Rightarrow> prepared_candidate \<Rightarrow> string list \<Rightarrow> check_result list \<Rightarrow>
    protocol_details \<Rightarrow> ('r, gate_finalization) gate_op" where
  "quarantined env c \<equiv> reject env c QUARANTINED ''agent_wrong''"

definition abort_run :: "('r gate_world_scheme) gate_env \<Rightarrow> prepared_candidate \<Rightarrow> string \<Rightarrow> ('r, gate_finalization) gate_op" where
  "abort_run env c reason = errored env c [reason] [] no_details"

subsection \<open>Promotion\<close>

record promotion_run =
  pm_sealed :: resolved_proposal
  pm_changes :: "manifest_change list"
  pm_contextHash :: string
  pm_checks :: "check_result list"
  pm_evidence :: evidence_bundle

definition run_details :: "promotion_run \<Rightarrow> promotion_permit option \<Rightarrow> protocol_details" where
  "run_details m permit = (sealed_details (pm_sealed m) (pm_changes m))\<lparr>pd_evaluationContextHash := Some (pm_contextHash m),
     pd_evidenceDigest := Some (eb_digest (pm_evidence m)), pd_permit := permit\<rparr>"

text \<open>
  The handler of the promotion's \<^verbatim>\<open>try\<close> block, with what had been assigned when it failed: the
  permit, and the journal and backup of the handle.
\<close>

definition undo_handle :: "('r gate_world_scheme) gate_env \<Rightarrow> prepared_candidate \<Rightarrow> string \<Rightarrow> ('r, unit) gate_op" where
  "undo_handle env c journalPath =
     bindS (putS (\<lambda>s. s\<lparr>gw_pending := (gw_pending s)(pc_runId c := None)\<rparr>)) (\<lambda>_.
     catchS (bindS (handle_rollback (gate_tx env (pc_policy c)) journalPath False) (\<lambda>_. returnS ()))
       (\<lambda>_. throwS (RecoveryRequired ''CommitGate promotion finalization and fail-closed rollback both failed'')))"

definition promotion_failed :: "('r gate_world_scheme) gate_env \<Rightarrow> prepared_candidate \<Rightarrow> promotion_run \<Rightarrow>
    promotion_permit option \<Rightarrow> string option \<Rightarrow> tx_error \<Rightarrow> ('r, gate_finalization) gate_op" where
  "promotion_failed env c m permit handle e =
     (case e of
        RecoveryRequired msg \<Rightarrow> throwS e
      | _ \<Rightarrow>
        bindS (case handle of None \<Rightarrow> returnS () | Some journalPath \<Rightarrow> undo_handle env c journalPath) (\<lambda>_.
        bindS (case permit of None \<Rightarrow> returnS ()
               | Some p \<Rightarrow> quietly (with_permits (permit_revoke (pc_controlPath c) (pp_permitId p) (ge_clock env)))) (\<lambda>_.
        case e of
          StateConflict msg \<Rightarrow> reject env c CONFLICTED ''state_conflict'' [msg] (pm_checks m) (run_details m permit)
        | _ \<Rightarrow>
            if starts_with (error_text e) ''EVALUATION_CONTEXT_CHANGED''
            then broken env c [error_text e] (pm_checks m) (run_details m permit)
            else errored env c [error_text e] (pm_checks m) (run_details m permit))))"

definition pending_receipt :: "'w gate_env \<Rightarrow> prepared_candidate \<Rightarrow> promotion_run \<Rightarrow> promotion_permit \<Rightarrow> gate_receipt" where
  "pending_receipt env c m permit = makeReceipt env c
     \<lparr>mk_decision = COMMITTED, mk_failureClass = None, mk_reasonCodes = [], mk_checks = pm_checks m,
      mk_candidateHash = Some (sp_manifestHash (rs_proposal (pm_sealed m))),
      mk_finalHash = sp_manifestHash (rs_proposal (pm_sealed m)), mk_changedPaths = map mc_path (pm_changes m),
      mk_patch = Some (patchHash (ge_H env) (pm_changes m)), mk_versionId = None, mk_pendingAck = True,
      mk_staticEvidence = ''complete'', mk_candidateCleanup = ''deleted'',
      mk_proposalId = Some (sp_proposalId (rs_proposal (pm_sealed m))),
      mk_evaluationContextHash = Some (pm_contextHash m), mk_evidenceDigest = Some (eb_digest (pm_evidence m)),
      mk_permit = Some permit\<rparr>"

text \<open>\<^verbatim>\<open>assertCurrentView\<close>: the context is the evaluated one and the view the base view.\<close>

definition view_is_current :: "('r gate_world_scheme) gate_env \<Rightarrow> prepared_candidate \<Rightarrow> promotion_run \<Rightarrow> 'r gate_world_scheme \<Rightarrow> bool res" where
  "view_is_current env c m s =
     bindE (context_hash_of env c (pm_sealed m) s) (\<lambda>h.
     if h \<noteq> pm_contextHash m then Inl (JsError ''EVALUATION_CONTEXT_CHANGED_BEFORE_SWAP'')
     else bindE (current_view env c s) (\<lambda>v. Inr (viewId v = viewId (pc_baseView c))))"

text \<open>The capability handed out last is the last of the store's list.\<close>

definition promote_request :: "('r gate_world_scheme) gate_env \<Rightarrow> prepared_candidate \<Rightarrow> promotion_run \<Rightarrow> promotion_capability \<Rightarrow> nat \<Rightarrow>
    ('r gate_world_scheme) authorized_promote" where
  "promote_request env c m capability n =
     \<lparr>ap_runId = pc_runId c, ap_agentId = pc_agentId c, ap_persistentPath = pc_persistentPath c,
      ap_controlPath = pc_controlPath c, ap_capability = capability,
      ap_consume = bindS (with_permits (capability_consume n (ge_clock env))) (\<lambda>_. returnS ()),
      ap_assertCurrentView = view_is_current env c m\<rparr>"

definition set_pending :: "string \<Rightarrow> pending_promotion \<Rightarrow> ('r, unit) gate_op" where
  "set_pending runId p = putS (\<lambda>s. s\<lparr>gw_pending := (gw_pending s)(runId \<mapsto> p)\<rparr>)"

text \<open>The receipt stored, the promotion pending, the candidate removed or its removal deferred.\<close>

definition record_promotion :: "('r gate_world_scheme) gate_env \<Rightarrow> prepared_candidate \<Rightarrow> promotion_run \<Rightarrow> pending_promotion \<Rightarrow>
    ('r, gate_finalization) gate_op" where
  "record_promotion env c m pending =
     (let failed = promotion_failed env c m (Some (pn_permit pending)) (Some (pn_journalPath pending));
          receipt = pn_receipt pending; deferred = receipt\<lparr>gr_candidateCleanup := ''deferred''\<rparr> in
     tryS (receipt_put (ge_storeSensitive env) receipt) failed (\<lambda>_.
     bindS (set_pending (pc_runId c) pending) (\<lambda>_.
     tryS (cleanupTransient c)
       (\<lambda>_. tryS (receipt_put (ge_storeSensitive env) deferred) failed (\<lambda>_.
            bindS (set_pending (pc_runId c) (pending\<lparr>pn_receipt := deferred\<rparr>)) (\<lambda>_. returnS (finalization deferred))))
       (\<lambda>_. returnS (finalization receipt)))))"

text \<open>After the swap: the permit, the final hash, the receipt.\<close>

definition finish_promotion :: "('r gate_world_scheme) gate_env \<Rightarrow> prepared_candidate \<Rightarrow> promotion_run \<Rightarrow> promotion_capability \<Rightarrow>
    string \<Rightarrow> string \<Rightarrow> ('r, gate_finalization) gate_op" where
  "finish_promotion env c m capability journalPath backupPath =
     (let claimed = cap_permit capability; failed = promotion_failed env c m in
     tryS (with_permits (markConsumed (pc_controlPath c) (pp_permitId claimed) (ge_clock env)))
       (failed (Some claimed) (Some journalPath)) (\<lambda>permit.
     tryS (manifest_at (gate_tx env (pc_policy c)) authoritative (pc_persistentPath c))
       (failed (Some permit) (Some journalPath)) (\<lambda>final.
     record_promotion env c m
       \<lparr>pn_prepared = c, pn_journalPath = journalPath, pn_backupPath = backupPath, pn_settled = False,
        pn_receipt = (pending_receipt env c m claimed)\<lparr>gr_finalSnapshotHash := sm_hash final,
          gr_permitState := Some (pp_state permit), gr_completedAt := ge_now env\<rparr>,
        pn_sealed = pm_sealed m, pn_permit = permit, pn_capability = capability\<rparr>)))"

definition swap_promotion :: "('r gate_world_scheme) gate_env \<Rightarrow> prepared_candidate \<Rightarrow> promotion_run \<Rightarrow> promotion_capability \<Rightarrow> nat \<Rightarrow>
    ('r, gate_finalization) gate_op" where
  "swap_promotion env c m capability n =
     (let failed = promotion_failed env c m (Some (cap_permit capability)) None;
          request = promote_request env c m capability n; i = authorized_input request in
     tryS (receipt_put (ge_storeSensitive env) (pending_receipt env c m (cap_permit capability))) failed (\<lambda>_.
     tryS (promoteAuthorized (ge_le env) (gate_tx env (pc_policy c)) (ge_clock env) request) failed (\<lambda>_.
     finish_promotion env c m capability (journal_path i) (backup_path i))))"

definition issue_of :: "prepared_candidate \<Rightarrow> promotion_run \<Rightarrow> issue_input" where
  "issue_of c m =
     \<lparr>is_runId = pc_runId c, is_agentId = pc_agentId c, is_controlPath = pc_controlPath c,
      is_proposal = rs_proposal (pm_sealed m), is_baseView = pc_baseView c,
      is_evaluationContextHash = pm_contextHash m, is_evidence = pm_evidence m, is_ttlMs = None\<rparr>"

definition claim_of :: "prepared_candidate \<Rightarrow> promotion_run \<Rightarrow> promotion_permit \<Rightarrow> resolved_proposal \<Rightarrow> claim_input" where
  "claim_of c m permit source =
     \<lparr>cl_agentId = pc_agentId c, cl_controlPath = pc_controlPath c, cl_permitId = pp_permitId permit,
      cl_proposal = rs_proposal source, cl_proposalPath = rs_payloadPath source,
      cl_proposalManifest = rs_manifest source, cl_baseView = pc_baseView c,
      cl_evaluationContextHash = pm_contextHash m, cl_evidenceDigest = eb_digest (pm_evidence m)\<rparr>"

definition promote_run :: "('r gate_world_scheme) gate_env \<Rightarrow> prepared_candidate \<Rightarrow> promotion_run \<Rightarrow> ('r, gate_finalization) gate_op" where
  "promote_run env c m =
     (let failed = promotion_failed env c m in
     tryS (with_permits (permit_issue (ge_H env) (ge_le env) (issue_of c m) (ge_clock env) (ge_uuid env) (ge_nonce env)))
       (failed None None) (\<lambda>permit.
     tryS (seal_resolve (ge_le env) (gate_tx env (pc_policy c)) (pc_controlPath c) (sp_proposalId (rs_proposal (pm_sealed m))))
       (failed (Some permit) None) (\<lambda>source.
     tryS (with_permits (permit_claim (ge_H env) (ge_le env) (claim_of c m permit source) (ge_clock env)))
       (failed (Some permit) None) (\<lambda>capability.
     bindS (getS (\<lambda>s. length (ps_capabilities (gw_permits s)) - 1)) (\<lambda>n. swap_promotion env c m capability n)))))"

subsection \<open>Verification\<close>

definition run_evidence :: "'w gate_env \<Rightarrow> resolved_proposal \<Rightarrow> string \<Rightarrow> check_result list \<Rightarrow> check_assessment \<Rightarrow> evidence_bundle" where
  "run_evidence env sealed contextHash checks a = createEvidenceBundle (ge_H env) (ge_le env)
     \<lparr>eb_proposalId = sp_proposalId (rs_proposal sealed), eb_evaluationContextHash = contextHash,
      eb_verifierInputHash = sp_manifestHash (rs_proposal sealed),
      eb_checkResultsHash = computeCheckResultsHash (ge_H env) (ge_le env) checks,
      eb_coverage = (if ca_evidenceComplete a then ''complete'' else ''partial''),
      eb_requiredChecksPassed = (ca_evidenceComplete a \<and> ca_evidenceFailures a = [] \<and> ca_resultFailures a = [] \<and>
        list_all (\<lambda>k. check_status k = ''PASS'') checks),
      eb_issuedAt = ge_now env\<rparr>"

definition context_details :: "resolved_proposal \<Rightarrow> manifest_change list \<Rightarrow> string \<Rightarrow> protocol_details" where
  "context_details sealed changes h = (sealed_details sealed changes)\<lparr>pd_evaluationContextHash := Some h\<rparr>"

text \<open>The checks assessed, the view compared, the evidence made.\<close>

definition decide_run :: "('r gate_world_scheme) gate_env \<Rightarrow> prepared_candidate \<Rightarrow> resolved_proposal \<Rightarrow> manifest_change list \<Rightarrow>
    string \<Rightarrow> check_result list \<Rightarrow> ('r, gate_finalization) gate_op" where
  "decide_run env c sealed changes h checks =
     (let d = context_details sealed changes h; a = assessTrustedChecks checks (pc_policy c) in
      if ca_evidenceFailures a \<noteq> [] then broken env c (ca_evidenceFailures a) checks d
      else if ca_resultFailures a \<noteq> [] then quarantined env c (ca_resultFailures a) checks d
      else
        tryS (captureStateView env (pc_agentId c) (pc_persistentPath c) (pc_policy c) (sessionEpoch (pc_baseView c))
                (base_metadata (pc_baseView c)))
          (\<lambda>e. errored env c [''STATE_VIEW_CAPTURE_ERROR:'' @ error_text e] checks d) (\<lambda>currentView.
        if viewId currentView \<noteq> viewId (pc_baseView c)
        then reject env c CONFLICTED ''state_conflict'' [''STATE_VIEW_CONFLICT''] checks d
        else promote_run env c \<lparr>pm_sealed = sealed, pm_changes = changes, pm_contextHash = h, pm_checks = checks,
               pm_evidence = run_evidence env sealed h checks a\<rparr>))"

definition run_request_of :: "'w gate_env \<Rightarrow> prepared_candidate \<Rightarrow> resolved_proposal \<Rightarrow> evaluation_context \<Rightarrow> string \<Rightarrow> run_request" where
  "run_request_of env c sealed context h =
     \<lparr>rq_runId = pc_runId c, rq_agentId = pc_agentId c, rq_verifyPath = rs_payloadPath sealed,
      rq_trustedChecksPath = ge_trustedChecksRoot env, rq_checks = requiredChecks (pc_policy c),
      rq_timeoutMs = verifierTimeoutMs (pc_policy c), rq_maxOutputBytes = verifierMaxOutputBytes (pc_policy c),
      rq_proposalId = sp_proposalId (rs_proposal sealed), rq_evaluationContextHash = h,
      rq_checkBundleHash = ctx_checkBundleHash context\<rparr>"

text \<open>The three promises after the verifier, and the comparison with what was evaluated.\<close>

definition recheck_sealed :: "('r gate_world_scheme) gate_env \<Rightarrow> prepared_candidate \<Rightarrow> resolved_proposal \<Rightarrow> string \<Rightarrow> ('r, unit) gate_op" where
  "recheck_sealed env c sealed h =
     (let te = gate_tx env (pc_policy c) in
     bindS (assertReadonlySealedPayload te (rs_payloadPath sealed) (rs_manifest sealed)) (\<lambda>_.
     bindS (seal_resolve (ge_le env) te (pc_controlPath c) (sp_proposalId (rs_proposal sealed))) (\<lambda>sealedAfter.
     bindS (buildEvaluationContext env c sealed) (\<lambda>contextAfter.
     if sp_artifactHash (rs_proposal sealedAfter) \<noteq> sp_artifactHash (rs_proposal sealed) then tx_throw ''SEALED_PROPOSAL_MUTATED''
     else bindS (tx_res (computeEvaluationContextHash (ge_H env) (ge_le env) contextAfter)) (\<lambda>h'.
          if h' \<noteq> h then tx_throw ''EVALUATION_CONTEXT_CHANGED'' else returnS ())))))"

definition run_verifier :: "('r gate_world_scheme) gate_env \<Rightarrow> prepared_candidate \<Rightarrow> resolved_proposal \<Rightarrow> evaluation_context \<Rightarrow> string \<Rightarrow>
    ('r, check_result list) gate_op" where
  "run_verifier env c sealed context h =
     bindS (assertReadonlySealedPayload (gate_tx env (pc_policy c)) (rs_payloadPath sealed) (rs_manifest sealed)) (\<lambda>_.
     bindS (ge_run env (run_request_of env c sealed context h)) (\<lambda>raw. returnS (normalize_results raw)))"

definition verify_run :: "('r gate_world_scheme) gate_env \<Rightarrow> prepared_candidate \<Rightarrow> resolved_proposal \<Rightarrow> manifest_change list \<Rightarrow>
    evaluation_context \<Rightarrow> string \<Rightarrow> ('r, gate_finalization) gate_op" where
  "verify_run env c sealed changes context h =
     (let d = context_details sealed changes h in
     tryS (run_verifier env c sealed context h)
       (\<lambda>e. errored env c [case ge_aborted env InVerifier of Some reason \<Rightarrow> reason
                           | None \<Rightarrow> ''VERIFIER_INFRA_ERROR:'' @ error_text e] [] d) (\<lambda>checks.
     tryS (recheck_sealed env c sealed h) (\<lambda>e. broken env c [error_text e] checks d) (\<lambda>_.
     decide_run env c sealed changes h checks)))"

definition evaluate_run :: "('r gate_world_scheme) gate_env \<Rightarrow> prepared_candidate \<Rightarrow> resolved_proposal \<Rightarrow> manifest_change list \<Rightarrow>
    ('r, gate_finalization) gate_op" where
  "evaluate_run env c sealed changes =
     tryS (bindS (buildEvaluationContext env c sealed) (\<lambda>context.
           bindS (tx_res (computeEvaluationContextHash (ge_H env) (ge_le env) context)) (\<lambda>h. returnS (context, h))))
       (\<lambda>e. errored env c [''EVALUATION_CONTEXT_ERROR:'' @ error_text e] [] (sealed_details sealed changes)) (\<lambda>(context, h).
     if ctx_policyHash context \<noteq> pc_policyHash c
     then broken env c [''POLICY_CHANGED_BEFORE_VERIFICATION''] [] (context_details sealed changes h)
     else verify_run env c sealed changes context h)"

subsection \<open>Sealing the candidate\<close>

text \<open>The content of a file of a directory tree.\<close>

fun file_at :: "fs_node \<Rightarrow> string list \<Rightarrow> string option" where
  "file_at (FFile s b u) [] = Some b"
| "file_at (FDir s cs) (seg # segs) = (case map_of cs seg of None \<Rightarrow> None | Some n \<Rightarrow> file_at n segs)"
| "file_at n segs = None"

definition files_of :: "fs_node option \<Rightarrow> string \<Rightarrow> string option" where
  "files_of t path = (case t of None \<Rightarrow> None | Some n \<Rightarrow> file_at n (split_on slash path))"

definition validate_at :: "('r gate_world_scheme) gate_env \<Rightarrow> prepared_candidate \<Rightarrow> snapshot_manifest \<Rightarrow> string \<Rightarrow>
    ('r, manifest_change list \<times> string list) gate_op" where
  "validate_at env c m path =
     bindS look (\<lambda>_. bindS (getS (\<lambda>s. c_dirs s path)) (\<lambda>t.
     tx_res (validateCandidate (ge_le env) (pc_policy c) (pc_baseManifest c) m (files_of t) (ge_sensitive env))))"

definition check_sealed :: "('r gate_world_scheme) gate_env \<Rightarrow> prepared_candidate \<Rightarrow> snapshot_manifest \<Rightarrow> string \<Rightarrow> resolved_proposal \<Rightarrow>
    ('r, gate_finalization) gate_op" where
  "check_sealed env c candidateBefore digest sealed =
     bindS (rm_dir (pc_candidatePath c)) (\<lambda>_.
     bindS (validate_at env c (rs_manifest sealed) (rs_payloadPath sealed)) (\<lambda>(changes, failures).
     let d = sealed_details sealed changes in
     if patchHash (ge_H env) changes \<noteq> digest \<or> sm_hash (rs_manifest sealed) \<noteq> sm_hash candidateBefore
     then broken env c [''SEALED_PROPOSAL_DIFF_MISMATCH''] [] d
     else if failures \<noteq> [] then quarantined env c failures [] d
     else if ge_requireTeardown env \<and> \<not> pc_runtimeTeardownVerified c
     then broken env c [''RUNTIME_TEARDOWN_EVIDENCE_MISSING''] [] d
     else if ge_requireTrustedChecks env \<and> protectedPaths (pc_policy c) \<noteq> [] \<and> requiredChecks (pc_policy c) = []
     then broken env c [''TRUSTED_CHECK_SET_REQUIRED''] [] d
     else case ge_aborted env BeforeContext of
       Some reason \<Rightarrow> errored env c [reason] [] d
     | None \<Rightarrow> evaluate_run env c sealed changes))"

definition seal_of :: "'w gate_env \<Rightarrow> prepared_candidate \<Rightarrow> string \<Rightarrow> string \<Rightarrow> seal_input" where
  "seal_of env c digest h =
     \<lparr>sl_runId = pc_runId c, sl_agentId = pc_agentId c, sl_controlPath = pc_controlPath c,
      sl_candidatePath = pc_candidatePath c, sl_baseViewId = viewId (pc_baseView c), sl_changedPathsDigest = digest,
      sl_runtimeTeardownDigest = pc_runtimeTeardownDigest c, sl_expectedCandidateHash = Some h,
      sl_sealedAt = Some (ge_now env)\<rparr>"

definition candidate_invalid :: "tx_error \<Rightarrow> bool" where
  "candidate_invalid e \<longleftrightarrow> (case e of SealError code msg \<Rightarrow> code = ''CANDIDATE_INVALID'' | _ \<Rightarrow> False)"

definition audited_manifest :: "('r gate_world_scheme) gate_env \<Rightarrow> prepared_candidate \<Rightarrow> ('r, snapshot_manifest) gate_op" where
  "audited_manifest env c =
     bindS look (\<lambda>_. bindS (getS (\<lambda>s. c_dirs s (pc_candidatePath c))) (\<lambda>t.
     bindS (tx_res (case t of None \<Rightarrow> Inl (JsError ''ENOENT'')
                    | Some n \<Rightarrow> auditCandidateResourceUsage (pc_policy c) (ge_limits env) n)) (\<lambda>_.
     manifest_at (gate_tx env (pc_policy c)) authoritative (pc_candidatePath c))))"

definition verifyAndFinalize :: "('r gate_world_scheme) gate_env \<Rightarrow> prepared_candidate \<Rightarrow> ('r, gate_finalization) gate_op" where
  "verifyAndFinalize env c =
     bindS (receipt_get (pc_agentId c) (pc_runId c)) (\<lambda>existing.
     case existing of
       Some r \<Rightarrow> returnS (finalization r)
     | None \<Rightarrow>
       (case ge_aborted env AtStart of
          Some reason \<Rightarrow> abort_run env c reason
        | None \<Rightarrow>
          tryS (audited_manifest env c)
            (\<lambda>e. quarantined env c [error_text e] [] (no_details\<lparr>pd_candidateHash := Some None\<rparr>)) (\<lambda>candidateBefore.
          bindS (validate_at env c candidateBefore (pc_candidatePath c)) (\<lambda>(changes, failures).
          let digest = patchHash (ge_H env) changes in
          tryS (seal (ge_le env) (gate_tx env (pc_policy c)) (seal_of env c digest (sm_hash candidateBefore)))
            (\<lambda>e. reject env c (if candidate_invalid e then QUARANTINED else ABORTED)
                   (if candidate_invalid e then ''agent_wrong'' else ''evidence_broken'') [error_text e] []
                   (no_details\<lparr>pd_changes := Some changes, pd_candidateHash := Some (Some (sm_hash candidateBefore))\<rparr>))
            (check_sealed env c candidateBefore digest)))))"

end
