(* ===== verification/Coordinator_Facts.thy ===== *)
theory Coordinator_Facts
  imports Coordinator_Runs Receipt_Store_Facts Tx_Props
begin

text \<open>
  What the steps of a run leave alone: directories outside the agent's control root and all
  journals, until the promotion's own steps; and what the two ends of a run leave, a stored receipt
  and, when it is rejected, the old workspace.
\<close>

subsection \<open>Combinators\<close>

context tx_frame
begin

lemma keeps_bind_res: "(\<And>x. r = Inr x \<Longrightarrow> keeps R (f x)) \<Longrightarrow> keeps R (bindS (tx_res r) f)"
  by (cases r) (auto simp: keeps_def bindS_def liftS_def mapErr_def refl)

lemma keeps_tryS:
  assumes "keeps R m" and "\<And>e. keeps R (h e)" and "\<And>x. keeps R (f x)"
  shows "keeps R (tryS m h f)"
proof -
  have "keeps R (catchS (bindS m (\<lambda>x. returnS (Inr x))) (\<lambda>e. returnS (Inl e)))"
    by (intro keeps_catch keeps_bind keeps_return assms(1))
  then show ?thesis unfolding tryS_def by (rule keeps_bind) (simp add: assms split: sum.split)
qed

lemma keeps_quietly: "keeps R m \<Longrightarrow> keeps R (quietly m)"
  unfolding quietly_def by (intro keeps_catch keeps_bind keeps_return)

end

lemma wp_tryS:
  "wp (tryS m h f) Q E = wp m (\<lambda>x. wp (f x) Q E) (\<lambda>e s'. if e = Stopped then E e s' else wp (h e) Q E s')"
  unfolding tryS_def wp_bind wp_catch by (simp add: wp_return cong: if_cong)

subsection \<open>Undisturbed directories\<close>

definition undisturbed :: "string set \<Rightarrow> 'r control_scheme \<Rightarrow> 'r control_scheme \<Rightarrow> bool" where
  "undisturbed U s s' \<longleftrightarrow> (\<forall>p \<in> U. c_dirs s' p = c_dirs s p) \<and> c_journals s' = c_journals s"

interpretation stay: tx_frame "undisturbed U" for U
  by unfold_locales (simp_all add: undisturbed_def)

lemma undisturbed_same: "c_dirs s' = c_dirs s \<Longrightarrow> c_journals s' = c_journals s \<Longrightarrow> undisturbed U s s'"
  by (simp add: undisturbed_def)

lemma undisturbed_rm: "p \<notin> U \<Longrightarrow> keeps (undisturbed U) (rm_dir p)"
  unfolding rm_dir_def by (rule stay.keeps_io) (auto simp: undisturbed_def)

lemma undisturbed_rename: "p \<notin> U \<Longrightarrow> q \<notin> U \<Longrightarrow> keeps (undisturbed U) (rename_dir p q)"
  unfolding rename_dir_def by (intro stay.frame_intros stay.keeps_io) (auto simp: undisturbed_def)

lemma quiet_copy: "p \<notin> U \<Longrightarrow> keeps (undisturbed U) (copy_dir te src p include clean)"
proof -
  assume p: "p \<notin> U"
  show ?thesis unfolding copy_dir_def by (intro stay.frame_intros stay.keeps_io) (use p in \<open>auto simp: undisturbed_def\<close>)
qed

lemma quiet_change: "p \<notin> U \<Longrightarrow> keeps (undisturbed U) (change_tree p f)"
  unfolding change_tree_def by (intro stay.frame_intros stay.keeps_io) (auto simp: undisturbed_def)

lemma quiet_mutable: "p \<notin> U \<Longrightarrow> keeps (undisturbed U) (makeMutable p)"
  unfolding makeMutable_def by (intro stay.frame_intros quiet_change)

lemma quiet_put: "keeps (undisturbed U) (receipt_put vs r)"
  unfolding receipt_put_def receipt_get_def Let_def
  by (intro stay.frame_intros stay.keeps_io) (auto simp: undisturbed_def)

lemma quiet_files:
  "keeps (undisturbed U) (read_proposal p)" "keeps (undisturbed U) (write_proposal p x)"
  "keeps (undisturbed U) (read_manifest p)" "keeps (undisturbed U) (write_manifest p m)"
  unfolding read_proposal_def write_proposal_def read_manifest_def write_manifest_def
  by (intro stay.frame_intros stay.keeps_io; auto simp: undisturbed_def)+

lemma quiet_sealed: "keeps (undisturbed U) (assertReadonlySealedPayload te p m)"
  unfolding assertReadonlySealedPayload_def by (intro stay.frame_intros)

lemma quiet_resolve: "keeps (undisturbed U) (seal_resolve le te cp k)"
  unfolding seal_resolve_def resolve_manifest_def seal_corrupt_def
  by (intro stay.frame_intros quiet_files quiet_sealed)

lemma quiet_permits: "keeps (undisturbed U) (with_permits m)"
  unfolding with_permits_def
  by (intro stay.keeps_bind stay.keeps_look) (auto simp: keeps_def undisturbed_def split: prod.splits)

lemma frames_permits: "frames (bindS (with_permits m) (\<lambda>_. returnS ()))"
proof -
  have "keeps (undisturbed UNIV) (bindS (with_permits m) (\<lambda>_. returnS ()))"
    by (intro stay.keeps_bind stay.keeps_return quiet_permits)
  then show ?thesis by (simp add: keeps_def undisturbed_def frames_def fun_eq_iff)
qed

lemma payload_contained: "payloadPath cp h k = Inr p \<Longrightarrow> contained cp p"
  by (auto simp: payloadPath_def Let_def res_simps bindE_eq_Inr split: if_splits)

text \<open>Directories outside the control root.\<close>

definition outside :: "string \<Rightarrow> string set \<Rightarrow> bool" where
  "outside cp U \<longleftrightarrow> (\<forall>p \<in> U. \<not> contained cp p)"

lemma outsideD: "outside cp U \<Longrightarrow> contained cp p \<Longrightarrow> p \<notin> U"
  by (auto simp: outside_def)

lemma quiet_destroy: "outside cp U \<Longrightarrow> keeps (undisturbed U) (seal_destroy cp k)"
  unfolding seal_destroy_def
  by (intro stay.frame_intros stay.keeps_bind_res stay.keeps_quietly quiet_files quiet_mutable undisturbed_rm)
    (auto dest: payload_contained outsideD)

lemma quiet_discard: "p \<notin> U \<Longrightarrow> q \<notin> U \<Longrightarrow> keeps (undisturbed U) (discard_payload p q)"
  unfolding discard_payload_def
  by (intro stay.frame_intros stay.keeps_quietly quiet_mutable undisturbed_rm)

lemma quiet_import: "p \<notin> U \<Longrightarrow> q \<notin> U \<Longrightarrow> keeps (undisturbed U) (import_payload le te i m p q)"
  unfolding import_payload_def
  by (intro stay.frame_intros quiet_copy undisturbed_rename quiet_change)

lemma quiet_publish: "keeps (undisturbed U) (publish_proposal cp k p m)"
  unfolding publish_proposal_def by (intro stay.frame_intros quiet_files)

lemma quiet_seal_new:
  assumes "outside (sl_controlPath i) U" and "q \<notin> U"
  shows "keeps (undisturbed U) (seal_new le te i m k path q)"
  unfolding seal_new_def Let_def
proof (rule stay.keeps_bind_res)
  fix u assume "assertContained (sl_controlPath i) (sealed_tmp i k) ''sealed temp path'' = Inr u"
  then have tmp: "sealed_tmp i k \<notin> U" using assms(1) by (auto simp: res_simps dest: outsideD)
  show "keeps (undisturbed U) (bindS (rm_dir (sealed_tmp i k)) (\<lambda>_.
     catchS
       (bindS (import_payload le te i m (sealed_tmp i k) q) (\<lambda>m'.
        bindS (publish_proposal (sl_controlPath i) path
          (new_proposal te i k (artifact_hash (we_H (te_walk te)) le m) (sm_hash m')) m') (\<lambda>_.
        returnS \<lparr>rs_proposal = new_proposal te i k (artifact_hash (we_H (te_walk te)) le m) (sm_hash m'), rs_payloadPath = q, rs_manifest = m'\<rparr>)))
       (\<lambda>e. bindS (discard_payload (sealed_tmp i k) q) (\<lambda>_.
             throwS (if is_seal_error e then e else classifyManifestFailure e)))))"
    by (intro stay.frame_intros quiet_import quiet_publish quiet_discard undisturbed_rm tmp assms(2))
qed

lemma quiet_seal: "outside (sl_controlPath i) U \<Longrightarrow> keeps (undisturbed U) (seal le te i)"
  unfolding seal_def Let_def
  by (intro stay.frame_intros stay.keeps_bind_res quiet_files quiet_resolve quiet_seal_new)
    (auto dest: payload_contained outsideD)

subsection \<open>Steps of the coordinator\<close>

lemma quiet_capture: "keeps (undisturbed U) (captureStateView env a p pol ep x)"
  unfolding captureStateView_def by (intro stay.frame_intros)

lemma quiet_context: "keeps (undisturbed U) (buildEvaluationContext env c sealed)"
  unfolding buildEvaluationContext_def by (intro stay.frame_intros)

lemma quiet_validate: "keeps (undisturbed U) (validate_at env c m p)"
  unfolding validate_at_def by (intro stay.frame_intros)

lemma quiet_audited: "keeps (undisturbed U) (audited_manifest env c)"
  unfolding audited_manifest_def by (intro stay.frame_intros)

lemma quiet_recheck: "keeps (undisturbed U) (recheck_sealed env c sealed h)"
  unfolding recheck_sealed_def Let_def
  by (intro stay.frame_intros quiet_sealed quiet_resolve quiet_context)

lemma quiet_verifier:
  assumes "\<And>rq. keeps (undisturbed U) (ge_run env rq)"
  shows "keeps (undisturbed U) (run_verifier env c sealed context h)"
  unfolding run_verifier_def by (intro stay.frame_intros quiet_sealed assms)

lemma quiet_cleanup:
  assumes "pc_candidatePath c \<notin> U" and "pc_verifyPath c \<notin> U"
  shows "keeps (undisturbed U) (cleanupTransient c)"
  unfolding cleanupTransient_def
  by (intro stay.keeps_tryS stay.frame_intros stay.keeps_quietly undisturbed_rm assms)

lemma rest_cleanup: "keeps rest_same (cleanupTransient c)"
  unfolding cleanupTransient_def by (intro rest.keeps_tryS rest.frame_intros rest.keeps_quietly rest_rm)

lemma quiet_found: "keeps (undisturbed U) (rejected_changes env c d)"
  unfolding rejected_changes_def by (intro stay.frame_intros)

lemma quiet_clean:
  assumes "pc_candidatePath c \<notin> U" and "pc_verifyPath c \<notin> U" and "outside (pc_controlPath c) U"
  shows "keeps (undisturbed U) (clean_rejected c d)"
  unfolding clean_rejected_def by (intro stay.frame_intros quiet_cleanup quiet_destroy assms)

end
