(* ===== verification/Coordinator_Outcome.thy ===== *)
theory Coordinator_Outcome
  imports Coordinator_Facts
begin

text \<open>
  How a run of the gate can end: a walk through \<^verbatim>\<open>verifyAndFinalize\<close> from the last step to the first
  shows of every finalization it returns that its receipt is stored, and that either the run is
  promoted and pending or the workspace holds the tree it had.
\<close>

subsection \<open>Placement\<close>

text \<open>The paths of a prepared candidate, as \<^verbatim>\<open>prepare\<close> makes them.\<close>

definition well_placed :: "prepared_candidate \<Rightarrow> bool" where
  "well_placed c \<longleftrightarrow> pc_candidatePath c = pc_controlPath c @ ''/candidates/'' @ pc_runId c \<and>
     pc_verifyPath c = pc_controlPath c @ ''/verify/'' @ pc_runId c \<and> \<not> contained (pc_controlPath c) (pc_persistentPath c)"

definition gate_backup :: "prepared_candidate \<Rightarrow> string" where
  "gate_backup c = pc_controlPath c @ ''/backups/'' @ pc_runId c"

definition gate_journal :: "prepared_candidate \<Rightarrow> string" where
  "gate_journal c = pc_controlPath c @ ''/journals/'' @ pc_runId c @ ''.json''"

lemma placed_paths:
  assumes "well_placed c"
  shows "pc_candidatePath c \<notin> {pc_persistentPath c, gate_backup c}"
    and "pc_verifyPath c \<notin> {pc_persistentPath c, gate_backup c}"
    and "outside (pc_controlPath c) {pc_persistentPath c}"
proof -
  have "contained (pc_controlPath c) (pc_controlPath c @ ''/'' @ x)" for x by (simp add: contained_def starts_with_iff)
  from this [of "''candidates/'' @ pc_runId c"] this [of "''verify/'' @ pc_runId c"] assms
  show "pc_candidatePath c \<notin> {pc_persistentPath c, gate_backup c}" "pc_verifyPath c \<notin> {pc_persistentPath c, gate_backup c}"
    "outside (pc_controlPath c) {pc_persistentPath c}" by (auto simp: well_placed_def outside_def gate_backup_def)
qed

lemma request_paths [simp]:
  "pi_persistentPath (authorized_input (promote_request env c m cap n)) = pc_persistentPath c"
  "pi_controlPath (authorized_input (promote_request env c m cap n)) = pc_controlPath c"
  "pi_runId (authorized_input (promote_request env c m cap n)) = pc_runId c"
  "backup_path (authorized_input (promote_request env c m cap n)) = gate_backup c"
  "journal_path (authorized_input (promote_request env c m cap n)) = gate_journal c"
  "pi_baseHash (authorized_input (promote_request env c m cap n)) = liveStateHash (cap_baseView cap)"
  "pi_expectedTargetHash (authorized_input (promote_request env c m cap n)) = Some (sp_manifestHash (cap_proposal cap))"
  "ap_persistentPath (promote_request env c m cap n) = pc_persistentPath c"
  "ap_runId (promote_request env c m cap n) = pc_runId c"
  by (simp_all add: authorized_input_def promote_request_def Let_def backup_path_def journal_path_def gate_backup_def gate_journal_def)

subsection \<open>Receipts\<close>

lemma receipt_ids [simp]:
  "gr_agentId (makeReceipt env c i) = pc_agentId c" "gr_runId (makeReceipt env c i) = pc_runId c"
  "gr_decision (makeReceipt env c i) = mk_decision i" "gr_phase (makeReceipt env c i) = receipt_status i"
  "gr_checks (makeReceipt env c i) = map (sanitize_check (ge_sensitive env)) (mk_checks i)"
  by (simp_all add: makeReceipt_def sanitizeReceipt_def Let_def)

lemma sanitized_passed: "required_passed p (map (sanitize_check vs) cs) \<longleftrightarrow> required_passed p cs"
  by (simp add: required_passed_def sanitize_check_def comp_def)

lemma wp_put_receipt:
  "wp (receipt_put vs r) (\<lambda>_ s'. rw_receipts s' (gr_agentId r, gr_runId r) = Some (sanitizeReceipt vs r) \<and>
      undisturbed UNIV s s' \<and> gw_pending s' = gw_pending s) (\<lambda>_ s'. undisturbed UNIV s s') (s :: 'r gate_world_scheme)"
  unfolding receipt_put_def receipt_get_def receipt_key_def Let_def wp_simps
  by (auto intro!: wp_io simp: wp_simps undisturbed_def res_simps bindE_eq_Inr split: sum.splits option.splits)

definition stored_run :: "'w gate_env \<Rightarrow> prepared_candidate \<Rightarrow> gate_receipt \<Rightarrow> 'r receipt_world_scheme \<Rightarrow> bool" where
  "stored_run env c r s \<longleftrightarrow> rw_receipts s (pc_agentId c, pc_runId c) = Some (sanitizeReceipt (ge_storeSensitive env) r)"

text \<open>A promoted run: its checks, its permit, its pending entry, its journal, the two trees.\<close>

definition committed_run :: "'w gate_env \<Rightarrow> prepared_candidate \<Rightarrow> fs_node \<Rightarrow> gate_receipt \<Rightarrow> 'r gate_world_scheme \<Rightarrow> bool" where
  "committed_run env c B r s \<longleftrightarrow> required_passed (pc_policy c) (gr_checks r) \<and> gr_phase r = PENDING_PROMOTION \<and>
     gr_permitState r = Some CONSUMED \<and>
     (\<exists>p j T. gw_pending s (pc_runId c) = Some p \<and> pn_receipt p = r \<and> pn_journalPath p = gate_journal c \<and>
        c_journals s (gate_journal c) = Some j \<and> jn_state j = PROMOTED_PENDING_DB \<and>
        c_dirs s (gate_backup c) = Some B \<and> hash_ok (gate_tx env (pc_policy c)) (liveStateHash (pc_baseView c)) B \<and>
        c_dirs s (pc_persistentPath c) = Some T \<and> hash_ok (gate_tx env (pc_policy c)) (gr_finalSnapshotHash r) T \<and>
        (sp_manifestHash (cap_proposal (pn_capability p)) \<noteq> [] \<longrightarrow>
           gr_finalSnapshotHash r = sp_manifestHash (cap_proposal (pn_capability p))))"

definition outcome :: "'w gate_env \<Rightarrow> prepared_candidate \<Rightarrow> fs_node \<Rightarrow> gate_finalization \<Rightarrow> 'r gate_world_scheme \<Rightarrow> bool" where
  "outcome env c B f s \<longleftrightarrow> gf_summary f = toSummary (gf_receipt f) \<and> stored_run env c (gf_receipt f) s \<and>
     (if gr_decision (gf_receipt f) = COMMITTED then committed_run env c B (gf_receipt f) s
      else c_dirs s (pc_persistentPath c) = Some B)"

abbreviation ends :: "'w gate_env \<Rightarrow> prepared_candidate \<Rightarrow> fs_node \<Rightarrow> ('r, gate_finalization) gate_op \<Rightarrow> 'r gate_world_scheme \<Rightarrow> bool" where
  "ends env c B m s \<equiv> wp m (outcome env c B) (\<lambda>_ _. True) s"

subsection \<open>Rejection\<close>

lemma ends_reject:
  assumes c: "well_placed c" and d: "decision \<noteq> COMMITTED" and P: "c_dirs s (pc_persistentPath c) = Some B"
  shows "ends env c B (reject env c decision fc reasons checks d) s"
proof -
  have "keeps (undisturbed {pc_persistentPath c}) (clean_rejected c d)"
    using placed_paths [OF c] by (intro quiet_clean) auto
  note step = wp_only_keeps [OF stay.keeps_build [where U = "{pc_persistentPath c}"]]
    wp_only_keeps [OF quiet_found [where U = "{pc_persistentPath c}"]] wp_only_keeps [OF this]
  have store: "ends env c B (store_receipt env (rejected_receipt env c decision fc reasons checks d final found cleanup)) s1"
    if "c_dirs s1 (pc_persistentPath c) = Some B" for final found cleanup s1
    unfolding store_receipt_def wp_bind wp_return
    by (rule wp_mono [OF wp_put_receipt])
      (use that d in \<open>auto simp: outcome_def stored_run_def finalization_def rejected_receipt_def undisturbed_def split: prod.splits\<close>)
  show ?thesis unfolding reject_def wp_bind
    by (rule step(1), rule step(2), rule step(3)) (use P in \<open>auto intro!: store simp: undisturbed_def\<close>)
qed

subsection \<open>The promotion\<close>

lemma wp_promoteAuthorized:
  fixes a :: "('r control_scheme) authorized_promote"
  assumes "apart (authorized_input a)" and "c_dirs s (ap_persistentPath a) = Some B"
    and "c_journals s (journal_path (authorized_input a)) = None" and "frames (ap_consume a)"
  shows "wp (promoteAuthorized le te clock a)
    (\<lambda>j s'. promoted te (authorized_input a) B j s' \<and> assertSafeIdentifier (ap_runId a) ''runId'' = Inr ())
    (ended te (authorized_input a) B) s"
proof -
  let ?i = "authorized_input a"
  have i: "pi_persistentPath ?i = ap_persistentPath a" "pi_runId ?i = ap_runId a"
    "\<And>m. pi_consumeAuthorization ?i = Some m \<Longrightarrow> m = ap_consume a"
    by (simp_all add: authorized_input_def Let_def)
  have early: "ended te ?i B e s'" if "c_dirs s' = c_dirs s" "c_journals s' = c_journals s" for e s'
    using that assms(2,3) i ended_untouched [of s' ?i B te e] by simp
  have promote: "wp (promote_tx te ?i) (\<lambda>j s'. promoted te ?i B j s' \<and> assertSafeIdentifier (ap_runId a) ''runId'' = Inr ())
      (ended te ?i B) s1" if s1: "c_dirs s1 = c_dirs s" "c_journals s1 = c_journals s" for s1
  proof -
    have "wp (promote_tx te ?i) (promoted te ?i B) (ended te ?i B) s1"
      by (rule wp_promote) (use assms s1 i in auto)
    moreover have "assertSafeIdentifier (ap_runId a) ''runId'' = Inr ()"
      if "promote_tx te ?i s1 = (Inr j, s')" "promoted te ?i B j s'" for j s'
    proof -
      have "c_journals s1 (journal_path ?i) = None" "c_journals s' (journal_path ?i) \<noteq> None"
        using assms(3) s1 that(2) by (simp_all add: promoted_def) auto
      from promote_safe_ids(1) [OF that(1) this] show ?thesis by (simp add: i)
    qed
    ultimately show ?thesis by (auto simp: wp_def split: prod.splits sum.splits)
  qed
  show ?thesis
    unfolding promoteAuthorized_def Let_def wp_if wp_throw wp_bind
    by (auto intro!: early wp_sealed promote simp: wp_simps)
qed

lemma promoted_undisturbed:
  "promoted te i B j s \<Longrightarrow> undisturbed {pi_persistentPath i, backup_path i} s s' \<Longrightarrow> promoted te i B j s'"
  by (auto simp: promoted_def undisturbed_def)

lemma consumed_permit: "markConsumed cp k now st = (Inr p, st') \<Longrightarrow> pp_state p = CONSUMED"
proof -
  have update: "pp_state p = CONSUMED" if "permit_update cp q CONSUMED now s1 = (Inr p, s2)" for q s1 s2
    using permit_update_eq [OF that] by auto
  assume "markConsumed cp k now st = (Inr p, st')"
  then show ?thesis by (auto simp: markConsumed_def eff_simps split: if_splits intro: update)
qed

lemma wp_permits:
  assumes "\<And>x s' p0 p1. m p0 = (Inr x, p1) \<Longrightarrow> undisturbed UNIV s s' \<Longrightarrow> Q x s'"
    and "\<And>e s'. undisturbed UNIV s s' \<Longrightarrow> E e s'"
  shows "wp (with_permits m) Q E s"
proof -
  have "wp (with_permits m) (\<lambda>x s'. \<exists>p0 p1. m p0 = (Inr x, p1)) (\<lambda>_ _. True) s"
    unfolding with_permits_def wp_bind by (rule wp_io) (auto simp: wp_def mapErr_def split: prod.splits sum.splits)
  from wp_keeps [OF quiet_permits this] show ?thesis by (rule wp_mono) (use assms in blast)+
qed

text \<open>The handler, before there is a handle and after.\<close>

lemma ends_failed_before:
  assumes c: "well_placed c" and e: "(\<exists>msg. e = RecoveryRequired msg) \<or> c_dirs s (pc_persistentPath c) = Some B"
  shows "ends env c B (promotion_failed env c m permit None e) (s :: 'r gate_world_scheme)"
proof -
  have reject: "ends env c B (reject env c d fc reasons checks ds) s1"
    if "d \<noteq> COMMITTED" "undisturbed {pc_persistentPath c} s s1" "c_dirs s (pc_persistentPath c) = Some B" for d fc reasons checks ds and s1 :: "'r gate_world_scheme"
    by (rule ends_reject [OF c that(1)]) (use that in \<open>simp add: undisturbed_def\<close>)
  have revoke: "wp (case permit of None \<Rightarrow> returnS () | Some p \<Rightarrow> quietly (with_permits (f p))) Q (\<lambda>_ _. True) s"
    if "\<And>x s1. undisturbed {pc_persistentPath c} s s1 \<Longrightarrow> Q x s1" for f :: "promotion_permit \<Rightarrow> 'b promotion_op" and Q :: "unit \<Rightarrow> 'r gate_world_scheme \<Rightarrow> bool"
    using that stay.refl [of "{pc_persistentPath c}" s]
    by (cases permit) (auto simp: wp_return intro!: wp_only_keeps [OF stay.keeps_quietly [OF quiet_permits]])
  show ?thesis
  proof (cases "\<exists>msg. e = RecoveryRequired msg")
    case True
    then show ?thesis by (auto simp: promotion_failed_def wp_throw)
  next
    case False
    then show ?thesis using e
      by (cases e) (auto simp: promotion_failed_def wp_bind wp_return intro!: revoke reject)
  qed
qed

lemma wp_undo_handle:
  fixes i :: "('r gate_world_scheme) promote_input" and Q :: "unit \<Rightarrow> 'r gate_world_scheme \<Rightarrow> bool"
  assumes "apart i" and "promoted (gate_tx env (pc_policy c)) i B j s" and "assertSafeIdentifier (pi_runId i) ''runId'' = Inr ()"
    and "pi_persistentPath i = pc_persistentPath c"
    and ok: "\<And>s'. c_dirs s' (pc_persistentPath c) = Some B \<Longrightarrow> Q () s'"
  shows "wp (undo_handle env c (journal_path i)) Q (\<lambda>_ _. True) s"
proof -
  let ?te = "gate_tx env (pc_policy c)"
  let ?s = "s\<lparr>gw_pending := (gw_pending s)(pc_runId c := None)\<rparr>"
  have promoted: "promoted ?te i B j ?s" using assms(2) by (simp add: promoted_def)
  have roll: "wp (rollbackJournal ?te j (journal_path i)) (\<lambda>_. Q ()) (\<lambda>_ _. True) s1"
    if "c_dirs s1 = c_dirs ?s" "c_journals s1 = c_journals ?s" for s1 :: "'r gate_world_scheme"
  proof (rule wp_rollbackJournal [where B = B])
    from promoted have j: "journal_for ?te i j" by (auto simp: promoted_def)
    show "apart_journal ?te j" using journal_for_apart(1) [OF j assms(1,3)] .
    show "swapping j" "recoverable ?te B j s1" using promoted that j
      by (auto simp: promoted_def swapping_def recoverable_def held_def journal_for_def)
    show "Q () s'" if "c_dirs s' (jn_persistentPath j) = Some B" for s'
      by (rule ok) (use that j assms(4) in \<open>simp add: journal_for_def\<close>)
  qed simp_all
  have "wp (read_journal (journal_path i)) (\<lambda>j. wp (rollbackJournal ?te j (journal_path i)) (\<lambda>_. Q ()) (\<lambda>_ _. True))
      (\<lambda>_ _. True) ?s"
    by (rule wp_read) (use roll promoted in \<open>auto simp: promoted_def\<close>)
  then show ?thesis
    unfolding undo_handle_def handle_rollback_def wp_simps if_False by (rule wp_mono) (auto elim: wp_mono)
qed

end
