(* ===== verification/Coordinator_Settle.thy ===== *)
theory Coordinator_Settle
  imports Coordinator_Runs
begin

text \<open>
  What the coordinator does with a run that is promoted or rejected (\<^verbatim>\<open>commitgate/coordinator.ts\<close>):
  acknowledging or rolling back a pending promotion, binding a rejected run to the view it ended in,
  the receipt of a run that was never prepared, and the attempt to claim a consumed permit again.
\<close>

subsection \<open>A pending promotion\<close>

definition hasPendingPromotion :: "string \<Rightarrow> 'r gate_world_scheme \<Rightarrow> bool" where
  "hasPendingPromotion runId s \<longleftrightarrow> gw_pending s runId \<noteq> None"

definition pending_of :: "string \<Rightarrow> ('r, pending_promotion) gate_op" where
  "pending_of runId = bindS (getS (\<lambda>s. gw_pending s runId)) (\<lambda>p.
     case p of None \<Rightarrow> tx_throw (''No pending CommitGate promotion for run '' @ runId) | Some x \<Rightarrow> returnS x)"

definition next_view_input :: "pending_promotion \<Rightarrow> version_record \<Rightarrow> string \<Rightarrow> state_view_input" where
  "next_view_input p v platform = (let base = pc_baseView (pn_prepared p) in
     \<lparr>view_agentId = pc_agentId (pn_prepared p), headVersionId = ve_id v, generation = generation base + 1,
      versionedHash = ve_snapshotHash v, platformManagedHash = platform,
      liveStateHash = gr_finalSnapshotHash (pn_receipt p), sessionEpoch = sessionEpoch base,
      agentConfigVersion = agentConfigVersion base, policyVersion = policyVersion base\<rparr>)"

definition staged_receipt :: "pending_promotion \<Rightarrow> version_record \<Rightarrow> state_view \<Rightarrow> gate_receipt" where
  "staged_receipt p v next = (let base = generation (pc_baseView (pn_prepared p)) in
     (pn_receipt p)\<lparr>gr_versionId := Some (ve_id v), gr_promotionPendingDatabaseAck := True,
       gr_artifactRetention := Some ''version_snapshot'', gr_nextView := Some next, gr_finalViewId := Some (viewId next),
       gr_baseGeneration := Some base, gr_nextGeneration := Some (base + 1), gr_generation := Some (base + 1)\<rparr>)"

definition stageAcknowledge :: "('r gate_world_scheme) gate_env \<Rightarrow> string \<Rightarrow> ('r, gate_finalization) gate_op" where
  "stageAcknowledge env runId =
     bindS (pending_of runId) (\<lambda>p.
     let c = pn_prepared p; vs = gate_vs env (pc_policy c) in
     if expected_hash (gr_versionId (pn_receipt p)) \<noteq> None then returnS (finalization (pn_receipt p))
     else
       bindS (seal_resolve (ge_le env) (vs_tx vs) (pc_controlPath c) (sp_proposalId (rs_proposal (pn_sealed p)))) (\<lambda>sealed.
       bindS (recordCommit vs (pc_agentId c) (pc_persistentPath c) runId
                \<lparr>co_deferPrune = True, co_sourcePath = Some (rs_payloadPath sealed), co_sourceManifest = Some (rs_manifest sealed)\<rparr>) (\<lambda>v.
       bindS (manifest_at (vs_tx vs) [PlatformManaged] (pc_persistentPath c)) (\<lambda>platform.
       bindS (tx_res (createStateViewRef (ge_H env) (next_view_input p v (sm_hash platform)))) (\<lambda>next.
       let r = staged_receipt p v next in
       bindS (set_pending runId (p\<lparr>pn_receipt := r\<rparr>)) (\<lambda>_. store_receipt env r))))))"

definition acknowledged_receipt :: "gate_receipt \<Rightarrow> gate_receipt" where
  "acknowledged_receipt r =
     r\<lparr>gr_phase := TERMINAL, gr_transactionStatus := Some TERMINAL, gr_artifactRetention := Some ''version_snapshot'',
       gr_promotionPendingDatabaseAck := False, gr_permitState := Some CONSUMED\<rparr>"

definition drop_pending :: "string \<Rightarrow> ('r, unit) gate_op" where
  "drop_pending runId = putS (\<lambda>s. s\<lparr>gw_pending := (gw_pending s)(runId := None)\<rparr>)"

definition acknowledge :: "('r gate_world_scheme) gate_env \<Rightarrow> string \<Rightarrow> ('r, gate_finalization) gate_op" where
  "acknowledge env runId =
     bindS (pending_of runId) (\<lambda>_.
     bindS (stageAcknowledge env runId) (\<lambda>staged.
     bindS (pending_of runId) (\<lambda>p.
     let c = pn_prepared p; vs = gate_vs env (pc_policy c) in
     bindS (handle_acknowledge (vs_tx vs) (pn_journalPath p) (pn_backupPath p) (pn_settled p)) (\<lambda>settled.
     bindS (set_pending runId (p\<lparr>pn_settled := settled\<rparr>)) (\<lambda>_.
     let r = acknowledged_receipt (gf_receipt staged) in
     bindS (releaseRetention vs (pc_agentId c)) (\<lambda>_.
     bindS (quietly (seal_destroy (pc_controlPath c) (sp_proposalId (rs_proposal (pn_sealed p))))) (\<lambda>_.
     bindS (store_receipt env r) (\<lambda>f.
     bindS (drop_pending runId) (\<lambda>_. returnS f)))))))))"

definition rolled_back_promotion :: "'w gate_env \<Rightarrow> pending_promotion \<Rightarrow> gate_receipt" where
  "rolled_back_promotion env p = (let c = pn_prepared p; base = generation (pc_baseView c) in
     (pn_receipt p)\<lparr>gr_decision := ABORTED, gr_phase := TERMINAL, gr_transactionStatus := Some TERMINAL,
       gr_artifactRetention := Some ''destroyed'', gr_failureClass := Some ''infra_errored'',
       gr_reasonCodes := gr_reasonCodes (pn_receipt p) @ [''DATABASE_COMMIT_ROLLED_BACK''],
       gr_finalSnapshotHash := pc_baseSnapshotHash c, gr_nextView := None, gr_finalViewId := None,
       gr_baseGeneration := Some base, gr_nextGeneration := Some base, gr_generation := Some base,
       gr_threadDisposition := ''reset'', gr_sessionEpoch := pc_sessionEpoch c + 1, gr_versionId := None,
       gr_promotionPendingDatabaseAck := False, gr_completedAt := ge_now env\<rparr>)"

definition rollbackPending :: "('r gate_world_scheme) gate_env \<Rightarrow> string \<Rightarrow> ('r, unit) gate_op" where
  "rollbackPending env runId =
     bindS (getS (\<lambda>s. gw_pending s runId)) (\<lambda>pending.
     case pending of
       None \<Rightarrow> returnS ()
     | Some p \<Rightarrow>
         let c = pn_prepared p; vs = gate_vs env (pc_policy c) in
         bindS (handle_rollback (vs_tx vs) (pn_journalPath p) (pn_settled p)) (\<lambda>settled.
         bindS (set_pending runId (p\<lparr>pn_settled := settled\<rparr>)) (\<lambda>_.
         bindS (revertRunVersion vs (pc_agentId c) runId) (\<lambda>_.
         bindS (receipt_put (ge_storeSensitive env) (rolled_back_promotion env p)) (\<lambda>_.
         bindS (drop_pending runId) (\<lambda>_.
         quietly (seal_destroy (pc_controlPath c) (sp_proposalId (rs_proposal (pn_sealed p))))))))))"

subsection \<open>Runs without a promotion\<close>

definition disposition_mismatch :: "string \<Rightarrow> gate_receipt \<Rightarrow> state_view \<Rightarrow> bool" where
  "disposition_mismatch agentId r v \<longleftrightarrow> gr_phase r \<noteq> PENDING_DISPOSITION \<or> gr_decision r = COMMITTED \<or>
     view_agentId v \<noteq> agentId \<or> liveStateHash v \<noteq> gr_finalSnapshotHash r \<or> Some (generation v) \<noteq> gr_generation r"

definition finalizeDisposition :: "('r gate_world_scheme) gate_env \<Rightarrow> string \<Rightarrow> string \<Rightarrow> state_view \<Rightarrow> ('r, gate_finalization) gate_op" where
  "finalizeDisposition env agentId runId finalView =
     bindS (tx_res (assertStateViewRef (ge_H env) finalView)) (\<lambda>_.
     bindS (receipt_get agentId runId) (\<lambda>found.
     case found of
       None \<Rightarrow> tx_throw ''Non-promotion receipt not found''
     | Some r \<Rightarrow>
         if gr_phase r = TERMINAL then returnS (finalization r)
         else if disposition_mismatch agentId r finalView then tx_throw ''NON_PROMOTION_DISPOSITION_BINDING_MISMATCH''
         else store_receipt env (r\<lparr>gr_phase := TERMINAL, gr_transactionStatus := Some TERMINAL,
                gr_finalViewId := Some (viewId finalView), gr_nextView := Some finalView,
                gr_sessionEpoch := sessionEpoch finalView, gr_artifactRetention := Some ''destroyed'',
                gr_completedAt := ge_now env\<rparr>)))"

definition admission_receipt :: "'w gate_env \<Rightarrow> admission_failure \<Rightarrow> gate_decision \<Rightarrow> string \<Rightarrow> string \<Rightarrow> gate_receipt" where
  "admission_receipt env i decision message policy_hash =
     (let hash = override (af_baseLiveStateHash i) (sha256Canonical (ge_H env) (ge_le env)
            (JObj [(''unavailable'', JStr ''admission-live-state''), (''runId'', JStr (af_runId i))]));
          gen = Some (override (af_stateGeneration i) 0) in
      sanitizeReceipt (ge_sensitive env)
        \<lparr>gr_schemaVersion = 2, gr_runId = af_runId i, gr_agentId = af_agentId i, gr_phase = PENDING_DISPOSITION,
         gr_decision = decision,
         gr_failureClass = Some (if decision = CONFLICTED then ''state_conflict'' else ''infra_errored''),
         gr_reasonCodes = [(if decision = CONFLICTED then ''ADMISSION_VIEW_CONFLICT:'' else ''ADMISSION_FAILED:'') @ message],
         gr_baseSnapshotHash = hash, gr_candidateSnapshotHash = None, gr_patchHash = None, gr_finalSnapshotHash = hash,
         gr_policyHash = policy_hash, gr_policyProfile = None, gr_policyVersion = None, gr_checkSpecHash = None,
         gr_evidence = [(''admission'', ''unavailable''), (''static'', ''unavailable''), (''trustedChecks'', ''unavailable'')],
         gr_checks = [], gr_changedPaths = [], gr_threadDisposition = ''reset'', gr_candidateCleanup = ''deleted'',
         gr_sessionEpoch = af_sessionEpoch i + 1, gr_versionId = None, gr_promotionPendingDatabaseAck = False,
         gr_baseView = None, gr_nextView = None, gr_baseViewId = expected_hash (af_baseViewId i), gr_finalViewId = None,
         gr_baseGeneration = gen, gr_nextGeneration = gen, gr_generation = gen, gr_proposalId = None,
         gr_evaluationContextHash = None, gr_evidenceDigest = None, gr_permitId = None, gr_permitState = None,
         gr_transactionStatus = Some PENDING_DISPOSITION, gr_artifactRetention = Some ''destroyed'',
         gr_provider = af_provider i, gr_startedAt = override (af_startedAt i) (ge_now env), gr_completedAt = ge_now env\<rparr>)"

text \<open>The decision is \<open>ABORTED\<close> or \<open>CONFLICTED\<close>.\<close>

definition recordAdmissionFailure :: "('r gate_world_scheme) gate_env \<Rightarrow> admission_failure \<Rightarrow> string \<Rightarrow> gate_decision \<Rightarrow>
    ('r, gate_finalization) gate_op" where
  "recordAdmissionFailure env i message decision =
     bindS (tx_res (assertSafeIdentifier (af_runId i) ''runId'')) (\<lambda>_.
     bindS (tx_res (assertSafeIdentifier (af_agentId i) ''agentId'')) (\<lambda>_.
     bindS (receipt_get (af_agentId i) (af_runId i)) (\<lambda>existing.
     case existing of
       Some r \<Rightarrow> returnS (finalization r)
     | None \<Rightarrow>
         bindS (tx_res (validatePolicy (policy_json (ge_defaultPolicy env)))) (\<lambda>fallback.
         bindS (catchS (policyForAgent env (af_agentId i)) (\<lambda>_. returnS fallback)) (\<lambda>p.
         bindS (tx_res (policyHash (ge_H env) p)) (\<lambda>h.
         store_receipt env (admission_receipt env i decision message h)))))))"

subsection \<open>A consumed permit\<close>

record replay_input =
  ri_replayAgentId :: string
  ri_replayRunId :: string
  ri_replayPermitId :: string
  ri_expectedCurrentViewId :: string

text \<open>The members a replay needs of a receipt: proposal, base view, context and evidence.\<close>

definition replay_bindings :: "gate_receipt \<Rightarrow> string \<Rightarrow> (string \<times> state_view \<times> string \<times> string) option" where
  "replay_bindings r permitId =
     (if gr_phase r \<noteq> TERMINAL \<or> gr_decision r \<noteq> COMMITTED \<or> gr_permitId r \<noteq> Some permitId \<or> gr_permitState r \<noteq> Some CONSUMED
      then None
      else case (expected_hash (gr_proposalId r), gr_baseView r, expected_hash (gr_evaluationContextHash r),
                 expected_hash (gr_evidenceDigest r)) of
        (Some proposal, Some base, Some context, Some digest) \<Rightarrow> Some (proposal, base, context, digest)
      | _ \<Rightarrow> None)"

definition replay_claim :: "replay_input \<Rightarrow> string \<Rightarrow> resolved_proposal \<Rightarrow> string \<times> state_view \<times> string \<times> string \<Rightarrow> claim_input" where
  "replay_claim i controlPath descriptor b =
     (case b of (proposal, base, context, digest) \<Rightarrow>
     \<lparr>cl_agentId = ri_replayAgentId i, cl_controlPath = controlPath, cl_permitId = ri_replayPermitId i,
      cl_proposal = (rs_proposal descriptor)\<lparr>sp_state := SEALED\<rparr>, cl_proposalPath = rs_payloadPath descriptor,
      cl_proposalManifest = rs_manifest descriptor, cl_baseView = base, cl_evaluationContextHash = context,
      cl_evidenceDigest = digest\<rparr>)"

fun is_replay :: "tx_error \<Rightarrow> bool" where
  "is_replay (PermitFault (PermitStateError code msg)) \<longleftrightarrow> code = PERMIT_REPLAY"
| "is_replay e \<longleftrightarrow> False"

definition attemptConsumedPermitReplay :: "('r gate_world_scheme) gate_env \<Rightarrow> replay_input \<Rightarrow> ('r, unit) gate_op" where
  "attemptConsumedPermitReplay env i =
     bindS (tx_res (assertSafeIdentifier (ri_replayAgentId i) ''agentId'')) (\<lambda>_.
     bindS (tx_res (assertSafeIdentifier (ri_replayRunId i) ''runId'')) (\<lambda>_.
     bindS (tx_res (assertSafeIdentifier (ri_replayPermitId i) ''permitId'')) (\<lambda>_.
     bindS (receipt_get (ri_replayAgentId i) (ri_replayRunId i)) (\<lambda>found.
     case Option.bind found (\<lambda>r. replay_bindings r (ri_replayPermitId i)) of
       None \<Rightarrow> tx_throw ''PERMIT_REPLAY_BINDINGS_UNAVAILABLE''
     | Some b \<Rightarrow>
         let controlPath = ge_controlRoot env @ ''/'' @ ri_replayAgentId i in
         bindS (with_permits (permit_get controlPath (ri_replayPermitId i))) (\<lambda>persisted.
         if pp_state persisted \<noteq> CONSUMED then tx_throw ''PERMIT_NOT_TERMINALLY_CONSUMED''
         else
           bindS (seal_describe (ge_H env) (ge_le env) controlPath (fst b)) (\<lambda>descriptor.
           tryS (with_permits (permit_claim (ge_H env) (ge_le env) (replay_claim i controlPath descriptor b) (ge_clock env)))
             (\<lambda>e. if is_replay e
                  then bindS (appendPermitReplayEvent (ge_uuid env) (ge_now env) (ri_replayAgentId i) (ri_replayRunId i)
                                (ri_replayPermitId i) (ri_expectedCurrentViewId i)) (\<lambda>_. returnS ())
                  else throwS e)
             (\<lambda>_. tx_throw ''CONSUMED_PERMIT_UNEXPECTEDLY_RECLAIMED'')))))))"

end
