(* ===== verification/Coordinator_Ends.thy ===== *)
theory Coordinator_Ends
  imports Coordinator_Outcome Coordinator_Settle
begin

text \<open>
  How every step of \<^verbatim>\<open>verifyAndFinalize\<close> ends, last step first: with a finalization that has the
  outcome of \<open>Coordinator_Outcome\<close>, or with an error.
\<close>

subsection \<open>From the swap on\<close>

lemma wp_set_pending: "wp (set_pending r p) Q E = (\<lambda>s. Q () (s\<lparr>gw_pending := (gw_pending s)(r \<mapsto> p)\<rparr>))"
  unfolding set_pending_def by (simp add: wp_put)

lemma wp_cleanup:
  assumes "pc_candidatePath c \<notin> U" and "pc_verifyPath c \<notin> U"
    and "\<And>u s'. undisturbed U s s' \<Longrightarrow> control.more s' = control.more s \<Longrightarrow> Q u s'"
    and "\<And>e s'. undisturbed U s s' \<Longrightarrow> control.more s' = control.more s \<Longrightarrow> E e s'"
  shows "wp (cleanupTransient c) Q E s"
proof -
  have "wp (cleanupTransient c) (\<lambda>_. undisturbed U s) (\<lambda>_. undisturbed U s) s"
    by (rule wp_only_keeps [OF quiet_cleanup]) (use assms(1,2) in auto)
  from wp_keeps [OF rest_cleanup this] show ?thesis by (rule wp_mono) (use assms in \<open>auto simp: rest_same_def\<close>)
qed

lemma stored_same:
  assumes "control.more s' = control.more (s :: 'r gate_world_scheme)"
  shows "gw_pending s' = gw_pending s" "rw_receipts s' = rw_receipts s"
  using assms by (cases s; cases s'; simp)+

lemma ends_failed_after:
  fixes s :: "'r gate_world_scheme"
  assumes c: "well_placed c" and P: "promoted (gate_tx env (pc_policy c)) (authorized_input (promote_request env c m cap n)) B j s"
    and id: "assertSafeIdentifier (pc_runId c) ''runId'' = Inr ()"
  shows "ends env c B (promotion_failed env c m permit (Some (gate_journal c)) e) s"
proof -
  let ?i = "authorized_input (promote_request env c m cap n)"
  have i: "apart ?i" using c by (simp add: apart_def well_placed_def)
  have reject: "ends env c B (reject env c d fc reasons checks ds) s1"
    if "d \<noteq> COMMITTED" "undisturbed {pc_persistentPath c} s0 s1" "c_dirs s0 (pc_persistentPath c) = Some B"
    for d fc reasons checks ds and s0 s1 :: "'r gate_world_scheme"
    by (rule ends_reject [OF c that(1)]) (use that in \<open>simp add: undisturbed_def\<close>)
  have revoke: "wp (case permit of None \<Rightarrow> returnS () | Some p \<Rightarrow> quietly (with_permits (f p))) Q (\<lambda>_ _. True) s0"
    if "\<And>x s1. undisturbed {pc_persistentPath c} s0 s1 \<Longrightarrow> Q x s1"
    for f :: "promotion_permit \<Rightarrow> 'b promotion_op" and Q :: "unit \<Rightarrow> 'r gate_world_scheme \<Rightarrow> bool" and s0
    using that stay.refl [of "{pc_persistentPath c}" s0]
    by (cases permit) (auto simp: wp_return intro!: wp_only_keeps [OF stay.keeps_quietly [OF quiet_permits]])
  have undo: "wp (undo_handle env c (gate_journal c)) Q (\<lambda>_ _. True) s"
    if "\<And>s'. c_dirs s' (pc_persistentPath c) = Some B \<Longrightarrow> Q () s'" for Q
    using wp_undo_handle [OF i P, of Q] id that by simp
  show ?thesis
    by (cases e) (auto simp: promotion_failed_def wp_bind wp_return wp_throw intro!: undo revoke reject)
qed

text \<open>A receipt that is ready to be recorded.\<close>

definition recordable :: "'w gate_env \<Rightarrow> prepared_candidate \<Rightarrow> snapshot_manifest \<Rightarrow> gate_receipt \<Rightarrow> bool" where
  "recordable env c final r \<longleftrightarrow> gr_agentId r = pc_agentId c \<and> gr_runId r = pc_runId c \<and> gr_decision r = COMMITTED \<and>
     gr_phase r = PENDING_PROMOTION \<and> gr_permitState r = Some CONSUMED \<and> gr_finalSnapshotHash r = sm_hash final \<and>
     required_passed (pc_policy c) (gr_checks r)"

lemma recordable_deferred: "recordable env c final r \<Longrightarrow> recordable env c final (r\<lparr>gr_candidateCleanup := x\<rparr>)"
  by (simp add: recordable_def)

lemma ends_record:
  fixes s :: "'r gate_world_scheme"
  assumes c: "well_placed c" and P: "promoted (gate_tx env (pc_policy c)) (authorized_input (promote_request env c m cap n)) B j s"
    and id: "assertSafeIdentifier (pc_runId c) ''runId'' = Inr ()"
    and final: "c_dirs s (pc_persistentPath c) = Some T" "manifest_of (gate_tx env (pc_policy c)) authoritative T = Inr final"
    and r: "recordable env c final (pn_receipt p)"
    and p: "pn_journalPath p = gate_journal c" "pn_capability p = cap" and base: "cap_baseView cap = pc_baseView c"
  shows "ends env c B (record_promotion env c m p) s"
proof -
  let ?te = "gate_tx env (pc_policy c)" let ?i = "authorized_input (promote_request env c m cap n)"
  let ?U = "{pc_persistentPath c, gate_backup c}"
  have still: "promoted ?te ?i B j s'" if "promoted ?te ?i B j s1" "undisturbed ?U s1 s'" for s1 s' :: "'r gate_world_scheme"
    using promoted_undisturbed [OF that(1)] that(2) by simp
  have all: "undisturbed ?U s1 s' \<and> c_dirs s' = c_dirs s1" if "undisturbed UNIV s1 s'" for s1 s' :: "'r gate_world_scheme"
    using that by (auto simp: undisturbed_def)
  have pend: "promoted ?te ?i B j (s1\<lparr>gw_pending := q\<rparr>) \<longleftrightarrow> promoted ?te ?i B j s1" for s1 :: "'r gate_world_scheme" and q
    by (simp add: promoted_def)
  note failed = ends_failed_after [OF c _ id, where m = m and cap = cap and n = n and env = env and B = B]
  have good: "outcome env c B (finalization (pn_receipt q)) s'"
    if "promoted ?te ?i B j s'" "c_dirs s' (pc_persistentPath c) = Some T" "recordable env c final (pn_receipt q)"
      "stored_run env c (pn_receipt q) s'" "gw_pending s' (pc_runId c) = Some q" "pn_journalPath q = gate_journal c" "pn_capability q = cap"
    for q and s' :: "'r gate_world_scheme"
  proof -
    from that(1) have "expected_hash (Some (sp_manifestHash (cap_proposal cap))) \<in> {None, Some (jn_targetHash j)}"
      "hash_ok ?te (jn_targetHash j) T" "c_journals s' (gate_journal c) = Some j" "jn_state j = PROMOTED_PENDING_DB"
      "c_dirs s' (gate_backup c) = Some B" "hash_ok ?te (liveStateHash (pc_baseView c)) B"
      using that(2) base by (auto simp: promoted_def journal_for_def)
    with that final(2) show ?thesis
      by (auto simp: outcome_def finalization_def committed_run_def recordable_def hash_ok_def expected_hash_def split: if_splits)
  qed
  have settle: "ends env c B (bindS (set_pending (pc_runId c) q) (\<lambda>u. returnS (finalization (pn_receipt q)))) s1"
    if "promoted ?te ?i B j s1" "c_dirs s1 (pc_persistentPath c) = Some T" "recordable env c final (pn_receipt q)"
      "stored_run env c (pn_receipt q) s1" "pn_journalPath q = gate_journal c" "pn_capability q = cap"
    for q and s1 :: "'r gate_world_scheme"
    unfolding wp_bind wp_set_pending wp_return
    by (rule good) (use that in \<open>simp_all add: pend stored_run_def\<close>)
  have stored: "stored_run env c q s'"
    if "rw_receipts s' (gr_agentId q, gr_runId q) = Some (sanitizeReceipt (ge_storeSensitive env) q)" "recordable env c final q"
    for q and s' :: "'r gate_world_scheme"
    using that by (simp add: stored_run_def recordable_def)
  let ?d = "(pn_receipt p)\<lparr>gr_candidateCleanup := ''deferred''\<rparr>"
  have d: "recordable env c final (pn_receipt (p\<lparr>pn_receipt := ?d\<rparr>))" using recordable_deferred [OF r] by simp
  have defer_cleanup: "ends env c B (tryS (receipt_put (ge_storeSensitive env) ?d)
       (promotion_failed env c m (Some (pn_permit p)) (Some (gate_journal c)))
       (\<lambda>_. bindS (set_pending (pc_runId c) (p\<lparr>pn_receipt := ?d\<rparr>)) (\<lambda>_. returnS (finalization ?d)))) s1"
    if "promoted ?te ?i B j s1" "c_dirs s1 (pc_persistentPath c) = Some T" for s1 :: "'r gate_world_scheme"
    unfolding wp_tryS
  proof (rule wp_mono [OF wp_put_receipt], goal_cases)
    case (1 u s2)
    then show ?case using settle [OF _ _ d, of s2] still [OF that(1)] all [of s1 s2] stored [OF _ d, of s2] that(2) p by simp
  next
    case (2 e s2)
    then show ?case using failed [OF still [OF that(1)]] all [of s1 s2] by simp
  qed
  have clean: "pc_candidatePath c \<notin> ?U" "pc_verifyPath c \<notin> ?U" using placed_paths [OF c] by auto
  show ?thesis unfolding record_promotion_def Let_def p(1) wp_tryS [of "receipt_put _ (pn_receipt p)"]
  proof (rule wp_mono [OF wp_put_receipt], goal_cases)
    case (2 e s1)
    then show ?case using failed [OF still [OF P]] all [of s s1] by simp
  next
    case (1 u s1)
    let ?s1 = "s1\<lparr>gw_pending := (gw_pending s1)(pc_runId c \<mapsto> p)\<rparr>"
    have s1: "promoted ?te ?i B j ?s1" "c_dirs ?s1 (pc_persistentPath c) = Some T" "stored_run env c (pn_receipt p) s1"
      using 1 all [of s s1] still [OF P] final(1) stored [OF _ r] by (simp_all add: pend)
    show ?case unfolding wp_bind wp_set_pending wp_tryS [of "cleanupTransient c"]
    proof (rule wp_cleanup [OF clean], goal_cases)
      case (2 e s2)
      then show ?case using defer_cleanup [of s2] still [OF s1(1)] s1(2) by (simp add: undisturbed_def)
    next
      case (1 u s2)
      have "stored_run env c (pn_receipt p) s2" "gw_pending s2 (pc_runId c) = Some p"
        using s1(3) stored_same [OF 1(2)] by (simp_all add: stored_run_def)
      then show ?case unfolding wp_return
        by (intro good [OF still [OF s1(1) 1(1)] _ r]) (use s1(2) 1(1) p in \<open>simp_all add: undisturbed_def\<close>)
    qed
  qed
qed

lemma ends_finish:
  fixes s :: "'r gate_world_scheme"
  assumes c: "well_placed c" and P: "promoted (gate_tx env (pc_policy c)) (authorized_input (promote_request env c m cap n)) B j s"
    and id: "assertSafeIdentifier (pc_runId c) ''runId'' = Inr ()" and m: "required_passed (pc_policy c) (pm_checks m)"
    and base: "cap_baseView cap = pc_baseView c"
  shows "ends env c B (finish_promotion env c m cap (gate_journal c) (gate_backup c)) s"
proof -
  let ?te = "gate_tx env (pc_policy c)" let ?i = "authorized_input (promote_request env c m cap n)"
  have still: "promoted ?te ?i B j s'" if "promoted ?te ?i B j s1" "undisturbed UNIV s1 s'" for s1 s' :: "'r gate_world_scheme"
    using promoted_undisturbed [OF that(1)] that(2) by (simp add: undisturbed_def)
  note failed = ends_failed_after [OF c _ id, where m = m and cap = cap and n = n and env = env and B = B]
  show ?thesis
    unfolding finish_promotion_def Let_def wp_tryS
  proof (rule wp_permits, goal_cases)
    case (2 e s1)
    then show ?case using failed [OF still [OF P]] by simp
  next
    case (1 permit s1 p0 p1)
    then have s1: "promoted ?te ?i B j s1" and consumed: "pp_state permit = CONSUMED"
      using still [OF P] consumed_permit by blast+
    show ?case
    proof (rule wp_build, goal_cases)
      case (2 e s2)
      then show ?case using failed [OF still [OF s1]] by (simp add: undisturbed_same)
    next
      case (1 s2 T final)
      then have s2: "promoted ?te ?i B j s2" "c_dirs s2 (pc_persistentPath c) = Some T" "manifest_of ?te authoritative T = Inr final"
        using still [OF s1] by (auto simp: undisturbed_same manifest_of_def)
      show ?case
        by (rule ends_record [OF c s2(1) id s2(2,3)])
          (simp_all add: recordable_def pending_receipt_def receipt_status_def sanitized_passed m consumed base)
    qed
  qed
qed


subsection \<open>Up to the swap\<close>

text \<open>The workspace is as it was and the run has no journal.\<close>

definition untouched :: "prepared_candidate \<Rightarrow> fs_node \<Rightarrow> 'r control_scheme \<Rightarrow> bool" where
  "untouched c B s \<longleftrightarrow> c_dirs s (pc_persistentPath c) = Some B \<and> c_journals s (gate_journal c) = None"

lemma untouched_still: "untouched c B s \<Longrightarrow> undisturbed {pc_persistentPath c} s s' \<Longrightarrow> untouched c B s'"
  by (simp add: untouched_def undisturbed_def)

lemma untouched_place: "untouched c B s \<Longrightarrow> c_dirs s (pc_persistentPath c) = Some B"
  by (simp add: untouched_def)

text \<open>A step that keeps the workspace, then either of two ends.\<close>

lemma ends_try:
  fixes s :: "'r gate_world_scheme"
  assumes m: "keeps (undisturbed {pc_persistentPath c}) m" and s: "untouched c B s"
    and h: "\<And>e s'. e \<noteq> Stopped \<Longrightarrow> untouched c B s' \<Longrightarrow> ends env c B (h e) s'"
    and f: "\<And>x s'. untouched c B s' \<Longrightarrow> ends env c B (f x) s'"
  shows "ends env c B (tryS m h f) s"
  unfolding wp_tryS by (rule wp_only_keeps [OF m]) (auto intro: h f untouched_still [OF s])

lemma ends_bind:
  fixes s :: "'r gate_world_scheme"
  assumes m: "keeps (undisturbed {pc_persistentPath c}) m" and s: "untouched c B s"
    and f: "\<And>x s'. untouched c B s' \<Longrightarrow> ends env c B (f x) s'"
  shows "ends env c B (bindS m f) s"
  unfolding wp_bind by (rule wp_only_keeps [OF m]) (auto intro: f untouched_still [OF s])

lemma ends_rejected:
  "well_placed c \<Longrightarrow> decision \<noteq> COMMITTED \<Longrightarrow> untouched c B s \<Longrightarrow> ends env c B (reject env c decision fc reasons checks d) s"
  by (rule ends_reject) (simp_all add: untouched_def)

lemma ends_failed: "well_placed c \<Longrightarrow> untouched c B s \<Longrightarrow> ends env c B (promotion_failed env c m permit None e) s"
  by (rule ends_failed_before) (simp_all add: untouched_def)

lemma ends_swap:
  fixes s :: "'r gate_world_scheme"
  assumes c: "well_placed c" and s: "untouched c B s" and m: "required_passed (pc_policy c) (pm_checks m)"
    and base: "cap_baseView cap = pc_baseView c"
  shows "ends env c B (swap_promotion env c m cap n) s"
  unfolding swap_promotion_def Let_def
proof (rule ends_try [OF quiet_put s], goal_cases)
  case (1 e s')
  then show ?case by (intro ends_failed [OF c])
next
  case (2 u s1)
  let ?a = "promote_request env c m cap n" let ?i = "authorized_input ?a" let ?te = "gate_tx env (pc_policy c)"
  have "wp (promoteAuthorized (ge_le env) ?te (ge_clock env) ?a)
      (\<lambda>j s'. promoted ?te ?i B j s' \<and> assertSafeIdentifier (ap_runId ?a) ''runId'' = Inr ()) (ended ?te ?i B) s1"
  proof (rule wp_promoteAuthorized)
    show "frames (ap_consume ?a)" unfolding promote_request_def by (simp add: frames_permits)
  qed (use c 2 in \<open>simp_all add: apart_def well_placed_def untouched_def\<close>)
  then show ?case unfolding wp_tryS request_paths
  proof (rule wp_mono, goal_cases)
    case (1 j s2)
    then show ?case by (intro ends_finish [OF c _ _ m base]) auto
  next
    case (2 e s2)
    then show ?case using ends_failed_before [OF c, of e s2 B] by (auto simp: ended_def)
  qed
qed

lemma claimed_base: "permit_claim H le i now st = (Inr cap, st') \<Longrightarrow> cap_baseView cap = cl_baseView i"
  by (auto simp: permit_claim_def Let_def eff_simps)

lemma ends_promote:
  fixes s :: "'r gate_world_scheme"
  assumes c: "well_placed c" and s: "untouched c B s" and m: "required_passed (pc_policy c) (pm_checks m)"
  shows "ends env c B (promote_run env c m) s"
proof -
  have claim: "ends env c B (tryS (with_permits (permit_claim (ge_H env) (ge_le env) (claim_of c m permit source) (ge_clock env)))
      (promotion_failed env c m (Some permit) None)
      (\<lambda>cap. bindS (getS (\<lambda>s. length (ps_capabilities (gw_permits s)) - 1)) (\<lambda>n. swap_promotion env c m cap n))) s'"
    if "untouched c B s'" for permit source and s' :: "'r gate_world_scheme"
    unfolding wp_tryS
  proof (rule wp_permits, goal_cases)
    case (1 cap s1 p0 p1)
    then have "untouched c B s1" "cap_baseView cap = pc_baseView c"
      using that claimed_base by (auto simp: untouched_def undisturbed_def claim_of_def)
    then show ?case unfolding wp_bind wp_get by (intro ends_swap [OF c _ m])
  next
    case (2 e s1)
    then show ?case using that by (auto simp: untouched_def undisturbed_def intro!: ends_failed [OF c])
  qed
  show ?thesis unfolding promote_run_def Let_def
    by (intro ends_try quiet_permits quiet_resolve s ends_failed c claim)
qed

lemma ends_decide:
  fixes s :: "'r gate_world_scheme"
  assumes c: "well_placed c" and s: "untouched c B s"
  shows "ends env c B (decide_run env c sealed changes h checks) s"
proof -
  have "ends env c B (promote_run env c \<lparr>pm_sealed = sealed, pm_changes = changes, pm_contextHash = h, pm_checks = checks,
      pm_evidence = run_evidence env sealed h checks (assessTrustedChecks checks (pc_policy c))\<rparr>) s'"
    if "ca_evidenceFailures (assessTrustedChecks checks (pc_policy c)) = []"
      "ca_resultFailures (assessTrustedChecks checks (pc_policy c)) = []" "untouched c B s'" for s' :: "'r gate_world_scheme"
    by (rule ends_promote [OF c that(3)]) (use that assessment_clean [of checks "pc_policy c"] in simp)
  then show ?thesis unfolding decide_run_def Let_def
    by (auto intro!: ends_try [OF quiet_capture s] ends_rejected c s)
qed

lemma ends_verify:
  fixes s :: "'r gate_world_scheme"
  assumes c: "well_placed c" and s: "untouched c B s" and v: "\<And>rq. keeps (undisturbed {pc_persistentPath c}) (ge_run env rq)"
  shows "ends env c B (verify_run env c sealed changes context h) s"
  unfolding verify_run_def Let_def
  by (intro ends_try [OF quiet_verifier [OF v]] ends_try [OF quiet_recheck] ends_rejected ends_decide c s) simp_all

lemma ends_evaluate:
  fixes s :: "'r gate_world_scheme"
  assumes c: "well_placed c" and s: "untouched c B s" and v: "\<And>rq. keeps (undisturbed {pc_persistentPath c}) (ge_run env rq)"
  shows "ends env c B (evaluate_run env c sealed changes) s"
  unfolding evaluate_run_def
proof (rule ends_try [OF _ s], goal_cases)
  case 1
  show ?case by (intro stay.frame_intros quiet_context)
next
  case (2 e s')
  then show ?case by (intro ends_rejected [OF c]) simp_all
next
  case (3 x s')
  then show ?case by (cases x) (auto intro: ends_rejected [OF c] ends_verify [OF c _ v])
qed

lemma ends_check_sealed:
  fixes s :: "'r gate_world_scheme"
  assumes c: "well_placed c" and s: "untouched c B s" and v: "\<And>rq. keeps (undisturbed {pc_persistentPath c}) (ge_run env rq)"
  shows "ends env c B (check_sealed env c before digest sealed) s"
  unfolding check_sealed_def
proof (rule ends_bind [OF undisturbed_rm s], goal_cases)
  case 1
  show ?case using placed_paths(1) [OF c] by simp
next
  case (2 u s1)
  show ?case
  proof (rule ends_bind [OF quiet_validate 2], goal_cases)
    case (1 x s2)
    then show ?case by (auto simp: Let_def intro: ends_rejected [OF c] ends_evaluate [OF c _ v] split: prod.split option.split)
  qed
qed

lemma ends_run:
  fixes s :: "'r gate_world_scheme"
  assumes c: "well_placed c" and s: "untouched c B s" and v: "\<And>rq. keeps (undisturbed {pc_persistentPath c}) (ge_run env rq)"
    and r: "rw_receipts s (pc_agentId c, pc_runId c) = None"
  shows "ends env c B (verifyAndFinalize env c) s"
proof -
  have cp: "outside (pc_controlPath c) {pc_persistentPath c}" using placed_paths(3) [OF c] .
  have seal: "ends env c B (tryS (seal (ge_le env) (gate_tx env (pc_policy c)) (seal_of env c digest h)) handler
      (check_sealed env c before digest)) s'"
    if "untouched c B s'" "\<And>e s'. untouched c B s' \<Longrightarrow> ends env c B (handler e) s'" for digest h handler before s'
    by (rule ends_try [OF quiet_seal that(1)]) (use cp that(2) ends_check_sealed [OF c _ v] in \<open>auto simp: seal_of_def\<close>)
  have fresh: "ends env c B (case ge_aborted env AtStart of
          Some reason \<Rightarrow> abort_run env c reason
        | None \<Rightarrow>
          tryS (audited_manifest env c)
            (\<lambda>e. quarantined env c [error_text e] [] (no_details\<lparr>pd_candidateHash := Some None\<rparr>)) (\<lambda>candidateBefore.
          bindS (validate_at env c candidateBefore (pc_candidatePath c)) (\<lambda>(changes, failures).
          let digest = patchHash (ge_H env) changes in
          tryS (seal (ge_le env) (gate_tx env (pc_policy c)) (seal_of env c digest (sm_hash candidateBefore)))
            (\<lambda>e. reject env c (if candidate_invalid e then QUARANTINED else ABORTED)
                   (if candidate_invalid e then ''agent_wrong'' else ''evidence_broken'') [error_text e] []
                   (no_details\<lparr>pd_changes := Some changes, pd_candidateHash := Some (Some (sm_hash candidateBefore))\<rparr>))
            (check_sealed env c candidateBefore digest)))) s1" if s1: "untouched c B s1" for s1
    by (auto simp: abort_run_def Let_def split: option.split prod.split
        split: if_splits intro!: ends_rejected [OF c] ends_try [OF quiet_audited] ends_bind [OF quiet_validate] seal s1)
  have "wp (receipt_get (pc_agentId c) (pc_runId c)) (\<lambda>x s'. x = None \<and> untouched c B s') (\<lambda>_ _. True) s"
    unfolding receipt_get_def receipt_key_def wp_simps
    by (auto intro!: wp_io simp: r s [unfolded untouched_def] untouched_def res_simps bindE_eq_Inr split: sum.splits)
  then show ?thesis
    unfolding verifyAndFinalize_def wp_bind [of "receipt_get _ _"] by (rule wp_mono) (use fresh in auto)
qed

end
