(* ===== verification/Coordinator_Example.thy ===== *)
theory Coordinator_Example
  imports Coordinator_Ends
begin

text \<open>
  A gate at work: a workspace with one file, a candidate that changes it, a verifier whose results
  are given. One hash for everything; the identities and counts decide.
\<close>

definition ex_gate_tx :: tx_env where
  "ex_gate_tx = ex_tx\<lparr>te_walk := (te_walk ex_tx)\<lparr>we_H := (\<lambda>_. EMPTY_STATE_HASH), we_policy := ex_check_policy\<rparr>\<rparr>"

definition ex_gate :: "raw_check list \<Rightarrow> gate_world gate_env" where
  "ex_gate raw = \<lparr>ge_vs = \<lparr>vs_tx = ex_gate_tx, vs_le = ex_le, vs_controlRoot = ''/ctl'', vs_maxUniqueSnapshots = 5,
       vs_maxPayloadBytes = 100, vs_uuid = ''u'', vs_permitUuid = ''p'', vs_nonce = ''n'', vs_clock = 5\<rparr>,
     ge_workspaceRoot = ''/ws'', ge_trustedChecksRoot = ''/ctl/trusted-checks'', ge_defaultPolicy = ex_check_policy,
     ge_sensitive = [], ge_storeSensitive = [], ge_requireTrustedChecks = True, ge_requireTeardown = False,
     ge_sourceRevision = ''r'', ge_limits = DEFAULT_CANDIDATE_RESOURCE_LIMITS, ge_clock = 5, ge_uuid = ''k'', ge_nonce = ''n'',
     ge_aborted = (\<lambda>_. None), ge_verifierName = [], ge_describe = (\<lambda>_ _. Inr None), ge_run = (\<lambda>_. returnS raw),
     ge_viewProvider = None\<rparr>"

definition ex_base_view :: state_view where
  "ex_base_view = makeStateView (\<lambda>_. EMPTY_STATE_HASH)
     \<lparr>view_agentId = ''agent'', headVersionId = ''v1'', generation = 1, versionedHash = EMPTY_STATE_HASH,
      platformManagedHash = EMPTY_STATE_HASH, liveStateHash = EMPTY_STATE_HASH, sessionEpoch = 2,
      agentConfigVersion = 1, policyVersion = 1\<rparr>"

definition ex_new :: fs_node where
  "ex_new = FDir (ex_stats 0) [(''a.ts'', FFile (ex_stats 4) ''abcd'' True)]"

definition ex_ws :: string where
  "ex_ws = ''/ws/agent''"

definition ex_cand :: string where
  "ex_cand = ''/ctl/agent/candidates/run''"

definition ex_verify :: string where
  "ex_verify = ''/ctl/agent/verify/run''"

definition ex_prepared :: prepared_candidate where
  "ex_prepared = \<lparr>pc_runId = ''run'', pc_agentId = ''agent'', pc_persistentPath = ex_ws, pc_controlPath = ''/ctl/agent'',
     pc_candidatePath = ex_cand, pc_verifyPath = ex_verify,
     pc_baseManifest = \<lparr>sm_schemaVersion = 2, sm_entries = [file_entry ''a.ts'' (ex_stats 3) EMPTY_STATE_HASH Versioned], sm_hash = EMPTY_STATE_HASH\<rparr>,
     pc_baseSnapshotHash = EMPTY_STATE_HASH, pc_baseView = ex_base_view, pc_policy = ex_check_policy,
     pc_policyHash = EMPTY_STATE_HASH, pc_policyPath = None, pc_runLeaseId = ''run'', pc_runtimeTeardownDigest = [],
     pc_runtimeTeardownVerified = False, pc_sessionEpoch = 2, pc_provider = None, pc_startedAt = ''t''\<rparr>"

definition ex_head_version :: version_record where
  "ex_head_version = \<lparr>ve_id = ''v1'', ve_agentId = ''agent'', ve_sequence = 1, ve_kind = INITIAL, ve_snapshotHash = EMPTY_STATE_HASH,
     ve_policyHash = [], ve_parentVersionId = None, ve_rollbackTargetVersionId = None, ve_runId = None,
     ve_createdAt = ''t'', ve_snapshotAvailable = True\<rparr>"

definition ex_gate_world :: gate_world where
  "ex_gate_world = \<lparr>c_dirs = [ex_ws \<mapsto> ex_old, ex_cand \<mapsto> ex_new], c_journals = Map.empty, c_faults = [],
     vw_indexes = [''agent'' \<mapsto> \<lparr>vi_schemaVersion = 1, vi_agentId = ''agent'', vi_headVersionId = Some ''v1'',
       vi_versions = [ex_head_version], vi_snapshots = []\<rparr>], vw_permits = ex_rollback_store, vw_pending = Map.empty,
     rw_receipts = Map.empty, rw_recoveryEvents = (\<lambda>_. []), rw_replayEvents = (\<lambda>_. []),
     gw_proposals = Map.empty, gw_manifests = Map.empty,
     gw_permits = \<lparr>ps_permits = Map.empty, ps_claims = Map.empty, ps_capabilities = []\<rparr>, gw_policies = Map.empty, gw_pending = Map.empty\<rparr>"

subsection \<open>Steps that work\<close>

text \<open>An operation is run step by step; what comes after a step is looked at once the step has returned.\<close>

lemma bindS_cong: "m = m' \<Longrightarrow> bindS m f s = bindS m' f s"
  by simp

lemma tryS_cong: "m = m' \<Longrightarrow> tryS m h f s = tryS m' h f s"
  by simp

lemma catchS_cong: "m = m' \<Longrightarrow> catchS m h s = catchS m' h s"
  by simp

lemma steps:
  "bindS m f s = (case m s of (Inl e, s') \<Rightarrow> (Inl e, s') | (Inr x, s') \<Rightarrow> f x s')"
  "tryS m h f s = (case m s of (Inl e, s') \<Rightarrow> if e = Stopped then (Inl e, s') else h e s' | (Inr x, s') \<Rightarrow> f x s')"
  "catchS m g s = (case m s of (Inr x, s') \<Rightarrow> (Inr x, s') | (Inl e, s') \<Rightarrow> if e = Stopped then (Inl e, s') else g e s')"
  "returnS y s = (Inr y, s)" "throwS e s = (Inl e, s)" "getS k s = (Inr (k s), s)" "putS p s = (Inr (), p s)"
  "liftS r s = (r, s)" "mapErr d (Inr z) = Inr z" "mapErr d (Inl w) = Inl (d w)"
  "c_faults t = [] \<Longrightarrow> io q i t = (Inr (), q t)"
  by (auto simp: tryS_def bindS_def catchS_def returnS_def throwS_def getS_def putS_def liftS_def mapErr_def io_def
      split: prod.splits sum.splits)

abbreviation one_hash :: "string \<Rightarrow> string" where
  "one_hash \<equiv> \<lambda>_. EMPTY_STATE_HASH"

lemma one_hashes:
  "sha256Canonical one_hash le j = EMPTY_STATE_HASH" "hashManifestEntries one_hash es = EMPTY_STATE_HASH"
  "artifact_hash one_hash le m = EMPTY_STATE_HASH" "patchHash one_hash cs = EMPTY_STATE_HASH"
  "runtimeTeardownDigest one_hash le j = EMPTY_STATE_HASH"
  by (simp_all add: sha256Canonical_def hashManifestEntries_def artifact_hash_def patchHash_def runtimeTeardownDigest_def)

subsection \<open>Sealing\<close>

definition ex_sealed :: fs_node where
  "ex_sealed = FDir ((ex_stats 0)\<lparr>st_mode := 292\<rparr>) [(''a.ts'', FFile ((ex_stats 4)\<lparr>st_mode := 292\<rparr>) ''abcd'' True)]"

definition ex_entry :: "int \<Rightarrow> int \<Rightarrow> manifest_entry" where
  "ex_entry mode n = \<lparr>me_path = ''a.ts'', me_type = EFile, me_mode = mode, me_size = n,
     me_contentHash = Some EMPTY_STATE_HASH, me_linkTarget = None, me_pathClass = Versioned\<rparr>"

definition ex_listing :: "manifest_entry list \<Rightarrow> snapshot_manifest" where
  "ex_listing es = \<lparr>sm_schemaVersion = 2, sm_entries = es, sm_hash = EMPTY_STATE_HASH\<rparr>"

lemma ex_listing_simps [simp]: "sm_schemaVersion (ex_listing es) = 2" "sm_entries (ex_listing es) = es"
  "sm_hash (ex_listing es) = EMPTY_STATE_HASH"
  by (simp_all add: ex_listing_def)

abbreviation ex_walk :: "path_class list \<Rightarrow> walk_env" where
  "ex_walk include \<equiv> (te_walk ex_gate_tx)\<lparr>we_include := include\<rparr>"

lemma ex_manifests:
  "buildManifest (ex_walk authoritative) ex_old = Inr (ex_listing [ex_entry 420 3])"
  "buildManifest (ex_walk [Versioned]) ex_old = Inr (ex_listing [ex_entry 420 3])"
  "buildManifest (ex_walk [PlatformManaged]) ex_old = Inr (ex_listing [])"
  "buildManifest (ex_walk authoritative) ex_new = Inr (ex_listing [ex_entry 420 4])"
  "buildManifest (ex_walk authoritative) ex_sealed = Inr (ex_listing [ex_entry 292 4])"
  by code_simp+

lemma ex_seal_tree: "seal_tree root ex_new = Inr ex_sealed"
  by code_simp

lemma ex_gate_simps:
  "gate_tx (ex_gate raw) ex_check_policy = ex_gate_tx" "ge_H (ex_gate raw) = one_hash" "ge_le (ex_gate raw) = ex_le"
  "we_H (te_walk ex_gate_tx) = one_hash" "te_now ex_gate_tx = ''t''"
  "te_copy ex_gate_tx t d i cl = Inr (if cl then t else case d of None \<Rightarrow> t | Some d \<Rightarrow> d)"
  by (simp_all add: ex_gate_def gate_vs_def ex_gate_tx_def ex_tx_def)

definition ex_id :: string where
  "ex_id = ''p-'' @ EMPTY_STATE_HASH"

definition ex_payload_path :: string where
  "ex_payload_path = ''/ctl/agent/sealed/payloads/'' @ EMPTY_STATE_HASH @ ''/p-'' @ EMPTY_STATE_HASH"

definition ex_sealed_proposal :: sealed_proposal where
  "ex_sealed_proposal = \<lparr>sp_schemaVersion = 1, sp_proposalId = ex_id, sp_runId = ''run'', sp_agentId = ''agent'',
     sp_baseViewId = EMPTY_STATE_HASH, sp_artifactHash = EMPTY_STATE_HASH, sp_manifestHash = EMPTY_STATE_HASH,
     sp_changedPathsDigest = EMPTY_STATE_HASH, sp_runtimeTeardownDigest = [], sp_state = SEALED, sp_sealedAt = ''t''\<rparr>"

definition ex_resolved :: resolved_proposal where
  "ex_resolved = \<lparr>rs_proposal = ex_sealed_proposal, rs_payloadPath = ex_payload_path, rs_manifest = ex_listing [ex_entry 420 4]\<rparr>"

lemma ex_identifiers: "assertSafeIdentifier ''run'' label = Inr ()" "assertSafeIdentifier ''agent'' label = Inr ()"
  "assertSafeIdentifier ex_id label = Inr ()"
proof -
  have "is_identifier ''run''" "is_identifier ''agent''" "is_identifier ex_id" by code_simp+
  then show "assertSafeIdentifier ''run'' label = Inr ()" "assertSafeIdentifier ''agent'' label = Inr ()"
    "assertSafeIdentifier ex_id label = Inr ()" by (simp_all add: assertSafeIdentifier_def ex_id_def)
qed

definition ex_metadata_path :: string where
  "ex_metadata_path = ''/ctl/agent/proposals/'' @ ex_id @ ''.json''"

definition ex_sidecar_path :: string where
  "ex_sidecar_path = ''/ctl/agent/proposals/'' @ ex_id @ ''.manifest.json''"

definition ex_tmp_path :: string where
  "ex_tmp_path = ''/ctl/agent/sealed/tmp/run-'' @ drop 52 EMPTY_STATE_HASH"

lemma ex_paths:
  "payloadPath ''/ctl/agent'' EMPTY_STATE_HASH ex_id = Inr ex_payload_path"
  "metadataPath ''/ctl/agent'' ex_id = Inr ex_metadata_path" "manifestPath ''/ctl/agent'' ex_id = Inr ex_sidecar_path"
  by code_simp+

lemma ex_places: "assertContained ''/ctl/agent'' ex_cand label = Inr ()"
  "assertContained ''/ctl/agent'' ex_payload_path label = Inr ()" "assertContained ''/ctl/agent'' ex_tmp_path label = Inr ()"
  by (simp_all add: assertContained_def contained_def starts_with_iff ex_payload_path_def ex_tmp_path_def ex_cand_def)

lemma ex_differ: "ex_payload_path \<noteq> ex_cand" "ex_payload_path \<noteq> ex_ws" "ex_tmp_path \<noteq> ex_cand"
   "ex_tmp_path \<noteq> ex_ws" "ex_tmp_path \<noteq> ex_payload_path" "ex_cand \<noteq> ex_ws" "ex_verify \<noteq> ex_ws" "ex_verify \<noteq> ex_cand"
   "ex_verify \<noteq> ex_payload_path" "ex_verify \<noteq> ex_tmp_path"
  by (simp_all add: ex_payload_path_def ex_tmp_path_def ex_cand_def ex_ws_def ex_verify_def)

lemma ex_proposal_id: "sl_runId i = ''run'' \<Longrightarrow> proposal_id one_hash le i h = ex_id"
  by (simp add: proposal_id_def one_hashes ex_id_def)

lemma ex_tmp: "sl_controlPath i = ''/ctl/agent'' \<Longrightarrow> sl_runId i = ''run'' \<Longrightarrow> sealed_tmp i ex_id = ex_tmp_path"
proof -
  have "drop (length ex_id - 12) ex_id = drop 52 EMPTY_STATE_HASH" by code_simp
  then show "sl_controlPath i = ''/ctl/agent'' \<Longrightarrow> sl_runId i = ''run'' \<Longrightarrow> sealed_tmp i ex_id = ex_tmp_path"
    by (simp only: sealed_tmp_def ex_tmp_path_def) simp
qed

lemmas ex_steps = steps one_hashes ex_manifests ex_gate_simps ex_identifiers ex_paths ex_places ex_differ ex_differ [symmetric]
  ex_proposal_id ex_tmp ex_seal_tree

definition ex_seal_input :: seal_input where
  "ex_seal_input = \<lparr>sl_runId = ''run'', sl_agentId = ''agent'', sl_controlPath = ''/ctl/agent'',
     sl_candidatePath = ex_cand, sl_baseViewId = EMPTY_STATE_HASH, sl_changedPathsDigest = EMPTY_STATE_HASH,
     sl_runtimeTeardownDigest = [], sl_expectedCandidateHash = Some EMPTY_STATE_HASH, sl_sealedAt = Some ''t''\<rparr>"

lemma ex_seal_input: "seal_of (ex_gate raw) ex_prepared EMPTY_STATE_HASH EMPTY_STATE_HASH = ex_seal_input"
  by (simp add: seal_of_def ex_seal_input_def ex_prepared_def ex_gate_def ex_gate_tx_def ex_tx_def ex_base_view_def makeStateView_def computeStateViewId_def)

lemma ex_seal_input_simps [simp]: "sl_runId ex_seal_input = ''run''" "sl_agentId ex_seal_input = ''agent''"
  "sl_controlPath ex_seal_input = ''/ctl/agent''" "sl_candidatePath ex_seal_input = ex_cand"
  "sl_expectedCandidateHash ex_seal_input = Some EMPTY_STATE_HASH"
  by (simp_all add: ex_seal_input_def)

lemma ex_new_proposal: "new_proposal ex_gate_tx ex_seal_input ex_id EMPTY_STATE_HASH EMPTY_STATE_HASH = ex_sealed_proposal"
  by (simp add: new_proposal_def ex_sealed_proposal_def ex_seal_input_def)

lemma ex_sealed_proposal_simps [simp]: "sp_proposalId ex_sealed_proposal = ex_id" "sp_state ex_sealed_proposal = SEALED"
  "sp_artifactHash ex_sealed_proposal = EMPTY_STATE_HASH" "sp_manifestHash ex_sealed_proposal = EMPTY_STATE_HASH"
  "sp_schemaVersion ex_sealed_proposal = 1"
  by (simp_all add: ex_sealed_proposal_def)

lemma ex_resolved_simps [simp]: "rs_proposal ex_resolved = ex_sealed_proposal" "rs_payloadPath ex_resolved = ex_payload_path"
  "rs_manifest ex_resolved = ex_listing [ex_entry 420 4]"
  by (simp_all add: ex_resolved_def)

text \<open>The state of the example: no faults, the workspace and the candidate as they were.\<close>

lemma ex_seals:
  fixes s :: gate_world
  assumes "c_faults s = []" "c_dirs s ex_cand = Some ex_new" "c_dirs s ex_tmp_path = None" "c_dirs s ex_payload_path = None"
    "gw_proposals s ex_metadata_path = None"
  shows "seal ex_le ex_gate_tx ex_seal_input s = (Inr ex_resolved, s\<lparr>c_dirs := (c_dirs s)(ex_payload_path \<mapsto> ex_sealed),
     gw_proposals := (gw_proposals s)(ex_metadata_path \<mapsto> ex_sealed_proposal),
     gw_manifests := (gw_manifests s)(ex_sidecar_path \<mapsto> ex_listing [ex_entry 420 4])\<rparr>)"
proof -
  have idem: "(c_dirs s)(ex_tmp_path := None) = c_dirs s" using assms(3) by (simp add: fun_upd_idem)
  show ?thesis
    by (simp add: assms idem seal_def seal_new_def import_payload_def publish_proposal_def write_proposal_def write_manifest_def change_tree_def
     copy_dir_def rename_dir_def rm_dir_def expected_hash_def build_at_def ex_steps ex_new_proposal ex_resolved_def cong: bindS_cong tryS_cong catchS_cong)
qed

subsection \<open>Views and contexts\<close>

definition ex_run_context :: evaluation_context where
  "ex_run_context = \<lparr>ctx_schemaVersion = 1, ctx_runId = ''run'', ctx_agentId = ''agent'', ctx_proposalId = ex_id, ctx_baseView = ex_base_view,
     ctx_manifestSchemaVersion = 2, ctx_policyHash = EMPTY_STATE_HASH, ctx_checkBundleHash = ''unreported'',
     ctx_checkSpecHash = EMPTY_STATE_HASH, ctx_verifierImageDigest = EMPTY_STATE_HASH, ctx_verifierConfigHash = EMPTY_STATE_HASH,
     ctx_resourcePolicyHash = EMPTY_STATE_HASH, ctx_sourceRevision = ''r''\<rparr>"

lemma ex_policy_hash: "policyHash one_hash ex_check_policy = Inr EMPTY_STATE_HASH"
  by code_simp

lemma ex_prepared_simps [simp]:
  "pc_runId ex_prepared = ''run''" "pc_agentId ex_prepared = ''agent''" "pc_persistentPath ex_prepared = ex_ws"
  "pc_controlPath ex_prepared = ''/ctl/agent''" "pc_candidatePath ex_prepared = ex_cand" "pc_verifyPath ex_prepared = ex_verify"
  "pc_baseView ex_prepared = ex_base_view" "pc_policy ex_prepared = ex_check_policy" "pc_policyHash ex_prepared = EMPTY_STATE_HASH"
  "pc_policyPath ex_prepared = None"
  by (simp_all add: ex_prepared_def)

lemma ex_gate_fields [simp]:
  "ge_viewProvider (ex_gate raw) = None" "ge_requireTeardown (ex_gate raw) = False" "ge_aborted (ex_gate raw) p = None"
  "ge_sensitive (ex_gate raw) = []" "ge_storeSensitive (ex_gate raw) = []" "ge_run (ex_gate raw) rq = returnS raw"
  "ge_clock (ex_gate raw) = 5" "ge_uuid (ex_gate raw) = ''k''" "ge_nonce (ex_gate raw) = ''n''"
  "te_now (vs_tx (ge_vs (ex_gate raw))) = ''t''"
  by (simp_all add: ex_gate_def ex_gate_tx_def ex_tx_def)

lemma ex_run_context: "evaluation_context_of (ex_gate raw) ex_prepared ex_resolved s = Inr ex_run_context"
  by (simp add: evaluation_context_of_def ex_policy_hash ex_gate_simps describeVerifierEnvironment_def one_hashes computeCheckSpecHash_def
     ex_run_context_def override_def, simp add: ex_gate_def override_def one_hashes)

lemma ex_run_context_hash: "computeEvaluationContextHash one_hash ex_le ex_run_context = Inr EMPTY_STATE_HASH"
  by code_simp

definition ex_view_input :: state_view_input where
  "ex_view_input = \<lparr>view_agentId = ''agent'', headVersionId = ''v1'', generation = 1, versionedHash = EMPTY_STATE_HASH,
      platformManagedHash = EMPTY_STATE_HASH, liveStateHash = EMPTY_STATE_HASH, sessionEpoch = 2,
      agentConfigVersion = 1, policyVersion = 1\<rparr>"

lemma ex_base_simps [simp]: "view_agentId ex_base_view = ''agent''" "headVersionId ex_base_view = ''v1''" "generation ex_base_view = 1"
  "sessionEpoch ex_base_view = 2" "agentConfigVersion ex_base_view = 1" "policyVersion ex_base_view = 1"
  "versionedHash ex_base_view = EMPTY_STATE_HASH" "platformManagedHash ex_base_view = EMPTY_STATE_HASH"
  "liveStateHash ex_base_view = EMPTY_STATE_HASH" "viewId ex_base_view = EMPTY_STATE_HASH"
  by (simp_all add: ex_base_view_def makeStateView_def computeStateViewId_def)

lemma ex_view_made: "createStateViewRef one_hash ex_view_input = Inr ex_base_view"
  by code_simp

lemma ex_view_ok: "assertStateViewRef one_hash ex_base_view = Inr ()"
  by code_simp

lemma ex_head: "find_version \<lparr>vi_schemaVersion = 1, vi_agentId = ''agent'', vi_headVersionId = Some ''v1'',
       vi_versions = [ex_head_version], vi_snapshots = []\<rparr> (Some ''v1'') = Some ex_head_version"
  by code_simp

lemma ex_view:
  fixes s :: gate_world
  assumes "c_dirs s ex_ws = Some ex_old" "vw_indexes s = vw_indexes ex_gate_world"
  shows "view_of (ex_gate raw) ''agent'' ex_ws ex_check_policy 2 (base_metadata ex_base_view) s = Inr ex_base_view"
proof -
  have "head_of (gate_vs (ex_gate raw) ex_check_policy) ''agent'' s = Inr (Some ex_head_version)"
    by (simp add: head_of_def agentRoot_def ex_identifiers assms(2) ex_gate_world_def ex_head)
  then show ?thesis
    by (simp add: view_of_def tree_manifest_def assms(1) manifest_of_def ex_gate_simps ex_manifests base_metadata_def
      override_def ex_view_input_def [symmetric] ex_view_made ex_view_ok view_for_other_bytes_def)
qed


subsection \<open>Looking at the payload\<close>

lemma ex_readonly: "readonly_root ex_sealed" by code_simp

lemma ex_normalized: "sealed_entry (by_path [ex_entry 420 4]) (ex_entry 292 4) = Inr (ex_entry 420 4)"
  by code_simp

lemma ex_payload_ok:
  fixes s :: gate_world
  assumes "c_faults s = []" "c_dirs s ex_payload_path = Some ex_sealed"
  shows "assertReadonlySealedPayload ex_gate_tx ex_payload_path (ex_listing [ex_entry 420 4]) s = (Inr (), s)"
  by (simp add: assertReadonlySealedPayload_def build_at_def assms ex_steps ex_readonly ex_normalized cong: bindS_cong tryS_cong catchS_cong)

lemma ex_resolves:
  fixes s :: gate_world
  assumes "c_faults s = []" "c_dirs s ex_payload_path = Some ex_sealed" "gw_proposals s ex_metadata_path = Some ex_sealed_proposal"
    "gw_manifests s ex_sidecar_path = Some (ex_listing [ex_entry 420 4])"
  shows "seal_resolve ex_le ex_gate_tx ''/ctl/agent'' ex_id s = (Inr ex_resolved, s)"
  by (simp add: seal_resolve_def resolve_manifest_def read_proposal_def read_manifest_def assms ex_steps ex_payload_ok ex_resolved_def
     cong: bindS_cong tryS_cong catchS_cong)

definition ex_changes :: "manifest_change list" where
  "ex_changes = diffManifests ex_le (pc_baseManifest ex_prepared) (ex_listing [ex_entry 420 4])"

lemma ex_validated:
  "validateCandidate ex_le ex_check_policy (pc_baseManifest ex_prepared) (ex_listing [ex_entry 420 4]) (files_of (Some ex_new)) [] = Inr (ex_changes, [])"
  "validateCandidate ex_le ex_check_policy (pc_baseManifest ex_prepared) (ex_listing [ex_entry 420 4]) (files_of (Some ex_sealed)) [] = Inr (ex_changes, [])"
  by code_simp+

lemma ex_validates:
  fixes s :: gate_world
  assumes "c_faults s = []" "c_dirs s p = Some t" "t = ex_new \<or> t = ex_sealed"
  shows "validate_at (ex_gate raw) ex_prepared (ex_listing [ex_entry 420 4]) p s = (Inr (ex_changes, []), s)"
  using assms(3) by (elim disjE) (simp_all add: validate_at_def assms(1,2) ex_steps ex_validated cong: bindS_cong)

lemma ex_audited:
  fixes s :: gate_world
  assumes "c_faults s = []" "c_dirs s ex_cand = Some ex_new"
  shows "audited_manifest (ex_gate raw) ex_prepared s = (Inr (ex_listing [ex_entry 420 4]), s)"
proof -
  have "auditCandidateResourceUsage ex_check_policy DEFAULT_CANDIDATE_RESOURCE_LIMITS ex_new = Inr (0, 0)" by code_simp
  moreover have "ge_limits (ex_gate raw) = DEFAULT_CANDIDATE_RESOURCE_LIMITS" by (simp add: ex_gate_def)
  ultimately show ?thesis by (simp add: audited_manifest_def assms ex_steps build_at_def cong: bindS_cong)
qed

subsection \<open>Verification\<close>

lemma ex_builds:
  fixes s :: gate_world
  assumes "c_faults s = []"
  shows "buildEvaluationContext (ex_gate raw) ex_prepared ex_resolved s = (Inr ex_run_context, s)"
  by (simp add: buildEvaluationContext_def assms ex_steps ex_run_context cong: bindS_cong)

lemma ex_rechecks:
  fixes s :: gate_world
  assumes "c_faults s = []" "c_dirs s ex_payload_path = Some ex_sealed" "gw_proposals s ex_metadata_path = Some ex_sealed_proposal"
    "gw_manifests s ex_sidecar_path = Some (ex_listing [ex_entry 420 4])"
  shows "recheck_sealed (ex_gate raw) ex_prepared ex_resolved EMPTY_STATE_HASH s = (Inr (), s)"
  by (simp add: recheck_sealed_def Let_def assms ex_steps ex_payload_ok ex_resolves ex_builds ex_run_context_hash cong: bindS_cong)

lemma ex_verifies:
  fixes s :: gate_world
  assumes "c_faults s = []" "c_dirs s ex_payload_path = Some ex_sealed"
  shows "run_verifier (ex_gate raw) ex_prepared ex_resolved ex_run_context h s = (Inr (normalize_results raw), s)"
  by (simp add: run_verifier_def assms ex_steps ex_payload_ok cong: bindS_cong)

lemma ex_captures:
  fixes s :: gate_world
  assumes "c_faults s = []" "c_dirs s ex_ws = Some ex_old" "vw_indexes s = vw_indexes ex_gate_world"
  shows "captureStateView (ex_gate raw) ''agent'' ex_ws ex_check_policy 2 (base_metadata ex_base_view) s = (Inr ex_base_view, s)"
  by (simp add: captureStateView_def assms ex_steps ex_view cong: bindS_cong)

definition ex_checks :: "check_result list" where
  "ex_checks = normalize_results [ex_raw]"

lemma ex_assessed: "ca_evidenceFailures (assessTrustedChecks ex_checks ex_check_policy) = []"
  "ca_resultFailures (assessTrustedChecks ex_checks ex_check_policy) = []"
  by code_simp+

definition ex_promotion :: promotion_run where
  "ex_promotion = \<lparr>pm_sealed = ex_resolved, pm_changes = ex_changes, pm_contextHash = EMPTY_STATE_HASH, pm_checks = ex_checks,
     pm_evidence = run_evidence (ex_gate [ex_raw]) ex_resolved EMPTY_STATE_HASH ex_checks (assessTrustedChecks ex_checks ex_check_policy)\<rparr>"

text \<open>From the sealed proposal to the promotion.\<close>

lemma ex_evaluates:
  fixes s :: gate_world
  assumes "c_faults s = []" "c_dirs s ex_payload_path = Some ex_sealed" "c_dirs s ex_ws = Some ex_old"
    "vw_indexes s = vw_indexes ex_gate_world" "gw_proposals s ex_metadata_path = Some ex_sealed_proposal"
    "gw_manifests s ex_sidecar_path = Some (ex_listing [ex_entry 420 4])"
  shows "evaluate_run (ex_gate [ex_raw]) ex_prepared ex_resolved ex_changes s = promote_run (ex_gate [ex_raw]) ex_prepared ex_promotion s"
proof -
  have "ctx_policyHash ex_run_context = EMPTY_STATE_HASH" by (simp add: ex_run_context_def)
  then show ?thesis
    by (simp add: evaluate_run_def verify_run_def decide_run_def Let_def assms ex_steps ex_builds ex_run_context_hash ex_verifies ex_rechecks
      ex_captures ex_assessed ex_promotion_def ex_checks_def [symmetric] cong: bindS_cong tryS_cong)
qed

lemma ex_checked:
  fixes s :: gate_world
  assumes "c_faults s = []" "c_dirs s ex_payload_path = Some ex_sealed" "c_dirs s ex_ws = Some ex_old"
    "vw_indexes s = vw_indexes ex_gate_world" "gw_proposals s ex_metadata_path = Some ex_sealed_proposal"
    "gw_manifests s ex_sidecar_path = Some (ex_listing [ex_entry 420 4])"
  shows "check_sealed (ex_gate [ex_raw]) ex_prepared (ex_listing [ex_entry 420 4]) EMPTY_STATE_HASH ex_resolved s =
    promote_run (ex_gate [ex_raw]) ex_prepared ex_promotion (s\<lparr>c_dirs := (c_dirs s)(ex_cand := None)\<rparr>)"
proof -
  have "requiredChecks ex_check_policy \<noteq> []" by (simp add: ex_check_policy_def)
  then show ?thesis
    by (simp add: check_sealed_def rm_dir_def Let_def assms ex_steps ex_validates [where t = ex_sealed] ex_evaluates
       cong: bindS_cong tryS_cong)
qed

end
