(* ===== verification/Coordinator_Props.thy ===== *)
theory Coordinator_Props
  imports Coordinator_Example
begin

text \<open>
  What the gate promises of a run, and the run of the example to its end: with the verifier's one
  required check passed it commits, with no check it is rejected. Both are instances of the two
  properties.
\<close>

lemma ex_world_simps [simp]:
  "c_faults ex_gate_world = []" "c_dirs ex_gate_world = [ex_ws \<mapsto> ex_old, ex_cand \<mapsto> ex_new]" "c_journals ex_gate_world = Map.empty"
  "rw_receipts ex_gate_world = Map.empty" "gw_proposals ex_gate_world = Map.empty" "gw_manifests ex_gate_world = Map.empty"
  "gw_permits ex_gate_world = \<lparr>ps_permits = Map.empty, ps_claims = Map.empty, ps_capabilities = []\<rparr>"
  by (simp_all add: ex_gate_world_def)

definition ex_sealed_world :: gate_world where
  "ex_sealed_world = ex_gate_world\<lparr>gw_proposals := [ex_metadata_path \<mapsto> ex_sealed_proposal],
     gw_manifests := [ex_sidecar_path \<mapsto> ex_listing [ex_entry 420 4]], c_dirs := [ex_ws \<mapsto> ex_old, ex_payload_path \<mapsto> ex_sealed]\<rparr>"

lemma ex_starts:
  "verifyAndFinalize (ex_gate [ex_raw]) ex_prepared ex_gate_world = promote_run (ex_gate [ex_raw]) ex_prepared ex_promotion ex_sealed_world"
  by (simp add: verifyAndFinalize_def receipt_get_def receipt_key_def Let_def ex_steps ex_audited ex_validates [where t = ex_new]
     ex_seal_input ex_seals ex_checked ex_sealed_world_def cong: bindS_cong tryS_cong)

subsection \<open>The permit\<close>

lemma store_steps:
  "bindS m f p = (case m p of (Inl e, p') \<Rightarrow> (Inl e, p') | (Inr x, p') \<Rightarrow> f x p')"
  "returnS y p = (Inr y, p)" "throwS e p = (Inl e, p)" "getS k p = (Inr (k p), p)" "putS g p = (Inr (), g p)"
  "assertS b e p = (if b then (Inr (), p) else (Inl e, p))" "lifted (Inr z) p = (Inr z, p)"
  by (auto simp: bindS_def returnS_def throwS_def getS_def putS_def assertS_def liftS_def mapErr_def split: prod.splits sum.splits)

definition ex_no_permits :: promotion_store where
  "ex_no_permits = \<lparr>ps_permits = Map.empty, ps_claims = Map.empty, ps_capabilities = []\<rparr>"

definition ex_grant :: promotion_permit where
  "ex_grant = new_permit (issue_of ex_prepared ex_promotion) ''k-k'' ''n'' (Some 60005) (Some 5)"

definition ex_grant_path :: string where
  "ex_grant_path = ''/ctl/agent/permits/k-k.json''"

lemma ex_issue_ok: "assertEvidenceBundle one_hash ex_le (is_evidence (issue_of ex_prepared ex_promotion)) = Inr ()"
  "\<not> issue_mismatch (issue_of ex_prepared ex_promotion)" "to_instant (5 + ttl_or (is_ttlMs (issue_of ex_prepared ex_promotion))) = Inr (Some 60005)"
  "to_instant 5 = Inr (Some 5)" "permitPath ''/ctl/agent'' ''k-k'' = Inr ex_grant_path"
  by code_simp+

lemma ex_issues: "permit_issue one_hash ex_le (issue_of ex_prepared ex_promotion) 5 ''k'' ''n'' ex_no_permits =
    (Inr ex_grant, ex_no_permits\<lparr>ps_permits := [ex_grant_path \<mapsto> ex_grant]\<rparr>)"
proof -
  have i: "is_runId (issue_of ex_prepared ex_promotion) = ''run''" "is_agentId (issue_of ex_prepared ex_promotion) = ''agent''"
    "is_baseView (issue_of ex_prepared ex_promotion) = ex_base_view" "is_controlPath (issue_of ex_prepared ex_promotion) = ''/ctl/agent''"
    by (simp_all add: issue_of_def)
  show ?thesis
    by (simp add: permit_issue_def i ex_issue_ok store_steps ex_identifiers ex_view_ok Let_def ex_grant_def [symmetric] ex_no_permits_def
      write_permit_def cong: bindS_cong)
qed


definition ex_gate_claim :: claim_input where
  "ex_gate_claim = claim_of ex_prepared ex_promotion ex_grant ex_resolved"

lemma ex_gate_claim_simps [simp]: "cl_agentId ex_gate_claim = ''agent''" "cl_controlPath ex_gate_claim = ''/ctl/agent''" "cl_permitId ex_gate_claim = ''k-k''"
  "cl_proposal ex_gate_claim = ex_sealed_proposal" "cl_proposalPath ex_gate_claim = ex_payload_path" "cl_proposalManifest ex_gate_claim = ex_listing [ex_entry 420 4]"
  "cl_baseView ex_gate_claim = ex_base_view"
  by (simp_all add: ex_gate_claim_def claim_of_def ex_grant_def new_permit_def)

definition ex_right :: promotion_capability where
  "ex_right = \<lparr>cap_permit = ex_grant\<lparr>pp_state := CONSUMING, pp_updatedAt := Some 5\<rparr>, cap_proposal = ex_sealed_proposal,
     cap_proposalPath = ex_payload_path, cap_proposalManifest = ex_listing [ex_entry 420 4], cap_baseView = ex_base_view,
     cap_controlPath = ''/ctl/agent'', cap_locallyConsumed = False\<rparr>"

definition ex_claimed :: promotion_store where
  "ex_claimed = \<lparr>ps_permits = [ex_grant_path \<mapsto> ex_grant\<lparr>pp_state := CONSUMING, pp_updatedAt := Some 5\<rparr>],
     ps_claims = [claim_path ex_grant_path \<mapsto> ''n''], ps_capabilities = [ex_right]\<rparr>"

lemma ex_grant_simps [simp]: "pp_permitId ex_grant = ''k-k''" "pp_nonce ex_grant = ''n''" "pp_state ex_grant = ISSUED"
  "pp_expiresAt ex_grant = Some 60005"
  by (simp_all add: ex_grant_def new_permit_def)

lemma ex_claim_ok: "\<not> claim_mismatch one_hash ex_le ex_grant ex_gate_claim" "\<not> expired_at (Some 60005) 5"
  by code_simp+

lemma ex_claims: "permit_claim one_hash ex_le ex_gate_claim 5 (ex_no_permits\<lparr>ps_permits := [ex_grant_path \<mapsto> ex_grant]\<rparr>) =
    (Inr ex_right, ex_claimed)"
  by (simp add: permit_claim_def claim_open_def assertBindings_def open_claim_def read_permit_def write_permit_def permit_update_def
    store_steps ex_claim_ok ex_issue_ok ex_view_ok ex_places Let_def ex_no_permits_def ex_claimed_def ex_right_def cong: bindS_cong)

definition ex_consumed :: promotion_store where
  "ex_consumed = \<lparr>ps_permits = [ex_grant_path \<mapsto> ex_grant\<lparr>pp_state := CONSUMED, pp_updatedAt := Some 5\<rparr>],
     ps_claims = [claim_path ex_grant_path \<mapsto> ''n''], ps_capabilities = [ex_right\<lparr>cap_locallyConsumed := True\<rparr>]\<rparr>"

lemma ex_consumes: "capability_consume 0 5 ex_claimed = (Inr (ex_grant\<lparr>pp_state := CONSUMED, pp_updatedAt := Some 5\<rparr>), ex_consumed)"
  by (simp add: capability_consume_def consumeClaim_def permit_get_def read_permit_def permit_update_def write_permit_def
    store_steps ex_issue_ok ex_claimed_def ex_right_def ex_consumed_def claim_path_def Let_def cong: bindS_cong)

lemma ex_marks: "markConsumed ''/ctl/agent'' ''k-k'' 5 ex_consumed = (Inr (ex_grant\<lparr>pp_state := CONSUMED, pp_updatedAt := Some 5\<rparr>), ex_consumed)"
  by (simp add: markConsumed_def permit_get_def read_permit_def store_steps ex_issue_ok ex_consumed_def cong: bindS_cong)

subsection \<open>The promotion\<close>

definition ex_promoted :: fs_node where
  "ex_promoted = FDir ((ex_stats 0)\<lparr>st_mode := 292\<rparr>) [(''a.ts'', FFile ((ex_stats 4)\<lparr>st_mode := 420\<rparr>) ''abcd'' True)]"

lemma ex_modes: "applyManifestModes authoritative (ex_listing [ex_entry 420 4]) ex_sealed = Inr ex_promoted"
  "buildManifest (ex_walk authoritative) ex_promoted = Inr (ex_listing [ex_entry 420 4])"
  by code_simp+

lemma ex_puts:
  fixes s :: gate_world
  assumes "c_faults s = []" "gr_agentId r = ''agent''" "gr_runId r = ''run''"
    "\<forall>e. rw_receipts s (''agent'', ''run'') = Some e \<longrightarrow> gr_phase e \<noteq> TERMINAL"
  shows "receipt_put [] r s = (Inr (), s\<lparr>rw_receipts := (rw_receipts s)((''agent'', ''run'') \<mapsto> sanitizeReceipt [] r)\<rparr>)"
  using assms(4) by (simp add: receipt_put_def receipt_get_def receipt_key_def assms(1-3) ex_steps Let_def cong: bindS_cong split: option.splits)

lemma ex_receipt_members:
  "gr_agentId (pending_receipt env c m p) = pc_agentId c" "gr_runId (pending_receipt env c m p) = pc_runId c"
  "gr_phase (pending_receipt env c m p) = PENDING_PROMOTION" "gr_decision (pending_receipt env c m p) = COMMITTED"
  "gr_agentId (sanitizeReceipt vs r) = gr_agentId r" "gr_runId (sanitizeReceipt vs r) = gr_runId r"
  "gr_phase (sanitizeReceipt vs r) = gr_phase r" "gr_decision (sanitizeReceipt vs r) = gr_decision r"
  by (simp_all add: pending_receipt_def makeReceipt_def receipt_status_def sanitizeReceipt_def Let_def)

abbreviation ex_gate_run :: "gate_world gate_env" where
  "ex_gate_run \<equiv> ex_gate [ex_raw]"

definition ex_request :: "gate_world authorized_promote" where
  "ex_request = promote_request ex_gate_run ex_prepared ex_promotion ex_right 0"

lemma ex_request_simps [simp]:
  "ap_runId ex_request = ''run''" "ap_agentId ex_request = ''agent''" "ap_persistentPath ex_request = ex_ws"
  "ap_controlPath ex_request = ''/ctl/agent''" "ap_capability ex_request = ex_right"
  "ap_consume ex_request = bindS (with_permits (capability_consume 0 5)) (\<lambda>_. returnS ())"
  "ap_assertCurrentView ex_request = view_is_current ex_gate_run ex_prepared ex_promotion"
  by (simp_all add: ex_request_def promote_request_def)

lemma ex_right_simps [simp]:
  "cap_permit ex_right = ex_grant\<lparr>pp_state := CONSUMING, pp_updatedAt := Some 5\<rparr>" "cap_proposal ex_right = ex_sealed_proposal"
  "cap_proposalPath ex_right = ex_payload_path" "cap_proposalManifest ex_right = ex_listing [ex_entry 420 4]"
  "cap_baseView ex_right = ex_base_view" "cap_controlPath ex_right = ''/ctl/agent''"
  by (simp_all add: ex_right_def)

lemma ex_bound: "\<not> capability_mismatch ''run'' ''agent'' ex_right"
  by code_simp

definition ex_promote_input :: "gate_world promote_input" where
  "ex_promote_input = authorized_input ex_request"

definition ex_staging :: string where "ex_staging = ''/ctl/agent/staging/run''"
definition ex_backup :: string where "ex_backup = ''/ctl/agent/backups/run''"
definition ex_journal_path :: string where "ex_journal_path = ''/ctl/agent/journals/run.json''"

lemma ex_promote_input_simps [simp]:
  "pi_runId ex_promote_input = ''run''" "pi_agentId ex_promote_input = ''agent''" "pi_persistentPath ex_promote_input = ex_ws"
  "pi_sourcePath ex_promote_input = ex_payload_path" "pi_baseHash ex_promote_input = EMPTY_STATE_HASH"
  "pi_expectedTargetHash ex_promote_input = Some EMPTY_STATE_HASH" "pi_expectedSourceVersionedHash ex_promote_input = None" "pi_kind ex_promote_input = Promotion"
  "pi_proposalManifest ex_promote_input = Some (ex_listing [ex_entry 420 4])"
  "pi_assertCurrentView ex_promote_input = Some (view_is_current ex_gate_run ex_prepared ex_promotion)"
  "pi_consumeAuthorization ex_promote_input = Some (bindS (with_permits (capability_consume 0 5)) (\<lambda>_. returnS ()))"
  "staging_path ex_promote_input = ex_staging" "backup_path ex_promote_input = ex_backup" "journal_path ex_promote_input = ex_journal_path"
  by (simp_all add: ex_promote_input_def authorized_input_def staging_path_def backup_path_def journal_path_def ex_staging_def ex_backup_def
     ex_journal_path_def Let_def)

lemma ex_apart: "ex_staging \<noteq> ex_ws" "ex_backup \<noteq> ex_ws" "ex_staging \<noteq> ex_backup" "ex_staging \<noteq> ex_payload_path" "ex_backup \<noteq> ex_payload_path"
  "ex_verify \<noteq> ex_backup" "ex_cand \<noteq> ex_backup" "ex_staging \<noteq> ex_cand" "ex_staging \<noteq> ex_verify"
  by (simp_all add: ex_staging_def ex_backup_def ex_ws_def ex_payload_path_def ex_verify_def ex_cand_def)

lemma ex_nonempty: "EMPTY_STATE_HASH \<noteq> []" by code_simp

lemma ex_current:
  fixes s :: gate_world
  assumes "c_dirs s ex_ws = Some ex_old" "vw_indexes s = vw_indexes ex_gate_world"
  shows "view_is_current ex_gate_run ex_prepared ex_promotion s = Inr True"
proof -
  have "pm_sealed ex_promotion = ex_resolved" "pm_contextHash ex_promotion = EMPTY_STATE_HASH" by (simp_all add: ex_promotion_def)
  then show ?thesis
    by (simp add: view_is_current_def context_hash_of_def ex_run_context ex_run_context_hash ex_gate_simps current_view_def ex_view assms)
qed

definition ex_run_journal :: "journal_state \<Rightarrow> journal" where
  "ex_run_journal st = (new_journal ex_gate_tx ex_promote_input EMPTY_STATE_HASH)\<lparr>jn_state := st\<rparr>"

lemma ex_stages:
  fixes s :: gate_world
  assumes "c_faults s = []" "c_dirs s = [ex_ws \<mapsto> ex_old, ex_payload_path \<mapsto> ex_sealed]"
  shows "stage_tree ex_gate_tx ex_promote_input s = (Inr (ex_listing [ex_entry 420 4]),
    s\<lparr>c_dirs := [ex_ws \<mapsto> ex_old, ex_payload_path \<mapsto> ex_sealed, ex_staging \<mapsto> ex_promoted]\<rparr>)"
  by (simp add: stage_tree_def check_versioned_def copy_dir_def rm_dir_def change_tree_def build_at_def assms ex_steps ex_apart ex_apart [symmetric]
    ex_modes expected_hash_def ex_nonempty cong: bindS_cong)



lemma ex_updates:
  fixes s :: gate_world
  assumes "c_faults s = []"
  shows "updateJournal ex_journal_path (ex_run_journal st) st' ''t'' s =
    (Inr (ex_run_journal st'), s\<lparr>c_journals := (c_journals s)(ex_journal_path \<mapsto> ex_run_journal st')\<rparr>)"
proof -
  have "(ex_run_journal st)\<lparr>jn_state := st', jn_updatedAt := ''t''\<rparr> = ex_run_journal st'"
    by (simp add: ex_run_journal_def new_journal_def ex_gate_simps)
  then show ?thesis by (simp add: updateJournal_def write_journal_def Let_def assms ex_steps cong: bindS_cong)
qed

lemma ex_admits:
  fixes s :: gate_world
  assumes "c_faults s = []" "c_dirs s ex_ws = Some ex_old" "vw_indexes s = vw_indexes ex_gate_world" "gw_permits s = ex_claimed"
  shows "admit_swap ex_gate_tx ex_promote_input j s = (Inr (), s\<lparr>gw_permits := ex_consumed\<rparr>)"
  by (simp add: admit_swap_def build_at_def with_permits_def assms ex_steps ex_current ex_consumes cong: bindS_cong catchS_cong)

lemma ex_swaps:
  fixes s :: gate_world
  assumes "c_faults s = []" "c_dirs s = [ex_ws \<mapsto> ex_old, ex_payload_path \<mapsto> ex_sealed, ex_staging \<mapsto> ex_promoted]"
  shows "swap_phase ex_gate_tx ex_promote_input (ex_run_journal st) (ex_listing [ex_entry 420 4]) s = (Inr (ex_run_journal PROMOTED_PENDING_DB),
    s\<lparr>c_dirs := [ex_ws \<mapsto> ex_promoted, ex_payload_path \<mapsto> ex_sealed, ex_backup \<mapsto> ex_old],
       c_journals := (c_journals s)(ex_journal_path \<mapsto> ex_run_journal PROMOTED_PENDING_DB)\<rparr>)"
  apply (simp add: swap_phase_def swap_in_def rename_dir_def build_at_def assms ex_steps ex_updates ex_modes ex_apart ex_apart [symmetric]
    cong: bindS_cong catchS_cong)
  apply (rule arg_cong [where f = "\<lambda>d. s\<lparr>c_dirs := d, c_journals := (c_journals s)(ex_journal_path \<mapsto> ex_run_journal PROMOTED_PENDING_DB)\<rparr>"])
  by (auto simp: fun_eq_iff ex_apart ex_differ)

lemma ex_promotes:
  fixes s :: gate_world
  assumes "c_faults s = []" "c_dirs s = [ex_ws \<mapsto> ex_old, ex_payload_path \<mapsto> ex_sealed]" "vw_indexes s = vw_indexes ex_gate_world"
    "gw_permits s = ex_claimed"
  shows "promoteAuthorized ex_le ex_gate_tx 5 ex_request s = (Inr (ex_run_journal PROMOTED_PENDING_DB),
    s\<lparr>c_dirs := [ex_ws \<mapsto> ex_promoted, ex_payload_path \<mapsto> ex_sealed, ex_backup \<mapsto> ex_old],
       c_journals := (c_journals s)(ex_journal_path \<mapsto> ex_run_journal PROMOTED_PENDING_DB), gw_permits := ex_consumed\<rparr>)"
proof -
  have "\<not> expired_at (Some 60005) 5" "te_sameDevice ex_gate_tx" "new_journal ex_gate_tx ex_promote_input EMPTY_STATE_HASH = ex_run_journal PREPARING"
    by (simp_all add: ex_claim_ok ex_gate_tx_def ex_tx_def ex_run_journal_def new_journal_def)
  then show ?thesis
    apply (simp add: promoteAuthorized_def promote_tx_def assertSameFilesystem_def write_journal_def Let_def ex_bound ex_promote_input_def [symmetric]
      assms ex_steps ex_payload_ok ex_stages ex_admits ex_swaps ex_differ ex_apart ex_differ [symmetric] ex_apart [symmetric] cong: bindS_cong)
    done
qed

lemma ex_cleans:
  fixes s :: gate_world
  assumes "c_faults s = []"
  shows "cleanupTransient ex_prepared s = (Inr (), s\<lparr>c_dirs := (c_dirs s)(ex_cand := None, ex_verify := None)\<rparr>)"
  by (simp add: cleanupTransient_def rm_dir_def assms ex_steps cong: bindS_cong tryS_cong)

lemma ex_finishes:
  fixes s :: gate_world
  assumes "c_faults s = []" "c_dirs s ex_ws = Some ex_promoted" "gw_permits s = ex_consumed"
    "\<forall>e. rw_receipts s (''agent'', ''run'') = Some e \<longrightarrow> gr_phase e \<noteq> TERMINAL"
  shows "\<exists>f. (\<exists>s'. finish_promotion ex_gate_run ex_prepared ex_promotion ex_right jp bp s = (Inr f, s')) \<and> gr_decision (gf_receipt f) = COMMITTED"
  by (simp add: finish_promotion_def record_promotion_def set_pending_def with_permits_def build_at_def Let_def assms ex_steps ex_marks ex_modes
    ex_puts ex_receipt_members finalization_def ex_cleans cong: bindS_cong tryS_cong)

lemma ex_claims_run: "claim_of ex_prepared ex_promotion ex_grant ex_resolved = ex_gate_claim"
  by (simp add: ex_gate_claim_def)

lemma ex_promotes_run:
  "\<exists>f s'. promote_run ex_gate_run ex_prepared ex_promotion ex_sealed_world = (Inr f, s') \<and> gr_decision (gf_receipt f) = COMMITTED"
proof -
  have run: "pm_sealed ex_promotion = ex_resolved" by (simp add: ex_promotion_def)
  have world: "c_faults ex_sealed_world = []" "gw_permits ex_sealed_world = ex_no_permits"
    "c_dirs ex_sealed_world = [ex_ws \<mapsto> ex_old, ex_payload_path \<mapsto> ex_sealed]" "rw_receipts ex_sealed_world = Map.empty"
    "gw_proposals ex_sealed_world = [ex_metadata_path \<mapsto> ex_sealed_proposal]" "vw_indexes ex_sealed_world = vw_indexes ex_gate_world"
    "gw_manifests ex_sealed_world = [ex_sidecar_path \<mapsto> ex_listing [ex_entry 420 4]]"
    by (simp_all add: ex_sealed_world_def ex_no_permits_def)
  have one: "length (ps_capabilities ex_claimed) = Suc 0" by (simp add: ex_claimed_def)
  show ?thesis
    apply (simp add: promote_run_def swap_promotion_def Let_def run world ex_steps with_permits_def ex_issues ex_resolves ex_claims_run ex_claims one
      ex_puts ex_receipt_members ex_request_def [symmetric] ex_promotes ex_finishes cong: bindS_cong tryS_cong)
    by (rule ex_finishes) (simp_all add: world ex_apart ex_differ ex_apart [symmetric] ex_differ [symmetric] ex_receipt_members)
qed

subsection \<open>A run that is rejected\<close>

text \<open>The verifier returns no check at all.\<close>

definition ex_failures :: "string list" where
  "ex_failures = ca_evidenceFailures (assessTrustedChecks (normalize_results []) ex_check_policy)"

lemma ex_failures: "ex_failures \<noteq> []" "normalize_results [] = []"
  by (code_simp, simp add: normalize_results_def indexed_def)

lemma ex_destroys:
  fixes s :: gate_world
  assumes "c_faults s = []" "gw_proposals s ex_metadata_path = Some ex_sealed_proposal" "c_dirs s ex_payload_path = Some ex_sealed"
  shows "\<exists>s'. seal_destroy ''/ctl/agent'' ex_id s = (Inr (), s') \<and> c_faults s' = [] \<and> rw_receipts s' = rw_receipts s"
  by (simp add: seal_destroy_def read_proposal_def write_proposal_def quietly_def makeMutable_def change_tree_def rm_dir_def pathExists_def
     assms ex_steps cong: bindS_cong catchS_cong)

lemma ex_rejects:
  fixes s :: gate_world
  assumes "c_faults s = []" "gw_proposals s ex_metadata_path = Some ex_sealed_proposal" "c_dirs s ex_payload_path = Some ex_sealed"
    "c_dirs s ex_ws = Some ex_old" "rw_receipts s (''agent'', ''run'') = None" "d \<noteq> COMMITTED" "pd_sealed ds = Some ex_resolved" "pd_changes ds = Some cs"
  shows "\<exists>f. (\<exists>s'. reject (ex_gate raw) ex_prepared d fc reasons checks ds s = (Inr f, s')) \<and> gr_decision (gf_receipt f) = d"
proof -
  have sealed: "c_dirs (s\<lparr>c_dirs := (c_dirs s)(ex_cand := None, ex_verify := None)\<rparr>) ex_payload_path = Some ex_sealed"
    using assms(3) ex_differ by simp
  obtain s1 where s1: "seal_destroy ''/ctl/agent'' ex_id (s\<lparr>c_dirs := (c_dirs s)(ex_cand := None, ex_verify := None)\<rparr>) = (Inr (), s1)"
    "c_faults s1 = []" "rw_receipts s1 = rw_receipts s"
    using ex_destroys [OF _ _ sealed] assms(1,2) by auto
  have r: "gr_agentId (rejected_receipt env ex_prepared d fc reasons checks ds h found x) = ''agent''"
    "gr_runId (rejected_receipt env ex_prepared d fc reasons checks ds h found x) = ''run''"
    "gr_decision (rejected_receipt env ex_prepared d fc reasons checks ds h found x) = d" for env :: "gate_world gate_env" and h found x
    by (simp_all add: rejected_receipt_def makeReceipt_def sanitizeReceipt_def Let_def split: prod.split)
  show ?thesis
    by (simp add: reject_def rejected_changes_def clean_rejected_def store_receipt_def build_at_def assms ex_steps ex_cleans s1 ex_puts r
       finalization_def cong: bindS_cong catchS_cong)
qed


lemma ex_refuses:
  fixes s :: gate_world
  assumes "c_faults s = []" "c_dirs s ex_payload_path = Some ex_sealed" "c_dirs s ex_ws = Some ex_old"
    "gw_proposals s ex_metadata_path = Some ex_sealed_proposal" "rw_receipts s (''agent'', ''run'') = None"
    "gw_manifests s ex_sidecar_path = Some (ex_listing [ex_entry 420 4])"
  shows "\<exists>f. (\<exists>s'. evaluate_run (ex_gate []) ex_prepared ex_resolved ex_changes s = (Inr f, s')) \<and> gr_decision (gf_receipt f) = ABORTED"
proof -
  have "ctx_policyHash ex_run_context = EMPTY_STATE_HASH" by (simp add: ex_run_context_def)
  moreover have "ca_evidenceFailures (assessTrustedChecks [] ex_check_policy) \<noteq> []"
    using ex_failures by (simp add: ex_failures_def)
  ultimately show ?thesis
    apply (simp add: evaluate_run_def verify_run_def decide_run_def Let_def assms ex_steps ex_builds ex_run_context_hash ex_verifies ex_rechecks
      ex_failures(2) cong: bindS_cong tryS_cong)
    by (rule ex_rejects) (simp_all add: assms context_details_def sealed_details_def)
qed

lemma ex_refuses_run:
  "\<exists>f. (\<exists>s'. verifyAndFinalize (ex_gate []) ex_prepared ex_gate_world = (Inr f, s')) \<and> gr_decision (gf_receipt f) = ABORTED"
proof -
  have "requiredChecks ex_check_policy \<noteq> []" by (simp add: ex_check_policy_def)
  then show ?thesis
    apply (simp add: verifyAndFinalize_def receipt_get_def receipt_key_def Let_def ex_steps ex_audited ex_validates [where t = ex_new]
       ex_seal_input ex_seals check_sealed_def rm_dir_def ex_validates [where t = ex_sealed] cong: bindS_cong tryS_cong)
    by (rule ex_refuses) (simp_all add: ex_differ ex_differ [symmetric])
qed

subsection \<open>What a run of the gate leaves\<close>

text \<open>C6: Nothing is promoted unverified. When a run of a placed candidate that had no receipt and no journal
  ends with the decision COMMITTED,
  its receipt shows every required check of its policy exactly once, passed with exit code 0 and in
  time, and nothing else; its permit is consumed; the workspace holds a tree with the receipt's final
  hash, which is the manifest hash of the proposal the permit was claimed for, unless that is the empty
  text; the tree it replaced is
  kept as the backup and had the live hash of the admitted view; the journal waits for the database; the
  receipt is stored and the promotion is pending. The verifier may do anything but write the workspace
  and the journals, and every other input or output may fail.\<close>

theorem committed_run_verified:
  assumes "well_placed c" and "c_dirs s (pc_persistentPath c) = Some B" and "c_journals s (gate_journal c) = None"
    and "rw_receipts s (pc_agentId c, pc_runId c) = None"
    and "\<forall>rq. keeps (undisturbed {pc_persistentPath c}) (ge_run env rq)"
    and "verifyAndFinalize env c s = (Inr f, s')" and "gf_receipt f = r" and "gr_decision r = COMMITTED"
    and "gate_tx env (pc_policy c) = te"
  shows "required_passed (pc_policy c) (gr_checks r) \<and> gr_permitState r = Some CONSUMED \<and>
    (\<exists>T m. c_dirs s' (pc_persistentPath c) = Some T \<and> manifest_of te authoritative T = Inr m \<and>
       gr_finalSnapshotHash r = sm_hash m) \<and>
    (\<exists>m. c_dirs s' (gate_backup c) = Some B \<and> manifest_of te authoritative B = Inr m \<and>
       sm_hash m = liveStateHash (pc_baseView c)) \<and>
    (\<exists>p j. gw_pending s' (pc_runId c) = Some p \<and> pn_receipt p = r \<and>
       (sp_manifestHash (cap_proposal (pn_capability p)) \<noteq> [] \<longrightarrow>
          gr_finalSnapshotHash r = sp_manifestHash (cap_proposal (pn_capability p))) \<and>
       c_journals s' (gate_journal c) = Some j \<and> jn_state j = PROMOTED_PENDING_DB) \<and>
    rw_receipts s' (pc_agentId c, pc_runId c) = Some (sanitizeReceipt (ge_storeSensitive env) r)"
proof -
  have "ends env c B (verifyAndFinalize env c) s"
    by (rule ends_run [OF assms(1) _ _ assms(4)]) (use assms(2,3,5) in \<open>auto simp: untouched_def\<close>)
  with assms(6-8) have "committed_run env c B r s'" "stored_run env c r s'"
    by (auto simp: wp_def outcome_def)
  then show ?thesis using assms(9) unfolding committed_run_def stored_run_def hash_ok_def by metis
qed

text \<open>C7: A run that is not committed leaves the workspace as it was. When a run of a placed
  candidate that had no receipt and no journal returns any other decision, the very tree that was at the workspace's path is there again, also when
  the swap had been done and was rolled back, and the receipt it returns is stored, with the summary it
  reports made from it. The verifier may do anything but write the workspace and the journals.\<close>

theorem rejected_run_restores:
  assumes "well_placed c" and "c_dirs s (pc_persistentPath c) = Some B" and "c_journals s (gate_journal c) = None"
    and "rw_receipts s (pc_agentId c, pc_runId c) = None"
    and "\<forall>rq. keeps (undisturbed {pc_persistentPath c}) (ge_run env rq)"
    and "verifyAndFinalize env c s = (Inr f, s')" and "gr_decision (gf_receipt f) \<noteq> COMMITTED"
  shows "c_dirs s' (pc_persistentPath c) = Some B \<and> gf_summary f = toSummary (gf_receipt f) \<and>
    rw_receipts s' (pc_agentId c, pc_runId c) = Some (sanitizeReceipt (ge_storeSensitive env) (gf_receipt f))"
proof -
  have "ends env c B (verifyAndFinalize env c) s"
    by (rule ends_run [OF assms(1) _ _ assms(4)]) (use assms(2,3,5) in \<open>auto simp: untouched_def\<close>)
  with assms(6,7) show ?thesis by (auto simp: wp_def outcome_def stored_run_def)
qed

subsection \<open>Witnesses\<close>

lemma ex_placed: "well_placed ex_prepared"
  by (simp add: well_placed_def ex_cand_def ex_verify_def ex_ws_def contained_def starts_with_iff)

lemma ex_verifier_keeps: "\<forall>rq. keeps (undisturbed {pc_persistentPath ex_prepared}) (ge_run (ex_gate raw) rq)"
  by (simp add: stay.keeps_return)

theorem committed_run_verified_witness:
  "\<exists>f s' T. verifyAndFinalize (ex_gate [ex_raw]) ex_prepared ex_gate_world = (Inr f, s') \<and>
     gr_decision (gf_receipt f) = COMMITTED \<and> required_passed ex_check_policy (gr_checks (gf_receipt f)) \<and>
     gr_permitState (gf_receipt f) = Some CONSUMED \<and> c_dirs s' ex_ws = Some T \<and>
     c_dirs s' (gate_backup ex_prepared) = Some ex_old"
proof -
  from ex_promotes_run ex_starts obtain f s' where f: "verifyAndFinalize (ex_gate [ex_raw]) ex_prepared ex_gate_world = (Inr f, s')"
    "gr_decision (gf_receipt f) = COMMITTED" by auto
  from committed_run_verified [OF ex_placed _ _ _ ex_verifier_keeps f(1) refl f(2) refl, of ex_old]
  obtain T m where r: "required_passed ex_check_policy (gr_checks (gf_receipt f))" "gr_permitState (gf_receipt f) = Some CONSUMED"
    "c_dirs s' ex_ws = Some T" "c_dirs s' (gate_backup ex_prepared) = Some ex_old"
    by (auto simp: ex_differ ex_differ [symmetric])
  with f show ?thesis by blast
qed

theorem rejected_run_restores_witness:
  "\<exists>f s'. verifyAndFinalize (ex_gate []) ex_prepared ex_gate_world = (Inr f, s') \<and> gr_decision (gf_receipt f) = ABORTED \<and>
     c_dirs s' ex_ws = Some ex_old \<and> rw_receipts s' (''agent'', ''run'') = Some (sanitizeReceipt [] (gf_receipt f))"
proof -
  from ex_refuses_run obtain f s' where f: "verifyAndFinalize (ex_gate []) ex_prepared ex_gate_world = (Inr f, s')"
    "gr_decision (gf_receipt f) = ABORTED" by auto
  then have "gr_decision (gf_receipt f) \<noteq> COMMITTED" by simp
  from rejected_run_restores [OF ex_placed _ _ _ ex_verifier_keeps f(1) this, of ex_old] f show ?thesis
    by (auto simp: ex_differ ex_differ [symmetric])
qed

end
