(* ===== verification/Coordinator_Calls.thy ===== *)
theory Coordinator_Calls
  imports Coordinator_Settle Coordinator_Outcome
begin

text \<open>
  Two more facts of the coordinator: a prepared candidate lies where the runs expect it, and the
  attempt to claim a consumed permit again changes neither a permit nor a workspace, a journal, a
  receipt or a pending promotion.
\<close>

subsection \<open>Prepared candidates\<close>

lemma contained_below: "contained (root @ ''/'' @ name) p \<Longrightarrow> contained root p"
  by (auto simp: contained_def starts_with_iff)

lemma conflict_never: "conflict_discarding p msg s \<noteq> (Inr c, s')"
  by (auto simp: conflict_discarding_def eff_simps)

theorem prepared_placed:
  assumes "prepare env i s = (Inr c, s')"
  shows "well_placed c \<and> pc_runId c = pq_runId i \<and> pc_agentId c = pq_agentId i \<and>
    liveStateHash (pc_baseView c) = pc_baseSnapshotHash c"
proof -
  from assms obtain p ms s1 s2 where
    out: "\<not> contained (ge_controlRoot env) (pq_persistentPath i)"
    and last: "admit_candidate env i p (ge_controlRoot env @ ''/'' @ pq_agentId i @ ''/candidates/'' @ pq_runId i) ms s1 = (Inr c, s2)"
    by (auto simp: prepare_def Let_def eff_simps split: if_splits option.splits)
  from last obtain base v h where c: "c = prepared_from env i p h base v" and "liveStateHash v = sm_hash base"
    by (auto simp: admit_candidate_def eff_simps conflict_never split: prod.splits if_splits option.splits)
  moreover have "\<not> contained (ge_controlRoot env @ ''/'' @ pq_agentId i) (pq_persistentPath i)"
    using out contained_below by blast
  ultimately show ?thesis by (simp add: prepared_from_def well_placed_def Let_def)
qed

subsection \<open>A consumed permit\<close>

definition unspent :: "'r gate_world_scheme \<Rightarrow> 'r gate_world_scheme \<Rightarrow> bool" where
  "unspent s s' \<longleftrightarrow> gw_permits s' = gw_permits s \<and> c_dirs s' = c_dirs s \<and> c_journals s' = c_journals s \<and>
     rw_receipts s' = rw_receipts s \<and> gw_pending s' = gw_pending s"

interpretation idle: tx_frame unspent
  by unfold_locales (simp_all add: unspent_def)

lemma unspent_look: "keeps unspent look"
  by (rule idle.keeps_look)

lemma claim_of_spent:
  assumes "permit_get cp k st = (Inr p, st)" and "pp_state p \<noteq> ISSUED"
    and "cl_controlPath i = cp" and "cl_permitId i = k"
  shows "\<exists>e. permit_claim H le i now st = (Inl e, st)"
proof -
  obtain r t where claim: "claim_open H le i now st = (r, t)" by fastforce
  have "t = st"
  proof (rule ccontr)
    assume "t \<noteq> st"
    from claim_open_cases [OF claim this] assms show False
      by (auto simp: claimable_def permit_get_def read_permit_def mapErr_def eff_simps split: option.splits)
  qed
  moreover have "\<exists>e. r = Inl e" using claim claim_open_changes [of H le i now st _ t] \<open>t = st\<close> by (cases r) blast+
  ultimately show ?thesis using claim by (auto simp: permit_claim_def bindS_def)
qed

lemma wp_stored_permit:
  "wp (with_permits (permit_get cp k)) (\<lambda>p t. unspent s t \<and> permit_get cp k (gw_permits t) = (Inr p, gw_permits t))
     (\<lambda>_ t. unspent s t) s"
proof -
  have same: "snd (permit_get cp k st) = st" for st
    by (auto simp: permit_get_def read_permit_def bindS_def liftS_def split: sum.splits prod.splits option.splits)
  have "wp (\<lambda>s. case permit_get cp k (gw_permits s) of (r, p) \<Rightarrow> (mapErr PermitFault r, s\<lparr>gw_permits := p\<rparr>))
      (\<lambda>p t. unspent s0 t \<and> permit_get cp k (gw_permits t) = (Inr p, gw_permits t)) (\<lambda>_ t. unspent s0 t) t0"
    if "unspent s0 t0" for s0 t0 :: "'r gate_world_scheme"
  proof -
    obtain r where "permit_get cp k (gw_permits t0) = (r, gw_permits t0)" using same by (metis prod.collapse)
    then show ?thesis using that by (cases r) (auto simp: wp_def mapErr_def)
  qed
  then show ?thesis unfolding with_permits_def wp_bind
    by (intro wp_only_keeps [OF unspent_look]) auto
qed

lemma wp_replayed_claim:
  assumes "unspent s t" and "permit_get cp k (gw_permits t) = (Inr p, gw_permits t)" and "pp_state p \<noteq> ISSUED"
    and "cl_controlPath i = cp" and "cl_permitId i = k"
  shows "wp (with_permits (permit_claim H le i now)) (\<lambda>_ _. False) (\<lambda>_ t'. unspent s t') t"
  unfolding with_permits_def wp_bind
proof (rule wp_only_keeps [OF unspent_look])
  fix t' assume t': "unspent t t'"
  then have "permit_get cp k (gw_permits t') = (Inr p, gw_permits t')" using assms(2) by (simp add: unspent_def)
  from claim_of_spent [OF this assms(3-5)] obtain e where "permit_claim H le i now (gw_permits t') = (Inl e, gw_permits t')" by blast
  then show "wp (\<lambda>s. case permit_claim H le i now (gw_permits s) of (r, p) \<Rightarrow> (mapErr PermitFault r, s\<lparr>gw_permits := p\<rparr>))
      (\<lambda>_ _. False) (\<lambda>_ t'. unspent s t') t'"
    using idle.trans [OF assms(1) t'] by (simp add: wp_def mapErr_def)
qed (auto intro: idle.trans [OF assms(1)])

lemma unspent_receipt: "keeps unspent (receipt_get a r)"
  unfolding receipt_get_def by (intro idle.frame_intros)

lemma unspent_describe: "keeps unspent (seal_describe H le cp k)"
  unfolding seal_describe_def read_proposal_def read_manifest_def by (intro idle.frame_intros)

lemma unspent_event: "keeps unspent (appendPermitReplayEvent u now a r k v)"
  unfolding appendPermitReplayEvent_def listPermitReplayEvents_def Let_def
  by (intro idle.frame_intros idle.keeps_io) (simp_all add: unspent_def)

definition consumed_permit :: "string \<Rightarrow> string \<Rightarrow> 'r gate_world_scheme \<Rightarrow> bool" where
  "consumed_permit cp k s \<longleftrightarrow> (\<exists>p. permit_get cp k (gw_permits s) = (Inr p, gw_permits s) \<and> pp_state p = CONSUMED)"

lemma consumed_unspent: "unspent s t \<Longrightarrow> consumed_permit cp k t \<longleftrightarrow> consumed_permit cp k s"
  by (simp add: unspent_def consumed_permit_def)

lemma sum_case_intro: "(\<And>e. r = Inl e \<Longrightarrow> E e) \<Longrightarrow> (\<And>x. r = Inr x \<Longrightarrow> Q x) \<Longrightarrow> (case r of Inl e \<Rightarrow> E e | Inr x \<Rightarrow> Q x)"
  by (simp split: sum.split)

theorem replay_spends_nothing:
  assumes "attemptConsumedPermitReplay env i s = (r, s')"
  shows "unspent s s' \<and> (r = Inr () \<longrightarrow> consumed_permit (ge_controlRoot env @ ''/'' @ ri_replayAgentId i) (ri_replayPermitId i) s)"
proof -
  let ?cp = "ge_controlRoot env @ ''/'' @ ri_replayAgentId i" let ?k = "ri_replayPermitId i"
  let ?Q = "\<lambda>(_::unit) t. unspent s t \<and> consumed_permit ?cp ?k t" and ?E = "\<lambda>(_::tx_error) t. unspent s t"
  let ?claim = "\<lambda>d b. with_permits (permit_claim (ge_H env) (ge_le env) (replay_claim i ?cp d b) (ge_clock env))"
  let ?event = "appendPermitReplayEvent (ge_uuid env) (ge_now env) (ri_replayAgentId i) (ri_replayRunId i) ?k (ri_expectedCurrentViewId i)"
  note step = wp_only_keeps [where R = unspent]
  have event: "wp (bindS ?event (\<lambda>_. returnS ())) ?Q ?E t" if "unspent s t" "consumed_permit ?cp ?k t" for t
    unfolding wp_bind wp_return
    by (rule step [OF unspent_event]) (use that idle.trans [OF that(1)] consumed_unspent in blast)+
  have claim: "wp (tryS (?claim d b) (\<lambda>e. if is_replay e then bindS ?event (\<lambda>_. returnS ()) else throwS e)
      (\<lambda>_. tx_throw ''CONSUMED_PERMIT_UNEXPECTEDLY_RECLAIMED'')) ?Q ?E t"
    if t: "unspent s t" "consumed_permit ?cp ?k t" for d b t
  proof -
    from t(2) obtain p where p: "permit_get ?cp ?k (gw_permits t) = (Inr p, gw_permits t)" "pp_state p = CONSUMED"
      by (auto simp: consumed_permit_def)
    have "wp (?claim d b) (\<lambda>_ _. False) (\<lambda>_ t'. unspent t t') t"
      by (rule wp_replayed_claim [OF idle.refl p(1)]) (simp_all add: p(2) replay_claim_def split: prod.split)
    then show ?thesis unfolding wp_tryS
    proof (rule wp_mono, goal_cases)
      case (2 e t')
      then have "unspent s t'" "consumed_permit ?cp ?k t'" using t idle.trans [OF t(1)] consumed_unspent by blast+
      then show ?case using event [of t'] by (simp add: wp_throw)
    qed simp
  qed
  have describe: "wp (bindS (seal_describe (ge_H env) (ge_le env) ?cp (fst b)) (\<lambda>d. tryS (?claim d b)
      (\<lambda>e. if is_replay e then bindS ?event (\<lambda>_. returnS ()) else throwS e)
      (\<lambda>_. tx_throw ''CONSUMED_PERMIT_UNEXPECTEDLY_RECLAIMED''))) ?Q ?E t" if t: "unspent s t" "consumed_permit ?cp ?k t" for b t
    unfolding wp_bind
    by (rule step [OF unspent_describe]) (use t claim idle.trans [OF t(1)] consumed_unspent in blast)+
  have get: "wp (bindS (with_permits (permit_get ?cp ?k)) (\<lambda>persisted.
         if pp_state persisted \<noteq> CONSUMED then tx_throw ''PERMIT_NOT_TERMINALLY_CONSUMED''
         else bindS (seal_describe (ge_H env) (ge_le env) ?cp (fst b)) (\<lambda>d. tryS (?claim d b)
           (\<lambda>e. if is_replay e then bindS ?event (\<lambda>_. returnS ()) else throwS e)
           (\<lambda>_. tx_throw ''CONSUMED_PERMIT_UNEXPECTEDLY_RECLAIMED'')))) ?Q ?E t" if "unspent s t" for b t
    unfolding wp_bind [of "with_permits _"]
    by (rule wp_mono [OF wp_stored_permit])
      (use that idle.trans [OF that] describe in \<open>auto simp: wp_throw consumed_permit_def\<close>)
  have found: "wp (case b of None \<Rightarrow> tx_throw ''PERMIT_REPLAY_BINDINGS_UNAVAILABLE''
      | Some b \<Rightarrow> bindS (with_permits (permit_get ?cp ?k)) (\<lambda>persisted.
         if pp_state persisted \<noteq> CONSUMED then tx_throw ''PERMIT_NOT_TERMINALLY_CONSUMED''
         else bindS (seal_describe (ge_H env) (ge_le env) ?cp (fst b)) (\<lambda>d. tryS (?claim d b)
           (\<lambda>e. if is_replay e then bindS ?event (\<lambda>_. returnS ()) else throwS e)
           (\<lambda>_. tx_throw ''CONSUMED_PERMIT_UNEXPECTEDLY_RECLAIMED'')))) ?Q ?E t" if "unspent s t" for b t
    by (cases b) (simp_all only: option.case wp_throw that get)
  have "wp (attemptConsumedPermitReplay env i) ?Q ?E s"
    unfolding attemptConsumedPermitReplay_def Let_def wp_bind [of "liftS _"] wp_res wp_bind [of "receipt_get _ _"]
    by (intro sum_case_intro step [OF unspent_receipt] found) (simp_all only: idle.refl)
  with assms show ?thesis by (cases r) (auto simp: wp_def consumed_unspent)
qed

end
