(* ===== verification/Copy_Workspace.thy ===== *)
theory Copy_Workspace
  imports Workspace_Tx
begin

text \<open>
  Copying a workspace (\<^verbatim>\<open>copyWorkspace\<close> in \<^verbatim>\<open>commitgate/file-ops.ts\<close>): the entries of the
  chosen path classes are written below the destination, which is emptied first or not, with the
  modes of the source. New inodes belong to the process. What the system does when a directory or a
  file is written where the destination holds a link or a special file is the argument \<open>cp_linked\<close>.
  The source names are taken in the order of the tree; the code takes them in the English order, so
  of several errors it may throw another one first.
\<close>

record copy_env =
  cp_policy :: policy
  cp_uid :: int
  cp_gid :: int
  cp_linked :: "fs_node \<Rightarrow> fs_node \<Rightarrow> fs_node res"

definition new_stats :: "copy_env \<Rightarrow> int \<Rightarrow> nat \<Rightarrow> stats" where
  "new_stats env mode bytes = \<lparr>st_uid = cp_uid env, st_gid = cp_gid env, st_mode = mode, st_size = int bytes,
     st_nlink = 1, st_blocks = (int bytes + 511) div 512\<rparr>"

text \<open>\<^verbatim>\<open>mkdir(p, { recursive: true, mode: 0o700 })\<close>.\<close>

definition new_dir :: "copy_env \<Rightarrow> fs_node" where
  "new_dir env = FDir (new_stats env (16384 + 448) 0) []"

fun place_dir :: "copy_env \<Rightarrow> fs_node option \<Rightarrow> fs_node res" where
  "place_dir env None = Inr (new_dir env)"
| "place_dir env (Some (FDir s cs)) = Inr (FDir s cs)"
| "place_dir env (Some (FFile s b u)) = Inl (JsError ''EEXIST'')"
| "place_dir env (Some other) = cp_linked env other (new_dir env)"

text \<open>\<^verbatim>\<open>copyFile\<close> and \<^verbatim>\<open>chmod\<close>.\<close>

definition new_file :: "copy_env \<Rightarrow> int \<Rightarrow> string \<Rightarrow> fs_node" where
  "new_file env mode bytes = FFile (new_stats env (32768 + permission_bits mode) (length bytes)) bytes True"

fun place_file :: "copy_env \<Rightarrow> int \<Rightarrow> string \<Rightarrow> fs_node option \<Rightarrow> fs_node res" where
  "place_file env mode bytes None = Inr (new_file env mode bytes)"
| "place_file env mode bytes (Some (FFile s _ _)) =
     Inr (FFile (with_mode mode (s\<lparr>st_size := int (length bytes), st_blocks := (int (length bytes) + 511) div 512\<rparr>)) bytes True)"
| "place_file env mode bytes (Some (FDir s cs)) = Inl (JsError ''EISDIR'')"
| "place_file env mode bytes (Some other) = cp_linked env other (new_file env mode bytes)"

fun child_of :: "string \<Rightarrow> fs_node option \<Rightarrow> fs_node option" where
  "child_of name (Some (FDir s cs)) = map_of cs name"
| "child_of name _ = None"

fun put_child :: "string \<Rightarrow> fs_node \<Rightarrow> (string \<times> fs_node) list \<Rightarrow> (string \<times> fs_node) list" where
  "put_child name n [] = [(name, n)]"
| "put_child name n ((m, x) # cs) =
     (if name = m then (name, n) # cs
      else if name < m then (name, n) # (m, x) # cs
      else (m, x) # put_child name n cs)"

definition into_dir :: "copy_env \<Rightarrow> string \<Rightarrow> fs_node \<Rightarrow> fs_node option \<Rightarrow> fs_node res" where
  "into_dir env name n dst =
     bindE (place_dir env dst) (\<lambda>d. case d of
       FDir s cs \<Rightarrow> Inr (FDir s (put_child name n cs))
     | _ \<Rightarrow> Inl (JsError ''ENOTDIR''))"

fun chmod_node :: "int \<Rightarrow> fs_node \<Rightarrow> fs_node" where
  "chmod_node mode (FDir s cs) = FDir (with_mode mode s) cs"
| "chmod_node mode (FFile s b u) = FFile (with_mode mode s) b u"
| "chmod_node mode (FSpecial s) = FSpecial (with_mode mode s)"
| "chmod_node mode (FLink s t) = FLink s t"

text \<open>One entry of the walk: what is at its destination, before and after.\<close>

fun copy_node :: "copy_env \<Rightarrow> path_class list \<Rightarrow> string \<Rightarrow> fs_node \<Rightarrow> fs_node option \<Rightarrow> fs_node option res"
  and copy_list :: "copy_env \<Rightarrow> path_class list \<Rightarrow> string \<Rightarrow> (string \<times> fs_node) list \<Rightarrow> fs_node option \<Rightarrow> fs_node option res" where
  "copy_node env include relative (FDir s children) dst =
     bindE (classifyPath relative (cp_policy env)) (\<lambda>c.
     bindE (if c \<in> set include then bindE (place_dir env dst) (\<lambda>d. Inr (Some d)) else Inr dst) (\<lambda>d.
     bindE (if c \<noteq> IgnoredEphemeral \<or> IgnoredEphemeral \<in> set include
            then copy_list env include relative children d else Inr d) (\<lambda>d'.
     Inr (if c \<in> set include then map_option (chmod_node (permission_bits (st_mode s))) d' else d'))))"
| "copy_node env include relative (FFile s bytes u) dst =
     bindE (classifyPath relative (cp_policy env)) (\<lambda>c.
       if c \<in> set include then bindE (place_file env (permission_bits (st_mode s)) bytes dst) (\<lambda>n. Inr (Some n)) else Inr dst)"
| "copy_node env include relative (FLink s target) dst =
     bindE (classifyPath relative (cp_policy env)) (\<lambda>c.
       if c \<in> set include then Inr (Some (FLink (new_stats env 41471 (length target)) target)) else Inr dst)"
| "copy_node env include relative (FSpecial s) dst =
     bindE (classifyPath relative (cp_policy env)) (\<lambda>c. Inl (JsError (''SPECIAL_FILE:'' @ relative)))"
| "copy_list env include dir [] dst = Inr dst"
| "copy_list env include dir ((name, node) # rest) dst =
     bindE (copy_node env include (child_path dir name) node (child_of name dst)) (\<lambda>r.
     bindE (case r of None \<Rightarrow> Inr dst | Some n \<Rightarrow> bindE (into_dir env name n dst) (\<lambda>d. Inr (Some d)))
       (copy_list env include dir rest))"

definition copy_tree :: "copy_env \<Rightarrow> copy_fn" where
  "copy_tree env src dst include clean =
     bindE (place_dir env (if clean then None else dst)) (\<lambda>root.
       case src of
         FDir s children \<Rightarrow> bindE (copy_list env include [] children (Some root)) (\<lambda>d. Inr (case d of Some t \<Rightarrow> t | None \<Rightarrow> root))
       | _ \<Rightarrow> Inl (JsError ''ENOTDIR''))"

definition copyWorkspace :: "tx_env \<Rightarrow> copy_env \<Rightarrow> string \<Rightarrow> string \<Rightarrow> path_class list \<Rightarrow> bool \<Rightarrow> ('r, unit) tx" where
  "copyWorkspace te env src dst include clean =
     (if src = dst \<or> starts_with dst (src @ ''/'') then tx_throw ''Destination must not be inside source workspace''
      else copy_dir (te\<lparr>te_copy := copy_tree env\<rparr>) src dst include clean)"

subsection \<open>A clean copy has the same manifest\<close>

text \<open>A directory lists its names in order, and a file's size is the number of its bytes.\<close>

fun tidy :: "fs_node \<Rightarrow> bool" where
  "tidy (FDir s cs) \<longleftrightarrow> sorted_wrt (<) (map fst cs) \<and> list_all (\<lambda>(n, t). tidy t) cs"
| "tidy (FFile s b u) \<longleftrightarrow> st_size s = int (length b)"
| "tidy _ \<longleftrightarrow> True"

lemma put_child_last: "(\<forall>x \<in> set cs. fst x < name) \<Longrightarrow> put_child name n cs = cs @ [(name, n)]"
  by (induction cs) (auto dest: order.strict_implies_not_eq order.strict_implies_order order.asym)

lemma permission_with_mode: "permission_bits (st_mode (with_mode m s)) = permission_bits m"
  by (simp add: permission_bits_def with_mode_def)

lemma bits_of_bits [simp]: "permission_bits (permission_bits m) = permission_bits m"
  by (simp add: permission_bits_def)

lemma bits_of_new_file [simp]: "permission_bits (32768 + permission_bits m) = permission_bits m"
  using mod_mult_self1 [of "m mod 512" 64 512] by (simp add: permission_bits_def add.commute)

lemma new_stats_simps [simp]:
  "st_uid (new_stats ce m n) = cp_uid ce" "st_gid (new_stats ce m n) = cp_gid ce" "st_mode (new_stats ce m n) = m"
  "st_size (new_stats ce m n) = int n" "st_nlink (new_stats ce m n) = 1"
  by (simp_all add: new_stats_def)

lemma with_mode_owner [simp]: "st_uid (with_mode m s) = st_uid s" "st_gid (with_mode m s) = st_gid s"
  by (simp_all add: with_mode_def)

text \<open>The walk over the copy: the policy and the rest are the same, the root is the copied one.\<close>

definition copies :: "copy_env \<Rightarrow> walk_env \<Rightarrow> stats \<Rightarrow> bool" where
  "copies ce E r \<longleftrightarrow> cp_policy ce = we_policy E \<and> we_include E = authoritative \<and> st_uid r = cp_uid ce \<and> st_gid r = cp_gid ce"

lemma register_root [simp]: "registerAuthoritativePath (E\<lparr>we_root := r\<rparr>) = registerAuthoritativePath E"
  by (intro ext) (simp add: registerAuthoritativePath_def)

lemma copied_accepted:
  assumes "copies ce E r"
  shows "\<not> owner_differs (E\<lparr>we_root := r\<rparr>) (new_stats ce m n)" "\<not> owner_differs (E\<lparr>we_root := r\<rparr>) (with_mode k (new_stats ce m n))"
    "\<not> is_sparse (E\<lparr>we_root := r\<rparr>) (new_stats ce m n)"
  using assms by (auto simp: copies_def owner_differs_def is_sparse_def new_stats_def)

definition all_before :: "(string \<times> fs_node) list \<Rightarrow> (string \<times> fs_node) list \<Rightarrow> bool" where
  "all_before acc cs \<longleftrightarrow> (\<forall>x \<in> set acc. \<forall>y \<in> set cs. fst x < fst y)"

lemma into_last: "all_before acc ((name, t) # cs) \<Longrightarrow> into_dir ce name n (Some (FDir s acc)) = Inr (FDir s (acc @ [(name, n)]))"
  by (simp add: into_dir_def all_before_def put_child_last)

lemma nothing_there: "all_before acc ((name, t) # cs) \<Longrightarrow> child_of name (Some (FDir s acc)) = None"
  by (auto simp: all_before_def map_of_eq_None_iff)

lemma copy_walks:
  "walk_node E relative t a = Inr b \<Longrightarrow> tidy t \<Longrightarrow> copies ce E r \<Longrightarrow>
     \<exists>c. copy_node ce authoritative relative t None = Inr c \<and>
       (case c of None \<Rightarrow> b = a | Some t' \<Rightarrow> walk_node (E\<lparr>we_root := r\<rparr>) relative t' a = Inr b)"
  "walk_dir E dir cs a = Inr b \<Longrightarrow> sorted_wrt (<) (map fst cs) \<Longrightarrow> list_all (\<lambda>(n, t). tidy t) cs \<Longrightarrow> copies ce E r \<Longrightarrow>
     all_before acc cs \<Longrightarrow>
     \<exists>cs'. copy_list ce authoritative dir cs (Some (FDir s acc)) = Inr (Some (FDir s (acc @ cs'))) \<and>
       walk_dir (E\<lparr>we_root := r\<rparr>) dir cs' a = Inr b"
proof (induction E relative t a and E dir cs a arbitrary: b and b acc s rule: walk_node_walk_dir.induct)
  case (1 E relative st children a)
  then obtain c where c: "classifyPath relative (we_policy E) = Inr c" by (auto simp: bindE_eq_Inr)
  show ?case
  proof (cases "c = IgnoredEphemeral")
    case True
    then show ?thesis using 1(2,4) c by (simp add: copies_def)
  next
    case False
    then have inc: "c \<in> set (we_include E)" "c \<in> set authoritative" using 1(4) by (cases c; simp add: copies_def)+
    with 1(2) c obtain a1 where a1: "registerAuthoritativePath E relative a = Inr a1"
      "walk_dir E relative children (add_entry (dir_entry relative st c) a1) = Inr b"
      by (auto simp: bindE_eq_Inr split: if_splits)
    let ?n = "new_stats ce (16384 + 448) 0"
    have walks: "c \<noteq> IgnoredEphemeral \<or> IgnoredEphemeral \<in> set (we_include E)" using False by simp
    have tidy: "sorted_wrt (<) (map fst children)" "list_all (\<lambda>(n, t). tidy t) children" using 1(3) by simp_all
    have empty: "all_before [] children" by (simp add: all_before_def)
    have same: "\<not> (c \<in> set (we_include E) \<and> owner_differs E st)" using 1(2) c by (auto split: if_splits)
    from 1(1) [OF same walks a1(2) tidy 1(4) empty]
    have "\<exists>cs'. copy_list ce authoritative relative children (Some (FDir ?n [])) = Inr (Some (FDir ?n ([] @ cs'))) \<and>
        walk_dir (E\<lparr>we_root := r\<rparr>) relative cs' (add_entry (dir_entry relative st c) a1) = Inr b" .
    then obtain cs' where cs': "copy_list ce authoritative relative children (Some (FDir ?n [])) = Inr (Some (FDir ?n cs'))"
      "walk_dir (E\<lparr>we_root := r\<rparr>) relative cs' (add_entry (dir_entry relative st c) a1) = Inr b" by auto
    show ?thesis using inc c a1(1) cs' False 1(4) copied_accepted [OF 1(4)]
      by (simp add: copies_def new_dir_def dir_entry_def permission_with_mode)
  qed
next
  case (2 E relative st bytes u a)
  then obtain c where c: "classifyPath relative (we_policy E) = Inr c" by (auto simp: bindE_eq_Inr)
  show ?case
  proof (cases "c = IgnoredEphemeral")
    case True
    then show ?thesis using 2(1,3) c by (simp add: copies_def)
  next
    case False
    then have inc: "c \<in> set (we_include E)" "c \<in> set authoritative" using 2(3) by (cases c; simp add: copies_def)+
    with 2(1) c show ?thesis using 2(2,3) copied_accepted [OF 2(3)]
      by (auto simp: copies_def new_file_def file_entry_def bindE_eq_Inr sha256File_def split: if_splits)
  qed
next
  case (3 E relative st target a)
  then show ?case by (auto simp: bindE_eq_Inr copies_def split: if_splits)
next
  case (4 E relative st a)
  then show ?case by (auto simp: bindE_eq_Inr split: if_splits)
next
  case (5 E dir a)
  then show ?case by simp
next
  case (6 E dir name node rest a)
  from 6(3) obtain m where m: "walk_node E (child_path dir name) node a = Inr m" "walk_dir E dir rest m = Inr b"
    by (auto simp: bindE_eq_Inr)
  have tidy: "tidy node" "sorted_wrt (<) (map fst rest)" "list_all (\<lambda>(n, t). tidy t) rest" using 6(4,5) by simp_all
  from 6(1) [OF m(1) tidy(1) 6(6)] obtain c where c: "copy_node ce authoritative (child_path dir name) node None = Inr c"
    "case c of None \<Rightarrow> m = a | Some t' \<Rightarrow> walk_node (E\<lparr>we_root := r\<rparr>) (child_path dir name) t' a = Inr m" by blast
  note last = into_last [OF 6(7)] and there = nothing_there [OF 6(7)]
  show ?case
  proof (cases c)
    case None
    have "all_before acc rest" using 6(7) by (simp add: all_before_def)
    from 6(2) [OF m(2) tidy(2,3) 6(6) this] show ?thesis using c None there by simp
  next
    case (Some t')
    have "all_before (acc @ [(name, t')]) rest" using 6(4,7) by (auto simp: all_before_def)
    from 6(2) [OF m(2) tidy(2,3) 6(6) this] obtain cs' where
      "copy_list ce authoritative dir rest (Some (FDir s (acc @ [(name, t')]))) = Inr (Some (FDir s (acc @ (name, t') # cs')))"
      "walk_dir (E\<lparr>we_root := r\<rparr>) dir cs' m = Inr b" by auto
    then show ?thesis using c Some there last by (intro exI [of _ "(name, t') # cs'"]) simp
  qed
qed

text \<open>
  A clean copy of the authoritative part of a workspace has the workspace's manifest, entry by entry
  and so by its hash, whatever was at the destination: files and directories keep their bytes and
  permissions, ignored ones are left out, and the new inodes belong to one owner, are not shared and
  not sparse.
\<close>

theorem clean_copy_manifest:
  assumes "manifest_of te authoritative t = Inr m" and "tidy t" and "cp_policy ce = we_policy (te_walk te)"
  shows "\<exists>t'. copy_tree ce t dst authoritative True = Inr t' \<and> manifest_of te authoritative t' = Inr m"
proof -
  let ?E = "(te_walk te)\<lparr>we_include := authoritative\<rparr>" and ?r = "new_stats ce (16384 + 448) 0"
  from assms(1) obtain st children found paths where t: "t = FDir st children"
    and walk: "walk_dir (?E\<lparr>we_root := st\<rparr>) [] children ([], []) = Inr (found, paths)"
    and m: "m = \<lparr>sm_schemaVersion = 2, sm_entries = sort_key me_path found,
      sm_hash = hashManifestEntries (we_H (te_walk te)) (sort_key me_path found)\<rparr>"
    by (auto simp: manifest_of_def buildManifest_def bindE_eq_Inr Let_def split: fs_node.splits)
  have "copies ce (?E\<lparr>we_root := st\<rparr>) ?r" using assms(3) by (simp add: copies_def)
  from copy_walks(2) [OF walk _ _ this, of "[]" ?r] assms(2) obtain cs' where
    "copy_list ce authoritative [] children (Some (FDir ?r [])) = Inr (Some (FDir ?r cs'))"
    "walk_dir (?E\<lparr>we_root := ?r\<rparr>) [] cs' ([], []) = Inr (found, paths)"
    by (auto simp: t all_before_def)
  then show ?thesis by (simp add: t m copy_tree_def new_dir_def manifest_of_def buildManifest_def Let_def)
qed

theorem copied_workspace_manifest:
  assumes "copyWorkspace te ce src dst authoritative True s = (Inr (), s')"
    and "c_dirs s src = Some t" and "manifest_of te authoritative t = Inr m" and "tidy t" and "cp_policy ce = we_policy (te_walk te)"
  shows "\<exists>t'. c_dirs s' dst = Some t' \<and> manifest_of te authoritative t' = Inr m"
proof -
  from clean_copy_manifest [OF assms(3-5)] obtain t' where
    t': "copy_tree ce t (c_dirs s dst) authoritative True = Inr t'" "manifest_of te authoritative t' = Inr m" by blast
  then have "c_dirs s' dst = Some t'" using assms(1,2)
    by (cases "c_faults s"; cases "hd (c_faults s)")
      (auto simp: copyWorkspace_def copy_dir_def eff_simps io_def mapErr_def split: if_splits)
  with t'(2) show ?thesis by blast
qed

end
