(* ===== verification/Spec2Isabelle.thy ===== *)
theory Spec2Isabelle
  imports State_View Transition_Log Receipt_Props Projection_Effects Lifecycle_Ledger Candidate_Props Worker_Gate Permit_Props Outbox_Props Recovery_Props Coordinator_Props Coordinator_Calls Copy_Workspace
begin

text \<open>
  CommitGate Authority lets a coding agent work on a copy of a workspace and decides whether the
  result becomes the workspace. All paths below are under \<^verbatim>\<open>src/apps/server/src/\<close>.

  The parts, and the theories that model them. \<^verbatim>\<open>Js_Json\<close> has JSON values, their text and
  the hash argument the digests rest on; \<^verbatim>\<open>State_View\<close> (\<^verbatim>\<open>state-view.ts\<close>) the identity
  of a base state. \<^verbatim>\<open>Hash_Chain\<close> and \<^verbatim>\<open>Transition_Log\<close> (\<^verbatim>\<open>transition-log.ts\<close>) are the
  append-only event log of an agent. \<^verbatim>\<open>Projection\<close> (\<^verbatim>\<open>transition-worker/projection.ts\<close>)
  replays that log into heads, proposals, evidence, permits, versions and receipts, one
  definition per event type; \<^verbatim>\<open>Projection_Facts\<close>, \<^verbatim>\<open>_Machine\<close>, \<^verbatim>\<open>_Trace\<close>,
  \<^verbatim>\<open>_Props\<close> and \<^verbatim>\<open>_Effects\<close> hold its invariants, the traces an accepted history must
  have and the properties. \<^verbatim>\<open>Receipt_Proof\<close>, \<^verbatim>\<open>_Facts\<close> and \<^verbatim>\<open>_Props\<close>
  (\<^verbatim>\<open>research/receipt-proof.ts\<close>) sign and verify the receipt of a finished transition.

  The gate's parts: \<^verbatim>\<open>Protocol\<close> (\<^verbatim>\<open>commitgate/protocol.ts\<close>, \<^verbatim>\<open>file-ops.ts\<close>),
  \<^verbatim>\<open>Policy\<close> (\<^verbatim>\<open>commitgate/policy.ts\<close>), \<^verbatim>\<open>Manifest\<close> (\<^verbatim>\<open>commitgate/manifest.ts\<close>),
  \<^verbatim>\<open>Candidate_Checks\<close> (\<^verbatim>\<open>validators.ts\<close>, \<^verbatim>\<open>resource-budget.ts\<close>, \<^verbatim>\<open>effect-proof.ts\<close>),
  \<^verbatim>\<open>Worker_Gate\<close> (\<^verbatim>\<open>worker-gate-policy.ts\<close>), the permit stores in \<^verbatim>\<open>Permit_Store\<close>
  and \<^verbatim>\<open>Rollback_Store\<close>, whose one-shot contract is the locale of \<^verbatim>\<open>One_Shot\<close>, the
  broker's \<^verbatim>\<open>Lifecycle_Ledger\<close> and the effect outbox in \<^verbatim>\<open>Outbox\<close>
  (\<^verbatim>\<open>research/effect-outbox.ts\<close>) with its life-cycle contract in \<^verbatim>\<open>Outbox_Facts\<close>.

  Files and crashes. \<^verbatim>\<open>Crash\<close> has the files the gate owns: directories by path, journals by
  path, and the list of what becomes of the coming inputs and outputs, each of which works, throws, or
  is the last before the process stops, leaving any half-written directory; an empty list means that all
  work. It has the assertions over such runs (\<open>wp\<close>) and the locale of frame conditions. On it rest
  \<^verbatim>\<open>Workspace_Tx\<close> (\<^verbatim>\<open>workspace-transaction.ts\<close>, the payload check of
  \<^verbatim>\<open>sealed-proposal-store.ts\<close>) with \<^verbatim>\<open>Tx_Facts\<close> and \<^verbatim>\<open>Tx_Props\<close>, which follow a
  promotion through every stop; \<^verbatim>\<open>Copy_Workspace\<close> (\<^verbatim>\<open>copyWorkspace\<close> of \<^verbatim>\<open>file-ops.ts\<close>, a
  parameter elsewhere), whose clean copies have the manifest of their source; \<^verbatim>\<open>Version_Store\<close>
  (\<^verbatim>\<open>version-store.ts\<close>) with its invariant and retention in \<^verbatim>\<open>Version_Facts\<close>, \<^verbatim>\<open>_Props\<close>,
  \<^verbatim>\<open>_Ops\<close> and \<^verbatim>\<open>_Calls\<close>; \<^verbatim>\<open>Redaction\<close>, \<^verbatim>\<open>Receipt_Store\<close>,
  \<^verbatim>\<open>Receipt_Store_Facts\<close> and \<^verbatim>\<open>Receipt_Calls\<close> (\<^verbatim>\<open>receipt-store.ts\<close>): terminal receipts stay, no
  stored one holds a secret; \<^verbatim>\<open>Recovery\<close> (\<^verbatim>\<open>recovery.ts\<close>) with \<^verbatim>\<open>_Facts\<close>, \<^verbatim>\<open>_Runs\<close>
  and \<^verbatim>\<open>_Props\<close>: what a restart makes of every journal; and \<^verbatim>\<open>Proposal_Store\<close>
  (\<^verbatim>\<open>sealed-proposal-store.ts\<close>).

  The coordinator (\<^verbatim>\<open>commitgate/coordinator.ts\<close>) composes them. \<^verbatim>\<open>Gate_Checks\<close> reads the
  verifier's results, \<^verbatim>\<open>Coordinator\<close> prepares a candidate and makes contexts, receipts and
  summaries, \<^verbatim>\<open>Coordinator_Runs\<close> is \<^verbatim>\<open>verifyAndFinalize\<close> step by step with every early return,
  \<^verbatim>\<open>Coordinator_Settle\<close> what follows a run (acknowledging, rolling back, dispositions, admission
  failures, the replay of a consumed permit). \<^verbatim>\<open>Coordinator_Facts\<close>, \<^verbatim>\<open>_Outcome\<close> and
  \<^verbatim>\<open>_Ends\<close> walk through a run from its last step to its first, \<^verbatim>\<open>Coordinator_Example\<close> and
  \<^verbatim>\<open>Coordinator_Props\<close> run one gate to its two ends and state what a committed and a rejected run
  leave, \<^verbatim>\<open>Coordinator_Calls\<close> where a prepared candidate lies and what a replay leaves alone.

  How code becomes definitions. A function that may throw returns a sum; an operation on a store
  is a state transformer that keeps what was written before a throw (\<^verbatim>\<open>Effects\<close>). Operations
  that the code queues are atomic steps; where a queue admits other work in between, an operation
  is several steps. Loops are recursions on data, or on a measure that the code decreases; there is no
  fuel. A crash keeps the files and forgets the process. The SHA-256 function, the signature scheme,
  the English collation, Unicode folding tables, clocks, UUIDs, adapter and verifier results are
  arguments: nothing is assumed of the hash, and a fact that rests on it names the very texts that
  would have to collide. Texts are byte lists; path patterns and the cut of a redacted text are exact
  for ASCII. Numbers of parsed JSON are integers, and so are check durations. Receipts are compared as
  records where the code compares their JSON text. A permit file is read or written as a whole.

  Not modelled: the worker's command handlers and file system calls
  (\<^verbatim>\<open>transition-worker/worker.ts\<close>, \<^verbatim>\<open>filesystem.ts\<close>), the variant of the coordinator that
  hands its inputs to a transition authority, the HTTP and SQL product layer, process and container
  launch, the web client and the scripts; the manifest of the development lists them one by one.
\<close>

end
